(* ===== verification/Go_Strings.thy ===== *)
theory Go_Strings
  imports Prelude
begin

text \<open>
  The functions of Go's \<open>strings\<close> package that cube20 uses, on byte strings
  (\<open>string\<close> is a list of bytes, as a Go string is). \<open>TrimSpace\<close> strips every
  Unicode white-space character in its UTF-8 encoding; \<open>ToLower\<close> and
  \<open>EqualFold\<close> fold the ASCII letters and leave other bytes alone.
\<close>

section \<open>Prefixes, suffixes, substrings\<close>

definition has_prefix :: "string \<Rightarrow> string \<Rightarrow> bool" where
  "has_prefix s p \<longleftrightarrow> take (length p) s = p"

definition trim_prefix :: "string \<Rightarrow> string \<Rightarrow> string" where
  "trim_prefix s p = (if has_prefix s p then drop (length p) s else s)"

definition has_suffix :: "string \<Rightarrow> string \<Rightarrow> bool" where
  "has_suffix s p \<longleftrightarrow> has_prefix (rev s) (rev p)"

fun index_of :: "string \<Rightarrow> string \<Rightarrow> nat option" where
  "index_of s p =
     (if has_prefix s p then Some 0
      else (case s of [] \<Rightarrow> None | _ # s' \<Rightarrow> map_option Suc (index_of s' p)))"

declare index_of.simps [simp del]

definition contains_sub :: "string \<Rightarrow> string \<Rightarrow> bool" where
  "contains_sub s p \<longleftrightarrow> index_of s p \<noteq> None"

lemma has_prefix_append [simp]: "has_prefix (p @ s) p"
  by (simp add: has_prefix_def)

lemma has_prefix_iff: "has_prefix s p \<longleftrightarrow> (\<exists>t. s = p @ t)"
  unfolding has_prefix_def by (metis append_eq_conv_conj append_take_drop_id)

lemma has_prefix_Nil [simp]: "has_prefix s []"
  by (simp add: has_prefix_def)

lemma has_prefix_trans: "has_prefix t p \<Longrightarrow> has_prefix s t \<Longrightarrow> has_prefix s p"
  by (auto simp: has_prefix_iff)

lemma trim_prefix_append [simp]: "trim_prefix (p @ s) p = s"
  by (simp add: trim_prefix_def)

section \<open>TrimSpace\<close>

definition ws_seqs :: "string list" where
  "ws_seqs =
     [[CHR 0x20], [CHR 0x09], [CHR 0x0A], [CHR 0x0B], [CHR 0x0C], [CHR 0x0D],
      [CHR 0xC2, CHR 0x85], [CHR 0xC2, CHR 0xA0], [CHR 0xE1, CHR 0x9A, CHR 0x80],
      [CHR 0xE2, CHR 0x80, CHR 0x80], [CHR 0xE2, CHR 0x80, CHR 0x81],
      [CHR 0xE2, CHR 0x80, CHR 0x82], [CHR 0xE2, CHR 0x80, CHR 0x83],
      [CHR 0xE2, CHR 0x80, CHR 0x84], [CHR 0xE2, CHR 0x80, CHR 0x85],
      [CHR 0xE2, CHR 0x80, CHR 0x86], [CHR 0xE2, CHR 0x80, CHR 0x87],
      [CHR 0xE2, CHR 0x80, CHR 0x88], [CHR 0xE2, CHR 0x80, CHR 0x89],
      [CHR 0xE2, CHR 0x80, CHR 0x8A], [CHR 0xE2, CHR 0x80, CHR 0xA8],
      [CHR 0xE2, CHR 0x80, CHR 0xA9], [CHR 0xE2, CHR 0x80, CHR 0xAF],
      [CHR 0xE2, CHR 0x81, CHR 0x9F], [CHR 0xE3, CHR 0x80, CHR 0x80]]"

definition seq_len :: "string list \<Rightarrow> string \<Rightarrow> nat" where
  "seq_len seqs s = (case find (has_prefix s) seqs of None \<Rightarrow> 0 | Some w \<Rightarrow> length w)"

function trim_front :: "string list \<Rightarrow> string \<Rightarrow> string" where
  "trim_front seqs s =
     (if s = [] \<or> seq_len seqs s = 0 then s else trim_front seqs (drop (seq_len seqs s) s))"
  by pat_completeness auto
termination
  by (relation "measure (\<lambda>(seqs, s). length s)") auto

declare trim_front.simps [simp del]

definition trim_space :: "string \<Rightarrow> string" where
  "trim_space s = rev (trim_front (map rev ws_seqs) (rev (trim_front ws_seqs s)))"

definition blank :: "string \<Rightarrow> bool" where
  "blank s \<longleftrightarrow> trim_space s = []"

lemma trim_front_Nil [simp]: "trim_front seqs [] = []"
  by (simp add: trim_front.simps)

lemma trim_front_suffix: "\<exists>p. s = p @ trim_front seqs s \<and> set p \<subseteq> \<Union> (set ` set seqs)"
proof (induction seqs s rule: trim_front.induct)
  case (1 seqs s)
  show ?case
  proof (cases "s = [] \<or> seq_len seqs s = 0")
    case True
    then have "trim_front seqs s = s" by (simp add: trim_front.simps [of seqs s])
    then show ?thesis by (intro exI [of _ "[]"]) simp
  next
    case False
    let ?n = "seq_len seqs s"
    from False obtain w where w: "find (has_prefix s) seqs = Some w" "?n = length w"
      by (auto simp: seq_len_def split: option.splits)
    then have w': "w \<in> set seqs" "take ?n s = w"
      using find_SomeD [OF w(1)] by (auto simp: has_prefix_def)
    from "1.IH" [OF False] obtain p where p:
      "drop ?n s = p @ trim_front seqs (drop ?n s)" "set p \<subseteq> \<Union> (set ` set seqs)" by auto
    have "trim_front seqs s = trim_front seqs (drop ?n s)"
      using False by (simp add: trim_front.simps [of seqs s])
    with p(1) w'(2) have "s = (w @ p) @ trim_front seqs s"
      by (metis append_assoc append_take_drop_id)
    moreover have "set (w @ p) \<subseteq> \<Union> (set ` set seqs)"
      using p(2) w'(1) by auto
    ultimately show ?thesis by blast
  qed
qed

lemma trim_front_stops: "trim_front seqs s \<noteq> [] \<Longrightarrow> seq_len seqs (trim_front seqs s) = 0"
proof (induction seqs s rule: trim_front.induct)
  case (1 seqs s)
  then show ?case
    by (cases "s = [] \<or> seq_len seqs s = 0")
      (auto simp: trim_front.simps [of seqs s])
qed

lemma trim_front_id: "seq_len seqs s = 0 \<Longrightarrow> trim_front seqs s = s"
  by (simp add: trim_front.simps)

lemma seq_len_0_iff:
  "[] \<notin> set seqs \<Longrightarrow> seq_len seqs s = 0 \<longleftrightarrow> (\<forall>w \<in> set seqs. \<not> has_prefix s w)"
  by (force simp: seq_len_def find_None_iff split: option.splits dest: find_SomeD)

lemma ws_seqs_nonempty [simp]: "[] \<notin> set ws_seqs" "[] \<notin> set (map rev ws_seqs)"
  by (simp_all add: ws_seqs_def)

lemma seq_len_prefix:
  "[] \<notin> set seqs \<Longrightarrow> seq_len seqs s = 0 \<Longrightarrow> has_prefix s t \<Longrightarrow> seq_len seqs t = 0"
  by (auto simp: seq_len_0_iff dest: has_prefix_trans)

lemma seq_len_Nil [simp]: "[] \<notin> set seqs \<Longrightarrow> seq_len seqs [] = 0"
  by (auto simp: seq_len_0_iff has_prefix_def)

lemma trim_front_seq_len [simp]: "[] \<notin> set seqs \<Longrightarrow> seq_len seqs (trim_front seqs s) = 0"
  by (cases "trim_front seqs s = []") (simp_all add: trim_front_stops)

lemma trim_space_prefix: "has_prefix (trim_front ws_seqs s) (trim_space s)"
proof -
  obtain p where "rev (trim_front ws_seqs s) =
      p @ trim_front (map rev ws_seqs) (rev (trim_front ws_seqs s))"
    using trim_front_suffix by blast
  then have "trim_front ws_seqs s =
      rev (trim_front (map rev ws_seqs) (rev (trim_front ws_seqs s))) @ rev p"
    by (metis rev_append rev_rev_ident)
  then show ?thesis
    unfolding trim_space_def has_prefix_iff by blast
qed

lemma trim_space_front: "seq_len ws_seqs (trim_space s) = 0"
  by (rule seq_len_prefix [OF _ _ trim_space_prefix]) simp_all

lemma trim_space_back: "seq_len (map rev ws_seqs) (rev (trim_space s)) = 0"
  by (simp only: trim_space_def rev_rev_ident trim_front_seq_len [OF ws_seqs_nonempty(2)])

lemma trim_space_idI:
  "seq_len ws_seqs s = 0 \<Longrightarrow> seq_len (map rev ws_seqs) (rev s) = 0 \<Longrightarrow> trim_space s = s"
  by (simp add: trim_space_def trim_front_id)

lemma trim_space_idem [simp, go_string]: "trim_space (trim_space s) = trim_space s"
  by (rule trim_space_idI) (simp_all add: trim_space_front trim_space_back)

lemma trim_space_Nil [simp, go_string]: "trim_space [] = []"
  by (simp add: trim_space_def)

lemma blank_Nil [simp]: "blank []"
  by (simp add: blank_def)

lemma blank_trim_space [simp]: "blank (trim_space s) \<longleftrightarrow> blank s"
  by (simp add: blank_def)

definition ws_bytes :: "char list" where
  "ws_bytes = concat ws_seqs"

lemma set_ws_bytes: "set ws_bytes = \<Union> (set ` set ws_seqs)"
  by (simp add: ws_bytes_def)

lemma trim_front_keeps:
  "c \<in> set s \<Longrightarrow> c \<notin> \<Union> (set ` set seqs) \<Longrightarrow> c \<in> set (trim_front seqs s)"
  by (metis UnE set_append subsetD trim_front_suffix)

lemma trim_space_keeps: "c \<in> set s \<Longrightarrow> c \<notin> set ws_bytes \<Longrightarrow> c \<in> set (trim_space s)"
  unfolding trim_space_def set_ws_bytes
  by (simp, rule trim_front_keeps) (auto intro: trim_front_keeps)

lemma not_blank_if: "c \<in> set s \<Longrightarrow> c \<notin> set ws_bytes \<Longrightarrow> \<not> blank s"
  unfolding blank_def using trim_space_keeps by fastforce

lemma seq_len_hd:
  "[] \<notin> set seqs \<Longrightarrow> s \<noteq> [] \<Longrightarrow> hd s \<notin> \<Union> (set ` set seqs) \<Longrightarrow> seq_len seqs s = 0"
  unfolding seq_len_0_iff has_prefix_iff
  by (metis (no_types, lifting) UN_I hd_append2 hd_in_set)

lemma trim_space_id_hd_last:
  assumes "s \<noteq> []" "hd s \<notin> set ws_bytes" "last s \<notin> set ws_bytes"
  shows "trim_space s = s"
proof (rule trim_space_idI)
  show "seq_len ws_seqs s = 0"
    by (rule seq_len_hd) (use assms in \<open>auto simp: set_ws_bytes\<close>)
  show "seq_len (map rev ws_seqs) (rev s) = 0"
    by (rule seq_len_hd) (use assms in \<open>auto simp: set_ws_bytes hd_rev\<close>)
qed

lemma trim_space_subset: "set (trim_space s) \<subseteq> set s"
proof -
  have "set (trim_front seqs t) \<subseteq> set t" for seqs t
    by (metis Un_upper2 set_append trim_front_suffix)
  then show ?thesis
    unfolding trim_space_def by (metis set_rev subset_trans)
qed

section \<open>Case folding\<close>

definition is_lower :: "char \<Rightarrow> bool" where
  "is_lower c \<longleftrightarrow> 97 \<le> (of_char c :: nat) \<and> (of_char c :: nat) \<le> 122"

definition is_upper :: "char \<Rightarrow> bool" where
  "is_upper c \<longleftrightarrow> 65 \<le> (of_char c :: nat) \<and> (of_char c :: nat) \<le> 90"

definition is_digit :: "char \<Rightarrow> bool" where
  "is_digit c \<longleftrightarrow> 48 \<le> (of_char c :: nat) \<and> (of_char c :: nat) \<le> 57"

definition is_alnum :: "char \<Rightarrow> bool" where
  "is_alnum c \<longleftrightarrow> is_lower c \<or> is_upper c \<or> is_digit c"

definition lower_char :: "char \<Rightarrow> char" where
  "lower_char c = (if is_upper c then char_of ((of_char c :: nat) + 32) else c)"

definition to_lower :: "string \<Rightarrow> string" where
  "to_lower s = map lower_char s"

definition equal_fold :: "string \<Rightarrow> string \<Rightarrow> bool" where
  "equal_fold a b \<longleftrightarrow> to_lower a = to_lower b"

lemma lower_char_not_upper: "\<not> is_upper (lower_char c)"
proof (cases "is_upper c")
  case True
  then have "of_char (char_of ((of_char c :: nat) + 32)) = (of_char c :: nat) + 32"
    by (simp add: of_char_of is_upper_def)
  with True show ?thesis by (simp add: lower_char_def is_upper_def)
next
  case False
  then show ?thesis by (simp add: lower_char_def)
qed

lemma lower_char_idem [simp]: "lower_char (lower_char c) = lower_char c"
  using lower_char_not_upper [of c] by (simp add: lower_char_def [of "lower_char c"])

lemma to_lower_idem [simp, go_string]: "to_lower (to_lower s) = to_lower s"
  by (simp add: to_lower_def comp_def)

lemma equal_fold_refl [simp]: "equal_fold s s"
  by (simp add: equal_fold_def)

text \<open>Trimming commutes with a change of letters.\<close>

lemma map_eq_fixed:
  fixes f :: "char \<Rightarrow> char"
  assumes "\<And>c d. d \<in> D \<Longrightarrow> f c = d \<longleftrightarrow> c = d"
  shows "set w \<subseteq> D \<Longrightarrow> map f s = w \<longleftrightarrow> s = w"
proof (induction s arbitrary: w)
  case (Cons c s)
  then show ?case
  proof (cases w)
    case (Cons d w')
    with Cons.prems Cons.IH [of w'] assms [of d c] show ?thesis by simp
  qed simp
qed auto

lemma seq_len_map:
  fixes f :: "char \<Rightarrow> char"
  assumes "\<And>c d. d \<in> \<Union> (set ` set seqs) \<Longrightarrow> f c = d \<longleftrightarrow> c = d"
  shows "seq_len seqs (map f s) = seq_len seqs s"
proof -
  have "has_prefix (map f s) w \<longleftrightarrow> has_prefix s w" if "w \<in> set seqs" for w
    unfolding has_prefix_def take_map length_map
    by (rule map_eq_fixed [OF assms]) (use that in blast)+
  then have "find (has_prefix (map f s)) seqs = find (has_prefix s) seqs"
    by (rule find_cong_set)
  then show ?thesis by (simp add: seq_len_def)
qed

lemma trim_front_map:
  fixes f :: "char \<Rightarrow> char"
  assumes "\<And>c d. d \<in> \<Union> (set ` set seqs) \<Longrightarrow> f c = d \<longleftrightarrow> c = d"
  shows "trim_front seqs (map f s) = map f (trim_front seqs s)"
proof (induction "length s" arbitrary: s rule: less_induct)
  case less
  have eq: "seq_len seqs (map f s) = seq_len seqs s"
    by (rule seq_len_map) (rule assms)
  show ?case
  proof (cases "s = [] \<or> seq_len seqs s = 0")
    case True
    then show ?thesis using eq
      by (auto simp: trim_front.simps [of seqs s] trim_front.simps [of seqs "map f s"])
  next
    case False
    then have "trim_front seqs (map f (drop (seq_len seqs s) s))
        = map f (trim_front seqs (drop (seq_len seqs s) s))"
      by (intro less) simp
    with False eq show ?thesis
      by (simp add: trim_front.simps [of seqs s] trim_front.simps [of seqs "map f s"] drop_map)
  qed
qed

lemma lower_char_ws: "d \<in> set ws_bytes \<Longrightarrow> lower_char c = d \<longleftrightarrow> c = d"
proof -
  assume d: "d \<in> set ws_bytes"
  then have "\<not> is_lower d" "\<not> is_upper d"
    by (auto simp: ws_bytes_def ws_seqs_def is_lower_def is_upper_def)
  moreover have "is_lower (lower_char c)" if "is_upper c"
  proof -
    have "of_char (char_of ((of_char c :: nat) + 32)) = (of_char c :: nat) + 32"
      using that by (simp add: of_char_of is_upper_def)
    with that show ?thesis by (simp add: lower_char_def is_lower_def is_upper_def)
  qed
  ultimately show ?thesis by (auto simp: lower_char_def)
qed

lemma trim_space_to_lower: "trim_space (to_lower s) = to_lower (trim_space s)"
proof -
  have "trim_front ws_seqs (map lower_char t) = map lower_char (trim_front ws_seqs t)"
    and "trim_front (map rev ws_seqs) (map lower_char t) = map lower_char (trim_front (map rev ws_seqs) t)"
    for t
    by (rule trim_front_map, use lower_char_ws set_ws_bytes in auto)+
  then show ?thesis by (simp add: trim_space_def to_lower_def rev_map)
qed

section \<open>Trim with a cut set, Split\<close>

definition trim_cutset :: "(char \<Rightarrow> bool) \<Rightarrow> string \<Rightarrow> string" where
  "trim_cutset p s = rev (dropWhile p (rev (dropWhile p s)))"

fun split_at :: "char \<Rightarrow> string \<Rightarrow> string list" where
  "split_at d [] = [[]]"
| "split_at d (c # s) =
     (if c = d then [] # split_at d s
      else (case split_at d s of [] \<Rightarrow> [[c]] | w # ws \<Rightarrow> (c # w) # ws))"

lemma split_at_nonempty [simp]: "split_at d s \<noteq> []"
  by (induction s) (auto split: list.splits)

fun join_with :: "char \<Rightarrow> string list \<Rightarrow> string" where
  "join_with d [] = []"
| "join_with d [w] = w"
| "join_with d (w # v # ws) = w @ d # join_with d (v # ws)"

lemma join_with_Cons: "join_with d (w # ws) = w @ (if ws = [] then [] else d # join_with d ws)"
  by (cases ws) simp_all

lemma join_split: "join_with d (split_at d s) = s"
  by (induction s) (auto simp: join_with_Cons split: list.splits)

lemma trim_cutset_hd: "trim_cutset p s \<noteq> [] \<Longrightarrow> \<not> p (hd (trim_cutset p s))"
proof -
  let ?t = "dropWhile p s"
  assume ne: "trim_cutset p s \<noteq> []"
  have "rev ?t = takeWhile p (rev ?t) @ dropWhile p (rev ?t)" by simp
  then have "?t = trim_cutset p s @ rev (takeWhile p (rev ?t))"
    unfolding trim_cutset_def by (metis rev_append rev_rev_ident)
  then have "hd ?t = hd (trim_cutset p s)" and "?t \<noteq> []"
    using ne by (metis hd_append2, metis append_is_Nil_conv)
  then show ?thesis using hd_dropWhile [of p s] by simp
qed

lemma trim_cutset_last: "trim_cutset p s \<noteq> [] \<Longrightarrow> \<not> p (last (trim_cutset p s))"
  unfolding trim_cutset_def by (metis hd_dropWhile last_rev rev_is_Nil_conv)

lemma trim_cutset_subset: "set (trim_cutset p s) \<subseteq> set s"
  unfolding trim_cutset_def by (auto dest!: set_dropWhileD)

lemma trim_cutset_length: "length (trim_cutset p s) \<le> length s"
  unfolding trim_cutset_def by (metis length_dropWhile_le length_rev le_trans)

section \<open>fmt: decimal numbers\<close>

fun show_nat :: "nat \<Rightarrow> string" where
  "show_nat n =
     (if n < 10 then [char_of (48 + n)] else show_nat (n div 10) @ [char_of (48 + n mod 10)])"

declare show_nat.simps [simp del]

lemma show_nat_nonempty [simp]: "show_nat n \<noteq> []"
  by (subst show_nat.simps) simp

fun read_nat :: "string \<Rightarrow> nat \<Rightarrow> nat" where
  "read_nat [] acc = acc"
| "read_nat (c # cs) acc = read_nat cs (10 * acc + ((of_char c :: nat) - 48))"

lemma read_nat_append: "read_nat (a @ b) acc = read_nat b (read_nat a acc)"
  by (induction a arbitrary: acc) auto

lemma read_show_nat: "read_nat (show_nat n) 0 = n"
proof (induction n rule: show_nat.induct)
  case (1 n)
  have digit: "(of_char (char_of (48 + d :: nat)) :: nat) - 48 = d" if "d < 10" for d :: nat
    using that by (simp add: of_char_of)
  show ?case
  proof (cases "n < 10")
    case True
    then show ?thesis using digit [of n] by (simp add: show_nat.simps [of n])
  next
    case False
    with "1.IH" show ?thesis
      using digit [of "n mod 10"] by (simp add: show_nat.simps [of n] read_nat_append)
  qed
qed

lemma show_nat_inject [simp]: "show_nat m = show_nat n \<longleftrightarrow> m = n"
  by (metis read_show_nat)

end
