(* ===== verification/Go_Time.thy ===== *)
theory Go_Time
  imports Go_Strings
begin

text \<open>
  \<open>time.Unix\<close>, \<open>Time.Format(time.RFC3339)\<close> and \<open>time.Parse(time.RFC3339)\<close> on the
  proleptic Gregorian calendar, in UTC. A year and a month are found by counting
  up from an estimate, so that the number of days they start at is at hand when
  the round trip is proved. \<open>Parse\<close> takes the RFC 3339 grammar; the forms Go also
  lets through (a one-digit hour, a comma before the fraction) are errors here.
\<close>

section \<open>The calendar\<close>

definition leap_year :: "nat \<Rightarrow> bool" where
  "leap_year y \<longleftrightarrow> y mod 4 = 0 \<and> (y mod 100 \<noteq> 0 \<or> y mod 400 = 0)"

text \<open>Days from January 1 of year 1 to January 1 of year \<open>y\<close>.\<close>

definition days_before_year :: "nat \<Rightarrow> nat" where
  "days_before_year y =
     (let p = y - 1 in 365 * p + p div 4 - p div 100 + p div 400)"

definition days_in_month :: "bool \<Rightarrow> nat \<Rightarrow> nat" where
  "days_in_month leap m =
     (if m = 2 then (if leap then 29 else 28)
      else if m = 4 \<or> m = 6 \<or> m = 9 \<or> m = 11 then 30 else 31)"

fun days_before_month :: "bool \<Rightarrow> nat \<Rightarrow> nat" where
  "days_before_month leap 0 = 0"
| "days_before_month leap (Suc m) =
     (if m = 0 then 0 else days_before_month leap m + days_in_month leap m)"

function year_from :: "nat \<Rightarrow> nat \<Rightarrow> nat" where
  "year_from d y =
     (if y \<le> d \<and> days_before_year (Suc y) \<le> d then year_from d (Suc y) else y)"
  by pat_completeness auto
termination
  by (relation "measure (\<lambda>(d, y). Suc d - y)") auto

declare year_from.simps [simp del]

definition year_of_day :: "nat \<Rightarrow> nat" where
  "year_of_day d = year_from d (d div 366 + 1)"

fun month_from :: "bool \<Rightarrow> nat \<Rightarrow> nat \<Rightarrow> nat \<Rightarrow> nat" where
  "month_from leap 0 d m = m"
| "month_from leap (Suc k) d m =
     (if days_before_month leap (Suc m) \<le> d then month_from leap k d (Suc m) else m)"

definition month_of_day :: "bool \<Rightarrow> nat \<Rightarrow> nat" where
  "month_of_day leap d = month_from leap 11 d 1"

lemma days_before_year_ge: "365 * (y - 1) \<le> days_before_year y"
proof -
  have "(y - 1) div 100 \<le> (y - 1) div 4" by (rule div_le_mono2) simp_all
  then show ?thesis unfolding days_before_year_def Let_def by linarith
qed

lemma days_before_year_estimate: "days_before_year (d div 366 + 1) \<le> d"
proof -
  let ?p = "d div 366"
  have "?p div 4 + ?p div 400 \<le> ?p" by linarith
  then have "365 * ?p + ?p div 4 - ?p div 100 + ?p div 400 \<le> 366 * ?p" by linarith
  also have "\<dots> \<le> d" by simp
  finally show ?thesis
    by (simp only: days_before_year_def Let_def add_diff_cancel_right')
qed

lemma year_from_le: "days_before_year y \<le> d \<Longrightarrow> days_before_year (year_from d y) \<le> d"
proof (induction d y rule: year_from.induct)
  case (1 d y)
  then show ?case by (subst year_from.simps) auto
qed

lemma year_from_greatest: "1 \<le> y \<Longrightarrow> d < days_before_year (Suc (year_from d y))"
proof (induction d y rule: year_from.induct)
  case (1 d y)
  show ?case
  proof (cases "y \<le> d \<and> days_before_year (Suc y) \<le> d")
    case True
    with 1 show ?thesis by (subst year_from.simps) simp
  next
    case False
    have "year_from d y = y" by (subst year_from.simps, rule if_not_P, rule False)
    moreover have "d < days_before_year (Suc y)"
    proof (cases "y \<le> d")
      case True
      with False show ?thesis by simp
    next
      case neg: False
      with "1.prems" days_before_year_ge [of "Suc y"] show ?thesis by simp
    qed
    ultimately show ?thesis by simp
  qed
qed

lemma year_of_day_bounds:
  "days_before_year (year_of_day d) \<le> d \<and> d < days_before_year (Suc (year_of_day d))"
  unfolding year_of_day_def
  by (simp add: year_from_greatest year_from_le days_before_year_estimate [simplified])

lemma year_from_pos: "1 \<le> y \<Longrightarrow> 1 \<le> year_from d y"
proof (induction d y rule: year_from.induct)
  case (1 d y)
  then show ?case by (subst year_from.simps) auto
qed

lemma year_of_day_pos: "1 \<le> year_of_day d"
  unfolding year_of_day_def by (rule year_from_pos) simp

lemma leap_count:
  fixes a b e p :: nat
  assumes "b \<le> a" "c400 \<longrightarrow> c100" "c100 \<longrightarrow> c4"
  shows "365 * Suc p + (a + of_bool c4) - (b + of_bool c100) + (e + of_bool c400)
    = 365 * p + a - b + e + (if c4 \<and> (\<not> c100 \<or> c400) then 366 else 365)"
  using assms by (cases c4; cases c100; cases c400) auto

lemma div_Suc_of_bool: "0 < k \<Longrightarrow> Suc p div k = p div k + of_bool (Suc p mod k = 0)"
  by (simp add: div_Suc)

lemma days_in_year:
  assumes "1 \<le> y"
  shows "days_before_year (Suc y) = days_before_year y + (if leap_year y then 366 else 365)"
proof -
  obtain p where y: "y = Suc p" using assms by (cases y) auto
  have dvd: "Suc p mod 400 = 0 \<longrightarrow> Suc p mod 100 = 0" "Suc p mod 100 = 0 \<longrightarrow> Suc p mod 4 = 0"
    by (presburger, presburger)
  have le: "p div 100 \<le> p div 4" by (rule div_le_mono2) simp_all
  have "days_before_year (Suc y) = 365 * Suc p + (p div 4 + of_bool (Suc p mod 4 = 0))
      - (p div 100 + of_bool (Suc p mod 100 = 0)) + (p div 400 + of_bool (Suc p mod 400 = 0))"
    unfolding y days_before_year_def Let_def diff_Suc_1
    by (simp only: div_Suc_of_bool [of 4] div_Suc_of_bool [of 100] div_Suc_of_bool [of 400]
        zero_less_numeral)
  also have "\<dots> = 365 * p + p div 4 - p div 100 + p div 400
      + (if Suc p mod 4 = 0 \<and> (\<not> Suc p mod 100 = 0 \<or> Suc p mod 400 = 0) then 366 else 365)"
    by (rule leap_count [OF le dvd])
  finally show ?thesis
    unfolding y days_before_year_def leap_year_def Let_def diff_Suc_1 .
qed

text \<open>The twelve months, and December's end is the year's.\<close>

lemma days_before_month_table:
  "days_before_month l 1 = 0" "days_before_month l 2 = 31"
  "days_before_month l 3 = (if l then 60 else 59)" "days_before_month l 4 = (if l then 91 else 90)"
  "days_before_month l 5 = (if l then 121 else 120)" "days_before_month l 6 = (if l then 152 else 151)"
  "days_before_month l 7 = (if l then 182 else 181)" "days_before_month l 8 = (if l then 213 else 212)"
  "days_before_month l 9 = (if l then 244 else 243)" "days_before_month l 10 = (if l then 274 else 273)"
  "days_before_month l 11 = (if l then 305 else 304)" "days_before_month l 12 = (if l then 335 else 334)"
  "days_before_month l 13 = (if l then 366 else 365)"
  by (simp_all add: days_in_month_def numeral_nat)

lemma month_from_bounds:
  "1 \<le> m \<Longrightarrow> days_before_month l m \<le> d \<Longrightarrow> d < days_before_month l (Suc (m + k)) \<Longrightarrow>
   let r = month_from l k d m in
     m \<le> r \<and> r \<le> m + k \<and> days_before_month l r \<le> d \<and> d < days_before_month l (Suc r)"
proof (induction k arbitrary: m)
  case 0
  then show ?case by simp
next
  case (Suc k)
  show ?case
  proof (cases "days_before_month l (Suc m) \<le> d")
    case True
    from Suc.IH [of "Suc m"] Suc.prems True show ?thesis
      by (simp add: Let_def del: days_before_month.simps)
  next
    case False
    with Suc.prems show ?thesis by (simp add: Let_def del: days_before_month.simps)
  qed
qed

lemma month_of_day_bounds:
  assumes "d < (if l then 366 else 365)"
  shows "1 \<le> month_of_day l d \<and> month_of_day l d \<le> 12
    \<and> days_before_month l (month_of_day l d) \<le> d
    \<and> d < days_before_month l (month_of_day l d) + days_in_month l (month_of_day l d)"
proof -
  have "d < days_before_month l (Suc (1 + 11))"
    using assms days_before_month_table(13) [of l] by (simp del: days_before_month.simps)
  from month_from_bounds [of 1 l d 11, OF _ _ this]
  show ?thesis
    by (simp add: month_of_day_def Let_def days_before_month.simps(2) split: if_splits)
qed

section \<open>Format\<close>

definition pad_nat :: "nat \<Rightarrow> nat \<Rightarrow> string" where
  "pad_nat w n = (let s = show_nat n in replicate (w - length s) (CHR ''0'') @ s)"

definition days_of_time :: "time \<Rightarrow> nat" where
  "days_of_time t = nat (t div day)"

definition format_rfc3339 :: "time \<Rightarrow> string" where
  "format_rfc3339 t =
     (let d = days_of_time t; s = nat ((t mod day) div second);
          y = year_of_day d; l = leap_year y; yd = d - days_before_year y;
          m = month_of_day l yd; dom = yd - days_before_month l m + 1
      in pad_nat 4 y @ ''-'' @ pad_nat 2 m @ ''-'' @ pad_nat 2 dom @ ''T''
         @ pad_nat 2 (s div 3600) @ '':'' @ pad_nat 2 (s div 60 mod 60) @ '':''
         @ pad_nat 2 (s mod 60) @ ''Z'')"

section \<open>Parse\<close>

definition parse_digits :: "nat \<Rightarrow> string \<Rightarrow> nat option" where
  "parse_digits w s =
     (if length s = w \<and> list_all is_digit s then Some (read_nat s 0) else None)"

text \<open>The fraction of a second: any number of digits, read to nine places.\<close>

definition parse_fraction :: "string \<Rightarrow> (int \<times> string) option" where
  "parse_fraction s =
     (if has_prefix s ''.'' then
        (let ds = takeWhile is_digit (tl s) in
         if ds = [] then None
         else Some (int (read_nat (take 9 (ds @ replicate 9 (CHR ''0''))) 0), dropWhile is_digit (tl s)))
      else Some (0, s))"

definition parse_zone :: "string \<Rightarrow> int option" where
  "parse_zone s =
     (if s = ''Z'' then Some 0
      else if length s = 6 \<and> (s ! 0 = CHR ''+'' \<or> s ! 0 = CHR ''-'') \<and> s ! 3 = CHR '':'' then
        (case (parse_digits 2 (take 2 (drop 1 s)), parse_digits 2 (drop 4 s)) of
           (Some h, Some m) \<Rightarrow>
             if h \<le> 24 \<and> m \<le> 60
             then Some ((if s ! 0 = CHR ''-'' then -1 else 1) * (int h * hour + int m * minute))
             else None
         | _ \<Rightarrow> None)
      else None)"

definition time_of_civil :: "nat \<Rightarrow> nat \<Rightarrow> nat \<Rightarrow> nat \<Rightarrow> nat \<Rightarrow> nat \<Rightarrow> time" where
  "time_of_civil y m d hh mm ss =
     ((if y = 0 then - 366 else int (days_before_year y))
      + int (days_before_month (leap_year y) m + (d - 1))) * day
     + int hh * hour + int mm * minute + int ss * second"

definition parse_time :: "string \<Rightarrow> time option" where
  "parse_time s =
     (if length s < 20 \<or> s ! 4 \<noteq> CHR ''-'' \<or> s ! 7 \<noteq> CHR ''-'' \<or> s ! 10 \<noteq> CHR ''T''
         \<or> s ! 13 \<noteq> CHR '':'' \<or> s ! 16 \<noteq> CHR '':'' then None
      else
        (case (parse_digits 4 (take 4 s), parse_digits 2 (take 2 (drop 5 s)),
               parse_digits 2 (take 2 (drop 8 s))) of
           (Some y, Some m, Some d) \<Rightarrow>
             (case (parse_digits 2 (take 2 (drop 11 s)), parse_digits 2 (take 2 (drop 14 s)),
                    parse_digits 2 (take 2 (drop 17 s))) of
                (Some hh, Some mm, Some ss) \<Rightarrow>
                  if m < 1 \<or> 12 < m \<or> d < 1 \<or> days_in_month (leap_year y) m < d
                     \<or> 23 < hh \<or> 59 < mm \<or> 59 < ss then None
                  else
                    (case parse_fraction (drop 19 s) of
                       None \<Rightarrow> None
                     | Some (nanos, rest) \<Rightarrow>
                         (case parse_zone rest of
                            None \<Rightarrow> None
                          | Some off \<Rightarrow> Some (time_of_civil y m d hh mm ss + nanos - off)))
              | _ \<Rightarrow> None)
         | _ \<Rightarrow> None))"

text \<open>\<open>time.Unix(sec, 0)\<close>: the epoch is 719162 days after the zero time.\<close>

definition unix_epoch :: time where
  "unix_epoch = int (days_before_year 1970) * day"

definition unix_time :: "int \<Rightarrow> time" where
  "unix_time sec = unix_epoch + sec * second"

section \<open>Round trip\<close>

lemma of_char_digit: "n < 10 \<Longrightarrow> of_char (char_of (48 + n :: nat)) = 48 + n"
  by (simp add: of_char_of)

lemma is_digit_show: "list_all is_digit (show_nat n)"
proof (induction n rule: show_nat.induct)
  case (1 n)
  show ?case
  proof (cases "n < 10")
    case True
    then show ?thesis by (simp add: show_nat.simps [of n] is_digit_def of_char_digit)
  next
    case False
    with "1.IH" show ?thesis
      by (simp add: show_nat.simps [of n] is_digit_def of_char_digit)
  qed
qed

lemma length_show_nat: "n < 10 ^ w \<Longrightarrow> 0 < w \<Longrightarrow> length (show_nat n) \<le> w"
proof (induction w arbitrary: n)
  case 0
  then show ?case by simp
next
  case (Suc w)
  show ?case
  proof (cases "n < 10")
    case True
    then show ?thesis by (simp add: show_nat.simps [of n])
  next
    case False
    with Suc.prems have w: "0 < w" by (cases w) auto
    from Suc.prems have "n div 10 < 10 ^ w" by auto
    with Suc.IH [OF this w] False show ?thesis by (simp add: show_nat.simps [of n])
  qed
qed

lemma read_zeros: "read_nat (replicate k (CHR ''0'') @ s) 0 = read_nat s 0"
  by (induction k) simp_all

lemma list_all_replicate: "list_all is_digit (replicate k (CHR ''0''))"
  by (induction k) (simp_all add: is_digit_def)

lemma length_pad_nat: "n < 10 ^ w \<Longrightarrow> 0 < w \<Longrightarrow> length (pad_nat w n) = w"
  using length_show_nat [of n w] by (simp add: pad_nat_def Let_def)

lemma parse_pad_nat: "n < 10 ^ w \<Longrightarrow> 0 < w \<Longrightarrow> parse_digits w (pad_nat w n) = Some n"
  using length_pad_nat [of n w]
  by (simp add: parse_digits_def pad_nat_def Let_def is_digit_show read_zeros read_show_nat
      list_all_replicate)

lemma list_of_length2: "length s = 2 \<Longrightarrow> \<exists>a b. s = [a, b]"
  by (auto simp: length_Suc_conv numeral_eq_Suc)

lemma list_of_length4: "length s = 4 \<Longrightarrow> \<exists>a b c d. s = [a, b, c, d]"
  by (auto simp: length_Suc_conv numeral_eq_Suc)

lemma parse_civil:
  assumes "parse_digits 4 a = Some y" "parse_digits 2 b = Some m" "parse_digits 2 c = Some d"
    "parse_digits 2 e = Some hh" "parse_digits 2 f = Some mm" "parse_digits 2 g = Some ss"
    and "1 \<le> m" "m \<le> 12" "1 \<le> d" "d \<le> days_in_month (leap_year y) m"
    and "hh \<le> 23" "mm \<le> 59" "ss \<le> 59"
  shows "parse_time (a @ ''-'' @ b @ ''-'' @ c @ ''T'' @ e @ '':'' @ f @ '':'' @ g @ ''Z'')
    = Some (time_of_civil y m d hh mm ss)"
proof -
  have len: "length a = 4" "length b = 2" "length c = 2" "length e = 2" "length f = 2" "length g = 2"
    using assms(1-6) by (auto simp: parse_digits_def split: if_splits)
  obtain a1 a2 a3 a4 where a: "a = [a1, a2, a3, a4]" using list_of_length4 [OF len(1)] by blast
  obtain b1 b2 where b: "b = [b1, b2]" using list_of_length2 [OF len(2)] by blast
  obtain c1 c2 where c: "c = [c1, c2]" using list_of_length2 [OF len(3)] by blast
  obtain e1 e2 where e: "e = [e1, e2]" using list_of_length2 [OF len(4)] by blast
  obtain f1 f2 where f: "f = [f1, f2]" using list_of_length2 [OF len(5)] by blast
  obtain g1 g2 where g: "g = [g1, g2]" using list_of_length2 [OF len(6)] by blast
  show ?thesis
    using assms unfolding a b c e f g
    by (simp add: parse_time_def parse_fraction_def parse_zone_def has_prefix_def not_less)
qed

lemma civil_split:
  fixes t :: time
  assumes "0 \<le> t"
  shows "t div day * day + int (nat ((t mod day) div second) div 3600) * hour
    + int (nat ((t mod day) div second) div 60 mod 60) * minute
    + int (nat ((t mod day) div second) mod 60) * second = t - t mod second"
proof -
  define r where "r = t mod day"
  define s where "s = r div second"
  have "0 \<le> r" by (simp add: r_def duration_defs)
  then have s: "0 \<le> s" by (simp add: s_def duration_defs)
  have "s div 3600 = s div 60 div 60" by (simp add: zdiv_zmult2_eq [symmetric])
  then have "s div 3600 * 3600 + s div 60 mod 60 * 60 + s mod 60 = s"
    using div_mult_mod_eq [of s 60] div_mult_mod_eq [of "s div 60" 60] by linarith
  then have A: "s div 3600 * hour + (s div 60 mod 60 * minute + s mod 60 * second) = s * second"
    unfolding duration_defs by (simp add: algebra_simps)
  have B: "s * second = r - r mod second"
    by (simp add: s_def minus_mod_eq_div_mult [symmetric])
  have C: "r mod second = t mod second"
    by (simp add: r_def duration_defs mod_mod_cancel)
  have D: "t div day * day + r = t" by (simp add: r_def)
  have N: "int (nat s div 3600) = s div 3600" "int (nat s div 60 mod 60) = s div 60 mod 60"
    "int (nat s mod 60) = s mod 60"
    using s by (simp_all add: zdiv_int zmod_int)
  show ?thesis
    unfolding r_def [symmetric] s_def [symmetric]
    by (simp only: N add.assoc A B C add_diff_eq D)
qed

lemma time_of_day_bounds:
  "nat ((t mod day) div second) div 3600 \<le> 23"
  "nat ((t mod day) div second) div 60 mod 60 \<le> 59"
  "nat ((t mod day) div second) mod 60 \<le> 59"
proof -
  have "t mod day < 86400 * second" by (simp add: duration_defs)
  then have "(t mod day) div second < 86400" by (simp add: duration_defs)
  then have "nat ((t mod day) div second) < 86400" by simp
  then show "nat ((t mod day) div second) div 3600 \<le> 23" by linarith
qed simp_all

lemma parse_format:
  assumes "0 \<le> t" "year_of_day (days_of_time t) \<le> 9999"
  shows "parse_time (format_rfc3339 t) = Some (t - t mod second)"
proof -
  define d where "d = days_of_time t"
  define y where "y = year_of_day d"
  define l where "l = leap_year y"
  define yd where "yd = d - days_before_year y"
  define m where "m = month_of_day l yd"
  define k where "k = yd - days_before_month l m"
  have y1: "1 \<le> y" unfolding y_def by (rule year_of_day_pos)
  have dy: "days_before_year y \<le> d" "d < days_before_year (Suc y)"
    using year_of_day_bounds [of d] by (simp_all add: y_def)
  have "yd < (if l then 366 else 365)"
    using dy days_in_year [OF y1] by (simp add: yd_def l_def split: if_splits)
  from month_of_day_bounds [OF this]
  have m: "1 \<le> m" "m \<le> 12" "days_before_month l m \<le> yd" "k < days_in_month l m"
    by (auto simp: m_def k_def)
  have dm: "days_in_month l m \<le> 31" by (simp add: days_in_month_def)
  have day: "int d = t div day"
    using assms(1) by (simp add: d_def days_of_time_def duration_defs)
  have dd: "days_before_year y + (days_before_month l m + k) = d"
    using dy(1) m(3) by (simp add: k_def yd_def)
  have "parse_time (format_rfc3339 t) =
      Some (time_of_civil y m (k + 1) (nat ((t mod day) div second) div 3600)
        (nat ((t mod day) div second) div 60 mod 60) (nat ((t mod day) div second) mod 60))"
    unfolding format_rfc3339_def Let_def d_def [symmetric] y_def [symmetric]
      l_def [symmetric] yd_def [symmetric] m_def [symmetric] k_def [symmetric]
    by (rule parse_civil; (rule parse_pad_nat)?)
      (use assms(2) m dm time_of_day_bounds [of t] in
        \<open>auto simp: l_def [symmetric] y_def [symmetric] d_def [symmetric]\<close>)
  moreover have "time_of_civil y m (k + 1) (nat ((t mod day) div second) div 3600)
      (nat ((t mod day) div second) div 60 mod 60) (nat ((t mod day) div second) mod 60)
      = t - t mod second"
  proof -
    have "int (days_before_year y) + int (days_before_month l m + k) = t div day"
      using dd day by linarith
    then show ?thesis
      using y1 civil_split [OF assms(1)]
      by (simp add: time_of_civil_def l_def [symmetric])
  qed
  ultimately show ?thesis by simp
qed

lemma parse_format_second:
  "0 \<le> t \<Longrightarrow> year_of_day (days_of_time t) \<le> 9999 \<Longrightarrow> t mod second = 0 \<Longrightarrow>
   parse_time (format_rfc3339 t) = Some t"
  by (simp add: parse_format)

end
