(* ===== verification/Model.thy ===== *)
theory Model
  imports Go_Time
begin

text \<open>
  The data of cube20: the structs of \<open>internal/manager/manager.go\<close>,
  \<open>internal/quota/codex.go\<close>, \<open>internal/usage/codex.go\<close> and
  \<open>internal/manager/usage_events.go\<close>, one record each with the source's field
  names behind a short prefix. A string type with declared constants
  (\<open>AccountStatus\<close>, \<open>AccountOwnerMode\<close>, ...) is a datatype with those constants
  and one constructor for any other text, which such a Go value can hold. A
  \<open>*time.Time\<close> is an optional time, a Go map an association list.
\<close>

section \<open>Enumerations\<close>

datatype AccountStatus =
  StatusReady | StatusRecovering | StatusDrain | StatusDisabled | StatusOther string

datatype AccountOwnerMode = OwnerCloud | OwnerClient | OwnerOther string

datatype QuotaSource = QuotaSourceCloud | QuotaSourceClient | QuotaSourceOther string

datatype WorkspaceRole = RoleAdmin | RoleMember | RoleOther string

datatype QuotaStatus =
  StatusSupported | StatusUnsupported | StatusNotConfigured | StatusRefreshInvalid
| StatusError | QuotaStatusOther string

text \<open>The empty text of each of them, which the code writes as \<open>""\<close>.\<close>

abbreviation NoStatus :: AccountStatus where "NoStatus \<equiv> StatusOther []"
abbreviation NoOwner :: AccountOwnerMode where "NoOwner \<equiv> OwnerOther []"
abbreviation NoSource :: QuotaSource where "NoSource \<equiv> QuotaSourceOther []"
abbreviation NoQuota :: QuotaStatus where "NoQuota \<equiv> QuotaStatusOther []"

fun status_text :: "AccountStatus \<Rightarrow> string" where
  "status_text StatusReady = ''ready''"
| "status_text StatusRecovering = ''recovering''"
| "status_text StatusDrain = ''drain''"
| "status_text StatusDisabled = ''disabled''"
| "status_text (StatusOther s) = s"

definition status_of_text :: "string \<Rightarrow> AccountStatus" where
  "status_of_text s =
     (if s = ''ready'' then StatusReady else if s = ''recovering'' then StatusRecovering
      else if s = ''drain'' then StatusDrain else if s = ''disabled'' then StatusDisabled
      else StatusOther s)"

fun owner_text :: "AccountOwnerMode \<Rightarrow> string" where
  "owner_text OwnerCloud = ''cloud''"
| "owner_text OwnerClient = ''client''"
| "owner_text (OwnerOther s) = s"

definition owner_of_text :: "string \<Rightarrow> AccountOwnerMode" where
  "owner_of_text s =
     (if s = ''cloud'' then OwnerCloud else if s = ''client'' then OwnerClient else OwnerOther s)"

fun source_text :: "QuotaSource \<Rightarrow> string" where
  "source_text QuotaSourceCloud = ''cloud''"
| "source_text QuotaSourceClient = ''client''"
| "source_text (QuotaSourceOther s) = s"

definition source_of_text :: "string \<Rightarrow> QuotaSource" where
  "source_of_text s =
     (if s = ''cloud'' then QuotaSourceCloud else if s = ''client'' then QuotaSourceClient
      else QuotaSourceOther s)"

fun role_text :: "WorkspaceRole \<Rightarrow> string" where
  "role_text RoleAdmin = ''admin''"
| "role_text RoleMember = ''member''"
| "role_text (RoleOther s) = s"

definition role_of_text :: "string \<Rightarrow> WorkspaceRole" where
  "role_of_text s =
     (if s = ''admin'' then RoleAdmin else if s = ''member'' then RoleMember else RoleOther s)"

fun quota_status_text :: "QuotaStatus \<Rightarrow> string" where
  "quota_status_text StatusSupported = ''supported''"
| "quota_status_text StatusUnsupported = ''unsupported_api_key''"
| "quota_status_text StatusNotConfigured = ''not_configured''"
| "quota_status_text StatusRefreshInvalid = ''refresh_token_invalidated''"
| "quota_status_text StatusError = ''error''"
| "quota_status_text (QuotaStatusOther s) = s"

lemma text_round_trips [simp, go_enum]:
  "status_text (status_of_text s) = s" "owner_text (owner_of_text s) = s"
  "source_text (source_of_text s) = s" "role_text (role_of_text s) = s"
  by (simp_all add: status_of_text_def owner_of_text_def source_of_text_def role_of_text_def)

fun validAccountStatus :: "AccountStatus \<Rightarrow> bool" where
  "validAccountStatus (StatusOther _) = False"
| "validAccountStatus _ = True"

fun validOwnerMode :: "AccountOwnerMode \<Rightarrow> bool" where
  "validOwnerMode (OwnerOther _) = False"
| "validOwnerMode _ = True"

fun validWorkspaceRole :: "WorkspaceRole \<Rightarrow> bool" where
  "validWorkspaceRole (RoleOther _) = False"
| "validWorkspaceRole _ = True"

lemma validAccountStatus_iff [go_enum]:
  "validAccountStatus s \<longleftrightarrow> s \<in> {StatusReady, StatusRecovering, StatusDrain, StatusDisabled}"
  by (cases s) auto

lemma validOwnerMode_iff [go_enum]: "validOwnerMode m \<longleftrightarrow> m = OwnerCloud \<or> m = OwnerClient"
  by (cases m) auto

lemma validWorkspaceRole_iff [go_enum]: "validWorkspaceRole r \<longleftrightarrow> r = RoleAdmin \<or> r = RoleMember"
  by (cases r) auto

section \<open>JSON values and credential files\<close>

text \<open>
  A decoded JSON document (\<open>any\<close> after \<open>json.Unmarshal\<close>); numbers are float64.
  A \<open>json.RawMessage\<close> or an \<open>auth.json\<close> is either a text that is not JSON or the
  document it encodes: two encodings of one document are the same \<open>content\<close>, which
  is what \<open>prettyJSON\<close> makes of them.
\<close>

datatype json =
  JNull | JBool bool | JNum rat | JStr string | JArr "json list" | JObj "(string \<times> json) list"

datatype content = NotJson string | Doc json

fun json_field :: "json \<Rightarrow> string \<Rightarrow> json option" where
  "json_field (JObj kvs) k = map_of kvs k"
| "json_field _ k = None"

fun json_str :: "json option \<Rightarrow> string option" where
  "json_str (Some (JStr s)) = Some s"
| "json_str _ = None"

fun json_obj :: "json option \<Rightarrow> json option" where
  "json_obj (Some (JObj kvs)) = Some (JObj kvs)"
| "json_obj _ = None"

section \<open>Quota (internal/quota/codex.go)\<close>

record Window =
  win_Key :: string
  win_Label :: string
  win_UsedPercent :: percent
  win_RemainingPercent :: percent
  win_ResetsAt :: string
  win_UsedDisplay :: string
  win_RemainingDisplay :: string
  win_Stale :: bool

record Result =
  res_Status :: QuotaStatus
  res_Plan :: string
  res_Account :: string
  res_Source :: string
  res_Detail :: string
  res_Quotas :: "Window list"

definition zero_Result :: Result where
  "zero_Result = \<lparr>res_Status = NoQuota, res_Plan = [], res_Account = [], res_Source = [],
     res_Detail = [], res_Quotas = []\<rparr>"

section \<open>Usage (internal/usage/codex.go)\<close>

type_synonym int64 = "64 word"

record Tokens =
  tok_Input :: int64
  tok_CachedInput :: int64
  tok_Output :: int64
  tok_Total :: int64

definition zero_Tokens :: Tokens where
  "zero_Tokens = \<lparr>tok_Input = 0, tok_CachedInput = 0, tok_Output = 0, tok_Total = 0\<rparr>"

record ModelUsage =
  mu_Model :: string
  mu_Today :: Tokens
  mu_SevenDays :: Tokens
  mu_AllTime :: Tokens
  mu_LatestAt :: string

record Summary =
  sum_Status :: string
  sum_Detail :: string
  sum_FilesScanned :: nat
  sum_Events :: nat
  sum_Today :: Tokens
  sum_SevenDays :: Tokens
  sum_AllTime :: Tokens
  sum_LatestAt :: string
  sum_LatestModel :: string
  sum_Models :: "ModelUsage list"
  sum_buckets :: "(string \<times> ModelUsage) list"

section \<open>The account pool (internal/manager/manager.go)\<close>

record Account =
  acc_ID :: string
  acc_Label :: string
  acc_Plan :: string
  acc_Status :: AccountStatus
  acc_CodexHome :: string
  acc_WorkspaceID :: string
  acc_OwnerMode :: AccountOwnerMode
  acc_OwnerClientID :: string
  acc_Generation :: int
  acc_LeaseID :: string
  acc_LeaseClientID :: string
  acc_LeaseHolder :: string
  acc_LeaseStartedAt :: time
  acc_LeaseHeartbeatAt :: time
  acc_LeaseExpiresAt :: time
  acc_CreatedAt :: time
  acc_UpdatedAt :: time
  acc_LastError :: string

record AccountView =
  av_Account :: Account
  av_AuthPresent :: bool
  av_AuthPath :: string
  av_AuthUpdated :: time
  av_ConfigPresent :: bool
  av_ConfigPath :: string
  av_ConfigUpdated :: time
  av_Active :: bool
  av_LeaseActive :: bool

record Lease =
  lse_ID :: string
  lse_AccountID :: string
  lse_ClientID :: string
  lse_Holder :: string
  lse_Generation :: int
  lse_StartedAt :: time
  lse_HeartbeatAt :: time
  lse_ExpiresAt :: time

record Client =
  cli_ID :: string
  cli_UserID :: string
  cli_Label :: string
  cli_TokenHash :: string
  cli_CreatedAt :: time
  cli_LastSeenAt :: time
  cli_RevokedAt :: "time option"

record User =
  usr_ID :: string
  usr_Username :: string
  usr_PasswordHash :: string
  usr_CreatedAt :: time
  usr_UpdatedAt :: time
  usr_LastLoginAt :: time
  usr_DisabledAt :: "time option"

record UserView =
  uv_ID :: string
  uv_Username :: string
  uv_CreatedAt :: time
  uv_LastLoginAt :: time
  uv_Disabled :: bool
  uv_DeviceCount :: nat

record Session =
  ses_ID :: string
  ses_TokenHash :: string
  ses_UserID :: string
  ses_CreatedAt :: time
  ses_ExpiresAt :: time
  ses_LastSeenAt :: time

record ClientView =
  cv_ID :: string
  cv_UserID :: string
  cv_Label :: string
  cv_CreatedAt :: time
  cv_LastSeenAt :: time
  cv_RevokedAt :: "time option"
  cv_Active :: bool

record Workspace =
  ws_ID :: string
  ws_Name :: string
  ws_CreatedBy :: string
  ws_CreatedAt :: time
  ws_UpdatedAt :: time

record Membership =
  ms_WorkspaceID :: string
  ms_UserID :: string
  ms_ClientID :: string
  ms_Role :: WorkspaceRole
  ms_CreatedAt :: time

record DispatchEvent =
  de_ID :: string
  de_LeaseID :: string
  de_AccountID :: string
  de_AccountLabel :: string
  de_ClientID :: string
  de_ClientLabel :: string
  de_UserID :: string
  de_Username :: string
  de_DeviceID :: string
  de_DeviceLabel :: string
  de_Holder :: string
  de_Event :: string
  de_Generation :: int
  de_CreatedAt :: time
  de_StartedAt :: time
  de_ExpiresAt :: time

record AccountUsage =
  au_AccountID :: string
  au_ClientID :: string
  au_UpdatedAt :: time
  au_LatestAt :: string
  au_LatestModel :: string
  au_Today :: Tokens
  au_SevenDays :: Tokens
  au_AllTime :: Tokens
  au_Models :: "ModelUsage list"

text \<open>A durable usage event and its context (\<open>usage_events.go\<close>).\<close>

definition UsageEventSchemaVersion :: int where "UsageEventSchemaVersion = 1"

record UsageEventKey =
  uek_AccountID :: string
  uek_ClientID :: string
  uek_LeaseID :: string
  uek_RunID :: string

record UsageEventModelKey = UsageEventKey +
  uek_Model :: string

record UsageEventContext =
  uec_AccountID :: string
  uec_ClientID :: string
  uec_LeaseID :: string
  uec_RunID :: string
  uec_ReportedAt :: time

record UsageEvent =
  ue_SchemaVersion :: int
  ue_AccountID :: string
  ue_ClientID :: string
  ue_LeaseID :: string
  ue_RunID :: string
  ue_ReportedAt :: time
  ue_Model :: string
  ue_LatestAt :: string
  ue_Today :: Tokens
  ue_SevenDays :: Tokens
  ue_AllTime :: Tokens
  ue_SummaryStatus :: string
  ue_SummaryDetail :: string
  ue_SummaryFilesScanned :: nat
  ue_SummaryEvents :: nat
  ue_SummaryLatestAt :: string
  ue_SummaryLatestModel :: string

record QuotaCache =
  qc_AccountID :: string
  qc_UpdatedAt :: time
  qc_Result :: Result
  qc_FiveHour :: "Window option"
  qc_Source :: QuotaSource
  qc_ReporterClientID :: string

text \<open>What a Go map read of an absent key yields: the zero value.\<close>

definition zero_QuotaCache :: QuotaCache where
  "zero_QuotaCache = \<lparr>qc_AccountID = [], qc_UpdatedAt = 0, qc_Result = zero_Result,
     qc_FiveHour = None, qc_Source = NoSource, qc_ReporterClientID = []\<rparr>"

record State =
  st_Version :: int
  st_Accounts :: "Account list"
  st_Clients :: "Client list"
  st_Users :: "User list"
  st_Sessions :: "Session list"
  st_Workspaces :: "Workspace list"
  st_Memberships :: "Membership list"
  st_WorkspaceMigrated :: bool
  st_UserDeviceMigrated :: bool
  st_Usage :: "(string \<times> AccountUsage) list"
  st_QuotaCache :: "(string \<times> QuotaCache) list"
  st_Dispatches :: "DispatchEvent list"

definition zero_State :: State where
  "zero_State = \<lparr>st_Version = 0, st_Accounts = [], st_Clients = [], st_Users = [],
     st_Sessions = [], st_Workspaces = [], st_Memberships = [], st_WorkspaceMigrated = False,
     st_UserDeviceMigrated = False, st_Usage = [], st_QuotaCache = [], st_Dispatches = []\<rparr>"

definition quota_of :: "State \<Rightarrow> string \<Rightarrow> QuotaCache" where
  "quota_of st k = (case map_of (st_QuotaCache st) k of None \<Rightarrow> zero_QuotaCache | Some c \<Rightarrow> c)"

record JSONProfile =
  jp_ID :: string
  jp_Label :: string
  jp_Auth :: content
  jp_Config :: string

record ProfileSnapshot =
  ps_ID :: string
  ps_Label :: string
  ps_Plan :: string
  ps_Status :: AccountStatus
  ps_Auth :: content
  ps_Config :: string
  ps_SourceClient :: string
  ps_OwnerMode :: AccountOwnerMode
  ps_OwnerClientID :: string
  ps_LeaseID :: string
  ps_Generation :: int
  ps_UpdatedAt :: time

record LeaseSnapshot =
  ls_Lease :: Lease
  ls_Snapshot :: ProfileSnapshot

text \<open>\<open>len(auth) == 0 || string(auth) == "null"\<close> and \<open>json.Valid\<close>.\<close>

fun content_missing :: "content \<Rightarrow> bool" where
  "content_missing (NotJson s) = (s = [])"
| "content_missing (Doc d) = (d = JNull)"

fun content_valid :: "content \<Rightarrow> bool" where
  "content_valid (NotJson s) = False"
| "content_valid (Doc d) = True"

text \<open>
  The encodings and digests the program calls and does not define: reading a JSON
  text, reading the JSON object in a base64url segment, raw base64, SHA-256 in hex, and PBKDF2
  (password, salt, iterations, key length). With them what the process environment
  says: the working directory, the home directory (None: unknown) and \<open>CODEX_HOME\<close>.
\<close>

record Env =
  env_json :: "string \<Rightarrow> json option"
  env_json64 :: "string \<Rightarrow> json option"
  env_b64_encode :: "string \<Rightarrow> string"
  env_b64_decode :: "string \<Rightarrow> string option"
  env_sha256 :: "string \<Rightarrow> string"
  env_pbkdf2 :: "string \<Rightarrow> string \<Rightarrow> nat \<Rightarrow> nat \<Rightarrow> string"
  env_cwd :: string
  env_home :: "string option"
  env_codex_home :: string

text \<open>The configuration fields of \<open>manager.Manager\<close>; its mutexes are in the world.\<close>

record Manager = Env +
  m_StateDir :: string
  m_AccountsDir :: string
  m_LiveCodexHome :: string
  m_CloudURL :: string
  m_CloudToken :: string
  m_DatabaseURL :: string

definition DefaultWorkspaceID :: string where
  "DefaultWorkspaceID = ''default''"

definition maxDispatchHistory :: nat where "maxDispatchHistory = 200"

definition firstNonEmpty :: "string list \<Rightarrow> string" where
  "firstNonEmpty values =
     (case find (\<lambda>v. trim_space v \<noteq> []) values of None \<Rightarrow> [] | Some v \<Rightarrow> trim_space v)"

lemma firstNonEmpty_Nil [simp]: "firstNonEmpty [] = []"
  by (simp add: firstNonEmpty_def)

lemma firstNonEmpty_Cons [simp]:
  "firstNonEmpty (v # vs) = (if trim_space v \<noteq> [] then trim_space v else firstNonEmpty vs)"
  by (simp add: firstNonEmpty_def)

definition workspaceOrDefault :: "string \<Rightarrow> string" where
  "workspaceOrDefault k = (if trim_space k = [] then DefaultWorkspaceID else k)"

lemma DefaultWorkspaceID_not_blank [simp]: "trim_space DefaultWorkspaceID \<noteq> []"
  unfolding DefaultWorkspaceID_def by code_simp

lemma workspaceOrDefault_not_blank [simp]: "trim_space (workspaceOrDefault k) \<noteq> []"
  by (simp add: workspaceOrDefault_def)

lemma workspaceOrDefault_idem [simp]: "workspaceOrDefault (workspaceOrDefault k) = workspaceOrDefault k"
  by (simp add: workspaceOrDefault_def)

end
