(* ===== verification/Tables.thy ===== *)
theory Tables
  imports Model
begin

text \<open>
  The Postgres tables of \<open>internal/manager/store_postgres.go\<close> and the statements the
  manager runs on them. A table is an association list from primary key to row, in
  insertion order; a row is the record of the Go struct it is scanned into. The code
  writes NULL for a zero time and reads NULL as the zero time, so a nullable
  timestamp column holds 0 for NULL. JSON columns hold the value they encode.
\<close>

section \<open>INSERT ... ON CONFLICT DO UPDATE\<close>

text \<open>
  The merge of an upsert takes the stored and the proposed row (\<open>EXCLUDED\<close>) to the
  new row, or to None when the statement's WHERE clause is false.
\<close>

definition upsert :: "('r \<Rightarrow> 'r \<Rightarrow> 'r option) \<Rightarrow> 'k \<Rightarrow> 'r \<Rightarrow> ('k \<times> 'r) list \<Rightarrow> ('k \<times> 'r) list" where
  "upsert merge k new t =
     (case map_of t k of
        None \<Rightarrow> t @ [(k, new)]
      | Some old \<Rightarrow> (case merge old new of None \<Rightarrow> t | Some r \<Rightarrow> AList.update k r t))"

lemma map_of_upsert:
  "map_of (upsert merge k new t) = (map_of t)(k \<mapsto>
     (case map_of t k of None \<Rightarrow> new
      | Some old \<Rightarrow> (case merge old new of None \<Rightarrow> old | Some r \<Rightarrow> r)))"
  by (auto simp: upsert_def map_add_def fun_eq_iff split: option.splits)

lemma distinct_upsert:
  "distinct (map fst t) \<Longrightarrow> distinct (map fst (upsert merge k new t))"
  by (auto simp: upsert_def distinct_update map_of_eq_None_iff split: option.splits)

lemma dom_upsert: "dom (map_of (upsert merge k new t)) = insert k (dom (map_of t))"
  by (auto simp: map_of_upsert split: if_splits)

text \<open>A DELETE by key or by condition, an UPDATE of the rows with a condition.\<close>

definition delete_where :: "('r \<Rightarrow> bool) \<Rightarrow> ('k \<times> 'r) list \<Rightarrow> ('k \<times> 'r) list" where
  "delete_where p t = filter (\<lambda>kr. \<not> p (snd kr)) t"

definition update_row :: "'k \<Rightarrow> ('r \<Rightarrow> 'r) \<Rightarrow> ('k \<times> 'r) list \<Rightarrow> ('k \<times> 'r) list" where
  "update_row k f t = map (\<lambda>(k', r). if k' = k then (k', f r) else (k', r)) t"

lemma map_of_update_row: "map_of (update_row k f t) = (map_of t)(k := map_option f (map_of t k))"
  by (induction t) (auto simp: update_row_def fun_eq_iff)

lemma fst_update_row [simp]: "map fst (update_row k f t) = map fst t"
  by (induction t) (auto simp: update_row_def)

text \<open>\<open>SELECT ... ORDER BY key\<close>.\<close>

definition select_ordered :: "('k::linorder \<times> 'r) list \<Rightarrow> 'r list" where
  "select_ordered t = map snd (sort_key fst t)"

lemma set_select_ordered [simp]: "set (select_ordered t) = snd ` set t"
  by (simp add: select_ordered_def)

lemma select_ordered_keys:
  assumes "\<And>k r. (k, r) \<in> set t \<Longrightarrow> f r = k"
  shows "map f (select_ordered t) = sort (map fst t)"
proof -
  have "map f (select_ordered t) = map fst (sort_key fst t)"
    using assms by (auto simp: select_ordered_def comp_def)
  also have "\<dots> = sort (map fst t)"
    by (metis list.set_map mset_map mset_sort properties_for_sort sorted_sort_key)
  finally show ?thesis .
qed

section \<open>What the upserts of a table never lose\<close>

text \<open>Every row of the one table is still in the other, and has only grown.\<close>

definition table_grows :: "('r \<Rightarrow> 'r \<Rightarrow> bool) \<Rightarrow> ('k \<times> 'r) list \<Rightarrow> ('k \<times> 'r) list \<Rightarrow> bool" where
  "table_grows le t t' \<longleftrightarrow>
     (\<forall>k old. map_of t k = Some old \<longrightarrow> (\<exists>r. map_of t' k = Some r \<and> le old r))"

text \<open>
  A table whose merge only moves a row up an order: then no sequence of upserts,
  whatever snapshots they come from and in whatever order they run, takes a row
  below where it was.
\<close>

locale growing_table =
  fixes merge :: "'r \<Rightarrow> 'r \<Rightarrow> 'r option" and le :: "'r \<Rightarrow> 'r \<Rightarrow> bool"
  assumes le_refl: "le r r"
    and le_trans: "le r s \<Longrightarrow> le s t \<Longrightarrow> le r t"
    and merge_le: "merge old new = Some r \<Longrightarrow> le old r"
begin

lemma grows_refl: "table_grows le t t"
  by (simp add: table_grows_def le_refl)

lemma grows_trans: "table_grows le t u \<Longrightarrow> table_grows le u v \<Longrightarrow> table_grows le t v"
  unfolding table_grows_def using le_trans by meson

lemma upsert_grows: "table_grows le t (upsert merge k new t)"
  unfolding table_grows_def using le_refl merge_le by (auto simp: map_of_upsert split: option.splits)

lemma upserts_grow: "table_grows le t (fold (\<lambda>x. upsert merge (key x) (row x)) xs t)"
proof (induction xs arbitrary: t)
  case Nil
  then show ?case by (simp add: grows_refl)
next
  case (Cons x xs)
  have "table_grows le (upsert merge (key x) (row x) t)
      (fold (\<lambda>x. upsert merge (key x) (row x)) xs (upsert merge (key x) (row x) t))"
    by (rule Cons.IH)
  with grows_trans [OF upsert_grows] show ?case by simp
qed

end

section \<open>The rows and their merges\<close>

record AccountRow = Account +
  ar_auth_json :: "json option"

record Db =
  db_accounts :: "(string \<times> AccountRow) list"
  db_clients :: "(string \<times> Client) list"
  db_users :: "(string \<times> User) list"
  db_sessions :: "(string \<times> Session) list"
  db_workspaces :: "(string \<times> Workspace) list"
  db_memberships :: "((string \<times> string) \<times> Membership) list"
  db_usage :: "(string \<times> AccountUsage) list"
  db_usage_events :: "(UsageEventModelKey \<times> UsageEvent) list"
  db_dispatches :: "(string \<times> DispatchEvent) list"
  db_quota_cache :: "(string \<times> QuotaCache) list"
  db_meta :: "(string \<times> string) list"

definition empty_db :: Db where
  "empty_db = \<lparr>db_accounts = [], db_clients = [], db_users = [], db_sessions = [],
     db_workspaces = [], db_memberships = [], db_usage = [], db_usage_events = [],
     db_dispatches = [], db_quota_cache = [], db_meta = []\<rparr>"

definition merge_account :: "AccountRow \<Rightarrow> AccountRow \<Rightarrow> AccountRow option" where
  "merge_account old new =
     (if acc_UpdatedAt old \<le> acc_UpdatedAt new
      then Some (new\<lparr>acc_ID := acc_ID old, acc_CreatedAt := acc_CreatedAt old\<rparr>)
      else None)"

definition merge_client :: "Client \<Rightarrow> Client \<Rightarrow> Client option" where
  "merge_client old new = Some (old\<lparr>
     cli_UserID := (if cli_UserID new \<noteq> [] then cli_UserID new else cli_UserID old),
     cli_Label := cli_Label new,
     cli_TokenHash := (if cli_TokenHash new \<noteq> [] then cli_TokenHash new else cli_TokenHash old),
     cli_LastSeenAt :=
       (if cli_LastSeenAt old = zero_time then cli_LastSeenAt new
        else if cli_LastSeenAt new = zero_time then cli_LastSeenAt old
        else if cli_LastSeenAt new > cli_LastSeenAt old then cli_LastSeenAt new
        else cli_LastSeenAt old),
     cli_RevokedAt := (case cli_RevokedAt new of Some t \<Rightarrow> Some t | None \<Rightarrow> cli_RevokedAt old)\<rparr>)"

definition merge_user :: "User \<Rightarrow> User \<Rightarrow> User option" where
  "merge_user old new = Some (old\<lparr>
     usr_Username := usr_Username new,
     usr_PasswordHash :=
       (if usr_PasswordHash new \<noteq> [] then usr_PasswordHash new else usr_PasswordHash old),
     usr_UpdatedAt := usr_UpdatedAt new,
     usr_LastLoginAt :=
       (if usr_LastLoginAt new \<noteq> zero_time then usr_LastLoginAt new else usr_LastLoginAt old),
     usr_DisabledAt := usr_DisabledAt new\<rparr>)"

definition merge_session :: "Session \<Rightarrow> Session \<Rightarrow> Session option" where
  "merge_session old new = Some (old\<lparr>
     ses_ExpiresAt := ses_ExpiresAt new,
     ses_LastSeenAt :=
       (if ses_LastSeenAt new \<noteq> zero_time then ses_LastSeenAt new else ses_LastSeenAt old)\<rparr>)"

definition merge_workspace :: "Workspace \<Rightarrow> Workspace \<Rightarrow> Workspace option" where
  "merge_workspace old new = Some (old\<lparr>
     ws_Name := ws_Name new, ws_CreatedBy := ws_CreatedBy new, ws_UpdatedAt := ws_UpdatedAt new\<rparr>)"

definition merge_membership :: "Membership \<Rightarrow> Membership \<Rightarrow> Membership option" where
  "merge_membership old new = Some (old\<lparr>
     ms_UserID := (if ms_UserID new \<noteq> [] then ms_UserID new else ms_UserID old),
     ms_Role := ms_Role new\<rparr>)"

definition merge_dispatch :: "DispatchEvent \<Rightarrow> DispatchEvent \<Rightarrow> DispatchEvent option" where
  "merge_dispatch old new = Some (new\<lparr>
     de_ID := de_ID old, de_LeaseID := de_LeaseID old, de_AccountID := de_AccountID old,
     de_ClientID := de_ClientID old\<rparr>)"

definition merge_usage :: "AccountUsage \<Rightarrow> AccountUsage \<Rightarrow> AccountUsage option" where
  "merge_usage old new =
     (if au_UpdatedAt old \<le> au_UpdatedAt new
      then Some (new\<lparr>au_AccountID := au_AccountID old\<rparr>) else None)"

definition merge_quota :: "QuotaCache \<Rightarrow> QuotaCache \<Rightarrow> QuotaCache option" where
  "merge_quota old new =
     (if qc_UpdatedAt old \<le> qc_UpdatedAt new
      then Some (new\<lparr>qc_AccountID := qc_AccountID old\<rparr>) else None)"

definition merge_usage_event :: "UsageEvent \<Rightarrow> UsageEvent \<Rightarrow> UsageEvent option" where
  "merge_usage_event old new = Some (new\<lparr>
     ue_AccountID := ue_AccountID old, ue_ClientID := ue_ClientID old,
     ue_LeaseID := ue_LeaseID old, ue_RunID := ue_RunID old, ue_Model := ue_Model old\<rparr>)"

definition merge_meta :: "string \<Rightarrow> string \<Rightarrow> string option" where
  "merge_meta old new = Some new"

text \<open>The orders: a revocation and a sighting of a device, the age of a row.\<close>

definition client_le :: "Client \<Rightarrow> Client \<Rightarrow> bool" where
  "client_le a b \<longleftrightarrow>
     (cli_RevokedAt a \<noteq> None \<longrightarrow> cli_RevokedAt b \<noteq> None)
     \<and> (cli_LastSeenAt a \<noteq> zero_time \<longrightarrow>
          cli_LastSeenAt b \<noteq> zero_time \<and> cli_LastSeenAt a \<le> cli_LastSeenAt b)
     \<and> (cli_UserID a \<noteq> [] \<longrightarrow> cli_UserID b \<noteq> [])
     \<and> (cli_TokenHash a \<noteq> [] \<longrightarrow> cli_TokenHash b \<noteq> [])
     \<and> cli_CreatedAt b = cli_CreatedAt a \<and> cli_ID b = cli_ID a"

definition account_le :: "AccountRow \<Rightarrow> AccountRow \<Rightarrow> bool" where
  "account_le a b \<longleftrightarrow>
     b = a \<or> (acc_UpdatedAt a \<le> acc_UpdatedAt b \<and> acc_ID b = acc_ID a
             \<and> acc_CreatedAt b = acc_CreatedAt a)"

definition usage_le :: "AccountUsage \<Rightarrow> AccountUsage \<Rightarrow> bool" where
  "usage_le a b \<longleftrightarrow> au_UpdatedAt a \<le> au_UpdatedAt b \<and> au_AccountID b = au_AccountID a"

definition quota_le :: "QuotaCache \<Rightarrow> QuotaCache \<Rightarrow> bool" where
  "quota_le a b \<longleftrightarrow> qc_UpdatedAt a \<le> qc_UpdatedAt b \<and> qc_AccountID b = qc_AccountID a"

definition user_le :: "User \<Rightarrow> User \<Rightarrow> bool" where
  "user_le a b \<longleftrightarrow>
     (usr_PasswordHash a \<noteq> [] \<longrightarrow> usr_PasswordHash b \<noteq> [])
     \<and> (usr_LastLoginAt a \<noteq> zero_time \<longrightarrow> usr_LastLoginAt b \<noteq> zero_time)
     \<and> usr_CreatedAt b = usr_CreatedAt a \<and> usr_ID b = usr_ID a"

interpretation clients: growing_table merge_client client_le
  by unfold_locales (auto simp: client_le_def merge_client_def split: option.splits)

interpretation accounts: growing_table merge_account account_le
  by unfold_locales (auto simp: account_le_def merge_account_def split: if_splits)

interpretation usages: growing_table merge_usage usage_le
  by unfold_locales (auto simp: usage_le_def merge_usage_def split: if_splits)

interpretation quotas: growing_table merge_quota quota_le
  by unfold_locales (auto simp: quota_le_def merge_quota_def split: if_splits)

interpretation users: growing_table merge_user user_le
  by unfold_locales (auto simp: user_le_def merge_user_def)

text \<open>Of the other tables only: no upsert loses a row.\<close>

interpretation kept_rows: growing_table merge "\<lambda>_ _. True" for merge :: "'r \<Rightarrow> 'r \<Rightarrow> 'r option"
  by unfold_locales auto

end
