(* ===== verification/Paths.thy ===== *)
theory Paths
  imports Go_Strings
begin

text \<open>
  The functions of \<open>path/filepath\<close> the program uses, on slash-separated paths, and the
  path helpers of \<open>internal/manager/fsutil.go\<close>. Symbolic links are not modelled:
  \<open>EvalSymlinks\<close> is the identity.
\<close>

definition clean_step :: "bool \<Rightarrow> string list \<Rightarrow> string \<Rightarrow> string list" where
  "clean_step rooted stack c =
     (if c = [] \<or> c = ''.'' then stack
      else if c = ''..'' then
        (if stack \<noteq> [] \<and> last stack \<noteq> ''..'' then butlast stack
         else if rooted then stack else stack @ [c])
      else stack @ [c])"

definition rooted :: "string \<Rightarrow> bool" where
  "rooted p \<longleftrightarrow> has_prefix p ''/''"

definition clean_parts :: "string \<Rightarrow> string list" where
  "clean_parts p = foldl (clean_step (rooted p)) [] (split_at (CHR ''/'') p)"

text \<open>\<open>filepath.Clean\<close>, \<open>filepath.Join\<close> of two, \<open>filepath.Abs\<close> and \<open>filepath.Base\<close>.\<close>

definition clean_path :: "string \<Rightarrow> string" where
  "clean_path p =
     (if rooted p then CHR ''/'' # join_with (CHR ''/'') (clean_parts p)
      else if clean_parts p = [] then ''.'' else join_with (CHR ''/'') (clean_parts p))"

definition path_join :: "string \<Rightarrow> string \<Rightarrow> string" where
  "path_join a b =
     (if a = [] then (if b = [] then [] else clean_path b)
      else if b = [] then clean_path a else clean_path (a @ ''/'' @ b))"

definition abs_path :: "string \<Rightarrow> string \<Rightarrow> string" where
  "abs_path cwd p = (if rooted p then clean_path p else path_join cwd p)"

definition path_base :: "string \<Rightarrow> string" where
  "path_base p =
     (if p = [] then ''.''
      else let parts = filter (\<lambda>c. c \<noteq> []) (split_at (CHR ''/'') p) in
        if parts = [] then ''/'' else last parts)"

definition samePath :: "string \<Rightarrow> string \<Rightarrow> string \<Rightarrow> bool" where
  "samePath cwd a b =
     (let a = trim_space a; b = trim_space b in
      if a = [] \<or> b = [] then False else abs_path cwd a = abs_path cwd b)"

text \<open>
  \<open>filepath.Rel\<close> of two absolute clean paths: the steps up from the base, then the
  rest of the target; \<open>"."\<close> when they are equal.
\<close>

fun rel_parts :: "string list \<Rightarrow> string list \<Rightarrow> string list" where
  "rel_parts (b # bs) (t # ts) =
     (if b = t then rel_parts bs ts else map (\<lambda>_. ''..'') (b # bs) @ t # ts)"
| "rel_parts bs [] = map (\<lambda>_. ''..'') bs"
| "rel_parts [] ts = ts"

definition rel_path :: "string \<Rightarrow> string \<Rightarrow> string" where
  "rel_path base targ =
     (let r = rel_parts (clean_parts base) (clean_parts targ) in
      if r = [] then ''.'' else join_with (CHR ''/'') r)"

definition pathWithin :: "string \<Rightarrow> string \<Rightarrow> string \<Rightarrow> bool" where
  "pathWithin cwd child parent =
     (let r = rel_path (abs_path cwd parent) (abs_path cwd child) in
      if r = ''.'' \<or> has_prefix r ''..'' then False else True)"

definition expandPath :: "string \<Rightarrow> string \<Rightarrow> string" where
  "expandPath v home =
     (let v = trim_space v in
      if v = ''~'' then home
      else if has_prefix v ''~/'' then path_join home (drop 2 v)
      else clean_path v)"

section \<open>Facts\<close>

text \<open>An absolute path cleans to plain components: no empty one, no dot, no dot-dot.\<close>

definition plain_part :: "string \<Rightarrow> bool" where
  "plain_part c \<longleftrightarrow> c \<noteq> [] \<and> c \<noteq> ''.'' \<and> c \<noteq> ''..''"

lemma clean_step_plain:
  "\<forall>c \<in> set stack. plain_part c \<Longrightarrow> \<forall>c \<in> set (clean_step True stack x). plain_part c"
  by (auto simp: clean_step_def plain_part_def dest: in_set_butlastD)

lemma foldl_clean_plain:
  "\<forall>c \<in> set stack. plain_part c \<Longrightarrow> \<forall>c \<in> set (foldl (clean_step True) stack xs). plain_part c"
proof (induction xs arbitrary: stack)
  case (Cons x xs)
  then show ?case using Cons.IH [OF clean_step_plain [OF Cons.prems]] by simp
qed simp

lemma clean_parts_plain: "rooted p \<Longrightarrow> \<forall>c \<in> set (clean_parts p). plain_part c"
  unfolding clean_parts_def using foldl_clean_plain [of "[]"] by simp

lemma split_at_no_sep: "c \<in> set (split_at d s) \<Longrightarrow> d \<notin> set c"
  by (induction s arbitrary: c) (auto split: if_splits list.splits)

lemma foldl_clean_step_set: "set (foldl (clean_step b) st xs) \<subseteq> set st \<union> set xs"
proof (induction xs arbitrary: st)
  case (Cons x xs)
  have "set (clean_step b st x) \<subseteq> set st \<union> {x}"
    by (auto simp: clean_step_def dest: in_set_butlastD)
  with Cons [of "clean_step b st x"] show ?case by auto
qed simp

lemma clean_parts_no_slash: "c \<in> set (clean_parts p) \<Longrightarrow> CHR ''/'' \<notin> set c"
  using foldl_clean_step_set [of "rooted p" "[]" "split_at (CHR ''/'') p"] split_at_no_sep
  by (fastforce simp: clean_parts_def)

text \<open>A path within another extends its components.\<close>

lemma rel_parts_prefix:
  "rel_parts bs ts = r \<Longrightarrow> \<forall>b \<in> set bs. True \<Longrightarrow>
   (\<exists>rest. ts = bs @ rest \<and> r = rest) \<or> (r \<noteq> [] \<and> hd r = ''..'')"
  by (induction bs ts arbitrary: r rule: rel_parts.induct) (auto split: if_splits, (case_tac bs; simp)+)

lemma join_with_prefix: "r \<noteq> [] \<Longrightarrow> has_prefix (join_with d r) (hd r)"
  by (cases r; cases "tl r") (auto simp: has_prefix_def)

lemma pathWithin_extends:
  assumes "pathWithin cwd child parent"
  shows "\<exists>rest. rest \<noteq> [] \<and>
    clean_parts (abs_path cwd child) = clean_parts (abs_path cwd parent) @ rest"
proof -
  let ?r = "rel_parts (clean_parts (abs_path cwd parent)) (clean_parts (abs_path cwd child))"
  from assms have r: "?r \<noteq> []" "\<not> has_prefix (join_with (CHR ''/'') ?r) ''..''"
    by (auto simp: pathWithin_def rel_path_def Let_def split: if_splits)
  then have "hd ?r \<noteq> ''..''" using join_with_prefix [of ?r "CHR ''/''"] by auto
  with rel_parts_prefix [OF refl, of "clean_parts (abs_path cwd parent)" "clean_parts (abs_path cwd child)"] r(1)
  show ?thesis by auto
qed

end
