(* ===== verification/Io.thy ===== *)
theory Io
  imports Tables Paths
begin

text \<open>
  The world the manager runs in, and operations on it as an error-state monad:
  an operation maps a world to an error or a value, and the next world, which is
  kept on an error too (a Go function that returns an error has still done what
  it did before). The world holds
  \<^item> \<open>state.json\<close>, the round-robin file, the credential files and the sub-directories
    of the accounts directory, and the database;
  \<^item> the clock, read as one instant within an operation;
  \<^item> the random strings still to be drawn, and the answers of the quota service;
  \<^item> the outcome of the input/output steps to come: \<open>None\<close> (or nothing left) is
    success, \<open>Some e\<close> a failure with text e;
  \<^item> the two locks: the mutex \<open>stateMu\<close> and the cross-process file lock.
\<close>

section \<open>Errors\<close>

text \<open>
  An error is its text; the two sentinels tested with \<open>errors.Is\<close> keep their
  identity, and \<open>Deadlock\<close> is a goroutine that locks a mutex it already holds.
\<close>

datatype error = ErrText string | ErrLeaseNotFound string | ErrAccountNotFound string | Deadlock

fun error_text :: "error \<Rightarrow> string" where
  "error_text (ErrText s) = s"
| "error_text (ErrLeaseNotFound s) = ''lease not found: '' @ s"
| "error_text (ErrAccountNotFound s) = ''account not found: '' @ s"
| "error_text Deadlock = []"

definition quoted :: "string \<Rightarrow> string" where
  "quoted s = ''\"'' @ concat (map (\<lambda>c. if c = CHR 0x22 then [CHR 0x5C, CHR 0x22]
      else if c = CHR 0x5C then [CHR 0x5C, CHR 0x5C] else [c]) s) @ ''\"''"

section \<open>The world\<close>

record UsageWindow =
  uw_UsedPercent :: percent
  uw_ResetAtUnix :: int

record UsageResponse =
  ur_PlanType :: string
  ur_Primary :: "UsageWindow option"
  ur_Secondary :: "UsageWindow option"
  ur_CodeReview :: "UsageWindow option"

record RefreshResponse =
  rr_IDToken :: string
  rr_AccessToken :: string
  rr_RefreshToken :: string

text \<open>An answer of an HTTP endpoint: a transport error, or a status and a body.\<close>

datatype 'a http = TransportError string | HttpStatus nat 'a

record World =
  w_disk :: "State option"
  w_rr :: "string option"
  w_db :: Db
  w_files :: "(string \<times> (content \<times> time)) list"
  w_dirs :: "string list"
  w_now :: time
  w_rand :: "string list"
  w_usage_answers :: "(UsageResponse option) http list"
  w_refresh_answers :: "string http list"
  w_faults :: "string option list"
  w_mu :: bool
  w_flock :: bool

section \<open>The monad\<close>

type_synonym 'a io = "World \<Rightarrow> (error + 'a) \<times> World"

definition returnE :: "'a \<Rightarrow> 'a io" where
  "returnE x = (\<lambda>w. (Inr x, w))"

definition throwE :: "error \<Rightarrow> 'a io" where
  "throwE e = (\<lambda>w. (Inl e, w))"

definition bindE :: "'a io \<Rightarrow> ('a \<Rightarrow> 'b io) \<Rightarrow> 'b io" where
  "bindE m f = (\<lambda>w. case m w of (Inl e, w') \<Rightarrow> (Inl e, w') | (Inr x, w') \<Rightarrow> f x w')"

text \<open>\<open>r, err := m()\<close> with the error in hand.\<close>

definition tryE :: "'a io \<Rightarrow> (error + 'a) io" where
  "tryE m = (\<lambda>w. case m w of (r, w') \<Rightarrow> (Inr r, w'))"

text \<open>\<open>_ = m()\<close>: the error is dropped.\<close>

definition ignoreE :: "'a io \<Rightarrow> unit io" where
  "ignoreE m = (\<lambda>w. case m w of (_, w') \<Rightarrow> (Inr (), w'))"

text \<open>\<open>defer g()\<close>: g runs on every way out of m.\<close>

definition deferE :: "'a io \<Rightarrow> unit io \<Rightarrow> 'a io" where
  "deferE m g = (\<lambda>w. case m w of (r, w') \<Rightarrow> (r, snd (g w')))"

definition getsE :: "(World \<Rightarrow> 'a) \<Rightarrow> 'a io" where
  "getsE f = (\<lambda>w. (Inr (f w), w))"

definition modifyE :: "(World \<Rightarrow> World) \<Rightarrow> unit io" where
  "modifyE f = (\<lambda>w. (Inr (), f w))"

definition whenE :: "bool \<Rightarrow> unit io \<Rightarrow> unit io" where
  "whenE b m = (if b then m else returnE ())"

text \<open>An input/output step: it fails if the next outcome says so.\<close>

definition stepE :: "unit io" where
  "stepE = (\<lambda>w. case w_faults w of
      [] \<Rightarrow> (Inr (), w)
    | None # fs \<Rightarrow> (Inr (), w\<lparr>w_faults := fs\<rparr>)
    | Some e # fs \<Rightarrow> (Inl (ErrText e), w\<lparr>w_faults := fs\<rparr>))"

definition nowE :: "time io" where
  "nowE = getsE w_now"

text \<open>\<open>rand.Read\<close> and its encoding: the next string, or a failure when there is none.\<close>

definition randE :: "string io" where
  "randE = (\<lambda>w. case w_rand w of
      [] \<Rightarrow> (Inl (ErrText ''rand.Read''), w)
    | r # rs \<Rightarrow> (Inr r, w\<lparr>w_rand := rs\<rparr>))"

fun mapM_E :: "('a \<Rightarrow> unit io) \<Rightarrow> 'a list \<Rightarrow> unit io" where
  "mapM_E f [] = returnE ()"
| "mapM_E f (x # xs) = bindE (f x) (\<lambda>_. mapM_E f xs)"

section \<open>Locks\<close>

text \<open>
  \<open>stateMu\<close> is a \<open>sync.Mutex\<close>: a goroutine that locks it twice waits for itself.
  The file lock is taken through a new file description each time, so a second
  acquisition in one process does not succeed either; it times out.
\<close>

definition lockMu :: "unit io" where
  "lockMu = (\<lambda>w. if w_mu w then (Inl Deadlock, w) else (Inr (), w\<lparr>w_mu := True\<rparr>))"

definition unlockMu :: "unit io" where
  "unlockMu = modifyE (\<lambda>w. w\<lparr>w_mu := False\<rparr>)"

definition withMu :: "'a io \<Rightarrow> 'a io" where
  "withMu m = bindE lockMu (\<lambda>_. deferE m unlockMu)"

definition postgres_mode :: "'m Manager_scheme \<Rightarrow> bool" where
  "postgres_mode M \<longleftrightarrow> trim_space (m_DatabaseURL M) \<noteq> []"

definition lock_timeout :: "'m Manager_scheme \<Rightarrow> string" where
  "lock_timeout M = (if postgres_mode M then ''timeout acquiring postgres lock run-round-robin.json.lock''
     else ''timeout acquiring lock for round-robin selector'')"

definition acquireLock :: "'m Manager_scheme \<Rightarrow> unit io" where
  "acquireLock M = bindE stepE (\<lambda>_ w.
     if w_flock w then (Inl (ErrText (lock_timeout M)), w)
     else (Inr (), w\<lparr>w_flock := True\<rparr>))"

definition releaseLock :: "unit io" where
  "releaseLock = modifyE (\<lambda>w. w\<lparr>w_flock := False\<rparr>)"

definition withFlock :: "'m Manager_scheme \<Rightarrow> 'a io \<Rightarrow> 'a io" where
  "withFlock M m = bindE (acquireLock M) (\<lambda>_. deferE m releaseLock)"

section \<open>Files and transactions\<close>

definition auth_path :: "string \<Rightarrow> string" where
  "auth_path home = path_join home ''auth.json''"

definition config_path :: "string \<Rightarrow> string" where
  "config_path home = path_join home ''config.toml''"

text \<open>\<open>os.ReadFile\<close> (None: the file does not exist) and \<open>os.WriteFile\<close>.\<close>

definition readFile :: "string \<Rightarrow> content option io" where
  "readFile path = bindE stepE (\<lambda>_. getsE (\<lambda>w. map_option fst (map_of (w_files w) path)))"

definition writeFile :: "string \<Rightarrow> content \<Rightarrow> unit io" where
  "writeFile path c = bindE stepE (\<lambda>_. modifyE (\<lambda>w.
     w\<lparr>w_files := AList.update path (c, w_now w) (w_files w)\<rparr>))"

text \<open>\<open>os.Stat\<close>: the modification time of a file that exists.\<close>

definition stat_file :: "World \<Rightarrow> string \<Rightarrow> time option" where
  "stat_file w path = map_option snd (map_of (w_files w) path)"

text \<open>
  \<open>os.MkdirAll\<close> (the parents are there), \<open>os.RemoveAll\<close>, and the names in a
  directory that are directories, in the order of \<open>os.ReadDir\<close>.
\<close>

definition mkdirAll :: "string \<Rightarrow> unit io" where
  "mkdirAll path = bindE stepE (\<lambda>_. modifyE (\<lambda>w. w\<lparr>w_dirs := List.insert path (w_dirs w)\<rparr>))"

definition below :: "string \<Rightarrow> string \<Rightarrow> bool" where
  "below dir path \<longleftrightarrow> path = dir \<or> has_prefix path (dir @ ''/'')"

definition removeAll_dir :: "string \<Rightarrow> unit io" where
  "removeAll_dir dir = bindE stepE (\<lambda>_. modifyE (\<lambda>w.
     w\<lparr>w_files := filter (\<lambda>f. \<not> below dir (fst f)) (w_files w),
       w_dirs := filter (\<lambda>d. \<not> below dir d) (w_dirs w)\<rparr>))"

definition dir_entries :: "World \<Rightarrow> string \<Rightarrow> string list" where
  "dir_entries w dir = sort (remdups (filter (\<lambda>n. n \<noteq> [] \<and> CHR ''/'' \<notin> set n)
     (map (drop (length dir + 1)) (filter (\<lambda>d. has_prefix d (dir @ ''/'')) (w_dirs w)))))"

text \<open>\<open>copyFile\<close> of \<open>internal/manager/fsutil.go\<close>.\<close>

definition copyFile :: "string \<Rightarrow> string \<Rightarrow> unit io" where
  "copyFile source target =
     bindE (readFile source) (\<lambda>c.
       case c of
         None \<Rightarrow> throwE (ErrText (''open '' @ source @ '': no such file or directory''))
       | Some c \<Rightarrow> bindE stepE (\<lambda>_. writeFile target c))"

text \<open>
  A transaction works on a copy of the database, which is committed at the end or
  not at all; a statement is one step in it.
\<close>

definition pgTx :: "(Db \<Rightarrow> Db io) \<Rightarrow> unit io" where
  "pgTx body = bindE stepE (\<lambda>_. bindE (getsE w_db) (\<lambda>d. bindE (body d) (\<lambda>d'.
     bindE stepE (\<lambda>_. modifyE (\<lambda>w. w\<lparr>w_db := d'\<rparr>)))))"

definition pgExec :: "(Db \<Rightarrow> Db) \<Rightarrow> Db \<Rightarrow> Db io" where
  "pgExec s d = bindE stepE (\<lambda>_. returnE (s d))"

fun foldE :: "('a \<Rightarrow> 'b \<Rightarrow> 'b io) \<Rightarrow> 'a list \<Rightarrow> 'b \<Rightarrow> 'b io" where
  "foldE f [] b = returnE b"
| "foldE f (x # xs) b = bindE (f x b) (foldE f xs)"

lemmas io_defs = returnE_def throwE_def bindE_def tryE_def ignoreE_def deferE_def getsE_def
  modifyE_def whenE_def stepE_def nowE_def randE_def lockMu_def unlockMu_def withMu_def
  acquireLock_def releaseLock_def withFlock_def

section \<open>Triples\<close>

text \<open>
  \<open>triple P m Q\<close>: from a world with P, operation m ends with result r in a world
  w with \<open>Q r w\<close>. \<open>keeps P m\<close> is the triple of an invariant, whatever the result.
\<close>

definition triple :: "(World \<Rightarrow> bool) \<Rightarrow> 'a io \<Rightarrow> (error + 'a \<Rightarrow> World \<Rightarrow> bool) \<Rightarrow> bool" where
  "triple P m Q \<longleftrightarrow> (\<forall>w. P w \<longrightarrow> Q (fst (m w)) (snd (m w)))"

definition keeps :: "(World \<Rightarrow> bool) \<Rightarrow> 'a io \<Rightarrow> bool" where
  "keeps P m \<longleftrightarrow> triple P m (\<lambda>_. P)"

lemma tripleI: "(\<And>w. P w \<Longrightarrow> Q (fst (m w)) (snd (m w))) \<Longrightarrow> triple P m Q"
  by (simp add: triple_def)

lemma tripleD: "triple P m Q \<Longrightarrow> P w \<Longrightarrow> Q (fst (m w)) (snd (m w))"
  by (simp add: triple_def)

lemma triple_bindE:
  assumes "triple P m R" "\<And>x. triple (R (Inr x)) (f x) Q" "\<And>e w. R (Inl e) w \<Longrightarrow> Q (Inl e) w"
  shows "triple P (bindE m f) Q"
proof (rule tripleI)
  fix w assume "P w"
  obtain r w' where m: "m w = (r, w')" by fastforce
  with tripleD [OF assms(1) \<open>P w\<close>] have R: "R r w'" by simp
  show "Q (fst (bindE m f w)) (snd (bindE m f w))"
  proof (cases r)
    case (Inl e)
    with assms(3) R m show ?thesis by (simp add: bindE_def)
  next
    case (Inr x)
    with tripleD [OF assms(2), of x w'] R m show ?thesis by (simp add: bindE_def)
  qed
qed

lemma triple_conseq:
  "triple P m Q \<Longrightarrow> (\<And>w. P' w \<Longrightarrow> P w) \<Longrightarrow> (\<And>r w. Q r w \<Longrightarrow> Q' r w) \<Longrightarrow> triple P' m Q'"
  by (simp add: triple_def)

lemma keepsI: "(\<And>w. P w \<Longrightarrow> P (snd (m w))) \<Longrightarrow> keeps P m"
  by (simp add: keeps_def triple_def)

lemma keepsD: "keeps P m \<Longrightarrow> P w \<Longrightarrow> P (snd (m w))"
  by (simp add: keeps_def triple_def)

lemma keeps_returnE [hoare_rules]: "keeps P (returnE x)"
  and keeps_throwE [hoare_rules]: "keeps P (throwE e)"
  and keeps_getsE [hoare_rules]: "keeps P (getsE g)"
  and keeps_nowE [hoare_rules]: "keeps P nowE"
  by (simp_all add: keeps_def triple_def io_defs)

lemma keeps_bindE [hoare_rules]:
  "keeps P m \<Longrightarrow> (\<And>x. keeps P (f x)) \<Longrightarrow> keeps P (bindE m f)"
  unfolding keeps_def by (rule triple_bindE) auto

lemma keeps_tryE [hoare_rules]: "keeps P m \<Longrightarrow> keeps P (tryE m)"
  and keeps_ignoreE [hoare_rules]: "keeps P m \<Longrightarrow> keeps P (ignoreE m)"
  by (auto simp: keeps_def triple_def tryE_def ignoreE_def split: prod.splits)

lemma keeps_deferE [hoare_rules]: "keeps P m \<Longrightarrow> keeps P g \<Longrightarrow> keeps P (deferE m g)"
  by (auto simp: keeps_def triple_def deferE_def split: prod.splits)

lemma keeps_modifyE: "(\<And>w. P w \<Longrightarrow> P (f w)) \<Longrightarrow> keeps P (modifyE f)"
  by (simp add: keeps_def triple_def modifyE_def)

lemma keeps_whenE [hoare_rules]: "keeps P m \<Longrightarrow> keeps P (whenE b m)"
  by (simp add: whenE_def keeps_returnE)

lemma keeps_mapM_E [hoare_rules]: "(\<And>x. keeps P (f x)) \<Longrightarrow> keeps P (mapM_E f xs)"
  by (induction xs) (auto intro!: keeps_returnE keeps_bindE)

lemma keeps_if [hoare_rules]:
  "(b \<Longrightarrow> keeps P m) \<Longrightarrow> (\<not> b \<Longrightarrow> keeps P n) \<Longrightarrow> keeps P (if b then m else n)"
  by simp

lemma keeps_case_option [hoare_rules]:
  "keeps P m \<Longrightarrow> (\<And>x. keeps P (f x)) \<Longrightarrow> keeps P (case r of None \<Rightarrow> m | Some x \<Rightarrow> f x)"
  by (cases r) simp_all

lemma keeps_case_sum [hoare_rules]:
  "(\<And>e. keeps P (g e)) \<Longrightarrow> (\<And>x. keeps P (f x)) \<Longrightarrow>
   keeps P (case r of Inl e \<Rightarrow> g e | Inr x \<Rightarrow> f x)"
  by (cases r) simp_all

lemma keeps_case_prod [hoare_rules]:
  "(\<And>x y. keeps P (f x y)) \<Longrightarrow> keeps P (case r of (x, y) \<Rightarrow> f x y)"
  by (cases r) simp

lemma keeps_Let [hoare_rules]: "(\<And>x. keeps P (f x)) \<Longrightarrow> keeps P (Let v f)"
  by simp

lemma keeps_foldE [hoare_rules]: "(\<And>x b. keeps P (f x b)) \<Longrightarrow> keeps P (foldE f xs b)"
  by (induction xs arbitrary: b) (auto intro!: keeps_returnE keeps_bindE)

lemma keeps_stepE [hoare_rules]: "(\<And>w fs. P w \<Longrightarrow> P (w\<lparr>w_faults := fs\<rparr>)) \<Longrightarrow> keeps P stepE"
  by (auto simp: keeps_def triple_def stepE_def split: list.splits option.splits)

text \<open>Evaluation: what an operation does when no step fails.\<close>

lemma bindE_Inr [simp]: "m w = (Inr x, w') \<Longrightarrow> bindE m f w = f x w'"
  by (simp add: bindE_def)

lemma bindE_Inl [simp]: "m w = (Inl e, w') \<Longrightarrow> bindE m f w = (Inl e, w')"
  by (simp add: bindE_def)

lemma bindE_assoc: "bindE (bindE m f) g = bindE m (\<lambda>x. bindE (f x) g)"
  by (auto simp: bindE_def fun_eq_iff split: prod.splits sum.splits)

lemma returnE_bind: "bindE (returnE x) f = f x"
  by (simp add: bindE_def returnE_def)

text \<open>Taking a run apart.\<close>

lemma bindE_InrE:
  assumes "bindE m f w = (Inr y, w')"
  obtains x w1 where "m w = (Inr x, w1)" "f x w1 = (Inr y, w')"
proof -
  obtain r w1 where m: "m w = (r, w1)" by fastforce
  show thesis
  proof (cases r)
    case (Inl e)
    with assms m have False by simp
    then show thesis ..
  next
    case (Inr x)
    with assms m have "f x w1 = (Inr y, w')" by simp
    with m Inr show thesis by (intro that) simp_all
  qed
qed

lemma deferE_E:
  assumes "deferE m g w = (r, w')"
  obtains w1 where "m w = (r, w1)" "w' = snd (g w1)"
  using assms that by (auto simp: deferE_def split: prod.splits)

lemma tryE_eval [simp]: "m w = (r, w') \<Longrightarrow> tryE m w = (Inr r, w')"
  by (simp add: tryE_def)

lemma returnE_eval [simp]: "returnE x w = (Inr x, w)"
  and throwE_eval [simp]: "throwE e w = (Inl e, w)"
  and getsE_eval [simp]: "getsE g w = (Inr (g w), w)"
  and nowE_eval [simp]: "nowE w = (Inr (w_now w), w)"
  and modifyE_eval [simp]: "modifyE h w = (Inr (), h w)"
  by (simp_all add: io_defs)

lemma stepE_eval [simp]: "w_faults w = [] \<Longrightarrow> stepE w = (Inr (), w)"
  by (simp add: stepE_def)

lemma lockMu_eval [simp]: "\<not> w_mu w \<Longrightarrow> lockMu w = (Inr (), w\<lparr>w_mu := True\<rparr>)"
  by (simp add: lockMu_def)

lemma acquireLock_eval [simp]:
  "w_faults w = [] \<Longrightarrow> \<not> w_flock w \<Longrightarrow> acquireLock M w = (Inr (), w\<lparr>w_flock := True\<rparr>)"
  by (simp add: acquireLock_def)

lemma readFile_eval [simp]:
  "w_faults w = [] \<Longrightarrow> readFile path w = (Inr (map_option fst (map_of (w_files w) path)), w)"
  by (simp add: readFile_def)

lemma writeFile_eval [simp]:
  "w_faults w = [] \<Longrightarrow> writeFile path c w =
     (Inr (), w\<lparr>w_files := AList.update path (c, w_now w) (w_files w)\<rparr>)"
  by (simp add: writeFile_def)

lemma pgExec_eval [simp]: "w_faults w = [] \<Longrightarrow> pgExec s d w = (Inr (s d), w)"
  by (simp add: pgExec_def)

text \<open>A transaction that fails leaves the database as it was, if its body does.\<close>

lemma pgTx_atomic:
  assumes "\<And>d. keeps (\<lambda>w. w_db w = D) (body d)" "pgTx body w = (Inl e, w')" "w_db w = D"
  shows "w_db w' = D"
proof -
  have step: "w_db w2 = w_db w1" if "stepE w1 = (r, w2)" for w1 r w2
    using that by (auto simp: stepE_def split: list.splits option.splits)
  obtain r1 w1 where s1: "stepE w = (r1, w1)" by fastforce
  show ?thesis
  proof (cases r1)
    case (Inl e1)
    with s1 assms(2,3) step [OF s1] show ?thesis by (simp add: pgTx_def)
  next
    case (Inr u)
    obtain r2 w2 where s2: "body (w_db w1) w1 = (r2, w2)" by fastforce
    have w2: "w_db w2 = D"
      using keepsD [OF assms(1), of w1 "w_db w1"] s2 step [OF s1] assms(3) by simp
    obtain r3 w3 where s3: "stepE w2 = (r3, w3)" by fastforce
    from Inr s1 s2 s3 assms(2) w2 step [OF s3] show ?thesis
      by (cases r2; cases r3) (auto simp: pgTx_def bindE_def)
  qed
qed

end
