(* ===== verification/Identity.thy ===== *)
theory Identity
  imports Io
begin

text \<open>
  \<open>internal/manager/identity.go\<close>: account identifiers, tokens, password hashes and
  what an auth.json says about whose credential it is. The main facts: a
  sanitised name is a valid account id or empty, a generated id is valid and
  unused, a password verifies against its own hash and an empty hash verifies
  nothing.
\<close>

section \<open>Account identifiers\<close>

definition id_char :: "char \<Rightarrow> bool" where
  "id_char c \<longleftrightarrow> is_alnum c \<or> c = CHR ''-'' \<or> c = CHR ''_''"

text \<open>\<open>accountIDPattern\<close>: a letter or digit, then up to 63 letters, digits, _ or -.\<close>

definition matches_accountIDPattern :: "string \<Rightarrow> bool" where
  "matches_accountIDPattern s \<longleftrightarrow>
     (case s of [] \<Rightarrow> False | c # cs \<Rightarrow> is_alnum c \<and> list_all id_char cs \<and> length cs \<le> 63)"

definition sanitize_char :: "char \<Rightarrow> string" where
  "sanitize_char c =
     (if is_lower c then [c] else if is_upper c then [c] else if is_digit c then [c]
      else if c = CHR ''-'' \<or> c = CHR ''_'' then [c]
      else if c = CHR ''.'' \<or> c = CHR ''@'' \<or> c = CHR '' '' then ''-'' else [])"

fun sanitize_loop :: "string \<Rightarrow> string \<Rightarrow> string" where
  "sanitize_loop builder [] = builder"
| "sanitize_loop builder (c # cs) =
     (let b = builder @ sanitize_char c in if 64 \<le> length b then b else sanitize_loop b cs)"

definition dash_char :: "char \<Rightarrow> bool" where
  "dash_char c \<longleftrightarrow> c = CHR ''-'' \<or> c = CHR ''_''"

definition sanitizeAccountID :: "string \<Rightarrow> string" where
  "sanitizeAccountID v =
     (let v = trim_space v in
      if v = [] then []
      else let out = trim_cutset dash_char (sanitize_loop [] v) in
        if out = [] then []
        else if \<not> is_alnum (hd out) then ''profile-'' @ out
        else out)"

lemma sanitize_char_id: "list_all id_char (sanitize_char c)"
  by (auto simp: sanitize_char_def id_char_def is_alnum_def)

lemma length_sanitize_char: "length (sanitize_char c) \<le> 1"
  by (simp add: sanitize_char_def)

lemma sanitize_loop_id: "list_all id_char b \<Longrightarrow> list_all id_char (sanitize_loop b cs)"
  by (induction b cs rule: sanitize_loop.induct) (auto simp: Let_def sanitize_char_id)

lemma sanitize_loop_length: "length b < 64 \<Longrightarrow> length (sanitize_loop b cs) \<le> 64"
proof (induction b cs rule: sanitize_loop.induct)
  case (2 b c cs)
  with length_sanitize_char [of c] show ?case by (auto simp: Let_def)
qed simp

lemma id_char_cases: "id_char c \<Longrightarrow> \<not> dash_char c \<Longrightarrow> is_alnum c"
  by (auto simp: id_char_def dash_char_def)

text \<open>The prefix \<open>"profile-"\<close> is never added: what is left after \<open>Trim\<close> starts well.\<close>

lemma sanitize_hd_alnum:
  assumes "trim_cutset dash_char (sanitize_loop [] v) \<noteq> []"
  shows "is_alnum (hd (trim_cutset dash_char (sanitize_loop [] v)))"
proof (rule id_char_cases)
  let ?out = "trim_cutset dash_char (sanitize_loop [] v)"
  show "\<not> dash_char (hd ?out)" by (rule trim_cutset_hd [OF assms])
  have "hd ?out \<in> set (sanitize_loop [] v)"
    using trim_cutset_subset hd_in_set [OF assms] by fastforce
  then show "id_char (hd ?out)"
    using sanitize_loop_id [of "[]" v] by (simp add: list_all_iff)
qed

lemma sanitizeAccountID_unfold:
  "sanitizeAccountID v = trim_cutset dash_char (sanitize_loop [] (trim_space v))"
  using sanitize_hd_alnum [of "trim_space v"]
  by (auto simp: sanitizeAccountID_def Let_def trim_cutset_def)

lemma sanitizeAccountID_chars: "list_all id_char (sanitizeAccountID v)"
  using trim_cutset_subset [of dash_char "sanitize_loop [] (trim_space v)"]
    sanitize_loop_id [of "[]" "trim_space v"]
  by (auto simp: sanitizeAccountID_unfold list_all_iff)

lemma sanitizeAccountID_length: "length (sanitizeAccountID v) \<le> 64"
  using trim_cutset_length [of dash_char "sanitize_loop [] (trim_space v)"]
    sanitize_loop_length [of "[]" "trim_space v"]
  by (simp add: sanitizeAccountID_unfold)

lemma matches_iff:
  "matches_accountIDPattern s \<longleftrightarrow>
     s \<noteq> [] \<and> is_alnum (hd s) \<and> list_all id_char s \<and> length s \<le> 64"
  by (cases s) (auto simp: matches_accountIDPattern_def id_char_def)

lemma sanitizeAccountID_matches:
  "sanitizeAccountID v \<noteq> [] \<Longrightarrow> matches_accountIDPattern (sanitizeAccountID v)"
  using sanitize_hd_alnum [of "trim_space v"]
  by (simp add: matches_iff sanitizeAccountID_chars sanitizeAccountID_length)
    (simp add: sanitizeAccountID_unfold)

lemma alnum_not_ws: "is_alnum c \<Longrightarrow> c \<notin> set ws_bytes"
  by (auto simp: ws_bytes_def ws_seqs_def is_alnum_def is_lower_def is_upper_def is_digit_def)

lemma id_char_not_ws: "id_char c \<Longrightarrow> c \<notin> set ws_bytes"
  by (auto simp: id_char_def alnum_not_ws) (simp_all add: ws_bytes_def ws_seqs_def)

lemma trim_space_id_chars: "list_all id_char s \<Longrightarrow> trim_space s = s"
  by (cases "s = []")
    (auto intro!: trim_space_id_hd_last id_char_not_ws simp: list_all_iff)

lemma sanitize_char_idem: "id_char c \<Longrightarrow> sanitize_char c = [c]"
  by (auto simp: id_char_def sanitize_char_def is_alnum_def)

lemma sanitize_loop_ids:
  "list_all id_char cs \<Longrightarrow> length b < 64 \<Longrightarrow> length b + length cs \<le> 64 \<Longrightarrow>
   sanitize_loop b cs = b @ cs"
proof (induction b cs rule: sanitize_loop.induct)
  case (2 b c cs)
  then have "sanitize_char c = [c]" by (simp add: sanitize_char_idem)
  moreover have "cs = []" if "64 \<le> length b + 1"
    using that "2.prems"(3) by (cases cs) auto
  ultimately show ?case using 2 by (auto simp: Let_def)
qed simp

lemma sanitizeAccountID_idem: "sanitizeAccountID (sanitizeAccountID v) = sanitizeAccountID v"
proof -
  let ?s = "sanitizeAccountID v"
  have "sanitize_loop [] ?s = ?s"
    using sanitize_loop_ids [of ?s "[]"] sanitizeAccountID_chars sanitizeAccountID_length by simp
  moreover have "trim_space ?s = ?s" by (simp add: trim_space_id_chars sanitizeAccountID_chars)
  moreover have "trim_cutset dash_char ?s = ?s"
  proof (cases "?s = []")
    case True
    then show ?thesis by (simp add: trim_cutset_def)
  next
    case False
    let ?t = "sanitize_loop [] (trim_space v)"
    have s: "?s = trim_cutset dash_char ?t" by (rule sanitizeAccountID_unfold)
    with False have "\<not> dash_char (hd ?s)" "\<not> dash_char (last ?s)"
      using trim_cutset_hd [of dash_char ?t] trim_cutset_last [of dash_char ?t] by simp_all
    with False have "dropWhile dash_char ?s = ?s" "dropWhile dash_char (rev ?s) = rev ?s"
      by (simp_all add: dropWhile_eq_self_iff hd_rev)
    then show ?thesis by (simp add: trim_cutset_def)
  qed
  ultimately show ?thesis by (simp add: sanitizeAccountID_unfold [of ?s])
qed

section \<open>Fresh identifiers\<close>

definition format_stamp :: "time \<Rightarrow> string" where
  "format_stamp t =
     (let s = format_rfc3339 t in
      take 4 s @ take 2 (drop 5 s) @ take 2 (drop 8 s) @ ''-''
      @ take 2 (drop 11 s) @ take 2 (drop 14 s) @ take 2 (drop 17 s))"

definition unique_candidate :: "string \<Rightarrow> nat \<Rightarrow> string" where
  "unique_candidate base i =
     (let suffix = ''-'' @ show_nat i in
      (if 64 < length base + length suffix then take (64 - length suffix) base else base) @ suffix)"

function unique_loop :: "string \<Rightarrow> string list \<Rightarrow> time \<Rightarrow> nat \<Rightarrow> string" where
  "unique_loop base used now i =
     (if i < 1000 then
        (let c = unique_candidate base i in
         if c \<notin> set used then c else unique_loop base used now (Suc i))
      else ''profile-'' @ format_stamp now)"
  by pat_completeness auto
termination
  by (relation "measure (\<lambda>(base, used, now, i). 1000 - i)") auto

declare unique_loop.simps [simp del]

definition uniqueFromUsed :: "string \<Rightarrow> string list \<Rightarrow> time \<Rightarrow> string" where
  "uniqueFromUsed base used now =
     (let base = sanitizeAccountID base; base = (if base = [] then ''profile'' else base) in
      if base \<notin> set used then base else unique_loop base used now 2)"

lemma unique_loop_cases:
  "(\<exists>j. i \<le> j \<and> j < 1000 \<and> unique_loop base used now i = unique_candidate base j
      \<and> unique_candidate base j \<notin> set used)
   \<or> (unique_loop base used now i = ''profile-'' @ format_stamp now
      \<and> (\<forall>j. i \<le> j \<longrightarrow> j < 1000 \<longrightarrow> unique_candidate base j \<in> set used))"
proof (induction base used now i rule: unique_loop.induct)
  case (1 base used now i)
  show ?case
  proof (cases "i < 1000 \<and> unique_candidate base i \<in> set used")
    case True
    then have "unique_loop base used now i = unique_loop base used now (Suc i)"
      by (simp add: unique_loop.simps [of base used now i] Let_def)
    with 1 True show ?thesis
      by (simp add: Let_def) (metis Suc_leD Suc_leI le_neq_implies_less)
  next
    case False
    then show ?thesis
      by (cases "i < 1000") (auto simp: unique_loop.simps [of base used now i] Let_def)
  qed
qed

lemma unique_candidate_inj:
  assumes "unique_candidate b i = unique_candidate b j" "length (show_nat i) = length (show_nat j)"
  shows "i = j"
  using assms by (auto simp: unique_candidate_def Let_def split: if_splits)

lemma show_nat_id_chars: "list_all id_char (show_nat n)"
  using is_digit_show [of n] by (auto simp: list_all_iff id_char_def is_alnum_def)

lemma unique_candidate_matches:
  assumes "matches_accountIDPattern b" "i < 1000"
  shows "matches_accountIDPattern (unique_candidate b i)"
proof -
  let ?s = "''-'' @ show_nat i"
  have len: "length ?s \<le> 4" using length_show_nat [of i 3] assms(2) by simp
  have s: "list_all id_char ?s" using show_nat_id_chars [of i] by (simp add: id_char_def)
  obtain c cs where b: "b = c # cs" using assms(1) by (cases b) (auto simp: matches_iff)
  obtain k where k: "64 - length ?s = Suc k" using len by (cases "64 - length ?s") auto
  have "list_all id_char (take n cs)" for n
    using assms(1) b by (auto simp: matches_iff list_all_iff dest: in_set_takeD)
  with assms(1) s len k b show ?thesis
    unfolding unique_candidate_def Let_def matches_iff by auto
qed

text \<open>
  A fresh identifier is not in use, unless all of the base name and its 998
  numbered variants are; it then falls back to a name made of the current time.
\<close>

lemma unique_loop_fresh:
  "unique_loop b used now 2 \<notin> set used \<or> unique_loop b used now 2 = ''profile-'' @ format_stamp now"
  using unique_loop_cases [of 2 b used now] by metis

lemma uniqueFromUsed_cases:
  "uniqueFromUsed base used now \<notin> set used \<or> (\<exists>b. uniqueFromUsed base used now = unique_loop b used now 2)"
  unfolding uniqueFromUsed_def Let_def by metis

lemma uniqueFromUsed_fresh:
  "uniqueFromUsed base used now \<notin> set used \<or>
   uniqueFromUsed base used now = ''profile-'' @ format_stamp now"
  using uniqueFromUsed_cases unique_loop_fresh by metis

lemma unique_candidate_distinct: "inj_on (unique_candidate b) {100..<1000}"
proof (rule inj_onI)
  fix i j assume ij: "i \<in> {100..<1000}" "j \<in> {100..<1000}"
    and eq: "unique_candidate b i = unique_candidate b j"
  have "length (show_nat n) = 3" if "n \<in> {100..<1000}" for n
  proof -
    have "\<not> n < 10" "\<not> n div 10 < 10" "n div 10 div 10 < 10" using that by auto
    then show ?thesis
      by (simp add: show_nat.simps [of n] show_nat.simps [of "n div 10"]
          show_nat.simps [of "n div 10 div 10"])
  qed
  with ij have "length (show_nat i) = length (show_nat j)" by simp
  with eq show "i = j" by (rule unique_candidate_inj)
qed

lemma unique_free:
  assumes "length used < 900"
  shows "\<exists>j. 2 \<le> j \<and> j < 1000 \<and> unique_candidate b j \<notin> set used"
proof (rule ccontr)
  assume "\<not> ?thesis"
  then have "unique_candidate b ` {100..<1000} \<subseteq> set used" by auto
  then have "card (unique_candidate b ` {100..<1000}) \<le> card (set used)"
    by (simp add: card_mono)
  also have "\<dots> \<le> length used" by (rule card_length)
  finally show False
    using assms card_image [OF unique_candidate_distinct [of b]] by simp
qed

lemma uniqueFromUsed_fresh_small:
  assumes "length used < 900"
  shows "uniqueFromUsed base used now \<notin> set used"
proof -
  have "unique_loop b used now 2 \<notin> set used" for b
    using unique_loop_cases [of 2 b used now] unique_free [OF assms, of b] by metis
  then show ?thesis using uniqueFromUsed_cases by metis
qed

section \<open>Tokens and passwords\<close>

definition generatePAT :: "string io" where
  "generatePAT = bindE randE (\<lambda>r. returnE (''cube_pat_'' @ r))"

definition generateDeviceToken :: "string io" where
  "generateDeviceToken = bindE randE (\<lambda>r. returnE (''cube_dev_'' @ r))"

definition generateSessionToken :: "string io" where
  "generateSessionToken = bindE randE (\<lambda>r. returnE (''cube_ses_'' @ r))"

definition generateLeaseID :: "string io" where
  "generateLeaseID = bindE randE (\<lambda>r. returnE (''lease_'' @ r))"

definition hashToken :: "'e Env_scheme \<Rightarrow> string \<Rightarrow> string" where
  "hashToken E token = env_sha256 E (trim_space token)"

definition subtleStringEqual :: "string \<Rightarrow> string \<Rightarrow> bool" where
  "subtleStringEqual a b = (if length a \<noteq> length b then False else a = b)"

lemma subtleStringEqual_iff [simp]: "subtleStringEqual a b \<longleftrightarrow> a = b"
  by (auto simp: subtleStringEqual_def)

definition pbkdf2Iterations :: nat where "pbkdf2Iterations = 210000"
definition pbkdf2KeyLen :: nat where "pbkdf2KeyLen = 32"

definition hashPassword :: "'e Env_scheme \<Rightarrow> string \<Rightarrow> string io" where
  "hashPassword E password =
     bindE randE (\<lambda>salt.
       let key = env_pbkdf2 E password salt pbkdf2Iterations pbkdf2KeyLen in
       returnE (''pbkdf2$'' @ show_nat pbkdf2Iterations @ ''$'' @ env_b64_encode E salt
         @ ''$'' @ env_b64_encode E key))"

text \<open>\<open>fmt.Sscanf(s, "%d")\<close>: leading spaces, a sign, the digits; the rest is ignored.\<close>

definition scan_int :: "string \<Rightarrow> int option" where
  "scan_int s =
     (let t = dropWhile (\<lambda>c. c = CHR '' '') s;
          neg = has_prefix t ''-'';
          u = (if neg \<or> has_prefix t ''+'' then tl t else t);
          ds = takeWhile is_digit u
      in if ds = [] then None else Some ((if neg then -1 else 1) * int (read_nat ds 0)))"

definition checkPassword :: "'e Env_scheme \<Rightarrow> string \<Rightarrow> string \<Rightarrow> bool" where
  "checkPassword E stored password =
     (if trim_space stored = [] then False
      else let parts = split_at (CHR ''$'') stored in
        if length parts \<noteq> 4 \<or> parts ! 0 \<noteq> ''pbkdf2'' then False
        else case scan_int (parts ! 1) of
            None \<Rightarrow> False
          | Some iter \<Rightarrow>
              if iter \<le> 0 then False
              else case (env_b64_decode E (parts ! 2), env_b64_decode E (parts ! 3)) of
                  (Some salt, Some want) \<Rightarrow>
                    env_pbkdf2 E password salt (nat iter) (length want) = want
                | _ \<Rightarrow> False)"

lemma split_at_none: "d \<notin> set s \<Longrightarrow> split_at d s = [s]"
  by (induction s) auto

lemma split_at_sep: "d \<notin> set s \<Longrightarrow> split_at d (s @ d # t) = s # split_at d t"
  by (induction s) auto

lemma show_nat_no_dollar: "CHR ''$'' \<notin> set (show_nat n)"
proof
  assume "CHR ''$'' \<in> set (show_nat n)"
  with is_digit_show [of n] have "is_digit (CHR ''$'')" by (auto simp: list_all_iff)
  then show False by (simp add: is_digit_def)
qed

lemma takeWhile_digits_show: "takeWhile is_digit (show_nat n) = show_nat n"
  using is_digit_show [of n] by (simp add: list_all_iff takeWhile_eq_all_conv)

lemma hd_show_nat_digit: "is_digit (hd (show_nat n))"
  using is_digit_show [of n] by (cases "show_nat n") auto

lemma scan_show_nat: "scan_int (show_nat n) = Some (int n)"
proof -
  obtain c cs where s: "show_nat n = c # cs" by (cases "show_nat n") auto
  then have "is_digit c" using hd_show_nat_digit [of n] by simp
  then have "c \<noteq> CHR '' ''" "c \<noteq> CHR ''-''" "c \<noteq> CHR ''+''" by (auto simp: is_digit_def)
  with s takeWhile_digits_show [of n] read_show_nat [of n] show ?thesis
    by (simp add: scan_int_def has_prefix_def Let_def)
qed

lemma checkPassword_hash:
  assumes "\<And>s. env_b64_decode E (env_b64_encode E s) = Some s"
    and "\<And>s. CHR ''$'' \<notin> set (env_b64_encode E s)"
    and "\<And>p s. length (env_pbkdf2 E p s pbkdf2Iterations pbkdf2KeyLen) = pbkdf2KeyLen"
    and "hashPassword E password w = (Inr stored, w')"
  shows "\<exists>salt. checkPassword E stored attempt \<longleftrightarrow>
     env_pbkdf2 E attempt salt pbkdf2Iterations pbkdf2KeyLen
     = env_pbkdf2 E password salt pbkdf2Iterations pbkdf2KeyLen"
proof -
  from assms(4) obtain salt where stored:
    "stored = ''pbkdf2$'' @ show_nat pbkdf2Iterations @ ''$'' @ env_b64_encode E salt @ ''$''
       @ env_b64_encode E (env_pbkdf2 E password salt pbkdf2Iterations pbkdf2KeyLen)"
    by (auto simp: hashPassword_def bindE_def randE_def Let_def split: list.splits)
  have "split_at (CHR ''$'') stored = [''pbkdf2'', show_nat pbkdf2Iterations,
      env_b64_encode E salt, env_b64_encode E (env_pbkdf2 E password salt pbkdf2Iterations pbkdf2KeyLen)]"
    unfolding stored
    by (simp add: split_at_sep split_at_none assms(2) show_nat_no_dollar)
  moreover have "trim_space stored \<noteq> []"
    using not_blank_if [of "CHR ''p''" stored] alnum_not_ws [of "CHR ''p''"]
    by (simp add: stored blank_def is_alnum_def is_lower_def)
  ultimately have "checkPassword E stored attempt \<longleftrightarrow>
     env_pbkdf2 E attempt salt pbkdf2Iterations pbkdf2KeyLen
     = env_pbkdf2 E password salt pbkdf2Iterations pbkdf2KeyLen"
    using assms(1,3) by (simp add: checkPassword_def Let_def scan_show_nat pbkdf2Iterations_def)
  then show ?thesis by blast
qed

lemma checkPassword_empty: "trim_space stored = [] \<Longrightarrow> \<not> checkPassword E stored password"
  by (simp add: checkPassword_def)

section \<open>Times in cached quota\<close>

definition parseRFC3339 :: "string \<Rightarrow> time" where
  "parseRFC3339 v =
     (if trim_space v = [] then zero_time
      else case parse_time v of None \<Rightarrow> zero_time | Some t \<Rightarrow> t)"

section \<open>Whose credential an auth.json is\<close>

fun pad_base64 :: "nat \<Rightarrow> string \<Rightarrow> string" where
  "pad_base64 0 s = s"
| "pad_base64 (Suc k) s = (if length s mod 4 \<noteq> 0 then pad_base64 k (s @ ''='') else s)"

definition jwt_payload :: "string \<Rightarrow> string" where
  "jwt_payload payload = pad_base64 3
     (map (\<lambda>c. if c = CHR ''-'' then CHR ''+'' else if c = CHR ''_'' then CHR ''/'' else c) payload)"

lemma pad_base64_enough: "length (jwt_payload s) mod 4 = 0"
proof -
  have "length (pad_base64 3 t) mod 4 = 0" for t :: string
    by (auto simp: numeral_3_eq_3 mod_Suc)
  then show ?thesis by (simp add: jwt_payload_def)
qed

definition claimsFromIDToken :: "'e Env_scheme \<Rightarrow> string \<Rightarrow> json" where
  "claimsFromIDToken E idToken =
     (let parts = split_at (CHR ''.'') (trim_space idToken) in
      if length parts < 2 then JObj []
      else case env_json64 E (jwt_payload (parts ! 1)) of
          Some (JObj kvs) \<Rightarrow> JObj kvs
        | _ \<Rightarrow> JObj [])"

text \<open>A string field that is not blank.\<close>

definition text_field :: "json \<Rightarrow> string \<Rightarrow> string option" where
  "text_field j k =
     (case json_str (json_field j k) of
        Some s \<Rightarrow> if trim_space s \<noteq> [] then Some s else None
      | None \<Rightarrow> None)"

definition tokens_claims :: "'e Env_scheme \<Rightarrow> json \<Rightarrow> json option" where
  "tokens_claims E tokens = map_option (claimsFromIDToken E) (json_str (json_field tokens ''id_token''))"

definition api_key_identity :: "'e Env_scheme \<Rightarrow> json \<Rightarrow> string" where
  "api_key_identity E auth =
     (case text_field auth ''OPENAI_API_KEY'' of
        Some k \<Rightarrow> ''api_key:'' @ env_sha256 E (trim_space k)
      | None \<Rightarrow> [])"

definition authIdentity :: "'e Env_scheme \<Rightarrow> json \<Rightarrow> string" where
  "authIdentity E auth =
     (case json_obj (json_field auth ''tokens'') of
        None \<Rightarrow> api_key_identity E auth
      | Some tokens \<Rightarrow>
          (case text_field tokens ''account_id'' of
             Some a \<Rightarrow> ''account_id:'' @ trim_space a
           | None \<Rightarrow>
               (case tokens_claims E tokens of
                  None \<Rightarrow> api_key_identity E auth
                | Some claims \<Rightarrow>
                    (case text_field claims ''sub'' of
                       Some s \<Rightarrow> ''sub:'' @ trim_space s
                     | None \<Rightarrow>
                         (case text_field claims ''email'' of
                            Some m \<Rightarrow> ''email:'' @ to_lower (trim_space m)
                          | None \<Rightarrow> api_key_identity E auth)))))"

definition derive_id_fallback :: "json \<Rightarrow> string \<Rightarrow> string" where
  "derive_id_fallback auth label =
     (if trim_space label \<noteq> [] then label
      else case text_field auth ''OPENAI_API_KEY'' of Some _ \<Rightarrow> ''api-key'' | None \<Rightarrow> [])"

definition deriveIDFromAuth :: "'e Env_scheme \<Rightarrow> json \<Rightarrow> string \<Rightarrow> string" where
  "deriveIDFromAuth E auth label =
     (case json_obj (json_field auth ''tokens'') of
        None \<Rightarrow> derive_id_fallback auth label
      | Some tokens \<Rightarrow>
          (case text_field tokens ''account_id'' of
             Some a \<Rightarrow> a
           | None \<Rightarrow>
               (case tokens_claims E tokens of
                  None \<Rightarrow> derive_id_fallback auth label
                | Some claims \<Rightarrow>
                    (case text_field claims ''sub'' of
                       Some s \<Rightarrow> s
                     | None \<Rightarrow>
                         (case text_field claims ''email'' of
                            Some m \<Rightarrow> hd (split_at (CHR ''@'') m)
                          | None \<Rightarrow> derive_id_fallback auth label)))))"

definition deriveLabelFromAuth :: "'e Env_scheme \<Rightarrow> json \<Rightarrow> string" where
  "deriveLabelFromAuth E auth =
     (case json_obj (json_field auth ''tokens'') of
        None \<Rightarrow> []
      | Some tokens \<Rightarrow>
          (let from_claims =
             (case tokens_claims E tokens of
                None \<Rightarrow> None
              | Some claims \<Rightarrow>
                  map_option (\<lambda>k. the (text_field claims k))
                    (find (\<lambda>k. text_field claims k \<noteq> None)
                       [''email'', ''https://api.openai.com/profile_email'', ''sub'']))
           in case from_claims of
                Some v \<Rightarrow> v
              | None \<Rightarrow> (case text_field tokens ''account_id'' of Some a \<Rightarrow> a | None \<Rightarrow> [])))"

text \<open>A credential file as decoded metadata: an absent or malformed file is an empty object.\<close>

definition readAuthMetadata :: "(string \<times> (content \<times> time)) list \<Rightarrow> string \<Rightarrow> json" where
  "readAuthMetadata files path =
     (case map_of files path of
        Some (Doc (JObj kvs), _) \<Rightarrow> JObj kvs
      | _ \<Rightarrow> JObj [])"

text \<open>The digest is compared only, so the file's content stands for it.\<close>

definition fileDigest :: "(string \<times> (content \<times> time)) list \<Rightarrow> string \<Rightarrow> content option" where
  "fileDigest files path = map_option fst (map_of files path)"

definition accountIDs :: "State \<Rightarrow> string list" where
  "accountIDs st = map acc_ID (st_Accounts st)"

definition duplicateAccount ::
  "'e Env_scheme \<Rightarrow> (string \<times> (content \<times> time)) list \<Rightarrow> State \<Rightarrow> string \<Rightarrow> string \<Rightarrow> Account option" where
  "duplicateAccount E files st k identity =
     find (\<lambda>a. acc_ID a = k \<or>
             (identity \<noteq> [] \<and>
              authIdentity E (readAuthMetadata files (auth_path (acc_CodexHome a))) = identity))
       (st_Accounts st)"

section \<open>Times written and read\<close>

lemma parseRFC3339_format:
  assumes "0 \<le> t" "year_of_day (days_of_time t) \<le> 9999" "t mod second = 0" "t \<noteq> 0"
  shows "parseRFC3339 (format_rfc3339 t) = t"
proof -
  have "parse_time (format_rfc3339 t) = Some t" using assms by (intro parse_format_second)
  moreover have "trim_space (format_rfc3339 t) \<noteq> []"
  proof -
    have "CHR ''T'' \<in> set (format_rfc3339 t)" by (simp add: format_rfc3339_def Let_def)
    moreover have "CHR ''T'' \<notin> set ws_bytes" by code_simp
    ultimately show ?thesis using not_blank_if by (auto simp: blank_def)
  qed
  ultimately show ?thesis by (simp add: parseRFC3339_def)
qed

end
