(* ===== verification/Normalize.thy ===== *)
theory Normalize
  imports Identity
begin

text \<open>
  \<open>normalizeState\<close> of \<open>internal/manager/manager.go\<close> with the two one-time migrations
  it runs, \<open>migrateDefaultWorkspace\<close> and \<open>migrateUsersAndDevices\<close>. Every state the
  manager works on has passed through it. The main facts: the result is well formed,
  normalising twice changes nothing more, leases and token hashes are left alone,
  and the migration gives every client an owner.
\<close>

section \<open>The operations\<close>

definition normalize_account :: "Account \<Rightarrow> Account" where
  "normalize_account a =
     (let a = (if validAccountStatus (acc_Status a) then a else a\<lparr>acc_Status := StatusReady\<rparr>);
          a = (if validOwnerMode (acc_OwnerMode a) then a else a\<lparr>acc_OwnerMode := OwnerCloud\<rparr>);
          a = (if trim_space (acc_WorkspaceID a) = []
               then a\<lparr>acc_WorkspaceID := DefaultWorkspaceID\<rparr> else a)
      in if acc_Generation a < 0 then a\<lparr>acc_Generation := 0\<rparr> else a)"

definition normalize_user :: "User \<Rightarrow> User" where
  "normalize_user u = u\<lparr>usr_Username := to_lower (trim_space (usr_Username u))\<rparr>"

definition hasWorkspace :: "Workspace list \<Rightarrow> string \<Rightarrow> bool" where
  "hasWorkspace ws k \<longleftrightarrow> list_ex (\<lambda>x. ws_ID x = k) ws"

definition default_workspace :: "time \<Rightarrow> Workspace" where
  "default_workspace now = \<lparr>ws_ID = DefaultWorkspaceID, ws_Name = ''Default'', ws_CreatedBy = [],
     ws_CreatedAt = now, ws_UpdatedAt = now\<rparr>"

text \<open>The keys of \<open>existing\<close> join a workspace and a client id with a NUL byte.\<close>

definition membership_key :: "string \<Rightarrow> string \<Rightarrow> string" where
  "membership_key w c = w @ CHR 0x00 # c"

fun enroll_clients :: "time \<Rightarrow> string list \<Rightarrow> Client list \<Rightarrow> Membership list" where
  "enroll_clients now existing [] = []"
| "enroll_clients now existing (c # cs) =
     (let key = membership_key DefaultWorkspaceID (cli_ID c) in
      if key \<in> set existing then enroll_clients now existing cs
      else \<lparr>ms_WorkspaceID = DefaultWorkspaceID, ms_UserID = [], ms_ClientID = cli_ID c,
             ms_Role = RoleMember, ms_CreatedAt = now\<rparr>
           # enroll_clients now (key # existing) cs)"

definition legacyFlatPool :: "State \<Rightarrow> bool" where
  "legacyFlatPool st \<longleftrightarrow>
     \<not> st_WorkspaceMigrated st \<and> st_Workspaces st = [] \<and> st_Accounts st \<noteq> []"

definition migrateDefaultWorkspace :: "time \<Rightarrow> State \<Rightarrow> State" where
  "migrateDefaultWorkspace now st =
     (let legacy = legacyFlatPool st;
          inDefault = list_ex (\<lambda>a. acc_WorkspaceID a = DefaultWorkspaceID) (st_Accounts st);
          st = (if (inDefault \<or> legacy) \<and> \<not> hasWorkspace (st_Workspaces st) DefaultWorkspaceID
                then st\<lparr>st_Workspaces := st_Workspaces st @ [default_workspace now]\<rparr> else st)
      in if \<not> legacy then st
         else st\<lparr>st_Memberships := st_Memberships st @
                   enroll_clients now
                     (map (\<lambda>m. membership_key (ms_WorkspaceID m) (ms_ClientID m)) (st_Memberships st))
                     (st_Clients st),
                 st_WorkspaceMigrated := True\<rparr>)"

definition migrated_username :: "time \<Rightarrow> string list \<Rightarrow> Client \<Rightarrow> string" where
  "migrated_username now names c =
     (let base = trim_space (cli_Label c); base = (if base = [] then cli_ID c else base);
          username = to_lower (sanitizeAccountID base);
          username = (if username = [] then ''user'' else username)
      in uniqueFromUsed username names now)"

text \<open>The loop over the clients, with the used ids and names and the memberships.\<close>

fun migrate_clients ::
  "time \<Rightarrow> string list \<Rightarrow> string list \<Rightarrow> Membership list \<Rightarrow> Client list
   \<Rightarrow> Client list \<times> User list \<times> Membership list" where
  "migrate_clients now ids names mss [] = ([], [], mss)"
| "migrate_clients now ids names mss (c # cs) =
     (if trim_space (cli_UserID c) \<noteq> [] then
        (let (cs', us, mss') = migrate_clients now ids names mss cs in (c # cs', us, mss'))
      else
        (let username = migrated_username now names c;
             userID = uniqueFromUsed (''user-'' @ username) ids now;
             u = \<lparr>usr_ID = userID, usr_Username = username, usr_PasswordHash = [],
                   usr_CreatedAt = cli_CreatedAt c, usr_UpdatedAt = now,
                   usr_LastLoginAt = zero_time, usr_DisabledAt = None\<rparr>;
             mss = map (\<lambda>m. if ms_ClientID m = cli_ID c \<and> trim_space (ms_UserID m) = []
                             then m\<lparr>ms_UserID := userID\<rparr> else m) mss;
             (cs', us, mss') = migrate_clients now (userID # ids) (username # names) mss cs
         in (c\<lparr>cli_UserID := userID\<rparr> # cs', u # us, mss')))"

definition migrateUsersAndDevices :: "time \<Rightarrow> State \<Rightarrow> State" where
  "migrateUsersAndDevices now st =
     (if st_UserDeviceMigrated st then st
      else if st_Users st \<noteq> [] \<or> st_Clients st = [] then st\<lparr>st_UserDeviceMigrated := True\<rparr>
      else let (cs, us, mss) = migrate_clients now [] [] (st_Memberships st) (st_Clients st) in
        st\<lparr>st_Clients := cs, st_Users := st_Users st @ us, st_Memberships := mss,
           st_UserDeviceMigrated := True\<rparr>)"

definition normalizeState :: "time \<Rightarrow> State \<Rightarrow> State" where
  "normalizeState now st =
     migrateUsersAndDevices now
      (migrateDefaultWorkspace now
        (st\<lparr>st_Version := (if st_Version st = 0 then 1 else st_Version st),
            st_Accounts := map normalize_account (st_Accounts st),
            st_Users := map normalize_user (st_Users st)\<rparr>))"

section \<open>What normalising keeps\<close>

lemma normalize_account_simps [simp]:
  "acc_ID (normalize_account a) = acc_ID a"
  "acc_LeaseID (normalize_account a) = acc_LeaseID a"
  "acc_LeaseClientID (normalize_account a) = acc_LeaseClientID a"
  "acc_LeaseHolder (normalize_account a) = acc_LeaseHolder a"
  "acc_LeaseExpiresAt (normalize_account a) = acc_LeaseExpiresAt a"
  "acc_CodexHome (normalize_account a) = acc_CodexHome a"
  "acc_UpdatedAt (normalize_account a) = acc_UpdatedAt a"
  by (simp_all add: normalize_account_def Let_def)

definition account_ok :: "Account \<Rightarrow> bool" where
  "account_ok a \<longleftrightarrow> validAccountStatus (acc_Status a) \<and> validOwnerMode (acc_OwnerMode a)
     \<and> trim_space (acc_WorkspaceID a) \<noteq> [] \<and> 0 \<le> acc_Generation a"

lemma normalize_account_ok: "account_ok (normalize_account a)"
  by (auto simp: normalize_account_def account_ok_def Let_def)

lemma normalize_account_id: "account_ok a \<Longrightarrow> normalize_account a = a"
  by (simp add: normalize_account_def account_ok_def Let_def)

lemma map_normalize_account_id: "\<forall>a \<in> set as. account_ok a \<Longrightarrow> map normalize_account as = as"
  by (simp add: map_idI normalize_account_id)

definition user_ok :: "User \<Rightarrow> bool" where
  "user_ok u \<longleftrightarrow> to_lower (trim_space (usr_Username u)) = usr_Username u"

lemma normalize_user_id: "user_ok u \<Longrightarrow> normalize_user u = u"
  by (simp add: normalize_user_def user_ok_def)

lemma migrateDefaultWorkspace_simps [simp]:
  "st_Accounts (migrateDefaultWorkspace now st) = st_Accounts st"
  "st_Clients (migrateDefaultWorkspace now st) = st_Clients st"
  "st_Users (migrateDefaultWorkspace now st) = st_Users st"
  "st_Sessions (migrateDefaultWorkspace now st) = st_Sessions st"
  "st_UserDeviceMigrated (migrateDefaultWorkspace now st) = st_UserDeviceMigrated st"
  "st_Usage (migrateDefaultWorkspace now st) = st_Usage st"
  "st_QuotaCache (migrateDefaultWorkspace now st) = st_QuotaCache st"
  "st_Dispatches (migrateDefaultWorkspace now st) = st_Dispatches st"
  "st_Version (migrateDefaultWorkspace now st) = st_Version st"
  by (simp_all add: migrateDefaultWorkspace_def Let_def)

lemma migrateUsersAndDevices_simps [simp]:
  "st_Accounts (migrateUsersAndDevices now st) = st_Accounts st"
  "st_Sessions (migrateUsersAndDevices now st) = st_Sessions st"
  "st_Workspaces (migrateUsersAndDevices now st) = st_Workspaces st"
  "st_WorkspaceMigrated (migrateUsersAndDevices now st) = st_WorkspaceMigrated st"
  "st_UserDeviceMigrated (migrateUsersAndDevices now st)"
  "st_Usage (migrateUsersAndDevices now st) = st_Usage st"
  "st_QuotaCache (migrateUsersAndDevices now st) = st_QuotaCache st"
  "st_Dispatches (migrateUsersAndDevices now st) = st_Dispatches st"
  "st_Version (migrateUsersAndDevices now st) = st_Version st"
  by (simp_all add: migrateUsersAndDevices_def split: prod.splits)

lemma normalizeState_simps [simp]:
  "st_Accounts (normalizeState now st) = map normalize_account (st_Accounts st)"
  "st_Sessions (normalizeState now st) = st_Sessions st"
  "st_Usage (normalizeState now st) = st_Usage st"
  "st_QuotaCache (normalizeState now st) = st_QuotaCache st"
  "st_Dispatches (normalizeState now st) = st_Dispatches st"
  "st_UserDeviceMigrated (normalizeState now st)"
  by (simp_all add: normalizeState_def)

lemma hasWorkspace_append [simp]:
  "hasWorkspace (xs @ ys) k \<longleftrightarrow> hasWorkspace xs k \<or> hasWorkspace ys k"
  by (simp add: hasWorkspace_def)

lemma hasWorkspace_default [simp]: "hasWorkspace [default_workspace now] DefaultWorkspaceID"
  by (simp add: hasWorkspace_def default_workspace_def)

lemma hasWorkspace_Nil [simp]: "\<not> hasWorkspace [] k"
  by (simp add: hasWorkspace_def)

section \<open>What the device migration makes\<close>

lemma profile_not_blank: "trim_space (''profile'' @ s) \<noteq> []"
  using not_blank_if [of "CHR ''p''" "''profile'' @ s"] alnum_not_ws [of "CHR ''p''"]
  by (simp add: blank_def is_alnum_def is_lower_def)

lemma matches_not_blank: "matches_accountIDPattern s \<Longrightarrow> trim_space s \<noteq> []"
  by (simp add: matches_iff trim_space_id_chars)

lemma profile_matches: "matches_accountIDPattern ''profile''"
  by code_simp

lemma unique_base_matches:
  "matches_accountIDPattern
     (if sanitizeAccountID b = [] then ''profile'' else sanitizeAccountID b)"
  by (simp add: profile_matches sanitizeAccountID_matches)

text \<open>A fresh id is a valid account id, unless it is the one made of the time.\<close>

lemma uniqueFromUsed_form:
  "matches_accountIDPattern (uniqueFromUsed base used now)
   \<or> uniqueFromUsed base used now = ''profile-'' @ format_stamp now"
proof -
  let ?b = "if sanitizeAccountID base = [] then ''profile'' else sanitizeAccountID base"
  have "matches_accountIDPattern (unique_loop ?b used now 2)
     \<or> unique_loop ?b used now 2 = ''profile-'' @ format_stamp now"
    using unique_loop_cases [of 2 ?b used now] unique_candidate_matches unique_base_matches [of base]
    by metis
  moreover have "uniqueFromUsed base used now = (if ?b \<notin> set used then ?b else unique_loop ?b used now 2)"
    by (simp add: uniqueFromUsed_def Let_def)
  ultimately show ?thesis
    using unique_base_matches [of base] by (simp only: split: if_split) blast
qed

lemma uniqueFromUsed_not_blank: "trim_space (uniqueFromUsed base used now) \<noteq> []"
  using uniqueFromUsed_form [of base used now] matches_not_blank profile_not_blank [of "''-'' @ format_stamp now"]
  by auto

text \<open>The client rows keep everything but the owner, which each of them then has.\<close>

definition owned_client :: "Client \<Rightarrow> Client \<Rightarrow> bool" where
  "owned_client c c' \<longleftrightarrow>
     (\<exists>u. c' = c\<lparr>cli_UserID := u\<rparr>) \<and> trim_space (cli_UserID c') \<noteq> []
     \<and> (trim_space (cli_UserID c) \<noteq> [] \<longrightarrow> c' = c)"

lemma owned_client_refl: "trim_space (cli_UserID c) \<noteq> [] \<Longrightarrow> owned_client c c"
  unfolding owned_client_def by (metis Client.surjective Client.update_convs(2))

lemma migrate_clients_owned:
  "migrate_clients now ids names mss cs = (cs', us, mss') \<Longrightarrow> list_all2 owned_client cs cs'"
proof (induction cs arbitrary: ids names mss cs' us mss')
  case (Cons c cs)
  show ?case
  proof (cases "trim_space (cli_UserID c) \<noteq> []")
    case True
    with Cons show ?thesis by (auto simp: owned_client_refl split: prod.splits)
  next
    case False
    have "owned_client c (c\<lparr>cli_UserID := uniqueFromUsed b ids now\<rparr>)" for b
      using False by (auto simp: owned_client_def uniqueFromUsed_not_blank)
    with Cons False show ?thesis by (auto simp: Let_def split: prod.splits)
  qed
qed simp

text \<open>The synthesized users are fresh and distinct, by id and by name, and cannot log in.\<close>

lemma migrate_clients_users:
  assumes "migrate_clients now ids names mss cs = (cs', us, mss')"
    and "length ids + length cs \<le> 900" "length names + length cs \<le> 900"
    and "distinct ids" "distinct names"
  shows "distinct (map usr_ID us @ ids) \<and> distinct (map usr_Username us @ names)
     \<and> (\<forall>u \<in> set us. usr_PasswordHash u = [] \<and> usr_DisabledAt u = None)"
  using assms
proof (induction cs arbitrary: ids names mss cs' us mss')
  case (Cons c cs)
  show ?case
  proof (cases "trim_space (cli_UserID c) \<noteq> []")
    case True
    with Cons show ?thesis by (auto split: prod.splits)
  next
    case False
    let ?n = "migrated_username now names c"
    let ?i = "uniqueFromUsed (''user-'' @ ?n) ids now"
    let ?mss = "map (\<lambda>m. if ms_ClientID m = cli_ID c \<and> trim_space (ms_UserID m) = []
                         then m\<lparr>ms_UserID := ?i\<rparr> else m) mss"
    obtain cs2 us2 mss2 where r: "migrate_clients now (?i # ids) (?n # names) ?mss cs = (cs2, us2, mss2)"
      by (rule prod_cases3)
    have small: "length ids < 900" "length names < 900" using Cons.prems(2,3) by simp_all
    have fresh_i: "?i \<notin> set ids" by (rule uniqueFromUsed_fresh_small [OF small(1)])
    have fresh_n: "?n \<notin> set names"
      unfolding migrated_username_def Let_def by (rule uniqueFromUsed_fresh_small [OF small(2)])
    from Cons.prems(1) False r have us: "us = \<lparr>usr_ID = ?i, usr_Username = ?n, usr_PasswordHash = [],
        usr_CreatedAt = cli_CreatedAt c, usr_UpdatedAt = now, usr_LastLoginAt = zero_time,
        usr_DisabledAt = None\<rparr> # us2"
      by (auto simp: Let_def simp del: append_Cons)
    have "length (?i # ids) + length cs \<le> 900" "length (?n # names) + length cs \<le> 900"
      "distinct (?i # ids)" "distinct (?n # names)"
      using Cons.prems(2-5) fresh_i fresh_n by simp_all
    from Cons.IH [OF r this] show ?thesis unfolding us by auto
  qed
qed simp

lemma if_both: "P x \<Longrightarrow> P y \<Longrightarrow> P (if b then x else y)"
  by simp

text \<open>Their names are in lower case, as the user lookup expects.\<close>

definition no_upper :: "string \<Rightarrow> bool" where
  "no_upper s \<longleftrightarrow> (\<forall>c \<in> set s. \<not> is_upper c)"

lemma to_lower_no_upper: "no_upper s \<Longrightarrow> to_lower s = s"
  by (auto simp: no_upper_def to_lower_def lower_char_def intro!: map_idI)

lemma no_upper_to_lower: "no_upper (to_lower s)"
  using lower_char_not_upper by (auto simp: no_upper_def to_lower_def)

lemma sanitize_char_set: "set (sanitize_char c) \<subseteq> {c, CHR ''-''}"
  by (auto simp: sanitize_char_def split: if_splits)

lemma sanitize_loop_set: "set (sanitize_loop b cs) \<subseteq> set b \<union> set cs \<union> {CHR ''-''}"
proof (induction b cs rule: sanitize_loop.induct)
  case (2 b c cs)
  then show ?case using sanitize_char_set [of c] by (simp add: Let_def) blast
qed auto

lemma sanitizeAccountID_set: "set (sanitizeAccountID v) \<subseteq> set v \<union> {CHR ''-''}"
  using trim_cutset_subset [of dash_char "sanitize_loop [] (trim_space v)"]
    sanitize_loop_set [of "[]" "trim_space v"] trim_space_subset [of v]
  by (auto simp: sanitizeAccountID_unfold)

lemma sanitizeAccountID_no_upper: "no_upper v \<Longrightarrow> no_upper (sanitizeAccountID v)"
  using sanitizeAccountID_set [of v] by (auto simp: no_upper_def is_upper_def)

lemma show_nat_no_upper: "no_upper (show_nat n)"
  using is_digit_show [of n] by (auto simp: no_upper_def list_all_iff is_digit_def is_upper_def)

lemma unique_candidate_no_upper: "no_upper b \<Longrightarrow> no_upper (unique_candidate b i)"
  using show_nat_no_upper [of i]
  by (auto simp: unique_candidate_def no_upper_def is_upper_def Let_def dest: in_set_takeD split: if_splits)

lemma uniqueFromUsed_small_no_upper:
  assumes "no_upper base" "length used < 900"
  shows "no_upper (uniqueFromUsed base used now)"
    and "matches_accountIDPattern (uniqueFromUsed base used now)"
proof -
  let ?b = "if sanitizeAccountID base = [] then ''profile'' else sanitizeAccountID base"
  have b: "no_upper ?b"
    using sanitizeAccountID_no_upper [OF assms(1)] by (simp add: no_upper_def is_upper_def)
  have u: "uniqueFromUsed base used now = (if ?b \<notin> set used then ?b else unique_loop ?b used now 2)"
    by (simp add: uniqueFromUsed_def Let_def)
  obtain j where j: "2 \<le> j" "j < 1000" "unique_candidate ?b j \<notin> set used"
    using unique_free [OF assms(2)] by blast
  then obtain i where i: "i < 1000" "unique_loop ?b used now 2 = unique_candidate ?b i"
    using unique_loop_cases [of 2 ?b used now] by blast
  show "no_upper (uniqueFromUsed base used now)"
    unfolding u i(2) using b unique_candidate_no_upper [OF b, of i] by (rule if_both)
  show "matches_accountIDPattern (uniqueFromUsed base used now)"
    unfolding u i(2)
    using unique_base_matches [of base] unique_candidate_matches [OF unique_base_matches i(1), of base]
    by (rule if_both)
qed

lemma migrated_username_ok:
  assumes "length names < 900"
  shows "to_lower (trim_space (migrated_username now names c)) = migrated_username now names c"
proof -
  have base: "no_upper (if to_lower x = [] then ''user'' else to_lower x)" for x
    using no_upper_to_lower [of x] by (simp add: no_upper_def is_upper_def)
  have "no_upper (migrated_username now names c) \<and>
        matches_accountIDPattern (migrated_username now names c)"
    unfolding migrated_username_def Let_def
    using uniqueFromUsed_small_no_upper [OF base assms] by blast
  then show ?thesis by (simp add: matches_iff trim_space_id_chars to_lower_no_upper)
qed

lemma migrate_clients_user_ok:
  "migrate_clients now ids names mss cs = (cs', us, mss') \<Longrightarrow> length names + length cs \<le> 900 \<Longrightarrow>
   \<forall>u \<in> set us. user_ok u"
proof (induction cs arbitrary: ids names mss cs' us mss')
  case (Cons c cs)
  show ?case
  proof (cases "trim_space (cli_UserID c) \<noteq> []")
    case True
    with Cons show ?thesis by (auto split: prod.splits)
  next
    case False
    have "to_lower (trim_space (migrated_username now names c)) = migrated_username now names c"
      using Cons.prems(2) by (intro migrated_username_ok) simp
    with Cons False show ?thesis by (fastforce simp: Let_def user_ok_def split: prod.splits)
  qed
qed simp

section \<open>Normalised states\<close>

definition state_ok :: "State \<Rightarrow> bool" where
  "state_ok st \<longleftrightarrow>
     st_Version st \<noteq> 0
     \<and> (\<forall>a \<in> set (st_Accounts st). account_ok a)
     \<and> (\<forall>u \<in> set (st_Users st). user_ok u)
     \<and> \<not> legacyFlatPool st
     \<and> ((\<exists>a \<in> set (st_Accounts st). acc_WorkspaceID a = DefaultWorkspaceID) \<longrightarrow>
          hasWorkspace (st_Workspaces st) DefaultWorkspaceID)
     \<and> st_UserDeviceMigrated st"

lemma migrateDefaultWorkspace_settled:
  "\<not> legacyFlatPool (migrateDefaultWorkspace now st)"
  "(\<exists>a \<in> set (st_Accounts st). acc_WorkspaceID a = DefaultWorkspaceID) \<Longrightarrow>
    hasWorkspace (st_Workspaces (migrateDefaultWorkspace now st)) DefaultWorkspaceID"
  by (auto simp: migrateDefaultWorkspace_def legacyFlatPool_def Let_def list_ex_iff)

lemma migrateDefaultWorkspace_id:
  "\<not> legacyFlatPool st \<Longrightarrow>
   (\<exists>a \<in> set (st_Accounts st). acc_WorkspaceID a = DefaultWorkspaceID) \<longrightarrow>
     hasWorkspace (st_Workspaces st) DefaultWorkspaceID \<Longrightarrow>
   migrateDefaultWorkspace now st = st"
  by (auto simp: migrateDefaultWorkspace_def Let_def list_ex_iff)

lemma migrateUsersAndDevices_id: "st_UserDeviceMigrated st \<Longrightarrow> migrateUsersAndDevices now st = st"
  by (simp add: migrateUsersAndDevices_def)

lemma normalizeState_id: "state_ok st \<Longrightarrow> normalizeState now st = st"
  by (simp add: normalizeState_def state_ok_def migrateDefaultWorkspace_id migrateUsersAndDevices_id
      map_normalize_account_id map_idI normalize_user_id)

lemma migrateUsersAndDevices_users_ok:
  assumes "length (st_Clients st) \<le> 900" "\<forall>u \<in> set (st_Users st). user_ok u"
  shows "\<forall>u \<in> set (st_Users (migrateUsersAndDevices now st)). user_ok u"
proof -
  obtain cs us mss where r: "migrate_clients now [] [] (st_Memberships st) (st_Clients st) = (cs, us, mss)"
    by (rule prod_cases3)
  have "\<forall>u \<in> set us. user_ok u" using migrate_clients_user_ok [OF r] assms(1) by simp
  with assms(2) r show ?thesis by (auto simp: migrateUsersAndDevices_def)
qed

lemma normalizeState_ok:
  assumes "length (st_Clients st) \<le> 900"
  shows "state_ok (normalizeState now st)"
proof -
  define st1 where "st1 = st\<lparr>st_Version := (if st_Version st = 0 then 1 else st_Version st),
            st_Accounts := map normalize_account (st_Accounts st),
            st_Users := map normalize_user (st_Users st)\<rparr>"
  define st2 where "st2 = migrateDefaultWorkspace now st1"
  have n: "normalizeState now st = migrateUsersAndDevices now st2"
    by (simp add: normalizeState_def st1_def st2_def)
  have "\<forall>u \<in> set (st_Users st2). user_ok u"
    by (auto simp: st2_def st1_def user_ok_def normalize_user_def trim_space_to_lower)
  then have users: "\<forall>u \<in> set (st_Users (migrateUsersAndDevices now st2)). user_ok u"
    using assms by (intro migrateUsersAndDevices_users_ok) (simp_all add: st2_def st1_def)
  have "\<not> legacyFlatPool st2" unfolding st2_def by (rule migrateDefaultWorkspace_settled)
  then have legacy: "\<not> legacyFlatPool (migrateUsersAndDevices now st2)"
    by (simp add: legacyFlatPool_def)
  have acc: "st_Accounts st2 = map normalize_account (st_Accounts st)"
    and acc1: "st_Accounts st1 = st_Accounts st2" and v: "st_Version st2 \<noteq> 0"
    by (simp_all add: st2_def st1_def)
  have "(\<exists>a \<in> set (st_Accounts st2). acc_WorkspaceID a = DefaultWorkspaceID) \<longrightarrow>
          hasWorkspace (st_Workspaces st2) DefaultWorkspaceID"
    using migrateDefaultWorkspace_settled(2) [of st1 now] unfolding acc1 st2_def by blast
  moreover have "\<forall>a \<in> set (st_Accounts st2). account_ok a"
    by (simp add: acc normalize_account_ok)
  ultimately show ?thesis
    unfolding n state_ok_def using users legacy v by simp
qed

text \<open>Neither a lease nor a token hash is touched.\<close>

lemma migrateUsersAndDevices_clients:
  "list_all2 (\<lambda>c c'. \<exists>u. c' = c\<lparr>cli_UserID := u\<rparr>)
     (st_Clients st) (st_Clients (migrateUsersAndDevices now st))"
proof -
  have refl: "list_all2 (\<lambda>c c'. \<exists>u. c' = c\<lparr>cli_UserID := u\<rparr>) cs cs" for cs :: "Client list"
    by (rule list.rel_refl) (metis Client.surjective Client.update_convs(2))
  obtain cs us mss where r: "migrate_clients now [] [] (st_Memberships st) (st_Clients st) = (cs, us, mss)"
    by (rule prod_cases3)
  have "list_all2 (\<lambda>c c'. \<exists>u. c' = c\<lparr>cli_UserID := u\<rparr>) (st_Clients st) cs"
    using migrate_clients_owned [OF r] by (rule list.rel_mono_strong) (simp add: owned_client_def)
  with r refl show ?thesis by (simp add: migrateUsersAndDevices_def)
qed

lemma normalizeState_clients:
  "list_all2 (\<lambda>c c'. \<exists>u. c' = c\<lparr>cli_UserID := u\<rparr>) (st_Clients st) (st_Clients (normalizeState now st))"
  using migrateUsersAndDevices_clients [of "migrateDefaultWorkspace now
        (st\<lparr>st_Version := (if st_Version st = 0 then 1 else st_Version st),
            st_Accounts := map normalize_account (st_Accounts st),
            st_Users := map normalize_user (st_Users st)\<rparr>)" now]
  by (simp add: normalizeState_def)

end
