(* ===== verification/PgStore.thy ===== *)
theory PgStore
  imports Normalize
begin

text \<open>
  The Postgres side of the store, \<open>internal/manager/store_postgres.go\<close>: the load that
  materialises credentials on disk, the save that upserts every row of a state in one
  transaction, and the targeted deletes. Opening the pool and creating the schema
  (in Pool and Schema) are steps here that may fail and leave no trace in the tables. \<open>ORDER BY\<close> compares bytes
  (the C collation).
\<close>

section \<open>Credentials on disk\<close>

definition materializeAuth :: "Account \<Rightarrow> json \<Rightarrow> unit io" where
  "materializeAuth a raw =
     (let path = auth_path (acc_CodexHome a) in
      bindE (tryE (readFile path)) (\<lambda>existing.
        if existing = Inr (Some (Doc raw)) then returnE ()
        else bindE (mkdirAll (acc_CodexHome a)) (\<lambda>_. writeFile path (Doc raw))))"

definition readAccountAuthJSON :: "Account \<Rightarrow> json option io" where
  "readAccountAuthJSON a =
     (let path = auth_path (acc_CodexHome a) in
      bindE (readFile path) (\<lambda>raw.
        case raw of
          None \<Rightarrow> returnE None
        | Some (NotJson _) \<Rightarrow> throwE (ErrText (path @ '' is not valid JSON''))
        | Some (Doc d) \<Rightarrow> returnE (Some d)))"

section \<open>Loading\<close>

definition ensurePostgres :: "unit io" where
  "ensurePostgres = pgTx (pgExec (\<lambda>d. d))"

definition scan_account :: "'m Manager_scheme \<Rightarrow> AccountRow \<Rightarrow> Account" where
  "scan_account M row =
     (let a = Account.truncate row;
          a = (if acc_Status a = NoStatus then a\<lparr>acc_Status := StatusReady\<rparr> else a);
          a = (if \<not> validOwnerMode (acc_OwnerMode a) then a\<lparr>acc_OwnerMode := OwnerCloud\<rparr> else a);
          a = (if trim_space (acc_WorkspaceID a) = []
               then a\<lparr>acc_WorkspaceID := DefaultWorkspaceID\<rparr> else a)
      in if trim_space (acc_CodexHome a) = []
         then a\<lparr>acc_CodexHome := path_join (m_AccountsDir M) (acc_ID a)\<rparr> else a)"

definition load_account :: "'m Manager_scheme \<Rightarrow> AccountRow \<Rightarrow> Account list \<Rightarrow> Account list io" where
  "load_account M row as =
     (let a = scan_account M row in
      bindE (case ar_auth_json row of None \<Rightarrow> returnE () | Some raw \<Rightarrow> materializeAuth a raw)
        (\<lambda>_. returnE (as @ [a])))"

definition scan_membership :: "Membership \<Rightarrow> Membership" where
  "scan_membership m = (if validWorkspaceRole (ms_Role m) then m else m\<lparr>ms_Role := RoleMember\<rparr>)"

definition scan_quota :: "QuotaCache \<Rightarrow> QuotaCache" where
  "scan_quota c = (if qc_Source c = NoSource then c\<lparr>qc_Source := QuotaSourceCloud\<rparr> else c)"

definition meta_true :: "Db \<Rightarrow> string \<Rightarrow> bool" where
  "meta_true d k \<longleftrightarrow> map_of (db_meta d) k = Some ''true''"

definition loadPostgresState :: "'m Manager_scheme \<Rightarrow> State io" where
  "loadPostgresState M =
     bindE stepE (\<lambda>_. bindE nowE (\<lambda>now. bindE (getsE w_db) (\<lambda>d.
     bindE (foldE (load_account M) (select_ordered (db_accounts d)) []) (\<lambda>accounts.
     bindE stepE (\<lambda>_.
       returnE (normalizeState now
         (zero_State\<lparr>
            st_Version := 1,
            st_Accounts := accounts,
            st_Clients := select_ordered (db_clients d),
            st_Users := select_ordered (db_users d),
            st_Sessions := filter (\<lambda>s. ses_ExpiresAt s > now) (select_ordered (db_sessions d)),
            st_Workspaces := select_ordered (db_workspaces d),
            st_Memberships := map scan_membership (map snd (sort_key (fst \<circ> fst)
               (sort_key (snd \<circ> fst) (db_memberships d)))),
            st_Usage := map (\<lambda>(_, u). (au_AccountID u, u)) (db_usage d),
            st_QuotaCache := map (\<lambda>(_, c). (qc_AccountID c, scan_quota c)) (db_quota_cache d),
            st_WorkspaceMigrated := meta_true d ''workspace_migrated'',
            st_UserDeviceMigrated := meta_true d ''user_device_migrated''\<rparr>)))))))"

section \<open>Saving\<close>

definition account_row :: "'m Manager_scheme \<Rightarrow> time \<Rightarrow> json option \<Rightarrow> Account \<Rightarrow> AccountRow" where
  "account_row M now auth a =
     (let a = (if acc_CreatedAt a = zero_time then a\<lparr>acc_CreatedAt := now\<rparr> else a);
          a = (if acc_UpdatedAt a = zero_time then a\<lparr>acc_UpdatedAt := now\<rparr> else a);
          a = (if acc_Status a = NoStatus then a\<lparr>acc_Status := StatusReady\<rparr> else a);
          a = (if \<not> validOwnerMode (acc_OwnerMode a) then a\<lparr>acc_OwnerMode := OwnerCloud\<rparr> else a);
          a = (if trim_space (acc_CodexHome a) = []
               then a\<lparr>acc_CodexHome := path_join (m_AccountsDir M) (acc_ID a)\<rparr> else a)
      in Account.extend (a\<lparr>acc_WorkspaceID := workspaceOrDefault (acc_WorkspaceID a)\<rparr>)
           \<lparr>ar_auth_json = auth\<rparr>)"

definition saved_home :: "'m Manager_scheme \<Rightarrow> Account \<Rightarrow> Account" where
  "saved_home M a = (if trim_space (acc_CodexHome a) = []
     then a\<lparr>acc_CodexHome := path_join (m_AccountsDir M) (acc_ID a)\<rparr> else a)"

definition save_account :: "'m Manager_scheme \<Rightarrow> time \<Rightarrow> Account \<Rightarrow> Db \<Rightarrow> Db io" where
  "save_account M now a d =
     bindE (readAccountAuthJSON (saved_home M a)) (\<lambda>auth.
       pgExec (\<lambda>d. d\<lparr>db_accounts :=
         upsert merge_account (acc_ID a) (account_row M now auth a) (db_accounts d)\<rparr>) d)"

definition client_row :: "time \<Rightarrow> Client \<Rightarrow> Client" where
  "client_row now c = (if cli_CreatedAt c = zero_time then c\<lparr>cli_CreatedAt := now\<rparr> else c)"

definition save_client :: "time \<Rightarrow> Client \<Rightarrow> Db \<Rightarrow> Db io" where
  "save_client now c = pgExec (\<lambda>d. d\<lparr>db_clients :=
     upsert merge_client (cli_ID c) (client_row now c) (db_clients d)\<rparr>)"

definition user_row :: "time \<Rightarrow> User \<Rightarrow> User" where
  "user_row now u =
     (let u = (if usr_CreatedAt u = zero_time then u\<lparr>usr_CreatedAt := now\<rparr> else u)
      in if usr_UpdatedAt u = zero_time then u\<lparr>usr_UpdatedAt := now\<rparr> else u)"

text \<open>The unique index on the lower-case user names that are not empty.\<close>

definition username_taken :: "User \<Rightarrow> (string \<times> User) list \<Rightarrow> bool" where
  "username_taken u t \<longleftrightarrow> usr_Username u \<noteq> [] \<and>
     list_ex (\<lambda>(k, r). k \<noteq> usr_ID u \<and> usr_Username r \<noteq> []
        \<and> to_lower (usr_Username r) = to_lower (usr_Username u)) t"

definition save_user :: "time \<Rightarrow> User \<Rightarrow> Db \<Rightarrow> Db io" where
  "save_user now u d =
     (if username_taken u (db_users d)
      then throwE (ErrText ''duplicate key value violates unique constraint cube_users_username_idx'')
      else pgExec (\<lambda>d. d\<lparr>db_users :=
        upsert merge_user (usr_ID u) (user_row now u) (db_users d)\<rparr>) d)"

definition save_session :: "time \<Rightarrow> Session \<Rightarrow> Db \<Rightarrow> Db io" where
  "save_session now s d =
     (if trim_space (ses_ID s) = [] \<or> trim_space (ses_TokenHash s) = [] then returnE d
      else let s = (if ses_CreatedAt s = zero_time then s\<lparr>ses_CreatedAt := now\<rparr> else s) in
        pgExec (\<lambda>d. d\<lparr>db_sessions := upsert merge_session (ses_ID s) s (db_sessions d)\<rparr>) d)"

definition save_workspace :: "time \<Rightarrow> Workspace \<Rightarrow> Db \<Rightarrow> Db io" where
  "save_workspace now x d =
     (if trim_space (ws_ID x) = [] then returnE d
      else let x = (if ws_CreatedAt x = zero_time then x\<lparr>ws_CreatedAt := now\<rparr> else x);
               x = (if ws_UpdatedAt x = zero_time then x\<lparr>ws_UpdatedAt := now\<rparr> else x) in
        pgExec (\<lambda>d. d\<lparr>db_workspaces := upsert merge_workspace (ws_ID x) x (db_workspaces d)\<rparr>) d)"

definition membership_principal :: "Membership \<Rightarrow> string" where
  "membership_principal m = (let p = trim_space (ms_ClientID m) in
     if p = [] then trim_space (ms_UserID m) else p)"

definition membership_row :: "time \<Rightarrow> Membership \<Rightarrow> Membership" where
  "membership_row now m = m\<lparr>
     ms_ClientID := membership_principal m,
     ms_Role := (if validWorkspaceRole (ms_Role m) then ms_Role m else RoleMember),
     ms_CreatedAt := (if ms_CreatedAt m = zero_time then now else ms_CreatedAt m)\<rparr>"

definition save_membership :: "time \<Rightarrow> Membership \<Rightarrow> Db \<Rightarrow> Db io" where
  "save_membership now m d =
     (if trim_space (ms_WorkspaceID m) = [] \<or> membership_principal m = [] then returnE d
      else pgExec (\<lambda>d. d\<lparr>db_memberships :=
        upsert merge_membership (ms_WorkspaceID m, membership_principal m) (membership_row now m)
          (db_memberships d)\<rparr>) d)"

definition save_dispatch :: "time \<Rightarrow> DispatchEvent \<Rightarrow> Db \<Rightarrow> Db io" where
  "save_dispatch now e d =
     (if trim_space (de_ID e) = [] then returnE d
      else let e = (if de_CreatedAt e = zero_time then e\<lparr>de_CreatedAt := now\<rparr> else e) in
        pgExec (\<lambda>d. d\<lparr>db_dispatches := upsert merge_dispatch (de_ID e) e (db_dispatches d)\<rparr>) d)"

definition save_usage :: "time \<Rightarrow> string \<times> AccountUsage \<Rightarrow> Db \<Rightarrow> Db io" where
  "save_usage now ku =
     (let u = snd ku;
          u = (if au_AccountID u = [] then u\<lparr>au_AccountID := fst ku\<rparr> else u);
          u = (if au_UpdatedAt u = zero_time then u\<lparr>au_UpdatedAt := now\<rparr> else u)
      in pgExec (\<lambda>d. d\<lparr>db_usage := upsert merge_usage (au_AccountID u) u (db_usage d)\<rparr>))"

definition save_quota :: "time \<Rightarrow> string \<times> QuotaCache \<Rightarrow> Db \<Rightarrow> Db io" where
  "save_quota now kc =
     (let c = snd kc;
          c = (if qc_AccountID c = [] then c\<lparr>qc_AccountID := fst kc\<rparr> else c);
          c = (if qc_UpdatedAt c = zero_time then c\<lparr>qc_UpdatedAt := now\<rparr> else c);
          c = (if qc_Source c = NoSource then c\<lparr>qc_Source := QuotaSourceCloud\<rparr> else c)
      in pgExec (\<lambda>d. d\<lparr>db_quota_cache := upsert merge_quota (qc_AccountID c) c (db_quota_cache d)\<rparr>))"

definition save_meta :: "string \<Rightarrow> bool \<Rightarrow> Db \<Rightarrow> Db io" where
  "save_meta k b d =
     (if b then pgExec (\<lambda>d. d\<lparr>db_meta := upsert merge_meta k ''true'' (db_meta d)\<rparr>) d else returnE d)"

definition save_body :: "'m Manager_scheme \<Rightarrow> time \<Rightarrow> State \<Rightarrow> Db \<Rightarrow> Db io" where
  "save_body M now st d =
     bindE (foldE (save_account M now) (st_Accounts st) d) (\<lambda>d.
     bindE (foldE (save_client now) (st_Clients st) d) (\<lambda>d.
     bindE (foldE (save_user now) (st_Users st) d) (\<lambda>d.
     bindE (foldE (save_session now) (st_Sessions st) d) (\<lambda>d.
     bindE (foldE (save_workspace now) (st_Workspaces st) d) (\<lambda>d.
     bindE (foldE (save_membership now) (st_Memberships st) d) (\<lambda>d.
     bindE (foldE (save_dispatch now) (st_Dispatches st) d) (\<lambda>d.
     bindE (foldE (save_usage now) (st_Usage st) d) (\<lambda>d.
     bindE (foldE (save_quota now) (st_QuotaCache st) d) (\<lambda>d.
     bindE (save_meta ''workspace_migrated'' (st_WorkspaceMigrated st) d) (\<lambda>d.
       save_meta ''user_device_migrated'' (st_UserDeviceMigrated st) d))))))))))"

definition savePostgresState :: "'m Manager_scheme \<Rightarrow> State \<Rightarrow> unit io" where
  "savePostgresState M st =
     bindE nowE (\<lambda>now. pgTx (save_body M now (normalizeState now st)))"

section \<open>Targeted deletes\<close>

definition deletePostgresAccount :: "string \<Rightarrow> unit io" where
  "deletePostgresAccount k = pgTx (\<lambda>d.
     bindE (pgExec (\<lambda>d. d\<lparr>db_usage_events :=
       delete_where (\<lambda>e. ue_AccountID e = k) (db_usage_events d)\<rparr>) d) (\<lambda>d.
     bindE (pgExec (\<lambda>d. d\<lparr>db_usage := AList.delete k (db_usage d)\<rparr>) d) (\<lambda>d.
     bindE (pgExec (\<lambda>d. d\<lparr>db_quota_cache := AList.delete k (db_quota_cache d)\<rparr>) d) (\<lambda>d.
       pgExec (\<lambda>d. d\<lparr>db_accounts := AList.delete k (db_accounts d)\<rparr>) d))))"

definition deletePostgresMembership :: "string \<Rightarrow> string \<Rightarrow> unit io" where
  "deletePostgresMembership w c = bindE stepE (\<lambda>_. bindE stepE (\<lambda>_. modifyE (\<lambda>x. x\<lparr>w_db :=
     (w_db x)\<lparr>db_memberships := AList.delete (w, c) (db_memberships (w_db x))\<rparr>\<rparr>)))"

definition deletePostgresSession :: "string \<Rightarrow> unit io" where
  "deletePostgresSession k = bindE stepE (\<lambda>_. bindE stepE (\<lambda>_. modifyE (\<lambda>x. x\<lparr>w_db :=
     (w_db x)\<lparr>db_sessions := AList.delete k (db_sessions (w_db x))\<rparr>\<rparr>)))"

definition deletePostgresUserSessions :: "string \<Rightarrow> unit io" where
  "deletePostgresUserSessions u = bindE stepE (\<lambda>_. bindE stepE (\<lambda>_. modifyE (\<lambda>x. x\<lparr>w_db :=
     (w_db x)\<lparr>db_sessions := delete_where (\<lambda>s. ses_UserID s = u) (db_sessions (w_db x))\<rparr>\<rparr>)))"

definition deletePostgresDevice :: "string \<Rightarrow> unit io" where
  "deletePostgresDevice k = bindE stepE (\<lambda>_. bindE stepE (\<lambda>_. modifyE (\<lambda>x. x\<lparr>w_db :=
     (w_db x)\<lparr>db_clients := update_row k (\<lambda>c. c\<lparr>cli_RevokedAt := Some (w_now x)\<rparr>)
       (db_clients (w_db x))\<rparr>\<rparr>)))"

section \<open>A save only grows the tables\<close>

text \<open>What one statement or any number of them may do to the tables of a database.\<close>

definition db_grows :: "Db \<Rightarrow> Db \<Rightarrow> bool" where
  "db_grows d d' \<longleftrightarrow>
     table_grows account_le (db_accounts d) (db_accounts d')
     \<and> table_grows client_le (db_clients d) (db_clients d')
     \<and> table_grows user_le (db_users d) (db_users d')
     \<and> table_grows usage_le (db_usage d) (db_usage d')
     \<and> table_grows quota_le (db_quota_cache d) (db_quota_cache d')
     \<and> table_grows (\<lambda>_ _. True) (db_sessions d) (db_sessions d')
     \<and> table_grows (\<lambda>_ _. True) (db_workspaces d) (db_workspaces d')
     \<and> table_grows (\<lambda>_ _. True) (db_memberships d) (db_memberships d')
     \<and> table_grows (\<lambda>_ _. True) (db_dispatches d) (db_dispatches d')
     \<and> table_grows (\<lambda>_ _. True) (db_meta d) (db_meta d')
     \<and> db_usage_events d' = db_usage_events d"

lemma db_grows_refl: "db_grows d d"
  by (simp add: db_grows_def accounts.grows_refl clients.grows_refl users.grows_refl
      usages.grows_refl quotas.grows_refl kept_rows.grows_refl)

lemma db_grows_trans: "db_grows d e \<Longrightarrow> db_grows e f \<Longrightarrow> db_grows d f"
  unfolding db_grows_def
  by (elim conjE, intro conjI; (rule accounts.grows_trans clients.grows_trans users.grows_trans
      usages.grows_trans quotas.grows_trans kept_rows.grows_trans, assumption, assumption | simp))

text \<open>A statement or a body of them in a transaction: it keeps the committed database
  and grows the copy it works on.\<close>

definition grower :: "(Db \<Rightarrow> Db io) \<Rightarrow> bool" where
  "grower f \<longleftrightarrow> (\<forall>d w r w'. f d w = (r, w') \<longrightarrow>
     w_db w' = w_db w \<and> (\<forall>d'. r = Inr d' \<longrightarrow> db_grows d d'))"

lemma growerI:
  "(\<And>d w r w'. f d w = (r, w') \<Longrightarrow> w_db w' = w_db w \<and> (\<forall>d'. r = Inr d' \<longrightarrow> db_grows d d')) \<Longrightarrow> grower f"
  by (simp add: grower_def)

lemma stepE_db: "stepE w = (r, w') \<Longrightarrow> w_db w' = w_db w"
  by (auto simp: stepE_def split: list.splits option.splits)

lemma grower_pgExec: "(\<And>d. db_grows d (s d)) \<Longrightarrow> grower (pgExec s)"
  by (rule growerI) (auto simp: pgExec_def bindE_def dest!: stepE_db split: prod.splits sum.splits)

lemma grower_return: "grower returnE"
  by (rule growerI) (auto simp: db_grows_refl)

lemma grower_throw: "grower (\<lambda>d. throwE e)"
  by (rule growerI) (auto simp: throwE_def)

lemma grower_if: "grower f \<Longrightarrow> grower g \<Longrightarrow> grower (\<lambda>d. if b d then f d else g d)"
  by (simp add: grower_def)

lemma grower_bind: "grower f \<Longrightarrow> grower g \<Longrightarrow> grower (\<lambda>d. bindE (f d) g)"
proof (rule growerI)
  fix d w r w' assume fg: "grower f" "grower g" and r: "bindE (f d) g w = (r, w')"
  obtain r1 w1 where 1: "f d w = (r1, w1)" by fastforce
  show "w_db w' = w_db w \<and> (\<forall>d'. r = Inr d' \<longrightarrow> db_grows d d')"
  proof (cases r1)
    case (Inl e)
    with 1 r fg(1) show ?thesis by (auto simp: grower_def bindE_def)
  next
    case (Inr d1)
    with 1 r have "g d1 w1 = (r, w')" by simp
    with 1 Inr fg show ?thesis unfolding grower_def by (metis db_grows_trans)
  qed
qed

lemma grower_fold: "(\<And>x. grower (f x)) \<Longrightarrow> grower (foldE f xs)"
proof (induction xs)
  case (Cons x xs)
  then show ?case using grower_bind [of "f x" "foldE f xs"] by simp
next
  case Nil
  have "foldE f [] = returnE" by (rule ext) simp
  then show ?case by (simp only: grower_return)
qed

lemma grower_read: "(\<And>x. grower (g x)) \<Longrightarrow> grower (\<lambda>d. bindE (readAccountAuthJSON a) (\<lambda>x. g x d))"
proof (rule growerI)
  fix d w r w' assume g: "\<And>x. grower (g x)"
    and r: "bindE (readAccountAuthJSON a) (\<lambda>x. g x d) w = (r, w')"
  obtain r1 w1 where 1: "readAccountAuthJSON a w = (r1, w1)" by fastforce
  then have "w_db w1 = w_db w"
    by (auto simp: readAccountAuthJSON_def readFile_def bindE_def Let_def dest!: stepE_db
        split: prod.splits sum.splits option.splits content.splits)
  with 1 r g show "w_db w' = w_db w \<and> (\<forall>d'. r = Inr d' \<longrightarrow> db_grows d d')"
    by (cases r1) (auto simp: grower_def bindE_def)
qed

lemma db_grows_tables:
  "db_grows d (d\<lparr>db_accounts := upsert merge_account k1 a (db_accounts d)\<rparr>)"
  "db_grows d (d\<lparr>db_clients := upsert merge_client k2 c (db_clients d)\<rparr>)"
  "db_grows d (d\<lparr>db_users := upsert merge_user k3 u (db_users d)\<rparr>)"
  "db_grows d (d\<lparr>db_sessions := upsert merge_session k4 s (db_sessions d)\<rparr>)"
  "db_grows d (d\<lparr>db_workspaces := upsert merge_workspace k5 x (db_workspaces d)\<rparr>)"
  "db_grows d (d\<lparr>db_memberships := upsert merge_membership k6 m (db_memberships d)\<rparr>)"
  "db_grows d (d\<lparr>db_dispatches := upsert merge_dispatch k7 e (db_dispatches d)\<rparr>)"
  "db_grows d (d\<lparr>db_usage := upsert merge_usage k8 v (db_usage d)\<rparr>)"
  "db_grows d (d\<lparr>db_quota_cache := upsert merge_quota k9 q (db_quota_cache d)\<rparr>)"
  "db_grows d (d\<lparr>db_meta := upsert merge_meta k10 b (db_meta d)\<rparr>)"
  using db_grows_refl [of d] unfolding db_grows_def
  by (simp_all add: accounts.upsert_grows clients.upsert_grows users.upsert_grows
      usages.upsert_grows quotas.upsert_grows kept_rows.upsert_grows)

lemma grower_save_body: "grower (save_body M now st)"
  unfolding save_body_def save_account_def save_client_def save_user_def save_session_def
    save_workspace_def save_membership_def save_dispatch_def save_usage_def save_quota_def
    save_meta_def Let_def
  by (intro grower_bind grower_fold grower_read grower_if grower_return grower_throw grower_pgExec
      db_grows_tables)

lemma pgTx_grows:
  assumes "grower body" "pgTx body w = (r, w')"
  shows "db_grows (w_db w) (w_db w')"
proof -
  obtain r1 w1 where 1: "stepE w = (r1, w1)" by fastforce
  show ?thesis
  proof (cases r1)
    case (Inl e)
    with 1 assms(2) stepE_db [OF 1] show ?thesis by (simp add: pgTx_def db_grows_refl)
  next
    case (Inr u)
    obtain r2 w2 where 2: "body (w_db w1) w1 = (r2, w2)" by fastforce
    obtain r3 w3 where 3: "stepE w2 = (r3, w3)" by fastforce
    have b: "w_db w2 = w_db w" "\<forall>d'. r2 = Inr d' \<longrightarrow> db_grows (w_db w) d'"
      using assms(1) 2 stepE_db [OF 1] unfolding grower_def by metis+
    with 1 2 3 Inr assms(2) stepE_db [OF 3] show ?thesis
      by (cases r2; cases r3) (auto simp: pgTx_def bindE_def db_grows_refl)
  qed
qed

lemma savePostgresState_grows:
  "db_grows (w_db w) (w_db (snd (savePostgresState M st w)))"
proof -
  obtain r w' where "savePostgresState M st w = (r, w')" by fastforce
  then show ?thesis
    using pgTx_grows [OF grower_save_body, of M _ _ w r w'] by (simp add: savePostgresState_def)
qed

section \<open>A save stores what it is given\<close>

text \<open>What a body of statements has established when it succeeds; rows only grow, so
  what one of them establishes about the presence of a row lasts.\<close>

definition yields :: "(Db \<Rightarrow> Db io) \<Rightarrow> (Db \<Rightarrow> bool) \<Rightarrow> bool" where
  "yields f Q \<longleftrightarrow> (\<forall>d w d' w'. f d w = (Inr d', w') \<longrightarrow> Q d')"

definition lasting :: "(Db \<Rightarrow> bool) \<Rightarrow> bool" where
  "lasting Q \<longleftrightarrow> (\<forall>d d'. Q d \<longrightarrow> db_grows d d' \<longrightarrow> Q d')"

lemma yields_later: "yields g Q \<Longrightarrow> yields (\<lambda>d. bindE (f d) g) Q"
  by (auto simp: yields_def bindE_def split: prod.splits sum.splits)

lemma yields_now:
  assumes "yields f Q" "grower g" "lasting Q"
  shows "yields (\<lambda>d. bindE (f d) g) Q"
  unfolding yields_def
proof (intro allI impI)
  fix d w d' w' assume r: "bindE (f d) g w = (Inr d', w')"
  then obtain d1 w1 where "f d w = (Inr d1, w1)" "g d1 w1 = (Inr d', w')"
    by (auto simp: bindE_def split: prod.splits sum.splits)
  with assms show "Q d'" unfolding yields_def lasting_def grower_def by metis
qed

lemma yields_fold:
  assumes "x \<in> set xs" "yields (f x) Q" "\<And>x. grower (f x)" "lasting Q"
  shows "yields (foldE f xs) Q"
  using assms(1)
proof (induction xs)
  case (Cons y ys)
  show ?case
  proof (cases "y = x")
    case True
    then show ?thesis
      using yields_now [OF assms(2) grower_fold [OF assms(3)] assms(4)] by simp
  next
    case False
    with Cons have "yields (foldE f ys) Q" by simp
    from yields_later [OF this, of "f y"] show ?thesis by simp
  qed
qed simp

lemma yields_pgExec: "(\<And>d. Q (s d)) \<Longrightarrow> yields (pgExec s) Q"
  by (auto simp: yields_def pgExec_def bindE_def split: prod.splits sum.splits)

lemma lasting_membership: "lasting (\<lambda>d. map_of (db_memberships d) k \<noteq> None)"
  unfolding lasting_def
proof (intro allI impI)
  fix d d' assume k: "map_of (db_memberships d) k \<noteq> None" and "db_grows d d'"
  then have "table_grows (\<lambda>_ _. True) (db_memberships d) (db_memberships d')"
    by (simp add: db_grows_def)
  with k show "map_of (db_memberships d') k \<noteq> None" unfolding table_grows_def by fastforce
qed

lemma grower_parts:
  "grower (save_account M now a)" "grower (save_client now c)" "grower (save_user now u)"
  "grower (save_session now s)" "grower (save_workspace now x)" "grower (save_membership now m)"
  "grower (save_dispatch now e)" "grower (save_usage now ku)" "grower (save_quota now kc)"
  "grower (save_meta k b)"
  unfolding save_account_def save_client_def save_user_def save_session_def
    save_workspace_def save_membership_def save_dispatch_def save_usage_def save_quota_def
    save_meta_def Let_def
  by (intro grower_bind grower_read grower_if grower_return grower_throw grower_pgExec
      db_grows_tables)+

lemma save_body_membership:
  assumes "m \<in> set (st_Memberships st)" "trim_space (ms_WorkspaceID m) \<noteq> []" "membership_principal m \<noteq> []"
  shows "yields (save_body M now st)
    (\<lambda>d. map_of (db_memberships d) (ms_WorkspaceID m, membership_principal m) \<noteq> None)"
proof -
  let ?Q = "\<lambda>d. map_of (db_memberships d) (ms_WorkspaceID m, membership_principal m) \<noteq> None"
  have "yields (save_membership now m) ?Q"
    using assms(2,3) unfolding save_membership_def
    by (auto intro!: yields_pgExec simp: map_of_upsert)
  then have "yields (foldE (save_membership now) (st_Memberships st)) ?Q"
    by (rule yields_fold [OF assms(1) _ grower_parts(6) lasting_membership])
  then show ?thesis
    unfolding save_body_def
    by (intro yields_later [of _ _ "foldE _ _"] yields_now [OF _ _ lasting_membership] grower_bind
        grower_fold grower_parts)
qed

lemma pgTx_yields:
  assumes "yields body Q" "pgTx body w = (Inr (), w')"
  shows "Q (w_db w')"
proof -
  obtain u w1 where 1: "stepE w = (Inr u, w1)"
    using assms(2) by (cases "stepE w"; cases "fst (stepE w)") (auto simp: pgTx_def)
  obtain d2 w2 where 2: "body (w_db w1) w1 = (Inr d2, w2)"
    using assms(2) 1 by (cases "body (w_db w1) w1"; cases "fst (body (w_db w1) w1)") (auto simp: pgTx_def)
  obtain v w3 where 3: "stepE w2 = (Inr v, w3)"
    using assms(2) 1 2 by (cases "stepE w2"; cases "fst (stepE w2)") (auto simp: pgTx_def)
  have "Q d2" using assms(1) 2 unfolding yields_def by blast
  with 1 2 3 assms(2) show ?thesis by (auto simp: pgTx_def)
qed

lemma savePostgresState_memberships:
  assumes "state_ok st" "savePostgresState M st w = (Inr (), w')"
    and "m \<in> set (st_Memberships st)" "trim_space (ms_WorkspaceID m) \<noteq> []" "membership_principal m \<noteq> []"
  shows "map_of (db_memberships (w_db w')) (ms_WorkspaceID m, membership_principal m) \<noteq> None"
  using pgTx_yields [OF save_body_membership [OF assms(3-5)], of M _ w w'] assms(1,2)
  by (simp add: savePostgresState_def normalizeState_id)

end
