(* ===== verification/Store.thy ===== *)
theory Store
  imports PgStore
begin

text \<open>
  The state store of \<open>internal/manager/manager.go\<close> and the round-robin file of
  \<open>internal/manager/roundrobin.go\<close>. \<open>Load\<close> and \<open>Save\<close> work on \<open>state.json\<close>, or on the
  database when one is configured; a state written is the state read back (its JSON
  encoding is not modelled), normalised. The main facts: what is saved is loaded, a
  save that fails leaves the old state, and neither touches the locks.
\<close>

section \<open>The operations\<close>

definition Ensure :: "'m Manager_scheme \<Rightarrow> unit io" where
  "Ensure M = bindE stepE (\<lambda>_. bindE stepE (\<lambda>_.
     if postgres_mode M then ensurePostgres else returnE ()))"

definition Load :: "'m Manager_scheme \<Rightarrow> State io" where
  "Load M = bindE (Ensure M) (\<lambda>_.
     if postgres_mode M then loadPostgresState M
     else bindE stepE (\<lambda>_. bindE nowE (\<lambda>now. bindE (getsE w_disk) (\<lambda>data.
       case data of
         None \<Rightarrow> returnE (normalizeState now (zero_State\<lparr>st_Version := 1\<rparr>))
       | Some state \<Rightarrow> returnE (normalizeState now state)))))"

text \<open>The temporary file is written, then renamed over \<open>state.json\<close>.\<close>

definition Save :: "'m Manager_scheme \<Rightarrow> State \<Rightarrow> unit io" where
  "Save M state = bindE (Ensure M) (\<lambda>_.
     if postgres_mode M then savePostgresState M state
     else bindE stepE (\<lambda>_. bindE stepE (\<lambda>_.
       modifyE (\<lambda>w. w\<lparr>w_disk := Some (state\<lparr>st_Version := 1\<rparr>)\<rparr>))))"

definition rr_key :: string where "rr_key = ''round_robin_last_account_id''"

definition ResetRoundRobin :: "'m Manager_scheme \<Rightarrow> unit io" where
  "ResetRoundRobin M = bindE (Ensure M) (\<lambda>_.
     if postgres_mode M
     then bindE stepE (\<lambda>_. modifyE (\<lambda>w. w\<lparr>w_db := (w_db w)\<lparr>db_meta :=
            AList.delete rr_key (db_meta (w_db w))\<rparr>\<rparr>))
     else bindE stepE (\<lambda>_. modifyE (\<lambda>w. w\<lparr>w_rr := None\<rparr>)))"

text \<open>The id last handed out, empty when there is none.\<close>

definition loadRoundRobinState :: "'m Manager_scheme \<Rightarrow> string io" where
  "loadRoundRobinState M = bindE (Ensure M) (\<lambda>_.
     if postgres_mode M
     then bindE stepE (\<lambda>_. getsE (\<lambda>w. case map_of (db_meta (w_db w)) rr_key of
            None \<Rightarrow> [] | Some v \<Rightarrow> v))
     else bindE stepE (\<lambda>_. getsE (\<lambda>w. case w_rr w of None \<Rightarrow> [] | Some v \<Rightarrow> v)))"

definition saveRoundRobinState :: "'m Manager_scheme \<Rightarrow> string \<Rightarrow> unit io" where
  "saveRoundRobinState M k = bindE (Ensure M) (\<lambda>_.
     if postgres_mode M
     then bindE stepE (\<lambda>_. modifyE (\<lambda>w. w\<lparr>w_db := (w_db w)\<lparr>db_meta :=
            upsert merge_meta rr_key k (db_meta (w_db w))\<rparr>\<rparr>))
     else bindE stepE (\<lambda>_. bindE stepE (\<lambda>_. modifyE (\<lambda>w. w\<lparr>w_rr := Some k\<rparr>))))"

section \<open>Evaluation in file mode, when no step fails\<close>

text \<open>The state a load in file mode returns.\<close>

definition stored :: "World \<Rightarrow> State" where
  "stored w = normalizeState (w_now w)
     (case w_disk w of None \<Rightarrow> zero_State\<lparr>st_Version := 1\<rparr> | Some st \<Rightarrow> st)"

lemma Ensure_eval: "\<not> postgres_mode M \<Longrightarrow> w_faults w = [] \<Longrightarrow> Ensure M w = (Inr (), w)"
  by (simp add: Ensure_def)

lemma Load_eval: "\<not> postgres_mode M \<Longrightarrow> w_faults w = [] \<Longrightarrow> Load M w = (Inr (stored w), w)"
  by (simp add: Load_def Ensure_eval stored_def split: option.splits)

lemma Save_eval:
  "\<not> postgres_mode M \<Longrightarrow> w_faults w = [] \<Longrightarrow>
   Save M st w = (Inr (), w\<lparr>w_disk := Some (st\<lparr>st_Version := 1\<rparr>)\<rparr>)"
  by (simp add: Save_def Ensure_eval)

lemma stored_Save [simp]:
  "stored (w\<lparr>w_disk := Some st\<rparr>) = normalizeState (w_now w) st"
  by (simp add: stored_def)

lemma state_ok_version: "state_ok st \<Longrightarrow> state_ok (st\<lparr>st_Version := 1\<rparr>)"
  by (simp add: state_ok_def legacyFlatPool_def)

section \<open>In file mode, whatever steps fail\<close>

text \<open>What a step leaves: everything but the outcomes still to come.\<close>

definition same_but_faults :: "World \<Rightarrow> World \<Rightarrow> bool" where
  "same_but_faults w w' \<longleftrightarrow> (\<exists>fs. w' = w\<lparr>w_faults := fs\<rparr>)"

lemma same_refl [simp]: "same_but_faults w w"
  unfolding same_but_faults_def by (rule exI [of _ "w_faults w"]) simp

lemma same_trans: "same_but_faults w w1 \<Longrightarrow> same_but_faults w1 w2 \<Longrightarrow> same_but_faults w w2"
  by (auto simp: same_but_faults_def)

lemma stepE_same: "same_but_faults w (snd (stepE w))"
  by (auto simp: stepE_def same_but_faults_def split: list.splits option.splits
      intro: exI [of _ "[]"])

lemma stepE_D: "stepE w = (r, w') \<Longrightarrow> same_but_faults w w'"
  using stepE_same [of w] by simp

lemma same_fields:
  "same_but_faults w w' \<Longrightarrow>
     w_disk w' = w_disk w \<and> w_rr w' = w_rr w \<and> w_db w' = w_db w \<and> w_files w' = w_files w
     \<and> w_dirs w' = w_dirs w \<and> w_now w' = w_now w \<and> w_rand w' = w_rand w
     \<and> w_mu w' = w_mu w \<and> w_flock w' = w_flock w \<and> w_usage_answers w' = w_usage_answers w
     \<and> w_refresh_answers w' = w_refresh_answers w"
  by (auto simp: same_but_faults_def)

lemma Ensure_same:
  assumes "\<not> postgres_mode M" "Ensure M w = (r, w')"
  shows "same_but_faults w w'"
  using assms by (auto simp: Ensure_def bindE_def split: prod.splits sum.splits
      dest!: stepE_D intro: same_trans)

lemma Load_same:
  assumes "\<not> postgres_mode M" "Load M w = (r, w')"
  shows "same_but_faults w w' \<and> (\<forall>st. r = Inr st \<longrightarrow> st = stored w)"
proof -
  obtain r1 w1 where 1: "Ensure M w = (r1, w1)" by fastforce
  note e = Ensure_same [OF assms(1) 1]
  show ?thesis
  proof (cases r1)
    case (Inl e1)
    with assms(2) 1 e show ?thesis by (auto simp: Load_def)
  next
    case (Inr u)
    obtain r2 w2 where 2: "stepE w1 = (r2, w2)" by fastforce
    have s: "same_but_faults w w2" using e stepE_D [OF 2] by (rule same_trans)
    from assms 1 2 Inr s same_fields [OF s] show ?thesis
      by (cases r2) (auto simp: Load_def stored_def split: option.splits)
  qed
qed

lemma Save_result:
  assumes "\<not> postgres_mode M" "Save M st w = (r, w')"
  shows "(r = Inr () \<and> same_but_faults (w\<lparr>w_disk := Some (st\<lparr>st_Version := 1\<rparr>)\<rparr>) w')
       \<or> (\<exists>e. r = Inl e \<and> same_but_faults w w')"
proof -
  obtain r1 w1 where 1: "Ensure M w = (r1, w1)" by fastforce
  obtain r2 w2 where 2: "stepE w1 = (r2, w2)" by fastforce
  obtain r3 w3 where 3: "stepE w2 = (r3, w3)" by fastforce
  have s1: "same_but_faults w w1" by (rule Ensure_same [OF assms(1) 1])
  have s2: "same_but_faults w w2" using s1 stepE_D [OF 2] by (rule same_trans)
  have s3: "same_but_faults w w3" using s2 stepE_D [OF 3] by (rule same_trans)
  have upd: "same_but_faults (w\<lparr>w_disk := D\<rparr>) (w3\<lparr>w_disk := D\<rparr>)" for D
  proof -
    obtain fs where "w3 = w\<lparr>w_faults := fs\<rparr>" using s3 by (auto simp: same_but_faults_def)
    then have "w3\<lparr>w_disk := D\<rparr> = w\<lparr>w_disk := D\<rparr>\<lparr>w_faults := fs\<rparr>" by simp
    then show ?thesis unfolding same_but_faults_def by blast
  qed
  from assms 1 2 3 s1 s2 s3 upd show ?thesis
    by (cases r1; cases r2; cases r3) (auto simp: Save_def)
qed

section \<open>Read, change, write under the state mutex\<close>

text \<open>
  The shape of most operations of the manager: lock \<open>stateMu\<close>, load the state, decide
  on it, and fail, return without writing, or save a new state and return.
\<close>

datatype 'a outcome = Fail error | Skip 'a | Commit State 'a

definition finish_update :: "(State \<Rightarrow> unit io) \<Rightarrow> 'a outcome \<Rightarrow> 'a io" where
  "finish_update save oc =
     (case oc of
        Fail e \<Rightarrow> throwE e
      | Skip x \<Rightarrow> returnE x
      | Commit st x \<Rightarrow> bindE (save st) (\<lambda>_. returnE x))"

definition locked_update ::
  "State io \<Rightarrow> (State \<Rightarrow> unit io) \<Rightarrow> (time \<Rightarrow> State \<Rightarrow> 'a outcome) \<Rightarrow> 'a io" where
  "locked_update load save f =
     withMu (bindE load (\<lambda>st. bindE nowE (\<lambda>now. finish_update save (f now st))))"

section \<open>Operations and what they leave of the store\<close>

text \<open>
  What is observed of the store, \<open>view\<close>, depends on the state file, the database and the clock only.
  \<open>safe T I m\<close>: operation m, run at the instant T, keeps I of what is observed, whatever steps fail; the
  rules follow the structure of m. \<open>gives T I m Q\<close> says that m, run at the instant T where I holds, leaves with
  its result x a view with Q x, when it returns one.
\<close>

locale framed_view =
  fixes view :: "World \<Rightarrow> 's"
  assumes view_frame: "w_disk w' = w_disk w \<Longrightarrow> w_db w' = w_db w \<Longrightarrow> w_now w' = w_now w \<Longrightarrow> view w' = view w"
begin

lemma view_mu: "view (w\<lparr>w_mu := b\<rparr>) = view w"
  by (rule view_frame) simp_all

definition safe :: "time \<Rightarrow> ('s \<Rightarrow> bool) \<Rightarrow> 'a io \<Rightarrow> bool" where
  "safe T I m \<longleftrightarrow> keeps (\<lambda>w. w_now w = T \<and> I (view w)) m"

lemma safeD: "safe (w_now w) I m \<Longrightarrow> I (view w) \<Longrightarrow> I (view (snd (m w)))"
  using keepsD [of "\<lambda>v. w_now v = w_now w \<and> I (view v)" m w] by (simp add: safe_def)

lemma safe_frame:
  "(\<And>w. w_disk (snd (m w)) = w_disk w \<and> w_db (snd (m w)) = w_db w \<and> w_now (snd (m w)) = w_now w) \<Longrightarrow>
   safe T I m"
  unfolding safe_def by (rule keepsI) (metis view_frame)

lemma safe_now: "safe T I (f T) \<Longrightarrow> safe T I (bindE nowE f)"
  unfolding safe_def keeps_def triple_def by (auto simp: bindE_def nowE_def getsE_def)

lemma safe_bind: "safe T I m \<Longrightarrow> (\<And>x. safe T I (f x)) \<Longrightarrow> safe T I (bindE m f)"
  unfolding safe_def by (rule keeps_bindE)

lemma safe_gets: "(\<And>w. safe T I (f (g w))) \<Longrightarrow> safe T I (bindE (getsE g) f)"
  unfolding safe_def keeps_def triple_def by (auto simp: bindE_def getsE_def)

lemma safe_prims:
  "safe T I (returnE x)" "safe T I (throwE e)" "safe T I (getsE g)" "safe T I nowE" "safe T I stepE"
  "safe T I randE" "safe T I (readFile path)" "safe T I (writeFile path c)" "safe T I (mkdirAll path)"
  "safe T I (removeAll_dir path)" "safe T I unlockMu" "safe T I releaseLock" "safe T I lockMu"
  "safe T I (acquireLock M)"
  by (rule safe_frame; auto simp: io_defs readFile_def writeFile_def mkdirAll_def removeAll_dir_def
      split: list.splits option.splits sum.splits prod.splits)+

lemma safe_try: "safe T I m \<Longrightarrow> safe T I (tryE m)"
  and safe_ignore: "safe T I m \<Longrightarrow> safe T I (ignoreE m)"
  and safe_defer: "safe T I m \<Longrightarrow> safe T I g \<Longrightarrow> safe T I (deferE m g)"
  unfolding safe_def by (simp_all add: keeps_tryE keeps_ignoreE keeps_deferE)

lemma safe_when: "safe T I m \<Longrightarrow> safe T I (whenE b m)"
  unfolding safe_def by (rule keeps_whenE)

lemma safe_withMu: "safe T I m \<Longrightarrow> safe T I (withMu m)"
  unfolding withMu_def by (intro safe_bind safe_defer safe_prims)

lemma safe_withFlock: "safe T I m \<Longrightarrow> safe T I (withFlock M m)"
  unfolding withFlock_def by (intro safe_bind safe_defer safe_prims)

lemma safe_if: "(b \<Longrightarrow> safe T I m) \<Longrightarrow> (\<not> b \<Longrightarrow> safe T I n) \<Longrightarrow> safe T I (if b then m else n)"
  by simp

lemma safe_option:
  "(r = None \<Longrightarrow> safe T I m) \<Longrightarrow> (\<And>x. r = Some x \<Longrightarrow> safe T I (f x)) \<Longrightarrow>
   safe T I (case r of None \<Rightarrow> m | Some x \<Rightarrow> f x)"
  by (cases r) simp_all

lemma safe_sum:
  "(\<And>e. r = Inl e \<Longrightarrow> safe T I (g e)) \<Longrightarrow> (\<And>x. r = Inr x \<Longrightarrow> safe T I (f x)) \<Longrightarrow>
   safe T I (case r of Inl e \<Rightarrow> g e | Inr x \<Rightarrow> f x)"
  by (cases r) simp_all

lemma safe_prod: "(\<And>x y. r = (x, y) \<Longrightarrow> safe T I (f x y)) \<Longrightarrow> safe T I (case r of (x, y) \<Rightarrow> f x y)"
  by (cases r) simp

lemma safe_Let: "(\<And>x. x = v \<Longrightarrow> safe T I (f x)) \<Longrightarrow> safe T I (Let v f)"
  by simp

lemma safe_mapM: "(\<And>x. safe T I (f x)) \<Longrightarrow> safe T I (mapM_E f xs)"
  unfolding safe_def by (rule keeps_mapM_E)

lemma safe_copyFile: "safe T I (copyFile source target)"
  unfolding copyFile_def by (intro safe_bind safe_option safe_prims)

lemmas safe_intros = safe_prims safe_try safe_ignore safe_defer safe_when safe_withMu safe_withFlock
  safe_if safe_option safe_sum safe_prod safe_Let safe_mapM safe_copyFile

definition gives :: "time \<Rightarrow> ('s \<Rightarrow> bool) \<Rightarrow> 'a io \<Rightarrow> ('a \<Rightarrow> 's \<Rightarrow> bool) \<Rightarrow> bool" where
  "gives T I m Q \<longleftrightarrow> (\<forall>w x w'. w_now w = T \<longrightarrow> I (view w) \<longrightarrow> m w = (Inr x, w') \<longrightarrow>
     w_now w' = T \<and> Q x (view w'))"

lemma givesD:
  "gives T I m Q \<Longrightarrow> w_now w = T \<Longrightarrow> I (view w) \<Longrightarrow> m w = (Inr x, w') \<Longrightarrow> w_now w' = T \<and> Q x (view w')"
  unfolding gives_def by blast

lemma gives_safe:
  assumes "safe T I m" "\<And>x s. I s \<Longrightarrow> Q x s"
  shows "gives T I m Q"
  unfolding gives_def
proof (intro allI impI)
  fix w x w' assume w: "w_now w = T" "I (view w)" "m w = (Inr x, w')"
  have "w_now (snd (m w)) = T \<and> I (view (snd (m w)))"
    by (rule keepsD [OF assms(1) [unfolded safe_def]]) (use w in blast)
  then show "w_now w' = T \<and> Q x (view w')" by (simp add: w(3) assms(2))
qed

lemma gives_conseq:
  "gives T I m Q \<Longrightarrow> (\<And>s. I' s \<Longrightarrow> I s) \<Longrightarrow> (\<And>x s. Q x s \<Longrightarrow> Q' x s) \<Longrightarrow> gives T I' m Q'"
  unfolding gives_def by blast

lemma gives_bind:
  assumes "gives T I m R" "\<And>x. gives T (R x) (f x) Q"
  shows "gives T I (bindE m f) Q"
  unfolding gives_def
proof (intro allI impI)
  fix w y w' assume w: "w_now w = T" "I (view w)" "bindE m f w = (Inr y, w')"
  obtain x w1 where 1: "m w = (Inr x, w1)" "f x w1 = (Inr y, w')"
    using w(3) by (rule bindE_InrE)
  from givesD [OF assms(1) w(1,2) 1(1)] have "w_now w1 = T" "R x (view w1)" by simp_all
  from givesD [OF assms(2) this 1(2)] show "w_now w' = T \<and> Q y (view w')" .
qed

lemma gives_safe_bind:
  assumes "safe T I m" "\<And>x. gives T I (f x) Q"
  shows "gives T I (bindE m f) Q"
  by (rule gives_bind [OF gives_safe [OF assms(1)] assms(2)])

lemma gives_gets:
  assumes "\<And>w. w_now w = T \<Longrightarrow> gives T I (f (g w)) Q"
  shows "gives T I (bindE (getsE g) f) Q"
  unfolding gives_def
proof (intro allI impI)
  fix w x w' assume w: "w_now w = T" "I (view w)" "bindE (getsE g) f w = (Inr x, w')"
  from w(3) have "f (g w) w = (Inr x, w')" by (simp add: bindE_def getsE_def)
  with assms [OF w(1)] w(1,2) show "w_now w' = T \<and> Q x (view w')" by (rule givesD)
qed

lemma gives_now: "gives T I (f T) Q \<Longrightarrow> gives T I (bindE nowE f) Q"
  unfolding nowE_def by (rule gives_gets) simp

lemma gives_return: "(\<And>s. I s \<Longrightarrow> Q x s) \<Longrightarrow> gives T I (returnE x) Q"
  by (simp add: gives_def returnE_def)

lemma gives_throw: "gives T I (throwE e) Q"
  by (simp add: gives_def throwE_def)

lemma gives_then_throw: "gives T I (bindE m (\<lambda>_. throwE e)) Q"
  unfolding gives_def by (auto elim!: bindE_InrE simp: throwE_def)

lemma gives_pure: "(P \<Longrightarrow> gives T I m Q) \<Longrightarrow> gives T (\<lambda>s. I s \<and> P) m Q"
  unfolding gives_def by blast

lemma gives_if: "(b \<Longrightarrow> gives T I m Q) \<Longrightarrow> (\<not> b \<Longrightarrow> gives T I n Q) \<Longrightarrow> gives T I (if b then m else n) Q"
  by simp

lemma gives_option:
  "(r = None \<Longrightarrow> gives T I m Q) \<Longrightarrow> (\<And>x. r = Some x \<Longrightarrow> gives T I (f x) Q) \<Longrightarrow>
   gives T I (case r of None \<Rightarrow> m | Some x \<Rightarrow> f x) Q"
  by (cases r) simp_all

lemma gives_sum:
  "(\<And>e. r = Inl e \<Longrightarrow> gives T I (g e) Q) \<Longrightarrow> (\<And>x. r = Inr x \<Longrightarrow> gives T I (f x) Q) \<Longrightarrow>
   gives T I (case r of Inl e \<Rightarrow> g e | Inr x \<Rightarrow> f x) Q"
  by (cases r) simp_all

lemma gives_prod:
  "(\<And>x y. r = (x, y) \<Longrightarrow> gives T I (f x y) Q) \<Longrightarrow> gives T I (case r of (x, y) \<Rightarrow> f x y) Q"
  by (cases r) simp

lemma gives_Let: "(\<And>x. x = v \<Longrightarrow> gives T I (f x) Q) \<Longrightarrow> gives T I (Let v f) Q"
  by simp

lemma gives_defer:
  assumes "gives T I m Q" "\<And>J. safe T J g"
  shows "gives T I (deferE m g) Q"
  unfolding gives_def
proof (intro allI impI)
  fix w x w' assume w: "w_now w = T" "I (view w)" "deferE m g w = (Inr x, w')"
  obtain w1 where 1: "m w = (Inr x, w1)" "w' = snd (g w1)" using w(3) by (rule deferE_E)
  note q = givesD [OF assms(1) w(1,2) 1(1)]
  from safeD [of w1 "Q x" g] keepsD [OF assms(2) [of "\<lambda>_. True", unfolded safe_def], of w1] q 1(2) assms(2)
  show "w_now w' = T \<and> Q x (view w')" by auto
qed

lemma gives_withMu: "gives T I m Q \<Longrightarrow> gives T I (withMu m) Q"
  unfolding withMu_def by (intro gives_safe_bind gives_defer safe_prims)

lemma gives_withFlock: "gives T I m Q \<Longrightarrow> gives T I (withFlock M m) Q"
  unfolding withFlock_def by (intro gives_safe_bind gives_defer safe_prims)

end

text \<open>
  The store as its clients see it: \<open>view\<close> is the state a load returns. A load
  changes nothing, a save that succeeds makes its argument the state (normalised),
  and one that fails leaves the state alone. \<open>ready\<close> is the mode the laws hold in.
\<close>

locale state_store = framed_view view for view :: "World \<Rightarrow> State" +
  fixes ready :: bool and load :: "State io" and save :: "State \<Rightarrow> unit io"
  assumes load_ok: "ready \<Longrightarrow> load w = (Inr st, w') \<Longrightarrow> st = view w"
    and load_view: "ready \<Longrightarrow> load w = (r, w') \<Longrightarrow> view w' = view w"
    and load_frame: "ready \<Longrightarrow> load w = (r, w') \<Longrightarrow>
      w_mu w' = w_mu w \<and> w_flock w' = w_flock w \<and> w_now w' = w_now w \<and> w_files w' = w_files w"
    and save_ok: "ready \<Longrightarrow> save st w = (Inr (), w') \<Longrightarrow>
      view w' = normalizeState (w_now w) (st\<lparr>st_Version := 1\<rparr>)"
    and save_err: "ready \<Longrightarrow> save st w = (Inl e, w') \<Longrightarrow> view w' = view w"
    and save_frame: "ready \<Longrightarrow> save st w = (s, w') \<Longrightarrow>
      w_mu w' = w_mu w \<and> w_flock w' = w_flock w \<and> w_now w' = w_now w \<and> w_files w' = w_files w"
begin

definition updated :: "(time \<Rightarrow> State \<Rightarrow> 'a outcome) \<Rightarrow> World \<Rightarrow> error + 'a \<Rightarrow> World \<Rightarrow> bool" where
  "updated f w r w' \<longleftrightarrow>
     w_mu w' = w_mu w \<and> w_flock w' = w_flock w \<and> w_now w' = w_now w \<and> w_files w' = w_files w
     \<and> (case r of
          Inl e \<Rightarrow> view w' = view w
        | Inr x \<Rightarrow>
            (f (w_now w) (view w) = Skip x \<and> view w' = view w)
            \<or> (\<exists>st. f (w_now w) (view w) = Commit st x
                  \<and> view w' = normalizeState (w_now w) (st\<lparr>st_Version := 1\<rparr>)))"

lemma body_updated:
  assumes "ready" "bindE load (\<lambda>st. bindE nowE (\<lambda>now. finish_update save (f now st))) w = (r, w')"
  shows "updated f w r w'"
proof -
  obtain r1 w1 where 1: "load w = (r1, w1)" by fastforce
  note v = load_view [OF assms(1) 1] and fr = load_frame [OF assms(1) 1]
  show ?thesis
  proof (cases r1)
    case (Inl e)
    with 1 assms(2) v fr show ?thesis by (auto simp: updated_def)
  next
    case (Inr st)
    with 1 load_ok [OF assms(1), of w st w1] have st: "st = view w" by simp
    from assms(2) 1 Inr have r: "finish_update save (f (w_now w) st) w1 = (r, w')"
      using fr by simp
    show ?thesis
    proof (cases "f (w_now w) st")
      case (Commit st' x)
      obtain r2 w2 where 2: "save st' w1 = (r2, w2)" by fastforce
      note fr2 = save_frame [OF assms(1) 2]
      show ?thesis
        using r 2 Commit st fr fr2 v save_err [OF assms(1), of st' w1] save_ok [OF assms(1), of st' w1]
        by (cases r2) (auto simp: finish_update_def updated_def)
    qed (use r st v fr in \<open>auto simp: finish_update_def updated_def\<close>)
  qed
qed

lemma locked_update:
  assumes "ready" "locked_update load save f w = (r, w')"
  shows "(w_mu w \<and> r = Inl Deadlock \<and> w' = w) \<or> (\<not> w_mu w \<and> updated f w r w')"
proof (cases "w_mu w")
  case True
  with assms(2) show ?thesis by (auto simp: locked_update_def withMu_def lockMu_def bindE_def)
next
  case False
  obtain r1 w1 where 1: "bindE load (\<lambda>st. bindE nowE (\<lambda>now. finish_update save (f now st)))
      (w\<lparr>w_mu := True\<rparr>) = (r1, w1)" by fastforce
  from body_updated [OF assms(1) 1] have u: "updated f (w\<lparr>w_mu := True\<rparr>) r1 w1" .
  from assms(2) False 1 have "r = r1" "w' = w1\<lparr>w_mu := False\<rparr>"
    by (simp_all add: locked_update_def withMu_def deferE_def unlockMu_def)
  with u False show ?thesis by (auto simp: updated_def view_mu split: sum.splits)
qed

text \<open>
  Invariants of the state: a loaded state has I, and a state with I may be saved, when normalising keeps I.
\<close>

definition norm_closed :: "(State \<Rightarrow> bool) \<Rightarrow> bool" where
  "norm_closed I \<longleftrightarrow> (\<forall>now st. I st \<longrightarrow> I (normalizeState now (st\<lparr>st_Version := 1\<rparr>)))"

lemma safe_load:
  assumes "ready" "\<And>st. I st \<Longrightarrow> safe T I (f st)"
  shows "safe T I (bindE load f)"
  unfolding safe_def
proof (rule keepsI)
  fix w assume I: "w_now w = T \<and> I (view w)"
  obtain r w1 where 1: "load w = (r, w1)" by fastforce
  have v: "w_now w1 = T \<and> I (view w1)"
    using load_view [OF assms(1) 1] load_frame [OF assms(1) 1] I by simp
  show "w_now (snd (bindE load f w)) = T \<and> I (view (snd (bindE load f w)))"
  proof (cases r)
    case (Inl e)
    with 1 v show ?thesis by simp
  next
    case (Inr st)
    with 1 load_ok [OF assms(1), of w st w1] have "st = view w" by simp
    with I assms(2) have "keeps (\<lambda>w. w_now w = T \<and> I (view w)) (f st)" by (simp add: safe_def)
    from keepsD [OF this, of w1] v 1 Inr show ?thesis by simp
  qed
qed

lemma safe_save:
  assumes "ready" "norm_closed I" "I st"
  shows "safe T I (save st)"
  unfolding safe_def
proof (rule keepsI)
  fix w assume I: "w_now w = T \<and> I (view w)"
  obtain r w1 where 1: "save st w = (r, w1)" by fastforce
  note fr = save_frame [OF assms(1) 1]
  show "w_now (snd (save st w)) = T \<and> I (view (snd (save st w)))"
  proof (cases r)
    case (Inl e)
    with 1 save_err [OF assms(1), of st w e w1] I fr show ?thesis by simp
  next
    case (Inr u)
    with 1 save_ok [OF assms(1), of st w w1] assms(2,3) I fr show ?thesis by (simp add: norm_closed_def)
  qed
qed

lemma safe_update:
  assumes "ready" "norm_closed I" "\<And>st st' x. I st \<Longrightarrow> f T st = Commit st' x \<Longrightarrow> I st'"
  shows "safe T I (locked_update load save f)"
  unfolding locked_update_def
proof (intro safe_withMu safe_load [OF assms(1)] safe_now)
  fix st assume "I st"
  with assms(3) show "safe T I (finish_update save (f T st))"
    by (cases "f T st")
      (auto simp: finish_update_def intro!: safe_bind safe_prims safe_save [OF assms(1,2)])
qed

lemma gives_load:
  assumes "ready" "\<And>st. I st \<Longrightarrow> gives T (\<lambda>s. s = st) (f st) Q"
  shows "gives T I (bindE load f) Q"
  unfolding gives_def
proof (intro allI impI)
  fix w y w' assume w: "w_now w = T" "I (view w)" "bindE load f w = (Inr y, w')"
  obtain st w1 where 1: "load w = (Inr st, w1)" "f st w1 = (Inr y, w')"
    using w(3) by (rule bindE_InrE)
  note v = load_ok [OF assms(1) 1(1)] load_view [OF assms(1) 1(1)] load_frame [OF assms(1) 1(1)]
  from givesD [OF assms(2) _ _ 1(2)] w v show "w_now w' = T \<and> Q y (view w')" by simp
qed

lemma gives_save:
  assumes "ready" "Q () (normalizeState T (st\<lparr>st_Version := 1\<rparr>))"
  shows "gives T I (save st) Q"
  unfolding gives_def
proof (intro allI impI)
  fix w x w' assume w: "w_now w = T" "I (view w)" "save st w = (Inr x, w')"
  from w(3) have s: "save st w = (Inr (), w')" by simp
  from save_ok [OF assms(1) s] save_frame [OF assms(1) s] w(1) assms(2)
  show "w_now w' = T \<and> Q x (view w')" by simp
qed

lemmas gives_intros = gives_load gives_now gives_withMu gives_withFlock gives_gets gives_return
  gives_throw gives_if gives_option gives_sum gives_prod gives_Let

end

text \<open>The manager in file mode is such a store.\<close>

interpretation file_store: state_store stored "\<not> postgres_mode M" "Load M" "Save M"
  for M :: "'m Manager_scheme"
proof unfold_locales
  fix w st w' r e s b
  assume m: "\<not> postgres_mode M"
  show "st = stored w" if "Load M w = (Inr st, w')"
    using Load_same [OF m that] by simp
  show "stored w' = stored w" "w_mu w' = w_mu w \<and> w_flock w' = w_flock w \<and> w_now w' = w_now w
      \<and> w_files w' = w_files w" if "Load M w = (r, w')"
    using Load_same [OF m that] same_fields [of w w'] by (simp_all add: stored_def)
  show "stored w' = normalizeState (w_now w) (st\<lparr>st_Version := 1\<rparr>)" if "Save M st w = (Inr (), w')"
    using Save_result [OF m that] same_fields [of "w\<lparr>w_disk := Some (st\<lparr>st_Version := 1\<rparr>)\<rparr>" w']
    by (auto simp: stored_def)
  show "stored w' = stored w" if "Save M st w = (Inl e, w')"
    using Save_result [OF m that] same_fields [of w w'] by (auto simp: stored_def)
  show "w_mu w' = w_mu w \<and> w_flock w' = w_flock w \<and> w_now w' = w_now w
      \<and> w_files w' = w_files w" if "Save M st w = (s, w')"
    using Save_result [OF m that] same_fields [of w w']
      same_fields [of "w\<lparr>w_disk := Some (st\<lparr>st_Version := 1\<rparr>)\<rparr>" w'] by auto
next
  fix w w' :: World
  assume "w_disk w' = w_disk w" "w_now w' = w_now w"
  then show "stored w' = stored w" by (simp add: stored_def)
qed

abbreviation update_state :: "'m Manager_scheme \<Rightarrow> (time \<Rightarrow> State \<Rightarrow> 'a outcome) \<Rightarrow> 'a io" where
  "update_state M \<equiv> locked_update (Load M) (Save M)"

text \<open>Operations that keep an invariant of the stored state, in file mode.\<close>

abbreviation safe_op :: "time \<Rightarrow> (State \<Rightarrow> bool) \<Rightarrow> 'a io \<Rightarrow> bool" where
  "safe_op \<equiv> framed_view.safe stored"

abbreviation gives_op :: "time \<Rightarrow> (State \<Rightarrow> bool) \<Rightarrow> 'a io \<Rightarrow> ('a \<Rightarrow> State \<Rightarrow> bool) \<Rightarrow> bool" where
  "gives_op \<equiv> framed_view.gives stored"

abbreviation norm_closed :: "(State \<Rightarrow> bool) \<Rightarrow> bool" where
  "norm_closed \<equiv> state_store.norm_closed"

lemma safe_Ensure: "\<not> postgres_mode M \<Longrightarrow> safe_op T I (Ensure M)"
  by (simp add: Ensure_def file_store.safe_bind file_store.safe_prims)

lemma safe_Load:
  assumes "\<not> postgres_mode M"
  shows "safe_op T I (Load M)"
  unfolding file_store.safe_def
proof (rule keepsI)
  fix w assume "w_now w = T \<and> I (stored w)"
  then show "w_now (snd (Load M w)) = T \<and> I (stored (snd (Load M w)))"
    using file_store.load_view [OF assms, of w "fst (Load M w)" "snd (Load M w)"]
      file_store.load_frame [OF assms, of w "fst (Load M w)" "snd (Load M w)"] by simp
qed

lemma safe_rr:
  assumes "\<not> postgres_mode M"
  shows "safe_op T I (ResetRoundRobin M)" "safe_op T I (loadRoundRobinState M)"
    "safe_op T I (saveRoundRobinState M k)"
proof -
  have "safe_op T I (modifyE (\<lambda>w. w\<lparr>w_rr := v\<rparr>))" for v
    by (rule file_store.safe_frame) (simp add: modifyE_def)
  with assms show "safe_op T I (ResetRoundRobin M)" "safe_op T I (loadRoundRobinState M)"
    "safe_op T I (saveRoundRobinState M k)"
    by (simp_all add: ResetRoundRobin_def loadRoundRobinState_def saveRoundRobinState_def
        file_store.safe_bind file_store.safe_prims safe_Ensure)
qed

lemmas safe_ops = file_store.safe_intros file_store.safe_load file_store.safe_now file_store.safe_gets
  file_store.safe_save
  safe_Ensure safe_rr
  file_store.safe_bind file_store.safe_update

lemma safe_step:
  "safe_op T I m \<Longrightarrow> w_now w = T \<Longrightarrow> I (stored w) \<Longrightarrow> w_now (snd (m w)) = T \<and> I (stored (snd (m w)))"
  unfolding file_store.safe_def by (drule keepsD) auto

lemma norm_closedI: "(\<And>now st. I st \<Longrightarrow> I (normalizeState now (st\<lparr>st_Version := 1\<rparr>))) \<Longrightarrow> norm_closed I"
  by (simp add: file_store.norm_closed_def)

end
