(* ===== verification/Go_Sort.thy ===== *)
theory Go_Sort
  imports Prelude
begin

text \<open>
  \<open>sort.Slice\<close>. Up to twelve elements Go sorts by straight insertion, from the
  left, moving an element down while it is less than its left neighbour; that
  is the definition here. What the callers may rely on is stated as a locale,
  and the facts they use are proved from the locale alone, so they hold of any
  other sort with the same contract.
\<close>

fun ins_back :: "('a \<Rightarrow> 'a \<Rightarrow> bool) \<Rightarrow> 'a \<Rightarrow> 'a list \<Rightarrow> 'a list" where
  "ins_back lt x [] = [x]"
| "ins_back lt x (y # ys) = (if lt x y then y # ins_back lt x ys else x # y # ys)"

definition sort_slice :: "('a \<Rightarrow> 'a \<Rightarrow> bool) \<Rightarrow> 'a list \<Rightarrow> 'a list" where
  "sort_slice lt xs = rev (fold (ins_back lt) xs [])"

text \<open>What makes a comparison usable for sorting: a strict weak order.\<close>

definition strict_weak :: "('a \<Rightarrow> 'a \<Rightarrow> bool) \<Rightarrow> bool" where
  "strict_weak lt \<longleftrightarrow>
     (\<forall>x y. lt x y \<longrightarrow> \<not> lt y x) \<and>
     (\<forall>x y z. \<not> lt x y \<longrightarrow> \<not> lt y z \<longrightarrow> \<not> lt x z)"

lemma strict_weak_asym: "strict_weak lt \<Longrightarrow> lt x y \<Longrightarrow> \<not> lt y x"
  unfolding strict_weak_def by blast

lemma strict_weak_negtrans: "strict_weak lt \<Longrightarrow> \<not> lt x y \<Longrightarrow> \<not> lt y z \<Longrightarrow> \<not> lt x z"
  unfolding strict_weak_def by blast

text \<open>The same within a set: what a comparison must be on the elements to sort.\<close>

definition strict_weak_on :: "'a set \<Rightarrow> ('a \<Rightarrow> 'a \<Rightarrow> bool) \<Rightarrow> bool" where
  "strict_weak_on S lt \<longleftrightarrow>
     (\<forall>x \<in> S. \<forall>y \<in> S. lt x y \<longrightarrow> \<not> lt y x) \<and>
     (\<forall>x \<in> S. \<forall>y \<in> S. \<forall>z \<in> S. \<not> lt x y \<longrightarrow> \<not> lt y z \<longrightarrow> \<not> lt x z)"

lemma strict_weak_on_extend:
  assumes "strict_weak_on S lt"
  shows "strict_weak (\<lambda>x y. (x \<in> S \<and> y \<in> S \<and> lt x y) \<or> (x \<in> S \<and> y \<notin> S))"
  using assms unfolding strict_weak_def strict_weak_on_def by blast

locale sort_contract =
  fixes srt :: "('a \<Rightarrow> 'a \<Rightarrow> bool) \<Rightarrow> 'a list \<Rightarrow> 'a list"
  assumes srt_mset: "mset (srt lt xs) = mset xs"
    and srt_sorted: "strict_weak lt \<Longrightarrow> sorted_wrt (\<lambda>x y. \<not> lt y x) (srt lt xs)"
    and srt_cong: "(\<And>x y. x \<in> set xs \<Longrightarrow> y \<in> set xs \<Longrightarrow> lt x y = lt' x y) \<Longrightarrow> srt lt xs = srt lt' xs"
begin

lemma srt_set [simp]: "set (srt lt xs) = set xs"
  by (metis mset_eq_setD srt_mset)

lemma srt_length [simp]: "length (srt lt xs) = length xs"
  by (metis size_mset srt_mset)

lemma srt_sorted_on:
  assumes "strict_weak_on (set xs) lt"
  shows "sorted_wrt (\<lambda>x y. \<not> lt y x) (srt lt xs)"
proof -
  let ?lt = "\<lambda>x y. (x \<in> set xs \<and> y \<in> set xs \<and> lt x y) \<or> (x \<in> set xs \<and> y \<notin> set xs)"
  have "srt lt xs = srt ?lt xs" by (rule srt_cong) auto
  moreover have "sorted_wrt (\<lambda>x y. \<not> ?lt y x) (srt ?lt xs)"
    by (rule srt_sorted [OF strict_weak_on_extend [OF assms]])
  ultimately have "sorted_wrt (\<lambda>x y. \<not> ?lt y x) (srt lt xs)" by simp
  then show ?thesis
    by (rule sorted_wrt_mono_rel [rotated]) simp
qed

lemma srt_Nil_iff [simp]: "srt lt xs = [] \<longleftrightarrow> xs = []"
  by (metis length_0_conv srt_length)

lemma srt_distinct [simp]: "distinct (srt lt xs) \<longleftrightarrow> distinct xs"
  by (metis mset_eq_imp_distinct_iff srt_mset)

lemma srt_distinct_keys: "distinct (map f (srt lt xs)) \<longleftrightarrow> distinct (map f xs)"
  by (metis mset_eq_imp_distinct_iff mset_map srt_mset)

lemma srt_hd_least:
  assumes "strict_weak lt" "x \<in> set xs" "xs \<noteq> []"
  shows "\<not> lt x (hd (srt lt xs))"
proof (cases "srt lt xs")
  case Nil
  with assms(3) show ?thesis by simp
next
  case (Cons y ys)
  with assms(2) have "x = y \<or> x \<in> set ys" by (metis set_ConsD srt_set)
  moreover have "\<not> lt y y" using strict_weak_asym [OF assms(1)] by blast
  moreover have "\<forall>z \<in> set ys. \<not> lt z y"
    using srt_sorted [OF assms(1), of xs] Cons by simp
  ultimately show ?thesis using Cons by auto
qed

end

lemma mset_ins_back: "mset (ins_back lt x ys) = add_mset x (mset ys)"
  by (induction ys) auto

lemma mset_fold_ins_back: "mset (fold (ins_back lt) xs ys) = mset xs + mset ys"
  by (induction xs arbitrary: ys) (auto simp: mset_ins_back)

lemma set_ins_back [simp]: "set (ins_back lt x ys) = insert x (set ys)"
  by (metis mset_ins_back set_mset_add_mset_insert set_mset_mset)

lemma ins_back_sorted:
  assumes "strict_weak lt" "sorted_wrt (\<lambda>x y. \<not> lt x y) ys"
  shows "sorted_wrt (\<lambda>x y. \<not> lt x y) (ins_back lt x ys)"
  using assms(2)
proof (induction ys)
  case Nil
  then show ?case by simp
next
  case (Cons y ys)
  show ?case
  proof (cases "lt x y")
    case True
    with assms(1) have "\<not> lt y x" by (rule strict_weak_asym)
    with Cons True show ?thesis by auto
  next
    case False
    then have "\<not> lt x z" if "z \<in> set ys" for z
      using Cons.prems that strict_weak_negtrans [OF assms(1)] by (meson sorted_wrt.simps(2))
    with Cons.prems False show ?thesis by simp
  qed
qed

lemma fold_ins_back_sorted:
  assumes "strict_weak lt"
  shows "sorted_wrt (\<lambda>x y. \<not> lt x y) ys \<Longrightarrow>
    sorted_wrt (\<lambda>x y. \<not> lt x y) (fold (ins_back lt) xs ys)"
  by (induction xs arbitrary: ys) (auto intro: ins_back_sorted [OF assms])

lemma ins_back_cong:
  "(\<And>y. y \<in> set ys \<Longrightarrow> lt x y = lt' x y) \<Longrightarrow> ins_back lt x ys = ins_back lt' x ys"
  by (induction ys) auto

lemma fold_ins_back_cong:
  "(\<And>x y. x \<in> set xs \<union> set ys \<Longrightarrow> y \<in> set xs \<union> set ys \<Longrightarrow> lt x y = lt' x y) \<Longrightarrow>
   fold (ins_back lt) xs ys = fold (ins_back lt') xs ys"
proof (induction xs arbitrary: ys)
  case (Cons x xs)
  have "ins_back lt x ys = ins_back lt' x ys" by (rule ins_back_cong) (simp add: Cons.prems)
  moreover have "fold (ins_back lt) xs (ins_back lt x ys) = fold (ins_back lt') xs (ins_back lt x ys)"
    by (rule Cons.IH) (auto intro!: Cons.prems)
  ultimately show ?case by simp
qed simp

interpretation go_sort: sort_contract sort_slice
proof (unfold_locales, goal_cases)
  case (1 lt xs)
  then show ?case by (simp add: sort_slice_def mset_fold_ins_back)
next
  case (2 lt xs)
  then show ?case
    unfolding sort_slice_def sorted_wrt_rev
    by (intro fold_ins_back_sorted) simp_all
next
  case (3 xs lt lt')
  have "fold (ins_back lt) xs [] = fold (ins_back lt') xs []"
    by (rule fold_ins_back_cong) (simp add: 3)
  then show ?case by (simp add: sort_slice_def)
qed

text \<open>
  Even when the comparison is not transitive, insertion leaves no neighbours in
  the wrong order, as long as no two elements are each less than the other.
\<close>

lemma successively_ins_back:
  assumes asym: "\<And>x y. lt x y \<Longrightarrow> \<not> lt y x"
    and "successively (\<lambda>x y. \<not> lt x y) ys"
  shows "successively (\<lambda>x y. \<not> lt x y) (ins_back lt x ys)"
  using assms(2)
proof (induction ys)
  case Nil
  then show ?case by simp
next
  case (Cons y ys)
  then show ?case using asym by (cases ys) auto
qed

lemma successively_fold_ins_back:
  assumes "\<And>x y. lt x y \<Longrightarrow> \<not> lt y x"
  shows "successively (\<lambda>x y. \<not> lt x y) ys \<Longrightarrow>
    successively (\<lambda>x y. \<not> lt x y) (fold (ins_back lt) xs ys)"
proof (induction xs arbitrary: ys)
  case Nil
  then show ?case by simp
next
  case (Cons x xs)
  from successively_ins_back [OF assms Cons.prems] show ?case
    by (simp add: Cons.IH)
qed

lemma sort_slice_adjacent:
  assumes "\<And>x y. lt x y \<Longrightarrow> \<not> lt y x"
  shows "successively (\<lambda>x y. \<not> lt y x) (sort_slice lt xs)"
  unfolding sort_slice_def successively_rev
  by (rule successively_fold_ins_back [OF assms]) simp_all

end
