(* ===== verification/Dispatch.thy ===== *)
theory Dispatch
  imports Store Go_Sort
begin

text \<open>
  The audit trail of leases, in \<open>internal/manager/usage.go\<close>: the event made of an
  account's lease, the bounded newest-first list it is put in, and the history that is
  read back. The main facts: the list holds each event id once and at most 200 events,
  the newest first, and an event names the device's owner.
\<close>

definition clientLabelFromState :: "State \<Rightarrow> string \<Rightarrow> string" where
  "clientLabelFromState st clientID =
     (let clientID = trim_space clientID in
      if clientID = [] then []
      else case find (\<lambda>c. cli_ID c = clientID) (st_Clients st) of
          None \<Rightarrow> [] | Some c \<Rightarrow> cli_Label c)"

text \<open>\<open>UnixNano\<close>, which wraps at 64 bits.\<close>

definition unix_nano :: "time \<Rightarrow> int" where
  "unix_nano t = wrap64 (t - unix_time 0)"

definition show_int :: "int \<Rightarrow> string" where
  "show_int n = (if n < 0 then ''-'' @ show_nat (nat (- n)) else show_nat (nat n))"

definition dispatchEventID :: "Account \<Rightarrow> string \<Rightarrow> time \<Rightarrow> string" where
  "dispatchEventID a event now =
     (let leaseID = trim_space (acc_LeaseID a) in
      if leaseID \<noteq> [] then leaseID @ '':'' @ event
      else trim_space (acc_ID a) @ '':'' @ event @ '':'' @ show_int (unix_nano now))"

definition dispatchEventFromAccount :: "State \<Rightarrow> Account \<Rightarrow> string \<Rightarrow> time \<Rightarrow> DispatchEvent" where
  "dispatchEventFromAccount st a event now =
     (let deviceID = acc_LeaseClientID a;
          device = find (\<lambda>c. cli_ID c = deviceID) (st_Clients st);
          deviceLabel = (case device of None \<Rightarrow> [] | Some c \<Rightarrow> cli_Label c);
          userID = (case device of None \<Rightarrow> [] | Some c \<Rightarrow> cli_UserID c);
          username = (if userID \<noteq> [] then
              (case find (\<lambda>u. usr_ID u = userID) (st_Users st) of
                 None \<Rightarrow> [] | Some u \<Rightarrow> usr_Username u)
            else [])
      in \<lparr>de_ID = dispatchEventID a event now, de_LeaseID = acc_LeaseID a, de_AccountID = acc_ID a,
          de_AccountLabel = acc_Label a, de_ClientID = acc_LeaseClientID a,
          de_ClientLabel = clientLabelFromState st (acc_LeaseClientID a), de_UserID = userID,
          de_Username = username, de_DeviceID = deviceID, de_DeviceLabel = deviceLabel,
          de_Holder = acc_LeaseHolder a, de_Event = event, de_Generation = acc_Generation a,
          de_CreatedAt = now, de_StartedAt = acc_LeaseStartedAt a, de_ExpiresAt = acc_LeaseExpiresAt a\<rparr>)"

text \<open>The loop that copies the older events until the list is full.\<close>

fun copy_events :: "string \<Rightarrow> DispatchEvent list \<Rightarrow> DispatchEvent list \<Rightarrow> DispatchEvent list" where
  "copy_events k acc [] = acc"
| "copy_events k acc (e # es) =
     (if de_ID e = k then copy_events k acc es
      else let acc = acc @ [e] in
        if length acc \<ge> maxDispatchHistory then acc else copy_events k acc es)"

definition appendDispatchEvent :: "DispatchEvent list \<Rightarrow> DispatchEvent \<Rightarrow> DispatchEvent list" where
  "appendDispatchEvent events event =
     (if trim_space (de_ID event) = [] then events else copy_events (de_ID event) [event] events)"

lemma copy_events_take:
  "length acc < maxDispatchHistory \<Longrightarrow>
   copy_events k acc es = acc @ take (maxDispatchHistory - length acc) (filter (\<lambda>e. de_ID e \<noteq> k) es)"
proof (induction es arbitrary: acc)
  case (Cons e es)
  have step: "maxDispatchHistory - length acc = Suc (maxDispatchHistory - Suc (length acc))"
    using Cons.prems by simp
  show ?case
    using Cons.IH [of acc] Cons.IH [of "acc @ [e]"] Cons.prems
    by (auto simp: Let_def step)
qed simp

lemma appendDispatchEvent_eq:
  "trim_space (de_ID event) \<noteq> [] \<Longrightarrow>
   appendDispatchEvent events event =
     event # take (maxDispatchHistory - 1) (filter (\<lambda>e. de_ID e \<noteq> de_ID event) events)"
  by (simp add: appendDispatchEvent_def copy_events_take maxDispatchHistory_def)

definition history_ok :: "DispatchEvent list \<Rightarrow> bool" where
  "history_ok es \<longleftrightarrow> distinct (map de_ID es) \<and> length es \<le> maxDispatchHistory"

lemma distinct_map_take: "distinct (map f xs) \<Longrightarrow> distinct (map f (take n xs))"
  by (metis distinct_take take_map)

lemma appendDispatchEvent_ok:
  assumes "history_ok es"
  shows "history_ok (appendDispatchEvent es event)"
proof (cases "trim_space (de_ID event) = []")
  case True
  with assms show ?thesis by (simp add: appendDispatchEvent_def)
next
  case False
  have "de_ID event \<notin> de_ID ` set (take n (filter (\<lambda>e. de_ID e \<noteq> de_ID event) es))" for n
    by (auto dest: in_set_takeD)
  with assms False show ?thesis
    by (auto simp: history_ok_def appendDispatchEvent_eq distinct_map_take distinct_map_filter_keys
        maxDispatchHistory_def)
qed

text \<open>Newest first, when events are appended in the order of their times.\<close>

lemma appendDispatchEvent_sorted:
  assumes "sorted_wrt (\<lambda>a b. de_CreatedAt a \<ge> de_CreatedAt b) es"
    and "\<forall>e \<in> set es. de_CreatedAt e \<le> de_CreatedAt event"
  shows "sorted_wrt (\<lambda>a b. de_CreatedAt a \<ge> de_CreatedAt b) (appendDispatchEvent es event)"
proof (cases "trim_space (de_ID event) = []")
  case False
  have "sorted_wrt (\<lambda>a b. de_CreatedAt a \<ge> de_CreatedAt b)
      (take n (filter (\<lambda>e. de_ID e \<noteq> de_ID event) es))" for n
    using assms(1) by (intro sorted_wrt_take sorted_wrt_filter)
  with assms(2) False show ?thesis
    by (auto simp: appendDispatchEvent_eq dest!: in_set_takeD)
qed (use assms in \<open>simp add: appendDispatchEvent_def\<close>)

section \<open>Reading the history\<close>

definition enrichDispatchEvent :: "State \<Rightarrow> DispatchEvent \<Rightarrow> DispatchEvent" where
  "enrichDispatchEvent st e =
     (let e = (if trim_space (de_AccountLabel e) = [] then
                 (case find (\<lambda>a. acc_ID a = de_AccountID e) (st_Accounts st) of
                    None \<Rightarrow> e | Some a \<Rightarrow> e\<lparr>de_AccountLabel := acc_Label a\<rparr>)
               else e)
      in if trim_space (de_ClientLabel e) = []
         then e\<lparr>de_ClientLabel := clientLabelFromState st (de_ClientID e)\<rparr> else e)"

definition history_limit :: "int \<Rightarrow> nat" where
  "history_limit limit = (if limit \<le> 0 \<or> limit > int maxDispatchHistory then 50 else nat limit)"

text \<open>The loop over the stored events: skip other clients', stop when there are enough.\<close>

fun collect_events :: "State \<Rightarrow> nat \<Rightarrow> string \<Rightarrow> DispatchEvent list \<Rightarrow> DispatchEvent list \<Rightarrow> DispatchEvent list" where
  "collect_events st limit clientID out [] = out"
| "collect_events st limit clientID out (e # es) =
     (if clientID \<noteq> [] \<and> de_ClientID e \<noteq> clientID then collect_events st limit clientID out es
      else let out = out @ [enrichDispatchEvent st e] in
        if length out \<ge> limit then out else collect_events st limit clientID out es)"

definition null_if_empty :: "string \<Rightarrow> string \<Rightarrow> string" where
  "null_if_empty a b = (if a \<noteq> [] then a else b)"

text \<open>The query in Postgres mode: labels joined from the tables, newest first.\<close>

definition postgres_event :: "Db \<Rightarrow> DispatchEvent \<Rightarrow> DispatchEvent" where
  "postgres_event d e = e\<lparr>
     de_AccountLabel := (case map_of (db_accounts d) (de_AccountID e) of
        None \<Rightarrow> de_AccountLabel e | Some a \<Rightarrow> null_if_empty (acc_Label a) (de_AccountLabel e)),
     de_ClientLabel := (case map_of (db_clients d) (de_ClientID e) of
        None \<Rightarrow> de_ClientLabel e | Some c \<Rightarrow> null_if_empty (cli_Label c) (de_ClientLabel e)),
     de_Username := (case map_of (db_users d) (de_UserID e) of
        None \<Rightarrow> de_Username e | Some u \<Rightarrow> null_if_empty (usr_Username u) (de_Username e))\<rparr>"

definition postgresDispatchHistory :: "nat \<Rightarrow> string \<Rightarrow> DispatchEvent list io" where
  "postgresDispatchHistory limit clientID =
     bindE stepE (\<lambda>_. bindE stepE (\<lambda>_. getsE (\<lambda>w.
       take limit (sort_key (\<lambda>e. - de_CreatedAt e)
         (map (postgres_event (w_db w))
           (filter (\<lambda>e. clientID \<noteq> [] \<longrightarrow> de_ClientID e = clientID)
             (map snd (db_dispatches (w_db w)))))))))"

definition DispatchHistory :: "'m Manager_scheme \<Rightarrow> int \<Rightarrow> string \<Rightarrow> DispatchEvent list io" where
  "DispatchHistory M limit clientID =
     bindE (Ensure M) (\<lambda>_.
       let limit = history_limit limit; clientID = trim_space clientID in
       if postgres_mode M then postgresDispatchHistory limit clientID
       else bindE (Load M) (\<lambda>st.
         returnE (sort_slice (\<lambda>a b. de_CreatedAt a > de_CreatedAt b)
           (collect_events st limit clientID [] (st_Dispatches st)))))"

lemma history_limit_bounds: "0 < history_limit limit \<and> history_limit limit \<le> maxDispatchHistory"
  by (auto simp: history_limit_def maxDispatchHistory_def)

lemma collect_events_take:
  "length out < limit \<Longrightarrow>
   collect_events st limit clientID out es =
     out @ take (limit - length out)
       (map (enrichDispatchEvent st) (filter (\<lambda>e. clientID \<noteq> [] \<longrightarrow> de_ClientID e = clientID) es))"
proof (induction es arbitrary: out)
  case (Cons e es)
  have step: "limit - length out = Suc (limit - Suc (length out))"
    using Cons.prems by simp
  show ?case
    using Cons.IH [of out] Cons.IH [of "out @ [enrichDispatchEvent st e]"] Cons.prems
    by (auto simp: Let_def step)
qed simp

lemma newest_first_weak: "strict_weak (\<lambda>a b. de_CreatedAt a > de_CreatedAt b)"
  by (auto simp: strict_weak_def)

lemma enrich_CreatedAt [simp]:
  "de_CreatedAt (enrichDispatchEvent st e) = de_CreatedAt e"
  "de_ClientID (enrichDispatchEvent st e) = de_ClientID e"
  by (auto simp: enrichDispatchEvent_def Let_def split: option.splits)

lemma DispatchHistory_eval:
  assumes "\<not> postgres_mode M" "w_faults w = []"
  shows "DispatchHistory M limit clientID w =
     (Inr (sort_slice (\<lambda>a b. de_CreatedAt a > de_CreatedAt b)
        (take (history_limit limit) (map (enrichDispatchEvent (stored w))
          (filter (\<lambda>e. trim_space clientID \<noteq> [] \<longrightarrow> de_ClientID e = trim_space clientID)
            (st_Dispatches (stored w)))))), w)"
  using assms history_limit_bounds [of limit]
  by (simp add: DispatchHistory_def Let_def Ensure_eval Load_eval collect_events_take)

end
