(* ===== verification/LoadBalance.thy ===== *)
theory LoadBalance
  imports Identity Go_Sort
begin

text \<open>
  \<open>internal/manager/loadbalance.go\<close> and the quota windows of
  \<open>internal/manager/quota.go\<close>: which accounts may be leased, how they are ranked, and
  how the round robin picks among the best. The main facts: when exactly an account is
  eligible, the bounds of its score, that the pick is always an eligible account of
  the top group and that repeated picks go round the whole group; and that the ranking
  is sound when scores are not chained by the tolerance, and not in general.
\<close>

section \<open>Quota windows\<close>

definition quotaFiveHour :: "Result \<Rightarrow> Window option" where
  "quotaFiveHour r =
     find (\<lambda>x. win_Key x = ''five_hour'' \<or> equal_fold (win_Label x) ''5h'') (res_Quotas r)"

definition quotaSevenDay :: "Result \<Rightarrow> Window option" where
  "quotaSevenDay r =
     find (\<lambda>x. win_Key x = ''seven_day'' \<or> equal_fold (win_Label x) ''7d'') (res_Quotas r)"

text \<open>
  The callers compare the result with \<open>sevenDay\<close> as pointers, so it carries which of
  the two arguments it is.
\<close>

datatype binding = W5h | W7d

fun bindingWindow :: "Window option \<Rightarrow> Window option \<Rightarrow> (binding \<times> Window) option" where
  "bindingWindow None sevenDay = map_option (Pair W7d) sevenDay"
| "bindingWindow (Some fiveHour) None = Some (W5h, fiveHour)"
| "bindingWindow (Some fiveHour) (Some sevenDay) =
     (if win_RemainingPercent sevenDay < win_RemainingPercent fiveHour then Some (W7d, sevenDay)
      else Some (W5h, fiveHour))"

fun binding_text :: "binding \<Rightarrow> string" where
  "binding_text W5h = ''5h''"
| "binding_text W7d = ''7d''"

lemma bindingWindow_None [simp]: "bindingWindow f s = None \<longleftrightarrow> f = None \<and> s = None"
  by (cases f; cases s) auto

lemma bindingWindow_least:
  "bindingWindow f s = Some (t, b) \<Longrightarrow>
     (f = Some b \<or> s = Some b)
     \<and> (\<forall>x. f = Some x \<longrightarrow> win_RemainingPercent b \<le> win_RemainingPercent x)
     \<and> (\<forall>x. s = Some x \<longrightarrow> win_RemainingPercent b \<le> win_RemainingPercent x)"
  by (cases f; cases s) (auto split: if_splits)

definition quotaSourceLabel :: "QuotaCache \<Rightarrow> string" where
  "quotaSourceLabel c =
     (case qc_Source c of
        QuotaSourceClient \<Rightarrow>
          (if qc_ReporterClientID c \<noteq> [] then ''client report:'' @ qc_ReporterClientID c
           else ''client report'')
      | QuotaSourceCloud \<Rightarrow> ''cloud refresh''
      | QuotaSourceOther s \<Rightarrow> s)"

section \<open>Active leases (lease.go)\<close>

definition accountLeaseActive :: "Account \<Rightarrow> time \<Rightarrow> bool" where
  "accountLeaseActive a now \<longleftrightarrow>
     trim_space (acc_LeaseID a) \<noteq> [] \<and> acc_LeaseExpiresAt a \<noteq> zero_time \<and> acc_LeaseExpiresAt a > now"

section \<open>Scores\<close>

definition loadBalanceMinFiveHourRemaining :: percent where "loadBalanceMinFiveHourRemaining = 5"
definition loadBalanceNearResetWindow :: duration where "loadBalanceNearResetWindow = 90 * minute"
definition loadBalanceNearResetBonus :: percent where "loadBalanceNearResetBonus = 25"
definition loadBalanceScoreEpsilon :: percent where "loadBalanceScoreEpsilon = 1 / 100"

definition clampPercent :: "percent \<Rightarrow> percent" where
  "clampPercent v = (if v < 0 then 0 else if v > 100 then 100 else v)"

definition sameLoadBalanceScore :: "percent \<Rightarrow> percent \<Rightarrow> bool" where
  "sameLoadBalanceScore a b \<longleftrightarrow>
     (let diff = a - b in diff \<ge> - loadBalanceScoreEpsilon \<and> diff \<le> loadBalanceScoreEpsilon)"

definition loadBalanceQuotaScore :: "Window \<Rightarrow> time \<Rightarrow> percent" where
  "loadBalanceQuotaScore window now =
     (let remaining = clampPercent (win_RemainingPercent window) in
      if remaining \<le> loadBalanceMinFiveHourRemaining then 0
      else
        let resetAt = parseRFC3339 (win_ResetsAt window) in
        if resetAt = zero_time then remaining
        else
          let untilReset = resetAt - now in
          if untilReset \<le> 0 then remaining
          else if untilReset < loadBalanceNearResetWindow then
            (let pressure = 1 - of_int untilReset / of_int loadBalanceNearResetWindow
             in remaining + pressure * loadBalanceNearResetBonus)
          else remaining)"

lemma clampPercent_bounds: "0 \<le> clampPercent v \<and> clampPercent v \<le> 100"
  by (simp add: clampPercent_def)

lemma sameLoadBalanceScore_refl [simp]: "sameLoadBalanceScore a a"
  by (simp add: sameLoadBalanceScore_def loadBalanceScoreEpsilon_def)

lemma sameLoadBalanceScore_sym: "sameLoadBalanceScore a b \<longleftrightarrow> sameLoadBalanceScore b a"
  by (auto simp: sameLoadBalanceScore_def Let_def)

lemma pressure_bounds:
  assumes "0 < u" "u < loadBalanceNearResetWindow"
  shows "0 < 1 - of_int u / (of_int loadBalanceNearResetWindow :: rat)"
    and "1 - of_int u / (of_int loadBalanceNearResetWindow :: rat) < 1"
proof -
  have w: "(0::rat) < of_int loadBalanceNearResetWindow"
    using assms by (metis of_int_0_less_iff order_less_trans)
  then show "0 < 1 - of_int u / (of_int loadBalanceNearResetWindow :: rat)"
    using assms(2) by (simp add: divide_less_eq)
  show "1 - of_int u / (of_int loadBalanceNearResetWindow :: rat) < 1"
    using assms(1) w by simp
qed

lemma loadBalanceQuotaScore_bounds:
  "0 \<le> loadBalanceQuotaScore x now \<and> loadBalanceQuotaScore x now < 125
   \<and> (loadBalanceQuotaScore x now = 0 \<longleftrightarrow> win_RemainingPercent x \<le> loadBalanceMinFiveHourRemaining)"
proof -
  let ?r = "clampPercent (win_RemainingPercent x)"
  let ?u = "parseRFC3339 (win_ResetsAt x) - now"
  let ?p = "1 - of_int ?u / (of_int loadBalanceNearResetWindow :: rat)"
  let ?s = "loadBalanceQuotaScore x now"
  have low: "?r \<le> 5 \<longleftrightarrow> win_RemainingPercent x \<le> loadBalanceMinFiveHourRemaining"
    by (auto simp: clampPercent_def loadBalanceMinFiveHourRemaining_def)
  have cases: "(?r \<le> 5 \<and> ?s = 0) \<or> (\<not> ?r \<le> 5 \<and> (?s = ?r \<or> (?s = ?r + ?p * 25 \<and> 0 < ?p \<and> ?p < 1)))"
    using pressure_bounds [of ?u]
    by (auto simp: loadBalanceQuotaScore_def Let_def loadBalanceNearResetBonus_def
        loadBalanceMinFiveHourRemaining_def)
  have "0 \<le> s \<and> s < 125 \<and> (s = 0 \<longleftrightarrow> r \<le> 5)"
    if "0 \<le> r" "r \<le> 100" "(r \<le> 5 \<and> s = 0) \<or> (\<not> r \<le> 5 \<and> (s = r \<or> (s = r + p * 25 \<and> 0 < p \<and> p < 1)))"
    for s r p :: rat
    using that by auto
  from this [OF _ _ cases] clampPercent_bounds low show ?thesis by blast
qed

section \<open>Eligibility\<close>

record Evaluation =
  ev_Eligible :: bool
  ev_Reason :: string
  ev_QuotaStatus :: QuotaStatus
  ev_QuotaRemainingDisplay :: string
  ev_QuotaRemainingPercent :: percent
  ev_QuotaUsedPercent :: percent
  ev_QuotaResetsAt :: string
  ev_QuotaUpdatedAt :: time
  ev_QuotaScore :: percent
  ev_QuotaSevenDayRemainingDisplay :: string
  ev_QuotaSevenDayRemainingPercent :: percent
  ev_QuotaSevenDayUsedPercent :: percent
  ev_QuotaSevenDayResetsAt :: string
  ev_QuotaBindingWindow :: string

definition loadBalanceQuotaEvaluation :: "QuotaCache \<Rightarrow> time \<Rightarrow> Evaluation" where
  "loadBalanceQuotaEvaluation cache now =
     (let ev = \<lparr>ev_Eligible = False, ev_Reason = [], ev_QuotaStatus = res_Status (qc_Result cache),
            ev_QuotaRemainingDisplay = [], ev_QuotaRemainingPercent = 0, ev_QuotaUsedPercent = 0,
            ev_QuotaResetsAt = [], ev_QuotaUpdatedAt = qc_UpdatedAt cache, ev_QuotaScore = 0,
            ev_QuotaSevenDayRemainingDisplay = [], ev_QuotaSevenDayRemainingPercent = 0,
            ev_QuotaSevenDayUsedPercent = 0, ev_QuotaSevenDayResetsAt = [],
            ev_QuotaBindingWindow = []\<rparr>;
          sevenDay = quotaSevenDay (qc_Result cache);
          ev = (case sevenDay of None \<Rightarrow> ev | Some s \<Rightarrow>
            ev\<lparr>ev_QuotaSevenDayRemainingDisplay := win_RemainingDisplay s,
               ev_QuotaSevenDayRemainingPercent := clampPercent (win_RemainingPercent s),
               ev_QuotaSevenDayUsedPercent := clampPercent (win_UsedPercent s),
               ev_QuotaSevenDayResetsAt := win_ResetsAt s\<rparr>)
      in case bindingWindow (qc_FiveHour cache) sevenDay of
           None \<Rightarrow> ev
         | Some (t, b) \<Rightarrow>
             ev\<lparr>ev_QuotaRemainingDisplay := win_RemainingDisplay b,
                ev_QuotaRemainingPercent := clampPercent (win_RemainingPercent b),
                ev_QuotaUsedPercent := clampPercent (win_UsedPercent b),
                ev_QuotaResetsAt := win_ResetsAt b,
                ev_QuotaBindingWindow := binding_text t\<rparr>)"

text \<open>The checks on the seven-day window: the reason it excludes the account, if any.\<close>

definition sevenDay_reason :: "Window option \<Rightarrow> time \<Rightarrow> string option" where
  "sevenDay_reason sevenDay now =
     (case sevenDay of
        None \<Rightarrow> None
      | Some s \<Rightarrow>
          (let sevenReset = parseRFC3339 (win_ResetsAt s) in
           if sevenReset \<noteq> zero_time \<and> \<not> sevenReset > now
           then Some ''7d reset passed; refresh needed''
           else if win_RemainingPercent s \<le> loadBalanceMinFiveHourRemaining
           then Some (if sevenReset = zero_time then ''7d quota exhausted''
             else ''7d quota exhausted until '' @ format_rfc3339 sevenReset)
           else None))"

definition evaluateLoadBalanceFields ::
  "AccountOwnerMode \<Rightarrow> AccountStatus \<Rightarrow> bool \<Rightarrow> bool \<Rightarrow> time \<Rightarrow> QuotaCache \<Rightarrow> time \<Rightarrow> Evaluation" where
  "evaluateLoadBalanceFields ownerMode status authPresent leaseActive leaseExpiresAt cache now =
     (let ev = loadBalanceQuotaEvaluation cache now in
      if ownerMode \<noteq> OwnerCloud then ev\<lparr>ev_Reason := ''owner is '' @ owner_text ownerMode\<rparr>
      else if status \<noteq> StatusReady then ev\<lparr>ev_Reason := ''status is '' @ status_text status\<rparr>
      else if \<not> authPresent then ev\<lparr>ev_Reason := ''auth.json missing''\<rparr>
      else if leaseActive then ev\<lparr>ev_Reason := ''leased until '' @ format_rfc3339 leaseExpiresAt\<rparr>
      else if ev_QuotaStatus ev = NoQuota then ev\<lparr>ev_Reason := ''quota not checked''\<rparr>
      else if ev_QuotaStatus ev \<noteq> StatusSupported
      then ev\<lparr>ev_Reason := ''quota is '' @ quota_status_text (ev_QuotaStatus ev)\<rparr>
      else case qc_FiveHour cache of
          None \<Rightarrow> ev\<lparr>ev_Reason := ''5h quota missing''\<rparr>
        | Some f \<Rightarrow>
            let resetAt = parseRFC3339 (win_ResetsAt f) in
            if resetAt = zero_time then ev\<lparr>ev_Reason := ''5h reset unknown''\<rparr>
            else if \<not> resetAt > now then ev\<lparr>ev_Reason := ''5h reset passed; refresh needed''\<rparr>
            else if win_RemainingPercent f \<le> loadBalanceMinFiveHourRemaining
            then ev\<lparr>ev_Reason := ''5h quota exhausted until '' @ format_rfc3339 resetAt\<rparr>
            else
              let sevenDay = quotaSevenDay (qc_Result cache) in
              (case sevenDay_reason sevenDay now of
                 Some reason \<Rightarrow> ev\<lparr>ev_Reason := reason\<rparr>
               | None \<Rightarrow>
                   ev\<lparr>ev_Eligible := True, ev_Reason := [],
                      ev_QuotaScore :=
                        loadBalanceQuotaScore (snd (the (bindingWindow (Some f) sevenDay))) now\<rparr>))"

definition loadBalanceEligibility :: "AccountView \<Rightarrow> QuotaCache \<Rightarrow> time \<Rightarrow> Evaluation" where
  "loadBalanceEligibility v cache now =
     evaluateLoadBalanceFields (acc_OwnerMode (av_Account v)) (acc_Status (av_Account v))
       (av_AuthPresent v) (av_LeaseActive v) (acc_LeaseExpiresAt (av_Account v)) cache now"

definition loadBalanceEligibilityForAccount ::
  "Account \<Rightarrow> bool \<Rightarrow> QuotaCache \<Rightarrow> time \<Rightarrow> Evaluation" where
  "loadBalanceEligibilityForAccount a authPresent cache now =
     evaluateLoadBalanceFields (acc_OwnerMode a) (acc_Status a) authPresent
       (accountLeaseActive a now) (acc_LeaseExpiresAt a) cache now"

definition sevenDay_ok :: "Window option \<Rightarrow> time \<Rightarrow> bool" where
  "sevenDay_ok sevenDay now \<longleftrightarrow>
     (\<forall>s. sevenDay = Some s \<longrightarrow> win_RemainingPercent s > loadBalanceMinFiveHourRemaining
        \<and> (parseRFC3339 (win_ResetsAt s) = zero_time \<or> parseRFC3339 (win_ResetsAt s) > now))"

text \<open>The specification: what an account must be to be leased.\<close>

definition window_usable :: "Window \<Rightarrow> time \<Rightarrow> bool" where
  "window_usable x now \<longleftrightarrow> parseRFC3339 (win_ResetsAt x) \<noteq> zero_time
     \<and> parseRFC3339 (win_ResetsAt x) > now \<and> win_RemainingPercent x > loadBalanceMinFiveHourRemaining"

definition may_lease :: "AccountOwnerMode \<Rightarrow> AccountStatus \<Rightarrow> bool \<Rightarrow> bool \<Rightarrow> QuotaCache \<Rightarrow> time \<Rightarrow> bool" where
  "may_lease owner status auth leased cache now \<longleftrightarrow>
     owner = OwnerCloud \<and> status = StatusReady \<and> auth \<and> \<not> leased
     \<and> res_Status (qc_Result cache) = StatusSupported
     \<and> (\<exists>f. qc_FiveHour cache = Some f \<and> window_usable f now)
     \<and> sevenDay_ok (quotaSevenDay (qc_Result cache)) now"

lemma quotaEvaluation_simps [simp]:
  "ev_Eligible (loadBalanceQuotaEvaluation cache now) = False"
  "ev_QuotaStatus (loadBalanceQuotaEvaluation cache now) = res_Status (qc_Result cache)"
  "ev_QuotaScore (loadBalanceQuotaEvaluation cache now) = 0"
  by (auto simp: loadBalanceQuotaEvaluation_def Let_def split: option.splits prod.splits)

lemma sevenDay_reason_None: "sevenDay_reason s7 now = None \<longleftrightarrow> sevenDay_ok s7 now"
  by (auto simp: sevenDay_reason_def sevenDay_ok_def Let_def split: option.splits)

lemma sevenDay_reason_Some: "sevenDay_reason s7 now = Some r \<Longrightarrow> \<not> sevenDay_ok s7 now"
  using sevenDay_reason_None [of s7 now] by simp

lemma sevenDay_reason_not_Nil: "sevenDay_reason s7 now \<noteq> Some []"
  by (auto simp: sevenDay_reason_def Let_def split: option.splits)

lemma eligible_iff:
  "ev_Eligible (evaluateLoadBalanceFields owner status auth leased expires cache now)
     \<longleftrightarrow> may_lease owner status auth leased cache now"
  by (auto simp: evaluateLoadBalanceFields_def may_lease_def window_usable_def Let_def
      sevenDay_reason_None dest: sevenDay_reason_Some split: option.splits)

lemma reason_iff:
  "ev_Reason (evaluateLoadBalanceFields owner status auth leased expires cache now) = []
     \<longleftrightarrow> ev_Eligible (evaluateLoadBalanceFields owner status auth leased expires cache now)"
  using sevenDay_reason_not_Nil
  by (auto simp: evaluateLoadBalanceFields_def Let_def split: option.splits)

lemma binding_usable:
  assumes "loadBalanceMinFiveHourRemaining < win_RemainingPercent f" "sevenDay_ok s7 now"
  shows "loadBalanceMinFiveHourRemaining < win_RemainingPercent (snd (the (bindingWindow (Some f) s7)))"
  using assms by (cases s7) (auto simp: sevenDay_ok_def)

lemma score_iff:
  "ev_QuotaScore (evaluateLoadBalanceFields owner status auth leased expires cache now) \<noteq> 0
     \<longleftrightarrow> ev_Eligible (evaluateLoadBalanceFields owner status auth leased expires cache now)"
proof -
  have "loadBalanceQuotaScore (snd (the (bindingWindow (Some f) s7))) now \<noteq> 0"
    if "\<not> win_RemainingPercent f \<le> loadBalanceMinFiveHourRemaining" "sevenDay_reason s7 now = None" for f s7
    using that binding_usable [of f s7 now] loadBalanceQuotaScore_bounds
    by (simp add: sevenDay_reason_None not_le)
  then show ?thesis
    by (auto simp: evaluateLoadBalanceFields_def Let_def split: option.splits)
qed

section \<open>Ranking and round robin\<close>

text \<open>A candidate is its account id and its score; the callers carry more beside them.\<close>

definition lb_less :: "('a \<Rightarrow> percent) \<Rightarrow> ('a \<Rightarrow> string) \<Rightarrow> 'a \<Rightarrow> 'a \<Rightarrow> bool" where
  "lb_less score k a b =
     (if \<not> sameLoadBalanceScore (score a) (score b) then score a > score b else k a < k b)"

fun loadBalanceTopGroupLen :: "percent list \<Rightarrow> nat" where
  "loadBalanceTopGroupLen [] = 0"
| "loadBalanceTopGroupLen (s # ss) = Suc (length (takeWhile (sameLoadBalanceScore s) ss))"

text \<open>The element after the one last handed out, in the top group and cyclically.\<close>

definition rr_select :: "('a \<Rightarrow> percent) \<Rightarrow> ('a \<Rightarrow> string) \<Rightarrow> string \<Rightarrow> 'a list \<Rightarrow> 'a" where
  "rr_select score k lastID available =
     (let topLen = loadBalanceTopGroupLen (map score available) in
      if lastID \<noteq> [] then
        (case find_index (\<lambda>c. k c = lastID) (take topLen available) of
           None \<Rightarrow> available ! 0
         | Some i \<Rightarrow> available ! ((i + 1) mod topLen))
      else available ! 0)"

definition rank :: "('a \<Rightarrow> percent) \<Rightarrow> ('a \<Rightarrow> string) \<Rightarrow> 'a list \<Rightarrow> 'a list" where
  "rank score k = sort_slice (lb_less score k)"

lemma topGroupLen_bounds:
  "ss \<noteq> [] \<Longrightarrow> 0 < loadBalanceTopGroupLen ss \<and> loadBalanceTopGroupLen ss \<le> length ss"
  by (cases ss) (auto simp: length_takeWhile_le)

lemma topGroup_same:
  "i < loadBalanceTopGroupLen ss \<Longrightarrow> sameLoadBalanceScore (ss ! 0) (ss ! i)"
proof (cases ss)
  case (Cons s ts)
  assume "i < loadBalanceTopGroupLen ss"
  with Cons show ?thesis
    by (cases i) (auto simp: takeWhile_nth [symmetric] dest!: nth_mem set_takeWhileD)
qed simp

definition rr_index :: "('a \<Rightarrow> string) \<Rightarrow> string \<Rightarrow> nat \<Rightarrow> 'a list \<Rightarrow> nat" where
  "rr_index k lastID n available =
     (case find_index (\<lambda>c. lastID \<noteq> [] \<and> k c = lastID) (take n available) of
        None \<Rightarrow> 0 | Some i \<Rightarrow> (i + 1) mod n)"

lemma rr_select_index:
  "rr_select score k lastID available =
     available ! rr_index k lastID (loadBalanceTopGroupLen (map score available)) available"
proof (cases "lastID = []")
  case True
  then have "find_index (\<lambda>c. lastID \<noteq> [] \<and> k c = lastID) xs = None" for xs
    by (simp add: find_index_None)
  with True show ?thesis by (simp add: rr_select_def rr_index_def Let_def)
next
  case False
  then show ?thesis by (simp add: rr_select_def rr_index_def Let_def split: option.splits)
qed

lemma rr_index_less: "0 < n \<Longrightarrow> rr_index k lastID n available < n"
  by (simp add: rr_index_def split: option.splits)

text \<open>Round robin: handing out one after another goes through the whole top group.\<close>

fun rr_sequence :: "('a \<Rightarrow> percent) \<Rightarrow> ('a \<Rightarrow> string) \<Rightarrow> 'a list \<Rightarrow> string \<Rightarrow> nat \<Rightarrow> 'a list" where
  "rr_sequence score k available lastID 0 = []"
| "rr_sequence score k available lastID (Suc m) =
     (let c = rr_select score k lastID available in c # rr_sequence score k available (k c) m)"

lemma rr_index_next:
  assumes "j < n" "n \<le> length available" "distinct (map k (take n available))" "k (available ! j) \<noteq> []"
  shows "rr_index k (k (available ! j)) n available = Suc j mod n"
proof -
  have "find_index (\<lambda>c. k (available ! j) \<noteq> [] \<and> k c = k (available ! j)) (take n available) = Some j"
    using assms by (auto simp: find_index_Some distinct_conv_nth)
  then show ?thesis by (simp add: rr_index_def)
qed

lemma rr_sequence_index:
  fixes score k available
  defines "n \<equiv> loadBalanceTopGroupLen (map score available)"
  assumes "available \<noteq> []" "distinct (map k (take n available))" "\<forall>c \<in> set (take n available). k c \<noteq> []"
  shows "rr_sequence score k available lastID m =
     map (\<lambda>i. available ! ((rr_index k lastID n available + i) mod n)) [0..<m]"
proof (induction m arbitrary: lastID)
  case (Suc m)
  have n: "0 < n" "n \<le> length available"
    using topGroupLen_bounds [of "map score available"] assms(2) by (simp_all add: n_def)
  let ?j = "rr_index k lastID n available"
  have j: "?j < n" by (rule rr_index_less [OF n(1)])
  have c: "rr_select score k lastID available = available ! ?j"
    by (simp add: rr_select_index n_def)
  have "available ! ?j \<in> set (take n available)"
    using j n(2) by (metis length_take min.absorb2 nth_mem nth_take)
  then have "rr_index k (k (available ! ?j)) n available = Suc ?j mod n"
    using rr_index_next [OF j n(2) assms(3)] assms(4) by blast
  then have "rr_sequence score k available (k (available ! ?j)) m =
      map (\<lambda>i. available ! ((?j + i) mod n)) [Suc 0..<Suc m]"
    unfolding Suc.IH map_Suc_upt [symmetric] by (simp add: mod_add_left_eq)
  moreover have "[0..<Suc m] = 0 # [Suc 0..<Suc m]" by (rule upt_conv_Cons) simp
  ultimately show ?case using j by (simp add: Let_def c del: upt_Suc)
qed simp

lemma mod_shift_set: "0 < n \<Longrightarrow> (\<lambda>i. (j + i) mod n) ` {0..<n} = {0..<(n::nat)}"
proof (intro equalityI subsetI)
  fix x assume n: "0 < n" and "x \<in> {0..<n}"
  then have x: "x < n" by simp
  let ?i = "(x + (n - j mod n)) mod n"
  have "(j + ?i) mod n = (j mod n + (x + (n - j mod n))) mod n" by (simp add: mod_simps)
  also have "j mod n + (x + (n - j mod n)) = x + n"
    using mod_less_divisor [OF n, of j] by linarith
  finally have "(j + ?i) mod n = x" using x by simp
  moreover have "?i \<in> {0..<n}" using n by simp
  ultimately show "x \<in> (\<lambda>i. (j + i) mod n) ` {0..<n}" by (metis image_eqI)
qed auto

lemma rr_sequence_covers:
  assumes "available \<noteq> []" "n = loadBalanceTopGroupLen (map score available)"
    and "distinct (map k (take n available))" "\<forall>c \<in> set (take n available). k c \<noteq> []"
  shows "set (rr_sequence score k available lastID n) = set (take n available)"
proof -
  have n: "0 < n" "n \<le> length available"
    using topGroupLen_bounds [of "map score available"] assms(1,2) by simp_all
  let ?j = "rr_index k lastID n available"
  have "set (rr_sequence score k available lastID n) = (\<lambda>i. available ! ((?j + i) mod n)) ` {0..<n}"
    using rr_sequence_index [of available k score lastID n] assms by simp
  also have "\<dots> = (!) available ` ((\<lambda>i. (?j + i) mod n) ` {0..<n})" by (simp add: image_image)
  also have "\<dots> = (!) available ` {0..<n}" by (simp only: mod_shift_set [OF n(1)])
  also have "\<dots> = set (take n available)" using n(2) by (simp add: nth_image)
  finally show ?thesis .
qed

text \<open>The ranking when no chain of scores within the tolerance is longer than the tolerance.\<close>

definition unchained :: "percent set \<Rightarrow> bool" where
  "unchained S \<longleftrightarrow> (\<forall>a \<in> S. \<forall>b \<in> S. \<forall>c \<in> S.
     sameLoadBalanceScore a b \<longrightarrow> sameLoadBalanceScore b c \<longrightarrow> sameLoadBalanceScore a c)"

lemma same_iff_abs: "sameLoadBalanceScore a b \<longleftrightarrow> \<bar>a - b\<bar> \<le> loadBalanceScoreEpsilon"
  by (auto simp: sameLoadBalanceScore_def Let_def)

lemma lb_less_asym: "lb_less score k a b \<Longrightarrow> \<not> lb_less score k b a"
  by (auto simp: lb_less_def sameLoadBalanceScore_sym split: if_splits)

lemma lb_less_weak_on:
  assumes "unchained (score ` S)"
  shows "strict_weak_on S (lb_less score k)"
  unfolding strict_weak_on_def
proof (intro conjI ballI impI)
  fix x y z assume S: "x \<in> S" "y \<in> S" "z \<in> S"
    and xy: "\<not> lb_less score k x y" and yz: "\<not> lb_less score k y z"
  have tr: "sameLoadBalanceScore (score a) (score b) \<Longrightarrow> sameLoadBalanceScore (score b) (score c) \<Longrightarrow>
      sameLoadBalanceScore (score a) (score c)" if "a \<in> {x, y, z}" "b \<in> {x, y, z}" "c \<in> {x, y, z}" for a b c
    using that S assms unfolding unchained_def by blast
  show "\<not> lb_less score k x z"
  proof (cases "sameLoadBalanceScore (score x) (score z)")
    case True
    show ?thesis
    proof (cases "sameLoadBalanceScore (score x) (score y)")
      case xy_same: True
      then have "sameLoadBalanceScore (score y) (score z)"
        using tr [of y x z] True by (simp add: sameLoadBalanceScore_sym)
      with True xy_same xy yz show ?thesis by (simp add: lb_less_def)
    next
      case False
      then have "\<not> sameLoadBalanceScore (score y) (score z)"
        using tr [of x z y] True by (auto simp: sameLoadBalanceScore_sym)
      with False xy yz True show ?thesis
        by (simp add: lb_less_def sameLoadBalanceScore_def Let_def loadBalanceScoreEpsilon_def)
    qed
  next
    case False
    then have "\<not> (sameLoadBalanceScore (score x) (score y) \<and> sameLoadBalanceScore (score y) (score z))"
      using tr [of x y z] by blast
    with False xy yz show ?thesis
      by (auto simp: lb_less_def sameLoadBalanceScore_def Let_def loadBalanceScoreEpsilon_def
          split: if_splits)
  qed
qed (simp add: lb_less_asym)

lemma rank_sorted:
  "unchained (score ` set xs) \<Longrightarrow> sorted_wrt (\<lambda>a b. \<not> lb_less score k b a) (rank score k xs)"
  unfolding rank_def by (rule go_sort.srt_sorted_on [OF lb_less_weak_on])

lemma rank_head_best:
  assumes "unchained (score ` set xs)" "x \<in> set xs"
  shows "score x \<le> score (hd (rank score k xs)) + loadBalanceScoreEpsilon"
proof -
  have "x \<in> set (rank score k xs)" using assms(2) by (simp add: rank_def)
  then obtain y ys where r: "rank score k xs = y # ys" by (cases "rank score k xs") auto
  with rank_sorted [OF assms(1), of k] have "\<forall>z \<in> set ys. \<not> lb_less score k z y" by simp
  with \<open>x \<in> set (rank score k xs)\<close> r have "x = y \<or> \<not> lb_less score k x y" by auto
  then show ?thesis
    using r by (auto simp: lb_less_def sameLoadBalanceScore_def Let_def loadBalanceScoreEpsilon_def
        split: if_splits)
qed

lemma lb_less_cyclic:
  "let a = (''a'', 50); b = (''b'', 6251 / 125); c = (''c'', 6252 / 125)
   in lb_less snd fst a b \<and> lb_less snd fst b c \<and> lb_less snd fst c a \<and> \<not> strict_weak (lb_less snd (fst :: string \<times> percent \<Rightarrow> string))"
proof -
  let ?a = "(''a'', 50 :: percent)" and ?b = "(''b'', 6251 / 125 :: percent)" and ?c = "(''c'', 6252 / 125 :: percent)"
  have 1: "lb_less snd fst ?a ?b" "lb_less snd fst ?b ?c" "lb_less snd fst ?c ?a" by code_simp+
  have "\<not> strict_weak (lb_less snd (fst :: string \<times> percent \<Rightarrow> string))"
    using 1 strict_weak_asym [of "lb_less snd fst" ?a ?b] strict_weak_negtrans [of "lb_less snd fst" ?c ?b ?a]
      strict_weak_asym [of "lb_less snd fst" ?b ?c] by blast
  with 1 show ?thesis by (simp add: Let_def)
qed

end
