(* ===== verification/LeaseCore.thy ===== *)
theory LeaseCore
  imports Dispatch LoadBalance
begin

text \<open>
  The state-transforming core of \<open>internal/manager/lease.go\<close>: the lease of an account,
  the sweep of expired leases, the lookup and the validation of a lease, and the
  changes that claiming, touching, updating and releasing make to the state. The
  operations around them (locks, load and save) are in the theory Lease. The main
  facts: the sweep leaves only active leases and touches no active one, a claim takes
  an account nobody holds, and only the holder's own lease is changed by the others.
\<close>

section \<open>The lease of an account\<close>

definition leaseFromAccount :: "Account \<Rightarrow> Lease" where
  "leaseFromAccount a = \<lparr>lse_ID = acc_LeaseID a, lse_AccountID = acc_ID a,
     lse_ClientID = acc_LeaseClientID a, lse_Holder = acc_LeaseHolder a,
     lse_Generation = acc_Generation a, lse_StartedAt = acc_LeaseStartedAt a,
     lse_HeartbeatAt = acc_LeaseHeartbeatAt a, lse_ExpiresAt = acc_LeaseExpiresAt a\<rparr>"

definition clearAccountLease :: "Account \<Rightarrow> Account" where
  "clearAccountLease a = a\<lparr>acc_LeaseID := [], acc_LeaseClientID := [], acc_LeaseHolder := [],
     acc_LeaseStartedAt := zero_time, acc_LeaseHeartbeatAt := zero_time,
     acc_LeaseExpiresAt := zero_time\<rparr>"

definition normalizeLeaseTTL :: "duration \<Rightarrow> duration" where
  "normalizeLeaseTTL ttl =
     (if ttl < 30 * second then 90 * second
      else if ttl > 30 * minute then 30 * minute else ttl)"

lemma normalizeLeaseTTL_bounds:
  "30 * second \<le> normalizeLeaseTTL ttl \<and> normalizeLeaseTTL ttl \<le> 30 * minute"
  by (simp add: normalizeLeaseTTL_def duration_defs)

lemma normalizeLeaseTTL_pos: "0 < normalizeLeaseTTL ttl"
  by (simp add: normalizeLeaseTTL_def duration_defs)

lemma normalizeLeaseTTL_idem: "normalizeLeaseTTL (normalizeLeaseTTL ttl) = normalizeLeaseTTL ttl"
  by (simp add: normalizeLeaseTTL_def duration_defs)

lemma cleared_not_active [simp]: "\<not> accountLeaseActive (clearAccountLease a) now"
  by (simp add: accountLeaseActive_def clearAccountLease_def)

lemma clearAccountLease_ID [simp]: "acc_ID (clearAccountLease a) = acc_ID a"
  by (simp add: clearAccountLease_def)

section \<open>The sweep of expired leases\<close>

definition lease_expired :: "Account \<Rightarrow> time \<Rightarrow> bool" where
  "lease_expired a now \<longleftrightarrow> trim_space (acc_LeaseID a) \<noteq> [] \<and>
     \<not> (acc_LeaseExpiresAt a = zero_time \<or> acc_LeaseExpiresAt a > now)"

definition expire_account :: "Account \<Rightarrow> time \<Rightarrow> Account" where
  "expire_account a now =
     (let leaseID = acc_LeaseID a;
          b = clearAccountLease a;
          b = (if acc_Status b = StatusReady then b\<lparr>acc_Status := StatusRecovering\<rparr> else b)
      in b\<lparr>acc_LastError := ''lease '' @ leaseID @ '' expired at '' @ format_rfc3339 now
             @ ''; recovery check pending'',
           acc_UpdatedAt := now\<rparr>)"

fun expire_loop ::
  "State \<Rightarrow> time \<Rightarrow> Account list \<Rightarrow> DispatchEvent list
   \<Rightarrow> Account list \<times> DispatchEvent list \<times> string list" where
  "expire_loop st now [] ds = ([], ds, [])"
| "expire_loop st now (a # as) ds =
     (if \<not> lease_expired a now then
        (let (as', ds', ids) = expire_loop st now as ds in (a # as', ds', ids))
      else
        (let ds = appendDispatchEvent ds (dispatchEventFromAccount st a ''expired'' now);
             (as', ds', ids) = expire_loop st now as ds
         in (expire_account a now # as', ds', acc_ID a # ids)))"

definition expireAccountLeases :: "State \<Rightarrow> time \<Rightarrow> State \<times> string list \<times> bool" where
  "expireAccountLeases st now =
     (let (as, ds, ids) = expire_loop st now (st_Accounts st) (st_Dispatches st)
      in (st\<lparr>st_Accounts := as, st_Dispatches := ds\<rparr>, ids, ids \<noteq> []))"

definition sweep :: "State \<Rightarrow> time \<Rightarrow> State" where
  "sweep st now = fst (expireAccountLeases st now)"

lemma expire_account_simps [simp]:
  "acc_ID (expire_account a now) = acc_ID a" "acc_LeaseID (expire_account a now) = []"
  "acc_LeaseExpiresAt (expire_account a now) = zero_time"
  "acc_CodexHome (expire_account a now) = acc_CodexHome a"
  "acc_OwnerMode (expire_account a now) = acc_OwnerMode a"
  "acc_WorkspaceID (expire_account a now) = acc_WorkspaceID a"
  "acc_Generation (expire_account a now) = acc_Generation a"
  by (simp_all add: expire_account_def clearAccountLease_def Let_def)

lemma expire_account_status:
  "acc_Status (expire_account a now) =
     (if acc_Status a = StatusReady then StatusRecovering else acc_Status a)"
  by (simp add: expire_account_def clearAccountLease_def Let_def)

lemma expire_loop_accounts:
  "fst (expire_loop st now as ds) =
     map (\<lambda>a. if lease_expired a now then expire_account a now else a) as"
  by (induction as arbitrary: ds) (simp_all add: Let_def case_prod_beta)

lemma expire_loop_ids:
  "snd (snd (expire_loop st now as ds)) = map acc_ID (filter (\<lambda>a. lease_expired a now) as)"
  by (induction as arbitrary: ds) (simp_all add: Let_def case_prod_beta)

lemma expire_loop_history:
  "history_ok ds \<Longrightarrow> history_ok (fst (snd (expire_loop st now as ds)))"
  by (induction as arbitrary: ds) (simp_all add: Let_def case_prod_beta appendDispatchEvent_ok)

lemma sweep_accounts:
  "st_Accounts (sweep st now) =
     map (\<lambda>a. if lease_expired a now then expire_account a now else a) (st_Accounts st)"
  using expire_loop_accounts [of st now "st_Accounts st" "st_Dispatches st"]
  by (auto simp: sweep_def expireAccountLeases_def split: prod.splits)

lemma sweep_fields [simp]:
  "st_Clients (sweep st now) = st_Clients st" "st_Users (sweep st now) = st_Users st"
  "st_QuotaCache (sweep st now) = st_QuotaCache st"
  "st_Memberships (sweep st now) = st_Memberships st"
  "st_Workspaces (sweep st now) = st_Workspaces st"
  by (simp_all add: sweep_def expireAccountLeases_def split: prod.splits)

lemma sweep_ids: "accountIDs (sweep st now) = accountIDs st"
  by (simp add: accountIDs_def sweep_accounts)

lemma expired_ids:
  "fst (snd (expireAccountLeases st now)) =
     map acc_ID (filter (\<lambda>a. lease_expired a now) (st_Accounts st))"
  using expire_loop_ids [of st now "st_Accounts st" "st_Dispatches st"]
  by (auto simp: expireAccountLeases_def split: prod.splits)

lemma active_not_expired: "accountLeaseActive a now \<Longrightarrow> \<not> lease_expired a now"
  by (auto simp: accountLeaseActive_def lease_expired_def)

lemma expired_later: "accountLeaseActive a now \<Longrightarrow> acc_LeaseExpiresAt a \<le> now' \<Longrightarrow> lease_expired a now'"
  by (auto simp: accountLeaseActive_def lease_expired_def)

text \<open>After the sweep every lease with an end is active; an active one is untouched.\<close>

lemma sweep_active:
  "a \<in> set (st_Accounts st) \<Longrightarrow> accountLeaseActive a now \<Longrightarrow> a \<in> set (st_Accounts (sweep st now))"
  using active_not_expired [of a now] by (force simp: sweep_accounts)

lemma sweep_settled: "a \<in> set (st_Accounts (sweep st now)) \<Longrightarrow> \<not> lease_expired a now"
  by (auto simp: sweep_accounts) (simp add: lease_expired_def)

lemma sweep_idem: "st_Accounts (sweep (sweep st now) now) = st_Accounts (sweep st now)"
  using sweep_settled by (force simp: sweep_accounts [of "sweep st now"] intro: map_idI)

lemma sweep_history: "history_ok (st_Dispatches st) \<Longrightarrow> history_ok (st_Dispatches (sweep st now))"
  using expire_loop_history [of "st_Dispatches st" st now "st_Accounts st"]
  by (auto simp: sweep_def expireAccountLeases_def split: prod.splits)

section \<open>Finding and validating a lease\<close>

definition findLeaseAccount :: "State \<Rightarrow> string \<Rightarrow> string \<Rightarrow> error + (nat \<times> Account)" where
  "findLeaseAccount st accountID leaseID =
     (let accountID = trim_space accountID; leaseID = trim_space leaseID in
      case find_index (\<lambda>a. (accountID = [] \<or> acc_ID a = accountID)
                         \<and> (leaseID = [] \<or> acc_LeaseID a = leaseID)) (st_Accounts st) of
        Some i \<Rightarrow> Inr (i, st_Accounts st ! i)
      | None \<Rightarrow>
          Inl (ErrText (if accountID \<noteq> []
            then ''lease '' @ quoted leaseID @ '' for account '' @ quoted accountID @ '' not found''
            else ''lease '' @ quoted leaseID @ '' not found'')))"

definition validateLease :: "Account \<Rightarrow> string \<Rightarrow> string \<Rightarrow> time \<Rightarrow> error option" where
  "validateLease a leaseID clientID now =
     (let leaseID = trim_space leaseID; clientID = trim_space clientID in
      if leaseID = [] \<or> acc_LeaseID a \<noteq> leaseID
      then Some (ErrText (''account '' @ acc_ID a @ '' is not held by lease '' @ quoted leaseID))
      else if \<not> accountLeaseActive a now
      then Some (ErrText (''lease '' @ leaseID @ '' for account '' @ acc_ID a @ '' has expired''))
      else if clientID \<noteq> [] \<and> acc_LeaseClientID a \<noteq> [] \<and> acc_LeaseClientID a \<noteq> clientID
      then Some (ErrText (''lease '' @ leaseID @ '' belongs to client '' @ acc_LeaseClientID a))
      else None)"

lemma findLeaseAccount_Inr:
  "findLeaseAccount st accountID leaseID = Inr (i, a) \<Longrightarrow>
     i < length (st_Accounts st) \<and> a = st_Accounts st ! i
     \<and> (trim_space accountID = [] \<or> acc_ID a = trim_space accountID)
     \<and> (trim_space leaseID = [] \<or> acc_LeaseID a = trim_space leaseID)"
  by (auto simp: findLeaseAccount_def Let_def dest: find_index_SomeD split: option.splits)

lemma validateLease_None:
  "validateLease a leaseID clientID now = None \<longleftrightarrow>
     trim_space leaseID \<noteq> [] \<and> acc_LeaseID a = trim_space leaseID \<and> accountLeaseActive a now
     \<and> (trim_space clientID = [] \<or> acc_LeaseClientID a = [] \<or> acc_LeaseClientID a = trim_space clientID)"
  by (auto simp: validateLease_def Let_def)

section \<open>Changes to the state\<close>

definition set_account :: "nat \<Rightarrow> Account \<Rightarrow> State \<Rightarrow> State" where
  "set_account i a st = st\<lparr>st_Accounts := (st_Accounts st)[i := a]\<rparr>"

text \<open>The candidates of a claim, in the order of the accounts: index, account, score.\<close>

definition claim_candidates ::
  "(Account \<Rightarrow> bool) \<Rightarrow> State \<Rightarrow> string \<Rightarrow> time \<Rightarrow> (nat \<times> Account \<times> percent) list" where
  "claim_candidates authPresent st workspaceID now =
     concat (map (\<lambda>(i, a).
       if workspaceID \<noteq> [] \<and> workspaceOrDefault (acc_WorkspaceID a) \<noteq> workspaceID then []
       else let ev = loadBalanceEligibilityForAccount a (authPresent a) (quota_of st (acc_ID a)) now in
         if \<not> ev_Eligible ev then [] else [(i, a, ev_QuotaScore ev)])
       (enumerate 0 (st_Accounts st)))"

abbreviation cand_score :: "nat \<times> Account \<times> percent \<Rightarrow> percent" where
  "cand_score c \<equiv> snd (snd c)"

abbreviation cand_key :: "nat \<times> Account \<times> percent \<Rightarrow> string" where
  "cand_key c \<equiv> acc_ID (fst (snd c))"

definition claim_account ::
  "string \<Rightarrow> string \<Rightarrow> string \<Rightarrow> duration \<Rightarrow> time \<Rightarrow> Account \<Rightarrow> Account" where
  "claim_account leaseID clientID holder ttl now a = a\<lparr>
     acc_LeaseID := leaseID, acc_LeaseClientID := trim_space clientID,
     acc_LeaseHolder := trim_space holder, acc_LeaseStartedAt := now, acc_LeaseHeartbeatAt := now,
     acc_LeaseExpiresAt := now + normalizeLeaseTTL ttl, acc_UpdatedAt := now\<rparr>"

definition claim_state ::
  "nat \<Rightarrow> string \<Rightarrow> string \<Rightarrow> string \<Rightarrow> duration \<Rightarrow> time \<Rightarrow> State \<Rightarrow> State \<times> Account" where
  "claim_state i leaseID clientID holder ttl now st =
     (let a = claim_account leaseID clientID holder ttl now (st_Accounts st ! i);
          st = set_account i a st
      in (st\<lparr>st_Dispatches := appendDispatchEvent (st_Dispatches st)
               (dispatchEventFromAccount st a ''claimed'' now)\<rparr>, a))"

definition touch_account :: "string \<Rightarrow> duration \<Rightarrow> time \<Rightarrow> Account \<Rightarrow> Account" where
  "touch_account holder ttl now a = a\<lparr>
     acc_LeaseHolder := firstNonEmpty [trim_space holder, acc_LeaseHolder a],
     acc_LeaseHeartbeatAt := now, acc_LeaseExpiresAt := now + normalizeLeaseTTL ttl,
     acc_UpdatedAt := now\<rparr>"

definition update_leased_account :: "ProfileSnapshot \<Rightarrow> duration \<Rightarrow> time \<Rightarrow> Account \<Rightarrow> Account" where
  "update_leased_account s ttl now a =
     (let a = (if trim_space (ps_Label s) \<noteq> [] then a\<lparr>acc_Label := trim_space (ps_Label s)\<rparr> else a);
          a = (if trim_space (ps_Plan s) \<noteq> [] then a\<lparr>acc_Plan := trim_space (ps_Plan s)\<rparr> else a);
          a = (if ps_Status s \<noteq> NoStatus then a\<lparr>acc_Status := ps_Status s\<rparr> else a)
      in a\<lparr>acc_Generation := wrap64 (acc_Generation a + 1),
           acc_LeaseHolder := firstNonEmpty [trim_space (ps_SourceClient s), acc_LeaseHolder a],
           acc_LeaseHeartbeatAt := now, acc_LeaseExpiresAt := now + normalizeLeaseTTL ttl,
           acc_UpdatedAt := now\<rparr>)"

definition release_state :: "nat \<Rightarrow> Account \<Rightarrow> time \<Rightarrow> State \<Rightarrow> State" where
  "release_state i a now st =
     (let st = st\<lparr>st_Dispatches := appendDispatchEvent (st_Dispatches st)
                 (dispatchEventFromAccount st a ''released'' now)\<rparr>
      in set_account i ((clearAccountLease a)\<lparr>acc_UpdatedAt := now\<rparr>) st)"

end
