(* ===== verification/Accounts.thy ===== *)
theory Accounts
  imports LeaseCore
begin

text \<open>
  \<open>internal/manager/accounts.go\<close> and the credential copying of
  \<open>internal/manager/codex.go\<close>: adding, importing, listing, changing and deleting
  accounts. The main facts: each operation of the account list keeps its ids distinct,
  an update changes one account and leaves the rest, deleting removes only a directory
  inside the accounts directory, and a credential is never written over a leased account.
\<close>

section \<open>Views\<close>

definition defaultCodexHome :: "'m Manager_scheme \<Rightarrow> error + string" where
  "defaultCodexHome M =
     (case env_home M of
        None \<Rightarrow> Inl (ErrText ''$HOME is not defined'')
      | Some home \<Rightarrow>
          (let v = trim_space (env_codex_home M) in
           if v \<noteq> [] then Inr (expandPath v home) else Inr (path_join home ''.codex'')))"

definition CodexConfigPath :: "'m Manager_scheme \<Rightarrow> string \<Rightarrow> string" where
  "CodexConfigPath M codexHome =
     (let codexHome = trim_space codexHome;
          codexHome = (if codexHome = [] then
            (case defaultCodexHome M of Inr v \<Rightarrow> v | Inl _ \<Rightarrow> codexHome) else codexHome)
      in config_path codexHome)"

definition isAccountActive :: "'m Manager_scheme \<Rightarrow> World \<Rightarrow> Account \<Rightarrow> bool" where
  "isAccountActive M w a =
     (let live = auth_path (m_LiveCodexHome M); acc = auth_path (acc_CodexHome a) in
      if stat_file w live = None \<or> stat_file w acc = None then False
      else let id1 = authIdentity M (readAuthMetadata (w_files w) live);
               id2 = authIdentity M (readAuthMetadata (w_files w) acc)
           in id1 \<noteq> [] \<and> id1 = id2)"

definition accountAuthPresent :: "World \<Rightarrow> Account \<Rightarrow> bool" where
  "accountAuthPresent w a \<longleftrightarrow> stat_file w (auth_path (acc_CodexHome a)) \<noteq> None"

definition time_of :: "time option \<Rightarrow> time" where
  "time_of t = (case t of None \<Rightarrow> zero_time | Some t \<Rightarrow> t)"

definition accountView :: "'m Manager_scheme \<Rightarrow> World \<Rightarrow> Account \<Rightarrow> AccountView" where
  "accountView M w a =
     (let authPath = auth_path (acc_CodexHome a);
          configPath = CodexConfigPath M (m_LiveCodexHome M)
      in \<lparr>av_Account = a, av_AuthPresent = stat_file w authPath \<noteq> None, av_AuthPath = authPath,
          av_AuthUpdated = time_of (stat_file w authPath),
          av_ConfigPresent = stat_file w configPath \<noteq> None, av_ConfigPath = configPath,
          av_ConfigUpdated = time_of (stat_file w configPath),
          av_Active = isAccountActive M w a,
          av_LeaseActive = accountLeaseActive a (w_now w)\<rparr>)"

section \<open>Adding\<close>

definition new_account :: "string \<Rightarrow> string \<Rightarrow> string \<Rightarrow> time \<Rightarrow> Account" where
  "new_account k label home now = \<lparr>acc_ID = k, acc_Label = label, acc_Plan = [],
     acc_Status = StatusReady, acc_CodexHome = home, acc_WorkspaceID = [], acc_OwnerMode = OwnerCloud,
     acc_OwnerClientID = [], acc_Generation = 0, acc_LeaseID = [], acc_LeaseClientID = [],
     acc_LeaseHolder = [], acc_LeaseStartedAt = zero_time, acc_LeaseHeartbeatAt = zero_time,
     acc_LeaseExpiresAt = zero_time, acc_CreatedAt = now, acc_UpdatedAt = now, acc_LastError = []\<rparr>"

definition addAccountLocked :: "'m Manager_scheme \<Rightarrow> string \<Rightarrow> string \<Rightarrow> Account io" where
  "addAccountLocked M k label =
     (let k = trim_space k; label = trim_space label in
      if \<not> matches_accountIDPattern k
      then throwE (ErrText ''account id must match ^[a-zA-Z0-9][a-zA-Z0-9_-]{0,63}$'')
      else bindE (Load M) (\<lambda>st.
        if k \<in> set (accountIDs st)
        then throwE (ErrText (''account '' @ quoted k @ '' already exists''))
        else bindE nowE (\<lambda>now.
          let a = new_account k label (path_join (m_AccountsDir M) k) now in
          bindE (mkdirAll (acc_CodexHome a)) (\<lambda>_.
          bindE (Save M (st\<lparr>st_Accounts := st_Accounts st @ [a]\<rparr>)) (\<lambda>_. returnE a)))))"

definition AddAccount :: "'m Manager_scheme \<Rightarrow> string \<Rightarrow> string \<Rightarrow> Account io" where
  "AddAccount M k label = withMu (addAccountLocked M k label)"

text \<open>Set the generation of a freshly added account to 1, in the state loaded again.\<close>

definition mark_first_generation :: "'m Manager_scheme \<Rightarrow> Account \<Rightarrow> Account io" where
  "mark_first_generation M a =
     bindE (Load M) (\<lambda>st. bindE nowE (\<lambda>now.
       case find_index (\<lambda>b. acc_ID b = acc_ID a) (st_Accounts st) of
         None \<Rightarrow> bindE (Save M st) (\<lambda>_. returnE a)
       | Some i \<Rightarrow>
           let b = (st_Accounts st ! i)\<lparr>acc_Generation := 1, acc_UpdatedAt := now\<rparr> in
           bindE (Save M (set_account i b st)) (\<lambda>_. returnE b)))"

definition live_source :: "'m Manager_scheme \<Rightarrow> string \<Rightarrow> string io" where
  "live_source M source =
     (let source = (if trim_space source = [] then m_LiveCodexHome M else source) in
      if trim_space source = [] then
        (case defaultCodexHome M of Inl e \<Rightarrow> throwE e | Inr v \<Rightarrow> returnE v)
      else returnE source)"

definition import_id :: "'m Manager_scheme \<Rightarrow> State \<Rightarrow> time \<Rightarrow> json \<Rightarrow> string \<Rightarrow> string" where
  "import_id M st now auth label =
     (let k = sanitizeAccountID (deriveIDFromAuth M auth label) in
      if k = [] then uniqueFromUsed (''profile-'' @ format_stamp now) (accountIDs st) now else k)"

definition ImportLiveProfile :: "'m Manager_scheme \<Rightarrow> string \<Rightarrow> string \<Rightarrow> string \<Rightarrow> Account io" where
  "ImportLiveProfile M k label source = withMu (
     bindE (live_source M source) (\<lambda>source.
     let sourceAuth = auth_path source in
     bindE (getsE (\<lambda>w. w)) (\<lambda>w.
     if stat_file w sourceAuth = None
     then throwE (ErrText (''no auth.json found in '' @ source))
     else let auth = readAuthMetadata (w_files w) sourceAuth in
       bindE (Load M) (\<lambda>st. bindE nowE (\<lambda>now. bindE (getsE w_files) (\<lambda>files.
       let identity = authIdentity M auth;
           k = (if trim_space k = [] then import_id M st now auth label else k)
       in case duplicateAccount M files st k identity of
            Some dup \<Rightarrow> throwE (ErrText (''auth.json already exists as account '' @ quoted (acc_ID dup)))
          | None \<Rightarrow>
              let label = (if trim_space label = [] then
                    (let l = deriveLabelFromAuth M auth in
                     if trim_space l = [] then path_base (clean_path source) else l)
                  else label) in
              bindE (addAccountLocked M k label) (\<lambda>a.
              bindE (copyFile sourceAuth (auth_path (acc_CodexHome a))) (\<lambda>_.
                mark_first_generation M a))))))))"

section \<open>Replacing a credential\<close>

definition writeProfileFiles :: "Account \<Rightarrow> content \<Rightarrow> unit io" where
  "writeProfileFiles a auth =
     bindE (mkdirAll (acc_CodexHome a)) (\<lambda>_. writeFile (auth_path (acc_CodexHome a)) auth)"

text \<open>
  \<open>json.Unmarshal\<close> into a map: an object, or null which makes it the nil map (the
  literal null is refused before; a document of another type is an error).
\<close>

fun auth_object :: "content \<Rightarrow> json option" where
  "auth_object (Doc (JObj kvs)) = Some (JObj kvs)"
| "auth_object _ = None"

definition existing_index ::
  "'m Manager_scheme \<Rightarrow> (string \<times> (content \<times> time)) list \<Rightarrow> State \<Rightarrow> string \<Rightarrow> string \<Rightarrow> nat option" where
  "existing_index M files st k identity =
     (case find_index (\<lambda>a. acc_ID a = k) (st_Accounts st) of
        Some i \<Rightarrow> Some i
      | None \<Rightarrow>
          if identity \<noteq> [] then
            find_index (\<lambda>a. authIdentity M (readAuthMetadata files (auth_path (acc_CodexHome a))) = identity)
              (st_Accounts st)
          else None)"

definition upsertJSONProfileLocked :: "'m Manager_scheme \<Rightarrow> JSONProfile \<Rightarrow> Account io" where
  "upsertJSONProfileLocked M p =
     (if content_missing (jp_Auth p)
      then throwE (ErrText ''profile json must include auth, or upload a raw auth.json'')
      else case auth_object (jp_Auth p) of
        None \<Rightarrow> throwE (ErrText ''auth is not valid JSON'')
      | Some auth \<Rightarrow>
          bindE (Load M) (\<lambda>st. bindE nowE (\<lambda>now. bindE (getsE w_files) (\<lambda>files.
          let identity = authIdentity M auth;
              k = trim_space (jp_ID p);
              k = (if k = [] then import_id M st now auth (jp_Label p) else k);
              label = trim_space (jp_Label p);
              label = (if label = [] then deriveLabelFromAuth M auth else label)
          in case existing_index M files st k identity of
               Some i \<Rightarrow>
                 let a = st_Accounts st ! i in
                 if accountLeaseActive a now
                 then throwE (ErrText (''account '' @ quoted (acc_ID a)
                   @ '' is currently leased; wait for release or use the lease auth endpoint''))
                 else bindE (writeProfileFiles a (jp_Auth p)) (\<lambda>_.
                   let a = (if label \<noteq> [] then a\<lparr>acc_Label := label\<rparr> else a);
                       a = a\<lparr>acc_Generation := wrap64 (acc_Generation a + 1), acc_UpdatedAt := now\<rparr>
                   in bindE (Save M (set_account i a st)) (\<lambda>_. returnE a))
             | None \<Rightarrow>
                 bindE (addAccountLocked M k label) (\<lambda>a.
                 bindE (writeProfileFiles a (jp_Auth p)) (\<lambda>_. mark_first_generation M a))))))"

definition UpsertJSONProfile :: "'m Manager_scheme \<Rightarrow> JSONProfile \<Rightarrow> Account io" where
  "UpsertJSONProfile M p = withMu (upsertJSONProfileLocked M p)"

definition ImportJSONProfile :: "'m Manager_scheme \<Rightarrow> JSONProfile \<Rightarrow> Account io" where
  "ImportJSONProfile M p = UpsertJSONProfile M p"

definition snapshot_fields :: "ProfileSnapshot \<Rightarrow> time \<Rightarrow> Account \<Rightarrow> Account" where
  "snapshot_fields s now a =
     (let a = (if trim_space (ps_Label s) \<noteq> [] then a\<lparr>acc_Label := trim_space (ps_Label s)\<rparr> else a);
          a = (if trim_space (ps_Plan s) \<noteq> [] then a\<lparr>acc_Plan := trim_space (ps_Plan s)\<rparr> else a);
          a = (if ps_Status s \<noteq> NoStatus then a\<lparr>acc_Status := ps_Status s\<rparr> else a);
          a = (if ps_OwnerMode s \<noteq> NoOwner then a\<lparr>acc_OwnerMode := ps_OwnerMode s\<rparr> else a);
          a = (if trim_space (ps_OwnerClientID s) \<noteq> []
               then a\<lparr>acc_OwnerClientID := trim_space (ps_OwnerClientID s)\<rparr>
               else if ps_OwnerMode s = OwnerClient \<and> trim_space (ps_SourceClient s) \<noteq> []
               then a\<lparr>acc_OwnerClientID := trim_space (ps_SourceClient s)\<rparr> else a)
      in a\<lparr>acc_UpdatedAt := now\<rparr>)"

definition UpsertProfileSnapshot :: "'m Manager_scheme \<Rightarrow> ProfileSnapshot \<Rightarrow> Account io" where
  "UpsertProfileSnapshot M s = withMu (withFlock M (
     bindE (upsertJSONProfileLocked M
       \<lparr>jp_ID = ps_ID s, jp_Label = ps_Label s, jp_Auth = ps_Auth s, jp_Config = []\<rparr>) (\<lambda>a.
     if ps_Status s \<noteq> NoStatus \<and> \<not> validAccountStatus (ps_Status s)
     then throwE (ErrText (''unknown status '' @ quoted (status_text (ps_Status s))))
     else if ps_OwnerMode s \<noteq> NoOwner \<and> \<not> validOwnerMode (ps_OwnerMode s)
     then throwE (ErrText (''unknown owner mode '' @ quoted (owner_text (ps_OwnerMode s))))
     else bindE (Load M) (\<lambda>st. bindE nowE (\<lambda>now.
       case find_index (\<lambda>b. acc_ID b = acc_ID a) (st_Accounts st) of
         None \<Rightarrow> bindE (Save M st) (\<lambda>_. returnE a)
       | Some i \<Rightarrow>
           let b = snapshot_fields s now (st_Accounts st ! i) in
           bindE (Save M (set_account i b st)) (\<lambda>_. returnE b))))))"

section \<open>Listing and reading\<close>

definition hasManagedFiles :: "World \<Rightarrow> string \<Rightarrow> bool" where
  "hasManagedFiles w codexHome \<longleftrightarrow> stat_file w (auth_path codexHome) \<noteq> None"

text \<open>The loop over the entries, with the ids used and the paths known so far.\<close>

fun sync_entries ::
  "'m Manager_scheme \<Rightarrow> World \<Rightarrow> string list \<Rightarrow> string list \<Rightarrow> string list \<Rightarrow> Account list" where
  "sync_entries M w used known [] = []"
| "sync_entries M w used known (n # ns) =
     (let home = path_join (m_AccountsDir M) n in
      if clean_path home \<in> set known \<or> \<not> hasManagedFiles w home then sync_entries M w used known ns
      else
        let k = sanitizeAccountID n;
            k = (if k = [] \<or> k \<in> set used then uniqueFromUsed (''profile-'' @ n) used (w_now w) else k);
            label = deriveLabelFromAuth M (readAuthMetadata (w_files w) (auth_path home));
            label = (if label = [] then n else label)
        in new_account k label home (w_now w)
             # sync_entries M w (k # used) (clean_path home # known) ns)"

definition syncManagedAccounts :: "'m Manager_scheme \<Rightarrow> State \<Rightarrow> (State \<times> bool) io" where
  "syncManagedAccounts M st =
     bindE stepE (\<lambda>_. bindE (getsE (\<lambda>w. w)) (\<lambda>w.
       let new = sync_entries M w (accountIDs st)
             (map (\<lambda>a. clean_path (acc_CodexHome a)) (st_Accounts st))
             (dir_entries w (m_AccountsDir M))
       in returnE (st\<lparr>st_Accounts := st_Accounts st @ new\<rparr>, new \<noteq> [])))"

definition listAccountsLocked :: "'m Manager_scheme \<Rightarrow> AccountView list io" where
  "listAccountsLocked M =
     bindE (Load M) (\<lambda>st. bindE (syncManagedAccounts M st) (\<lambda>(next, changed).
     bindE (whenE changed (Save M next)) (\<lambda>_. bindE (getsE (\<lambda>w. w)) (\<lambda>w.
       returnE (sort_slice (\<lambda>a b. acc_ID (av_Account a) < acc_ID (av_Account b))
         (map (accountView M w) (st_Accounts next)))))))"

definition ListAccounts :: "'m Manager_scheme \<Rightarrow> AccountView list io" where
  "ListAccounts M = withMu (listAccountsLocked M)"

definition LiveProfileView :: "'m Manager_scheme \<Rightarrow> AccountView io" where
  "LiveProfileView M = getsE (\<lambda>w. accountView M w
     ((new_account ''current-codex'' ''Current Codex'' (m_LiveCodexHome M) zero_time)
        \<lparr>acc_OwnerMode := OwnerClient\<rparr>))"

definition account_missing :: "string \<Rightarrow> error" where
  "account_missing k = ErrText (''account '' @ quoted k @ '' not found'')"

definition GetAccount :: "'m Manager_scheme \<Rightarrow> string \<Rightarrow> Account io" where
  "GetAccount M k = bindE (Load M) (\<lambda>st.
     case find (\<lambda>a. acc_ID a = k) (st_Accounts st) of
       Some a \<Rightarrow> returnE a | None \<Rightarrow> throwE (account_missing k))"

definition AccountViewByID :: "'m Manager_scheme \<Rightarrow> string \<Rightarrow> AccountView io" where
  "AccountViewByID M k = bindE (Load M) (\<lambda>st.
     case find (\<lambda>a. acc_ID a = k) (st_Accounts st) of
       Some a \<Rightarrow> getsE (\<lambda>w. accountView M w a)
     | None \<Rightarrow> throwE (ErrAccountNotFound (quoted k)))"

definition ExportProfileSnapshot :: "'m Manager_scheme \<Rightarrow> string \<Rightarrow> ProfileSnapshot io" where
  "ExportProfileSnapshot M k =
     bindE (GetAccount M k) (\<lambda>a.
     let path = auth_path (acc_CodexHome a) in
     bindE (readFile path) (\<lambda>raw.
     case raw of
       None \<Rightarrow> throwE (ErrText (''account '' @ quoted k @ '' has no auth.json''))
     | Some auth \<Rightarrow>
         bindE (getsE (\<lambda>w. stat_file w path)) (\<lambda>info.
         let updatedAt = (case info of
               Some t \<Rightarrow> if t > acc_UpdatedAt a then t else acc_UpdatedAt a
             | None \<Rightarrow> acc_UpdatedAt a) in
         returnE \<lparr>ps_ID = acc_ID a, ps_Label = acc_Label a, ps_Plan = acc_Plan a,
           ps_Status = acc_Status a, ps_Auth = auth, ps_Config = [], ps_SourceClient = [],
           ps_OwnerMode = acc_OwnerMode a, ps_OwnerClientID = acc_OwnerClientID a, ps_LeaseID = [],
           ps_Generation = acc_Generation a, ps_UpdatedAt = updatedAt\<rparr>)))"

definition ExportLiveProfileSnapshot :: "'m Manager_scheme \<Rightarrow> string \<Rightarrow> ProfileSnapshot io" where
  "ExportLiveProfileSnapshot M ownerClientID =
     (let home = trim_space (m_LiveCodexHome M) in
      bindE (if home \<noteq> [] then returnE home
             else case defaultCodexHome M of Inl e \<Rightarrow> throwE e | Inr v \<Rightarrow> returnE v) (\<lambda>home.
      let path = auth_path home in
      bindE (readFile path) (\<lambda>raw.
      case raw of
        None \<Rightarrow> throwE (ErrText (''no auth.json found in '' @ home))
      | Some auth \<Rightarrow>
          if \<not> content_valid auth then throwE (ErrText (path @ '' is not valid JSON''))
          else bindE (getsE (\<lambda>w. w)) (\<lambda>w.
            let meta = readAuthMetadata (w_files w) path;
                label = deriveLabelFromAuth M meta;
                k = sanitizeAccountID (deriveIDFromAuth M meta label);
                k = (if k = [] then ''current-codex'' else k);
                updatedAt = (case stat_file w path of Some t \<Rightarrow> t | None \<Rightarrow> w_now w)
            in returnE \<lparr>ps_ID = k, ps_Label = label, ps_Plan = [], ps_Status = StatusReady,
                 ps_Auth = auth, ps_Config = [], ps_SourceClient = [], ps_OwnerMode = OwnerClient,
                 ps_OwnerClientID = trim_space ownerClientID, ps_LeaseID = [], ps_Generation = 0,
                 ps_UpdatedAt = updatedAt\<rparr>))))"

section \<open>Changing one account\<close>

definition on_account ::
  "string \<Rightarrow> (Account \<Rightarrow> Account) \<Rightarrow> State \<Rightarrow> unit outcome" where
  "on_account k f st =
     (case find_index (\<lambda>a. acc_ID a = k) (st_Accounts st) of
        None \<Rightarrow> Fail (account_missing k)
      | Some i \<Rightarrow> Commit (set_account i (f (st_Accounts st ! i)) st) ())"

definition SetStatus :: "'m Manager_scheme \<Rightarrow> string \<Rightarrow> AccountStatus \<Rightarrow> unit io" where
  "SetStatus M k status =
     (if \<not> validAccountStatus status
      then throwE (ErrText (''unknown status '' @ quoted (status_text status)))
      else update_state M (\<lambda>now. on_account k
        (\<lambda>a. a\<lparr>acc_Status := status, acc_UpdatedAt := now\<rparr>)))"

definition workspaceExists :: "State \<Rightarrow> string \<Rightarrow> bool" where
  "workspaceExists st k \<longleftrightarrow> list_ex (\<lambda>x. ws_ID x = k) (st_Workspaces st)"

definition workspace_missing :: "string \<Rightarrow> error" where
  "workspace_missing k = ErrText (''workspace '' @ quoted k @ '' not found'')"

definition SetAccountWorkspace :: "'m Manager_scheme \<Rightarrow> string \<Rightarrow> string \<Rightarrow> unit io" where
  "SetAccountWorkspace M k workspaceID =
     (let workspaceID = workspaceOrDefault workspaceID in
      update_state M (\<lambda>now st.
        if \<not> workspaceExists st workspaceID then Fail (workspace_missing workspaceID)
        else on_account k (\<lambda>a. a\<lparr>acc_WorkspaceID := workspaceID, acc_UpdatedAt := now\<rparr>) st))"

definition SetLabel :: "'m Manager_scheme \<Rightarrow> string \<Rightarrow> string \<Rightarrow> unit io" where
  "SetLabel M k label =
     (let label = trim_space label in
      update_state M (\<lambda>now. on_account k (\<lambda>a. a\<lparr>acc_Label := label, acc_UpdatedAt := now\<rparr>)))"

definition SetOwner :: "'m Manager_scheme \<Rightarrow> string \<Rightarrow> AccountOwnerMode \<Rightarrow> string \<Rightarrow> unit io" where
  "SetOwner M k ownerMode ownerClientID =
     (if \<not> validOwnerMode ownerMode
      then throwE (ErrText (''unknown owner mode '' @ quoted (owner_text ownerMode)))
      else update_state M (\<lambda>now. on_account k (\<lambda>a.
        let a = a\<lparr>acc_OwnerMode := ownerMode, acc_OwnerClientID := trim_space ownerClientID\<rparr>;
            a = (if ownerMode = OwnerClient then clearAccountLease a else a)
        in a\<lparr>acc_UpdatedAt := now\<rparr>)))"

section \<open>Deleting\<close>

definition validateManagedCodexHome :: "'m Manager_scheme \<Rightarrow> string \<Rightarrow> error option" where
  "validateManagedCodexHome M home =
     (if trim_space home = [] then Some (ErrText ''account codex home cannot be empty'')
      else if samePath (env_cwd M) home (m_LiveCodexHome M)
      then Some (ErrText (''refusing to delete live CodexHome '' @ home))
      else if (case defaultCodexHome M of Inr d \<Rightarrow> samePath (env_cwd M) home d | Inl _ \<Rightarrow> False)
      then Some (ErrText (''refusing to delete live CodexHome '' @ home))
      else if \<not> pathWithin (env_cwd M) home (m_AccountsDir M)
      then Some (ErrText (''refusing to delete unmanaged CodexHome '' @ home))
      else None)"

definition forget_round_robin :: "'m Manager_scheme \<Rightarrow> string \<Rightarrow> unit io" where
  "forget_round_robin M k =
     bindE (tryE (loadRoundRobinState M)) (\<lambda>r.
       case r of Inr lastID \<Rightarrow> whenE (lastID = k) (ignoreE (ResetRoundRobin M))
               | Inl _ \<Rightarrow> returnE ())"

definition DeleteAccount :: "'m Manager_scheme \<Rightarrow> string \<Rightarrow> Account io" where
  "DeleteAccount M k = withMu (
     bindE (Load M) (\<lambda>st.
     case find_index (\<lambda>a. acc_ID a = k) (st_Accounts st) of
       None \<Rightarrow> throwE (account_missing k)
     | Some i \<Rightarrow>
         let a = st_Accounts st ! i in
         (case validateManagedCodexHome M (acc_CodexHome a) of
            Some e \<Rightarrow> throwE e
          | None \<Rightarrow>
              bindE (removeAll_dir (acc_CodexHome a)) (\<lambda>_.
              let st = st\<lparr>st_Accounts := take i (st_Accounts st) @ drop (Suc i) (st_Accounts st)\<rparr> in
              bindE (if postgres_mode M then deletePostgresAccount k else Save M st) (\<lambda>_.
              bindE (forget_round_robin M k) (\<lambda>_. returnE a))))))"

section \<open>Copying the live credential (codex.go)\<close>

definition syncLiveAuthToManaged :: "'m Manager_scheme \<Rightarrow> Account \<Rightarrow> unit io" where
  "syncLiveAuthToManaged M a =
     (let live = auth_path (m_LiveCodexHome M); managed = auth_path (acc_CodexHome a) in
      if samePath (env_cwd M) live managed then returnE ()
      else bindE (getsE (\<lambda>w. w)) (\<lambda>w.
        case (stat_file w live, stat_file w managed) of
          (Some liveTime, Some managedTime) \<Rightarrow>
            if \<not> liveTime > managedTime then returnE ()
            else let l = authIdentity M (readAuthMetadata (w_files w) live);
                     m = authIdentity M (readAuthMetadata (w_files w) managed)
              in if l = [] \<or> l \<noteq> m then returnE () else copyFile live managed
        | _ \<Rightarrow> returnE ()))"

section \<open>Account ids stay distinct\<close>

definition ids_distinct :: "State \<Rightarrow> bool" where
  "ids_distinct st \<longleftrightarrow> distinct (accountIDs st)"

lemma accountIDs_normalize [simp]: "accountIDs (normalizeState now st) = accountIDs st"
  by (simp add: accountIDs_def comp_def)

lemma accountIDs_version [simp]: "accountIDs (st\<lparr>st_Version := v\<rparr>) = accountIDs st"
  by (simp add: accountIDs_def)

lemma ids_distinct_norm: "norm_closed ids_distinct"
  by (rule norm_closedI) (simp add: ids_distinct_def)

lemma accountIDs_set_account:
  "i < length (st_Accounts st) \<Longrightarrow> acc_ID a = acc_ID (st_Accounts st ! i) \<Longrightarrow>
   accountIDs (set_account i a st) = accountIDs st"
  by (simp add: accountIDs_def set_account_def map_list_update_same)

lemma accountIDs_find:
  "find_index p (st_Accounts st) = Some i \<Longrightarrow> acc_ID a = acc_ID (st_Accounts st ! i) \<Longrightarrow>
   accountIDs (set_account i a st) = accountIDs st"
  using find_index_SomeD by (intro accountIDs_set_account) fast+

lemma on_account_ids:
  assumes "on_account k f st = Commit st' x" "\<And>a. acc_ID (f a) = acc_ID a"
  shows "accountIDs st' = accountIDs st"
  using assms by (auto simp: on_account_def accountIDs_find split: option.splits)

lemma on_account_other:
  assumes "on_account k f st = Commit st' x" "a \<in> set (st_Accounts st)" "acc_ID a \<noteq> k"
  shows "a \<in> set (st_Accounts st')"
proof -
  obtain i where i: "find_index (\<lambda>a. acc_ID a = k) (st_Accounts st) = Some i"
      "st' = set_account i (f (st_Accounts st ! i)) st"
    using assms(1) by (auto simp: on_account_def split: option.splits)
  obtain j where j: "j < length (st_Accounts st)" "a = st_Accounts st ! j"
    using assms(2) by (auto simp: in_set_conv_nth)
  have "j \<noteq> i" using find_index_SomeD [OF i(1)] j(2) assms(3) by auto
  then have "st_Accounts st' ! j = a" using i(2) j by (simp add: set_account_def)
  with j(1) i(2) show ?thesis by (metis length_list_update nth_mem set_account_def
      State.select_convs(2) State.surjective State.update_convs(2))
qed

lemma safe_addAccountLocked:
  assumes "\<not> postgres_mode M"
  shows "safe_op T ids_distinct (addAccountLocked M k label)"
  unfolding addAccountLocked_def Let_def
  by (intro safe_ops assms ids_distinct_norm)
    (auto simp: ids_distinct_def accountIDs_def new_account_def)

lemma safe_mark_first:
  assumes "\<not> postgres_mode M"
  shows "safe_op T ids_distinct (mark_first_generation M a)"
  unfolding mark_first_generation_def Let_def
  by (intro safe_ops assms ids_distinct_norm) (auto simp: ids_distinct_def accountIDs_find)

lemma safe_AddAccount: "\<not> postgres_mode M \<Longrightarrow> safe_op T ids_distinct (AddAccount M k label)"
  unfolding AddAccount_def by (intro safe_ops safe_addAccountLocked)

lemma safe_live_source: "safe_op T I (live_source M source)"
  by (auto simp: live_source_def Let_def intro!: file_store.safe_prims split: sum.splits)

lemma safe_ImportLiveProfile:
  "\<not> postgres_mode M \<Longrightarrow> safe_op T ids_distinct (ImportLiveProfile M k label source)"
  unfolding ImportLiveProfile_def Let_def
  by (intro safe_ops safe_live_source safe_addAccountLocked safe_mark_first)

lemma safe_writeProfileFiles: "safe_op T I (writeProfileFiles a c)"
  unfolding writeProfileFiles_def by (intro safe_ops)

lemma existing_index_less:
  "existing_index M files st k identity = Some i \<Longrightarrow> i < length (st_Accounts st)"
  by (auto simp: existing_index_def dest: find_index_SomeD split: option.splits if_splits)

lemma safe_upsertJSONProfileLocked:
  assumes "\<not> postgres_mode M"
  shows "safe_op T ids_distinct (upsertJSONProfileLocked M p)"
  unfolding upsertJSONProfileLocked_def Let_def
  by (intro safe_ops safe_addAccountLocked safe_mark_first safe_writeProfileFiles assms ids_distinct_norm)
    (auto simp: ids_distinct_def accountIDs_set_account dest!: existing_index_less)

lemma safe_UpsertJSONProfile:
  "\<not> postgres_mode M \<Longrightarrow> safe_op T ids_distinct (UpsertJSONProfile M p)"
  unfolding UpsertJSONProfile_def by (intro safe_ops safe_upsertJSONProfileLocked)

lemma snapshot_fields_ID [simp]: "acc_ID (snapshot_fields s now a) = acc_ID a"
  by (simp add: snapshot_fields_def Let_def)

lemma safe_UpsertProfileSnapshot:
  assumes "\<not> postgres_mode M"
  shows "safe_op T ids_distinct (UpsertProfileSnapshot M s)"
  unfolding UpsertProfileSnapshot_def Let_def
  by (intro safe_ops safe_upsertJSONProfileLocked assms ids_distinct_norm)
    (auto simp: ids_distinct_def accountIDs_find)

lemma safe_account_updates:
  assumes "\<not> postgres_mode M"
  shows "safe_op T ids_distinct (SetStatus M k status)"
    "safe_op T ids_distinct (SetAccountWorkspace M k ws)"
    "safe_op T ids_distinct (SetLabel M k label)"
    "safe_op T ids_distinct (SetOwner M k mode owner)"
  unfolding SetStatus_def SetAccountWorkspace_def SetLabel_def SetOwner_def Let_def
  by (intro safe_ops assms ids_distinct_norm; auto simp: ids_distinct_def split: if_splits
      dest!: on_account_ids)+

lemma safe_DeleteAccount:
  assumes "\<not> postgres_mode M"
  shows "safe_op T ids_distinct (DeleteAccount M k)"
proof -
  have del: "ids_distinct (st\<lparr>st_Accounts := take i (st_Accounts st) @ drop (Suc i) (st_Accounts st)\<rparr>)"
    if "ids_distinct st" for st i
    using distinct_map_remove_nth [of acc_ID "st_Accounts st" i] that
    by (simp add: ids_distinct_def accountIDs_def)
  show ?thesis
    unfolding DeleteAccount_def forget_round_robin_def Let_def
    by (intro safe_ops assms ids_distinct_norm del) (use assms in auto)
qed

text \<open>Accounts found on disk get fresh ids, while there are fewer than 900 of them.\<close>

lemma sync_entries_fresh:
  "length used + length ns \<le> 900 \<Longrightarrow> distinct used \<Longrightarrow>
   distinct (map acc_ID (sync_entries M w used known ns) @ used)"
proof (induction ns arbitrary: used known)
  case (Cons n ns)
  define home where "home = path_join (m_AccountsDir M) n"
  define k where "k = (let k = sanitizeAccountID n in
    if k = [] \<or> k \<in> set used then uniqueFromUsed (''profile-'' @ n) used (w_now w) else k)"
  show ?case
  proof (cases "clean_path home \<in> set known \<or> \<not> hasManagedFiles w home")
    case True
    with Cons show ?thesis by (simp add: home_def)
  next
    case False
    have "length used < 900" using Cons.prems(1) by simp
    then have fresh: "k \<notin> set used" by (simp add: k_def Let_def uniqueFromUsed_fresh_small)
    then have "distinct (map acc_ID (sync_entries M w (k # used) (clean_path home # known) ns) @ k # used)"
      using Cons.IH [of "k # used" "clean_path home # known"] Cons.prems by simp
    with False show ?thesis by (auto simp: Let_def new_account_def k_def home_def)
  qed
qed simp

definition few_accounts :: "'m Manager_scheme \<Rightarrow> World \<Rightarrow> bool" where
  "few_accounts M w \<longleftrightarrow>
     length (st_Accounts (stored w)) + length (dir_entries w (m_AccountsDir M)) \<le> 900"

lemma listAccountsLocked_ids:
  assumes m: "\<not> postgres_mode M" and few: "few_accounts M w" and I: "ids_distinct (stored w)"
  shows "ids_distinct (stored (snd (listAccountsLocked M w)))"
proof -
  obtain r1 w1 where 1: "Load M w = (r1, w1)" by fastforce
  note s1 = Load_same [OF m 1]
  have v1: "stored w1 = stored w" using s1 same_fields [of w w1] by (simp add: stored_def)
  show ?thesis
  proof (cases r1)
    case (Inl e)
    with 1 v1 I show ?thesis by (simp add: listAccountsLocked_def)
  next
    case (Inr st)
    with s1 have st: "st = stored w" by simp
    obtain r2 w2 where 2: "stepE w1 = (r2, w2)" by fastforce
    have s2: "same_but_faults w w2" using s1 stepE_D [OF 2] same_trans by blast
    have v2: "stored w2 = stored w" and d2: "dir_entries w2 = dir_entries w"
      using same_fields [OF s2] by (auto simp: stored_def dir_entries_def fun_eq_iff)
    let ?new = "sync_entries M w2 (accountIDs st) (map (\<lambda>a. clean_path (acc_CodexHome a)) (st_Accounts st))
        (dir_entries w2 (m_AccountsDir M))"
    let ?next = "st\<lparr>st_Accounts := st_Accounts st @ ?new\<rparr>"
    have ids: "ids_distinct ?next"
      using sync_entries_fresh [of "accountIDs st" "dir_entries w2 (m_AccountsDir M)" M w2
          "map (\<lambda>a. clean_path (acc_CodexHome a)) (st_Accounts st)"] few I
      by (auto simp: ids_distinct_def few_accounts_def st d2 accountIDs_def)
    show ?thesis
    proof (cases r2)
      case (Inl e)
      with 1 2 Inr v2 I show ?thesis by (simp add: listAccountsLocked_def syncManagedAccounts_def)
    next
      case r2: (Inr u)
      have "listAccountsLocked M w = bindE (whenE (?new \<noteq> []) (Save M ?next)) (\<lambda>_. bindE (getsE (\<lambda>w. w))
        (\<lambda>w. returnE (sort_slice (\<lambda>a b. acc_ID (av_Account a) < acc_ID (av_Account b))
           (map (accountView M w) (st_Accounts ?next))))) w2"
        using 1 2 Inr r2 by (simp add: listAccountsLocked_def syncManagedAccounts_def Let_def)
      moreover have safe: "safe_op (w_now w2) ids_distinct (bindE (whenE (?new \<noteq> []) (Save M ?next)) (\<lambda>_. bindE (getsE (\<lambda>w. w))
        (\<lambda>w. returnE (sort_slice (\<lambda>a b. acc_ID (av_Account a) < acc_ID (av_Account b))
           (map (accountView M w) (st_Accounts ?next))))))"
        by (intro safe_ops m ids_distinct_norm ids)
      ultimately show ?thesis using file_store.safeD [OF safe] v2 I by simp
    qed
  qed
qed

section \<open>A leased account's credential is not replaced\<close>

definition upsert_key :: "'m Manager_scheme \<Rightarrow> World \<Rightarrow> JSONProfile \<Rightarrow> json \<Rightarrow> string" where
  "upsert_key M w p auth =
     (if trim_space (jp_ID p) = [] then import_id M (stored w) (w_now w) auth (jp_Label p)
      else trim_space (jp_ID p))"

lemma upsert_leased_refused:
  assumes m: "\<not> postgres_mode M" and auth: "auth_object (jp_Auth p) = Some auth"
    and i: "existing_index M (w_files w) (stored w) (upsert_key M w p auth) (authIdentity M auth) = Some i"
    and leased: "accountLeaseActive (st_Accounts (stored w) ! i) (w_now w)"
    and r: "upsertJSONProfileLocked M p w = (r, w')"
  shows "(\<exists>e. r = Inl e) \<and> same_but_faults w w'"
proof -
  obtain r1 w1 where 1: "Load M w = (r1, w1)" by fastforce
  note s1 = Load_same [OF m 1]
  show ?thesis
  proof (cases "content_missing (jp_Auth p)")
    case True
    with r show ?thesis by (auto simp: upsertJSONProfileLocked_def)
  next
    case False
    show ?thesis
    proof (cases r1)
      case (Inl e)
      with 1 r False auth s1 show ?thesis by (auto simp: upsertJSONProfileLocked_def)
    next
      case (Inr st)
      with s1 have st: "st = stored w" and same: "same_but_faults w w1" by simp_all
      with 1 r False auth i leased Inr same_fields [OF same] show ?thesis
        by (auto simp: upsertJSONProfileLocked_def upsert_key_def Let_def)
    qed
  qed
qed

section \<open>Which homes are deleted\<close>

lemma managed_home_below:
  assumes "validateManagedCodexHome M home = None"
  shows "\<not> samePath (env_cwd M) home (m_LiveCodexHome M)
     \<and> (\<exists>rest. rest \<noteq> [] \<and> clean_parts (abs_path (env_cwd M) home)
          = clean_parts (abs_path (env_cwd M) (m_AccountsDir M)) @ rest)"
  using assms pathWithin_extends [of "env_cwd M" home "m_AccountsDir M"]
  by (auto simp: validateManagedCodexHome_def split: if_splits)

section \<open>A unique account id\<close>

definition uniqueAccountID :: "'m Manager_scheme \<Rightarrow> string \<Rightarrow> string io" where
  "uniqueAccountID M base = bindE nowE (\<lambda>now.
     let base = sanitizeAccountID base;
         base = (if base = [] then ''profile-'' @ format_stamp now else base)
     in bindE (tryE (Load M)) (\<lambda>r.
       returnE (case r of
           Inl _ \<Rightarrow> base
         | Inr st \<Rightarrow>
             if base \<notin> set (map acc_ID (st_Accounts st)) then base
             else unique_loop base (map acc_ID (st_Accounts st)) now 2)))"

lemma uniqueAccountID_unused:
  assumes "Load M w = (Inr st, w')" "length (st_Accounts st) < 900"
  obtains k where "uniqueAccountID M base w = (Inr k, w')" "k \<notin> acc_ID ` set (st_Accounts st)"
proof -
  let ?ids = "map acc_ID (st_Accounts st)"
  have "unique_loop b ?ids now 2 \<notin> set ?ids" for b now
    using unique_loop_cases [of 2 b ?ids now] unique_free [of ?ids b] assms(2) by auto
  then have "\<exists>k. uniqueAccountID M base w = (Inr k, w') \<and> k \<notin> set ?ids"
    using assms(1) by (auto simp: uniqueAccountID_def tryE_def Let_def bindE_def nowE_def getsE_def returnE_def)
  with that show thesis by auto
qed

end
