(* ===== verification/QuotaProbe.thy ===== *)
theory QuotaProbe
  imports Store
begin

text \<open>
  \<open>internal/quota/codex.go\<close>: asking the service for an account's quota with the
  credential in its directory, refreshing an expired access token on the way. The HTTP
  answers are in the world: each request takes the next one. The main facts: the
  windows it reports are percentages that add up to 100, a refresh keeps every field of
  the credential it does not replace, an API key never causes a request, and what the
  error text shows of a secret.
\<close>

section \<open>Windows\<close>

definition clamp :: "percent \<Rightarrow> percent" where
  "clamp v = (if v < 0 then 0 else if v > 100 then 100 else v)"

text \<open>\<open>fmt.Sprintf("%d%%", int(math.Round(v)))\<close> for v that is not negative.\<close>

definition show_percent :: "percent \<Rightarrow> string" where
  "show_percent v = show_nat (nat \<lfloor>v + 1 / 2\<rfloor>) @ ''%''"

definition normalizeWindow :: "string \<Rightarrow> string \<Rightarrow> UsageWindow \<Rightarrow> time \<Rightarrow> Window" where
  "normalizeWindow key label input now =
     (let used = clamp (uw_UsedPercent input);
          remaining = clamp (100 - used);
          window = \<lparr>win_Key = key, win_Label = label, win_UsedPercent = used,
            win_RemainingPercent = remaining, win_ResetsAt = [],
            win_UsedDisplay = show_percent used, win_RemainingDisplay = show_percent remaining,
            win_Stale = False\<rparr>
      in if uw_ResetAtUnix input > 0 then
           (let reset = unix_time (uw_ResetAtUnix input) in
            window\<lparr>win_ResetsAt := format_rfc3339 reset, win_Stale := now > reset + minute\<rparr>)
         else window)"

definition windowsFromResponse :: "UsageResponse option \<Rightarrow> time \<Rightarrow> Window list" where
  "windowsFromResponse response now =
     (case response of
        None \<Rightarrow> []
      | Some r \<Rightarrow>
          (case ur_Primary r of None \<Rightarrow> [] | Some x \<Rightarrow> [normalizeWindow ''five_hour'' ''5h'' x now])
          @ (case ur_Secondary r of None \<Rightarrow> [] | Some x \<Rightarrow> [normalizeWindow ''seven_day'' ''7d'' x now])
          @ (case ur_CodeReview r of None \<Rightarrow> []
             | Some x \<Rightarrow> [normalizeWindow ''code_review'' ''Review'' x now]))"

lemma normalizeWindow_percent:
  "win_UsedPercent (normalizeWindow k l x now) + win_RemainingPercent (normalizeWindow k l x now) = 100
   \<and> 0 \<le> win_UsedPercent (normalizeWindow k l x now)
   \<and> 0 \<le> win_RemainingPercent (normalizeWindow k l x now)"
  by (auto simp: normalizeWindow_def clamp_def Let_def)

section \<open>Errors\<close>

definition sanitizeErr :: "string \<Rightarrow> string" where
  "sanitizeErr msg =
     (case find (\<lambda>p. index_of msg p \<noteq> None) [''Bearer '', ''bearer '', ''sk-''] of
        Some p \<Rightarrow> take (the (index_of msg p)) msg @ ''[redacted]''
      | None \<Rightarrow> msg)"

definition isRefreshTokenInvalidated :: "string \<Rightarrow> bool" where
  "isRefreshTokenInvalidated err =
     (let msg = to_lower err in
      list_ex (contains_sub msg)
        [''app_session_terminated'', ''refresh_token_reused'', ''invalid_grant'', ''invalid refresh'',
         ''token_revoked'', ''refresh token returned http 401'', ''refresh token returned http 403''])"

definition parseRefreshError :: "'e Env_scheme \<Rightarrow> string \<Rightarrow> string" where
  "parseRefreshError E body =
     (let fallback = (let text = trim_space body in
            if text = [] then ''empty response''
            else if length text > 240 then take 240 text @ ''...'' else text)
      in case env_json E body of
           Some (JObj kvs) \<Rightarrow>
             (let value = JObj kvs;
                  nested = (case json_obj (json_field value ''error'') of
                      Some err \<Rightarrow> (case text_field err ''code'' of Some c \<Rightarrow> Some c
                                  | None \<Rightarrow> text_field err ''message'')
                    | None \<Rightarrow> text_field value ''error'')
              in case nested of
                   Some t \<Rightarrow> t
                 | None \<Rightarrow> (case text_field value ''code'' of Some c \<Rightarrow> c | None \<Rightarrow> fallback))
         | _ \<Rightarrow> fallback)"

section \<open>Accounts in identity tokens\<close>

definition redactEmail :: "string \<Rightarrow> string" where
  "redactEmail email =
     (case find_index (\<lambda>c. c = CHR ''@'') email of
        None \<Rightarrow> ''***''
      | Some i \<Rightarrow> if i \<le> 1 then ''***'' else take 1 email @ ''***'' @ drop i email)"

definition accountFromIDToken :: "'e Env_scheme \<Rightarrow> string \<Rightarrow> string" where
  "accountFromIDToken E idToken =
     (if trim_space idToken = [] then []
      else let parts = split_at (CHR ''.'') (trim_space idToken) in
        if length parts < 2 then []
        else case env_json64 E (jwt_payload (parts ! 1)) of
            Some (JObj kvs) \<Rightarrow>
              (case text_field (JObj kvs) ''sub'' of
                 Some s \<Rightarrow> s
               | None \<Rightarrow>
                   (case find (\<lambda>k. text_field (JObj kvs) k \<noteq> None)
                           [''email'', ''https://api.openai.com/profile_email''] of
                      Some k \<Rightarrow> redactEmail (the (text_field (JObj kvs) k))
                    | None \<Rightarrow> []))
          | _ \<Rightarrow> [])"

section \<open>The credential file\<close>

text \<open>
  \<open>json.Unmarshal\<close> into a string field: absent and null leave it empty, any other type
  than a string is an error (None). Keys are matched exactly.
\<close>

definition string_field :: "json \<Rightarrow> string \<Rightarrow> string option" where
  "string_field j k =
     (case json_field j k of None \<Rightarrow> Some [] | Some JNull \<Rightarrow> Some [] | Some (JStr s) \<Rightarrow> Some s
      | Some _ \<Rightarrow> None)"

record AuthFile =
  af_OpenAIAPIKey :: string
  af_AccessToken :: string
  af_IDToken :: string
  af_RefreshToken :: string
  af_AccountID :: string

definition token_fields :: "string \<Rightarrow> json \<Rightarrow> AuthFile option" where
  "token_fields key tokens =
     (case (string_field tokens ''access_token'', string_field tokens ''id_token'',
            string_field tokens ''refresh_token'', string_field tokens ''account_id'') of
        (Some a, Some i, Some r, Some c) \<Rightarrow>
          Some \<lparr>af_OpenAIAPIKey = key, af_AccessToken = a, af_IDToken = i, af_RefreshToken = r,
                af_AccountID = c\<rparr>
      | _ \<Rightarrow> None)"

definition unmarshal_auth :: "content \<Rightarrow> AuthFile option" where
  "unmarshal_auth c =
     (case c of
        Doc JNull \<Rightarrow> token_fields [] (JObj [])
      | Doc (JObj kvs) \<Rightarrow>
          (case string_field (JObj kvs) ''OPENAI_API_KEY'' of
             None \<Rightarrow> None
           | Some key \<Rightarrow>
               (case json_field (JObj kvs) ''tokens'' of
                  None \<Rightarrow> token_fields key (JObj [])
                | Some JNull \<Rightarrow> token_fields key (JObj [])
                | Some (JObj ts) \<Rightarrow> token_fields key (JObj ts)
                | Some _ \<Rightarrow> None))
      | _ \<Rightarrow> None)"

definition unmarshal_refresh :: "'e Env_scheme \<Rightarrow> string \<Rightarrow> RefreshResponse option" where
  "unmarshal_refresh E body =
     (case env_json E body of
        Some JNull \<Rightarrow> Some \<lparr>rr_IDToken = [], rr_AccessToken = [], rr_RefreshToken = []\<rparr>
      | Some (JObj kvs) \<Rightarrow>
          (case (string_field (JObj kvs) ''id_token'', string_field (JObj kvs) ''access_token'',
                 string_field (JObj kvs) ''refresh_token'') of
             (Some i, Some a, Some r) \<Rightarrow>
               Some \<lparr>rr_IDToken = i, rr_AccessToken = a, rr_RefreshToken = r\<rparr>
           | _ \<Rightarrow> None)
      | _ \<Rightarrow> None)"

text \<open>Setting a key of an object, if the value is not blank.\<close>

definition set_text :: "string \<Rightarrow> string \<Rightarrow> (string \<times> json) list \<Rightarrow> (string \<times> json) list" where
  "set_text k v kvs = (if trim_space v \<noteq> [] then AList.update k (JStr v) kvs else kvs)"

definition refreshed_tokens :: "RefreshResponse \<Rightarrow> (string \<times> json) list \<Rightarrow> (string \<times> json) list" where
  "refreshed_tokens r ts =
     set_text ''refresh_token'' (rr_RefreshToken r)
      (set_text ''access_token'' (rr_AccessToken r) (set_text ''id_token'' (rr_IDToken r) ts))"

definition refreshed_root :: "(string \<times> json) list \<Rightarrow> RefreshResponse \<Rightarrow> time \<Rightarrow> json" where
  "refreshed_root kvs r now =
     (let tokens = (case json_field (JObj kvs) ''tokens'' of Some (JObj ts) \<Rightarrow> ts | _ \<Rightarrow> []) in
      JObj (AList.update ''last_refresh'' (JStr (format_rfc3339 now))
        (AList.update ''tokens'' (JObj (refreshed_tokens r tokens)) kvs)))"

definition persistRefreshedAuth :: "string \<Rightarrow> content \<Rightarrow> RefreshResponse \<Rightarrow> unit io" where
  "persistRefreshedAuth authPath raw r =
     (case raw of
        Doc (JObj kvs) \<Rightarrow>
          bindE nowE (\<lambda>now.
          bindE stepE (\<lambda>_. writeFile authPath (Doc (refreshed_root kvs r now))))
      | _ \<Rightarrow> throwE (ErrText ''json: cannot unmarshal into Go value of type map''))"

text \<open>What is kept and what is replaced.\<close>

lemma refreshed_root_other:
  "k \<noteq> ''tokens'' \<Longrightarrow> k \<noteq> ''last_refresh'' \<Longrightarrow>
   json_field (refreshed_root kvs r now) k = json_field (JObj kvs) k"
  by (simp add: refreshed_root_def Let_def)

lemma refreshed_root_tokens:
  "json_field (refreshed_root kvs r now) ''tokens'' =
     Some (JObj (refreshed_tokens r (case json_field (JObj kvs) ''tokens'' of Some (JObj ts) \<Rightarrow> ts | _ \<Rightarrow> [])))"
  by (simp add: refreshed_root_def Let_def)

lemma map_of_set_text:
  "map_of (set_text k v kvs) = (if trim_space v \<noteq> [] then (map_of kvs)(k \<mapsto> JStr v) else map_of kvs)"
  by (simp add: set_text_def)

lemma refreshed_tokens_field:
  "map_of (refreshed_tokens r ts) k =
     (if k = ''refresh_token'' \<and> trim_space (rr_RefreshToken r) \<noteq> [] then Some (JStr (rr_RefreshToken r))
      else if k = ''access_token'' \<and> trim_space (rr_AccessToken r) \<noteq> [] then Some (JStr (rr_AccessToken r))
      else if k = ''id_token'' \<and> trim_space (rr_IDToken r) \<noteq> [] then Some (JStr (rr_IDToken r))
      else map_of ts k)"
  by (auto simp: refreshed_tokens_def map_of_set_text)

section \<open>Requests\<close>

text \<open>The next answer of the token endpoint, or of the usage endpoint.\<close>

definition popRefresh :: "string http io" where
  "popRefresh = (\<lambda>w. case w_refresh_answers w of
      [] \<Rightarrow> (Inr (TransportError ''no answer''), w)
    | a # as \<Rightarrow> (Inr a, w\<lparr>w_refresh_answers := as\<rparr>))"

definition popUsage :: "(UsageResponse option) http io" where
  "popUsage = (\<lambda>w. case w_usage_answers w of
      [] \<Rightarrow> (Inr (TransportError ''no answer''), w)
    | a # as \<Rightarrow> (Inr a, w\<lparr>w_usage_answers := as\<rparr>))"

definition refreshAuthFile :: "'e Env_scheme \<Rightarrow> string \<Rightarrow> content \<Rightarrow> RefreshResponse io" where
  "refreshAuthFile E authPath raw =
     bindE popRefresh (\<lambda>answer.
     case answer of
       TransportError e \<Rightarrow> throwE (ErrText e)
     | HttpStatus code body \<Rightarrow>
         if code < 200 \<or> code \<ge> 300
         then throwE (ErrText (''refresh token returned HTTP '' @ show_nat code @ '': ''
                @ parseRefreshError E body))
         else case unmarshal_refresh E body of
             None \<Rightarrow> throwE (ErrText ''invalid refresh response: '')
           | Some r \<Rightarrow>
               if trim_space (rr_AccessToken r) = []
               then throwE (ErrText ''refresh response has no access token'')
               else bindE (persistRefreshedAuth authPath raw r) (\<lambda>_. returnE r))"

datatype usage_error = UsageNotFound | UsageUnauthorized | UsageFailed string

fun usage_error_text :: "usage_error \<Rightarrow> string" where
  "usage_error_text UsageNotFound = ''codex usage endpoint returned 404''"
| "usage_error_text UsageUnauthorized = ''unauthorized''"
| "usage_error_text (UsageFailed e) = e"

fun usage_result :: "(UsageResponse option) http \<Rightarrow> usage_error + UsageResponse" where
  "usage_result (TransportError e) = Inl (UsageFailed e)"
| "usage_result (HttpStatus code body) =
     (if code = 200 then
        (case body of None \<Rightarrow> Inl (UsageFailed ''invalid usage response: '') | Some r \<Rightarrow> Inr r)
      else if code = 404 then Inl UsageNotFound
      else if code = 401 then Inl UsageUnauthorized
      else if code = 403 then Inl (UsageFailed ''forbidden'')
      else if code = 429 then Inl (UsageFailed ''rate limited; try again later'')
      else Inl (UsageFailed (''codex returned HTTP '' @ show_nat code)))"

definition doUsage :: "(usage_error + UsageResponse) io" where
  "doUsage = bindE popUsage (\<lambda>a. returnE (usage_result a))"

definition fetchUsage :: "(usage_error + UsageResponse) io" where
  "fetchUsage = bindE doUsage (\<lambda>r. if r = Inl UsageNotFound then doUsage else returnE r)"

section \<open>The probe\<close>

text \<open>The code returns a result together with an error or nil.\<close>

definition missing_result :: Result where
  "missing_result = zero_Result\<lparr>res_Status := StatusNotConfigured, res_Detail := ''auth.json is missing''\<rparr>"

definition refresh_failed :: "error \<Rightarrow> Result" where
  "refresh_failed e = missing_result\<lparr>
     res_Status := (if isRefreshTokenInvalidated (error_text e) then StatusRefreshInvalid else StatusError),
     res_Source := ''auth.json refresh_token'', res_Detail := sanitizeErr (error_text e)\<rparr>"

definition usage_failed :: "string \<Rightarrow> Result" where
  "usage_failed e = missing_result\<lparr>res_Status := StatusError, res_Source := ''auth.json'',
     res_Detail := sanitizeErr e\<rparr>"

definition probe_result ::
  "'e Env_scheme \<Rightarrow> string \<Rightarrow> time \<Rightarrow> usage_error + UsageResponse \<Rightarrow> Result \<times> error option" where
  "probe_result E idToken now response =
     (case response of
        Inl e \<Rightarrow> (usage_failed (usage_error_text e), Some (ErrText (usage_error_text e)))
      | Inr r \<Rightarrow>
          (missing_result\<lparr>res_Status := StatusSupported, res_Detail := [], res_Plan := ur_PlanType r,
             res_Account := accountFromIDToken E idToken, res_Source := ''chatgpt.com/backend-api'',
             res_Quotas := windowsFromResponse (Some r) now\<rparr>, None))"

text \<open>With an access token in hand: ask, and on 401 refresh once and ask again.\<close>

definition probe_with_token ::
  "'e Env_scheme \<Rightarrow> string \<Rightarrow> content \<Rightarrow> AuthFile \<Rightarrow> string \<Rightarrow> time \<Rightarrow> (Result \<times> error option) io" where
  "probe_with_token E authPath raw auth idToken now =
     bindE fetchUsage (\<lambda>response.
     if response = Inl UsageUnauthorized \<and> trim_space (af_RefreshToken auth) \<noteq> [] then
       bindE (tryE (refreshAuthFile E authPath raw)) (\<lambda>refreshed.
       case refreshed of
         Inl e \<Rightarrow> returnE (refresh_failed e, Some e)
       | Inr r \<Rightarrow>
           let idToken = (if rr_IDToken r \<noteq> [] then rr_IDToken r else idToken) in
           bindE fetchUsage (\<lambda>response. returnE (probe_result E idToken now response)))
     else returnE (probe_result E idToken now response))"

definition no_access_token :: "AuthFile \<Rightarrow> Result \<times> error option" where
  "no_access_token auth =
     (if trim_space (af_OpenAIAPIKey auth) \<noteq> []
      then (missing_result\<lparr>res_Status := StatusUnsupported,
              res_Detail := ''API-key Codex auth cannot expose ChatGPT subscription quota.''\<rparr>, None)
      else (missing_result\<lparr>res_Detail := ''auth.json has no OAuth access token''\<rparr>, None))"

definition FetchForCodexHome :: "'e Env_scheme \<Rightarrow> string \<Rightarrow> time \<Rightarrow> (Result \<times> error option) io" where
  "FetchForCodexHome E codexHome now =
     (let authPath = auth_path codexHome in
      bindE (tryE (readFile authPath)) (\<lambda>file.
      case file of
        Inl e \<Rightarrow> returnE (missing_result\<lparr>res_Status := StatusError,
                           res_Detail := ''could not read auth.json''\<rparr>, Some e)
      | Inr None \<Rightarrow> returnE (missing_result, None)
      | Inr (Some raw) \<Rightarrow>
          (case unmarshal_auth raw of
             None \<Rightarrow> returnE (missing_result\<lparr>res_Status := StatusError,
                 res_Detail := ''auth.json is not valid JSON''\<rparr>, Some (ErrText ''invalid JSON''))
           | Some auth \<Rightarrow>
               if trim_space (af_AccessToken auth) = [] then
                 (if trim_space (af_RefreshToken auth) \<noteq> [] then
                    bindE (tryE (refreshAuthFile E authPath raw)) (\<lambda>refreshed.
                    case refreshed of
                      Inl e \<Rightarrow> returnE (refresh_failed e, Some e)
                    | Inr r \<Rightarrow>
                        let idToken = (if rr_IDToken r \<noteq> [] then rr_IDToken r else af_IDToken auth) in
                        if trim_space (rr_AccessToken r) = [] then returnE (no_access_token auth)
                        else probe_with_token E authPath raw auth idToken now)
                  else returnE (no_access_token auth))
               else probe_with_token E authPath raw auth (af_IDToken auth) now)))"

section \<open>What a probe touches\<close>

lemma safe_pop: "safe_op T I popRefresh" "safe_op T I popUsage"
  by (rule file_store.safe_frame; simp add: popRefresh_def popUsage_def split: list.splits)+

lemma safe_http:
  "(\<And>e. safe_op T I (f e)) \<Longrightarrow> (\<And>c b. safe_op T I (g c b)) \<Longrightarrow>
   safe_op T I (case a of TransportError e \<Rightarrow> f e | HttpStatus c b \<Rightarrow> g c b)"
  by (cases a) simp_all

lemma safe_persist: "safe_op T I (persistRefreshedAuth path raw r)"
  by (auto simp: persistRefreshedAuth_def intro!: safe_ops split: content.splits json.splits)

lemma safe_refreshAuthFile: "safe_op T I (refreshAuthFile E path raw)"
  unfolding refreshAuthFile_def by (intro safe_ops safe_pop safe_http safe_persist)

lemma safe_fetchUsage: "safe_op T I fetchUsage"
  unfolding fetchUsage_def doUsage_def by (intro safe_ops safe_pop)

lemma safe_FetchForCodexHome: "safe_op T I (FetchForCodexHome E home now)"
  unfolding FetchForCodexHome_def probe_with_token_def Let_def
  by (intro safe_ops safe_refreshAuthFile safe_fetchUsage)

text \<open>A credential with an API key and no tokens is answered without a request.\<close>

lemma probe_api_key:
  assumes "w_faults w = []" "map_of (w_files w) (auth_path home) = Some (raw, t)"
    and "unmarshal_auth raw = Some auth" "trim_space (af_AccessToken auth) = []"
    and "trim_space (af_RefreshToken auth) = []" "trim_space (af_OpenAIAPIKey auth) \<noteq> []"
  shows "FetchForCodexHome E home now w = (Inr (no_access_token auth), w)
       \<and> res_Status (fst (no_access_token auth)) = StatusUnsupported"
  using assms tryE_def [of "readFile (auth_path home)"]
  by (simp add: FetchForCodexHome_def Let_def no_access_token_def)

text \<open>A refresh that succeeds leaves the new access token in the file.\<close>

lemma refreshAuthFile_writes:
  assumes "w_faults w = []" "w_refresh_answers w = HttpStatus 200 body # as"
    and "unmarshal_refresh E body = Some r" "trim_space (rr_AccessToken r) \<noteq> []"
  shows "refreshAuthFile E path (Doc (JObj kvs)) w =
     (Inr r, w\<lparr>w_refresh_answers := as,
        w_files := AList.update path (Doc (refreshed_root kvs r (w_now w)), w_now w) (w_files w)\<rparr>)"
  using assms by (simp add: refreshAuthFile_def popRefresh_def persistRefreshedAuth_def bindE_def
      returnE_def nowE_def getsE_def)

text \<open>
  The redaction cuts at the first of its markers that occurs, in the order of the
  list: what stands before a bearer token is kept, an API key included.
\<close>

lemma sanitizeErr_leak:
  "sanitizeErr ''sk-live-1 rejected: Bearer abc'' = ''sk-live-1 rejected: [redacted]''"
  unfolding sanitizeErr_def by code_simp

lemma sanitizeErr_no_bearer:
  assumes "index_of msg ''Bearer '' = None" "index_of msg ''bearer '' = None"
  shows "index_of msg ''sk-'' = Some i \<Longrightarrow> sanitizeErr msg = take i msg @ ''[redacted]''"
    and "index_of msg ''sk-'' = None \<Longrightarrow> sanitizeErr msg = msg"
  using assms by (simp_all add: sanitizeErr_def)

end
