(* ===== verification/QuotaRecord.thy ===== *)
theory QuotaRecord
  imports Accounts QuotaProbe
begin

text \<open>
  \<open>internal/manager/quota.go\<close>: fetching an account's quota when it may be fetched, and
  recording a fetched or reported one in the cache and on the account. The main facts:
  recording never changes a lease (so it cannot revive one), a leased quota report
  needs the lease and leaves the account with the cloud, an invalid refresh token
  drains the account and a supported answer readies a recovering one, and the Postgres
  statements change an account as the file mode does.
\<close>

section \<open>Recording a result in the state\<close>

definition quota_owner :: "QuotaSource \<Rightarrow> string \<Rightarrow> bool \<Rightarrow> time \<Rightarrow> Account \<Rightarrow> Account" where
  "quota_owner source reporter flipOwner now a =
     (if flipOwner \<and> source = QuotaSourceClient then
        (let a = a\<lparr>acc_OwnerMode := OwnerClient\<rparr>;
             a = (if trim_space reporter \<noteq> [] then a\<lparr>acc_OwnerClientID := trim_space reporter\<rparr> else a)
         in a\<lparr>acc_UpdatedAt := now\<rparr>)
      else a)"

definition quota_outcome :: "Result \<Rightarrow> bool \<Rightarrow> time \<Rightarrow> Account \<Rightarrow> Account" where
  "quota_outcome result authChanged now a =
     (if res_Status result = StatusRefreshInvalid then
        (let a = (if acc_Status a = StatusReady \<or> acc_Status a = StatusRecovering
                  then a\<lparr>acc_Status := StatusDrain\<rparr> else a)
         in a\<lparr>acc_LastError := res_Detail result, acc_UpdatedAt := now\<rparr>)
      else if res_Status result = StatusSupported then
        (let a = (if trim_space (res_Plan result) \<noteq> [] then a\<lparr>acc_Plan := res_Plan result\<rparr> else a);
             a = (if acc_Status a = StatusRecovering then a\<lparr>acc_Status := StatusReady\<rparr> else a);
             a = a\<lparr>acc_LastError := []\<rparr>;
             a = (if authChanged then a\<lparr>acc_Generation := wrap64 (acc_Generation a + 1)\<rparr> else a)
         in a\<lparr>acc_UpdatedAt := now\<rparr>)
      else if authChanged then a\<lparr>acc_Generation := wrap64 (acc_Generation a + 1), acc_UpdatedAt := now\<rparr>
      else a)"

definition source_or_cloud :: "QuotaSource \<Rightarrow> QuotaSource" where
  "source_or_cloud s = (if s = NoSource then QuotaSourceCloud else s)"

definition quota_cache_entry :: "string \<Rightarrow> Result \<Rightarrow> QuotaSource \<Rightarrow> string \<Rightarrow> time \<Rightarrow> QuotaCache" where
  "quota_cache_entry k result source reporter now = \<lparr>qc_AccountID = k, qc_UpdatedAt = now,
     qc_Result = result, qc_FiveHour = quotaFiveHour result, qc_Source = source_or_cloud source,
     qc_ReporterClientID = trim_space reporter\<rparr>"

definition quota_state ::
  "string \<Rightarrow> Result \<Rightarrow> bool \<Rightarrow> QuotaSource \<Rightarrow> string \<Rightarrow> bool \<Rightarrow> time \<Rightarrow> State \<Rightarrow> State" where
  "quota_state k result authChanged source reporter flipOwner now st =
     st\<lparr>st_QuotaCache := AList.update k (quota_cache_entry k result source reporter now) (st_QuotaCache st),
        st_Accounts := update_first (\<lambda>a. acc_ID a = k)
          (\<lambda>a. quota_outcome result authChanged now
                 (quota_owner (source_or_cloud source) reporter flipOwner now a))
          (st_Accounts st)\<rparr>"

definition writeQuotaResultLocked ::
  "'m Manager_scheme \<Rightarrow> string \<Rightarrow> Result \<Rightarrow> bool \<Rightarrow> QuotaSource \<Rightarrow> string \<Rightarrow> bool \<Rightarrow> unit io" where
  "writeQuotaResultLocked M k result authChanged source reporter flipOwner =
     bindE (Load M) (\<lambda>st. bindE nowE (\<lambda>now.
       Save M (quota_state k result authChanged source reporter flipOwner now st)))"

section \<open>The same in Postgres\<close>

definition pg_quota_owner :: "QuotaSource \<Rightarrow> string \<Rightarrow> bool \<Rightarrow> time \<Rightarrow> AccountRow \<Rightarrow> AccountRow" where
  "pg_quota_owner source reporter flipOwner now a =
     (if flipOwner \<and> source = QuotaSourceClient then
        (if reporter \<noteq> []
         then a\<lparr>acc_OwnerMode := OwnerClient, acc_OwnerClientID := reporter, acc_UpdatedAt := now\<rparr>
         else a\<lparr>acc_OwnerMode := OwnerClient, acc_UpdatedAt := now\<rparr>)
      else a)"

definition pg_quota_outcome :: "Result \<Rightarrow> bool \<Rightarrow> time \<Rightarrow> AccountRow \<Rightarrow> AccountRow" where
  "pg_quota_outcome result authChanged now a =
     (if res_Status result = StatusRefreshInvalid then
        a\<lparr>acc_Status := (if acc_Status a \<in> {StatusReady, StatusRecovering} then StatusDrain else acc_Status a),
          acc_LastError := res_Detail result, acc_UpdatedAt := now\<rparr>
      else if res_Status result = StatusSupported then
        a\<lparr>acc_Plan := (if res_Plan result \<noteq> [] then res_Plan result else acc_Plan a),
          acc_Status := (if acc_Status a = StatusRecovering then StatusReady else acc_Status a),
          acc_LastError := [],
          acc_Generation := wrap64 (acc_Generation a + (if authChanged then 1 else 0)),
          acc_UpdatedAt := now\<rparr>
      else if authChanged then a\<lparr>acc_Generation := wrap64 (acc_Generation a + 1), acc_UpdatedAt := now\<rparr>
      else a)"

definition recordPostgresQuotaResult ::
  "string \<Rightarrow> Result \<Rightarrow> bool \<Rightarrow> QuotaSource \<Rightarrow> string \<Rightarrow> bool \<Rightarrow> unit io" where
  "recordPostgresQuotaResult k result authChanged source reporter flipOwner =
     bindE nowE (\<lambda>now. pgTx (\<lambda>d.
     let source = source_or_cloud source;
         c = \<lparr>qc_AccountID = k, qc_UpdatedAt = now, qc_Result = result,
              qc_FiveHour = quotaFiveHour result, qc_Source = source, qc_ReporterClientID = reporter\<rparr> in
     bindE (pgExec (\<lambda>d. d\<lparr>db_quota_cache := upsert merge_quota k c (db_quota_cache d)\<rparr>) d) (\<lambda>d.
     bindE (pgExec (\<lambda>d. d\<lparr>db_accounts :=
        update_row k (pg_quota_owner source reporter flipOwner now) (db_accounts d)\<rparr>) d)
       (pgExec (\<lambda>d. d\<lparr>db_accounts :=
        update_row k (pg_quota_outcome result authChanged now) (db_accounts d)\<rparr>)))))"

definition recordQuotaResult ::
  "'m Manager_scheme \<Rightarrow> string \<Rightarrow> Result \<Rightarrow> bool \<Rightarrow> QuotaSource \<Rightarrow> string \<Rightarrow> bool \<Rightarrow> unit io" where
  "recordQuotaResult M k result authChanged source reporter flipOwner =
     (if trim_space k = [] then returnE ()
      else if postgres_mode M
      then recordPostgresQuotaResult k result authChanged source (trim_space reporter) flipOwner
      else withMu (withFlock M
        (writeQuotaResultLocked M k result authChanged source reporter flipOwner)))"

definition RecordQuotaReport :: "'m Manager_scheme \<Rightarrow> string \<Rightarrow> Result \<Rightarrow> string \<Rightarrow> unit io" where
  "RecordQuotaReport M k result clientID =
     recordQuotaResult M k result False QuotaSourceClient (trim_space clientID) True"

section \<open>Reports for a leased account\<close>

definition not_leased_by :: "string \<Rightarrow> string \<Rightarrow> error" where
  "not_leased_by accountID clientID =
     ErrText (''account '' @ accountID @ '' is not leased by client '' @ clientID)"

definition holds_lease :: "Account \<Rightarrow> string \<Rightarrow> string \<Rightarrow> time \<Rightarrow> bool" where
  "holds_lease a leaseID clientID now \<longleftrightarrow> accountLeaseActive a now
     \<and> trim_space (acc_LeaseID a) = leaseID \<and> trim_space (acc_LeaseClientID a) = clientID"

definition verifyLeaseHolderLocked ::
  "'m Manager_scheme \<Rightarrow> string \<Rightarrow> string \<Rightarrow> string \<Rightarrow> time \<Rightarrow> unit io" where
  "verifyLeaseHolderLocked M accountID leaseID clientID now =
     bindE (Load M) (\<lambda>st.
     case find (\<lambda>a. acc_ID a = accountID) (st_Accounts st) of
       None \<Rightarrow> throwE (account_missing accountID)
     | Some a \<Rightarrow> if \<not> holds_lease a leaseID clientID now then throwE (not_leased_by accountID clientID)
                 else returnE ())"

definition verifyLeaseHolder ::
  "'m Manager_scheme \<Rightarrow> string \<Rightarrow> string \<Rightarrow> string \<Rightarrow> time \<Rightarrow> unit io" where
  "verifyLeaseHolder M accountID leaseID clientID now =
     bindE (GetAccount M accountID) (\<lambda>a.
       if \<not> holds_lease a leaseID clientID now then throwE (not_leased_by accountID clientID)
       else returnE ())"

definition RecordLeasedQuota ::
  "'m Manager_scheme \<Rightarrow> string \<Rightarrow> string \<Rightarrow> string \<Rightarrow> Result \<Rightarrow> time \<Rightarrow> unit io" where
  "RecordLeasedQuota M accountID leaseID clientID result now =
     (let accountID = trim_space accountID; leaseID = trim_space leaseID;
          clientID = trim_space clientID in
      if accountID = [] then throwE (ErrText ''account id is required'')
      else bindE (if now = zero_time then nowE else returnE now) (\<lambda>now.
        if postgres_mode M then
          bindE (verifyLeaseHolder M accountID leaseID clientID now) (\<lambda>_.
            recordPostgresQuotaResult accountID result False QuotaSourceClient clientID False)
        else withMu (withFlock M (
          bindE (verifyLeaseHolderLocked M accountID leaseID clientID now) (\<lambda>_.
            writeQuotaResultLocked M accountID result False QuotaSourceClient clientID False)))))"

section \<open>Fetching\<close>

definition client_owned_result :: "QuotaCache \<Rightarrow> Result" where
  "client_owned_result cache =
     (let result = (qc_Result cache)\<lparr>res_Source := quotaSourceLabel cache\<rparr> in
      if qc_ReporterClientID cache \<noteq> []
      then result\<lparr>res_Detail := firstNonEmpty [res_Detail result,
             ''client-owned account; returning quota reported by '' @ qc_ReporterClientID cache
             @ '' at '' @ format_rfc3339 (qc_UpdatedAt cache)]\<rparr>
      else result\<lparr>res_Detail := firstNonEmpty [res_Detail result,
             ''client-owned account; returning client-reported quota from ''
             @ format_rfc3339 (qc_UpdatedAt cache)]\<rparr>)"

definition waiting_result :: Result where
  "waiting_result = zero_Result\<lparr>res_Status := StatusNotConfigured, res_Source := ''client report'',
     res_Detail := ''client-owned account; waiting for local cube report''\<rparr>"

definition leased_text :: "Account \<Rightarrow> string \<Rightarrow> string" where
  "leased_text a what = ''account is leased by '' @ acc_LeaseClientID a @ '' until ''
     @ format_rfc3339 (acc_LeaseExpiresAt a) @ what"

definition cached_quota :: "State \<Rightarrow> string \<Rightarrow> QuotaCache option" where
  "cached_quota st k =
     (case map_of (st_QuotaCache st) k of
        Some cache \<Rightarrow> if res_Status (qc_Result cache) \<noteq> NoQuota then Some cache else None
      | None \<Rightarrow> None)"

definition leasedQuotaResponse :: "'m Manager_scheme \<Rightarrow> Account \<Rightarrow> Result io" where
  "leasedQuotaResponse M a =
     bindE (tryE (Load M)) (\<lambda>s.
     case (case s of Inl _ \<Rightarrow> None | Inr st \<Rightarrow> cached_quota st (acc_ID a)) of
       Some cache \<Rightarrow>
         returnE ((qc_Result cache)\<lparr>res_Source := quotaSourceLabel cache,
           res_Detail := firstNonEmpty [res_Detail (qc_Result cache),
             leased_text a ''; returning cached quota'']\<rparr>)
     | None \<Rightarrow>
         returnE (zero_Result\<lparr>res_Status := StatusError, res_Source := ''cube lease'',
           res_Detail := leased_text a ''; quota refresh is paused''\<rparr>))"

definition zero_Account :: Account where
  "zero_Account = (new_account [] [] [] zero_time)\<lparr>acc_Status := NoStatus, acc_OwnerMode := NoOwner\<rparr>"

definition lease_active_body :: "'m Manager_scheme \<Rightarrow> string \<Rightarrow> (Account \<times> bool) io" where
  "lease_active_body M k =
     bindE (tryE (Load M)) (\<lambda>s. bindE nowE (\<lambda>now.
     case s of
       Inl _ \<Rightarrow> returnE (zero_Account, False)
     | Inr st \<Rightarrow>
         (case find (\<lambda>a. acc_ID a = k) (st_Accounts st) of
            None \<Rightarrow> returnE (zero_Account, False)
          | Some a \<Rightarrow> returnE (a, accountLeaseActive a now))))"

definition leaseActiveFresh :: "'m Manager_scheme \<Rightarrow> string \<Rightarrow> (Account \<times> bool) io" where
  "leaseActiveFresh M k =
     (if postgres_mode M then lease_active_body M k
      else bindE (tryE (acquireLock M)) (\<lambda>r.
        case r of
          Inl _ \<Rightarrow> returnE (zero_Account, False)
        | Inr _ \<Rightarrow> deferE (lease_active_body M k) releaseLock))"

definition probe_and_record :: "'m Manager_scheme \<Rightarrow> string \<Rightarrow> Account \<Rightarrow> time \<Rightarrow> (Result \<times> error option) io" where
  "probe_and_record M k a now =
     bindE (ignoreE (syncLiveAuthToManaged M a)) (\<lambda>_.
     let path = auth_path (acc_CodexHome a) in
     bindE (getsE (\<lambda>w. fileDigest (w_files w) path)) (\<lambda>digest0.
     bindE (FetchForCodexHome M (acc_CodexHome a) now) (\<lambda>(result, err).
     bindE (getsE (\<lambda>w. fileDigest (w_files w) path)) (\<lambda>digest1.
     let authChanged = (digest0 \<noteq> None \<and> digest1 \<noteq> None \<and> digest0 \<noteq> digest1) in
     bindE (ignoreE (recordQuotaResult M k result authChanged QuotaSourceCloud [] False)) (\<lambda>_.
       returnE (result, err))))))"

definition FetchQuota :: "'m Manager_scheme \<Rightarrow> string \<Rightarrow> (Result \<times> error option) io" where
  "FetchQuota M k =
     bindE (tryE (GetAccount M k)) (\<lambda>r.
     case r of
       Inl e \<Rightarrow> returnE (zero_Result, Some e)
     | Inr a \<Rightarrow> bindE nowE (\<lambda>now.
         if acc_OwnerMode a = OwnerClient then
           bindE (tryE (Load M)) (\<lambda>s.
           case (case s of Inl _ \<Rightarrow> None | Inr st \<Rightarrow> cached_quota st k) of
             Some cache \<Rightarrow> returnE (client_owned_result cache, None)
           | None \<Rightarrow> returnE (waiting_result, None))
         else if accountLeaseActive a now then
           bindE (leasedQuotaResponse M a) (\<lambda>res. returnE (res, None))
         else bindE (leaseActiveFresh M k) (\<lambda>(fresh, leased).
           if leased then bindE (leasedQuotaResponse M fresh) (\<lambda>res. returnE (res, None))
           else probe_and_record M k a now)))"

section \<open>Recording changes no lease\<close>

definition lease_of :: "Account \<Rightarrow> string \<times> string \<times> string \<times> time \<times> time \<times> time" where
  "lease_of a = (acc_LeaseID a, acc_LeaseClientID a, acc_LeaseHolder a, acc_LeaseStartedAt a,
     acc_LeaseHeartbeatAt a, acc_LeaseExpiresAt a)"

lemma lease_of_active: "lease_of a = lease_of b \<Longrightarrow> accountLeaseActive a now = accountLeaseActive b now"
  by (simp add: lease_of_def accountLeaseActive_def)

lemma quota_owner_lease [simp]:
  "lease_of (quota_owner source reporter flip now a) = lease_of a"
  "acc_ID (quota_owner source reporter flip now a) = acc_ID a"
  by (simp_all add: quota_owner_def lease_of_def Let_def)

lemma quota_outcome_lease [simp]:
  "lease_of (quota_outcome result changed now a) = lease_of a"
  "acc_ID (quota_outcome result changed now a) = acc_ID a"
  "acc_OwnerMode (quota_outcome result changed now a) = acc_OwnerMode a"
  by (simp_all add: quota_outcome_def lease_of_def Let_def)

lemma quota_state_leases:
  "map (\<lambda>a. (acc_ID a, lease_of a)) (st_Accounts (quota_state k result changed source reporter flip now st))
   = map (\<lambda>a. (acc_ID a, lease_of a)) (st_Accounts st)"
  by (simp add: quota_state_def map_update_first)

lemma quota_state_ids: "accountIDs (quota_state k result changed source reporter flip now st) = accountIDs st"
  by (simp add: quota_state_def accountIDs_def map_update_first)

lemma quota_state_owner:
  "map acc_OwnerMode (st_Accounts (quota_state k result changed source reporter False now st))
   = map acc_OwnerMode (st_Accounts st)"
  by (simp add: quota_state_def map_update_first quota_owner_def)

lemma quota_outcome_status:
  "acc_Status (quota_outcome result changed now a) =
     (case res_Status result of
        StatusRefreshInvalid \<Rightarrow>
          if acc_Status a \<in> {StatusReady, StatusRecovering} then StatusDrain else acc_Status a
      | StatusSupported \<Rightarrow> if acc_Status a = StatusRecovering then StatusReady else acc_Status a
      | _ \<Rightarrow> acc_Status a)"
  by (auto simp: quota_outcome_def Let_def split: QuotaStatus.split)

lemma pg_quota_refines:
  assumes "trim_space (res_Plan result) \<noteq> [] \<or> res_Plan result = []"
    and "wrap64 (acc_Generation a) = acc_Generation a"
  shows "Account.truncate (pg_quota_outcome result changed now (pg_quota_owner source (trim_space reporter) flip now a))
       = quota_outcome result changed now (quota_owner source reporter flip now (Account.truncate a))"
proof -
  have "res_Plan result \<noteq> [] \<longleftrightarrow> trim_space (res_Plan result) \<noteq> []" using assms(1) by auto
  with assms(2) show ?thesis
    by (auto simp: pg_quota_outcome_def pg_quota_owner_def quota_outcome_def quota_owner_def Let_def
        Account.defs)
qed

section \<open>Invariants\<close>

text \<open>A predicate that normalising and the recording of a quota keep, the operations keep.\<close>

definition quota_closed :: "(State \<Rightarrow> bool) \<Rightarrow> bool" where
  "quota_closed I \<longleftrightarrow> (\<forall>k result changed source reporter flip now st.
     I st \<longrightarrow> I (quota_state k result changed source reporter flip now st))"

lemma quota_closed_ids: "quota_closed ids_distinct"
  by (simp add: quota_closed_def ids_distinct_def quota_state_ids)

lemma safe_quota_ops:
  assumes "\<not> postgres_mode M" "norm_closed I" "quota_closed I"
  shows safe_writeQuota: "safe_op T I (writeQuotaResultLocked M k result changed source reporter flip)"
    and safe_recordQuota: "safe_op T I (recordQuotaResult M k result changed source reporter flip)"
    and safe_RecordQuotaReport: "safe_op T I (RecordQuotaReport M k result reporter)"
    and safe_verifyLocked: "safe_op T I (verifyLeaseHolderLocked M k lid cid now)"
proof -
  show w: "safe_op T I (writeQuotaResultLocked M k result changed source reporter flip)"
    for k result changed source reporter flip
    unfolding writeQuotaResultLocked_def
    by (intro safe_ops assms) (use assms(3) in \<open>auto simp: quota_closed_def\<close>)
  show r: "safe_op T I (recordQuotaResult M k result changed source reporter flip)"
    for k result changed source reporter flip
    unfolding recordQuotaResult_def by (intro safe_ops w) (use assms(1) in auto)
  show "safe_op T I (RecordQuotaReport M k result reporter)"
    unfolding RecordQuotaReport_def by (rule r)
  show "safe_op T I (verifyLeaseHolderLocked M k lid cid now)"
    unfolding verifyLeaseHolderLocked_def by (intro safe_ops assms)
qed

lemma safe_RecordLeasedQuota:
  assumes "\<not> postgres_mode M" "norm_closed I" "quota_closed I"
  shows "safe_op T I (RecordLeasedQuota M k lid cid result now)"
  unfolding RecordLeasedQuota_def Let_def
  by (intro safe_ops safe_quota_ops assms) (use assms(1) in auto)

lemma safe_GetAccount: "\<not> postgres_mode M \<Longrightarrow> safe_op T I (GetAccount M k)"
  unfolding GetAccount_def by (intro safe_ops)

lemma safe_leasedQuotaResponse: "\<not> postgres_mode M \<Longrightarrow> safe_op T I (leasedQuotaResponse M a)"
  unfolding leasedQuotaResponse_def by (intro safe_ops safe_Load)

lemma safe_leaseActiveFresh: "\<not> postgres_mode M \<Longrightarrow> safe_op T I (leaseActiveFresh M k)"
  unfolding leaseActiveFresh_def lease_active_body_def by (intro safe_ops safe_Load)

lemma safe_syncLive: "safe_op T I (syncLiveAuthToManaged M a)"
  unfolding syncLiveAuthToManaged_def Let_def by (intro safe_ops)

lemma safe_FetchQuota:
  assumes "\<not> postgres_mode M" "norm_closed I" "quota_closed I"
  shows "safe_op T I (FetchQuota M k)"
  unfolding FetchQuota_def probe_and_record_def Let_def
  by (intro safe_ops safe_GetAccount safe_Load safe_leasedQuotaResponse safe_leaseActiveFresh
      safe_syncLive safe_FetchForCodexHome safe_quota_ops assms)

end
