(* ===== verification/Lease.thy ===== *)
theory Lease
  imports QuotaRecord
begin

text \<open>
  The operations of \<open>internal/manager/lease.go\<close>, and \<open>LoadBalanceStatus\<close> of
  \<open>loadbalance.go\<close>: each takes \<open>stateMu\<close>, then the cross-process lock, loads, sweeps
  the expired leases, and saves. The main facts are about the state they leave: a claim
  gives a lease on a cloud-owned, ready account that nobody holds, the holder of an
  active lease keeps it whatever the others do, and releasing or touching takes the
  lease's own id and client.
\<close>

section \<open>The operations\<close>

definition no_account :: error where
  "no_account = ErrText ''no ready, unleased account with auth.json and available 5h quota is available''"

definition RecoverExpiredLeases :: "'m Manager_scheme \<Rightarrow> unit io" where
  "RecoverExpiredLeases M =
     bindE (withMu (withFlock M (
       bindE (Load M) (\<lambda>st. bindE nowE (\<lambda>now.
       case expireAccountLeases st now of (st, expired, changed) \<Rightarrow>
         bindE (whenE changed (Save M st)) (\<lambda>_. returnE expired))))))
     (mapM_E (\<lambda>k. ignoreE (FetchQuota M k)))"

definition SelectAccountForRun :: "'m Manager_scheme \<Rightarrow> AccountView io" where
  "SelectAccountForRun M = withMu (withFlock M (
     bindE (listAccountsLocked M) (\<lambda>accounts. bindE (Load M) (\<lambda>st. bindE nowE (\<lambda>now.
     let scored = map (\<lambda>v. (v, loadBalanceEligibility v (quota_of st (acc_ID (av_Account v))) now)) accounts;
         available = map (\<lambda>(v, ev). (v, ev_QuotaScore ev)) (filter (\<lambda>(v, ev). ev_Eligible ev) scored)
     in if available = [] then throwE no_account
        else
          let available = rank snd (\<lambda>c. acc_ID (av_Account (fst c))) available in
          bindE (loadRoundRobinState M) (\<lambda>lastID.
          let selected = rr_select snd (\<lambda>c. acc_ID (av_Account (fst c))) lastID available in
          bindE (saveRoundRobinState M (acc_ID (av_Account (fst selected)))) (\<lambda>_.
            returnE (fst selected))))))))"

definition finish_claim :: "'m Manager_scheme \<Rightarrow> string \<Rightarrow> Account \<Rightarrow> LeaseSnapshot io" where
  "finish_claim M leaseID a =
     bindE (ignoreE (saveRoundRobinState M (acc_ID a))) (\<lambda>_.
     bindE (ExportProfileSnapshot M (acc_ID a)) (\<lambda>s.
       returnE \<lparr>ls_Lease = leaseFromAccount a,
         ls_Snapshot = s\<lparr>ps_LeaseID := leaseID, ps_Generation := acc_Generation a,
                          ps_SourceClient := acc_LeaseHolder a\<rparr>\<rparr>))"

definition claim_locked ::
  "'m Manager_scheme \<Rightarrow> string \<Rightarrow> string \<Rightarrow> string \<Rightarrow> duration \<Rightarrow> LeaseSnapshot io" where
  "claim_locked M clientID holder workspaceID ttl =
     bindE (Load M) (\<lambda>st. bindE nowE (\<lambda>now.
     let st = sweep st now in
     bindE (getsE (\<lambda>w. claim_candidates (accountAuthPresent w) st (trim_space workspaceID) now)) (\<lambda>cands.
     let available = rank cand_score cand_key cands in
     if available = [] then bindE (Save M st) (\<lambda>_. throwE no_account)
     else
       bindE (loadRoundRobinState M) (\<lambda>lastID.
       let selected = rr_select cand_score cand_key lastID available in
       bindE generateLeaseID (\<lambda>leaseID.
       let (st, a) = claim_state (fst selected) leaseID clientID holder ttl now st in
       bindE (Save M st) (\<lambda>_. finish_claim M leaseID a))))))"

definition ClaimLease ::
  "'m Manager_scheme \<Rightarrow> string \<Rightarrow> string \<Rightarrow> string \<Rightarrow> duration \<Rightarrow> LeaseSnapshot io" where
  "ClaimLease M clientID holder workspaceID ttl =
     bindE (RecoverExpiredLeases M) (\<lambda>_.
       withMu (withFlock M (claim_locked M clientID holder workspaceID ttl)))"

text \<open>A lease looked up and validated, or the error after saving the swept state.\<close>

definition save_then_fail :: "'m Manager_scheme \<Rightarrow> State \<Rightarrow> error \<Rightarrow> 'a io" where
  "save_then_fail M st e = bindE (ignoreE (Save M st)) (\<lambda>_. throwE e)"

definition TouchLease ::
  "'m Manager_scheme \<Rightarrow> string \<Rightarrow> string \<Rightarrow> string \<Rightarrow> string \<Rightarrow> duration \<Rightarrow> Lease io" where
  "TouchLease M leaseID accountID clientID holder ttl = withMu (withFlock M (
     bindE (Load M) (\<lambda>st. bindE nowE (\<lambda>now.
     let st = sweep st now in
     case findLeaseAccount st accountID leaseID of
       Inl e \<Rightarrow> save_then_fail M st e
     | Inr (i, a) \<Rightarrow>
         (case validateLease a leaseID clientID now of
            Some e \<Rightarrow> save_then_fail M st e
          | None \<Rightarrow>
              let a = touch_account holder ttl now a in
              bindE (Save M (set_account i a st)) (\<lambda>_. returnE (leaseFromAccount a)))))))"

definition lease_update_error :: "ProfileSnapshot \<Rightarrow> error option" where
  "lease_update_error s =
     (if trim_space (ps_ID s) = [] then Some (ErrText ''lease auth update needs account id'')
      else if trim_space (ps_LeaseID s) = [] then Some (ErrText ''lease auth update needs lease id'')
      else if content_missing (ps_Auth s) then Some (ErrText ''lease auth update needs auth'')
      else if \<not> content_valid (ps_Auth s) then Some (ErrText ''auth is not valid JSON'')
      else if ps_Status s \<noteq> NoStatus \<and> \<not> validAccountStatus (ps_Status s)
      then Some (ErrText (''unknown status '' @ quoted (status_text (ps_Status s))))
      else None)"

definition generation_conflict :: "Account \<Rightarrow> int \<Rightarrow> error" where
  "generation_conflict a g = ErrText (''auth generation conflict for '' @ acc_ID a
     @ '': client has '' @ show_int g @ '', server has '' @ show_int (acc_Generation a))"

definition UpdateLeasedProfileSnapshot ::
  "'m Manager_scheme \<Rightarrow> ProfileSnapshot \<Rightarrow> string \<Rightarrow> duration \<Rightarrow> Account io" where
  "UpdateLeasedProfileSnapshot M s clientID ttl =
     (case lease_update_error s of
        Some e \<Rightarrow> throwE e
      | None \<Rightarrow> withMu (withFlock M (
          bindE (Load M) (\<lambda>st. bindE nowE (\<lambda>now.
          let st = sweep st now in
          case findLeaseAccount st (ps_ID s) (ps_LeaseID s) of
            Inl e \<Rightarrow> save_then_fail M st e
          | Inr (i, a) \<Rightarrow>
              (case validateLease a (ps_LeaseID s) clientID now of
                 Some e \<Rightarrow> save_then_fail M st e
               | None \<Rightarrow>
                   if ps_Generation s \<noteq> acc_Generation a
                   then throwE (generation_conflict a (ps_Generation s))
                   else bindE (writeProfileFiles a (ps_Auth s)) (\<lambda>_.
                     let a = update_leased_account s ttl now a in
                     bindE (Save M (set_account i a st)) (\<lambda>_. returnE a))))))))"

definition ReleaseLease :: "'m Manager_scheme \<Rightarrow> string \<Rightarrow> string \<Rightarrow> string \<Rightarrow> unit io" where
  "ReleaseLease M accountID leaseID clientID = withMu (withFlock M (
     bindE (Load M) (\<lambda>st. bindE nowE (\<lambda>now.
     let st = sweep st now in
     case findLeaseAccount st accountID leaseID of
       Inl e \<Rightarrow> bindE (Save M st) (\<lambda>_. throwE (ErrLeaseNotFound (error_text e)))
     | Inr (i, a) \<Rightarrow>
         (case validateLease a leaseID clientID now of
            Some e \<Rightarrow> throwE e
          | None \<Rightarrow> Save M (release_state i a now st))))))"

definition AccountHasActiveLease :: "'m Manager_scheme \<Rightarrow> string \<Rightarrow> bool io" where
  "AccountHasActiveLease M k =
     bindE (tryE (GetAccount M k)) (\<lambda>r. bindE nowE (\<lambda>now.
     case r of
       Inl e \<Rightarrow> if contains_sub (error_text e) ''not found'' then returnE False else throwE e
     | Inr a \<Rightarrow> returnE (accountLeaseActive a now)))"

definition swapRemainingThreshold :: percent where "swapRemainingThreshold = 10"

definition swap_needed :: "QuotaCache \<Rightarrow> bool" where
  "swap_needed cache =
     (let window = (case qc_FiveHour cache of Some x \<Rightarrow> Some x | None \<Rightarrow> quotaFiveHour (qc_Result cache));
          window = (case bindingWindow window (quotaSevenDay (qc_Result cache)) of
            Some (_, b) \<Rightarrow> Some b | None \<Rightarrow> window)
      in case window of
           None \<Rightarrow> False
         | Some x \<Rightarrow>
             if res_Status (qc_Result cache) \<noteq> NoQuota \<and> res_Status (qc_Result cache) \<noteq> StatusSupported
             then False
             else win_RemainingPercent x < swapRemainingThreshold)"

definition ShouldSwapLease :: "'m Manager_scheme \<Rightarrow> string \<Rightarrow> bool io" where
  "ShouldSwapLease M accountID =
     (let accountID = trim_space accountID in
      if accountID = [] then returnE False
      else bindE (Load M) (\<lambda>st.
        case map_of (st_QuotaCache st) accountID of
          None \<Rightarrow> returnE False
        | Some cache \<Rightarrow> returnE (swap_needed cache)))"

section \<open>The status of the pool\<close>

record LoadBalanceAccount =
  lba_View :: AccountView
  lba_WorkspaceID :: string
  lba_Evaluation :: Evaluation

record LoadBalanceStatus =
  lbs_Policy :: string
  lbs_StatePath :: string
  lbs_LastAccountID :: string
  lbs_Eligible :: "LoadBalanceAccount list"
  lbs_Excluded :: "LoadBalanceAccount list"

definition lb_entry :: "State \<Rightarrow> time \<Rightarrow> AccountView \<Rightarrow> LoadBalanceAccount" where
  "lb_entry st now v = \<lparr>lba_View = v,
     lba_WorkspaceID = workspaceOrDefault (acc_WorkspaceID (av_Account v)),
     lba_Evaluation = loadBalanceEligibility v (quota_of st (acc_ID (av_Account v))) now\<rparr>"

abbreviation lba_ID :: "LoadBalanceAccount \<Rightarrow> string" where
  "lba_ID e \<equiv> acc_ID (av_Account (lba_View e))"

definition LoadBalanceStatus_op :: "'m Manager_scheme \<Rightarrow> string \<Rightarrow> LoadBalanceStatus io" where
  "LoadBalanceStatus_op M workspaceID =
     bindE (loadRoundRobinState M) (\<lambda>lastID. bindE (ListAccounts M) (\<lambda>accounts.
     bindE (Load M) (\<lambda>st. bindE nowE (\<lambda>now.
     let ws = trim_space workspaceID;
         entries = map (lb_entry st now) (filter (\<lambda>v. ws = [] \<or>
           workspaceOrDefault (acc_WorkspaceID (av_Account v)) = ws) accounts)
     in returnE \<lparr>lbs_Policy = ''quota-aware weighted round-robin'',
          lbs_StatePath = path_join (m_StateDir M) ''run-round-robin.json'',
          lbs_LastAccountID = lastID,
          lbs_Eligible = rank (\<lambda>e. ev_QuotaScore (lba_Evaluation e)) lba_ID
            (filter (\<lambda>e. ev_Eligible (lba_Evaluation e)) entries),
          lbs_Excluded = sort_slice (\<lambda>a b. lba_ID a < lba_ID b)
            (filter (\<lambda>e. \<not> ev_Eligible (lba_Evaluation e)) entries)\<rparr>))))"

section \<open>Candidates\<close>

lemma claim_candidates_mem:
  assumes "(i, a, s) \<in> set (claim_candidates auth st ws now)"
  shows "i < length (st_Accounts st) \<and> a = st_Accounts st ! i
     \<and> (ws = [] \<or> workspaceOrDefault (acc_WorkspaceID a) = ws)
     \<and> may_lease (acc_OwnerMode a) (acc_Status a) (auth a) (accountLeaseActive a now)
         (quota_of st (acc_ID a)) now"
  using assms
  by (auto simp: claim_candidates_def in_set_enumerate_eq loadBalanceEligibilityForAccount_def
      eligible_iff Let_def split: if_splits)

lemma claim_candidates_complete:
  assumes "i < length (st_Accounts st)" "a = st_Accounts st ! i"
    and "ws = [] \<or> workspaceOrDefault (acc_WorkspaceID a) = ws"
    and "may_lease (acc_OwnerMode a) (acc_Status a) (auth a) (accountLeaseActive a now)
         (quota_of st (acc_ID a)) now"
  shows "claim_candidates auth st ws now \<noteq> []"
proof -
  have "(i, a) \<in> set (enumerate 0 (st_Accounts st))"
    using assms(1,2) by (simp add: in_set_enumerate_eq)
  with assms(3,4) show ?thesis
    by (fastforce simp: claim_candidates_def loadBalanceEligibilityForAccount_def eligible_iff Let_def)
qed

lemma rr_select_mem: "available \<noteq> [] \<Longrightarrow> rr_select score k lastID available \<in> set available"
  using topGroupLen_bounds [of "map score available"]
    rr_index_less [of "loadBalanceTopGroupLen (map score available)" k lastID available]
  by (auto simp: rr_select_index intro!: nth_mem)

lemma sweep_ready:
  "a \<in> set (st_Accounts (sweep st now)) \<Longrightarrow> acc_Status a = StatusReady \<Longrightarrow>
   a \<in> set (st_Accounts st) \<and> \<not> lease_expired a now"
  by (auto simp: sweep_accounts expire_account_status split: if_splits)

section \<open>The holder keeps the lease\<close>

definition holds :: "string \<Rightarrow> string \<Rightarrow> string \<Rightarrow> time \<Rightarrow> time \<Rightarrow> State \<Rightarrow> bool" where
  "holds k leaseID clientID until now st \<longleftrightarrow>
     (\<exists>a \<in> set (st_Accounts st). acc_ID a = k \<and> acc_LeaseID a = leaseID
        \<and> acc_LeaseClientID a = clientID \<and> acc_LeaseExpiresAt a = until \<and> accountLeaseActive a now)"

lemma normalize_active [simp]: "accountLeaseActive (normalize_account a) now = accountLeaseActive a now"
  by (simp add: accountLeaseActive_def)

lemma holds_norm: "norm_closed (holds k L C E now)"
  by (rule norm_closedI) (auto simp: holds_def)

lemma holds_sweep: "holds k L C E now st \<Longrightarrow> holds k L C E now (sweep st now)"
  unfolding holds_def using sweep_active by blast

lemma holds_quota: "quota_closed (holds k L C E t)"
  unfolding quota_closed_def
proof (intro allI impI)
  fix j result changed source reporter flip now st
  assume "holds k L C E t st"
  then obtain a where a: "a \<in> set (st_Accounts st)" "acc_ID a = k" "acc_LeaseID a = L"
      "acc_LeaseClientID a = C" "acc_LeaseExpiresAt a = E" "accountLeaseActive a t" by (auto simp: holds_def)
  let ?st = "quota_state j result changed source reporter flip now st"
  have "(acc_ID a, lease_of a) \<in> set (map (\<lambda>a. (acc_ID a, lease_of a)) (st_Accounts ?st))"
    unfolding quota_state_leases using a(1) by simp
  then obtain b where b: "b \<in> set (st_Accounts ?st)" "acc_ID b = acc_ID a" "lease_of b = lease_of a"
    by auto
  with a lease_of_active [OF b(3), of t] show "holds k L C E t ?st"
    unfolding holds_def by (intro bexI [of _ b]) (auto simp: lease_of_def)
qed

text \<open>Writing one account keeps the lease, if that account is not the one, or keeps it too.\<close>

lemma holds_set_account:
  assumes "holds k L C E now st" "i < length (st_Accounts st)"
    and "acc_ID (st_Accounts st ! i) = k \<Longrightarrow> acc_LeaseID (st_Accounts st ! i) = L \<Longrightarrow>
      acc_LeaseClientID (st_Accounts st ! i) = C \<Longrightarrow> accountLeaseActive (st_Accounts st ! i) now \<Longrightarrow>
      acc_ID b = k \<and> lease_of b = lease_of (st_Accounts st ! i)"
  shows "holds k L C E now (set_account i b st)"
proof -
  obtain j where j: "j < length (st_Accounts st)" "acc_ID (st_Accounts st ! j) = k"
      "acc_LeaseID (st_Accounts st ! j) = L" "acc_LeaseClientID (st_Accounts st ! j) = C"
      "acc_LeaseExpiresAt (st_Accounts st ! j) = E" "accountLeaseActive (st_Accounts st ! j) now"
    using assms(1) by (auto simp: holds_def in_set_conv_nth)
  show ?thesis
  proof (cases "j = i")
    case True
    with assms(3) j have "acc_ID b = k" "lease_of b = lease_of (st_Accounts st ! j)" by simp_all
    moreover from this j lease_of_active [of b "st_Accounts st ! j" now] have "accountLeaseActive b now" by simp
    ultimately show ?thesis using assms(2) j
      by (auto simp: holds_def set_account_def lease_of_def intro!: bexI [of _ b] set_update_memI)
  next
    case False
    then have "st_Accounts st ! j \<in> set ((st_Accounts st)[i := b])"
      using j(1) by (metis length_list_update nth_list_update_neq nth_mem)
    with j show ?thesis by (auto simp: holds_def set_account_def)
  qed
qed

lemma holds_dispatches [simp]: "holds k L C E now (st\<lparr>st_Dispatches := ds\<rparr>) = holds k L C E now st"
  by (simp add: holds_def)

lemma claim_state_holds:
  assumes "holds k L C E now st" "i < length (st_Accounts st)" "\<not> accountLeaseActive (st_Accounts st ! i) now"
  shows "holds k L C E now (fst (claim_state i lid cid holder ttl now st))"
  using assms by (auto simp: claim_state_def Let_def intro!: holds_set_account)

lemma touch_fields [simp]:
  "acc_ID (touch_account holder ttl now a) = acc_ID a"
  "acc_LeaseID (touch_account holder ttl now a) = acc_LeaseID a"
  "acc_LeaseClientID (touch_account holder ttl now a) = acc_LeaseClientID a"
  "acc_ID (update_leased_account s ttl now a) = acc_ID a"
  "acc_LeaseID (update_leased_account s ttl now a) = acc_LeaseID a"
  "acc_LeaseClientID (update_leased_account s ttl now a) = acc_LeaseClientID a"
  by (simp_all add: touch_account_def update_leased_account_def Let_def)

section \<open>The operations keep other holders' leases\<close>

lemma safe_save_then_fail:
  "\<not> postgres_mode M \<Longrightarrow> norm_closed I \<Longrightarrow> I st \<Longrightarrow> safe_op T I (save_then_fail M st e)"
  unfolding save_then_fail_def by (intro safe_ops)

lemma safe_ExportProfileSnapshot: "\<not> postgres_mode M \<Longrightarrow> safe_op T I (ExportProfileSnapshot M k)"
  unfolding ExportProfileSnapshot_def Let_def by (intro safe_ops safe_GetAccount)

lemma safe_finish_claim: "\<not> postgres_mode M \<Longrightarrow> safe_op T I (finish_claim M leaseID a)"
  unfolding finish_claim_def by (intro safe_ops safe_ExportProfileSnapshot)

lemma safe_generateLeaseID: "safe_op T I generateLeaseID"
  unfolding generateLeaseID_def by (intro safe_ops)

lemma safe_expire:
  "I (sweep st now) \<Longrightarrow> (\<And>st' ids b. I st' \<Longrightarrow> safe_op T I (f st' ids b)) \<Longrightarrow>
   safe_op T I (case expireAccountLeases st now of (st', ids, b) \<Rightarrow> f st' ids b)"
  by (cases "expireAccountLeases st now") (simp add: sweep_def)

lemma keeps_RecoverExpiredLeases:
  assumes "\<not> postgres_mode M"
  shows "safe_op T (holds k L C E T) (RecoverExpiredLeases M)"
  unfolding RecoverExpiredLeases_def
  by (intro safe_ops safe_expire safe_FetchQuota assms holds_norm holds_quota holds_sweep)

lemma claim_selected:
  assumes "rank cand_score cand_key (claim_candidates auth st ws now) \<noteq> []"
  shows "rr_select cand_score cand_key lastID (rank cand_score cand_key (claim_candidates auth st ws now))
     \<in> set (claim_candidates auth st ws now)"
  using rr_select_mem [OF assms, of cand_score cand_key lastID] by (simp add: rank_def)

section \<open>What a claim returns\<close>

definition leased_to :: "Lease \<Rightarrow> string \<Rightarrow> time \<Rightarrow> State \<Rightarrow> bool" where
  "leased_to l ws now st \<longleftrightarrow>
     (\<exists>a \<in> set (st_Accounts st). acc_ID a = lse_AccountID l \<and> acc_LeaseID a = lse_ID l
        \<and> acc_LeaseClientID a = lse_ClientID l \<and> acc_LeaseExpiresAt a = lse_ExpiresAt l
        \<and> accountLeaseActive a now
        \<and> may_lease (acc_OwnerMode a) (acc_Status a) True False (quota_of st (acc_ID a)) now
        \<and> (ws = [] \<or> workspaceOrDefault (acc_WorkspaceID a) = ws))"

lemma leased_to_norm: "leased_to l ws now st \<Longrightarrow> leased_to l ws now (normalizeState t (st\<lparr>st_Version := v\<rparr>))"
proof -
  assume "leased_to l ws now st"
  then obtain a where a: "a \<in> set (st_Accounts st)" "acc_ID a = lse_AccountID l" "acc_LeaseID a = lse_ID l"
      "acc_LeaseClientID a = lse_ClientID l" "acc_LeaseExpiresAt a = lse_ExpiresAt l" "accountLeaseActive a now"
      "may_lease (acc_OwnerMode a) (acc_Status a) True False (quota_of st (acc_ID a)) now"
      "ws = [] \<or> workspaceOrDefault (acc_WorkspaceID a) = ws"
    by (auto simp: leased_to_def)
  have "acc_OwnerMode (normalize_account a) = OwnerCloud" "acc_Status (normalize_account a) = StatusReady"
      "workspaceOrDefault (acc_WorkspaceID (normalize_account a)) = workspaceOrDefault (acc_WorkspaceID a)"
    using a(7) by (simp_all add: normalize_account_def may_lease_def Let_def workspaceOrDefault_def)
  with a show ?thesis
    unfolding leased_to_def
    by (intro bexI [of _ "normalize_account a"]) (auto simp: quota_of_def may_lease_def)
qed

lemma claimed_candidate:
  assumes "(i, a, sc) \<in> set (claim_candidates auth st ws now)"
    and "claim_state i lid cid holder ttl now st = (st', b)" "trim_space lid \<noteq> []" "0 \<le> now"
  shows "leased_to (leaseFromAccount b) ws now st' \<and> acc_LeaseID b = lid \<and> acc_LeaseClientID b = trim_space cid
     \<and> acc_LeaseExpiresAt b = now + normalizeLeaseTTL ttl \<and> acc_ID b = acc_ID (st_Accounts st ! i)"
proof -
  have i: "i < length (st_Accounts st)" and ai: "a = st_Accounts st ! i"
    and ws: "ws = [] \<or> workspaceOrDefault (acc_WorkspaceID a) = ws"
    and m: "may_lease (acc_OwnerMode a) (acc_Status a) (auth a) (accountLeaseActive a now)
         (quota_of st (acc_ID a)) now"
    using claim_candidates_mem [OF assms(1)] by blast+
  from assms(2) have b: "b = claim_account lid cid holder ttl now a"
    and st': "st_Accounts st' = (st_Accounts st)[i := b]" "st_QuotaCache st' = st_QuotaCache st"
    by (auto simp: claim_state_def Let_def ai set_account_def)
  have f: "acc_ID b = acc_ID a" "acc_LeaseID b = lid" "acc_LeaseClientID b = trim_space cid"
      "acc_LeaseExpiresAt b = now + normalizeLeaseTTL ttl" "acc_OwnerMode b = acc_OwnerMode a"
      "acc_Status b = acc_Status a" "acc_WorkspaceID b = acc_WorkspaceID a"
    by (simp_all add: b claim_account_def)
  have act: "accountLeaseActive b now"
    using assms(3,4) normalizeLeaseTTL_pos [of ttl] by (simp add: accountLeaseActive_def f)
  have mem: "b \<in> set (st_Accounts st')" using i by (simp add: st' set_update_memI)
  have m': "may_lease (acc_OwnerMode b) (acc_Status b) True False (quota_of st' (acc_ID b)) now"
    using m by (simp add: may_lease_def f quota_of_def st')
  have "leased_to (leaseFromAccount b) ws now st'"
    unfolding leased_to_def
    by (intro bexI [OF _ mem]) (use act m' ws f in \<open>simp add: leaseFromAccount_def\<close>)
  with f ai show ?thesis by simp
qed

definition claimed :: "string \<Rightarrow> string \<Rightarrow> duration \<Rightarrow> time \<Rightarrow> LeaseSnapshot \<Rightarrow> State \<Rightarrow> bool" where
  "claimed clientID ws ttl now s st \<longleftrightarrow> leased_to (ls_Lease s) ws now st
     \<and> lse_ClientID (ls_Lease s) = trim_space clientID
     \<and> lse_ExpiresAt (ls_Lease s) = now + normalizeLeaseTTL ttl"

lemma lease_id_not_blank: "trim_space (''lease_'' @ r) \<noteq> []"
  using not_blank_if [of "CHR ''l''" "''lease_'' @ r"] alnum_not_ws [of "CHR ''l''"]
  by (simp add: blank_def is_alnum_def is_lower_def)

lemma gives_generateLeaseID: "gives_op T I generateLeaseID (\<lambda>lid s. I s \<and> trim_space lid \<noteq> [])"
  unfolding generateLeaseID_def
  by (intro file_store.gives_safe_bind file_store.safe_prims file_store.gives_return conjI lease_id_not_blank)

lemma gives_finish_claim:
  assumes "\<not> postgres_mode M"
  shows "gives_op T I (finish_claim M lid a) (\<lambda>r s. I s \<and> ls_Lease r = leaseFromAccount a)"
  unfolding finish_claim_def
  by (intro file_store.gives_safe_bind file_store.gives_return safe_ops safe_ExportProfileSnapshot assms) simp

lemma gives_claim_locked:
  assumes m: "\<not> postgres_mode M"
    and Q: "\<And>auth st i a sc lid st' b (s :: LeaseSnapshot). I st \<Longrightarrow>
      (i, a, sc) \<in> set (claim_candidates auth (sweep st T) (trim_space ws) T) \<Longrightarrow>
      claim_state i lid cid holder ttl T (sweep st T) = (st', b) \<Longrightarrow> trim_space lid \<noteq> [] \<Longrightarrow>
      ls_Lease s = leaseFromAccount b \<Longrightarrow> Q s (normalizeState T (st'\<lparr>st_Version := 1\<rparr>))"
  shows "gives_op T I (claim_locked M cid holder ws ttl) Q"
  unfolding claim_locked_def
proof (intro file_store.gives_load [OF m] file_store.gives_now, unfold Let_def,
    intro file_store.gives_gets file_store.gives_if file_store.gives_then_throw)
  fix st w
  let ?cs = "claim_candidates (accountAuthPresent w) (sweep st T) (trim_space ws) T"
  let ?sel = "\<lambda>lastID. rr_select cand_score cand_key lastID (rank cand_score cand_key ?cs)"
  assume I: "I st" and ne: "rank cand_score cand_key ?cs \<noteq> []"
  show "gives_op T (\<lambda>s. s = st) (bindE (loadRoundRobinState M) (\<lambda>lastID. bindE generateLeaseID (\<lambda>leaseID.
      case claim_state (fst (?sel lastID)) leaseID cid holder ttl T (sweep st T) of
        (st, a) \<Rightarrow> bindE (Save M st) (\<lambda>_. finish_claim M leaseID a)))) Q"
  proof (rule file_store.gives_safe_bind [OF safe_rr(2) [OF m]],
      rule file_store.gives_bind [OF gives_generateLeaseID], rule file_store.gives_pure)
    fix lastID lid assume lid: "trim_space lid \<noteq> []"
    obtain i a sc where sel: "?sel lastID = (i, a, sc)" by (rule prod_cases3)
    then have mem: "(i, a, sc) \<in> set ?cs" using claim_selected [OF ne, of lastID] by simp
    obtain st' b where cl: "claim_state i lid cid holder ttl T (sweep st T) = (st', b)" by fastforce
    let ?J = "\<lambda>_ s. s = normalizeState T (st'\<lparr>st_Version := 1\<rparr>)"
    have "gives_op T (\<lambda>s. s = st) (bindE (Save M st') (\<lambda>_. finish_claim M lid b)) Q"
    proof (rule file_store.gives_bind [where R = ?J])
      show "gives_op T (\<lambda>s. s = st) (Save M st') ?J" by (rule file_store.gives_save [OF m]) simp
      show "gives_op T (?J x) (finish_claim M lid b) Q" for x
        by (rule file_store.gives_conseq [OF gives_finish_claim [where I = "?J x", OF m]]) (use Q [OF I mem cl lid] in auto)
    qed
    then show "gives_op T (\<lambda>s. s = st) (case claim_state (fst (?sel lastID)) lid cid holder ttl T (sweep st T) of
        (st, a) \<Rightarrow> bindE (Save M st) (\<lambda>_. finish_claim M lid a)) Q"
      by (simp add: sel cl)
  qed
qed


lemma claim_claimed:
  assumes m: "\<not> postgres_mode M" and "0 \<le> T"
  shows "gives_op T (\<lambda>_. True) (ClaimLease M cid holder ws ttl) (claimed cid (trim_space ws) ttl T)"
  unfolding ClaimLease_def
proof (intro file_store.gives_safe_bind file_store.gives_withMu file_store.gives_withFlock)
  show "safe_op T (\<lambda>_. True) (RecoverExpiredLeases M)"
    unfolding RecoverExpiredLeases_def
    by (intro safe_ops safe_expire safe_FetchQuota m norm_closedI TrueI) (simp add: quota_closed_def)
  show "gives_op T (\<lambda>_. True) (claim_locked M cid holder ws ttl) (claimed cid (trim_space ws) ttl T)"
  proof (rule gives_claim_locked [OF m])
    fix auth st i a sc lid st' b and s :: LeaseSnapshot
    assume c: "(i, a, sc) \<in> set (claim_candidates auth (sweep st T) (trim_space ws) T)"
      "claim_state i lid cid holder ttl T (sweep st T) = (st', b)" "trim_space lid \<noteq> []"
      and s: "ls_Lease s = leaseFromAccount b"
    from claimed_candidate [OF c assms(2)] s
    show "claimed cid (trim_space ws) ttl T s (normalizeState T (st'\<lparr>st_Version := 1\<rparr>))"
      by (auto simp: claimed_def leaseFromAccount_def intro: leased_to_norm)
  qed
qed

lemma quota_closed_conj: "quota_closed I \<Longrightarrow> quota_closed J \<Longrightarrow> quota_closed (\<lambda>s. I s \<and> J s)"
  unfolding quota_closed_def by blast

lemma norm_closed_conj: "norm_closed I \<Longrightarrow> norm_closed J \<Longrightarrow> norm_closed (\<lambda>s. I s \<and> J s)"
  by (simp add: file_store.norm_closed_def)

lemma ids_sweep: "ids_distinct st \<Longrightarrow> ids_distinct (sweep st now)"
  by (simp add: ids_distinct_def sweep_ids)

lemma held_not_candidate:
  assumes "holds k L C E now st" "ids_distinct st" "(i, a, sc) \<in> set (claim_candidates auth (sweep st now) ws now)"
  shows "acc_ID (st_Accounts (sweep st now) ! i) \<noteq> k"
proof
  let ?as = "st_Accounts (sweep st now)"
  assume k: "acc_ID (?as ! i) = k"
  from claim_candidates_mem [OF assms(3)] have i: "i < length ?as" "\<not> accountLeaseActive (?as ! i) now"
    by (auto simp: may_lease_def)
  from holds_sweep [OF assms(1)] obtain b where b: "b \<in> set ?as" "acc_ID b = k" "accountLeaseActive b now"
    by (auto simp: holds_def)
  have "distinct (map acc_ID ?as)" using ids_sweep [OF assms(2)] by (simp add: ids_distinct_def accountIDs_def)
  then have "?as ! i = b" using b i(1) k by (metis distinct_map inj_onD nth_mem)
  with b i(2) show False by simp
qed

lemma claim_other:
  assumes m: "\<not> postgres_mode M" and "0 \<le> T"
  shows "gives_op T (\<lambda>s. holds k L C E T s \<and> ids_distinct s) (ClaimLease M cid holder ws ttl)
     (\<lambda>s st. lse_AccountID (ls_Lease s) \<noteq> k \<and> holds k L C E T st)"
  unfolding ClaimLease_def
proof (intro file_store.gives_safe_bind file_store.gives_withMu file_store.gives_withFlock)
  let ?I = "\<lambda>s. holds k L C E T s \<and> ids_distinct s"
  show "safe_op T ?I (RecoverExpiredLeases M)"
    unfolding RecoverExpiredLeases_def
    by (intro safe_ops safe_expire safe_FetchQuota m norm_closed_conj quota_closed_conj holds_norm
        ids_distinct_norm holds_quota quota_closed_ids) (auto simp: holds_sweep ids_sweep)
  show "gives_op T ?I (claim_locked M cid holder ws ttl)
     (\<lambda>s st. lse_AccountID (ls_Lease s) \<noteq> k \<and> holds k L C E T st)"
  proof (rule gives_claim_locked [OF m])
    fix auth st i a sc lid st' b and s :: LeaseSnapshot
    assume I: "?I st" and c: "(i, a, sc) \<in> set (claim_candidates auth (sweep st T) (trim_space ws) T)"
      and cl: "claim_state i lid cid holder ttl T (sweep st T) = (st', b)" "trim_space lid \<noteq> []"
      and s: "ls_Lease s = leaseFromAccount b"
    from claimed_candidate [OF c cl assms(2)] s held_not_candidate [OF _ _ c] I
    have "lse_AccountID (ls_Lease s) \<noteq> k" by (auto simp: leaseFromAccount_def)
    moreover from claim_candidates_mem [OF c] have "i < length (st_Accounts (sweep st T))"
      "\<not> accountLeaseActive (st_Accounts (sweep st T) ! i) T" by (auto simp: may_lease_def)
    then have "holds k L C E T st'"
      using claim_state_holds [of k L C E T "sweep st T" i lid cid holder ttl] I cl holds_sweep by auto
    then have "holds k L C E T (normalizeState T (st'\<lparr>st_Version := 1\<rparr>))"
      using holds_norm by (simp add: file_store.norm_closed_def)
    ultimately show "lse_AccountID (ls_Lease s) \<noteq> k
       \<and> holds k L C E T (normalizeState T (st'\<lparr>st_Version := 1\<rparr>))" by simp
  qed
qed

section \<open>A claim succeeds when it can\<close>

definition calm :: "World \<Rightarrow> bool" where
  "calm w \<longleftrightarrow> w_faults w = [] \<and> \<not> w_mu w \<and> \<not> w_flock w"

lemma locked_eval:
  assumes "calm w" "v = w\<lparr>w_mu := True, w_flock := True\<rparr>" "m v = (r, w')"
  shows "withMu (withFlock M m) w = (r, w'\<lparr>w_mu := False, w_flock := False\<rparr>)"
  using assms by (simp add: calm_def withMu_def withFlock_def lockMu_def acquireLock_def releaseLock_def
      unlockMu_def deferE_def modifyE_def bindE_def stepE_def)

lemma stored_locks [simp]:
  "stored (w\<lparr>w_mu := b\<rparr>) = stored w" "stored (w\<lparr>w_flock := b\<rparr>) = stored w" "stored (w\<lparr>w_rand := rs\<rparr>) = stored w"
  "stored (w\<lparr>w_rr := k\<rparr>) = stored w"
  by (simp_all add: stored_def)

lemma expire_none:
  "\<forall>a \<in> set as. \<not> lease_expired a now \<Longrightarrow> expire_loop st now as ds = (as, ds, [])"
  by (induction as arbitrary: ds) simp_all

lemma expire_settled:
  "\<forall>a \<in> set (st_Accounts st). \<not> lease_expired a now \<Longrightarrow> expireAccountLeases st now = (st, [], False)"
  by (simp add: expireAccountLeases_def expire_none)

lemma Recover_settled:
  assumes "\<not> postgres_mode M" "calm w" "\<forall>a \<in> set (st_Accounts (stored w)). \<not> lease_expired a (w_now w)"
  shows "RecoverExpiredLeases M w = (Inr (), w)"
proof -
  define v where v: "v = w\<lparr>w_mu := True, w_flock := True\<rparr>"
  define body where "body = bindE (Load M) (\<lambda>st. bindE nowE (\<lambda>now.
       case expireAccountLeases st now of (st, expired, changed) \<Rightarrow>
         bindE (whenE changed (Save M st)) (\<lambda>_. returnE expired)))"
  have "Load M v = (Inr (stored w), v)"
    using assms(1,2) Load_eval [of M v] by (simp add: calm_def v)
  then have "body v = (Inr [], v)"
    using expire_settled [OF assms(3)] by (simp add: body_def v nowE_def getsE_def bindE_def whenE_def returnE_def)
  from locked_eval [where m = body and M = M, OF assms(2) v this] assms(2)
  have "withMu (withFlock M body) w = (Inr [], w)" by (simp add: v calm_def)
  then show ?thesis unfolding RecoverExpiredLeases_def body_def [symmetric] by (simp add: returnE_def)
qed

lemma finish_claim_eval:
  assumes "\<not> postgres_mode M" "w_faults w = []"
    and "find (\<lambda>b. acc_ID b = acc_ID a) (st_Accounts (stored w)) = Some b"
    and "map_of (w_files w) (auth_path (acc_CodexHome b)) = Some (c, t)"
  shows "\<exists>s. finish_claim M lid a w = (Inr s, w\<lparr>w_rr := Some (acc_ID a)\<rparr>)"
proof -
  let ?w = "w\<lparr>w_rr := Some (acc_ID a)\<rparr>"
  have 1: "saveRoundRobinState M (acc_ID a) w = (Inr (), ?w)"
    using assms(1,2) by (simp add: saveRoundRobinState_def Ensure_eval bindE_def stepE_def modifyE_def)
  have 2: "GetAccount M (acc_ID a) ?w = (Inr b, ?w)"
    using assms(1-3) Load_eval [of M ?w] by (simp add: GetAccount_def bindE_def returnE_def)
  have 3: "readFile (auth_path (acc_CodexHome b)) ?w = (Inr (Some c), ?w)"
    using assms(2,4) by (simp add: readFile_def bindE_def stepE_def getsE_def)
  show ?thesis
    by (simp add: finish_claim_def ExportProfileSnapshot_def Let_def 1 2 3 bindE_def ignoreE_def getsE_def returnE_def)
qed

lemma claim_locked_eval:
  assumes "\<not> postgres_mode M" "w_faults w = []" "w_rand w = r # rs"
    and st: "st = sweep (stored w) (w_now w)"
    and av: "available = rank cand_score cand_key (claim_candidates (accountAuthPresent w) st (trim_space ws) (w_now w))"
      "available \<noteq> []"
    and cl: "claim_state (fst (rr_select cand_score cand_key lastID available)) (''lease_'' @ r) cid holder ttl
      (w_now w) st = (st', a)" "lastID = (case w_rr w of None \<Rightarrow> [] | Some k \<Rightarrow> k)"
  shows "claim_locked M cid holder ws ttl w =
     finish_claim M (''lease_'' @ r) a (w\<lparr>w_rand := rs, w_disk := Some (st'\<lparr>st_Version := 1\<rparr>)\<rparr>)"
proof -
  have rr: "loadRoundRobinState M w = (Inr lastID, w)"
    using assms(1,2) cl(2) by (simp add: loadRoundRobinState_def Ensure_eval bindE_def stepE_def getsE_def
        returnE_def split: option.splits)
  have g: "generateLeaseID w = (Inr (''lease_'' @ r), w\<lparr>w_rand := rs\<rparr>)"
    using assms(3) by (simp add: generateLeaseID_def bindE_def randE_def returnE_def)
  have s: "Save M st' (w\<lparr>w_rand := rs\<rparr>) =
      (Inr (), w\<lparr>w_rand := rs, w_disk := Some (st'\<lparr>st_Version := 1\<rparr>)\<rparr>)"
    using Save_eval [of M "w\<lparr>w_rand := rs\<rparr>" st'] assms(1,2) by simp
  show ?thesis
    unfolding claim_locked_def Let_def
    by (simp add: Load_eval assms(1,2) nowE_def getsE_def bindE_def [of "\<lambda>w. (Inr _, w)"] st [symmetric]
        av(1) [symmetric] av(2) rr g cl(1) s del: append_Cons)
qed


lemma find_distinct_key:
  "x \<in> set xs \<Longrightarrow> distinct (map f xs) \<Longrightarrow> k = f x \<Longrightarrow> find (\<lambda>y. f y = k) xs = Some x"
  by (induction xs) (auto simp: image_iff)

lemma claim_possible:
  assumes m: "\<not> postgres_mode M" and w: "calm w" "w_rand w = r # rs" "ids_distinct (stored w)"
    and fresh: "\<forall>a \<in> set (st_Accounts (stored w)). \<not> lease_expired a (w_now w)"
    and a: "a \<in> set (st_Accounts (stored w))" "trim_space ws = [] \<or> workspaceOrDefault (acc_WorkspaceID a) = trim_space ws"
      "may_lease (acc_OwnerMode a) (acc_Status a) (accountAuthPresent w a) (accountLeaseActive a (w_now w))
        (quota_of (stored w) (acc_ID a)) (w_now w)"
  shows "\<exists>s w'. ClaimLease M cid holder ws ttl w = (Inr s, w')"
proof -
  define st where "st = stored w"
  define v where "v = w\<lparr>w_mu := True, w_flock := True\<rparr>"
  have v: "w_faults v = []" "w_rand v = r # rs" "stored v = st" "w_now v = w_now w" "w_rr v = w_rr w"
      "w_files v = w_files w" using w by (simp_all add: v_def st_def calm_def)
  have sw: "sweep (stored v) (w_now v) = st" using expire_settled [OF fresh] v by (simp add: sweep_def st_def)
  let ?cs = "claim_candidates (accountAuthPresent v) st (trim_space ws) (w_now v)"
  let ?lastID = "case w_rr v of None \<Rightarrow> [] | Some k \<Rightarrow> k"
  have auth: "accountAuthPresent v = accountAuthPresent w"
    by (simp add: fun_eq_iff accountAuthPresent_def stat_file_def v)
  obtain j where "j < length (st_Accounts st)" "a = st_Accounts st ! j"
    using a(1) by (auto simp: st_def in_set_conv_nth)
  then have ne: "rank cand_score cand_key ?cs \<noteq> []"
    using claim_candidates_complete [of j st a "trim_space ws" "accountAuthPresent v" "w_now v"] a(2,3) auth v
    by (simp add: rank_def st_def)
  obtain i b sc where sel: "rr_select cand_score cand_key ?lastID (rank cand_score cand_key ?cs) = (i, b, sc)"
    by (rule prod_cases3)
  have mem: "(i, b, sc) \<in> set ?cs" using claim_selected [OF ne, of ?lastID] sel by simp
  obtain st' c where cl: "claim_state i (''lease_'' @ r) cid holder ttl (w_now v) st = (st', c)" by fastforce
  note cc = claim_candidates_mem [OF mem]
  have c: "c = claim_account (''lease_'' @ r) cid holder ttl (w_now v) b"
    and st': "st_Accounts st' = (st_Accounts st)[i := c]"
    using cl cc by (auto simp: claim_state_def Let_def set_account_def)
  let ?u = "v\<lparr>w_rand := rs, w_disk := Some (st'\<lparr>st_Version := 1\<rparr>)\<rparr>"
  have ids: "map acc_ID (st_Accounts (stored ?u)) = map acc_ID (st_Accounts st)"
    using cc by (simp add: st' comp_def c claim_account_def map_update list_update_same_conv)
  have "normalize_account c \<in> set (st_Accounts (stored ?u))" using cc by (simp add: st' set_update_memI)
  moreover have "distinct (map acc_ID (st_Accounts (stored ?u)))"
    using w(3) by (simp only: ids) (simp add: ids_distinct_def accountIDs_def st_def)
  ultimately have find: "find (\<lambda>x. acc_ID x = acc_ID c) (st_Accounts (stored ?u)) = Some (normalize_account c)"
    by (intro find_distinct_key) simp_all
  from cc have "accountAuthPresent v b" unfolding may_lease_def by blast
  then obtain d t where df: "map_of (w_files ?u) (auth_path (acc_CodexHome (normalize_account c))) = Some (d, t)"
    by (auto simp: accountAuthPresent_def stat_file_def c claim_account_def)
  from finish_claim_eval [OF m _ find df] v(1)
  obtain s where "finish_claim M (''lease_'' @ r) c ?u = (Inr s, ?u\<lparr>w_rr := Some (acc_ID c)\<rparr>)" by auto
  moreover have "claim_locked M cid holder ws ttl v = finish_claim M (''lease_'' @ r) c ?u"
    by (rule claim_locked_eval [OF m v(1,2) sw [symmetric] refl ne _ refl]) (simp only: sel fst_conv cl)
  ultimately have "claim_locked M cid holder ws ttl v = (Inr s, ?u\<lparr>w_rr := Some (acc_ID c)\<rparr>)" by simp
  from locked_eval [where M = M and m = "claim_locked M cid holder ws ttl", OF w(1) v_def this] Recover_settled [OF m w(1) fresh]
  show ?thesis by (auto simp: ClaimLease_def)
qed

section \<open>Releasing, and sweeping without recovering\<close>

lemma release_gives:
  assumes m: "\<not> postgres_mode M"
  shows "gives_op T (\<lambda>s. s = st) (ReleaseLease M k lid cid)
    (\<lambda>_ s. \<exists>i a. findLeaseAccount (sweep st T) k lid = Inr (i, a) \<and> validateLease a lid cid T = None
       \<and> s = normalizeState T ((release_state i a T (sweep st T))\<lparr>st_Version := 1\<rparr>))"
  unfolding ReleaseLease_def Let_def
  by (intro file_store.gives_intros file_store.gives_then_throw file_store.gives_save m) auto

text \<open>An expired lease that another operation sweeps is not recovered.\<close>

lemma touch_missing_eval:
  assumes "\<not> postgres_mode M" "calm w" "findLeaseAccount (sweep (stored w) (w_now w)) k lid = Inl e"
  shows "TouchLease M lid k cid holder ttl w =
     (Inl e, w\<lparr>w_disk := Some ((sweep (stored w) (w_now w))\<lparr>st_Version := 1\<rparr>)\<rparr>)"
proof -
  define v where v: "v = w\<lparr>w_mu := True, w_flock := True\<rparr>"
  define body where "body = bindE (Load M) (\<lambda>st. bindE nowE (\<lambda>now.
     let st = sweep st now in
     case findLeaseAccount st k lid of
       Inl e \<Rightarrow> save_then_fail M st e
     | Inr (i, a) \<Rightarrow>
         (case validateLease a lid cid now of
            Some e \<Rightarrow> save_then_fail M st e
          | None \<Rightarrow>
              let a = touch_account holder ttl now a in
              bindE (Save M (set_account i a st)) (\<lambda>_. returnE (leaseFromAccount a)))))"
  have "Load M v = (Inr (stored w), v)"
    using assms(1,2) Load_eval [of M v] by (simp add: calm_def v)
  moreover have "nowE v = (Inr (w_now w), v)" by (simp add: nowE_def getsE_def v)
  ultimately have "body v = save_then_fail M (sweep (stored w) (w_now w)) e v"
    by (simp add: body_def Let_def assms(3))
  also have "\<dots> = (Inl e, v\<lparr>w_disk := Some ((sweep (stored w) (w_now w))\<lparr>st_Version := 1\<rparr>)\<rparr>)"
    using assms(1,2) Save_eval [of M v] by (simp add: save_then_fail_def ignoreE_def bindE_def throwE_def v calm_def)
  finally have b: "body v = (Inl e, v\<lparr>w_disk := Some ((sweep (stored w) (w_now w))\<lparr>st_Version := 1\<rparr>)\<rparr>)" .
  from locked_eval [where m = body and M = M, OF assms(2) v b] assms(2) show ?thesis
    unfolding TouchLease_def body_def [symmetric] by (simp add: v calm_def)
qed

lemma lost_recovery:
  assumes m: "\<not> postgres_mode M" and w: "calm w" "findLeaseAccount (sweep (stored w) (w_now w)) k lid = Inl e"
    and a: "a \<in> set (st_Accounts (stored w))" "lease_expired a (w_now w)" "acc_Status a = StatusReady"
    and v: "v = snd (TouchLease M lid k cid holder ttl w)"
  shows "(\<exists>b \<in> set (st_Accounts (stored v)). acc_ID b = acc_ID a \<and> acc_Status b = StatusRecovering)
     \<and> RecoverExpiredLeases M v = (Inr (), v)"
proof -
  let ?st = "sweep (stored w) (w_now w)"
  have v': "v = w\<lparr>w_disk := Some (?st\<lparr>st_Version := 1\<rparr>)\<rparr>"
    using touch_missing_eval [OF m w] by (simp add: v)
  have as: "st_Accounts (stored v) = map normalize_account (st_Accounts ?st)" by (simp add: v')
  have ne: "\<not> lease_expired c (w_now w)" if "c \<in> set (st_Accounts (stored v))" for c
  proof -
    from that as have "c \<in> normalize_account ` set (st_Accounts ?st)" by simp
    then obtain x where x: "x \<in> set (st_Accounts ?st)" "c = normalize_account x" by auto
    with sweep_settled [OF x(1)] show ?thesis by (simp add: lease_expired_def)
  qed
  have "expire_account a (w_now w) \<in> set (st_Accounts ?st)" using a(1,2) by (force simp: sweep_accounts)
  then have "normalize_account (expire_account a (w_now w)) \<in> set (st_Accounts (stored v))" by (simp add: as)
  moreover have "acc_Status (normalize_account (expire_account a (w_now w))) = StatusRecovering"
    using a(3) by (simp add: normalize_account_def Let_def expire_account_status)
  moreover have "calm v" "w_now v = w_now w" using w(1) by (simp_all add: v' calm_def)
  then have "RecoverExpiredLeases M v = (Inr (), v)" using Recover_settled [OF m, of v] ne by simp
  ultimately show ?thesis by (intro conjI bexI [of _ "normalize_account (expire_account a (w_now w))"]) simp_all
qed

lemma claim_result:
  assumes "\<not> postgres_mode M" "0 \<le> w_now w" "ClaimLease M cid holder ws ttl w = (Inr s, w')"
  shows "claimed cid (trim_space ws) ttl (w_now w) s (stored w')
     \<and> w_now w + 30 * second \<le> lse_ExpiresAt (ls_Lease s)
     \<and> lse_ExpiresAt (ls_Lease s) \<le> w_now w + 30 * minute"
  using file_store.givesD [OF claim_claimed [OF assms(1,2)] refl TrueI assms(3)]
    normalizeLeaseTTL_bounds [of ttl] by (simp add: claimed_def)

lemma release_result:
  assumes "\<not> postgres_mode M" "ReleaseLease M k lid cid w = (Inr (), w')"
  shows "\<exists>a \<in> set (st_Accounts (stored w)). acc_LeaseID a = trim_space lid \<and> accountLeaseActive a (w_now w)
     \<and> (trim_space cid = [] \<or> acc_LeaseClientID a = [] \<or> acc_LeaseClientID a = trim_space cid)
     \<and> (\<exists>b \<in> set (st_Accounts (stored w')). acc_ID b = acc_ID a \<and> acc_LeaseID b = []
          \<and> \<not> accountLeaseActive b (w_now w))"
proof -
  let ?st = "sweep (stored w) (w_now w)"
  obtain i a where f: "findLeaseAccount ?st k lid = Inr (i, a)" "validateLease a lid cid (w_now w) = None"
    and s: "stored w' = normalizeState (w_now w) ((release_state i a (w_now w) ?st)\<lparr>st_Version := 1\<rparr>)"
    using file_store.givesD [OF release_gives [OF assms(1)] refl refl assms(2)] by blast
  from findLeaseAccount_Inr [OF f(1)] have i: "i < length (st_Accounts ?st)" "a = st_Accounts ?st ! i" by auto
  from f(2) have a: "trim_space lid \<noteq> []" "acc_LeaseID a = trim_space lid" "accountLeaseActive a (w_now w)"
      "trim_space cid = [] \<or> acc_LeaseClientID a = [] \<or> acc_LeaseClientID a = trim_space cid"
    by (auto simp: validateLease_None)
  have "a \<in> set (st_Accounts ?st)" using i by simp
  with a(1,2) have mem: "a \<in> set (st_Accounts (stored w))" by (auto simp: sweep_accounts split: if_splits)
  let ?b = "(clearAccountLease a)\<lparr>acc_UpdatedAt := w_now w\<rparr>"
  have "normalize_account ?b \<in> set (st_Accounts (stored w'))"
    using i by (simp add: s release_state_def Let_def set_account_def set_update_memI)
  moreover have "acc_ID (normalize_account ?b) = acc_ID a" "acc_LeaseID (normalize_account ?b) = []"
    "\<not> accountLeaseActive (normalize_account ?b) (w_now w)"
    by (simp_all add: accountLeaseActive_def clearAccountLease_def)
  ultimately show ?thesis using mem a(2-4) by blast
qed

lemma release_eval:
  assumes "\<not> postgres_mode M" "calm w" "findLeaseAccount (sweep (stored w) (w_now w)) k lid = Inr (i, a)"
    and "validateLease a lid cid (w_now w) = None"
  shows "ReleaseLease M k lid cid w =
     (Inr (), w\<lparr>w_disk := Some ((release_state i a (w_now w) (sweep (stored w) (w_now w)))\<lparr>st_Version := 1\<rparr>)\<rparr>)"
proof -
  define v where v: "v = w\<lparr>w_mu := True, w_flock := True\<rparr>"
  define body where "body = bindE (Load M) (\<lambda>st. bindE nowE (\<lambda>now.
     let st = sweep st now in
     case findLeaseAccount st k lid of
       Inl e \<Rightarrow> bindE (Save M st) (\<lambda>_. throwE (ErrLeaseNotFound (error_text e)))
     | Inr (i, a) \<Rightarrow>
         (case validateLease a lid cid now of
            Some e \<Rightarrow> throwE e
          | None \<Rightarrow> Save M (release_state i a now st))))"
  have "Load M v = (Inr (stored w), v)"
    using assms(1,2) Load_eval [of M v] by (simp add: calm_def v)
  moreover have "nowE v = (Inr (w_now w), v)" by (simp add: nowE_def getsE_def v)
  ultimately have "body v = Save M (release_state i a (w_now w) (sweep (stored w) (w_now w))) v"
    by (simp add: body_def Let_def assms(3,4))
  with assms(1,2) have b: "body v = (Inr (), v\<lparr>w_disk :=
      Some ((release_state i a (w_now w) (sweep (stored w) (w_now w)))\<lparr>st_Version := 1\<rparr>)\<rparr>)"
    by (simp add: Save_eval v calm_def)
  from locked_eval [where m = body and M = M, OF assms(2) v b] assms(2) show ?thesis
    unfolding ReleaseLease_def body_def [symmetric] by (simp add: v calm_def)
qed

end
