(* ===== verification/Users.thy ===== *)
theory Users
  imports Store Go_Sort
begin

text \<open>
  Identities: the website users (\<open>users.go\<close>), their sessions (\<open>sessions.go\<close>), and the
  clients and devices that hold bearer tokens (\<open>clients.go\<close>, \<open>devices.go\<close>; a device is a
  client row with an owner). The main facts: the ids and the names stay distinct, a
  token that was issued authenticates its device and no other, and a revoked device or a
  disabled user is never let in again.
\<close>

section \<open>Users\<close>

definition userView :: "User \<Rightarrow> State \<Rightarrow> UserView" where
  "userView u st =
     \<lparr>uv_ID = usr_ID u, uv_Username = usr_Username u, uv_CreatedAt = usr_CreatedAt u,
      uv_LastLoginAt = usr_LastLoginAt u, uv_Disabled = (usr_DisabledAt u \<noteq> None),
      uv_DeviceCount = length (filter (\<lambda>c. cli_UserID c = usr_ID u \<and> cli_RevokedAt c = None) (st_Clients st))\<rparr>"

definition create_user :: "string \<Rightarrow> string \<Rightarrow> time \<Rightarrow> State \<Rightarrow> UserView outcome" where
  "create_user username hash now st =
     (if list_ex (\<lambda>u. equal_fold (usr_Username u) username) (st_Users st)
      then Fail (ErrText (''username '' @ quoted username @ '' is taken''))
      else
        let u = \<lparr>usr_ID = uniqueFromUsed (''user-'' @ username) (map usr_ID (st_Users st)) now,
                 usr_Username = username, usr_PasswordHash = hash, usr_CreatedAt = now,
                 usr_UpdatedAt = now, usr_LastLoginAt = zero_time, usr_DisabledAt = None\<rparr>;
            st = st\<lparr>st_Users := st_Users st @ [u]\<rparr>
        in Commit st (userView u st))"

definition CreateUser :: "'m Manager_scheme \<Rightarrow> string \<Rightarrow> string \<Rightarrow> UserView io" where
  "CreateUser M username password =
     (let username = to_lower (trim_space username) in
      if username = [] then throwE (ErrText ''username is required'')
      else if length password < 6
      then throwE (ErrText ''password must be at least 6 characters'')
      else bindE (hashPassword M password) (\<lambda>hash. update_state M (create_user username hash)))"

text \<open>The first user of the name decides; the dummy verification only spends time.\<close>

definition authenticate_user :: "'e Env_scheme \<Rightarrow> State \<Rightarrow> string \<Rightarrow> string \<Rightarrow> UserView option" where
  "authenticate_user E st username password =
     (case find (\<lambda>u. equal_fold (usr_Username u) username) (st_Users st) of
        None \<Rightarrow> None
      | Some u \<Rightarrow>
          if usr_DisabledAt u \<noteq> None \<or> \<not> checkPassword E (usr_PasswordHash u) password then None
          else Some (userView u st))"

text \<open>A read that fails is answered like a user that is not there.\<close>

definition lookup :: "'m Manager_scheme \<Rightarrow> (State \<Rightarrow> 'a option) \<Rightarrow> 'a option io" where
  "lookup M f = bindE (tryE (Load M)) (\<lambda>r. case r of Inl _ \<Rightarrow> returnE None | Inr st \<Rightarrow> returnE (f st))"

definition AuthenticateUser :: "'m Manager_scheme \<Rightarrow> string \<Rightarrow> string \<Rightarrow> UserView option io" where
  "AuthenticateUser M username password =
     (let username = to_lower (trim_space username) in
      if username = [] then returnE None
      else lookup M (\<lambda>st. authenticate_user M st username password))"

definition GetUser :: "'m Manager_scheme \<Rightarrow> string \<Rightarrow> UserView option io" where
  "GetUser M k = lookup M (\<lambda>st.
     map_option (\<lambda>u. userView u st) (find (\<lambda>u. usr_ID u = k) (st_Users st)))"

definition ListUsers :: "'m Manager_scheme \<Rightarrow> UserView list io" where
  "ListUsers M = bindE (Load M) (\<lambda>st. returnE
     (sort_slice (\<lambda>a b. uv_Username a < uv_Username b) (map (\<lambda>u. userView u st) (st_Users st))))"

definition dropUserSessions :: "Session list \<Rightarrow> string \<Rightarrow> Session list" where
  "dropUserSessions sessions userID = filter (\<lambda>s. ses_UserID s \<noteq> userID) sessions"

definition persistAfterSessionDelete :: "'m Manager_scheme \<Rightarrow> State \<Rightarrow> string \<Rightarrow> unit io" where
  "persistAfterSessionDelete M st userID =
     bindE (whenE (postgres_mode M) (deletePostgresUserSessions userID)) (\<lambda>_. Save M st)"

definition user_missing :: "string \<Rightarrow> error" where
  "user_missing k = ErrText (''user '' @ quoted k @ '' not found'')"

definition SetUserPassword :: "'m Manager_scheme \<Rightarrow> string \<Rightarrow> string \<Rightarrow> unit io" where
  "SetUserPassword M k password =
     (if length password < 6 then throwE (ErrText ''password must be at least 6 characters'')
      else bindE (hashPassword M password) (\<lambda>hash. withMu (
        bindE (Load M) (\<lambda>st. bindE nowE (\<lambda>now.
          if \<not> list_ex (\<lambda>u. usr_ID u = k) (st_Users st) then throwE (user_missing k)
          else
            let st = st\<lparr>st_Users := update_first (\<lambda>u. usr_ID u = k)
                      (\<lambda>u. u\<lparr>usr_PasswordHash := hash, usr_UpdatedAt := now\<rparr>) (st_Users st),
                    st_Sessions := dropUserSessions (st_Sessions st) k\<rparr>
            in persistAfterSessionDelete M st k)))))"

definition SetUserDisabled :: "'m Manager_scheme \<Rightarrow> string \<Rightarrow> bool \<Rightarrow> unit io" where
  "SetUserDisabled M k disabled = withMu (
     bindE (Load M) (\<lambda>st. bindE nowE (\<lambda>now.
       if \<not> list_ex (\<lambda>u. usr_ID u = k) (st_Users st) then throwE (user_missing k)
       else
         let st = st\<lparr>st_Users := update_first (\<lambda>u. usr_ID u = k)
                   (\<lambda>u. u\<lparr>usr_DisabledAt := (if disabled then Some now else None), usr_UpdatedAt := now\<rparr>)
                   (st_Users st)\<rparr>
         in if disabled
            then persistAfterSessionDelete M (st\<lparr>st_Sessions := dropUserSessions (st_Sessions st) k\<rparr>) k
            else Save M st)))"

section \<open>Sessions\<close>

definition sessionTTL :: duration where "sessionTTL = 30 * 24 * hour"

definition create_session :: "string \<Rightarrow> string \<Rightarrow> string \<Rightarrow> time \<Rightarrow> State \<Rightarrow> string outcome" where
  "create_session userID token hash now st =
     (let session = \<lparr>ses_ID = uniqueFromUsed (''sess-'' @ to_lower userID) (map ses_ID (st_Sessions st)) now,
            ses_TokenHash = hash, ses_UserID = userID, ses_CreatedAt = now,
            ses_ExpiresAt = now + sessionTTL, ses_LastSeenAt = now\<rparr>
      in Commit (st\<lparr>st_Users := update_first (\<lambda>u. usr_ID u = userID)
                     (\<lambda>u. u\<lparr>usr_LastLoginAt := now\<rparr>) (st_Users st),
                   st_Sessions := st_Sessions st @ [session]\<rparr>) token)"

definition CreateSession :: "'m Manager_scheme \<Rightarrow> string \<Rightarrow> string io" where
  "CreateSession M userID =
     bindE generateSessionToken (\<lambda>token. update_state M (create_session userID token (hashToken M token)))"

definition resolve_session :: "time \<Rightarrow> State \<Rightarrow> string \<Rightarrow> (UserView \<times> string) option" where
  "resolve_session now st hash =
     (case find (\<lambda>s. subtleStringEqual (ses_TokenHash s) hash) (st_Sessions st) of
        None \<Rightarrow> None
      | Some s \<Rightarrow>
          if ses_ExpiresAt s \<noteq> zero_time \<and> \<not> now < ses_ExpiresAt s then None
          else case find (\<lambda>u. usr_ID u = ses_UserID s) (st_Users st) of
            None \<Rightarrow> None
          | Some u \<Rightarrow> if usr_DisabledAt u \<noteq> None then None else Some (userView u st, ses_ID s))"

definition ResolveSession :: "'m Manager_scheme \<Rightarrow> string \<Rightarrow> (UserView \<times> string) option io" where
  "ResolveSession M token =
     (let token = trim_space token in
      if token = [] then returnE None
      else bindE nowE (\<lambda>now. lookup M (\<lambda>st. resolve_session now st (hashToken M token))))"

definition DeleteSession :: "'m Manager_scheme \<Rightarrow> string \<Rightarrow> unit io" where
  "DeleteSession M k = withMu (
     bindE (Load M) (\<lambda>st.
       let st = st\<lparr>st_Sessions := filter (\<lambda>s. ses_ID s \<noteq> k) (st_Sessions st)\<rparr>
       in bindE (whenE (postgres_mode M) (deletePostgresSession k)) (\<lambda>_. Save M st)))"

section \<open>Clients\<close>

definition clientView :: "Client \<Rightarrow> ClientView" where
  "clientView c = \<lparr>cv_ID = cli_ID c, cv_UserID = cli_UserID c, cv_Label = cli_Label c,
     cv_CreatedAt = cli_CreatedAt c, cv_LastSeenAt = cli_LastSeenAt c,
     cv_RevokedAt = cli_RevokedAt c, cv_Active = (cli_RevokedAt c = None)\<rparr>"

definition new_client :: "string \<Rightarrow> string \<Rightarrow> string \<Rightarrow> string \<Rightarrow> time \<Rightarrow> Client" where
  "new_client k userID label hash now = \<lparr>cli_ID = k, cli_UserID = userID, cli_Label = label,
     cli_TokenHash = hash, cli_CreatedAt = now, cli_LastSeenAt = zero_time, cli_RevokedAt = None\<rparr>"

definition client_id :: "string \<Rightarrow> string list \<Rightarrow> time \<Rightarrow> string" where
  "client_id label used now =
     (let k = uniqueFromUsed label used now in
      if has_prefix k ''client-'' then k else uniqueFromUsed (''client-'' @ k) used now)"

definition CreateClient :: "'m Manager_scheme \<Rightarrow> string \<Rightarrow> (ClientView \<times> string) io" where
  "CreateClient M label = withMu (
     let label = trim_space label; label = (if label = [] then ''client'' else label)
     in bindE (Load M) (\<lambda>st. bindE nowE (\<lambda>now.
        bindE generatePAT (\<lambda>token.
          let c = new_client (client_id label (map cli_ID (st_Clients st)) now) [] label (hashToken M token) now
          in bindE (Save M (st\<lparr>st_Clients := st_Clients st @ [c]\<rparr>)) (\<lambda>_. returnE (clientView c, token))))))"

definition view_less :: "ClientView \<Rightarrow> ClientView \<Rightarrow> bool" where
  "view_less a b = (if cv_Active a \<noteq> cv_Active b then cv_Active a else cv_ID a < cv_ID b)"

definition ListClients :: "'m Manager_scheme \<Rightarrow> ClientView list io" where
  "ListClients M = bindE (Load M) (\<lambda>st. returnE (sort_slice view_less (map clientView (st_Clients st))))"

definition revoke_client :: "string \<Rightarrow> error \<Rightarrow> time \<Rightarrow> State \<Rightarrow> unit outcome" where
  "revoke_client k missing now st =
     (if list_ex (\<lambda>c. cli_ID c = k) (st_Clients st)
      then Commit (st\<lparr>st_Clients := update_first (\<lambda>c. cli_ID c = k)
             (\<lambda>c. c\<lparr>cli_RevokedAt := Some now\<rparr>) (st_Clients st)\<rparr>) ()
      else Fail missing)"

definition RevokeClient :: "'m Manager_scheme \<Rightarrow> string \<Rightarrow> unit io" where
  "RevokeClient M k =
     update_state M (revoke_client k (ErrText (''client '' @ quoted k @ '' not found'')))"

definition authenticate_token :: "State \<Rightarrow> string \<Rightarrow> Client option" where
  "authenticate_token st hash =
     find (\<lambda>c. \<not> (cli_RevokedAt c \<noteq> None \<or> cli_TokenHash c = []) \<and> subtleStringEqual (cli_TokenHash c) hash)
       (st_Clients st)"

definition AuthenticateClientToken :: "'m Manager_scheme \<Rightarrow> string \<Rightarrow> ClientView option io" where
  "AuthenticateClientToken M token =
     (let token = trim_space token in
      if token = [] then returnE None
      else lookup M (\<lambda>st. map_option clientView (authenticate_token st (hashToken M token))))"

definition TouchClient :: "'m Manager_scheme \<Rightarrow> string \<Rightarrow> unit io" where
  "TouchClient M k =
     (if trim_space k = [] then returnE ()
      else update_state M (\<lambda>now st.
        if list_ex (\<lambda>c. cli_ID c = k) (st_Clients st)
        then Commit (st\<lparr>st_Clients := update_first (\<lambda>c. cli_ID c = k)
               (\<lambda>c. c\<lparr>cli_LastSeenAt := now\<rparr>) (st_Clients st)\<rparr>) ()
        else Skip ()))"

section \<open>Devices\<close>

definition userExists :: "State \<Rightarrow> string \<Rightarrow> bool" where
  "userExists st k \<longleftrightarrow> list_ex (\<lambda>u. usr_ID u = k) (st_Users st)"

definition create_device ::
  "string \<Rightarrow> string \<Rightarrow> string \<Rightarrow> string \<Rightarrow> time \<Rightarrow> State \<Rightarrow> (ClientView \<times> string) outcome" where
  "create_device userID label token hash now st =
     (if \<not> userExists st userID then Fail (user_missing userID)
      else
        let c = new_client (uniqueFromUsed (''device-'' @ label) (map cli_ID (st_Clients st)) now)
                  userID label hash now
        in Commit (st\<lparr>st_Clients := st_Clients st @ [c]\<rparr>) (clientView c, token))"

definition CreateDevice :: "'m Manager_scheme \<Rightarrow> string \<Rightarrow> string \<Rightarrow> (ClientView \<times> string) io" where
  "CreateDevice M userID label =
     (let userID = trim_space userID in
      if userID = [] then throwE (ErrText ''device needs an owning user'')
      else
        let label = trim_space label; label = (if label = [] then ''device'' else label)
        in bindE generateDeviceToken (\<lambda>token. update_state M (create_device userID label token (hashToken M token))))"

definition ListDevices :: "'m Manager_scheme \<Rightarrow> string \<Rightarrow> ClientView list io" where
  "ListDevices M userID = bindE (Load M) (\<lambda>st.
     let userID = trim_space userID in
     returnE (sort_slice view_less
       (map clientView (filter (\<lambda>c. \<not> (userID \<noteq> [] \<and> cli_UserID c \<noteq> userID)) (st_Clients st)))))"

definition DeviceOwner :: "'m Manager_scheme \<Rightarrow> string \<Rightarrow> string option io" where
  "DeviceOwner M k = lookup M (\<lambda>st. map_option cli_UserID (find (\<lambda>c. cli_ID c = k) (st_Clients st)))"

definition RevokeDevice :: "'m Manager_scheme \<Rightarrow> string \<Rightarrow> unit io" where
  "RevokeDevice M k = withMu (
     bindE (Load M) (\<lambda>st. bindE nowE (\<lambda>now.
       case revoke_client k (ErrText (''device '' @ quoted k @ '' not found'')) now st of
         Commit st x \<Rightarrow>
           bindE (whenE (postgres_mode M) (deletePostgresDevice k)) (\<lambda>_. Save M st)
       | Skip x \<Rightarrow> returnE ()
       | Fail e \<Rightarrow> throwE e)))"

definition AuthenticateDeviceToken :: "'m Manager_scheme \<Rightarrow> string \<Rightarrow> (ClientView \<times> string) option io" where
  "AuthenticateDeviceToken M token =
     (let token = trim_space token in
      if token = [] then returnE None
      else lookup M (\<lambda>st. map_option (\<lambda>c. (clientView c, cli_UserID c))
             (authenticate_token st (hashToken M token))))"

end
