(* ===== verification/Workspaces.thy ===== *)
theory Workspaces
  imports Users Accounts
begin

text \<open>
  Workspaces, the isolated account pools, and who belongs to them (\<open>workspace.go\<close>).
\<close>

definition workspace_id :: "string \<Rightarrow> string list \<Rightarrow> time \<Rightarrow> string" where
  "workspace_id name used now =
     (let k = uniqueFromUsed name used now in
      if has_prefix k ''ws-'' then k else uniqueFromUsed (''ws-'' @ k) used now)"

definition create_workspace :: "string \<Rightarrow> string \<Rightarrow> time \<Rightarrow> State \<Rightarrow> Workspace outcome" where
  "create_workspace name createdBy now st =
     (let x = \<lparr>ws_ID = workspace_id name (map ws_ID (st_Workspaces st)) now, ws_Name = name,
            ws_CreatedBy = trim_space createdBy, ws_CreatedAt = now, ws_UpdatedAt = now\<rparr>
      in Commit (st\<lparr>st_Workspaces := st_Workspaces st @ [x]\<rparr>) x)"

definition CreateWorkspace :: "'m Manager_scheme \<Rightarrow> string \<Rightarrow> string \<Rightarrow> Workspace io" where
  "CreateWorkspace M name createdBy =
     (let name = trim_space name in
      if name = [] then withMu (throwE (ErrText ''workspace name is required''))
      else update_state M (create_workspace name createdBy))"

definition ListWorkspaces :: "'m Manager_scheme \<Rightarrow> Workspace list io" where
  "ListWorkspaces M = bindE (Load M) (\<lambda>st.
     returnE (sort_slice (\<lambda>a b. ws_ID a < ws_ID b) (st_Workspaces st)))"

definition membershipMatches :: "Membership \<Rightarrow> string \<Rightarrow> bool" where
  "membershipMatches m who \<longleftrightarrow>
     (if who = [] then False else ms_UserID m = who \<or> ms_ClientID m = who)"

record WorkspaceMembershipView = Workspace +
  wmv_Role :: WorkspaceRole

text \<open>\<open>who\<close> is the principal: a user id or a client id. The map \<open>roleByWS\<close>: a later membership of a workspace replaces an earlier one.\<close>

definition roles_of :: "Membership list \<Rightarrow> string \<Rightarrow> (string \<times> WorkspaceRole) list" where
  "roles_of mss who =
     fold (\<lambda>m rs. if membershipMatches m who then AList.update (ms_WorkspaceID m) (ms_Role m) rs else rs) mss []"

definition workspace_views :: "State \<Rightarrow> string \<Rightarrow> WorkspaceMembershipView list" where
  "workspace_views st who =
     (let roleByWS = roles_of (st_Memberships st) who in
      sort_slice (\<lambda>a b. ws_ID a < ws_ID b)
        (concat (map (\<lambda>x. case map_of roleByWS (ws_ID x) of
             None \<Rightarrow> []
           | Some role \<Rightarrow> [Workspace.extend x \<lparr>wmv_Role = role\<rparr>]) (st_Workspaces st))))"

definition ListWorkspacesForClient :: "'m Manager_scheme \<Rightarrow> string \<Rightarrow> WorkspaceMembershipView list io" where
  "ListWorkspacesForClient M clientID = bindE (Load M) (\<lambda>st. returnE (workspace_views st clientID))"

definition clientExists :: "State \<Rightarrow> string \<Rightarrow> bool" where
  "clientExists st k \<longleftrightarrow> list_ex (\<lambda>c. cli_ID c = k) (st_Clients st)"

definition set_membership :: "string \<Rightarrow> string \<Rightarrow> WorkspaceRole \<Rightarrow> time \<Rightarrow> State \<Rightarrow> unit outcome" where
  "set_membership workspaceID who role now st =
     (if \<not> workspaceExists st workspaceID
      then Fail (ErrText (''workspace '' @ quoted workspaceID @ '' not found''))
      else let isUser = userExists st who in
        if \<not> isUser \<and> \<not> clientExists st who
        then Fail (ErrText (''principal '' @ quoted who @ '' not found''))
        else let matches = (\<lambda>m. ms_WorkspaceID m = workspaceID \<and> membershipMatches m who) in
          if list_ex matches (st_Memberships st)
          then Commit (st\<lparr>st_Memberships := update_first matches
                 (\<lambda>m. m\<lparr>ms_Role := role,
                        ms_UserID := (if isUser \<and> ms_UserID m = [] then who else ms_UserID m)\<rparr>)
                 (st_Memberships st)\<rparr>) ()
          else Commit (st\<lparr>st_Memberships := st_Memberships st @
                 [\<lparr>ms_WorkspaceID = workspaceID, ms_UserID = (if isUser then who else []),
                   ms_ClientID = (if isUser then [] else who), ms_Role = role, ms_CreatedAt = now\<rparr>]\<rparr>) ())"

definition SetMembership :: "'m Manager_scheme \<Rightarrow> string \<Rightarrow> string \<Rightarrow> WorkspaceRole \<Rightarrow> unit io" where
  "SetMembership M workspaceID who role =
     (let workspaceID = trim_space workspaceID; who = trim_space who in
      if workspaceID = [] \<or> who = []
      then withMu (throwE (ErrText ''workspace id and principal id are required''))
      else if \<not> validWorkspaceRole role
      then withMu (throwE (ErrText ''role must be admin or member''))
      else update_state M (set_membership workspaceID who role))"

text \<open>\<open>removedKey\<close> is the key of the last membership removed.\<close>

definition removed_key :: "Membership \<Rightarrow> string" where
  "removed_key m = (if ms_ClientID m = [] then ms_UserID m else ms_ClientID m)"

definition RemoveMembership :: "'m Manager_scheme \<Rightarrow> string \<Rightarrow> string \<Rightarrow> unit io" where
  "RemoveMembership M workspaceID who = withMu (
     bindE (Load M) (\<lambda>st.
       let matches = (\<lambda>m. ms_WorkspaceID m = workspaceID \<and> membershipMatches m who);
           gone = filter matches (st_Memberships st)
       in if gone = []
          then throwE (ErrText (quoted who @ '' is not a member of workspace '' @ quoted workspaceID))
          else if postgres_mode M
          then deletePostgresMembership workspaceID (removed_key (last gone))
          else Save M (st\<lparr>st_Memberships := filter (\<lambda>m. \<not> matches m) (st_Memberships st)\<rparr>)))"

definition ListMemberships :: "'m Manager_scheme \<Rightarrow> string \<Rightarrow> Membership list io" where
  "ListMemberships M workspaceID = bindE (Load M) (\<lambda>st.
     returnE (sort_slice (\<lambda>a b. ms_ClientID a < ms_ClientID b)
       (filter (\<lambda>m. ms_WorkspaceID m = workspaceID) (st_Memberships st))))"

definition role_in :: "State \<Rightarrow> string \<Rightarrow> string \<Rightarrow> WorkspaceRole option" where
  "role_in st workspaceID who =
     map_option ms_Role (find (\<lambda>m. ms_WorkspaceID m = workspaceID \<and> membershipMatches m who)
       (st_Memberships st))"

definition MembershipRole :: "'m Manager_scheme \<Rightarrow> string \<Rightarrow> string \<Rightarrow> WorkspaceRole option io" where
  "MembershipRole M workspaceID who = lookup M (\<lambda>st. role_in st workspaceID who)"

definition account_pool :: "State \<Rightarrow> string \<Rightarrow> string option" where
  "account_pool st k =
     map_option (\<lambda>a. workspaceOrDefault (acc_WorkspaceID a)) (find (\<lambda>a. acc_ID a = k) (st_Accounts st))"

definition AccountWorkspace :: "'m Manager_scheme \<Rightarrow> string \<Rightarrow> string option io" where
  "AccountWorkspace M k = lookup M (\<lambda>st. account_pool st k)"

text \<open>\<open>ResolveWorkspaceForClient\<close> looks at the client id of a membership only.\<close>

definition resolve_workspace :: "State \<Rightarrow> string \<Rightarrow> string \<Rightarrow> error + string" where
  "resolve_workspace st clientID requested =
     (let memberOf = map ms_WorkspaceID (filter (\<lambda>m. ms_ClientID m = clientID) (st_Memberships st)) in
      if requested \<noteq> [] then
        (if \<not> workspaceExists st requested
         then Inl (ErrText (''workspace '' @ quoted requested @ '' not found''))
         else if requested \<in> set memberOf then Inr requested
         else Inl (ErrText (''not a member of workspace '' @ quoted requested)))
      else case memberOf of
        [] \<Rightarrow> Inl (ErrText ''client belongs to no workspace; specify a workspace'')
      | [x] \<Rightarrow> Inr x
      | _ \<Rightarrow> Inl (ErrText ''client belongs to multiple workspaces; specify a workspace''))"

definition ResolveWorkspaceForClient :: "'m Manager_scheme \<Rightarrow> string \<Rightarrow> string \<Rightarrow> string io" where
  "ResolveWorkspaceForClient M clientID requested =
     bindE (Load M) (\<lambda>st. case resolve_workspace st clientID (trim_space requested) of
       Inl e \<Rightarrow> throwE e
     | Inr x \<Rightarrow> returnE x)"

section \<open>Lookups after changes\<close>

lemma find_update_first:
  "list_ex p xs \<Longrightarrow> (\<And>x. p x \<Longrightarrow> q (f x)) \<Longrightarrow> (\<And>x. q x \<Longrightarrow> p x) \<Longrightarrow>
   \<exists>x \<in> set xs. p x \<and> find q (update_first p f xs) = Some (f x)"
  by (induction xs) auto

lemma filter_update_first_other:
  "(\<And>x. p x \<Longrightarrow> \<not> q x) \<Longrightarrow> (\<And>x. p x \<Longrightarrow> \<not> q (f x)) \<Longrightarrow> filter q (update_first p f xs) = filter q xs"
  by (induction xs) auto

lemma find_append: "find p (xs @ ys) = (case find p xs of None \<Rightarrow> find p ys | Some x \<Rightarrow> Some x)"
  by (induction xs) auto

lemma find_None_list_ex: "\<not> list_ex p xs \<Longrightarrow> find p xs = None"
  by (simp add: find_None_iff list_ex_iff)

text \<open>What a grant does: the role is the one granted, and no other workspace is touched.\<close>

lemma set_membership_role:
  assumes "who \<noteq> []" "set_membership workspaceID who role now st = Commit st' x"
  shows "role_in st' workspaceID who = Some role
     \<and> filter (\<lambda>m. ms_WorkspaceID m \<noteq> workspaceID) (st_Memberships st')
       = filter (\<lambda>m. ms_WorkspaceID m \<noteq> workspaceID) (st_Memberships st)"
proof -
  let ?p = "\<lambda>m. ms_WorkspaceID m = workspaceID \<and> membershipMatches m who"
  let ?f = "\<lambda>m. m\<lparr>ms_Role := role,
                  ms_UserID := (if userExists st who \<and> ms_UserID m = [] then who else ms_UserID m)\<rparr>"
  have p: "?p m \<Longrightarrow> ?p (?f m)" for m by (auto simp: membershipMatches_def split: if_splits)
  show ?thesis
  proof (cases "list_ex ?p (st_Memberships st)")
    case True
    with assms(2) have st': "st' = st\<lparr>st_Memberships := update_first ?p ?f (st_Memberships st)\<rparr>"
      by (auto simp: set_membership_def Let_def split: if_splits)
    obtain m where "find ?p (update_first ?p ?f (st_Memberships st)) = Some (?f m)"
      using find_update_first [OF True, where q = ?p and f = ?f] p by blast
    moreover have "filter (\<lambda>m. ms_WorkspaceID m \<noteq> workspaceID) (update_first ?p ?f (st_Memberships st))
        = filter (\<lambda>m. ms_WorkspaceID m \<noteq> workspaceID) (st_Memberships st)"
      by (rule filter_update_first_other) auto
    ultimately show ?thesis
      unfolding st' role_in_def by simp
  next
    case False
    then have none: "find ?p (st_Memberships st) = None" by (rule find_None_list_ex)
    from False assms have "role_in st' workspaceID who = Some role"
      by (auto simp: set_membership_def role_in_def find_append none Let_def split: if_splits)
        (simp_all add: membershipMatches_def)
    with False assms(2) show ?thesis by (auto simp: set_membership_def Let_def split: if_splits)
  qed
qed

lemma no_role_removed:
  "role_in (st\<lparr>st_Memberships := filter (\<lambda>m. \<not> (ms_WorkspaceID m = w \<and> membershipMatches m p)) (st_Memberships st)\<rparr>) w p
   = None"
  by (auto simp: role_in_def find_None_iff)

text \<open>A member by user id alone has a role, and no workspace resolves for them.\<close>

lemma resolve_needs_client_id:
  assumes "clientID \<noteq> []" "\<forall>m \<in> set (st_Memberships st). ms_ClientID m \<noteq> clientID"
  shows "\<exists>e. resolve_workspace st clientID requested = Inl e"
proof -
  have "filter (\<lambda>m. ms_ClientID m = clientID) (st_Memberships st) = []"
    using assms(2) by (simp add: filter_empty_conv)
  then show ?thesis by (simp add: resolve_workspace_def)
qed

lemma resolve_member:
  assumes "resolve_workspace st clientID requested = Inr x"
  shows "(\<exists>m \<in> set (st_Memberships st). ms_WorkspaceID m = x \<and> ms_ClientID m = clientID)
   \<and> (requested \<noteq> [] \<longrightarrow> x = requested)"
proof -
  define w where "w = map ms_WorkspaceID (filter (\<lambda>m. ms_ClientID m = clientID) (st_Memberships st))"
  have "x \<in> set w \<and> (requested \<noteq> [] \<longrightarrow> x = requested)"
    using assms unfolding resolve_workspace_def Let_def w_def [symmetric]
    by (auto split: if_splits list.splits)
  moreover have "set w = ms_WorkspaceID ` {m \<in> set (st_Memberships st). ms_ClientID m = clientID}"
    by (simp add: w_def)
  ultimately show ?thesis by auto
qed

end
