(* ===== verification/Access.thy ===== *)
theory Access
  imports Workspaces
begin

text \<open>
  The commands on identities and workspaces, and the changes each of them makes to the
  state in file mode. An invariant that every change keeps is kept by every command,
  whatever steps of it fail.
\<close>

datatype command =
    NewUser string string
  | NewPassword string string
  | Disable string bool
  | Login string
  | Logout string
  | NewClient string
  | RevokeToken string
  | SeenClient string
  | NewDevice string string
  | DropDevice string
  | NewWorkspace string string
  | Grant string string WorkspaceRole
  | Withdraw string string

fun command_world :: "'m Manager_scheme \<Rightarrow> command \<Rightarrow> World \<Rightarrow> World" where
  "command_world M (NewUser name pw) w = snd (CreateUser M name pw w)"
| "command_world M (NewPassword k pw) w = snd (SetUserPassword M k pw w)"
| "command_world M (Disable k b) w = snd (SetUserDisabled M k b w)"
| "command_world M (Login k) w = snd (CreateSession M k w)"
| "command_world M (Logout k) w = snd (DeleteSession M k w)"
| "command_world M (NewClient label) w = snd (CreateClient M label w)"
| "command_world M (RevokeToken k) w = snd (RevokeClient M k w)"
| "command_world M (SeenClient k) w = snd (TouchClient M k w)"
| "command_world M (NewDevice u label) w = snd (CreateDevice M u label w)"
| "command_world M (DropDevice k) w = snd (RevokeDevice M k w)"
| "command_world M (NewWorkspace name creator) w = snd (CreateWorkspace M name creator w)"
| "command_world M (Grant x who role) w = snd (SetMembership M x who role w)"
| "command_world M (Withdraw x who) w = snd (RemoveMembership M x who w)"

text \<open>The changes a command can make to a state at the instant T, whatever was drawn or hashed.\<close>

inductive change :: "time \<Rightarrow> command \<Rightarrow> State \<Rightarrow> State \<Rightarrow> bool" for T where
  user: "create_user name hash T st = Commit st' x \<Longrightarrow> to_lower (trim_space name) = name \<Longrightarrow>
    change T (NewUser n p) st st'"
| password: "change T (NewPassword k p) st (st\<lparr>
      st_Users := update_first (\<lambda>u. usr_ID u = k) (\<lambda>u. u\<lparr>usr_PasswordHash := hash, usr_UpdatedAt := T\<rparr>) (st_Users st),
      st_Sessions := dropUserSessions (st_Sessions st) k\<rparr>)"
| disable: "change T (Disable k True) st (st\<lparr>
      st_Users := update_first (\<lambda>u. usr_ID u = k) (\<lambda>u. u\<lparr>usr_DisabledAt := Some T, usr_UpdatedAt := T\<rparr>) (st_Users st),
      st_Sessions := dropUserSessions (st_Sessions st) k\<rparr>)"
| enable: "change T (Disable k False) st (st\<lparr>
      st_Users := update_first (\<lambda>u. usr_ID u = k) (\<lambda>u. u\<lparr>usr_DisabledAt := None, usr_UpdatedAt := T\<rparr>) (st_Users st)\<rparr>)"
| login: "create_session k token hash T st = Commit st' x \<Longrightarrow> change T (Login k) st st'"
| logout: "change T (Logout k) st (st\<lparr>st_Sessions := filter (\<lambda>s. ses_ID s \<noteq> k) (st_Sessions st)\<rparr>)"
| client: "change T (NewClient n) st (st\<lparr>st_Clients := st_Clients st @
      [new_client (client_id label (map cli_ID (st_Clients st)) T) [] label hash T]\<rparr>)"
| revoke: "revoke_client k e T st = Commit st' x \<Longrightarrow> change T (RevokeToken k) st st'"
| seen: "change T (SeenClient k) st (st\<lparr>st_Clients := update_first (\<lambda>c. cli_ID c = k)
      (\<lambda>c. c\<lparr>cli_LastSeenAt := T\<rparr>) (st_Clients st)\<rparr>)"
| device: "create_device userID label token hash T st = Commit st' x \<Longrightarrow> change T (NewDevice u l) st st'"
| drop_device: "revoke_client k e T st = Commit st' x \<Longrightarrow> change T (DropDevice k) st st'"
| workspace: "create_workspace name b T st = Commit st' x \<Longrightarrow> change T (NewWorkspace n b') st st'"
| grant: "set_membership k who role T st = Commit st' x \<Longrightarrow> change T (Grant k' who' role) st st'"
| withdraw: "change T (Withdraw k who) st (st\<lparr>st_Memberships :=
      filter (\<lambda>m. \<not> (ms_WorkspaceID m = k \<and> membershipMatches m who)) (st_Memberships st)\<rparr>)"

inductive_cases change_userE: "change T (NewUser n p) st st'"

text \<open>What no command changes: the accounts, their quota and usage, and the dispatch history.\<close>

lemma change_frame:
  "change T c st st' \<Longrightarrow>
     st_Accounts st' = st_Accounts st \<and> st_QuotaCache st' = st_QuotaCache st
     \<and> st_Dispatches st' = st_Dispatches st \<and> st_Usage st' = st_Usage st
     \<and> st_UserDeviceMigrated st' = st_UserDeviceMigrated st"
  by (induction rule: change.induct)
    (auto simp: create_user_def create_session_def create_device_def revoke_client_def create_workspace_def
      set_membership_def Let_def split: if_splits)

section \<open>A command does its changes\<close>

lemma safe_hashPassword: "safe_op T I (hashPassword E p)"
  unfolding hashPassword_def Let_def by (intro safe_ops)

lemma safe_tokens: "safe_op T I generatePAT" "safe_op T I generateDeviceToken" "safe_op T I generateSessionToken"
  unfolding generatePAT_def generateDeviceToken_def generateSessionToken_def by (intro safe_ops)+

lemma safe_postgres_only: "\<not> postgres_mode M \<Longrightarrow> safe_op T I (whenE (postgres_mode M) m)"
  by (simp add: whenE_def file_store.safe_prims)

lemma safe_outcome:
  "(\<And>e. r = Fail e \<Longrightarrow> safe_op T I (f e)) \<Longrightarrow> (\<And>x. r = Skip x \<Longrightarrow> safe_op T I (g x)) \<Longrightarrow>
   (\<And>st x. r = Commit st x \<Longrightarrow> safe_op T I (h st x)) \<Longrightarrow>
   safe_op T I (case r of Fail e \<Rightarrow> f e | Skip x \<Rightarrow> g x | Commit st x \<Rightarrow> h st x)"
  by (cases r) simp_all

lemma safe_lookup: "\<not> postgres_mode M \<Longrightarrow> safe_op T I (lookup M f)"
  unfolding lookup_def by (intro safe_ops safe_Load)

locale command_invariant =
  fixes T :: time and I :: "State \<Rightarrow> bool" and may :: "command \<Rightarrow> bool"
  assumes norm: "norm_closed I"
    and changed: "I st \<Longrightarrow> may c \<Longrightarrow> change T c st st' \<Longrightarrow> I st'"
begin

lemma kept_users:
  assumes "\<not> postgres_mode M"
  shows "may (NewUser n p) \<Longrightarrow> safe_op T I (CreateUser M n p)"
    "may (NewPassword k p) \<Longrightarrow> safe_op T I (SetUserPassword M k p)"
    "may (Disable k b) \<Longrightarrow> safe_op T I (SetUserDisabled M k b)"
proof -
  show "safe_op T I (CreateUser M n p)" if "may (NewUser n p)"
    unfolding CreateUser_def Let_def
    by (intro safe_ops safe_hashPassword assms norm)
      (rule changed [OF _ that], assumption, erule change.user, simp add: trim_space_to_lower)
  show "safe_op T I (SetUserPassword M k p)" if "may (NewPassword k p)"
    unfolding SetUserPassword_def persistAfterSessionDelete_def Let_def
    by (intro safe_postgres_only safe_ops safe_hashPassword assms norm
        changed [OF _ that change.password])
  show "safe_op T I (SetUserDisabled M k b)" if "may (Disable k b)"
  proof (cases b)
    case True
    with that have may: "may (Disable k True)" by simp
    show ?thesis
      unfolding SetUserDisabled_def persistAfterSessionDelete_def Let_def
      by (simp only: True if_True) (intro safe_postgres_only safe_ops assms norm;
        simp; erule changed [OF _ may change.disable])
  next
    case False
    with that have may: "may (Disable k False)" by simp
    show ?thesis
      unfolding SetUserDisabled_def Let_def
      by (simp only: False if_False) (intro safe_ops assms norm changed [OF _ may change.enable])
  qed
qed

lemma kept_sessions:
  assumes "\<not> postgres_mode M"
  shows "may (Login k) \<Longrightarrow> safe_op T I (CreateSession M k)"
    "may (Logout k) \<Longrightarrow> safe_op T I (DeleteSession M k)"
proof -
  show "safe_op T I (CreateSession M k)" if "may (Login k)"
    unfolding CreateSession_def
    by (intro safe_ops safe_tokens assms norm) (erule (1) changed [OF _ that change.login])
  show "safe_op T I (DeleteSession M k)" if "may (Logout k)"
    unfolding DeleteSession_def Let_def
    by (intro safe_postgres_only safe_ops assms norm changed [OF _ that change.logout])
qed

lemma kept_clients:
  assumes "\<not> postgres_mode M"
  shows "may (NewClient n) \<Longrightarrow> safe_op T I (CreateClient M n)"
    "may (RevokeToken k) \<Longrightarrow> safe_op T I (RevokeClient M k)"
    "may (SeenClient k) \<Longrightarrow> safe_op T I (TouchClient M k)"
    "may (NewDevice u n) \<Longrightarrow> safe_op T I (CreateDevice M u n)"
    "may (DropDevice k) \<Longrightarrow> safe_op T I (RevokeDevice M k)"
proof -
  show "safe_op T I (CreateClient M n)" if "may (NewClient n)"
    unfolding CreateClient_def Let_def
    by (intro safe_ops safe_tokens assms norm changed [OF _ that change.client])
  show "safe_op T I (RevokeClient M k)" if "may (RevokeToken k)"
    unfolding RevokeClient_def
    by (intro safe_ops assms norm) (erule (1) changed [OF _ that change.revoke])
  show "safe_op T I (TouchClient M k)" if "may (SeenClient k)"
    unfolding TouchClient_def
    by (intro safe_ops assms norm) (auto intro: changed [OF _ that change.seen] split: if_splits)
  show "safe_op T I (CreateDevice M u n)" if "may (NewDevice u n)"
    unfolding CreateDevice_def Let_def
    by (intro safe_ops safe_tokens assms norm) (erule (1) changed [OF _ that change.device])
  show "safe_op T I (RevokeDevice M k)" if "may (DropDevice k)"
    unfolding RevokeDevice_def
    by (intro safe_outcome safe_postgres_only safe_ops assms norm)
      (erule (1) changed [OF _ that change.drop_device])
qed

lemma kept_workspaces:
  assumes "\<not> postgres_mode M"
  shows "may (NewWorkspace n b) \<Longrightarrow> safe_op T I (CreateWorkspace M n b)"
    "may (Grant k who role) \<Longrightarrow> safe_op T I (SetMembership M k who role)"
    "may (Withdraw k who) \<Longrightarrow> safe_op T I (RemoveMembership M k who)"
proof -
  show "safe_op T I (CreateWorkspace M n b)" if "may (NewWorkspace n b)"
    unfolding CreateWorkspace_def Let_def
    by (intro safe_ops assms norm) (erule (1) changed [OF _ that change.workspace])
  show "safe_op T I (SetMembership M k who role)" if "may (Grant k who role)"
    unfolding SetMembership_def Let_def
    by (intro safe_ops assms norm) (erule (1) changed [OF _ that change.grant])
  show "safe_op T I (RemoveMembership M k who)" if "may (Withdraw k who)"
    unfolding RemoveMembership_def Let_def
    by (intro safe_ops assms norm changed [OF _ that change.withdraw]) (use assms in auto)
qed

lemma kept_command:
  assumes m: "\<not> postgres_mode M" and may: "may c" and w: "w_now w = T" "I (stored w)"
  shows "w_now (command_world M c w) = T \<and> I (stored (command_world M c w))"
  using may
  by (cases c; simp only: command_world.simps)
    (rule safe_step [where I = I, OF _ w]; intro kept_users kept_sessions kept_clients kept_workspaces m; assumption)+

end

end
