(* ===== verification/LeaseRun.thy ===== *)
theory LeaseRun
  imports Lease Access
begin

text \<open>
  The lease protocol: any number of requests of other holders, in any order and at any
  instants, between two operations of a holder. Whatever they are, the account stays
  with its holder until the lease's end, and no claim gives it to somebody else. The
  requests are those of the manager in file mode; a request runs as a whole, as
  \<open>stateMu\<close> and the lock file order the operations that change the state.
\<close>

section \<open>Changes that keep every lease\<close>

definition same_leases :: "State \<Rightarrow> State \<Rightarrow> bool" where
  "same_leases st st' \<longleftrightarrow>
     (\<forall>a \<in> set (st_Accounts st). \<exists>b \<in> set (st_Accounts st'). acc_ID b = acc_ID a \<and> lease_of b = lease_of a)"

lemma holds_same: "same_leases st st' \<Longrightarrow> holds k L C E now st \<Longrightarrow> holds k L C E now st'"
proof -
  assume s: "same_leases st st'" and "holds k L C E now st"
  then obtain a where a: "a \<in> set (st_Accounts st)" "acc_ID a = k" "acc_LeaseID a = L"
      "acc_LeaseClientID a = C" "acc_LeaseExpiresAt a = E" "accountLeaseActive a now"
    by (auto simp: holds_def)
  from s a(1) obtain b where b: "b \<in> set (st_Accounts st')" "acc_ID b = acc_ID a" "lease_of b = lease_of a"
    by (auto simp: same_leases_def)
  from a b lease_of_active [OF b(3), of now] show ?thesis
    unfolding holds_def by (intro bexI [OF _ b(1)]) (auto simp: lease_of_def)
qed

lemma same_leases_set_account:
  assumes "i < length (st_Accounts st) \<Longrightarrow> acc_ID b = acc_ID (st_Accounts st ! i)"
    and "i < length (st_Accounts st) \<Longrightarrow> lease_of b = lease_of (st_Accounts st ! i)"
  shows "same_leases st (set_account i b st)"
  unfolding same_leases_def
proof
  fix a assume "a \<in> set (st_Accounts st)"
  then obtain j where j: "j < length (st_Accounts st)" "a = st_Accounts st ! j"
    by (auto simp: in_set_conv_nth)
  have "st_Accounts (set_account i b st) ! j = (if j = i then b else a)"
    using j by (simp add: set_account_def)
  moreover have "j < length (st_Accounts (set_account i b st))" using j(1) by (simp add: set_account_def)
  ultimately show "\<exists>c \<in> set (st_Accounts (set_account i b st)). acc_ID c = acc_ID a \<and> lease_of c = lease_of a"
    using assms j by (metis nth_mem)
qed

lemma hold_set:
  "holds k L C E now st \<Longrightarrow> acc_ID b = acc_ID (st_Accounts st ! i) \<Longrightarrow>
   lease_of b = lease_of (st_Accounts st ! i) \<Longrightarrow> holds k L C E now (set_account i b st)"
  by (blast intro: holds_same same_leases_set_account)

lemma same_leases_on_account:
  assumes "on_account k f st = Commit st' x" "\<And>a. acc_ID (f a) = acc_ID a" "\<And>a. lease_of (f a) = lease_of a"
  shows "same_leases st st'"
  using assms by (auto simp: on_account_def intro!: same_leases_set_account split: option.splits)

lemma same_leases_more: "same_leases st (st\<lparr>st_Accounts := st_Accounts st @ as\<rparr>)"
  by (auto simp: same_leases_def)

section \<open>Requests\<close>

datatype request =
    RClaim string string string duration
  | RTouch string string string string duration
  | RUpdate ProfileSnapshot string duration
  | RRelease string string string
  | RRecover
  | RFetchQuota string
  | RQuotaReport string Result string
  | RLeasedQuota string string string Result time
  | RSetStatus string AccountStatus
  | RSetWorkspace string string
  | RSetLabel string string
  | RAdd string string
  | RPush ProfileSnapshot
  | RList
  | RCommand command

text \<open>The world after the request, whatever it returned.\<close>

fun perform :: "'m Manager_scheme \<Rightarrow> request \<Rightarrow> World \<Rightarrow> World" where
  "perform M (RClaim cid holder ws ttl) w = snd (ClaimLease M cid holder ws ttl w)"
| "perform M (RTouch lid k cid holder ttl) w = snd (TouchLease M lid k cid holder ttl w)"
| "perform M (RUpdate s cid ttl) w = snd (UpdateLeasedProfileSnapshot M s cid ttl w)"
| "perform M (RRelease k lid cid) w = snd (ReleaseLease M k lid cid w)"
| "perform M RRecover w = snd (RecoverExpiredLeases M w)"
| "perform M (RFetchQuota k) w = snd (FetchQuota M k w)"
| "perform M (RQuotaReport k result cid) w = snd (RecordQuotaReport M k result cid w)"
| "perform M (RLeasedQuota k lid cid result t) w = snd (RecordLeasedQuota M k lid cid result t w)"
| "perform M (RSetStatus k status) w = snd (SetStatus M k status w)"
| "perform M (RSetWorkspace k ws) w = snd (SetAccountWorkspace M k ws w)"
| "perform M (RSetLabel k label) w = snd (SetLabel M k label w)"
| "perform M (RAdd k label) w = snd (AddAccount M k label w)"
| "perform M (RPush s) w = snd (UpsertProfileSnapshot M s w)"
| "perform M RList w = snd (ListAccounts M w)"
| "perform M (RCommand c) w = command_world M c w"

text \<open>
  Which requests are let through: of those that change a lease they name, by the lease
  and the client they name, and of the commands on identities, by the command.
\<close>

fun allowed :: "(string \<Rightarrow> string \<Rightarrow> bool) \<Rightarrow> (command \<Rightarrow> bool) \<Rightarrow> request \<Rightarrow> bool" where
  "allowed lease_may may (RTouch lid k cid holder ttl) = lease_may lid cid"
| "allowed lease_may may (RUpdate s cid ttl) = lease_may (ps_LeaseID s) cid"
| "allowed lease_may may (RRelease k lid cid) = lease_may lid cid"
| "allowed lease_may may (RCommand c) = may c"
| "allowed lease_may may r = True"

section \<open>Invariants of the requests\<close>

text \<open>
  What a predicate of the state has to do to be kept by every request that changes no
  lease but those \<open>may\<close> allows: the changes the operations make to the state.
\<close>

locale request_invariant = command_invariant T I may
  for T :: time and I :: "State \<Rightarrow> bool" and may :: "command \<Rightarrow> bool" +
  fixes lease_may :: "string \<Rightarrow> string \<Rightarrow> bool"
  assumes quota: "quota_closed I"
    and swept: "I st \<Longrightarrow> I (sweep st T)"
    and added: "I st \<Longrightarrow> j \<notin> set (accountIDs st) \<Longrightarrow> acc_ID b = j \<Longrightarrow>
      I (st\<lparr>st_Accounts := st_Accounts st @ [b]\<rparr>)"
    and updated: "I st \<Longrightarrow> acc_ID b = acc_ID (st_Accounts st ! i) \<Longrightarrow>
      lease_of b = lease_of (st_Accounts st ! i) \<Longrightarrow> I (set_account i b st)"
    and claimed: "I st \<Longrightarrow> (i, a, s) \<in> set (claim_candidates auth st ws T) \<Longrightarrow>
      I (fst (claim_state i lid cid holder ttl T st))"
    and lease_changed: "I st \<Longrightarrow> lease_may lid cid \<Longrightarrow> findLeaseAccount st k lid' = Inr (i, a) \<Longrightarrow>
      validateLease a lid cid T = None \<Longrightarrow> acc_ID b = acc_ID a \<Longrightarrow> I (set_account i b st)"
    and released: "I st \<Longrightarrow> lease_may lid cid \<Longrightarrow> findLeaseAccount st k lid' = Inr (i, a) \<Longrightarrow>
      validateLease a lid cid T = None \<Longrightarrow> I (release_state i a T st)"
begin

lemma on_account: "I st \<Longrightarrow> on_account k f st = Commit st' x \<Longrightarrow>
    (\<And>a. acc_ID (f a) = acc_ID a) \<Longrightarrow> (\<And>a. lease_of (f a) = lease_of a) \<Longrightarrow> I st'"
  by (auto simp: on_account_def intro: updated split: option.splits)

lemma kept_add:
  assumes "\<not> postgres_mode M"
  shows "safe_op T I (addAccountLocked M j label)"
  unfolding addAccountLocked_def Let_def
  by (intro safe_ops assms norm) (auto simp: accountIDs_def new_account_def intro!: added)

lemma kept_mark_first:
  assumes "\<not> postgres_mode M"
  shows "safe_op T I (mark_first_generation M a)"
  unfolding mark_first_generation_def Let_def
  by (intro safe_ops assms norm) (auto intro!: updated simp: lease_of_def)

lemma kept_upsert:
  assumes "\<not> postgres_mode M"
  shows "safe_op T I (upsertJSONProfileLocked M p)"
  unfolding upsertJSONProfileLocked_def Let_def
  by (intro safe_ops kept_add kept_mark_first safe_writeProfileFiles assms norm)
    (auto intro!: updated simp: lease_of_def)

lemma kept_push:
  assumes "\<not> postgres_mode M"
  shows "safe_op T I (UpsertProfileSnapshot M s)"
  unfolding UpsertProfileSnapshot_def Let_def
  by (intro safe_ops kept_upsert assms norm)
    (auto intro!: updated simp: lease_of_def snapshot_fields_def Let_def)

lemma kept_updates:
  assumes "\<not> postgres_mode M"
  shows "safe_op T I (SetStatus M j status)" "safe_op T I (SetAccountWorkspace M j ws)"
    "safe_op T I (SetLabel M j label)" "safe_op T I (AddAccount M j label)"
  unfolding SetStatus_def SetAccountWorkspace_def SetLabel_def Let_def AddAccount_def
  by (intro safe_ops assms norm kept_add; auto split: if_splits elim!: on_account simp: lease_of_def)+

lemma kept_recover:
  assumes "\<not> postgres_mode M"
  shows "safe_op T I (RecoverExpiredLeases M)"
  unfolding RecoverExpiredLeases_def
  by (intro safe_ops safe_expire safe_FetchQuota assms norm quota swept)

lemma selected:
  assumes "I st" "rank cand_score cand_key (claim_candidates auth st ws T) \<noteq> []"
    and "claim_state (fst (rr_select cand_score cand_key lastID
      (rank cand_score cand_key (claim_candidates auth st ws T)))) lid cid holder ttl T st = (st', a)"
  shows "I st'"
proof -
  obtain i b s where c: "rr_select cand_score cand_key lastID
      (rank cand_score cand_key (claim_candidates auth st ws T)) = (i, b, s)" by (rule prod_cases3)
  from claim_selected [OF assms(2), of lastID] have "(i, b, s) \<in> set (claim_candidates auth st ws T)"
    by (simp add: c)
  from claimed [OF assms(1) this, of lid cid holder ttl] assms(3) c show ?thesis by simp
qed

lemma kept_claim:
  assumes m: "\<not> postgres_mode M"
  shows "safe_op T I (ClaimLease M cid holder ws ttl)"
proof -
  have "safe_op T I (claim_locked M cid holder ws ttl)"
    unfolding claim_locked_def Let_def
    by (intro file_store.safe_load file_store.safe_now file_store.safe_gets safe_ops m
        safe_generateLeaseID norm safe_finish_claim; (rule swept | rule selected);
        (assumption | erule swept)+)
  then show ?thesis unfolding ClaimLease_def by (intro safe_ops kept_recover m)
qed

lemma kept_touch:
  assumes "\<not> postgres_mode M" "lease_may lid cid"
  shows "safe_op T I (TouchLease M lid k cid holder ttl)"
  unfolding TouchLease_def Let_def
  by (intro safe_ops safe_save_then_fail assms norm swept) (auto intro: lease_changed [OF _ assms(2)] swept)

lemma kept_update_leased:
  assumes "\<not> postgres_mode M" "lease_may (ps_LeaseID s) cid"
  shows "safe_op T I (UpdateLeasedProfileSnapshot M s cid ttl)"
  unfolding UpdateLeasedProfileSnapshot_def Let_def
  by (intro safe_ops safe_save_then_fail safe_writeProfileFiles assms norm swept)
    (auto intro: lease_changed [OF _ assms(2)] swept)

lemma kept_release:
  assumes "\<not> postgres_mode M" "lease_may lid cid"
  shows "safe_op T I (ReleaseLease M k lid cid)"
  unfolding ReleaseLease_def Let_def
  by (intro safe_ops assms norm) (auto intro: swept released [OF _ assms(2)])

lemma kept_perform:
  assumes m: "\<not> postgres_mode M" and may: "allowed lease_may may r" and r: "r \<noteq> RList"
    and w: "w_now w = T" "I (stored w)"
  shows "w_now (perform M r w) = T \<and> I (stored (perform M r w))"
proof (cases "\<exists>c. r = RCommand c")
  case True
  with kept_command [OF m _ w] may show ?thesis by auto
next
  case False
  with may r show ?thesis
    by (cases r; simp only: perform.simps allowed.simps simp_thms request.inject)
      ((rule safe_step [where I = I, OF _ w]; intro kept_claim kept_touch kept_update_leased kept_release
        kept_recover safe_FetchQuota safe_RecordQuotaReport safe_RecordLeasedQuota
        kept_updates kept_push norm quota m; assumption) | blast)+
qed

end

section \<open>The holder's lease is such an invariant\<close>

text \<open>A request that names the lease, and not another client's, is the holder's own.\<close>

definition foreign :: "string \<Rightarrow> string \<Rightarrow> string \<Rightarrow> string \<Rightarrow> bool" where
  "foreign L C leaseID clientID \<longleftrightarrow>
     trim_space leaseID \<noteq> L \<or> (trim_space clientID \<noteq> [] \<and> C \<noteq> [] \<and> trim_space clientID \<noteq> C)"

lemma foreign_not_valid:
  "foreign L C lid cid \<Longrightarrow> validateLease a lid cid now = None \<Longrightarrow>
   \<not> (acc_LeaseID a = L \<and> acc_LeaseClientID a = C)"
  by (auto simp: foreign_def validateLease_None)

lemma hold_changed:
  assumes "foreign L C lid cid" "findLeaseAccount st acc lid' = Inr (i, a)" "validateLease a lid cid now = None"
    and "holds k L C E now st"
  shows "holds k L C E now (set_account i b st)"
proof (rule holds_set_account [OF assms(4)])
  from findLeaseAccount_Inr [OF assms(2)] have i: "i < length (st_Accounts st)" "a = st_Accounts st ! i" by auto
  then show "i < length (st_Accounts st)" by simp
  assume "acc_LeaseID (st_Accounts st ! i) = L" "acc_LeaseClientID (st_Accounts st ! i) = C"
  with foreign_not_valid [OF assms(1,3)] i show "acc_ID b = k \<and> lease_of b = lease_of (st_Accounts st ! i)"
    by simp
qed

lemma hold_release:
  assumes "foreign L C lid cid" "findLeaseAccount st acc lid' = Inr (i, a)" "validateLease a lid cid now = None"
    and "holds k L C E now st"
  shows "holds k L C E now (release_state i a now st)"
proof -
  have "release_state i a now st =
      (set_account i ((clearAccountLease a)\<lparr>acc_UpdatedAt := now\<rparr>) st)\<lparr>st_Dispatches :=
        appendDispatchEvent (st_Dispatches st) (dispatchEventFromAccount st a ''released'' now)\<rparr>"
    by (simp add: release_state_def set_account_def Let_def)
  with hold_changed [OF assms] show ?thesis by simp
qed

lemma safe_ListAccounts:
  assumes m: "\<not> postgres_mode M" and n: "norm_closed I"
    and more: "\<And>st as. I st \<Longrightarrow> I (st\<lparr>st_Accounts := st_Accounts st @ as\<rparr>)"
  shows "safe_op T I (ListAccounts M)"
proof -
  have "safe_op T I (listAccountsLocked M)"
    unfolding listAccountsLocked_def
  proof (rule file_store.safe_load [OF m])
    fix st assume h: "I st"
    show "safe_op T I (bindE (syncManagedAccounts M st) (\<lambda>(next, changed).
        bindE (whenE changed (Save M next)) (\<lambda>_. bindE (getsE (\<lambda>w. w)) (\<lambda>w.
        returnE (sort_slice (\<lambda>a b. acc_ID (av_Account a) < acc_ID (av_Account b))
          (map (accountView M w) (st_Accounts next)))))))"
      unfolding syncManagedAccounts_def Let_def bindE_assoc returnE_bind
      by (intro file_store.safe_gets safe_ops m n) (use more [OF h] in auto)
  qed
  then show ?thesis unfolding ListAccounts_def by (rule file_store.safe_withMu)
qed

lemma hold_environment:
  assumes "w_disk w2 = w_disk w1" "w_now w1 \<le> w_now w2" "w_now w2 < E" "holds k L C E (w_now w1) (stored w1)"
  shows "holds k L C E (w_now w2) (stored w2)"
proof -
  have "st_Accounts (stored w2) = st_Accounts (stored w1)" using assms(1) by (simp add: stored_def)
  with assms(3,4) show ?thesis by (auto simp: holds_def accountLeaseActive_def)
qed

interpretation lease: request_invariant T "holds k L C E T" "\<lambda>_. True" "foreign L C" for T k L C E
proof unfold_locales
  show "norm_closed (holds k L C E T)" by (rule holds_norm)
  show "quota_closed (holds k L C E T)" by (rule holds_quota)
  fix st :: State
  assume h: "holds k L C E T st"
  show "holds k L C E T st'" if "change T c st st'" for c st'
    using h change_frame [OF that] by (simp add: holds_def)
  from h show "holds k L C E T (sweep st T)" by (rule holds_sweep)
  show "holds k L C E T (st\<lparr>st_Accounts := st_Accounts st @ [b]\<rparr>)" for b
    by (rule holds_same [OF same_leases_more h])
  show "holds k L C E T (set_account i b st)"
    if "acc_ID b = acc_ID (st_Accounts st ! i)" "lease_of b = lease_of (st_Accounts st ! i)" for i b
    using h that by (rule hold_set)
  show "holds k L C E T (fst (claim_state i lid cid holder ttl T st))"
    if "(i, a, s) \<in> set (claim_candidates auth st ws T)" for i a s auth ws lid cid holder ttl
    using claim_candidates_mem [OF that] by (intro claim_state_holds [OF h]) (auto simp: may_lease_def)
  show "holds k L C E T (set_account i b st)"
    if "foreign L C lid cid" "findLeaseAccount st j lid' = Inr (i, a)" "validateLease a lid cid T = None"
    for lid cid j lid' i a b
    using that h by (rule hold_changed)
  show "holds k L C E T (release_state i a T st)"
    if "foreign L C lid cid" "findLeaseAccount st j lid' = Inr (i, a)" "validateLease a lid cid T = None"
    for lid cid j lid' i a
    using that h by (rule hold_release)
qed

lemma ids_set_found:
  "findLeaseAccount st j lid = Inr (i, a) \<Longrightarrow> acc_ID b = acc_ID a \<Longrightarrow>
   accountIDs (set_account i b st) = accountIDs st"
  by (drule findLeaseAccount_Inr) (simp add: accountIDs_set_account)

lemma ids_set_same: "acc_ID b = acc_ID (st_Accounts st ! i) \<Longrightarrow> accountIDs (set_account i b st) = accountIDs st"
proof (cases "i < length (st_Accounts st)")
  case False
  then show ?thesis by (simp add: set_account_def accountIDs_def list_update_beyond not_less)
qed (simp add: accountIDs_set_account)

interpretation ids: request_invariant T ids_distinct "\<lambda>_. True" "\<lambda>_ _. True" for T
proof unfold_locales
  show "norm_closed ids_distinct" by (rule ids_distinct_norm)
  show "quota_closed ids_distinct" by (rule quota_closed_ids)
  fix st :: State assume I: "ids_distinct st"
  show "ids_distinct st'" if "change T c st st'" for c st'
    using I change_frame [OF that] by (simp add: ids_distinct_def accountIDs_def)
  from I show "ids_distinct (sweep st T)" by (rule ids_sweep)
  show "ids_distinct (st\<lparr>st_Accounts := st_Accounts st @ [b]\<rparr>)" if "j \<notin> set (accountIDs st)" "acc_ID b = j" for j b
    using I that by (simp add: ids_distinct_def accountIDs_def)
  show "ids_distinct (set_account i b st)" if "acc_ID b = acc_ID (st_Accounts st ! i)" for i b
    using I ids_set_same [OF that] by (simp add: ids_distinct_def)
  show "ids_distinct (fst (claim_state i lid cid holder ttl T st))" for i lid cid holder ttl
    using I ids_set_same [of "claim_account lid cid holder ttl T (st_Accounts st ! i)" st i]
    by (simp add: claim_state_def Let_def ids_distinct_def accountIDs_def claim_account_def)
  show "ids_distinct (set_account i b st)"
    if "findLeaseAccount st k lid' = Inr (i, a)" "acc_ID b = acc_ID a" for k lid' i a b
    using I ids_set_found [OF that] by (simp add: ids_distinct_def)
  show "ids_distinct (release_state i a T st)" if "findLeaseAccount st k lid' = Inr (i, a)" for k lid' i a
    using I ids_set_found [OF that, of "(clearAccountLease a)\<lparr>acc_UpdatedAt := T\<rparr>"]
    by (simp add: release_state_def Let_def ids_distinct_def accountIDs_def set_account_def)
qed


text \<open>So is the dispatch history, and, of the clock, nothing at all.\<close>

interpretation history: request_invariant T "\<lambda>st. history_ok (st_Dispatches st)" "\<lambda>_. True" "\<lambda>_ _. True" for T
proof unfold_locales
  show "norm_closed (\<lambda>st. history_ok (st_Dispatches st))" by (rule norm_closedI) simp
  show "quota_closed (\<lambda>st. history_ok (st_Dispatches st))"
    by (simp add: quota_closed_def quota_state_def Let_def split: option.splits)
  fix st :: State assume h: "history_ok (st_Dispatches st)"
  show "history_ok (st_Dispatches st')" if "change T c st st'" for c st'
    using h change_frame [OF that] by simp
  from h show "history_ok (st_Dispatches (sweep st T))" by (rule sweep_history)
  show "history_ok (st_Dispatches (fst (claim_state i lid cid holder ttl T st)))" for i lid cid holder ttl
    using h by (simp add: claim_state_def Let_def set_account_def appendDispatchEvent_ok)
  show "history_ok (st_Dispatches (release_state i a T st))" for i a
    using h by (simp add: release_state_def Let_def set_account_def appendDispatchEvent_ok)
qed (simp_all add: set_account_def)

interpretation clock: request_invariant T "\<lambda>_. True" "\<lambda>_. True" "\<lambda>_ _. True" for T
  by unfold_locales (auto simp: quota_closed_def intro: norm_closedI)

section \<open>Runs\<close>

text \<open>
  A run: requests, and between them anything that leaves the state file alone: time
  passes, the files of the accounts change, the network answers, locks come and go.
\<close>

inductive run :: "'m Manager_scheme \<Rightarrow> (World \<Rightarrow> request \<Rightarrow> bool) \<Rightarrow> World \<Rightarrow> World \<Rightarrow> bool"
  for M and ok where
  start: "run M ok w w"
| request: "run M ok w w1 \<Longrightarrow> ok w1 r \<Longrightarrow> run M ok w (perform M r w1)"
| environment: "run M ok w w1 \<Longrightarrow> w_disk w2 = w_disk w1 \<Longrightarrow> w_now w1 \<le> w_now w2 \<Longrightarrow> run M ok w w2"

lemma allowed_any [simp]: "allowed (\<lambda>_ _. True) (\<lambda>_. True) r"
  by (cases r) simp_all

lemma withMu_eval:
  "snd (withMu m w) = (if w_mu w then w else (snd (m (w\<lparr>w_mu := True\<rparr>)))\<lparr>w_mu := False\<rparr>)"
  by (simp add: withMu_def lockMu_def unlockMu_def deferE_def modifyE_def bindE_def split: prod.splits)

lemma perform_now:
  assumes "\<not> postgres_mode M"
  shows "w_now (perform M r w) = w_now w"
proof (cases "r = RList")
  case True
  then show ?thesis
    using safe_step [OF safe_ListAccounts [OF assms, of "\<lambda>_. True"], of w "w_now w"]
    by (simp add: norm_closedI)
next
  case False
  then show ?thesis using clock.kept_perform [OF assms, of r w] by simp
qed

lemma perform_holds:
  assumes "\<not> postgres_mode M" "allowed (foreign L C) (\<lambda>_. True) r" "holds k L C E (w_now w) (stored w)"
  shows "holds k L C E (w_now w) (stored (perform M r w))"
proof (cases "r = RList")
  case True
  have "safe_op (w_now w) (holds k L C E (w_now w)) (ListAccounts M)"
    by (intro safe_ListAccounts assms(1) holds_norm holds_same [OF same_leases_more])
  from safe_step [OF this refl assms(3)] True show ?thesis by simp
next
  case False
  with lease.kept_perform [OF assms(1,2)] assms(3) show ?thesis by simp
qed

lemma run_clock: "run M ok w w' \<Longrightarrow> \<not> postgres_mode M \<Longrightarrow> w_now w \<le> w_now w'"
  by (induction rule: run.induct) (auto simp: perform_now)

lemma run_holds:
  assumes "run M (\<lambda>_. allowed (foreign L C) (\<lambda>_. True)) w w'" "\<not> postgres_mode M" "w_now w' < E"
    and "holds k L C E (w_now w) (stored w)"
  shows "holds k L C E (w_now w') (stored w')"
  using assms
proof (induction rule: run.induct)
  case (request w w1 r)
  then show ?case using perform_holds [of M L C r k E w1] perform_now [of M r w1] by auto
next
  case (environment w w1 w2)
  then show ?case using hold_environment [of w2 w1 E k L C] by auto
qed auto

lemma environment_accounts: "w_disk w2 = w_disk w1 \<Longrightarrow> st_Accounts (stored w2) = st_Accounts (stored w1)"
  by (simp add: stored_def)

definition few_listed :: "'m Manager_scheme \<Rightarrow> World \<Rightarrow> request \<Rightarrow> bool" where
  "few_listed M w r \<longleftrightarrow> (r = RList \<longrightarrow> few_accounts M w)"

lemma perform_ids:
  assumes "\<not> postgres_mode M" "few_listed M w r" "ids_distinct (stored w)"
  shows "ids_distinct (stored (perform M r w))"
proof (cases "r = RList")
  case True
  with assms(2) have few: "few_accounts M w" by (simp add: few_listed_def)
  let ?w = "w\<lparr>w_mu := True\<rparr>"
  have v: "stored (v\<lparr>w_mu := b\<rparr>) = stored v" for v b by (simp add: stored_def)
  have "few_accounts M ?w" using few by (simp add: few_accounts_def v dir_entries_def)
  from listAccountsLocked_ids [OF assms(1) this] assms(3)
  have "ids_distinct (stored (snd (listAccountsLocked M ?w)))" by (simp add: v)
  with True assms(3) v show ?thesis by (simp add: ListAccounts_def withMu_eval)
next
  case False
  with ids.kept_perform [OF assms(1), of r w] assms(3) show ?thesis by simp
qed

lemma run_ids:
  assumes "run M ok w w'" "\<not> postgres_mode M" "\<And>v r. ok v r \<Longrightarrow> few_listed M v r" "ids_distinct (stored w)"
  shows "ids_distinct (stored w')"
  using assms
proof (induction rule: run.induct)
  case (environment w w1 w2)
  from environment_accounts [OF environment.hyps(2)] environment
  show ?case unfolding ids_distinct_def accountIDs_def by simp
next
  case (request w w1 r)
  then show ?case using perform_ids by blast
qed

lemma run_history:
  assumes "run M ok w w'" "\<not> postgres_mode M" "history_ok (st_Dispatches (stored w))"
  shows "history_ok (st_Dispatches (stored w'))"
  using assms
proof (induction rule: run.induct)
  case (request w w1 r)
  then have h: "history_ok (st_Dispatches (stored w1))" by blast
  show ?case
  proof (cases "r = RList")
    case True
    have "safe_op (w_now w1) (\<lambda>st. history_ok (st_Dispatches st)) (ListAccounts M)"
      by (intro safe_ListAccounts request.prems norm_closedI) simp_all
    from safe_step [where I = "\<lambda>st. history_ok (st_Dispatches st)", OF this refl] h True show ?thesis by simp
  next
    case False
    from history.kept_perform [OF request.prems(1) allowed_any this refl h] show ?thesis by simp
  qed
next
  case (environment w w1 w2)
  then show ?case by (simp add: stored_def)
qed auto

lemma run_claim_other:
  assumes "\<not> postgres_mode M" "ids_distinct (stored w)" "holds k L C E (w_now w) (stored w)"
    and "run M (\<lambda>v r. allowed (foreign L C) (\<lambda>_. True) r \<and> few_listed M v r) w w'"
    and "0 \<le> w_now w" "w_now w' < E"
    and "ClaimLease M cid holder ws ttl w' = (Inr s, v)"
  shows "lse_AccountID (ls_Lease s) \<noteq> k \<and> holds k L C E (w_now w') (stored v)"
proof -
  have weaker: "run M (\<lambda>_. allowed (foreign L C) (\<lambda>_. True)) w w'"
    using assms(4) by (induction rule: run.induct) (auto intro: run.intros)
  have h: "holds k L C E (w_now w') (stored w')" by (rule run_holds [OF weaker assms(1,6,3)])
  have i: "ids_distinct (stored w')" by (rule run_ids [OF assms(4,1) _ assms(2)]) simp
  have "0 \<le> w_now w'" using run_clock [OF weaker assms(1)] assms(5) by simp
  from file_store.givesD [OF claim_other [OF assms(1) this] refl _ assms(7)] h i show ?thesis by blast
qed

lemma run_well_formed:
  assumes "\<not> postgres_mode M" "w_disk w = None" "run M (few_listed M) w w'"
  shows "ids_distinct (stored w') \<and> history_ok (st_Dispatches (stored w'))"
proof
  have 0: "st_Accounts (stored w) = []" "st_Dispatches (stored w) = []"
    using assms(2) by (simp_all add: stored_def zero_State_def)
  show "ids_distinct (stored w')"
    by (rule run_ids [OF assms(3,1)]) (simp_all add: ids_distinct_def accountIDs_def 0)
  show "history_ok (st_Dispatches (stored w'))"
    by (rule run_history [OF assms(3,1)]) (simp add: 0 history_ok_def)
qed

end
