(* ===== verification/AccessRun.thy ===== *)
theory AccessRun
  imports LeaseRun
begin

text \<open>
  What stays true of the identities over a run of requests: ids and names are distinct,
  a revoked device stays revoked, a disabled user stays out, and a user whose sessions
  were dropped is logged out until the next login. An id is fresh as long as fewer than
  900 rows exist (\<open>uniqueFromUsed\<close>), so the facts about ids hold while there are at
  most 900 users and clients; neither is ever deleted.
\<close>

section \<open>Small stores\<close>

definition few :: "State \<Rightarrow> bool" where
  "few st \<longleftrightarrow> length (st_Users st) \<le> 900 \<and> length (st_Clients st) \<le> 900"

lemma change_few: "change T c st st' \<Longrightarrow> few st' \<Longrightarrow> few st"
  by (induction rule: change.induct)
    (auto simp: few_def create_user_def create_session_def create_device_def revoke_client_def create_workspace_def
      set_membership_def Let_def split: if_splits)

text \<open>How a change acts on the users, and on the clients: rows are added with a fresh id, or kept.\<close>

definition added_row :: "('a \<Rightarrow> string) \<Rightarrow> 'a list \<Rightarrow> 'a \<Rightarrow> bool" where
  "added_row f xs x \<longleftrightarrow> (length xs < 900 \<longrightarrow> f x \<notin> set (map f xs))"

lemma change_users:
  "change T c st st' \<Longrightarrow>
     (\<exists>u. st_Users st' = st_Users st @ [u] \<and> added_row usr_ID (st_Users st) u
        \<and> (\<forall>v \<in> set (st_Users st). \<not> equal_fold (usr_Username v) (usr_Username u)) \<and> user_ok u)
   \<or> (\<exists>k f. st_Users st' = update_first (\<lambda>u. usr_ID u = k) f (st_Users st)
        \<and> (\<forall>u. usr_ID (f u) = usr_ID u \<and> usr_Username (f u) = usr_Username u
             \<and> (c \<noteq> Disable (usr_ID u) False \<longrightarrow> usr_ID u = k \<longrightarrow> usr_DisabledAt u \<noteq> None \<longrightarrow> usr_DisabledAt (f u) \<noteq> None)))
   \<or> st_Users st' = st_Users st"
proof (induction rule: change.induct)
  case (user name hash st st' x n p)
  let ?u = "\<lparr>usr_ID = uniqueFromUsed (''user-'' @ name) (map usr_ID (st_Users st)) T,
     usr_Username = name, usr_PasswordHash = hash, usr_CreatedAt = T, usr_UpdatedAt = T,
     usr_LastLoginAt = zero_time, usr_DisabledAt = None\<rparr>"
  from user(1) have u: "st_Users st' = st_Users st @ [?u]" "\<not> list_ex (\<lambda>u. equal_fold (usr_Username u) name) (st_Users st)"
    by (auto simp: create_user_def Let_def split: if_splits)
  moreover have "added_row usr_ID (st_Users st) ?u"
    using uniqueFromUsed_fresh_small [of "map usr_ID (st_Users st)"] by (simp add: added_row_def)
  moreover have "user_ok ?u" using user(2) by (simp add: user_ok_def)
  ultimately show ?case by (auto simp: list_ex_iff)
next
  case (login k token hash st st' x)
  then have "st_Users st' = update_first (\<lambda>u. usr_ID u = k) (\<lambda>u. u\<lparr>usr_LastLoginAt := T\<rparr>) (st_Users st)"
    by (auto simp: create_session_def Let_def)
  then show ?case
    by (intro disjI2 disjI1 exI [of _ k] exI [of _ "\<lambda>u. u\<lparr>usr_LastLoginAt := T\<rparr>"]) simp
next
  case (password k p st hash)
  show ?case
    by (intro disjI2 disjI1 exI [of _ k] exI [of _ "\<lambda>u. u\<lparr>usr_PasswordHash := hash, usr_UpdatedAt := T\<rparr>"]) simp
next
  case (disable k st)
  show ?case
    by (intro disjI2 disjI1 exI [of _ k] exI [of _ "\<lambda>u. u\<lparr>usr_DisabledAt := Some T, usr_UpdatedAt := T\<rparr>"]) simp
next
  case (enable k st)
  show ?case
    by (intro disjI2 disjI1 exI [of _ k] exI [of _ "\<lambda>u. u\<lparr>usr_DisabledAt := None, usr_UpdatedAt := T\<rparr>"]) auto
qed (auto simp: create_device_def revoke_client_def create_workspace_def set_membership_def Let_def split: if_splits)

lemma change_clients:
  "change T c st st' \<Longrightarrow>
     (\<exists>x. st_Clients st' = st_Clients st @ [x] \<and> added_row cli_ID (st_Clients st) x)
   \<or> (\<exists>k f. st_Clients st' = update_first (\<lambda>c. cli_ID c = k) f (st_Clients st)
        \<and> (\<forall>c. cli_ID (f c) = cli_ID c \<and> (cli_RevokedAt c \<noteq> None \<longrightarrow> cli_RevokedAt (f c) \<noteq> None)))
   \<or> st_Clients st' = st_Clients st"
proof (induction rule: change.induct)
  case (client n st label hash)
  have "added_row cli_ID (st_Clients st) (new_client (client_id label (map cli_ID (st_Clients st)) T) [] label hash T)"
    using uniqueFromUsed_fresh_small [of "map cli_ID (st_Clients st)"]
    by (simp add: added_row_def new_client_def client_id_def Let_def)
  then show ?case by auto
next
  case (device userID label token hash st st' x u l)
  then have "st_Clients st' = st_Clients st @
      [new_client (uniqueFromUsed (''device-'' @ label) (map cli_ID (st_Clients st)) T) userID label hash T]"
    by (auto simp: create_device_def Let_def split: if_splits)
  moreover have "added_row cli_ID (st_Clients st)
      (new_client (uniqueFromUsed (''device-'' @ label) (map cli_ID (st_Clients st)) T) userID label hash T)"
    using uniqueFromUsed_fresh_small [of "map cli_ID (st_Clients st)"] by (simp add: added_row_def new_client_def)
  ultimately show ?case by blast
next
  case (revoke k e st st' x)
  then have "st_Clients st' = update_first (\<lambda>c. cli_ID c = k) (\<lambda>c. c\<lparr>cli_RevokedAt := Some T\<rparr>) (st_Clients st)"
    by (auto simp: revoke_client_def split: if_splits)
  then show ?case
    by (intro disjI2 disjI1 exI [of _ k] exI [of _ "\<lambda>c. c\<lparr>cli_RevokedAt := Some T\<rparr>"]) simp
next
  case (drop_device k e st st' x)
  then have "st_Clients st' = update_first (\<lambda>c. cli_ID c = k) (\<lambda>c. c\<lparr>cli_RevokedAt := Some T\<rparr>) (st_Clients st)"
    by (auto simp: revoke_client_def split: if_splits)
  then show ?case
    by (intro disjI2 disjI1 exI [of _ k] exI [of _ "\<lambda>c. c\<lparr>cli_RevokedAt := Some T\<rparr>"]) simp
next
  case (seen k st)
  show ?case
    by (intro disjI2 disjI1 exI [of _ k] exI [of _ "\<lambda>c. c\<lparr>cli_LastSeenAt := T\<rparr>"]) simp
qed (auto simp: create_user_def create_session_def create_workspace_def set_membership_def Let_def split: if_splits)

section \<open>Invariants of the people\<close>

text \<open>
  The requests on accounts leave users, clients and sessions alone, and so does time:
  a state that still has to be migrated gets the same users at any instant, but for the
  time of their last change.
\<close>

definition user_core :: "User \<Rightarrow> User" where
  "user_core u = u\<lparr>usr_UpdatedAt := 0\<rparr>"

definition same_people :: "State \<Rightarrow> State \<Rightarrow> bool" where
  "same_people st st' \<longleftrightarrow> st_Sessions st' = st_Sessions st
     \<and> st_UserDeviceMigrated st' = st_UserDeviceMigrated st \<and> few st' = few st
     \<and> (few st \<longrightarrow> map user_core (st_Users st') = map user_core (st_Users st) \<and> st_Clients st' = st_Clients st)"

lemma same_people_refl: "st_Users st' = st_Users st \<Longrightarrow> st_Clients st' = st_Clients st \<Longrightarrow>
    st_Sessions st' = st_Sessions st \<Longrightarrow> st_UserDeviceMigrated st' = st_UserDeviceMigrated st \<Longrightarrow>
    same_people st st'"
  by (simp add: same_people_def few_def)

lemma same_people_users:
  assumes "same_people st st'" "few st" "\<And>u. g (user_core u) = g u"
  shows "map g (st_Users st') = map g (st_Users st)"
proof -
  have "map g us = map g (map user_core us)" for us by (simp add: assms(3))
  with assms(1,2) show ?thesis by (metis same_people_def)
qed

lemma uniqueFromUsed_now:
  assumes "length used < 900"
  shows "uniqueFromUsed base used now = uniqueFromUsed base used now'"
proof -
  have loop: "unique_loop b used now i = unique_loop b used now' i"
    if "\<exists>j. i \<le> j \<and> j < 1000 \<and> unique_candidate b j \<notin> set used" for b i
    using that
  proof (induction b used now i rule: unique_loop.induct)
    case (1 b used now i)
    show ?case
    proof (cases "unique_candidate b i \<in> set used")
      case True
      with 1(2) obtain j where "Suc i \<le> j" "j < 1000" "unique_candidate b j \<notin> set used"
        by (metis Suc_leI le_neq_implies_less)
      with True 1(1) show ?thesis
        by (auto simp: unique_loop.simps [of b used _ i] Let_def)
    next
      case False
      with 1(2) show ?thesis by (auto simp: unique_loop.simps [of b used _ i] Let_def)
    qed
  qed
  have "unique_loop b used now 2 = unique_loop b used now' 2" for b
    using unique_free [OF assms, of b] by (intro loop) blast
  then show ?thesis unfolding uniqueFromUsed_def Let_def by simp
qed

lemma migrate_clients_now:
  assumes "length ids + length cs \<le> 900" "length names + length cs \<le> 900"
    and "migrate_clients now ids names mss cs = (cs1, us1, mss1)"
    and "migrate_clients now' ids names mss' cs = (cs2, us2, mss2)"
  shows "cs2 = cs1 \<and> map user_core us2 = map user_core us1"
  using assms
proof (induction cs arbitrary: ids names mss mss' cs1 us1 mss1 cs2 us2 mss2)
  case (Cons c cs)
  show ?case
  proof (cases "trim_space (cli_UserID c) \<noteq> []")
    case True
    obtain a b d where 1: "migrate_clients now ids names mss cs = (a, b, d)" by (rule prod_cases3)
    obtain a' b' d' where 2: "migrate_clients now' ids names mss' cs = (a', b', d')" by (rule prod_cases3)
    have "a' = a \<and> map user_core b' = map user_core b"
      using Cons.IH [OF _ _ 1 2] Cons.prems(1,2) by simp
    with Cons.prems(3,4) True 1 2 show ?thesis by auto
  next
    case False
    have n: "migrated_username now' names c = migrated_username now names c"
      unfolding migrated_username_def Let_def by (rule uniqueFromUsed_now) (use Cons.prems(2) in simp)
    let ?n = "migrated_username now names c"
    have i: "uniqueFromUsed (''user-'' @ ?n) ids now' = uniqueFromUsed (''user-'' @ ?n) ids now"
      by (rule uniqueFromUsed_now) (use Cons.prems(1) in simp)
    let ?i = "uniqueFromUsed (''user-'' @ ?n) ids now"
    let ?mss = "\<lambda>i. map (\<lambda>m. if ms_ClientID m = cli_ID c \<and> trim_space (ms_UserID m) = []
                         then m\<lparr>ms_UserID := i\<rparr> else m)"
    obtain a b d where 1: "migrate_clients now (?i # ids) (?n # names) (?mss ?i mss) cs = (a, b, d)" by (rule prod_cases3)
    obtain a' b' d' where 2: "migrate_clients now' (?i # ids) (?n # names) (?mss (uniqueFromUsed (''user-'' @ ?n) ids now') mss') cs = (a', b', d')" by (rule prod_cases3)
    have "a' = a \<and> map user_core b' = map user_core b"
      using Cons.IH [OF _ _ 1 2] Cons.prems(1,2) by simp
    with Cons.prems(3,4) False n i 1 2 show ?thesis
      by (auto simp: Let_def user_core_def [abs_def] simp del: append_Cons)
  qed
qed simp

lemma migrate_clients_length:
  "length (fst (migrate_clients now ids names mss cs)) = length cs
   \<and> length (fst (snd (migrate_clients now ids names mss cs))) = length (filter (\<lambda>c. trim_space (cli_UserID c) = []) cs)"
  by (induction cs arbitrary: ids names mss) (simp_all add: Let_def case_prod_beta)

lemma same_people_time: "same_people (normalizeState now st) (normalizeState now' st)"
proof -
  define pre where "pre t = migrateDefaultWorkspace t
        (st\<lparr>st_Version := (if st_Version st = 0 then 1 else st_Version st),
            st_Accounts := map normalize_account (st_Accounts st),
            st_Users := map normalize_user (st_Users st)\<rparr>)" for t
  have n: "normalizeState t st = migrateUsersAndDevices t (pre t)" for t
    by (simp add: normalizeState_def pre_def)
  have pre: "st_Clients (pre t) = st_Clients st" "st_Users (pre t) = map normalize_user (st_Users st)"
      "st_UserDeviceMigrated (pre t) = st_UserDeviceMigrated st"
      "st_Sessions (pre t) = st_Sessions st" for t
    by (simp_all add: pre_def)
  define mig where "mig t = migrate_clients t [] [] (st_Memberships (pre t)) (st_Clients st)" for t
  show ?thesis
  proof (cases "st_UserDeviceMigrated st \<or> st_Users st \<noteq> [] \<or> st_Clients st = []")
    case True
    then show ?thesis
      by (intro same_people_refl) (auto simp: n migrateUsersAndDevices_def pre)
  next
    case False
    then have r: "st_Users (normalizeState t st) = fst (snd (mig t))" "st_Clients (normalizeState t st) = fst (mig t)" for t
      by (simp_all add: n migrateUsersAndDevices_def pre mig_def case_prod_beta)
    have few: "few (normalizeState t st) \<longleftrightarrow> length (st_Clients st) \<le> 900" for t
      using length_filter_le [of "\<lambda>c. trim_space (cli_UserID c) = []" "st_Clients st"]
      by (auto simp: few_def r mig_def migrate_clients_length intro: le_trans [OF length_filter_le])
    have "fst (mig now') = fst (mig now) \<and> map user_core (fst (snd (mig now'))) = map user_core (fst (snd (mig now)))"
      if "length (st_Clients st) \<le> 900"
    proof -
      obtain a b d where 1: "mig now = (a, b, d)" by (rule prod_cases3)
      obtain a' b' d' where 2: "mig now' = (a', b', d')" by (rule prod_cases3)
      show ?thesis using migrate_clients_now [OF _ _ 1 [unfolded mig_def] 2 [unfolded mig_def]] that 1 2 by simp
    qed
    then show ?thesis unfolding same_people_def few r by simp
  qed
qed

lemma same_people_set_account: "same_people st (set_account i b st)"
  by (rule same_people_refl) (simp_all add: set_account_def)

lemma same_people_quota: "same_people st (quota_state k result changed source reporter flip now st)"
  by (rule same_people_refl) (simp_all add: quota_state_def Let_def split: option.splits)

lemma same_people_sweep: "same_people st (sweep st now)"
  by (rule same_people_refl) (simp_all add: sweep_def expireAccountLeases_def Let_def case_prod_beta)

lemma same_people_claim: "same_people st (fst (claim_state i lid cid holder ttl now st))"
  by (rule same_people_refl) (simp_all add: claim_state_def set_account_def Let_def)

lemma same_people_release: "same_people st (release_state i a now st)"
  by (rule same_people_refl) (simp_all add: release_state_def set_account_def Let_def)

lemma same_people_accounts: "same_people st (st\<lparr>st_Accounts := as\<rparr>)"
  by (rule same_people_refl) simp_all

locale people_invariant = command_invariant +
  assumes same: "I st \<Longrightarrow> same_people st st' \<Longrightarrow> I st'"
begin

lemma kept_list:
  assumes "\<not> postgres_mode M"
  shows "safe_op T I (ListAccounts M)"
  using assms norm by (rule safe_ListAccounts) (erule same, rule same_people_accounts)

end

sublocale people_invariant \<subseteq> request_invariant T I may "\<lambda>_ _. True"
  by unfold_locales
    (auto simp: quota_closed_def elim!: same intro: same_people_quota same_people_sweep same_people_claim
      same_people_release same_people_set_account same_people_accounts)

context people_invariant
begin

lemma kept_request:
  assumes m: "\<not> postgres_mode M" and "allowed (\<lambda>_ _. True) may r" "w_now w = T" "I (stored w)"
  shows "w_now (perform M r w) = T \<and> I (stored (perform M r w))"
proof (cases "r = RList")
  case True
  with safe_step [where I = I, OF kept_list [OF m] assms(3,4)] show ?thesis by simp
next
  case False
  with kept_perform [OF m assms(2) _ assms(3,4)] show ?thesis by simp
qed

end

text \<open>Over a run, as such an invariant does not depend on the instant.\<close>

lemma run_people:
  assumes "run M (\<lambda>_. allowed (\<lambda>_ _. True) may) w w'" "\<not> postgres_mode M"
    and inv: "\<And>T. people_invariant T I may" and "I (stored w)"
  shows "I (stored w')"
  using assms(1,2,4)
proof (induction rule: run.induct)
  case (request w w1 r)
  then show ?case using people_invariant.kept_request [OF inv [of "w_now w1"], of M r w1] by blast
next
  case (environment w w1 w2)
  have "same_people (stored w1) (stored w2)"
    using environment.hyps(2) by (simp add: stored_def same_people_time)
  with environment people_invariant.same [OF inv] show ?case by blast
qed

section \<open>Distinct ids and names\<close>

text \<open>Of a migrated state, normalising changes no client or session, and no user but for its name.\<close>

lemma normalize_people:
  assumes "st_UserDeviceMigrated st"
  shows "st_Users (normalizeState now st) = map normalize_user (st_Users st)"
    "st_Clients (normalizeState now st) = st_Clients st"
  using assms by (simp_all add: normalizeState_def migrateUsersAndDevices_def)

lemma normalize_user_simps [simp]:
  "usr_ID (normalize_user u) = usr_ID u" "usr_DisabledAt (normalize_user u) = usr_DisabledAt u"
  by (simp_all add: normalize_user_def)

definition people_ok :: "State \<Rightarrow> bool" where
  "people_ok st \<longleftrightarrow> st_UserDeviceMigrated st \<and>
     (few st \<longrightarrow> distinct (map usr_ID (st_Users st)) \<and> distinct (map usr_Username (st_Users st))
        \<and> distinct (map cli_ID (st_Clients st)) \<and> (\<forall>u \<in> set (st_Users st). user_ok u))"

text \<open>A user or client with id k exists, and every row with that id is barred.\<close>

definition barred :: "('a \<Rightarrow> string) \<Rightarrow> ('a \<Rightarrow> bool) \<Rightarrow> string \<Rightarrow> 'a list \<Rightarrow> bool" where
  "barred f p k xs \<longleftrightarrow> k \<in> set (map f xs) \<and> (\<forall>x \<in> set xs. f x = k \<longrightarrow> p x)"

definition locked_out :: "string \<Rightarrow> State \<Rightarrow> bool" where
  "locked_out k st \<longleftrightarrow> st_UserDeviceMigrated st \<and>
     (few st \<longrightarrow> barred usr_ID (\<lambda>u. usr_DisabledAt u \<noteq> None) k (st_Users st))"

definition revoked :: "string \<Rightarrow> State \<Rightarrow> bool" where
  "revoked k st \<longleftrightarrow> st_UserDeviceMigrated st \<and>
     (few st \<longrightarrow> barred cli_ID (\<lambda>c. cli_RevokedAt c \<noteq> None) k (st_Clients st))"

definition logged_out :: "string \<Rightarrow> State \<Rightarrow> bool" where
  "logged_out k st \<longleftrightarrow> st_UserDeviceMigrated st \<and> (\<forall>s \<in> set (st_Sessions st). ses_UserID s \<noteq> k)"

lemma barred_add: "barred f p k xs \<Longrightarrow> added_row f xs x \<Longrightarrow> length xs < 900 \<Longrightarrow> barred f p k (xs @ [x])"
  by (auto simp: barred_def added_row_def)

lemma barred_update:
  assumes "barred f p k xs" "\<And>x. f (g x) = f x" "\<And>x. f x = k \<Longrightarrow> q x \<Longrightarrow> p x \<Longrightarrow> p (g x)"
  shows "barred f p k (update_first q g xs)"
proof -
  have "map f (update_first q g xs) = map f xs" using assms(2) by (rule map_update_first)
  moreover have "p x" if "x \<in> set (update_first q g xs)" "f x = k" for x
    using set_update_first [OF that(1)] assms that(2) unfolding barred_def by auto
  ultimately show ?thesis using assms(1) unfolding barred_def by auto
qed

lemma barred_map:
  assumes "\<And>x. f (g x) = f x" "\<And>x. p (g x) = p x"
  shows "barred f p k (map g xs) = barred f p k xs"
  using assms by (auto simp: barred_def)

lemma few_normalize: "st_UserDeviceMigrated st \<Longrightarrow> few (normalizeState now (st\<lparr>st_Version := 1\<rparr>)) = few st"
  by (simp add: few_def normalize_people)

lemma same_people_few: "same_people st st' \<Longrightarrow> few st' = few st"
  by (simp add: same_people_def)

lemma same_people_barred:
  assumes "same_people st st'" "few st" "barred usr_ID (\<lambda>u. usr_DisabledAt u \<noteq> None) k (st_Users st)"
  shows "barred usr_ID (\<lambda>u. usr_DisabledAt u \<noteq> None) k (st_Users st')"
proof -
  have "map user_core (st_Users st') = map user_core (st_Users st)"
    using assms(1,2) by (simp add: same_people_def)
  moreover have "barred usr_ID (\<lambda>u. usr_DisabledAt u \<noteq> None) k (map user_core us)
      = barred usr_ID (\<lambda>u. usr_DisabledAt u \<noteq> None) k us" for us
    by (rule barred_map) (simp_all add: user_core_def)
  ultimately show ?thesis using assms(3) by metis
qed

lemma user_ok_core: "user_ok (user_core u) = user_ok u"
  by (simp add: user_ok_def user_core_def)

lemma all_user_ok_iff: "(\<forall>u \<in> set us. user_ok u) \<longleftrightarrow> list_all user_ok (map user_core us)"
  by (simp add: list_all_iff user_ok_core)

lemma map_normalize_user: "\<forall>u \<in> set us. user_ok u \<Longrightarrow> map normalize_user us = us"
  by (simp add: map_idI normalize_user_id)

lemma people_ok_users:
  assumes "distinct (map usr_ID us)" "distinct (map usr_Username us)" "\<forall>u \<in> set us. user_ok u"
    and "added_row usr_ID us u" "length us < 900" "\<forall>v \<in> set us. \<not> equal_fold (usr_Username v) (usr_Username u)" "user_ok u"
  shows "distinct (map usr_ID (us @ [u])) \<and> distinct (map usr_Username (us @ [u])) \<and> (\<forall>v \<in> set (us @ [u]). user_ok v)"
  using assms by (auto simp: added_row_def equal_fold_def)

lemma people_ok_update:
  assumes "distinct (map usr_ID us)" "distinct (map usr_Username us)" "\<forall>u \<in> set us. user_ok u"
    and f: "\<forall>u. usr_ID (f u) = usr_ID u \<and> usr_Username (f u) = usr_Username u"
  shows "distinct (map usr_ID (update_first p f us)) \<and> distinct (map usr_Username (update_first p f us))
    \<and> (\<forall>u \<in> set (update_first p f us). user_ok u)"
proof -
  have "map usr_ID (update_first p f us) = map usr_ID us" "map usr_Username (update_first p f us) = map usr_Username us"
    using f by (simp_all add: map_update_first)
  moreover have "\<forall>u \<in> set (update_first p f us). user_ok u"
    using assms(3) f by (intro list_all_update_first) (auto simp: user_ok_def)
  ultimately show ?thesis using assms(1,2) by simp
qed

interpretation people: people_invariant T people_ok "\<lambda>_. True" for T
proof unfold_locales
  show "norm_closed people_ok"
  proof (rule norm_closedI)
    fix now st assume "people_ok st"
    then show "people_ok (normalizeState now (st\<lparr>st_Version := 1\<rparr>))"
      by (auto simp: people_ok_def few_normalize normalize_people map_normalize_user)
  qed
  fix st assume ok: "people_ok st"
  show "people_ok st'" if c: "change T c st st'" for c st'
  proof (cases "few st'")
    case False
    with ok change_frame [OF c] show ?thesis by (simp add: people_ok_def)
  next
    case True
    then have f: "few st" by (rule change_few [OF c])
    with ok have d: "distinct (map usr_ID (st_Users st))" "distinct (map usr_Username (st_Users st))"
        "\<forall>u \<in> set (st_Users st). user_ok u" "distinct (map cli_ID (st_Clients st))"
      by (simp_all add: people_ok_def)
    have users: "distinct (map usr_ID (st_Users st')) \<and> distinct (map usr_Username (st_Users st'))
        \<and> (\<forall>u \<in> set (st_Users st'). user_ok u)"
      using change_users [OF c]
    proof (elim disjE exE conjE)
      fix u assume "st_Users st' = st_Users st @ [u]" "added_row usr_ID (st_Users st) u"
        "\<forall>v \<in> set (st_Users st). \<not> equal_fold (usr_Username v) (usr_Username u)" "user_ok u"
      with people_ok_users [OF d(1-3), of u] True show ?thesis by (simp add: few_def)
    next
      fix j f assume u: "st_Users st' = update_first (\<lambda>u. usr_ID u = j) f (st_Users st)"
        "\<forall>u. usr_ID (f u) = usr_ID u \<and> usr_Username (f u) = usr_Username u
          \<and> (c \<noteq> Disable (usr_ID u) False \<longrightarrow> usr_ID u = j \<longrightarrow> usr_DisabledAt u \<noteq> None \<longrightarrow> usr_DisabledAt (f u) \<noteq> None)"
      show ?thesis unfolding u(1) by (rule people_ok_update [OF d(1-3)]) (use u(2) in blast)
    qed (use d in simp)
    have "distinct (map cli_ID (st_Clients st'))"
      using change_clients [OF c]
    proof (elim disjE exE conjE)
      fix x assume "st_Clients st' = st_Clients st @ [x]" "added_row cli_ID (st_Clients st) x"
      with d(4) True show ?thesis by (simp add: few_def added_row_def)
    next
      fix k f assume "st_Clients st' = update_first (\<lambda>c. cli_ID c = k) f (st_Clients st)"
        "\<forall>c. cli_ID (f c) = cli_ID c \<and> (cli_RevokedAt c \<noteq> None \<longrightarrow> cli_RevokedAt (f c) \<noteq> None)"
      with d(4) show ?thesis by (simp add: map_update_first)
    qed (use d in simp)
    with users ok change_frame [OF c] show ?thesis by (simp add: people_ok_def)
  qed
  show "people_ok st'" if s: "same_people st st'" for st'
    using ok s same_people_few [OF s] same_people_users [OF s, of usr_ID] same_people_users [OF s, of usr_Username]
    unfolding people_ok_def all_user_ok_iff by (simp add: same_people_def user_core_def)
qed

interpretation locked: people_invariant T "locked_out k" "\<lambda>c. c \<noteq> Disable k False" for T k
proof unfold_locales
  show "norm_closed (locked_out k)"
    by (rule norm_closedI) (simp add: locked_out_def few_normalize normalize_people barred_map)
  fix st assume ok: "locked_out k st"
  show "locked_out k st'" if may: "c \<noteq> Disable k False" and c: "change T c st st'" for c st'
  proof (cases "few st'")
    case False
    with ok change_frame [OF c] show ?thesis by (simp add: locked_out_def)
  next
    case True
    then have f: "few st" by (rule change_few [OF c])
    with ok have b: "barred usr_ID (\<lambda>u. usr_DisabledAt u \<noteq> None) k (st_Users st)" by (simp add: locked_out_def)
    have "barred usr_ID (\<lambda>u. usr_DisabledAt u \<noteq> None) k (st_Users st')"
      using change_users [OF c]
    proof (elim disjE exE conjE)
      fix u assume "st_Users st' = st_Users st @ [u]" "added_row usr_ID (st_Users st) u"
      with barred_add [OF b] True show ?thesis by (simp add: few_def)
    next
      fix j f assume u: "st_Users st' = update_first (\<lambda>u. usr_ID u = j) f (st_Users st)"
        "\<forall>u. usr_ID (f u) = usr_ID u \<and> usr_Username (f u) = usr_Username u
          \<and> (c \<noteq> Disable (usr_ID u) False \<longrightarrow> usr_ID u = j \<longrightarrow> usr_DisabledAt u \<noteq> None \<longrightarrow> usr_DisabledAt (f u) \<noteq> None)"
      show ?thesis unfolding u(1) by (rule barred_update [OF b]) (use u(2) may in auto)
    qed (use b in simp)
    with ok change_frame [OF c] show ?thesis by (simp add: locked_out_def)
  qed
  show "locked_out k st'" if "same_people st st'" for st'
    using ok same_people_few [OF that] same_people_barred [OF that] that
    by (simp add: locked_out_def same_people_def)
qed

interpretation revocation: people_invariant T "revoked k" "\<lambda>_. True" for T k
proof unfold_locales
  show "norm_closed (revoked k)"
    by (rule norm_closedI) (simp add: revoked_def few_normalize normalize_people)
  fix st assume ok: "revoked k st"
  show "revoked k st'" if c: "change T c st st'" for c st'
  proof (cases "few st'")
    case False
    with ok change_frame [OF c] show ?thesis by (simp add: revoked_def)
  next
    case True
    then have f: "few st" by (rule change_few [OF c])
    with ok have b: "barred cli_ID (\<lambda>c. cli_RevokedAt c \<noteq> None) k (st_Clients st)" by (simp add: revoked_def)
    have "barred cli_ID (\<lambda>c. cli_RevokedAt c \<noteq> None) k (st_Clients st')"
      using change_clients [OF c]
    proof (elim disjE exE conjE)
      fix x assume "st_Clients st' = st_Clients st @ [x]" "added_row cli_ID (st_Clients st) x"
      with barred_add [OF b] True show ?thesis by (simp add: few_def)
    next
      fix j f assume u: "st_Clients st' = update_first (\<lambda>c. cli_ID c = j) f (st_Clients st)"
        "\<forall>c. cli_ID (f c) = cli_ID c \<and> (cli_RevokedAt c \<noteq> None \<longrightarrow> cli_RevokedAt (f c) \<noteq> None)"
      show ?thesis unfolding u(1) by (rule barred_update [OF b]) (use u(2) in auto)
    qed (use b in simp)
    with ok change_frame [OF c] show ?thesis by (simp add: revoked_def)
  qed
  show "revoked k st'" if "same_people st st'" for st'
    using ok that by (simp add: revoked_def same_people_def)
qed

lemma change_sessions:
  "change T c st st' \<Longrightarrow> s \<in> set (st_Sessions st') \<Longrightarrow> s \<in> set (st_Sessions st) \<or> c = Login (ses_UserID s)"
  by (induction rule: change.induct)
    (auto simp: create_user_def create_session_def create_device_def revoke_client_def create_workspace_def
      set_membership_def dropUserSessions_def Let_def split: if_splits)

interpretation sessions: people_invariant T "logged_out k" "\<lambda>c. c \<noteq> Login k" for T k
proof unfold_locales
  show "norm_closed (logged_out k)" by (rule norm_closedI) (simp add: logged_out_def)
  fix st assume ok: "logged_out k st"
  show "logged_out k st'" if "c \<noteq> Login k" "change T c st st'" for c st'
    using ok that change_sessions [OF that(2)] change_frame [OF that(2)] by (auto simp: logged_out_def)
  show "logged_out k st'" if "same_people st st'" for st'
    using ok that by (simp add: logged_out_def same_people_def)
qed

section \<open>What establishes them\<close>

lemma barred_first:
  assumes "distinct (map f xs)" "list_ex (\<lambda>x. f x = k) xs" "\<And>x. f (g x) = f x" "\<And>x. p (g x)"
  shows "barred f p k (update_first (\<lambda>x. f x = k) g xs)"
proof -
  have "map f (update_first (\<lambda>x. f x = k) g xs) = map f xs" using assms(3) by (rule map_update_first)
  moreover have "\<forall>x \<in> set (update_first (\<lambda>x. f x = k) g xs). f x = k \<longrightarrow> p x"
    using assms(1)
  proof (induction xs)
    case (Cons x xs)
    then show ?case using assms(3,4) by (cases "f x = k") (auto, metis imageI)
  qed simp
  ultimately show ?thesis using assms(2) by (auto simp: barred_def list_ex_iff)
qed

lemma barred_set: "barred f p k xs \<Longrightarrow> x \<in> set xs \<Longrightarrow> f x = k \<Longrightarrow> p x"
  by (auto simp: barred_def)

lemma few_update_first: "few (st\<lparr>st_Users := update_first p f (st_Users st), st_Sessions := ss\<rparr>) = few st"
  "few (st\<lparr>st_Clients := update_first q g (st_Clients st)\<rparr>) = few st"
  by (simp_all add: few_def)

lemma locked_out_disable:
  assumes "people_ok st" "list_ex (\<lambda>u. usr_ID u = k) (st_Users st)"
  shows "locked_out k (st\<lparr>st_Users := update_first (\<lambda>u. usr_ID u = k)
     (\<lambda>u. u\<lparr>usr_DisabledAt := Some T, usr_UpdatedAt := T\<rparr>) (st_Users st), st_Sessions := ss\<rparr>)"
  using assms by (auto simp: locked_out_def people_ok_def few_update_first intro!: barred_first)

lemma disable_locks_out:
  assumes m: "\<not> postgres_mode M"
  shows "gives_op T people_ok (SetUserDisabled M k True) (\<lambda>_. locked_out k)"
  unfolding SetUserDisabled_def persistAfterSessionDelete_def Let_def
  by (simp only: if_True simp_thms)
    (intro file_store.gives_intros file_store.gives_safe_bind safe_postgres_only file_store.gives_save m;
      auto intro!: locked.norm [unfolded file_store.norm_closed_def, rule_format] locked_out_disable)

lemma password_logs_out:
  assumes m: "\<not> postgres_mode M"
  shows "gives_op T (\<lambda>st. st_UserDeviceMigrated st) (SetUserPassword M k pw) (\<lambda>_. logged_out k)"
  unfolding SetUserPassword_def persistAfterSessionDelete_def Let_def
  by (intro file_store.gives_intros file_store.gives_safe_bind safe_postgres_only safe_hashPassword file_store.gives_save m)
    (auto simp: logged_out_def dropUserSessions_def)

lemma revoke_revokes:
  assumes m: "\<not> postgres_mode M"
  shows "gives_op T people_ok (RevokeDevice M k) (\<lambda>_. revoked k)"
proof -
  have "revoked k (normalizeState T (st'\<lparr>st_Version := 1\<rparr>))"
    if "people_ok st" "revoke_client k e T st = Commit st' x" for st st' e x
  proof (rule revocation.norm [unfolded file_store.norm_closed_def, rule_format])
    from that show "revoked k st'"
      by (auto simp: revoke_client_def revoked_def people_ok_def few_update_first intro!: barred_first split: if_splits)
  qed
  then show ?thesis
    unfolding RevokeDevice_def Let_def
    by (intro file_store.gives_intros m)
      (auto split: outcome.splits intro!: file_store.gives_safe_bind safe_postgres_only file_store.gives_save m
        file_store.gives_throw simp: revoke_client_def split: if_splits)
qed

section \<open>What the lookups return\<close>

lemma lookup_Some:
  assumes "\<not> postgres_mode M" "lookup M f w = (Inr (Some x), w')"
  shows "f (stored w) = Some x"
proof -
  obtain r w1 where 1: "Load M w = (r, w1)" by fastforce
  with assms Load_same [OF assms(1) 1] show ?thesis by (cases r) (auto simp: lookup_def)
qed

lemma AuthenticateUser_Some:
  assumes "\<not> postgres_mode M" "AuthenticateUser M name pw w = (Inr (Some v), w')"
  shows "\<exists>u \<in> set (st_Users (stored w)). v = userView u (stored w) \<and> usr_DisabledAt u = None
     \<and> equal_fold (usr_Username u) (to_lower (trim_space name)) \<and> checkPassword M (usr_PasswordHash u) pw"
proof -
  have "authenticate_user M (stored w) (to_lower (trim_space name)) pw = Some v"
    using assms lookup_Some [OF assms(1)] by (auto simp: AuthenticateUser_def Let_def split: if_splits)
  then show ?thesis
    by (auto simp: authenticate_user_def split: option.splits if_splits dest!: find_SomeD)
qed

lemma ResolveSession_Some:
  assumes "\<not> postgres_mode M" "ResolveSession M token w = (Inr (Some (v, k)), w')"
  shows "\<exists>s \<in> set (st_Sessions (stored w)). ses_ID s = k \<and> ses_TokenHash s = hashToken M token
     \<and> ses_UserID s = uv_ID v \<and> (ses_ExpiresAt s = zero_time \<or> w_now w < ses_ExpiresAt s)
     \<and> (\<exists>u \<in> set (st_Users (stored w)). v = userView u (stored w) \<and> usr_DisabledAt u = None)"
proof -
  have "resolve_session (w_now w) (stored w) (hashToken M token) = Some (v, k)"
    using assms lookup_Some [OF assms(1)]
    by (auto simp: ResolveSession_def bindE_def nowE_def getsE_def Let_def hashToken_def split: if_splits)
  then show ?thesis
    by (fastforce simp: resolve_session_def userView_def split: option.splits if_splits dest!: find_SomeD)
qed

lemma AuthenticateDeviceToken_Some:
  assumes "\<not> postgres_mode M" "AuthenticateDeviceToken M token w = (Inr (Some (v, u)), w')"
  shows "\<exists>c \<in> set (st_Clients (stored w)). v = clientView c \<and> u = cli_UserID c \<and> cli_RevokedAt c = None
     \<and> cli_TokenHash c = hashToken M token"
proof -
  have "map_option (\<lambda>c. (clientView c, cli_UserID c)) (authenticate_token (stored w) (hashToken M token)) = Some (v, u)"
    using assms(2) lookup_Some [OF assms(1), of "\<lambda>st. map_option (\<lambda>c. (clientView c, cli_UserID c))
        (authenticate_token st (hashToken M token))" w "(v, u)" w']
    by (simp add: AuthenticateDeviceToken_def Let_def hashToken_def split: if_splits)
  then show ?thesis by (auto simp: authenticate_token_def dest!: find_SomeD)
qed

lemma clientView_simps [simp]: "cv_ID (clientView c) = cli_ID c"
  by (simp add: clientView_def)

lemma userView_simps [simp]: "uv_ID (userView u st) = usr_ID u"
  by (simp add: userView_def)

section \<open>A new device is let in, a grant is looked up\<close>

lemma generateDeviceToken_Inr:
  assumes "generateDeviceToken w = (Inr token, w1)"
  shows "stored w1 = stored w \<and> w_now w1 = w_now w \<and> (\<exists>r. token = ''cube_dev_'' @ r)"
  using assms by (auto simp: generateDeviceToken_def bindE_def randE_def stored_def returnE_def
      simp del: append_Cons split: list.splits)

lemma token_not_blank: "trim_space (''cube_dev_'' @ r) \<noteq> []"
  using not_blank_if [of "CHR ''c''" "''cube_dev_'' @ r"] alnum_not_ws [of "CHR ''c''"]
  by (simp add: blank_def is_alnum_def is_lower_def)

lemma lookup_eval: "\<not> postgres_mode M \<Longrightarrow> w_faults w = [] \<Longrightarrow> lookup M f w = (Inr (f (stored w)), w)"
  by (simp add: lookup_def Load_eval)

lemma update_stored:
  assumes "\<not> postgres_mode M" "update_state M f w = (Inr x, w')"
  shows "(f (w_now w) (stored w) = Skip x \<and> stored w' = stored w)
     \<or> (\<exists>st. f (w_now w) (stored w) = Commit st x \<and> stored w' = normalizeState (w_now w) (st\<lparr>st_Version := 1\<rparr>))"
  using file_store.locked_update [OF assms] by (auto simp: file_store.updated_def)

lemma migrated_stored: "st_UserDeviceMigrated (stored w)"
  by (simp add: stored_def)

lemma created_device:
  assumes "\<not> postgres_mode M" "CreateDevice M u label w = (Inr (v, token), w')"
  shows "\<exists>c. v = clientView c \<and> cli_UserID c = trim_space u \<and> cli_TokenHash c = hashToken M token \<and> cli_RevokedAt c = None
     \<and> st_Clients (stored w') = st_Clients (stored w) @ [c] \<and> trim_space token \<noteq> []
     \<and> userExists (stored w) (trim_space u)"
proof -
  define l where "l = (if trim_space label = [] then ''device'' else trim_space label)"
  obtain tok w1 where 1: "generateDeviceToken w = (Inr tok, w1)"
    and 2: "update_state M (create_device (trim_space u) l tok (hashToken M tok)) w1 = (Inr (v, token), w')"
    using assms(2) by (auto simp: CreateDevice_def Let_def l_def elim!: bindE_InrE split: if_splits)
  note g = generateDeviceToken_Inr [OF 1]
  define c where "c = new_client (uniqueFromUsed (''device-'' @ l) (map cli_ID (st_Clients (stored w))) (w_now w))
      (trim_space u) l (hashToken M tok) (w_now w)"
  have "userExists (stored w) (trim_space u) \<and> v = clientView c \<and> token = tok
    \<and> stored w' = normalizeState (w_now w) ((stored w)\<lparr>st_Clients := st_Clients (stored w) @ [c]\<rparr>\<lparr>st_Version := 1\<rparr>)"
    using update_stored [OF assms(1) 2] g
    by (auto simp: create_device_def Let_def c_def split: if_splits)
  moreover from this have "st_Clients (stored w') = st_Clients (stored w) @ [c]"
    by (simp add: normalize_people migrated_stored)
  ultimately show ?thesis using g token_not_blank by (auto simp: c_def new_client_def)
qed

lemma device_let_in:
  assumes m: "\<not> postgres_mode M" and c: "CreateDevice M u label w = (Inr (v, token), w')"
    and h: "hashToken M token \<noteq> []" "\<forall>c \<in> set (st_Clients (stored w)). cli_TokenHash c \<noteq> hashToken M token"
    and "w_faults w' = []"
  shows "AuthenticateDeviceToken M token w' = (Inr (Some (v, trim_space u)), w')"
proof -
  obtain c where c: "v = clientView c" "cli_UserID c = trim_space u" "cli_TokenHash c = hashToken M token"
      "cli_RevokedAt c = None" "st_Clients (stored w') = st_Clients (stored w) @ [c]" "trim_space token \<noteq> []"
    using created_device [OF m c] by blast
  have none: "authenticate_token ((stored w')\<lparr>st_Clients := st_Clients (stored w)\<rparr>) (hashToken M token) = None"
    using h(2) by (auto simp: authenticate_token_def find_None_iff)
  have "authenticate_token (stored w') (hashToken M token) = Some c"
    using none h(1) c by (simp add: authenticate_token_def find_append)
  moreover have "hashToken M (trim_space token) = hashToken M token" by (simp add: hashToken_def)
  ultimately show ?thesis
    using c assms(5) m by (simp add: AuthenticateDeviceToken_def Let_def lookup_eval)
qed

text \<open>Memberships go through normalising a migrated state unchanged, unless it is a legacy pool.\<close>

lemma stored_not_legacy: "\<not> legacyFlatPool (stored w)"
proof -
  have "legacyFlatPool (migrateUsersAndDevices now st) = legacyFlatPool st" for now st
    by (simp add: legacyFlatPool_def)
  then show ?thesis
    unfolding stored_def normalizeState_def by (simp only: migrateDefaultWorkspace_settled not_False_eq_True)
qed

lemma normalize_memberships:
  assumes "st_UserDeviceMigrated st" "\<not> legacyFlatPool st"
  shows "st_Memberships (normalizeState now st) = st_Memberships st"
  using assms by (simp add: normalizeState_def migrateUsersAndDevices_def migrateDefaultWorkspace_def legacyFlatPool_def)

lemma granted_role:
  assumes m: "\<not> postgres_mode M" and s: "SetMembership M k who role w = (Inr (), w')"
  shows "role_in (stored w') (trim_space k) (trim_space who) = Some role
     \<and> filter (\<lambda>m. ms_WorkspaceID m \<noteq> trim_space k) (st_Memberships (stored w'))
       = filter (\<lambda>m. ms_WorkspaceID m \<noteq> trim_space k) (st_Memberships (stored w))"
proof -
  have t: "trim_space who \<noteq> []" and u: "update_state M (set_membership (trim_space k) (trim_space who) role) w = (Inr (), w')"
    using s by (auto simp: SetMembership_def Let_def withMu_def lockMu_def deferE_def bindE_def throwE_def
        split: if_splits prod.splits sum.splits)
  obtain st where st: "set_membership (trim_space k) (trim_space who) role (w_now w) (stored w) = Commit st ()"
      "stored w' = normalizeState (w_now w) (st\<lparr>st_Version := 1\<rparr>)"
    using update_stored [OF m u] by (auto simp: set_membership_def Let_def split: if_splits)
  have "st_UserDeviceMigrated st" "\<not> legacyFlatPool st"
    using st(1) stored_not_legacy [of w] migrated_stored [of w]
    by (auto simp: set_membership_def Let_def legacyFlatPool_def split: if_splits)
  then have "st_Memberships (stored w') = st_Memberships st"
    unfolding st(2) by (subst normalize_memberships) (auto simp: legacyFlatPool_def)
  with set_membership_role [OF t st(1)] show ?thesis by (simp add: role_in_def)
qed

lemma withdrawn_role:
  assumes m: "\<not> postgres_mode M" and s: "RemoveMembership M k who w = (Inr (), w')"
  shows "role_in (stored w') k who = None"
proof -
  let ?p = "\<lambda>m. ms_WorkspaceID m = k \<and> membershipMatches m who"
  have "gives_op (w_now w) (\<lambda>st. st_UserDeviceMigrated st \<and> \<not> legacyFlatPool st) (RemoveMembership M k who)
      (\<lambda>_ st. role_in st k who = None)"
    unfolding RemoveMembership_def Let_def
    by (intro file_store.gives_intros file_store.gives_save m)
      (use m in \<open>auto simp: role_in_def find_None_iff normalize_memberships legacyFlatPool_def\<close>)
  from file_store.givesD [OF this refl _ s] stored_not_legacy migrated_stored show ?thesis by blast
qed

lemma user_member_unresolved:
  assumes "\<not> postgres_mode M" "clientID \<noteq> []" "\<forall>m \<in> set (st_Memberships (stored w)). ms_ClientID m \<noteq> clientID"
  shows "\<exists>e w'. ResolveWorkspaceForClient M clientID requested w = (Inl e, w')"
proof -
  obtain r w1 where 1: "Load M w = (r, w1)" by fastforce
  show ?thesis
    using Load_same [OF assms(1) 1] resolve_needs_client_id [OF assms(2,3), of "trim_space requested"] 1
    by (cases r) (auto simp: ResolveWorkspaceForClient_def)
qed

lemma empty_people_ok: "w_disk w = None \<Longrightarrow> people_ok (stored w)"
  by (simp add: people_ok_def stored_def normalizeState_def migrateUsersAndDevices_def zero_State_def)

end
