(* ===== verification/Sample.thy ===== *)
theory Sample
  imports AccessRun PgStore
begin

text \<open>
  A small deployment on which the properties are applied: a manager in file mode, two
  cloud accounts with their credentials and a probed quota, and the second day of the year 1 (dates further on only take longer to evaluate).
\<close>

text \<open>An encoding without dollar signs stands for base64, a padding for PBKDF2.\<close>

fun esc :: "string \<Rightarrow> string" where
  "esc [] = []"
| "esc (c # s) = (if c = CHR ''$'' then ''~d'' @ esc s else if c = CHR ''~'' then ''~~'' @ esc s else c # esc s)"

fun unesc :: "string \<Rightarrow> string option" where
  "unesc [] = Some []"
| "unesc [c] = (if c = CHR ''~'' then None else Some [c])"
| "unesc (c # d # s) =
     (if c = CHR ''~'' then map_option (Cons (if d = CHR ''d'' then CHR ''$'' else CHR ''~'')) (unesc s)
      else map_option (Cons c) (unesc (d # s)))"

definition sample_manager :: Manager where
  "sample_manager = \<lparr>env_json = (\<lambda>_. None), env_json64 = (\<lambda>_. None), env_b64_encode = esc,
     env_b64_decode = unesc, env_sha256 = (\<lambda>s. s),
     env_pbkdf2 = (\<lambda>p s n l. take l (p @ replicate l (CHR ''x''))),
     env_cwd = ''/srv'', env_home = Some ''/root'', env_codex_home = [],
     m_StateDir = ''/root/.cube20'', m_AccountsDir = ''/acc'', m_LiveCodexHome = ''/root/.codex'',
     m_CloudURL = [], m_CloudToken = [], m_DatabaseURL = []\<rparr>"

definition sample_now :: time where "sample_now = parseRFC3339 ''0001-01-02T12:00:00Z''"

definition sample_window :: Window where
  "sample_window = \<lparr>win_Key = ''five_hour'', win_Label = ''5h'', win_UsedPercent = 30,
     win_RemainingPercent = 70, win_ResetsAt = ''0001-01-02T16:00:00Z'', win_UsedDisplay = ''30%'',
     win_RemainingDisplay = ''70%'', win_Stale = False\<rparr>"

definition sample_quota :: "string \<Rightarrow> QuotaCache" where
  "sample_quota k = zero_QuotaCache\<lparr>qc_AccountID := k,
     qc_Result := zero_Result\<lparr>res_Status := StatusSupported, res_Quotas := [sample_window]\<rparr>,
     qc_FiveHour := Some sample_window\<rparr>"

definition sample_account :: "string \<Rightarrow> Account" where
  "sample_account k = (new_account k k (''/acc/'' @ k) 0)\<lparr>acc_WorkspaceID := DefaultWorkspaceID\<rparr>"

definition sample_state :: State where
  "sample_state = zero_State\<lparr>st_Version := 1, st_Accounts := [sample_account ''a'', sample_account ''b''],
     st_Workspaces := [default_workspace 0], st_WorkspaceMigrated := True, st_UserDeviceMigrated := True,
     st_QuotaCache := [(''a'', sample_quota ''a''), (''b'', sample_quota ''b'')]\<rparr>"

definition sample_world :: World where
  "sample_world = \<lparr>w_disk = Some sample_state, w_rr = None, w_db = empty_db,
     w_files = [(auth_path ''/acc/a'', (Doc (JObj []), 0)), (auth_path ''/acc/b'', (Doc (JObj []), 0))],
     w_dirs = [], w_now = sample_now, w_rand = [''r1'', ''r2'', ''r3''], w_usage_answers = [],
     w_refresh_answers = [], w_faults = [], w_mu = False, w_flock = False\<rparr>"


lemma sample_now_eq: "sample_now = 129600000000000" by code_simp

lemma sample_mode [simp]: "\<not> postgres_mode sample_manager"
  by (simp add: postgres_mode_def sample_manager_def)

lemma sample_calm [simp]: "calm sample_world" by (simp add: calm_def sample_world_def)

lemma sample_fields [simp]:
  "w_now sample_world = sample_now" "w_rand sample_world = ''r1'' # [''r2'', ''r3'']"
  by (simp_all add: sample_world_def)

lemma sample_stored: "stored sample_world = sample_state" by code_simp

lemma sample_ids: "ids_distinct (stored sample_world)"
  unfolding sample_stored by code_simp

lemma sample_may_lease:
  "may_lease OwnerCloud StatusReady True False (sample_quota k) sample_now"
proof -
  have "may_lease OwnerCloud StatusReady True False (sample_quota ''a'') sample_now \<longleftrightarrow>
      may_lease OwnerCloud StatusReady True False (sample_quota k) sample_now"
    by (simp add: may_lease_def sample_quota_def)
  moreover have "ev_Eligible (evaluateLoadBalanceFields OwnerCloud StatusReady True False 0 (sample_quota ''a'') sample_now)"
    by code_simp
  ultimately show ?thesis by (simp add: eligible_iff)
qed

lemma sample_accounts: "st_Accounts sample_state = [sample_account ''a'', sample_account ''b'']"
  by (simp add: sample_state_def)

text \<open>The deployment after a claim: account a is leased by the client c1 for 90 seconds.\<close>

definition leased_account :: Account where
  "leased_account = claim_account ''lease_r1'' ''c1'' ''host'' 0 sample_now (sample_account ''a'')"

definition leased_world :: World where
  "leased_world = sample_world\<lparr>w_disk := Some (set_account 0 leased_account sample_state)\<rparr>"

abbreviation lease_end :: time where "lease_end \<equiv> sample_now + 90 * second"

lemma leased_stored: "stored leased_world = set_account 0 leased_account sample_state"
  by code_simp

lemma leased_holds: "holds ''a'' ''lease_r1'' ''c1'' lease_end sample_now (stored leased_world)"
proof -
  have m: "leased_account \<in> set (st_Accounts (stored leased_world))"
    by (simp add: leased_stored set_account_def sample_accounts)
  have f: "acc_ID leased_account = ''a''" "acc_LeaseID leased_account = ''lease_r1''"
      "acc_LeaseClientID leased_account = ''c1''" "acc_LeaseExpiresAt leased_account = lease_end"
      "accountLeaseActive leased_account sample_now" by code_simp+
  show ?thesis unfolding holds_def by (intro bexI [OF _ m] conjI f)
qed

lemma leased_ids: "ids_distinct (stored leased_world)"
  unfolding leased_stored by code_simp

lemma leased_fields [simp]: "calm leased_world" "w_now leased_world = sample_now"
  by (simp_all add: leased_world_def calm_def sample_world_def)

section \<open>What the operations do there\<close>

lemma sample_fresh: "\<forall>a \<in> set (st_Accounts (stored sample_world)). \<not> lease_expired a (w_now sample_world)"
  by (simp add: sample_stored sample_accounts sample_account_def new_account_def lease_expired_def)

lemma sample_member: "sample_account ''a'' \<in> set (st_Accounts (stored sample_world))"
  by (simp add: sample_stored sample_accounts)

lemma sample_pool: "trim_space ''default'' = [] \<or>
    workspaceOrDefault (acc_WorkspaceID (sample_account ''a'')) = trim_space ''default''"
  by code_simp

lemma sample_auth: "accountAuthPresent sample_world (sample_account ''a'')"
  "accountAuthPresent leased_world (sample_account ''b'')"
  by code_simp+

lemma sample_account_fields [simp]:
  "acc_OwnerMode (sample_account k) = OwnerCloud" "acc_Status (sample_account k) = StatusReady"
  "acc_ID (sample_account k) = k" "acc_LeaseID (sample_account k) = []"
  "acc_WorkspaceID (sample_account k) = DefaultWorkspaceID"
  by (simp_all add: sample_account_def new_account_def)

lemma sample_idle: "\<not> accountLeaseActive (sample_account k) now"
  by (simp add: accountLeaseActive_def)

lemma sample_eligible:
  "may_lease (acc_OwnerMode (sample_account ''a'')) (acc_Status (sample_account ''a''))
     (accountAuthPresent sample_world (sample_account ''a''))
     (accountLeaseActive (sample_account ''a'') (w_now sample_world))
     (quota_of (stored sample_world) (acc_ID (sample_account ''a''))) (w_now sample_world)"
proof -
  have "quota_of (stored sample_world) ''a'' = sample_quota ''a''"
    by (simp add: sample_stored quota_of_def sample_state_def)
  with sample_may_lease [of "''a''"] show ?thesis by (simp add: sample_auth sample_idle)
qed

lemma sample_claim: "\<exists>s w'. ClaimLease sample_manager cid holder [] ttl sample_world = (Inr s, w')"
  by (rule claim_possible [OF sample_mode sample_calm sample_fields(2) sample_ids sample_fresh sample_member
        _ sample_eligible]) simp

lemma leased_accounts: "st_Accounts (stored leased_world) = [leased_account, sample_account ''b'']"
  by (simp add: leased_stored set_account_def sample_accounts)

lemma leased_fresh: "\<forall>a \<in> set (st_Accounts (stored leased_world)). \<not> lease_expired a sample_now"
proof -
  have "\<not> lease_expired leased_account sample_now" by code_simp
  then show ?thesis by (simp add: leased_accounts) (simp add: lease_expired_def)
qed

lemma leased_claim: "\<exists>s w'. ClaimLease sample_manager cid holder [] ttl leased_world = (Inr s, w')"
proof (rule claim_possible [OF sample_mode leased_fields(1) _ leased_ids])
  show "w_rand leased_world = ''r1'' # [''r2'', ''r3'']" by (simp add: leased_world_def)
  show "\<forall>a \<in> set (st_Accounts (stored leased_world)). \<not> lease_expired a (w_now leased_world)"
    using leased_fresh by simp
  note s = leased_accounts
  show "sample_account ''b'' \<in> set (st_Accounts (stored leased_world))" by (simp add: s)
  have "quota_of (stored leased_world) ''b'' = sample_quota ''b''"
    by (simp add: leased_stored set_account_def quota_of_def sample_state_def)
  with sample_may_lease [of "''b''"]
  show "may_lease (acc_OwnerMode (sample_account ''b'')) (acc_Status (sample_account ''b''))
     (accountAuthPresent leased_world (sample_account ''b''))
     (accountLeaseActive (sample_account ''b'') (w_now leased_world))
     (quota_of (stored leased_world) (acc_ID (sample_account ''b''))) (w_now leased_world)"
    by (simp add: sample_auth sample_idle)
qed simp

lemma leased_swept: "sweep (stored leased_world) (w_now leased_world) = stored leased_world"
  using expire_settled [of "stored leased_world" sample_now] leased_fresh by (simp add: sweep_def)

lemma leased_release: "\<exists>w'. ReleaseLease sample_manager ''a'' ''lease_r1'' ''c1'' leased_world = (Inr (), w')"
proof -
  have f: "findLeaseAccount (sweep (stored leased_world) (w_now leased_world)) ''a'' ''lease_r1'' = Inr (0, leased_account)"
    unfolding leased_swept unfolding leased_stored by code_simp
  have v: "validateLease leased_account ''lease_r1'' ''c1'' (w_now leased_world) = None" by code_simp
  from release_eval [OF sample_mode leased_fields(1) f v] show ?thesis by blast
qed

text \<open>Two minutes later nobody has renewed the lease.\<close>

definition overdue_world :: World where
  "overdue_world = leased_world\<lparr>w_now := sample_now + 120 * second\<rparr>"

lemma overdue_facts:
  "calm overdue_world"
  "findLeaseAccount (sweep (stored overdue_world) (w_now overdue_world)) ''b'' ''nope'' =
     Inl (ErrText (''lease '' @ quoted ''nope'' @ '' for account '' @ quoted ''b'' @ '' not found''))"
  "leased_account \<in> set (st_Accounts (stored overdue_world))"
  "lease_expired leased_account (w_now overdue_world)" "acc_Status leased_account = StatusReady"
proof -
  have s: "stored overdue_world = set_account 0 leased_account sample_state" by code_simp
  show "calm overdue_world" by (simp add: overdue_world_def calm_def leased_world_def sample_world_def)
  show "leased_account \<in> set (st_Accounts (stored overdue_world))"
    by (simp add: s set_account_def sample_accounts)
  show "findLeaseAccount (sweep (stored overdue_world) (w_now overdue_world)) ''b'' ''nope'' =
     Inl (ErrText (''lease '' @ quoted ''nope'' @ '' for account '' @ quoted ''b'' @ '' not found''))"
  proof -
    have t: "trim_space ''nope'' = ''nope''" "trim_space ''b'' = ''b''"
        "acc_LeaseID leased_account = ''lease_r1''" "acc_ID leased_account = ''a''" by code_simp+
    show ?thesis
      unfolding s findLeaseAccount_def sweep_accounts set_account_def Let_def t
      by (simp add: sample_accounts t)
  qed
  show "lease_expired leased_account (w_now overdue_world)" "acc_Status leased_account = StatusReady"
    by code_simp+
qed

section \<open>Its encodings\<close>

lemma unesc_esc: "unesc (esc s) = Some s"
proof (induction s)
  case (Cons c s)
  then show ?case by (cases "esc s") auto
qed simp

lemma sample_b64: "env_b64_decode sample_manager (env_b64_encode sample_manager s) = Some s"
  by (simp add: sample_manager_def unesc_esc)

lemma sample_b64_text: "CHR ''$'' \<notin> set (env_b64_encode sample_manager s)"
proof -
  have "CHR ''$'' \<notin> set (esc s)" by (induction s) auto
  then show ?thesis by (simp add: sample_manager_def)
qed

lemma sample_pbkdf2: "length (env_pbkdf2 sample_manager p s pbkdf2Iterations pbkdf2KeyLen) = pbkdf2KeyLen"
  by (simp add: sample_manager_def)

section \<open>A legacy device, and a membership in Postgres\<close>

definition legacy_client :: Client where
  "legacy_client = \<lparr>cli_ID = ''c1'', cli_UserID = [], cli_Label = ''Laptop'', cli_TokenHash = ''h'',
     cli_CreatedAt = 0, cli_LastSeenAt = 0, cli_RevokedAt = None\<rparr>"

definition sample_member_state :: State where
  "sample_member_state = zero_State\<lparr>st_Version := 1, st_UserDeviceMigrated := True, st_Memberships :=
     [\<lparr>ms_WorkspaceID = ''team'', ms_UserID = [], ms_ClientID = ''c1'', ms_Role = RoleMember, ms_CreatedAt = 0\<rparr>]\<rparr>"

lemma sample_member_state_ok: "state_ok sample_member_state" by code_simp

lemma sample_delete_save:
  "\<exists>w1 w'. deletePostgresMembership ''team'' ''c1'' sample_world = (Inr (), w1)
     \<and> savePostgresState sample_manager sample_member_state w1 = (Inr (), w')"
proof -
  have d: "deletePostgresMembership ''team'' ''c1'' sample_world = (Inr (), sample_world)"
    by (simp add: deletePostgresMembership_def bindE_def stepE_def modifyE_def sample_world_def empty_db_def)
  have p: "membership_principal \<lparr>ms_WorkspaceID = ''team'', ms_UserID = [], ms_ClientID = ''c1'',
      ms_Role = RoleMember, ms_CreatedAt = 0\<rparr> = ''c1''" "trim_space ''team'' = ''team''" by code_simp+
  have "fst (savePostgresState sample_manager sample_member_state sample_world) = Inr ()"
    unfolding savePostgresState_def nowE_def getsE_def bindE_def
    by (simp add: normalizeState_id sample_member_state_ok)
      (simp add: sample_member_state_def save_body_def pgTx_def save_membership_def p pgExec_def bindE_def returnE_def
        save_meta_def zero_State_def stepE_def sample_world_def)
  then show ?thesis using d by (cases "savePostgresState sample_manager sample_member_state sample_world") auto
qed

section \<open>Two users, a device and a session\<close>

definition sample_user :: "string \<Rightarrow> string \<Rightarrow> User" where
  "sample_user k name = \<lparr>usr_ID = k, usr_Username = name, usr_PasswordHash = [], usr_CreatedAt = 0,
     usr_UpdatedAt = 0, usr_LastLoginAt = 0, usr_DisabledAt = None\<rparr>"

definition people_state :: State where
  "people_state = sample_state\<lparr>st_Users := [sample_user ''u1'' ''ann'', sample_user ''u2'' ''bob''],
     st_Clients := [legacy_client\<lparr>cli_UserID := ''u1''\<rparr>],
     st_Sessions := [\<lparr>ses_ID = ''s1'', ses_TokenHash = ''cube_ses_x'', ses_UserID = ''u1'', ses_CreatedAt = 0,
       ses_ExpiresAt = 0, ses_LastSeenAt = 0\<rparr>]\<rparr>"

definition people_world :: World where
  "people_world = sample_world\<lparr>w_disk := Some people_state\<rparr>"

lemma people_stored: "stored people_world = people_state" by code_simp

lemma people_calm [simp]: "calm people_world"
  by (simp add: people_world_def calm_def sample_world_def)

lemma people_well: "people_ok (stored people_world)"
  unfolding people_stored by (simp add: people_ok_def people_state_def sample_state_def sample_user_def user_ok_def)
    (code_simp)

lemma people_few: "few (stored people_world)"
  unfolding people_stored by (simp add: few_def people_state_def)

lemma people_rand [simp]: "w_rand people_world = [''r1'', ''r2'', ''r3'']"
  by (simp add: people_world_def)

lemma people_trims: "trim_space ''u2'' = ''u2''" "trim_space ''mac'' = ''mac''" "trim_space ''default'' = ''default''"
  by code_simp+

lemmas mu_eval = withMu_def deferE_def unlockMu_def Load_eval Save_eval whenE_def calm_def Let_def

lemma people_disable: "\<exists>w'. SetUserDisabled sample_manager ''u1'' True people_world = (Inr (), w')"
  using people_calm people_stored
  by (simp add: SetUserDisabled_def persistAfterSessionDelete_def mu_eval people_state_def sample_user_def)

lemma people_password: "\<exists>w'. SetUserPassword sample_manager ''u1'' ''secret'' people_world = (Inr (), w')"
  using people_calm people_stored
  by (simp add: SetUserPassword_def persistAfterSessionDelete_def mu_eval people_state_def sample_user_def
      hashPassword_def randE_def)

lemma people_revoke: "\<exists>w'. RevokeDevice sample_manager ''c1'' people_world = (Inr (), w')"
  using people_calm people_stored
  by (simp add: RevokeDevice_def revoke_client_def mu_eval people_state_def legacy_client_def)

lemma people_device: "\<exists>v w'. CreateDevice sample_manager ''u2'' ''mac'' people_world = (Inr (v, ''cube_dev_r1''), w')
   \<and> w_faults w' = []"
  using people_calm people_stored
  by (simp add: CreateDevice_def create_device_def mu_eval people_state_def legacy_client_def sample_user_def
      generateDeviceToken_def randE_def locked_update_def finish_update_def userExists_def people_trims)

lemma people_grant: "\<exists>w'. SetMembership sample_manager ''default'' ''u2'' RoleAdmin people_world = (Inr (), w')"
  using people_calm people_stored
  by (simp add: SetMembership_def set_membership_def mu_eval people_state_def sample_user_def
      locked_update_def finish_update_def userExists_def people_trims workspaceExists_def sample_state_def
      default_workspace_def DefaultWorkspaceID_def)

text \<open>None of this makes the store large.\<close>

lemma people_disable_few:
  assumes "SetUserDisabled sample_manager ''u1'' True people_world = (Inr (), w)"
  shows "few (stored w)"
proof -
  have "few (stored (snd (SetUserDisabled sample_manager ''u1'' True people_world)))"
    using people_calm people_stored
    by (simp add: SetUserDisabled_def persistAfterSessionDelete_def mu_eval people_state_def sample_user_def few_def
        normalize_people sample_state_def)
  with assms show ?thesis by simp
qed

lemma people_revoke_few:
  assumes "RevokeDevice sample_manager ''c1'' people_world = (Inr (), w)"
  shows "few (stored w)"
proof -
  have "few (stored (snd (RevokeDevice sample_manager ''c1'' people_world)))"
    using people_calm people_stored
    by (simp add: RevokeDevice_def revoke_client_def mu_eval people_state_def legacy_client_def few_def
        normalize_people sample_state_def)
  with assms show ?thesis by simp
qed

lemma sample_new_user_few:
  "few (stored (perform sample_manager (RCommand (NewUser ''Ann'' ''secret'')) (sample_world\<lparr>w_disk := None\<rparr>)))"
proof -
  let ?m = "CreateUser sample_manager ''Ann'' ''secret''"
  let ?w = "sample_world\<lparr>w_disk := None\<rparr>"
  have e: "to_lower (trim_space ''Ann'') = ''ann''" by code_simp
  have empty: "st_Users (stored ?w) = []" "st_Clients (stored ?w) = []"
    by (simp_all add: stored_def normalizeState_def migrateUsersAndDevices_def zero_State_def)
  have w: "calm ?w" "w_rand ?w = [''r1'', ''r2'', ''r3'']" by (simp_all add: calm_def sample_world_def)
  have "few (stored (snd (?m ?w)))"
    using w by (simp add: CreateUser_def e few_def hashPassword_def randE_def locked_update_def finish_update_def
        create_user_def mu_eval empty normalize_people migrated_stored del: World.simps)
  then show ?thesis by simp
qed

definition user_membership :: Membership where
  "user_membership = \<lparr>ms_WorkspaceID = ''default'', ms_UserID = ''u1'', ms_ClientID = [], ms_Role = RoleMember,
     ms_CreatedAt = 0\<rparr>"

definition people_member_world :: World where
  "people_member_world = sample_world\<lparr>w_disk := Some (people_state\<lparr>st_Memberships := [user_membership]\<rparr>)\<rparr>"

lemma people_member_stored: "stored people_member_world = people_state\<lparr>st_Memberships := [user_membership]\<rparr>"
  by code_simp

end
