(* ===== verification/UsageScan.thy ===== *)
theory UsageScan
  imports Io Go_Sort
begin

text \<open>
  The usage scanner (\<open>internal/usage\<close>): the token counts (\<open>codex.go\<close>) and the rate limits
  (\<open>ratelimits.go\<close>) that Codex leaves in its session files, read line by line
  (\<open>scan.go\<close>). A directory tree is the list of its regular files with their texts (None: the
  file cannot be opened). Counters are 64-bit words, compared as signed numbers.
  Instants carry no zone, so a time is written out in UTC; midnight is a parameter, as
  it depends on the zone of the process. The main facts: what is counted in all is what
  is counted per model, a session's running totals add up to the last one, and the rate
  limits are the newest ones.
\<close>

section \<open>Lines of a file\<close>

definition scanMaxBuf :: nat where "scanMaxBuf = 4 * 2 ^ 20"

definition drop_cr :: "string \<Rightarrow> string" where
  "drop_cr s = (if s \<noteq> [] \<and> last s = CHR 0x0D then butlast s else s)"

text \<open>
  \<open>bufio.Scanner\<close>: the lines without their ends, and whether it stopped at a line that
  does not fit its buffer. \<open>limit\<close> is the size of the buffer.
\<close>

fun scan_lines :: "nat \<Rightarrow> string \<Rightarrow> string \<Rightarrow> string list \<times> bool" where
  "scan_lines limit acc [] =
     (if limit \<le> length acc then ([], True) else (if acc = [] then [] else [drop_cr (rev acc)], False))"
| "scan_lines limit acc (c # cs) =
     (if limit \<le> length acc then ([], True)
      else if c = CHR 0x0A
      then (let (ls, long) = scan_lines limit [] cs in (drop_cr (rev acc) # ls, long))
      else scan_lines limit (c # acc) cs)"

text \<open>\<open>json.Unmarshal\<close> into a map: an object, or null, which leaves the map nil.\<close>

definition unmarshal_map :: "'e Env_scheme \<Rightarrow> string \<Rightarrow> json option" where
  "unmarshal_map E line =
     (case env_json E line of
        Some (JObj kvs) \<Rightarrow> Some (JObj kvs)
      | Some JNull \<Rightarrow> Some (JObj [])
      | _ \<Rightarrow> None)"

definition scanned_objects :: "'e Env_scheme \<Rightarrow> (string \<Rightarrow> bool) \<Rightarrow> string list \<Rightarrow> json list" where
  "scanned_objects E prefilter ls = List.map_filter (unmarshal_map E) (filter prefilter ls)"

definition scanJSONL ::
  "'e Env_scheme \<Rightarrow> string option \<Rightarrow> (string \<Rightarrow> bool) \<Rightarrow> (json \<Rightarrow> 'a \<Rightarrow> 'a) \<Rightarrow> 'a \<Rightarrow> 'a \<times> string option" where
  "scanJSONL E text prefilter onObj x =
     (case text of
        None \<Rightarrow> (x, None)
      | Some t \<Rightarrow>
          let (ls, long) = scan_lines scanMaxBuf [] t
          in (fold onObj (scanned_objects E prefilter ls) x,
              if long then Some ''bufio.Scanner: token too long'' else None))"

type_synonym tree = "(string \<times> string option) list"

definition collectFiles :: "tree \<Rightarrow> string \<Rightarrow> (string \<times> string option) list" where
  "collectFiles tree codexHome =
     (let under = (\<lambda>root. filter (\<lambda>f. has_prefix (fst f) (root @ ''/'') \<and> has_suffix (fst f) ''.jsonl'') tree)
      in sort_key fst (under (path_join codexHome ''sessions'') @ under (path_join codexHome ''archived_sessions'')))"

section \<open>Reading fields\<close>

definition stringAt :: "json \<Rightarrow> string \<Rightarrow> string option" where
  "stringAt v key =
     (case json_str (json_field v key) of
        Some s \<Rightarrow> if trim_space s = [] then None else Some s
      | None \<Rightarrow> None)"

text \<open>\<open>int64(x)\<close> of a float: truncated, and the least number when it does not fit (amd64).\<close>

definition int64_of_float :: "rat \<Rightarrow> int64" where
  "int64_of_float r = (if r < 2 ^ 63 then word_of_int \<lfloor>r\<rfloor> else word_of_int (- (2 ^ 63)))"

definition numberAt :: "json \<Rightarrow> string \<Rightarrow> int64" where
  "numberAt v key =
     (case json_field v key of
        Some (JNum r) \<Rightarrow> if r > 0 then int64_of_float r else 0
      | _ \<Rightarrow> 0)"

definition firstNumberAt :: "json \<Rightarrow> string list \<Rightarrow> int64" where
  "firstNumberAt v keys =
     (case find (\<lambda>k. 0 <s numberAt v k) keys of None \<Rightarrow> 0 | Some k \<Rightarrow> numberAt v k)"

definition floatNumberAt :: "json \<Rightarrow> string \<Rightarrow> percent option" where
  "floatNumberAt v key = (case json_field v key of Some (JNum r) \<Rightarrow> Some r | _ \<Rightarrow> None)"

definition unixSeconds :: "rat \<Rightarrow> time" where
  "unixSeconds sec =
     (let whole = sint (int64_of_float sec)
      in unix_time whole + \<lfloor>(sec - of_int whole) * 1000000000\<rfloor>)"

definition parseTime :: "json option \<Rightarrow> time" where
  "parseTime v =
     (case v of
        Some (JStr s) \<Rightarrow>
          (case (if trim_space s = [] then None else parse_time (trim_space s)) of None \<Rightarrow> zero_time | Some t \<Rightarrow> t)
      | Some (JNum r) \<Rightarrow> if r > 0 then unixSeconds r else zero_time
      | _ \<Rightarrow> zero_time)"

definition normalizeModel :: "string \<Rightarrow> string" where
  "normalizeModel raw = rev (takeWhile (\<lambda>c. c \<noteq> CHR ''/'') (rev (to_lower (trim_space raw))))"

definition maxInt64 :: "int64 \<Rightarrow> int64 \<Rightarrow> int64" where
  "maxInt64 a b = (if b <s a then a else b)"

section \<open>Counting tokens\<close>

record cumulativeTokens =
  ct_input :: int64
  ct_cachedInput :: int64
  ct_output :: int64

record fileState =
  fs_currentModel :: string
  fs_prevTotal :: "cumulativeTokens option"

definition parseTokens :: "json \<Rightarrow> cumulativeTokens" where
  "parseTokens v = \<lparr>ct_input = numberAt v ''input_tokens'',
     ct_cachedInput = firstNumberAt v [''cached_input_tokens'', ''cache_read_input_tokens''],
     ct_output = numberAt v ''output_tokens''\<rparr>"

definition addTokens :: "Tokens \<Rightarrow> cumulativeTokens \<Rightarrow> Tokens" where
  "addTokens t d = \<lparr>tok_Input = tok_Input t + ct_input d,
     tok_CachedInput = tok_CachedInput t + ct_cachedInput d,
     tok_Output = tok_Output t + ct_output d,
     tok_Total = tok_Total t + (ct_input d + ct_output d)\<rparr>"

definition zero_ModelUsage :: "string \<Rightarrow> ModelUsage" where
  "zero_ModelUsage model = \<lparr>mu_Model = model, mu_Today = zero_Tokens, mu_SevenDays = zero_Tokens,
     mu_AllTime = zero_Tokens, mu_LatestAt = []\<rparr>"

definition newer :: "time \<Rightarrow> string \<Rightarrow> bool" where
  "newer eventTime latestAt \<longleftrightarrow> latestAt = [] \<or> parseTime (Some (JStr latestAt)) < eventTime"

text \<open>What an event adds to a model's counters.\<close>

definition add_to_model :: "cumulativeTokens \<Rightarrow> time \<Rightarrow> time \<Rightarrow> time \<Rightarrow> ModelUsage \<Rightarrow> ModelUsage" where
  "add_to_model d eventTime startToday startSevenDays b =
     (let b = b\<lparr>mu_AllTime := addTokens (mu_AllTime b) d\<rparr> in
      if eventTime = zero_time then b
      else
        let b = (if startSevenDays \<le> eventTime then b\<lparr>mu_SevenDays := addTokens (mu_SevenDays b) d\<rparr> else b);
            b = (if startToday \<le> eventTime then b\<lparr>mu_Today := addTokens (mu_Today b) d\<rparr> else b)
        in if newer eventTime (mu_LatestAt b) then b\<lparr>mu_LatestAt := format_rfc3339 eventTime\<rparr> else b)"

definition addModelTokens ::
  "Summary \<Rightarrow> string \<Rightarrow> cumulativeTokens \<Rightarrow> time \<Rightarrow> time \<Rightarrow> time \<Rightarrow> Summary" where
  "addModelTokens r model d eventTime startToday startSevenDays =
     (let model = normalizeModel model; model = (if model = [] then ''unknown'' else model);
          bucket = (case map_of (sum_buckets r) model of None \<Rightarrow> zero_ModelUsage model | Some b \<Rightarrow> b)
      in r\<lparr>sum_buckets := AList.update model (add_to_model d eventTime startToday startSevenDays bucket)
             (sum_buckets r)\<rparr>)"

text \<open>The model an event names, if it names one; the running totals turned into what came since.\<close>

definition event_model :: "json \<Rightarrow> json \<Rightarrow> string option" where
  "event_model payload info =
     (case stringAt info ''model'' of
        Some m \<Rightarrow> Some m
      | None \<Rightarrow> (case stringAt info ''model_name'' of
          Some m \<Rightarrow> Some m
        | None \<Rightarrow> stringAt payload ''model''))"

definition since :: "cumulativeTokens \<Rightarrow> cumulativeTokens option \<Rightarrow> cumulativeTokens" where
  "since current prev =
     (case prev of
        None \<Rightarrow> current
      | Some p \<Rightarrow> \<lparr>ct_input = maxInt64 0 (ct_input current - ct_input p),
          ct_cachedInput = maxInt64 0 (ct_cachedInput current - ct_cachedInput p),
          ct_output = maxInt64 0 (ct_output current - ct_output p)\<rparr>)"

definition clamp_cached :: "cumulativeTokens \<Rightarrow> cumulativeTokens" where
  "clamp_cached d = (if ct_input d <s ct_cachedInput d then d\<lparr>ct_cachedInput := ct_input d\<rparr> else d)"

definition count_event ::
  "cumulativeTokens \<Rightarrow> string \<Rightarrow> time \<Rightarrow> time \<Rightarrow> time \<Rightarrow> Summary \<Rightarrow> Summary" where
  "count_event d model eventTime startToday startSevenDays r =
     (if ct_input d = 0 \<and> ct_cachedInput d = 0 \<and> ct_output d = 0 then r
      else
        let d = clamp_cached d;
            r = r\<lparr>sum_AllTime := addTokens (sum_AllTime r) d\<rparr>;
            r = (if eventTime = zero_time then r
                 else
                   let r = (if startSevenDays \<le> eventTime then r\<lparr>sum_SevenDays := addTokens (sum_SevenDays r) d\<rparr> else r);
                       r = (if startToday \<le> eventTime then r\<lparr>sum_Today := addTokens (sum_Today r) d\<rparr> else r)
                   in if newer eventTime (sum_LatestAt r)
                      then r\<lparr>sum_LatestAt := format_rfc3339 eventTime, sum_LatestModel := model\<rparr> else r);
            r = addModelTokens r model d eventTime startToday startSevenDays
        in r\<lparr>sum_Events := sum_Events r + 1\<rparr>)"

definition parseTokenEvent ::
  "json \<Rightarrow> time \<Rightarrow> time \<Rightarrow> fileState \<times> Summary \<Rightarrow> fileState \<times> Summary" where
  "parseTokenEvent v startToday startSevenDays sr =
     (let (s, r) = sr in
      case json_obj (json_field v ''payload'') of
        None \<Rightarrow> (s, r)
      | Some payload \<Rightarrow>
          if json_str (json_field payload ''type'') \<noteq> Some ''token_count'' then (s, r)
          else case json_obj (json_field payload ''info'') of
            None \<Rightarrow> (s, r)
          | Some info \<Rightarrow>
              let s = (case event_model payload info of
                         None \<Rightarrow> s | Some m \<Rightarrow> s\<lparr>fs_currentModel := normalizeModel m\<rparr>);
                  count = (\<lambda>d r. count_event d (fs_currentModel s) (parseTime (json_field v ''timestamp''))
                             startToday startSevenDays r)
              in case json_obj (json_field info ''total_token_usage'') of
                   Some rawTotal \<Rightarrow>
                     let current = parseTokens rawTotal
                     in (s\<lparr>fs_prevTotal := Some current\<rparr>, count (since current (fs_prevTotal s)) r)
                 | None \<Rightarrow>
                     (case json_obj (json_field info ''last_token_usage'') of
                        Some rawLast \<Rightarrow> (s, count (parseTokens rawLast) r)
                      | None \<Rightarrow> (s, r)))"

definition contains_key :: "string \<Rightarrow> string \<Rightarrow> bool" where
  "contains_key line k = contains_sub line (''\"'' @ k @ ''\"'')"

definition line_wanted :: "string \<Rightarrow> bool" where
  "line_wanted line =
     (if \<not> contains_key line ''event_msg'' \<and> \<not> contains_key line ''turn_context''
         \<and> \<not> contains_key line ''session_meta'' then False
      else if contains_key line ''event_msg'' \<and> \<not> contains_key line ''token_count'' then False
      else True)"

definition parse_object ::
  "time \<Rightarrow> time \<Rightarrow> json \<Rightarrow> fileState \<times> Summary \<Rightarrow> fileState \<times> Summary" where
  "parse_object startToday startSevenDays v sr =
     (case json_str (json_field v ''type'') of
        Some eventType \<Rightarrow>
          if eventType = ''turn_context'' then
            (case json_obj (json_field v ''payload'') of
               None \<Rightarrow> sr
             | Some payload \<Rightarrow>
                 (case stringAt payload ''model'' of
                    Some m \<Rightarrow> ((fst sr)\<lparr>fs_currentModel := normalizeModel m\<rparr>, snd sr)
                  | None \<Rightarrow>
                      (case json_obj (json_field payload ''info'') of
                         None \<Rightarrow> sr
                       | Some info \<Rightarrow>
                           (case stringAt info ''model'' of
                              None \<Rightarrow> sr
                            | Some m \<Rightarrow> ((fst sr)\<lparr>fs_currentModel := normalizeModel m\<rparr>, snd sr)))))
          else if eventType = ''event_msg'' then parseTokenEvent v startToday startSevenDays sr
          else sr
      | None \<Rightarrow> sr)"

definition parseFile ::
  "'e Env_scheme \<Rightarrow> time \<Rightarrow> time \<Rightarrow> string \<times> string option \<Rightarrow> Summary \<Rightarrow> Summary" where
  "parseFile E startToday startSevenDays f r =
     (let start = \<lparr>fs_currentModel = ''unknown'', fs_prevTotal = None\<rparr>;
          ((s, r), err) = scanJSONL E (snd f) line_wanted (parse_object startToday startSevenDays) (start, r)
      in case err of
           None \<Rightarrow> r
         | Some e \<Rightarrow> r\<lparr>sum_Status := ''partial'',
             sum_Detail := ''incomplete scan of '' @ path_base (fst f) @ '': '' @ e\<rparr>)"

definition model_less :: "ModelUsage \<Rightarrow> ModelUsage \<Rightarrow> bool" where
  "model_less a b =
     (if tok_Total (mu_SevenDays a) \<noteq> tok_Total (mu_SevenDays b)
      then tok_Total (mu_SevenDays b) <s tok_Total (mu_SevenDays a)
      else mu_Model a < mu_Model b)"

definition finishModels :: "Summary \<Rightarrow> Summary" where
  "finishModels r =
     (if sum_buckets r = [] then r
      else r\<lparr>sum_Models := sort_slice model_less (map snd (sum_buckets r)), sum_buckets := []\<rparr>)"

definition ok_Summary :: "nat \<Rightarrow> Summary" where
  "ok_Summary n = \<lparr>sum_Status = ''ok'', sum_Detail = [], sum_FilesScanned = n, sum_Events = 0,
     sum_Today = zero_Tokens, sum_SevenDays = zero_Tokens, sum_AllTime = zero_Tokens, sum_LatestAt = [],
     sum_LatestModel = [], sum_Models = [], sum_buckets = []\<rparr>"

definition SummarizeCodexHome ::
  "'e Env_scheme \<Rightarrow> (time \<Rightarrow> time) \<Rightarrow> tree \<Rightarrow> string \<Rightarrow> time \<Rightarrow> Summary" where
  "SummarizeCodexHome E midnight tree codexHome now =
     (let files = collectFiles tree codexHome in
      if files = [] then (ok_Summary 0)\<lparr>sum_Detail := ''no Codex session files''\<rparr>
      else
        let r = fold (parseFile E (midnight now) (now - 7 * 24 * hour)) files (ok_Summary (length files));
            r = (if sum_Events r = 0 then r\<lparr>sum_Detail := ''no token_count events''\<rparr> else r)
        in finishModels r)"

section \<open>Rate limits\<close>

record RateLimits =
  rl_FiveHourUsedPercent :: percent
  rl_FiveHourResetsAt :: time
  rl_SevenDayUsedPercent :: percent
  rl_SevenDayResetsAt :: time
  rl_ReachedType :: string
  rl_CapturedAt :: time
  rl_Found :: bool

definition zero_RateLimits :: RateLimits where
  "zero_RateLimits = \<lparr>rl_FiveHourUsedPercent = 0, rl_FiveHourResetsAt = 0, rl_SevenDayUsedPercent = 0,
     rl_SevenDayResetsAt = 0, rl_ReachedType = [], rl_CapturedAt = 0, rl_Found = False\<rparr>"

definition unixSecondsAt :: "json \<Rightarrow> string \<Rightarrow> time" where
  "unixSecondsAt v key =
     (let n = numberAt v key in if 0 <s n then unix_time (sint n) else zero_time)"

definition parseRateLimitsRecord :: "json \<Rightarrow> RateLimits option" where
  "parseRateLimitsRecord v =
     (case json_obj (json_field v ''payload'') of
        None \<Rightarrow> None
      | Some payload \<Rightarrow>
          if json_str (json_field payload ''type'') \<noteq> Some ''token_count'' then None
          else case json_obj (json_field payload ''rate_limits'') of
            None \<Rightarrow> None
          | Some limits \<Rightarrow>
              let r = zero_RateLimits\<lparr>rl_CapturedAt := parseTime (json_field v ''timestamp'')\<rparr>;
                  r = (case json_str (json_field limits ''rate_limit_reached_type'') of
                         Some reached \<Rightarrow> if reached \<noteq> [] then r\<lparr>rl_ReachedType := reached, rl_Found := True\<rparr> else r
                       | None \<Rightarrow> r);
                  r = (case json_obj (json_field limits ''primary'') of
                         None \<Rightarrow> r
                       | Some p \<Rightarrow>
                           let r = (case floatNumberAt p ''used_percent'' of
                                      None \<Rightarrow> r | Some x \<Rightarrow> r\<lparr>rl_FiveHourUsedPercent := x, rl_Found := True\<rparr>)
                           in r\<lparr>rl_FiveHourResetsAt := unixSecondsAt p ''resets_at''\<rparr>);
                  r = (case json_obj (json_field limits ''secondary'') of
                         None \<Rightarrow> r
                       | Some p \<Rightarrow>
                           let r = (case floatNumberAt p ''used_percent'' of
                                      None \<Rightarrow> r | Some x \<Rightarrow> r\<lparr>rl_SevenDayUsedPercent := x, rl_Found := True\<rparr>)
                           in r\<lparr>rl_SevenDayResetsAt := unixSecondsAt p ''resets_at''\<rparr>)
              in if rl_Found r then Some r else None)"

definition keep_newer :: "RateLimits \<Rightarrow> RateLimits \<Rightarrow> RateLimits" where
  "keep_newer best r =
     (if \<not> rl_Found best \<or> rl_CapturedAt best = zero_time \<or> rl_CapturedAt best < rl_CapturedAt r then r else best)"

definition scanRateLimitsFile :: "'e Env_scheme \<Rightarrow> string option \<Rightarrow> RateLimits \<Rightarrow> RateLimits" where
  "scanRateLimitsFile E text best =
     fst (scanJSONL E text (\<lambda>line. contains_sub line ''rate_limits'')
       (\<lambda>v best. case parseRateLimitsRecord v of None \<Rightarrow> best | Some r \<Rightarrow> keep_newer best r) best)"

definition LatestRateLimits :: "'e Env_scheme \<Rightarrow> tree \<Rightarrow> string \<Rightarrow> RateLimits" where
  "LatestRateLimits E tree codexHome =
     fold (\<lambda>f. scanRateLimitsFile E (snd f)) (collectFiles tree codexHome) zero_RateLimits"

section \<open>What is counted in all is what is counted per model\<close>

definition sum_tokens :: "Tokens list \<Rightarrow> Tokens" where
  "sum_tokens ts = \<lparr>tok_Input = sum_list (map tok_Input ts), tok_CachedInput = sum_list (map tok_CachedInput ts),
     tok_Output = sum_list (map tok_Output ts), tok_Total = sum_list (map tok_Total ts)\<rparr>"

definition tokens_minus :: "Tokens \<Rightarrow> Tokens \<Rightarrow> Tokens" where
  "tokens_minus a b = \<lparr>tok_Input = tok_Input a - tok_Input b, tok_CachedInput = tok_CachedInput a - tok_CachedInput b,
     tok_Output = tok_Output a - tok_Output b, tok_Total = tok_Total a - tok_Total b\<rparr>"

lemma sum_list_update:
  fixes g :: "'b \<Rightarrow> 'c::ab_group_add"
  assumes "distinct (map fst xs)"
  shows "sum_list (map (\<lambda>kv. g (snd kv)) (AList.update k v xs))
     = sum_list (map (\<lambda>kv. g (snd kv)) xs) - (case map_of xs k of None \<Rightarrow> 0 | Some b \<Rightarrow> g b) + g v"
  using assms
proof (induction xs)
  case (Cons x xs)
  obtain j b where x: "x = (j, b)" by fastforce
  show ?case
  proof (cases "j = k")
    case True
    with x show ?thesis by simp
  next
    case False
    with Cons x show ?thesis by (simp add: algebra_simps)
  qed
qed simp

lemma set_update_cases: "x \<in> set (AList.update k v xs) \<Longrightarrow> x = (k, v) \<or> x \<in> set xs"
  by (induction xs) (auto split: if_splits)

lemma sum_tokens_update:
  assumes "distinct (map fst xs)"
  shows "sum_tokens (map (\<lambda>kv. g (snd kv)) (AList.update k v xs))
     = (let old = (case map_of xs k of None \<Rightarrow> zero_Tokens | Some b \<Rightarrow> g b);
            s = sum_tokens (map (\<lambda>kv. g (snd kv)) xs)
        in \<lparr>tok_Input = tok_Input s - tok_Input old + tok_Input (g v),
            tok_CachedInput = tok_CachedInput s - tok_CachedInput old + tok_CachedInput (g v),
            tok_Output = tok_Output s - tok_Output old + tok_Output (g v),
            tok_Total = tok_Total s - tok_Total old + tok_Total (g v)\<rparr>)"
  using sum_list_update [OF assms, of "\<lambda>b. tok_Input (g b)" k v]
    sum_list_update [OF assms, of "\<lambda>b. tok_CachedInput (g b)" k v]
    sum_list_update [OF assms, of "\<lambda>b. tok_Output (g b)" k v]
    sum_list_update [OF assms, of "\<lambda>b. tok_Total (g b)" k v]
  by (simp add: sum_tokens_def comp_def Let_def zero_Tokens_def split: option.splits)

text \<open>Each counter of the summary is the sum of the models' counters.\<close>

definition balanced :: "Summary \<Rightarrow> bool" where
  "balanced r \<longleftrightarrow> distinct (map fst (sum_buckets r))
     \<and> (\<forall>(k, b) \<in> set (sum_buckets r). mu_Model b = k)
     \<and> sum_AllTime r = sum_tokens (map (\<lambda>kb. mu_AllTime (snd kb)) (sum_buckets r))
     \<and> sum_SevenDays r = sum_tokens (map (\<lambda>kb. mu_SevenDays (snd kb)) (sum_buckets r))
     \<and> sum_Today r = sum_tokens (map (\<lambda>kb. mu_Today (snd kb)) (sum_buckets r))"

lemma sum_tokens_counted:
  assumes "distinct (map fst xs)"
    and "g v = (if c then addTokens (case map_of xs k of None \<Rightarrow> zero_Tokens | Some b \<Rightarrow> g b) d
                else (case map_of xs k of None \<Rightarrow> zero_Tokens | Some b \<Rightarrow> g b))"
  shows "sum_tokens (map (\<lambda>kv. g (snd kv)) (AList.update k v xs)) =
     (if c then addTokens (sum_tokens (map (\<lambda>kv. g (snd kv)) xs)) d else sum_tokens (map (\<lambda>kv. g (snd kv)) xs))"
  unfolding sum_tokens_update [OF assms(1)] assms(2) by (simp add: addTokens_def Let_def sum_tokens_def)

lemma add_to_model_simps:
  "mu_AllTime (add_to_model d t td sd b) = addTokens (mu_AllTime b) d"
  "mu_SevenDays (add_to_model d t td sd b) =
     (if t \<noteq> zero_time \<and> sd \<le> t then addTokens (mu_SevenDays b) d else mu_SevenDays b)"
  "mu_Today (add_to_model d t td sd b) =
     (if t \<noteq> zero_time \<and> td \<le> t then addTokens (mu_Today b) d else mu_Today b)"
  "mu_Model (add_to_model d t td sd b) = mu_Model b"
  by (simp_all add: add_to_model_def Let_def)

lemma count_event_fields:
  assumes "\<not> (ct_input d = 0 \<and> ct_cachedInput d = 0 \<and> ct_output d = 0)"
  shows "sum_AllTime (count_event d model t td sd r) = addTokens (sum_AllTime r) (clamp_cached d)"
    "sum_SevenDays (count_event d model t td sd r) =
       (if t \<noteq> zero_time \<and> sd \<le> t then addTokens (sum_SevenDays r) (clamp_cached d) else sum_SevenDays r)"
    "sum_Today (count_event d model t td sd r) =
       (if t \<noteq> zero_time \<and> td \<le> t then addTokens (sum_Today r) (clamp_cached d) else sum_Today r)"
    "sum_buckets (count_event d model t td sd r) = sum_buckets (addModelTokens r model (clamp_cached d) t td sd)"
    "sum_Events (count_event d model t td sd r) = sum_Events r + 1"
  unfolding count_event_def if_not_P [OF assms] Let_def addModelTokens_def by simp_all

lemma count_event_balanced:
  assumes "balanced r"
  shows "balanced (count_event d model t td sd r)"
proof (cases "ct_input d = 0 \<and> ct_cachedInput d = 0 \<and> ct_output d = 0")
  case True
  with assms show ?thesis by (simp add: count_event_def)
next
  case False
  define k where "k = (if normalizeModel model = [] then ''unknown'' else normalizeModel model)"
  define old where "old = (case map_of (sum_buckets r) k of None \<Rightarrow> zero_ModelUsage k | Some b \<Rightarrow> b)"
  define v where "v = add_to_model (clamp_cached d) t td sd old"
  have b: "sum_buckets (count_event d model t td sd r) = AList.update k v (sum_buckets r)"
    unfolding count_event_fields(4) [OF False] addModelTokens_def Let_def k_def [symmetric]
    unfolding old_def [symmetric] v_def by simp
  have dist: "distinct (map fst (sum_buckets r))" using assms by (simp add: balanced_def)
  have old: "mu_AllTime old = (case map_of (sum_buckets r) k of None \<Rightarrow> zero_Tokens | Some b \<Rightarrow> mu_AllTime b)"
    "mu_SevenDays old = (case map_of (sum_buckets r) k of None \<Rightarrow> zero_Tokens | Some b \<Rightarrow> mu_SevenDays b)"
    "mu_Today old = (case map_of (sum_buckets r) k of None \<Rightarrow> zero_Tokens | Some b \<Rightarrow> mu_Today b)"
    by (simp_all add: old_def zero_ModelUsage_def split: option.splits)
  have name: "mu_Model v = k"
    using assms by (auto simp: v_def add_to_model_simps old_def balanced_def zero_ModelUsage_def
        split: option.splits dest!: map_of_SomeD)
  have names: "\<forall>(j, b) \<in> set (AList.update k v (sum_buckets r)). mu_Model b = j"
    using assms name set_update_cases [of _ k v "sum_buckets r"] by (fastforce simp: balanced_def)
  have sums: "sum_tokens (map (\<lambda>kb. mu_AllTime (snd kb)) (AList.update k v (sum_buckets r)))
      = (if True then addTokens (sum_tokens (map (\<lambda>kb. mu_AllTime (snd kb)) (sum_buckets r))) (clamp_cached d)
         else sum_tokens (map (\<lambda>kb. mu_AllTime (snd kb)) (sum_buckets r)))"
    "sum_tokens (map (\<lambda>kb. mu_SevenDays (snd kb)) (AList.update k v (sum_buckets r)))
      = (if t \<noteq> zero_time \<and> sd \<le> t
         then addTokens (sum_tokens (map (\<lambda>kb. mu_SevenDays (snd kb)) (sum_buckets r))) (clamp_cached d)
         else sum_tokens (map (\<lambda>kb. mu_SevenDays (snd kb)) (sum_buckets r)))"
    "sum_tokens (map (\<lambda>kb. mu_Today (snd kb)) (AList.update k v (sum_buckets r)))
      = (if t \<noteq> zero_time \<and> td \<le> t
         then addTokens (sum_tokens (map (\<lambda>kb. mu_Today (snd kb)) (sum_buckets r))) (clamp_cached d)
         else sum_tokens (map (\<lambda>kb. mu_Today (snd kb)) (sum_buckets r)))"
    by (rule sum_tokens_counted [OF dist]; simp add: v_def add_to_model_simps old)+
  have r: "sum_AllTime r = sum_tokens (map (\<lambda>kb. mu_AllTime (snd kb)) (sum_buckets r))"
    "sum_SevenDays r = sum_tokens (map (\<lambda>kb. mu_SevenDays (snd kb)) (sum_buckets r))"
    "sum_Today r = sum_tokens (map (\<lambda>kb. mu_Today (snd kb)) (sum_buckets r))"
    using assms by (simp_all add: balanced_def)
  show ?thesis
    unfolding balanced_def b count_event_fields(1-3) [OF False] sums r
    using names dist by (simp add: distinct_update)
qed

lemma parse_object_balanced: "balanced (snd sr) \<Longrightarrow> balanced (snd (parse_object td sd v sr))"
  by (cases sr) (auto simp: parse_object_def parseTokenEvent_def Let_def count_event_balanced split: option.splits)

lemma fold_keeps: "(\<And>x y. P y \<Longrightarrow> P (f x y)) \<Longrightarrow> P y \<Longrightarrow> P (fold f xs y)"
  by (induction xs arbitrary: y) auto

lemma balanced_status [simp]: "balanced (r\<lparr>sum_Status := a\<rparr>) = balanced r" "balanced (r\<lparr>sum_Detail := b\<rparr>) = balanced r"
  by (simp_all add: balanced_def)

lemma scanJSONL_keeps:
  "(\<And>v y. P y \<Longrightarrow> P (onObj v y)) \<Longrightarrow> P x \<Longrightarrow> P (fst (scanJSONL E text prefilter onObj x))"
  by (auto simp: scanJSONL_def Let_def fold_keeps split: option.splits prod.splits)

lemma parseFile_balanced:
  assumes "balanced r"
  shows "balanced (parseFile E td sd f r)"
proof -
  let ?start = "\<lparr>fs_currentModel = ''unknown'', fs_prevTotal = None\<rparr>"
  have "balanced (snd (fst (scanJSONL E (snd f) line_wanted (parse_object td sd) (?start, r))))"
    by (rule scanJSONL_keeps [where P = "\<lambda>sr. balanced (snd sr)"]) (simp_all add: parse_object_balanced assms)
  then show ?thesis by (auto simp: parseFile_def Let_def split: prod.splits option.splits)
qed

lemma sum_tokens_mset: "mset (map f xs) = mset (map f ys) \<Longrightarrow> sum_tokens (map f xs) = sum_tokens (map f ys)"
proof -
  assume m: "mset (map f xs) = mset (map f ys)"
  have "sum_list (map g (map f xs)) = sum_list (map g (map f ys))" for g :: "Tokens \<Rightarrow> int64"
    using m by (metis mset_map sum_mset_sum_list)
  then show ?thesis by (simp add: sum_tokens_def)
qed

lemma finishModels_sums:
  assumes "balanced r" "sum_Models r = []"
  shows "sum_AllTime (finishModels r) = sum_tokens (map mu_AllTime (sum_Models (finishModels r)))
    \<and> sum_SevenDays (finishModels r) = sum_tokens (map mu_SevenDays (sum_Models (finishModels r)))
    \<and> sum_Today (finishModels r) = sum_tokens (map mu_Today (sum_Models (finishModels r)))
    \<and> distinct (map mu_Model (sum_Models (finishModels r)))"
proof (cases "sum_buckets r = []")
  case True
  with assms show ?thesis by (simp add: finishModels_def balanced_def)
next
  case False
  let ?s = "sort_slice model_less (map snd (sum_buckets r))"
  have m: "sum_tokens (map f ?s) = sum_tokens (map (\<lambda>kb. f (snd kb)) (sum_buckets r))" for f
  proof -
    have "mset (map f ?s) = mset (map f (map snd (sum_buckets r)))"
      unfolding mset_map go_sort.srt_mset ..
    then have "sum_tokens (map f ?s) = sum_tokens (map f (map snd (sum_buckets r)))" by (rule sum_tokens_mset)
    then show ?thesis by (simp add: comp_def)
  qed
  have "map mu_Model (map snd (sum_buckets r)) = map fst (sum_buckets r)"
    using assms(1) by (auto simp: balanced_def)
  then have "distinct (map mu_Model (map snd (sum_buckets r)))" using assms(1) by (simp only: balanced_def)
  then have "distinct (map mu_Model ?s)" by (simp only: go_sort.srt_distinct_keys)
  with False m assms(1) show ?thesis by (simp add: finishModels_def balanced_def)
qed

lemma models_kept: "sum_Models (parseFile E td sd f r) = sum_Models r"
proof -
  have "sum_Models (count_event d m t td sd r) = sum_Models r" for d m t r
    by (simp add: count_event_def addModelTokens_def Let_def)
  then have "sum_Models (snd (parse_object td sd v sr)) = sum_Models (snd sr)" for v sr
    by (cases sr) (auto simp: parse_object_def parseTokenEvent_def Let_def split: option.splits)
  then have "sum_Models (snd (fst (scanJSONL E (snd f) line_wanted (parse_object td sd) (s, r)))) = sum_Models r" for s
    by (intro scanJSONL_keeps [where P = "\<lambda>sr. sum_Models (snd sr) = sum_Models r"]) simp_all
  then show ?thesis by (auto simp: parseFile_def Let_def split: prod.splits option.splits)
      (metis fst_conv snd_conv)+
qed

lemma summary_balanced:
  assumes s_def: "s = SummarizeCodexHome E midnight tree codexHome now"
  shows "sum_AllTime s = sum_tokens (map mu_AllTime (sum_Models s))
    \<and> sum_SevenDays s = sum_tokens (map mu_SevenDays (sum_Models s))
    \<and> sum_Today s = sum_tokens (map mu_Today (sum_Models s)) \<and> distinct (map mu_Model (sum_Models s))"
proof -
  define r where "r = fold (parseFile E (midnight now) (now - 7 * 24 * hour)) (collectFiles tree codexHome)
      (ok_Summary (length (collectFiles tree codexHome)))"
  have ok: "balanced (ok_Summary n) \<and> sum_Models (ok_Summary n) = []" for n
    by (simp add: balanced_def ok_Summary_def sum_tokens_def zero_Tokens_def)
  have "balanced r \<and> sum_Models r = []"
    unfolding r_def
    by (rule fold_keeps [where P = "\<lambda>r. balanced r \<and> sum_Models r = []"])
      (simp_all add: ok parseFile_balanced models_kept)
  then have "balanced (if sum_Events r = 0 then r\<lparr>sum_Detail := d\<rparr> else r)
      \<and> sum_Models (if sum_Events r = 0 then r\<lparr>sum_Detail := d\<rparr> else r) = []" for d by simp
  note fin = finishModels_sums [OF conjunct1 [OF this] conjunct2 [OF this]]
  show ?thesis
  proof (cases "collectFiles tree codexHome = []")
    case True
    then show ?thesis by (simp add: s_def SummarizeCodexHome_def ok_Summary_def sum_tokens_def zero_Tokens_def)
  next
    case False
    then have "s = finishModels (if sum_Events r = 0 then r\<lparr>sum_Detail := ''no token_count events''\<rparr> else r)"
      by (simp add: s_def SummarizeCodexHome_def r_def Let_def)
    with fin show ?thesis by simp
  qed
qed

section \<open>Running totals\<close>

text \<open>The running total an object of a session reports, if it reports one.\<close>

definition running_total :: "json \<Rightarrow> cumulativeTokens option" where
  "running_total v =
     (if json_str (json_field v ''type'') \<noteq> Some ''event_msg'' then None
      else case json_obj (json_field v ''payload'') of
        None \<Rightarrow> None
      | Some payload \<Rightarrow>
          if json_str (json_field payload ''type'') \<noteq> Some ''token_count'' then None
          else case json_obj (json_field payload ''info'') of
            None \<Rightarrow> None
          | Some info \<Rightarrow> map_option parseTokens (json_obj (json_field info ''total_token_usage'')))"

lemma count_event_totals:
  "tok_Input (sum_AllTime (count_event d m t td sd r)) = tok_Input (sum_AllTime r) + ct_input d"
  "tok_Output (sum_AllTime (count_event d m t td sd r)) = tok_Output (sum_AllTime r) + ct_output d"
proof -
  have "ct_input (clamp_cached d) = ct_input d" "ct_output (clamp_cached d) = ct_output d"
    by (simp_all add: clamp_cached_def)
  then show "tok_Input (sum_AllTime (count_event d m t td sd r)) = tok_Input (sum_AllTime r) + ct_input d"
    "tok_Output (sum_AllTime (count_event d m t td sd r)) = tok_Output (sum_AllTime r) + ct_output d"
    by (cases "ct_input d = 0 \<and> ct_cachedInput d = 0 \<and> ct_output d = 0";
        simp add: count_event_fields addTokens_def; simp add: count_event_def)+
qed

lemma parse_running:
  assumes "running_total v = Some c"
  shows "fs_prevTotal (fst (parse_object td sd v sr)) = Some c
     \<and> tok_Input (sum_AllTime (snd (parse_object td sd v sr))) =
         tok_Input (sum_AllTime (snd sr)) + ct_input (since c (fs_prevTotal (fst sr)))
     \<and> tok_Output (sum_AllTime (snd (parse_object td sd v sr))) =
         tok_Output (sum_AllTime (snd sr)) + ct_output (since c (fs_prevTotal (fst sr)))"
proof -
  obtain s r where sr: "sr = (s, r)" by fastforce
  from assms obtain payload info total where v: "json_str (json_field v ''type'') = Some ''event_msg''"
    "json_obj (json_field v ''payload'') = Some payload" "json_str (json_field payload ''type'') = Some ''token_count''"
    "json_obj (json_field payload ''info'') = Some info" "json_obj (json_field info ''total_token_usage'') = Some total"
    "c = parseTokens total"
    by (auto simp: running_total_def split: if_splits option.splits)
  have "fs_prevTotal (case m of None \<Rightarrow> s | Some m \<Rightarrow> s\<lparr>fs_currentModel := normalizeModel m\<rparr>) = fs_prevTotal s" for m
    by (cases m) simp_all
  with v show ?thesis
    by (simp add: sr parse_object_def parseTokenEvent_def Let_def count_event_totals)
qed

lemma maxInt64_diff:
  assumes "0 \<le>s b" "b \<le>s a"
  shows "maxInt64 0 (a - b) = a - b"
proof -
  have "0 \<le> sint b" "sint b \<le> sint a" using assms by (simp_all add: word_sle_eq)
  moreover have "sint a < 2 ^ 63" using sint_lt [of a] by simp
  ultimately have "sint (a - b) = sint a - sint b"
    by (simp add: sint_word_ariths signed_take_bit_int_eq_self)
  then show ?thesis using assms by (auto simp: maxInt64_def word_sless_alt word_sle_eq)
qed

definition not_below :: "cumulativeTokens \<Rightarrow> cumulativeTokens \<Rightarrow> bool" where
  "not_below a b \<longleftrightarrow> ct_input a \<le>s ct_input b \<and> ct_output a \<le>s ct_output b"

lemma running_totals_telescope:
  assumes "map running_total vs = map Some cs" "cs \<noteq> []"
    and "\<forall>c \<in> set cs. 0 \<le>s ct_input c \<and> 0 \<le>s ct_output c" "sorted_wrt not_below cs"
    and "fs_prevTotal s = None"
  shows "tok_Input (sum_AllTime (snd (fold (parse_object td sd) vs (s, r)))) = tok_Input (sum_AllTime r) + ct_input (last cs)
     \<and> tok_Output (sum_AllTime (snd (fold (parse_object td sd) vs (s, r)))) = tok_Output (sum_AllTime r) + ct_output (last cs)"
proof -
  have step: "tok_Input (sum_AllTime (snd (fold (parse_object td sd) vs sr))) =
        tok_Input (sum_AllTime (snd sr)) + (ct_input (last (p # cs)) - ct_input p)
      \<and> tok_Output (sum_AllTime (snd (fold (parse_object td sd) vs sr))) =
        tok_Output (sum_AllTime (snd sr)) + (ct_output (last (p # cs)) - ct_output p)"
    if "map running_total vs = map Some cs" "\<forall>c \<in> set (p # cs). 0 \<le>s ct_input c \<and> 0 \<le>s ct_output c"
      "sorted_wrt not_below (p # cs)" "fs_prevTotal (fst sr) = Some p" for vs cs p sr
    using that
  proof (induction cs arbitrary: vs p sr)
    case Nil
    then show ?case by simp
  next
    case (Cons c cs)
    then obtain v us where vs: "vs = v # us" "running_total v = Some c" "map running_total us = map Some cs"
      by (cases vs) auto
    have m: "maxInt64 0 (ct_input c - ct_input p) = ct_input c - ct_input p"
      "maxInt64 0 (ct_output c - ct_output p) = ct_output c - ct_output p"
      using Cons.prems(2,3) by (auto simp: not_below_def intro!: maxInt64_diff)
    note 1 = parse_running [OF vs(2), of td sd sr]
    have "tok_Input (sum_AllTime (snd (fold (parse_object td sd) us (parse_object td sd v sr)))) =
        tok_Input (sum_AllTime (snd (parse_object td sd v sr))) + (ct_input (last (c # cs)) - ct_input c)
      \<and> tok_Output (sum_AllTime (snd (fold (parse_object td sd) us (parse_object td sd v sr)))) =
        tok_Output (sum_AllTime (snd (parse_object td sd v sr))) + (ct_output (last (c # cs)) - ct_output c)"
      by (rule Cons.IH) (use vs(3) Cons.prems 1 in auto)
    with 1 m Cons.prems(4) show ?case by (simp add: vs(1) since_def)
  qed
  from assms obtain v us c ds where vs: "vs = v # us" "cs = c # ds" "running_total v = Some c"
      "map running_total us = map Some ds" by (cases vs; cases cs) auto
  note 1 = parse_running [OF vs(3), of td sd "(s, r)"]
  have "tok_Input (sum_AllTime (snd (fold (parse_object td sd) us (parse_object td sd v (s, r))))) =
        tok_Input (sum_AllTime (snd (parse_object td sd v (s, r)))) + (ct_input (last (c # ds)) - ct_input c)
      \<and> tok_Output (sum_AllTime (snd (fold (parse_object td sd) us (parse_object td sd v (s, r))))) =
        tok_Output (sum_AllTime (snd (parse_object td sd v (s, r)))) + (ct_output (last (c # ds)) - ct_output c)"
    by (rule step) (use vs assms(3,4) 1 in auto)
  with 1 assms(5) show ?thesis by (simp add: vs since_def)
qed

section \<open>The newest rate limits\<close>

definition rate_records :: "'e Env_scheme \<Rightarrow> tree \<Rightarrow> string \<Rightarrow> RateLimits list" where
  "rate_records E tree codexHome =
     concat (map (\<lambda>f. case snd f of
         None \<Rightarrow> []
       | Some t \<Rightarrow> List.map_filter parseRateLimitsRecord
           (scanned_objects E (\<lambda>line. contains_sub line ''rate_limits'') (fst (scan_lines scanMaxBuf [] t))))
       (collectFiles tree codexHome))"

lemma fold_map_filter:
  "fold (\<lambda>v best. case p v of None \<Rightarrow> best | Some r \<Rightarrow> keep_newer best r) vs best
   = fold (\<lambda>r best. keep_newer best r) (List.map_filter p vs) best"
  by (induction vs arbitrary: best) (auto simp: List.map_filter_simps split: option.splits)

lemma LatestRateLimits_fold:
  "LatestRateLimits E tree codexHome = fold (\<lambda>r best. keep_newer best r) (rate_records E tree codexHome) zero_RateLimits"
proof -
  have "scanRateLimitsFile E (snd f) best = fold (\<lambda>r best. keep_newer best r)
      (case snd f of
         None \<Rightarrow> []
       | Some t \<Rightarrow> List.map_filter parseRateLimitsRecord
           (scanned_objects E (\<lambda>line. contains_sub line ''rate_limits'') (fst (scan_lines scanMaxBuf [] t)))) best" for f :: "string \<times> string option" and best
    by (simp add: scanRateLimitsFile_def scanJSONL_def Let_def case_prod_beta fold_map_filter split: option.splits)
  then have "fold (\<lambda>f. scanRateLimitsFile E (snd f)) fs best =
      fold (\<lambda>r best. keep_newer best r) (concat (map (\<lambda>f. case snd f of
         None \<Rightarrow> []
       | Some t \<Rightarrow> List.map_filter parseRateLimitsRecord
           (scanned_objects E (\<lambda>line. contains_sub line ''rate_limits'') (fst (scan_lines scanMaxBuf [] t)))) fs)) best"
    for fs :: "(string \<times> string option) list" and best
    by (induction fs arbitrary: best) simp_all
  then show ?thesis by (simp add: LatestRateLimits_def rate_records_def)
qed

lemma parseRateLimitsRecord_Found: "parseRateLimitsRecord v = Some r \<Longrightarrow> rl_Found r"
  unfolding parseRateLimitsRecord_def Let_def by (auto split: option.splits if_splits)

lemma rate_records_found: "r \<in> set (rate_records E tree codexHome) \<Longrightarrow> rl_Found r"
  by (auto simp: rate_records_def List.map_filter_def parseRateLimitsRecord_Found split: option.splits)

lemma keep_newer_best:
  assumes "\<forall>r \<in> set rs. rl_Found r \<and> zero_time \<le> rl_CapturedAt r" "rl_Found best" "zero_time \<le> rl_CapturedAt best"
  shows "fold (\<lambda>r best. keep_newer best r) rs best \<in> insert best (set rs)
    \<and> (\<forall>r \<in> insert best (set rs). rl_CapturedAt r \<le> rl_CapturedAt (fold (\<lambda>r best. keep_newer best r) rs best))"
  using assms
proof (induction rs arbitrary: best)
  case (Cons r rs)
  let ?b = "keep_newer best r"
  have b: "?b \<in> {best, r}" "rl_CapturedAt best \<le> rl_CapturedAt ?b" "rl_CapturedAt r \<le> rl_CapturedAt ?b"
    "rl_Found ?b" "zero_time \<le> rl_CapturedAt ?b"
    using Cons.prems by (auto simp: keep_newer_def)
  from Cons.IH [of ?b] Cons.prems(1) b show ?case by fastforce
qed simp

lemma LatestRateLimits_newest:
  assumes "\<forall>r \<in> set (rate_records E tree codexHome). zero_time \<le> rl_CapturedAt r"
  shows "if rate_records E tree codexHome = [] then \<not> rl_Found (LatestRateLimits E tree codexHome)
     else LatestRateLimits E tree codexHome \<in> set (rate_records E tree codexHome)
       \<and> rl_Found (LatestRateLimits E tree codexHome)
       \<and> (\<forall>r \<in> set (rate_records E tree codexHome). rl_CapturedAt r \<le> rl_CapturedAt (LatestRateLimits E tree codexHome))"
proof (cases "rate_records E tree codexHome")
  case Nil
  then show ?thesis by (simp add: LatestRateLimits_fold zero_RateLimits_def)
next
  case (Cons r rs)
  have first: "keep_newer zero_RateLimits r = r" by (simp add: keep_newer_def zero_RateLimits_def)
  have found: "rl_Found x" if "x \<in> set (r # rs)" for x
    using that rate_records_found [of x E tree codexHome] Cons by simp
  from keep_newer_best [of rs r] assms found Cons show ?thesis
    by (auto simp: LatestRateLimits_fold first)
qed

end
