(* ===== verification/UsageEvents.thy ===== *)
theory UsageEvents
  imports Accounts UsageScan LoadBalance Dispatch
begin

text \<open>
  Usage events and statistics: \<open>internal/manager/usage_events.go\<close>, the usage and queue
  operations of \<open>usage.go\<close>, and \<open>recordPostgresUsage\<close> of \<open>store_postgres.go\<close>. The main
  facts: the events made from a summary are one per model and add up to the summary,
  a report that is sent again replaces its rows, and the refresh queue lists every
  account once, the earliest reset first.
\<close>

section \<open>Keys\<close>

definition NewUsageEventContext ::
  "string \<Rightarrow> string \<Rightarrow> string \<Rightarrow> string \<Rightarrow> time \<Rightarrow> UsageEventContext" where
  "NewUsageEventContext accountID clientID leaseID runID reportedAt =
     \<lparr>uec_AccountID = trim_space accountID, uec_ClientID = trim_space clientID,
      uec_LeaseID = trim_space leaseID, uec_RunID = trim_space runID, uec_ReportedAt = reportedAt\<rparr>"

definition context_Key :: "UsageEventContext \<Rightarrow> UsageEventKey" where
  "context_Key c = \<lparr>uek_AccountID = trim_space (uec_AccountID c), uek_ClientID = trim_space (uec_ClientID c),
     uek_LeaseID = trim_space (uec_LeaseID c), uek_RunID = trim_space (uec_RunID c)\<rparr>"

definition event_Key :: "UsageEvent \<Rightarrow> UsageEventKey" where
  "event_Key e = \<lparr>uek_AccountID = trim_space (ue_AccountID e), uek_ClientID = trim_space (ue_ClientID e),
     uek_LeaseID = trim_space (ue_LeaseID e), uek_RunID = trim_space (ue_RunID e)\<rparr>"

definition usageEventModel :: "string \<Rightarrow> string \<Rightarrow> string" where
  "usageEventModel model fallback =
     (let model = trim_space model in if model \<noteq> [] then model else trim_space fallback)"

definition ModelKey :: "UsageEvent \<Rightarrow> UsageEventModelKey" where
  "ModelKey e = \<lparr>uek_AccountID = trim_space (ue_AccountID e), uek_ClientID = trim_space (ue_ClientID e),
     uek_LeaseID = trim_space (ue_LeaseID e), uek_RunID = trim_space (ue_RunID e),
     uek_Model = usageEventModel (ue_Model e) []\<rparr>"

section \<open>Events of a summary\<close>

definition addUsageEventTokens :: "Tokens \<Rightarrow> Tokens \<Rightarrow> Tokens" where
  "addUsageEventTokens l r = \<lparr>tok_Input = tok_Input l + tok_Input r,
     tok_CachedInput = tok_CachedInput l + tok_CachedInput r,
     tok_Output = tok_Output l + tok_Output r, tok_Total = tok_Total l + tok_Total r\<rparr>"

definition latestUsageEventTime :: "string \<Rightarrow> string \<Rightarrow> string" where
  "latestUsageEventTime l r =
     (let l = trim_space l; r = trim_space r in
      if l = [] then r
      else if r = [] then l
      else case (parse_time l, parse_time r) of
          (Some lt, Some rt) \<Rightarrow> if lt < rt then r else l
        | _ \<Rightarrow> if l < r then r else l)"

text \<open>One step of the loop over the models: the bucket of the model's name grows.\<close>

definition merge_model :: "ModelUsage \<Rightarrow> (string \<times> ModelUsage) list \<Rightarrow> (string \<times> ModelUsage) list" where
  "merge_model model byModel =
     (let name = usageEventModel (mu_Model model) ''unknown'';
          current = (case map_of byModel name of None \<Rightarrow> zero_ModelUsage [] | Some c \<Rightarrow> c)
      in AList.update name \<lparr>mu_Model = name,
           mu_Today = addUsageEventTokens (mu_Today current) (mu_Today model),
           mu_SevenDays = addUsageEventTokens (mu_SevenDays current) (mu_SevenDays model),
           mu_AllTime = addUsageEventTokens (mu_AllTime current) (mu_AllTime model),
           mu_LatestAt = latestUsageEventTime (mu_LatestAt current) (mu_LatestAt model)\<rparr> byModel)"

definition usageEventModels :: "Summary \<Rightarrow> ModelUsage list" where
  "usageEventModels s =
     (if sum_Models s = [] then
        [\<lparr>mu_Model = usageEventModel (sum_LatestModel s) ''unknown'', mu_Today = sum_Today s,
          mu_SevenDays = sum_SevenDays s, mu_AllTime = sum_AllTime s,
          mu_LatestAt = trim_space (sum_LatestAt s)\<rparr>]
      else sort_slice (\<lambda>a b. mu_Model a < mu_Model b) (map snd (fold merge_model (sum_Models s) [])))"

definition usage_event :: "UsageEventContext \<Rightarrow> Summary \<Rightarrow> ModelUsage \<Rightarrow> UsageEvent" where
  "usage_event c s model =
     (let key = context_Key c in
      \<lparr>ue_SchemaVersion = UsageEventSchemaVersion,
       ue_AccountID = uek_AccountID key, ue_ClientID = uek_ClientID key,
       ue_LeaseID = uek_LeaseID key, ue_RunID = uek_RunID key, ue_ReportedAt = uec_ReportedAt c,
       ue_Model = mu_Model model, ue_LatestAt = mu_LatestAt model, ue_Today = mu_Today model,
       ue_SevenDays = mu_SevenDays model, ue_AllTime = mu_AllTime model,
       ue_SummaryStatus = trim_space (sum_Status s), ue_SummaryDetail = trim_space (sum_Detail s),
       ue_SummaryFilesScanned = sum_FilesScanned s, ue_SummaryEvents = sum_Events s,
       ue_SummaryLatestAt = trim_space (sum_LatestAt s),
       ue_SummaryLatestModel = usageEventModel (sum_LatestModel s) []\<rparr>)"

definition UsageEventsFromSummary :: "UsageEventContext \<Rightarrow> Summary \<Rightarrow> UsageEvent list" where
  "UsageEventsFromSummary c s = map (usage_event c s) (usageEventModels s)"

text \<open>\<open>time.RFC3339Nano\<close>: the fraction of the second without its trailing zeros.\<close>

definition format_rfc3339_nano :: "time \<Rightarrow> string" where
  "format_rfc3339_nano t =
     (let ns = nat (t mod second);
          fraction = (if ns = 0 then [] else CHR ''.'' # rev (dropWhile (\<lambda>c. c = CHR ''0'') (rev (pad_nat 9 ns))))
      in butlast (format_rfc3339 t) @ fraction @ ''Z'')"

definition usageEventRunID :: "Summary \<Rightarrow> time \<Rightarrow> string io" where
  "usageEventRunID s reportedAt =
     (if trim_space (sum_LatestAt s) \<noteq> [] then returnE (trim_space (sum_LatestAt s))
      else if reportedAt \<noteq> zero_time then returnE (format_rfc3339_nano reportedAt)
      else bindE nowE (\<lambda>now. returnE (format_rfc3339_nano now)))"

section \<open>Recording a report\<close>

definition account_usage :: "string \<Rightarrow> string \<Rightarrow> time \<Rightarrow> Summary \<Rightarrow> AccountUsage" where
  "account_usage accountID clientID now s =
     \<lparr>au_AccountID = accountID, au_ClientID = clientID, au_UpdatedAt = now,
      au_LatestAt = sum_LatestAt s, au_LatestModel = sum_LatestModel s, au_Today = sum_Today s,
      au_SevenDays = sum_SevenDays s, au_AllTime = sum_AllTime s, au_Models = sum_Models s\<rparr>"

text \<open>The primary key of a row of \<open>cube_usage_events\<close>: five columns, as they are written.\<close>

definition event_row_key :: "UsageEvent \<Rightarrow> UsageEventModelKey" where
  "event_row_key e = \<lparr>uek_AccountID = ue_AccountID e, uek_ClientID = ue_ClientID e,
     uek_LeaseID = ue_LeaseID e, uek_RunID = ue_RunID e, uek_Model = ue_Model e\<rparr>"

definition save_usage_event :: "UsageEvent \<Rightarrow> Db \<Rightarrow> Db io" where
  "save_usage_event e = pgExec (\<lambda>d. d\<lparr>db_usage_events :=
     upsert merge_usage_event (event_row_key e) e (db_usage_events d)\<rparr>)"

definition recordPostgresUsage ::
  "string \<Rightarrow> string \<Rightarrow> string \<Rightarrow> string \<Rightarrow> Summary \<Rightarrow> unit io" where
  "recordPostgresUsage accountID clientID leaseID runID s =
     bindE nowE (\<lambda>now. pgTx (\<lambda>d.
     bindE (pgExec (\<lambda>d. d\<lparr>db_usage :=
        upsert merge_usage accountID (account_usage accountID clientID now s) (db_usage d)\<rparr>) d) (\<lambda>d.
     bindE (if trim_space runID = [] then usageEventRunID s now else returnE runID) (\<lambda>runID.
       foldE save_usage_event
         (UsageEventsFromSummary (NewUsageEventContext accountID clientID leaseID runID now) s) d))))"

definition RecordUsageWithContext ::
  "'m Manager_scheme \<Rightarrow> string \<Rightarrow> string \<Rightarrow> string \<Rightarrow> string \<Rightarrow> Summary \<Rightarrow> unit io" where
  "RecordUsageWithContext M accountID clientID leaseID runID s =
     (let accountID = trim_space accountID in
      if accountID = [] then throwE (ErrText ''usage account id is required'')
      else if postgres_mode M
      then recordPostgresUsage accountID (trim_space clientID) (trim_space leaseID) (trim_space runID) s
      else withMu (bindE (Load M) (\<lambda>st. bindE nowE (\<lambda>now.
        Save M (st\<lparr>st_Usage := AList.update accountID (account_usage accountID (trim_space clientID) now s)
          (st_Usage st)\<rparr>)))))"

definition RecordUsage :: "'m Manager_scheme \<Rightarrow> string \<Rightarrow> string \<Rightarrow> Summary \<Rightarrow> unit io" where
  "RecordUsage M accountID clientID s = RecordUsageWithContext M accountID clientID [] [] s"

definition UsageStats :: "'m Manager_scheme \<Rightarrow> (string \<times> AccountUsage) list io" where
  "UsageStats M = bindE (Load M) (\<lambda>st. returnE (st_Usage st))"

definition FetchUsage ::
  "'m Manager_scheme \<Rightarrow> (time \<Rightarrow> time) \<Rightarrow> tree \<Rightarrow> string \<Rightarrow> Summary io" where
  "FetchUsage M midnight tree k =
     bindE (GetAccount M k) (\<lambda>a. bindE nowE (\<lambda>now.
       returnE (SummarizeCodexHome M midnight tree (acc_CodexHome a) now)))"

section \<open>The refresh queue\<close>

record RefreshQueueItem =
  rq_AccountID :: string
  rq_Label :: string
  rq_Status :: AccountStatus
  rq_AuthPresent :: bool
  rq_UpdatedAt :: time
  rq_ResetsAt :: string
  rq_RemainingDisplay :: string
  rq_RemainingPercent :: percent
  rq_UsedPercent :: percent
  rq_FiveHourResetsAt :: string
  rq_FiveHourRemainingDisplay :: string
  rq_FiveHourRemainingPercent :: percent
  rq_FiveHourUsedPercent :: percent
  rq_SevenDayResetsAt :: string
  rq_SevenDayRemainingDisplay :: string
  rq_SevenDayRemainingPercent :: percent
  rq_SevenDayUsedPercent :: percent
  rq_BindingWindow :: string
  rq_QuotaStatus :: QuotaStatus
  rq_RefreshOrderReason :: string
  rq_OwnerMode :: AccountOwnerMode
  rq_OwnerClientID :: string
  rq_QuotaSource :: QuotaSource
  rq_QuotaReporterClientID :: string
  rq_LeaseActive :: bool
  rq_LeaseClientID :: string
  rq_LeaseExpiresAt :: time

definition refresh_reason :: "AccountView \<Rightarrow> QuotaCache \<Rightarrow> string" where
  "refresh_reason v cache =
     (if \<not> av_AuthPresent v then ''auth missing''
      else if acc_OwnerMode (av_Account v) = OwnerClient then
        (if res_Status (qc_Result cache) = NoQuota then ''waiting for client report'' else ''client reported'')
      else if av_LeaseActive v then ''leased''
      else case qc_FiveHour cache of
          None \<Rightarrow> ''quota not checked''
        | Some f \<Rightarrow> if win_ResetsAt f = [] then ''reset unknown'' else ''5h reset order'')"

definition refresh_item :: "AccountView \<Rightarrow> QuotaCache \<Rightarrow> RefreshQueueItem" where
  "refresh_item v cache =
     (let a = av_Account v;
          item = \<lparr>rq_AccountID = acc_ID a, rq_Label = acc_Label a, rq_Status = acc_Status a,
            rq_AuthPresent = av_AuthPresent v, rq_UpdatedAt = qc_UpdatedAt cache, rq_ResetsAt = [],
            rq_RemainingDisplay = [], rq_RemainingPercent = 0, rq_UsedPercent = 0,
            rq_FiveHourResetsAt = [], rq_FiveHourRemainingDisplay = [], rq_FiveHourRemainingPercent = 0,
            rq_FiveHourUsedPercent = 0, rq_SevenDayResetsAt = [], rq_SevenDayRemainingDisplay = [],
            rq_SevenDayRemainingPercent = 0, rq_SevenDayUsedPercent = 0, rq_BindingWindow = [],
            rq_QuotaStatus = res_Status (qc_Result cache), rq_RefreshOrderReason = [],
            rq_OwnerMode = acc_OwnerMode a, rq_OwnerClientID = acc_OwnerClientID a,
            rq_QuotaSource = qc_Source cache, rq_QuotaReporterClientID = qc_ReporterClientID cache,
            rq_LeaseActive = av_LeaseActive v, rq_LeaseClientID = acc_LeaseClientID a,
            rq_LeaseExpiresAt = acc_LeaseExpiresAt a\<rparr>;
          sevenDay = quotaSevenDay (qc_Result cache);
          item = (case qc_FiveHour cache of None \<Rightarrow> item
            | Some f \<Rightarrow> item\<lparr>rq_FiveHourResetsAt := win_ResetsAt f,
                rq_FiveHourRemainingDisplay := win_RemainingDisplay f,
                rq_FiveHourRemainingPercent := win_RemainingPercent f,
                rq_FiveHourUsedPercent := win_UsedPercent f\<rparr>);
          item = (case sevenDay of None \<Rightarrow> item
            | Some s \<Rightarrow> item\<lparr>rq_SevenDayResetsAt := win_ResetsAt s,
                rq_SevenDayRemainingDisplay := win_RemainingDisplay s,
                rq_SevenDayRemainingPercent := win_RemainingPercent s,
                rq_SevenDayUsedPercent := win_UsedPercent s\<rparr>);
          item = (case bindingWindow (qc_FiveHour cache) sevenDay of None \<Rightarrow> item
            | Some (t, b) \<Rightarrow> item\<lparr>rq_ResetsAt := win_ResetsAt b,
                rq_RemainingDisplay := win_RemainingDisplay b,
                rq_RemainingPercent := win_RemainingPercent b, rq_UsedPercent := win_UsedPercent b,
                rq_BindingWindow := binding_text t\<rparr>)
      in item\<lparr>rq_RefreshOrderReason := refresh_reason v cache\<rparr>)"

definition refresh_before :: "RefreshQueueItem \<Rightarrow> RefreshQueueItem \<Rightarrow> bool" where
  "refresh_before a b =
     (let ta = parseRFC3339 (rq_ResetsAt a); tb = parseRFC3339 (rq_ResetsAt b) in
      if ta \<noteq> zero_time \<and> tb \<noteq> zero_time then ta < tb
      else if ta \<noteq> zero_time then True
      else if tb \<noteq> zero_time then False
      else rq_AccountID a < rq_AccountID b)"

definition RefreshQueue :: "'m Manager_scheme \<Rightarrow> RefreshQueueItem list io" where
  "RefreshQueue M =
     bindE (ListAccounts M) (\<lambda>views. bindE (Load M) (\<lambda>st.
       returnE (sort_slice refresh_before
         (map (\<lambda>v. refresh_item v (quota_of st (acc_ID (av_Account v)))) views))))"

section \<open>The events add up to the summary\<close>

lemma usageEventModel_trimmed:
  "trim_space (usageEventModel model fallback) = usageEventModel model fallback"
  by (simp add: usageEventModel_def Let_def)

lemma usageEventModel_unknown: "usageEventModel model ''unknown'' \<noteq> []"
proof -
  have "trim_space ''unknown'' = ''unknown''" by code_simp
  then show ?thesis by (simp add: usageEventModel_def Let_def)
qed

definition named :: "(string \<times> ModelUsage) list \<Rightarrow> bool" where
  "named bs \<longleftrightarrow> distinct (map fst bs)
     \<and> (\<forall>(k, b) \<in> set bs. mu_Model b = k \<and> trim_space k = k \<and> k \<noteq> [])"

lemma merge_model_named: "named bs \<Longrightarrow> named (merge_model m bs)"
  unfolding named_def merge_model_def Let_def
  by (auto simp: distinct_update usageEventModel_trimmed usageEventModel_unknown dest!: set_update_cases)

text \<open>The three counters of a model.\<close>

definition counter :: "(ModelUsage \<Rightarrow> Tokens) \<Rightarrow> bool" where
  "counter g \<longleftrightarrow> g \<in> {mu_Today, mu_SevenDays, mu_AllTime}"

lemma addUsageEventTokens_assoc:
  "addUsageEventTokens (addUsageEventTokens a b) c = addUsageEventTokens a (addUsageEventTokens b c)"
  by (simp add: addUsageEventTokens_def algebra_simps)

lemma sum_tokens_Cons: "sum_tokens (t # ts) = addUsageEventTokens t (sum_tokens ts)"
  by (simp add: sum_tokens_def addUsageEventTokens_def)

lemma sum_tokens_Nil: "addUsageEventTokens t (sum_tokens []) = t" "addUsageEventTokens (sum_tokens []) t = t"
  by (simp_all add: sum_tokens_def addUsageEventTokens_def)

lemma merge_model_sum:
  assumes "named bs" "counter g"
  shows "sum_tokens (map (\<lambda>kb. g (snd kb)) (merge_model m bs))
    = addUsageEventTokens (sum_tokens (map (\<lambda>kb. g (snd kb)) bs)) (g m)"
proof -
  have "distinct (map fst bs)" using assms(1) by (simp add: named_def)
  note upd = sum_tokens_update [OF this]
  from assms(2) show ?thesis
    unfolding merge_model_def Let_def upd counter_def
    by (auto simp: addUsageEventTokens_def zero_ModelUsage_def zero_Tokens_def algebra_simps split: option.splits)
qed

lemma merge_models_sum:
  assumes "named bs" "counter g"
  shows "named (fold merge_model ms bs)
    \<and> sum_tokens (map (\<lambda>kb. g (snd kb)) (fold merge_model ms bs))
      = addUsageEventTokens (sum_tokens (map (\<lambda>kb. g (snd kb)) bs)) (sum_tokens (map g ms))"
  using assms(1)
proof (induction ms arbitrary: bs)
  case Nil
  then show ?case by (simp add: sum_tokens_Nil)
next
  case (Cons m ms)
  from Cons.IH [OF merge_model_named [OF Cons.prems, of m]] show ?case
    by (simp add: merge_model_sum [OF Cons.prems assms(2)] sum_tokens_Cons addUsageEventTokens_assoc)
qed

lemma usageEventModels_sum:
  assumes "counter g"
  shows "sum_Models s \<noteq> [] \<Longrightarrow> sum_tokens (map g (usageEventModels s)) = sum_tokens (map g (sum_Models s))"
    and "distinct (map mu_Model (usageEventModels s))
      \<and> (\<forall>m \<in> set (usageEventModels s). trim_space (mu_Model m) = mu_Model m \<and> mu_Model m \<noteq> [])"
proof -
  let ?bs = "fold merge_model (sum_Models s) []"
  have "named []" by (simp add: named_def)
  note all = merge_models_sum [OF this assms, of "sum_Models s"]
  let ?sorted = "sort_slice (\<lambda>a b. mu_Model a < mu_Model b) (map snd ?bs)"
  have "mset (map g ?sorted) = mset (map g (map snd ?bs))"
    unfolding mset_map go_sort.srt_mset ..
  then have m: "sum_tokens (map g ?sorted) = sum_tokens (map g (map snd ?bs))" by (rule sum_tokens_mset)
  show "sum_tokens (map g (usageEventModels s)) = sum_tokens (map g (sum_Models s))" if "sum_Models s \<noteq> []"
    unfolding usageEventModels_def if_not_P [OF that] m
    using all by (simp add: comp_def sum_tokens_Nil)
  have "map mu_Model (map snd ?bs) = map fst ?bs" using all by (auto simp: named_def)
  moreover have "distinct (map fst ?bs)" using all by (simp add: named_def)
  ultimately have "distinct (map mu_Model ?sorted)" by (simp only: go_sort.srt_distinct_keys)
  moreover have "\<forall>m \<in> set ?sorted. trim_space (mu_Model m) = mu_Model m \<and> mu_Model m \<noteq> []"
    using all by (auto simp: named_def)
  ultimately show "distinct (map mu_Model (usageEventModels s))
      \<and> (\<forall>m \<in> set (usageEventModels s). trim_space (mu_Model m) = mu_Model m \<and> mu_Model m \<noteq> [])"
    by (simp add: usageEventModels_def usageEventModel_trimmed usageEventModel_unknown)
qed

lemma usage_event_simps [simp]:
  "ue_Model (usage_event c s m) = mu_Model m" "ue_Today (usage_event c s m) = mu_Today m"
  "ue_SevenDays (usage_event c s m) = mu_SevenDays m" "ue_AllTime (usage_event c s m) = mu_AllTime m"
  "ue_AccountID (usage_event c s m) = trim_space (uec_AccountID c)"
  "ue_ClientID (usage_event c s m) = trim_space (uec_ClientID c)"
  "ue_LeaseID (usage_event c s m) = trim_space (uec_LeaseID c)"
  "ue_RunID (usage_event c s m) = trim_space (uec_RunID c)"
  by (simp_all add: usage_event_def context_Key_def Let_def)

lemma usageEventModel_idem: "trim_space m = m \<Longrightarrow> usageEventModel m [] = m"
  by (simp add: usageEventModel_def Let_def)

lemma event_row_key_ModelKey:
  "e \<in> set (UsageEventsFromSummary c s) \<Longrightarrow> event_row_key e = ModelKey e"
  using usageEventModels_sum(2) [of mu_AllTime s]
  by (auto simp: UsageEventsFromSummary_def event_row_key_def ModelKey_def counter_def usageEventModel_idem)

lemma event_rows_distinct: "distinct (map event_row_key (UsageEventsFromSummary c s))"
proof -
  have "distinct (map mu_Model (usageEventModels s))" using usageEventModels_sum(2) [of mu_AllTime] by (simp add: counter_def)
  then show ?thesis
    by (auto simp: UsageEventsFromSummary_def distinct_map inj_on_def event_row_key_def)
qed

lemma events_conserve:
  assumes "counter g" "\<And>m. h (usage_event c s m) = g m" "sum_Models s \<noteq> []"
  shows "sum_tokens (map h (UsageEventsFromSummary c s)) = sum_tokens (map g (sum_Models s))"
  using usageEventModels_sum(1) [OF assms(1,3)]
  by (simp add: UsageEventsFromSummary_def comp_def assms(2))

text \<open>For a scan of the session files this is the summary itself.\<close>

lemma scan_events_conserve:
  assumes "s = SummarizeCodexHome E midnight tree codexHome now"
  shows "sum_tokens (map ue_AllTime (UsageEventsFromSummary c s)) = sum_AllTime s
     \<and> sum_tokens (map ue_SevenDays (UsageEventsFromSummary c s)) = sum_SevenDays s
     \<and> sum_tokens (map ue_Today (UsageEventsFromSummary c s)) = sum_Today s"
proof (cases "sum_Models s = []")
  case True
  then show ?thesis
    by (simp add: UsageEventsFromSummary_def usageEventModels_def sum_tokens_def)
next
  case False
  note ev = events_conserve [OF _ _ False, of _ _ c]
  show ?thesis
    using summary_balanced [OF assms] ev [of mu_AllTime ue_AllTime] ev [of mu_SevenDays ue_SevenDays]
      ev [of mu_Today ue_Today] by (simp add: counter_def)
qed

section \<open>The rows of a report\<close>

text \<open>The rows a report leaves in \<open>cube_usage_events\<close>: those of its keys are its events.\<close>

definition upsert_events :: "UsageEvent list \<Rightarrow> (UsageEventModelKey \<times> UsageEvent) list \<Rightarrow> (UsageEventModelKey \<times> UsageEvent) list" where
  "upsert_events es t = fold (\<lambda>e. upsert merge_usage_event (event_row_key e) e) es t"

definition rows_ok :: "(UsageEventModelKey \<times> UsageEvent) list \<Rightarrow> bool" where
  "rows_ok t \<longleftrightarrow> (\<forall>k e. map_of t k = Some e \<longrightarrow> event_row_key e = k)"

lemma merge_usage_event_same:
  "event_row_key old = event_row_key new \<Longrightarrow> merge_usage_event old new = Some new"
  by (simp add: merge_usage_event_def event_row_key_def)

lemma upsert_event:
  assumes "rows_ok t"
  shows "map_of (upsert merge_usage_event (event_row_key e) e t) = (map_of t)(event_row_key e \<mapsto> e)"
    "rows_ok (upsert merge_usage_event (event_row_key e) e t)"
proof -
  show m: "map_of (upsert merge_usage_event (event_row_key e) e t) = (map_of t)(event_row_key e \<mapsto> e)"
    using assms by (auto simp: map_of_upsert rows_ok_def merge_usage_event_same split: option.splits)
  show "rows_ok (upsert merge_usage_event (event_row_key e) e t)"
    using assms by (auto simp: rows_ok_def m split: if_splits)
qed

lemma upsert_events_rows:
  assumes "rows_ok t" "distinct (map event_row_key es)"
  shows "rows_ok (upsert_events es t)
     \<and> (\<forall>e \<in> set es. map_of (upsert_events es t) (event_row_key e) = Some e)
     \<and> (\<forall>k. k \<notin> event_row_key ` set es \<longrightarrow> map_of (upsert_events es t) k = map_of t k)"
  using assms
proof (induction es arbitrary: t)
  case Nil
  then show ?case by (simp add: upsert_events_def)
next
  case (Cons e es)
  let ?t = "upsert merge_usage_event (event_row_key e) e t"
  have "upsert_events (e # es) t = upsert_events es ?t" by (simp add: upsert_events_def)
  with Cons.IH [OF upsert_event(2) [OF Cons.prems(1)], of e] Cons.prems
  show ?case by (auto simp: upsert_event(1))
qed

lemma map_fst_upsert:
  assumes "map_of t k \<noteq> None"
  shows "map fst (upsert merge k new t) = map fst t"
proof -
  from assms have "k \<in> set (map fst t)" by (simp only: map_of_eq_None_iff set_map not_not)
  with assms show ?thesis by (auto simp only: upsert_def update_keys if_True split: option.splits)
qed

lemma upsert_events_known:
  assumes "\<forall>e \<in> set es. map_of t (event_row_key e) \<noteq> None"
  shows "map fst (upsert_events es t) = map fst t"
  using assms
proof (induction es arbitrary: t)
  case Nil
  then show ?case by (simp add: upsert_events_def)
next
  case (Cons e es)
  let ?t = "upsert merge_usage_event (event_row_key e) e t"
  have keys: "map fst ?t = map fst t" using Cons.prems by (intro map_fst_upsert) simp
  then have "\<forall>x \<in> set es. map_of ?t (event_row_key x) \<noteq> None"
    using Cons.prems by (auto simp: map_of_upsert)
  from Cons.IH [OF this] keys show ?case by (simp add: upsert_events_def)
qed

text \<open>A transaction body that computes a function of the clock and the database.\<close>

definition computes :: "(Db \<Rightarrow> Db io) \<Rightarrow> (time \<Rightarrow> Db \<Rightarrow> Db) \<Rightarrow> bool" where
  "computes body f \<longleftrightarrow> (\<forall>d w r w'. body d w = (r, w') \<longrightarrow>
     (\<exists>fs. w' = w\<lparr>w_faults := fs\<rparr>) \<and> (\<forall>d'. r = Inr d' \<longrightarrow> d' = f (w_now w) d))"

lemma computesD:
  "computes body f \<Longrightarrow> body d w = (r, w') \<Longrightarrow>
     (\<exists>fs. w' = w\<lparr>w_faults := fs\<rparr>) \<and> (\<forall>d'. r = Inr d' \<longrightarrow> d' = f (w_now w) d)"
  unfolding computes_def by simp

lemma faults_self: "\<exists>fs. (w::World) = w\<lparr>w_faults := fs\<rparr>"
  by (rule exI [of _ "w_faults w"]) simp

lemma stepE_faults: "stepE w = (r, w') \<Longrightarrow> \<exists>fs. w' = w\<lparr>w_faults := fs\<rparr>"
  by (auto simp: stepE_def split: list.splits option.splits intro: exI [of _ "w_faults w"])

lemma computes_pgExec: "computes (pgExec g) (\<lambda>_. g)"
  by (auto simp: computes_def pgExec_def bindE_def returnE_def split: prod.splits sum.splits dest!: stepE_faults)

lemma computes_bind:
  assumes "computes b f" "computes c g"
  shows "computes (\<lambda>d. bindE (b d) c) (\<lambda>t d. g t (f t d))"
  unfolding computes_def
proof (intro allI impI)
  fix d w r w' assume run: "bindE (b d) c w = (r, w')"
  obtain r1 w1 where 1: "b d w = (r1, w1)" by fastforce
  from computesD [OF assms(1) 1] obtain fs where w1: "w1 = w\<lparr>w_faults := fs\<rparr>"
    "\<And>x. r1 = Inr x \<Longrightarrow> x = f (w_now w) d" by auto
  show "(\<exists>fs. w' = w\<lparr>w_faults := fs\<rparr>) \<and> (\<forall>d'. r = Inr d' \<longrightarrow> d' = g (w_now w) (f (w_now w) d))"
  proof (cases r1)
    case (Inl e)
    with 1 run w1 show ?thesis by auto
  next
    case (Inr x)
    with 1 run have "c x w1 = (r, w')" by simp
    from computesD [OF assms(2) this] obtain gs where "w' = w1\<lparr>w_faults := gs\<rparr>"
      "\<And>y. r = Inr y \<Longrightarrow> y = g (w_now w1) x" by auto
    with w1 Inr show ?thesis by auto
  qed
qed

lemma computes_foldE:
  assumes "\<And>x. computes (f x) (g x)"
  shows "computes (foldE f xs) (\<lambda>t. fold (\<lambda>x. g x t) xs)"
proof (induction xs)
  case Nil
  then show ?case using faults_self by (auto simp: computes_def returnE_def)
next
  case (Cons x xs)
  from computes_bind [OF assms Cons.IH] show ?case by simp
qed

lemma pgTx_computes:
  assumes "computes body f" "pgTx body w = (Inr (), w')"
  shows "\<exists>fs. w' = w\<lparr>w_db := f (w_now w) (w_db w), w_faults := fs\<rparr>"
proof -
  from assms(2) obtain u w1 d2 w2 v w3 where
    1: "stepE w = (Inr u, w1)" and 2: "body (w_db w1) w1 = (Inr d2, w2)"
    and 3: "stepE w2 = (Inr v, w3)" and w': "w' = w3\<lparr>w_db := d2\<rparr>"
    unfolding pgTx_def by (auto elim!: bindE_InrE)
  from stepE_faults [OF 1] obtain fs where w1: "w1 = w\<lparr>w_faults := fs\<rparr>" by blast
  from computesD [OF assms(1) 2] obtain gs where w2: "w2 = w1\<lparr>w_faults := gs\<rparr>"
    "d2 = f (w_now w1) (w_db w1)" by auto
  from stepE_faults [OF 3] obtain hs where "w3 = w2\<lparr>w_faults := hs\<rparr>" by blast
  with w1 w2 w' show ?thesis by (intro exI [of _ hs]) simp
qed

lemma fold_save_usage_event:
  "fold (\<lambda>e d. d\<lparr>db_usage_events := upsert merge_usage_event (event_row_key e) e (db_usage_events d)\<rparr>) es
   = (\<lambda>d. d\<lparr>db_usage_events := upsert_events es (db_usage_events d)\<rparr>)"
proof
  show "fold (\<lambda>e d. d\<lparr>db_usage_events := upsert merge_usage_event (event_row_key e) e (db_usage_events d)\<rparr>) es d
      = d\<lparr>db_usage_events := upsert_events es (db_usage_events d)\<rparr>" for d
    by (induction es arbitrary: d) (simp_all add: upsert_events_def)
qed

definition run_id :: "string \<Rightarrow> Summary \<Rightarrow> time \<Rightarrow> string" where
  "run_id runID s now = (if trim_space runID \<noteq> [] then runID
     else if trim_space (sum_LatestAt s) \<noteq> [] then trim_space (sum_LatestAt s) else format_rfc3339_nano now)"

lemma computes_run_id:
  assumes "\<And>x. computes (c x) (g x)"
  shows "computes (\<lambda>d. bindE (if trim_space r = [] then usageEventRunID s now else returnE r) (\<lambda>x. c x d))
    (\<lambda>t. g (run_id r s (if now = zero_time then t else now)) t)"
proof -
  have "(if trim_space r = [] then usageEventRunID s now else returnE r) w
      = (Inr (run_id r s (if now = zero_time then w_now w else now)), w)" for w
    by (simp add: usageEventRunID_def run_id_def)
  then show ?thesis using assms by (simp add: computes_def bindE_def)
qed

text \<open>What a report that was recorded leaves in the database.\<close>

lemma recordPostgresUsage_stored:
  assumes "recordPostgresUsage a c l r s w = (Inr (), w')"
  shows "\<exists>fs. w' = w\<lparr>w_db := (w_db w)\<lparr>
      db_usage := upsert merge_usage a (account_usage a c (w_now w) s) (db_usage (w_db w)),
      db_usage_events := upsert_events
        (UsageEventsFromSummary (NewUsageEventContext a c l (run_id r s (w_now w)) (w_now w)) s)
        (db_usage_events (w_db w))\<rparr>, w_faults := fs\<rparr>"
proof -
  let ?now = "w_now w"
  have events: "computes (foldE save_usage_event (UsageEventsFromSummary (NewUsageEventContext a c l x ?now) s))
      (\<lambda>t d. d\<lparr>db_usage_events := upsert_events
         (UsageEventsFromSummary (NewUsageEventContext a c l x ?now) s) (db_usage_events d)\<rparr>)" for x
  proof -
    have "computes (save_usage_event e) (\<lambda>t d. d\<lparr>db_usage_events :=
        upsert merge_usage_event (event_row_key e) e (db_usage_events d)\<rparr>)" for e
      unfolding save_usage_event_def by (rule computes_pgExec)
    from computes_foldE [where f = save_usage_event, OF this] show ?thesis by (simp only: fold_save_usage_event)
  qed
  note body = computes_bind [OF computes_pgExec computes_run_id [OF events]]
  from assms have "pgTx (\<lambda>d. bindE (pgExec (\<lambda>d. d\<lparr>db_usage :=
        upsert merge_usage a (account_usage a c ?now s) (db_usage d)\<rparr>) d) (\<lambda>d.
      bindE (if trim_space r = [] then usageEventRunID s ?now else returnE r) (\<lambda>x.
        foldE save_usage_event (UsageEventsFromSummary (NewUsageEventContext a c l x ?now) s) d))) w = (Inr (), w')"
    by (simp add: recordPostgresUsage_def)
  from pgTx_computes [OF body this] show ?thesis by (auto split: if_splits)
qed

lemma rows_of_report:
  assumes "rows_ok t"
  shows "rows_ok (upsert_events (UsageEventsFromSummary c s) t)
     \<and> (\<forall>m \<in> set (usageEventModels s). map_of (upsert_events (UsageEventsFromSummary c s) t)
          (event_row_key (usage_event c s m)) = Some (usage_event c s m))
     \<and> (\<forall>k. k \<notin> event_row_key ` set (UsageEventsFromSummary c s) \<longrightarrow>
          map_of (upsert_events (UsageEventsFromSummary c s) t) k = map_of t k)"
  using upsert_events_rows [OF assms event_rows_distinct, of c s] by (auto simp: UsageEventsFromSummary_def)

lemma event_row_key_report:
  "event_row_key (usage_event (NewUsageEventContext a c l r t) s m) = \<lparr>uek_AccountID = trim_space a,
     uek_ClientID = trim_space c, uek_LeaseID = trim_space l, uek_RunID = trim_space r, uek_Model = mu_Model m\<rparr>"
  by (simp add: event_row_key_def NewUsageEventContext_def)

text \<open>The counters of a row, which the time of the report is no part of.\<close>

definition row_counters :: "UsageEvent \<Rightarrow> Tokens \<times> Tokens \<times> Tokens" where
  "row_counters e = (ue_Today e, ue_SevenDays e, ue_AllTime e)"

text \<open>A report that names its run, or whose summary has a latest event, may be sent again.\<close>

lemma report_again:
  assumes "trim_space a \<noteq> []" "postgres_mode M" "trim_space r \<noteq> [] \<or> trim_space (sum_LatestAt s) \<noteq> []"
    and "rows_ok (db_usage_events (w_db w))"
    and "RecordUsageWithContext M a c l r s w = (Inr (), w1)"
    and "RecordUsageWithContext M a c l r s v = (Inr (), w2)" "w_db v = w_db w1"
  shows "map fst (db_usage_events (w_db w2)) = map fst (db_usage_events (w_db w1))
     \<and> (\<forall>k. map_option row_counters (map_of (db_usage_events (w_db w2)) k)
           = map_option row_counters (map_of (db_usage_events (w_db w1)) k))"
proof -
  let ?r = "run_id (trim_space r) s 0"
  let ?c = "\<lambda>t. NewUsageEventContext (trim_space a) (trim_space c) (trim_space l) ?r t"
  have run: "run_id (trim_space r) s t = ?r" for t using assms(3) by (auto simp: run_id_def)
  have rec: "recordPostgresUsage (trim_space a) (trim_space c) (trim_space l) (trim_space r) s u = (Inr (), u')"
    if "RecordUsageWithContext M a c l r s u = (Inr (), u')" for u u'
    using that assms(1,2) by (simp add: RecordUsageWithContext_def Let_def)
  have stored: "db_usage_events (w_db u') =
      upsert_events (UsageEventsFromSummary (?c (w_now u)) s) (db_usage_events (w_db u))"
    if "RecordUsageWithContext M a c l r s u = (Inr (), u')" for u u'
    using recordPostgresUsage_stored [OF rec [OF that]] unfolding run [of "w_now u"] by auto
  let ?t1 = "db_usage_events (w_db w1)"
  define row where "row m = event_row_key (usage_event (?c 0) s m)" for m
  have key: "event_row_key (usage_event (?c t) s m) = row m" for t m
    by (simp add: row_def event_row_key_report)
  have rows1: "rows_ok ?t1"
      "\<forall>m \<in> set (usageEventModels s). map_of ?t1 (row m) = Some (usage_event (?c (w_now w)) s m)"
    using rows_of_report [OF assms(4), of "?c (w_now w)" s] unfolding stored [OF assms(5)] key by simp_all
  have two: "db_usage_events (w_db w2) = upsert_events (UsageEventsFromSummary (?c (w_now v)) s) ?t1"
    using stored [OF assms(6)] assms(7) by simp
  have rows2: "\<forall>m \<in> set (usageEventModels s).
        map_of (db_usage_events (w_db w2)) (row m) = Some (usage_event (?c (w_now v)) s m)"
      "\<forall>k. k \<notin> row ` set (usageEventModels s) \<longrightarrow> map_of (db_usage_events (w_db w2)) k = map_of ?t1 k"
    using rows_of_report [OF rows1(1), of "?c (w_now v)" s] unfolding two key
    by (simp_all add: UsageEventsFromSummary_def image_image key)
  have "map fst (db_usage_events (w_db w2)) = map fst ?t1"
    unfolding two by (rule upsert_events_known) (use rows1(2) in \<open>auto simp: UsageEventsFromSummary_def key\<close>)
  moreover have "map_option row_counters (map_of (db_usage_events (w_db w2)) k) = map_option row_counters (map_of ?t1 k)"
    for k
  proof (cases "k \<in> row ` set (usageEventModels s)")
    case True
    then obtain m where "m \<in> set (usageEventModels s)" "k = row m" by blast
    with rows1(2) rows2(1) show ?thesis by (simp add: row_counters_def)
  next
    case False
    with rows2(2) show ?thesis by simp
  qed
  ultimately show ?thesis by blast
qed

section \<open>File mode\<close>

text \<open>A report replaces the account's entry and touches nothing else.\<close>

lemma usage_stored:
  assumes "\<not> postgres_mode M" "trim_space a \<noteq> []"
  shows "gives_op T (\<lambda>v. v = st) (RecordUsageWithContext M a c l r s)
    (\<lambda>_ v. v = normalizeState T (st\<lparr>st_Usage := AList.update (trim_space a)
        (account_usage (trim_space a) (trim_space c) T s) (st_Usage st), st_Version := 1\<rparr>))"
proof -
  have [simp]: "\<not> postgres_mode M" by (rule assms(1))
  show ?thesis
    unfolding RecordUsageWithContext_def Let_def if_not_P [OF assms(2)] if_not_P [OF assms(1)]
    by (rule file_store.gives_withMu) (intro file_store.gives_load file_store.gives_now file_store.gives_save; simp)
qed

section \<open>The order of the refresh queue\<close>

lemma refresh_before_weak: "strict_weak refresh_before"
  unfolding strict_weak_def refresh_before_def Let_def by (auto split: if_splits)

lemma refresh_item_ID: "rq_AccountID (refresh_item v cache) = acc_ID (av_Account v)"
  unfolding refresh_item_def Let_def
  by (cases "qc_FiveHour cache"; cases "quotaSevenDay (qc_Result cache)") (auto split: option.splits)

lemma refresh_queue_items:
  assumes "ListAccounts M w = (Inr views, v)" "RefreshQueue M w = (Inr q, w')"
  shows "mset (map rq_AccountID q) = mset (map (\<lambda>v. acc_ID (av_Account v)) views)
     \<and> sorted_wrt (\<lambda>x y. \<not> refresh_before y x) q"
proof -
  from assms obtain st where "q = sort_slice refresh_before
      (map (\<lambda>v. refresh_item v (quota_of st (acc_ID (av_Account v)))) views)"
    unfolding RefreshQueue_def by (auto elim!: bindE_InrE simp: returnE_def)
  moreover have "mset (map rq_AccountID (sort_slice refresh_before xs)) = mset (map rq_AccountID xs)" for xs
    unfolding mset_map go_sort.srt_mset ..
  ultimately show ?thesis
    using go_sort.srt_sorted [OF refresh_before_weak]
    by (simp add: image_mset.compositionality comp_def refresh_item_ID)
qed

text \<open>Without a failing step a report is recorded.\<close>

lemma foldE_save_eval:
  "w_faults w = [] \<Longrightarrow> foldE save_usage_event es d w =
     (Inr (d\<lparr>db_usage_events := upsert_events es (db_usage_events d)\<rparr>), w)"
  by (induction es arbitrary: d) (simp_all add: save_usage_event_def upsert_events_def)

lemma RecordUsageWithContext_eval:
  assumes "postgres_mode M" "trim_space a \<noteq> []" "w_faults w = []"
  shows "\<exists>d. RecordUsageWithContext M a c l r s w = (Inr (), w\<lparr>w_db := d\<rparr>)"
proof (cases "trim_space r = []")
  case True
  have "usageEventRunID s t w = (Inr (run_id [] s (if t = zero_time then w_now w else t)), w)" for t
    by (simp add: usageEventRunID_def run_id_def)
  with True assms show ?thesis
    by (simp add: RecordUsageWithContext_def recordPostgresUsage_def pgTx_def foldE_save_eval Let_def)
      (rule exI, rule refl)
next
  case False
  with assms show ?thesis
    by (simp add: RecordUsageWithContext_def recordPostgresUsage_def pgTx_def foldE_save_eval Let_def)
      (rule exI, rule refl)
qed

lemma model_keys_distinct: "distinct (map ModelKey (UsageEventsFromSummary c s))"
proof -
  have "map ModelKey (UsageEventsFromSummary c s) = map event_row_key (UsageEventsFromSummary c s)"
    by (rule map_cong [OF refl]) (simp add: event_row_key_ModelKey)
  with event_rows_distinct show ?thesis by (simp only:)
qed

end
