(* ===== verification/UsageSample.thy ===== *)
theory UsageSample
  imports Sample UsageEvents
begin

text \<open>
  A manager on Postgres, session events with running totals, and a session file with two
  rate limit records, on which the usage properties are applied.
\<close>

definition pg_manager :: Manager where
  "pg_manager = sample_manager\<lparr>m_DatabaseURL := ''postgres''\<rparr>"

lemma pg_mode: "postgres_mode pg_manager" by code_simp

definition total_event :: "rat \<Rightarrow> rat \<Rightarrow> json" where
  "total_event i n = JObj [(''type'', JStr ''event_msg''), (''payload'', JObj [(''type'', JStr ''token_count''),
     (''info'', JObj [(''total_token_usage'', JObj [(''input_tokens'', JNum i), (''output_tokens'', JNum n)])])])]"

definition limits_event :: "string \<Rightarrow> json" where
  "limits_event t = JObj [(''timestamp'', JStr t), (''payload'', JObj [(''type'', JStr ''token_count''),
     (''rate_limits'', JObj [(''rate_limit_reached_type'', JStr ''primary'')])])]"

definition limits_record :: "time \<Rightarrow> RateLimits" where
  "limits_record t = zero_RateLimits\<lparr>rl_CapturedAt := t, rl_ReachedType := ''primary'', rl_Found := True\<rparr>"

text \<open>The lines of the file stand for the two events.\<close>

definition limits_env :: Manager where
  "limits_env = sample_manager\<lparr>env_json := (\<lambda>s. Some (limits_event
     (if last s = CHR ''1'' then ''0001-01-01T00:00:09Z'' else ''0001-01-01T00:00:07Z'')))\<rparr>"

definition limits_tree :: tree where
  "limits_tree = [(''/h/sessions/s.jsonl'', Some (''rate_limits1'' @ [CHR 0x0A] @ ''rate_limits2''))]"

text \<open>What a scan of the file sees; a buffer that is large enough makes no difference.\<close>

lemma scan_lines_limit:
  "length acc + length t < l \<Longrightarrow> length acc + length t < l' \<Longrightarrow> scan_lines l acc t = scan_lines l' acc t"
  by (induction l acc t rule: scan_lines.induct) auto

lemma limits_records:
  "rate_records limits_env limits_tree ''/h'' = [limits_record (9 * second), limits_record (7 * second)]"
proof -
  let ?text = "''rate_limits1'' @ [CHR 0x0A] @ ''rate_limits2''"
  have "scan_lines scanMaxBuf [] ?text = scan_lines 100 [] ?text"
    by (rule scan_lines_limit) (simp_all add: scanMaxBuf_def)
  moreover have "scan_lines 100 [] ?text = ([''rate_limits1'', ''rate_limits2''], False)" by code_simp
  moreover have "scanned_objects limits_env (\<lambda>line. contains_sub line ''rate_limits'') [''rate_limits1'', ''rate_limits2'']
      = [limits_event ''0001-01-01T00:00:09Z'', limits_event ''0001-01-01T00:00:07Z'']" by code_simp
  moreover have "List.map_filter parseRateLimitsRecord
      [limits_event ''0001-01-01T00:00:09Z'', limits_event ''0001-01-01T00:00:07Z'']
      = [limits_record (9 * second), limits_record (7 * second)]" by code_simp
  moreover have "collectFiles limits_tree ''/h'' = limits_tree" by code_simp
  ultimately show ?thesis by (simp only: rate_records_def limits_tree_def list.map snd_conv option.case fst_conv concat.simps append_Nil2)
qed
end
