(* ===== verification/PgRows.thy ===== *)
theory PgRows
  imports LeaseRun
begin

text \<open>
  The requests of the manager on Postgres, as far as the rows of \<open>cube_accounts\<close> go: a load reads the rows
  into a state, a save upserts the accounts of a state in one transaction, where a stored row that is newer
  stays. The locale \<open>row_invariant\<close> extends \<open>request_invariant\<close> by an invariant of the rows, which every
  request keeps, whatever steps fail.
\<close>

section \<open>The rows of the accounts\<close>

abbreviation account_rows :: "World \<Rightarrow> (string \<times> AccountRow) list" where
  "account_rows w \<equiv> db_accounts (w_db w)"

interpretation rows: framed_view account_rows
  by unfold_locales simp

abbreviation row_safe :: "time \<Rightarrow> ((string \<times> AccountRow) list \<Rightarrow> bool) \<Rightarrow> 'a io \<Rightarrow> bool" where
  "row_safe \<equiv> framed_view.safe account_rows"

lemma row_safeI:
  assumes "\<And>w r w'. w_now w = T \<Longrightarrow> A (account_rows w) \<Longrightarrow> m w = (r, w') \<Longrightarrow> w_now w' = T \<and> A (account_rows w')"
  shows "row_safe T A m"
  unfolding rows.safe_def
proof (rule keepsI)
  fix w assume "w_now w = T \<and> A (account_rows w)"
  then show "w_now (snd (m w)) = T \<and> A (account_rows (snd (m w)))"
    using assms [of w "fst (m w)" "snd (m w)"] by simp
qed

lemma row_safe_modify:
  "(\<And>d. A (db_accounts d) \<Longrightarrow> A (db_accounts (g d))) \<Longrightarrow> row_safe T A (modifyE (\<lambda>w. w\<lparr>w_db := g (w_db w)\<rparr>))"
  by (rule row_safeI) (auto simp: modifyE_def)

text \<open>The body of a transaction: it works on the copy, and the rows it leaves in it have A.\<close>

definition stays :: "((string \<times> AccountRow) list \<Rightarrow> bool) \<Rightarrow> (Db \<Rightarrow> Db io) \<Rightarrow> bool" where
  "stays A body \<longleftrightarrow> (\<forall>d w r w'. body d w = (r, w') \<longrightarrow> A (db_accounts d) \<longrightarrow>
     same_but_faults w w' \<and> (\<forall>d'. r = Inr d' \<longrightarrow> A (db_accounts d')))"

lemma staysD:
  "stays A body \<Longrightarrow> body d w = (r, w') \<Longrightarrow> A (db_accounts d) \<Longrightarrow>
   same_but_faults w w' \<and> (\<forall>d'. r = Inr d' \<longrightarrow> A (db_accounts d'))"
  unfolding stays_def by blast

lemma stays_exec: "(\<And>d. A (db_accounts d) \<Longrightarrow> A (db_accounts (s d))) \<Longrightarrow> stays A (pgExec s)"
  by (auto simp: stays_def pgExec_def bindE_def returnE_def split: prod.splits sum.splits dest: stepE_D)

lemma stays_return: "stays A returnE"
  by (simp add: stays_def returnE_def)

lemma stays_throw: "stays A (\<lambda>d. throwE e)"
  by (simp add: stays_def throwE_def)

lemma stays_if: "stays A f \<Longrightarrow> stays A g \<Longrightarrow> stays A (\<lambda>d. if b d then f d else g d)"
  by (simp add: stays_def)

lemma stays_bind:
  assumes "stays A f" "stays A g"
  shows "stays A (\<lambda>d. bindE (f d) g)"
  unfolding stays_def
proof (intro allI impI)
  fix d w r w' assume run: "bindE (f d) g w = (r, w')" and d: "A (db_accounts d)"
  obtain r1 w1 where 1: "f d w = (r1, w1)" by fastforce
  note f = staysD [OF assms(1) 1 d]
  show "same_but_faults w w' \<and> (\<forall>d'. r = Inr d' \<longrightarrow> A (db_accounts d'))"
  proof (cases r1)
    case (Inl e)
    with 1 run f show ?thesis by auto
  next
    case (Inr x)
    with 1 run have "g x w1 = (r, w')" by simp
    from staysD [OF assms(2) this] f Inr show ?thesis by (auto intro: same_trans)
  qed
qed

lemma stays_fold: "(\<And>x. x \<in> set xs \<Longrightarrow> stays A (f x)) \<Longrightarrow> stays A (foldE f xs)"
proof (induction xs)
  case Nil
  have "foldE f [] = returnE" by (rule ext) simp
  with stays_return show ?case by metis
next
  case (Cons x xs)
  have "stays A (\<lambda>d. bindE (f x d) (foldE f xs))" by (intro stays_bind Cons) simp_all
  then show ?case by simp
qed

lemma readFile_same: "readFile path w = (r, w') \<Longrightarrow> same_but_faults w w'"
  by (auto simp: readFile_def bindE_def getsE_def split: prod.splits sum.splits dest: stepE_D)

lemma readAccountAuthJSON_same: "readAccountAuthJSON a w = (r, w') \<Longrightarrow> same_but_faults w w'"
  by (auto simp: readAccountAuthJSON_def Let_def bindE_def returnE_def throwE_def
      split: prod.splits sum.splits option.splits content.splits dest: readFile_same)

lemma stays_read:
  assumes "\<And>x. stays A (g x)"
  shows "stays A (\<lambda>d. bindE (readAccountAuthJSON a) (\<lambda>x. g x d))"
  unfolding stays_def
proof (intro allI impI)
  fix d w r w' assume run: "bindE (readAccountAuthJSON a) (\<lambda>x. g x d) w = (r, w')" and d: "A (db_accounts d)"
  obtain r1 w1 where 1: "readAccountAuthJSON a w = (r1, w1)" by fastforce
  from run 1 readAccountAuthJSON_same [OF 1] staysD [OF assms _ d]
  show "same_but_faults w w' \<and> (\<forall>d'. r = Inr d' \<longrightarrow> A (db_accounts d'))"
    by (cases r1) (auto intro: same_trans)
qed

lemmas stays_intros = stays_bind stays_fold stays_if stays_read stays_return stays_throw

lemma row_safe_tx:
  assumes "stays A body"
  shows "row_safe T A (pgTx body)"
proof (rule row_safeI)
  fix w r w' assume w: "w_now w = T" "A (account_rows w)" and run: "pgTx body w = (r, w')"
  obtain r1 w1 where 1: "stepE w = (r1, w1)" by fastforce
  obtain r2 w2 where 2: "body (w_db w1) w1 = (r2, w2)" by fastforce
  obtain r3 w3 where 3: "stepE w2 = (r3, w3)" by fastforce
  have s1: "w_now w1 = T" "A (account_rows w1)" using w same_fields [OF stepE_D [OF 1]] by simp_all
  note b = staysD [OF assms 2 s1(2)]
  have s2: "w_now w2 = T" "A (account_rows w2)" using s1 same_fields [of w1 w2] b by simp_all
  have s3: "w_now w3 = T" "A (account_rows w3)" using s2 same_fields [OF stepE_D [OF 3]] by simp_all
  from run 1 2 3 s1 s2 s3 b show "w_now w' = T \<and> A (account_rows w')"
    by (cases r1; cases r2; cases r3) (auto simp: pgTx_def modifyE_def)
qed

section \<open>A load and a save\<close>

text \<open>A load reads the rows and writes credentials, but no row.\<close>

definition only_files :: "World \<Rightarrow> World \<Rightarrow> bool" where
  "only_files w w' \<longleftrightarrow> w_db w' = w_db w \<and> w_now w' = w_now w"

lemma only_files_refl: "only_files w w"
  by (simp add: only_files_def)

lemma only_files_trans: "only_files w w1 \<Longrightarrow> only_files w1 w2 \<Longrightarrow> only_files w w2"
  by (simp add: only_files_def)

lemma only_files_step: "stepE w = (r, w') \<Longrightarrow> only_files w w'"
  using same_fields [OF stepE_D] by (simp add: only_files_def)

interpretation tables: framed_view w_db
  by unfold_locales simp

lemma materializeAuth_files:
  assumes "materializeAuth a raw w = (r, w')"
  shows "only_files w w'"
proof -
  have "tables.safe (w_now w) (\<lambda>d. d = w_db w) (materializeAuth a raw)"
    unfolding materializeAuth_def Let_def by (intro tables.safe_intros tables.safe_bind)
  from tables.safeD [OF this] keepsD [OF this [unfolded tables.safe_def], of w] assms
  show ?thesis by (simp add: only_files_def)
qed

lemma load_accounts_files:
  "foldE (load_account M) ts as w = (r, w') \<Longrightarrow>
   only_files w w' \<and> (\<forall>out. r = Inr out \<longrightarrow> out = as @ map (scan_account M) ts)"
proof (induction ts arbitrary: as w)
  case Nil
  then show ?case by (auto simp: returnE_def only_files_refl)
next
  case (Cons t ts)
  let ?m = "case ar_auth_json t of None \<Rightarrow> returnE () | Some raw \<Rightarrow> materializeAuth (scan_account M t) raw"
  obtain r1 w1 where 1: "?m w = (r1, w1)" by fastforce
  have f: "only_files w w1"
    using 1 materializeAuth_files by (auto simp: returnE_def only_files_refl split: option.splits)
  show ?case
  proof (cases r1)
    case (Inl e)
    with Cons.prems 1 f show ?thesis by (auto simp: load_account_def Let_def)
  next
    case (Inr u)
    with 1 have "load_account M t as w = (Inr (as @ [scan_account M t]), w1)"
      by (simp add: load_account_def Let_def)
    with Cons.prems have "foldE (load_account M) ts (as @ [scan_account M t]) w1 = (r, w')" by simp
    from Cons.IH [OF this] f show ?thesis by (auto intro: only_files_trans)
  qed
qed

lemma loadPostgresState_files:
  assumes "loadPostgresState M w = (r, w')"
  shows "only_files w w' \<and> (\<forall>st. r = Inr st \<longrightarrow>
     (\<exists>st0. st = normalizeState (w_now w) st0
        \<and> st_Accounts st0 = map (scan_account M) (select_ordered (account_rows w))))"
proof -
  obtain r1 w1 where 1: "stepE w = (r1, w1)" by fastforce
  obtain r2 w2 where 2: "foldE (load_account M) (select_ordered (account_rows w1)) [] w1 = (r2, w2)" by fastforce
  obtain r3 w3 where 3: "stepE w2 = (r3, w3)" by fastforce
  note f1 = only_files_step [OF 1] and f2 = load_accounts_files [OF 2] and f3 = only_files_step [OF 3]
  have f13: "only_files w w2" "only_files w w3"
    using f1 f2 f3 by (blast intro: only_files_trans)+
  from assms 1 2 3 f1 f13 f2 show ?thesis
    by (cases r1; cases r2; cases r3)
      (auto simp: loadPostgresState_def returnE_def only_files_def intro!: exI)
qed

text \<open>The tables other than \<open>cube_accounts\<close> are no business of A.\<close>

lemma stays_rows:
  "stays A (save_client now c)" "stays A (save_user now u)" "stays A (save_session now s)"
  "stays A (save_workspace now x)" "stays A (save_membership now m)" "stays A (save_dispatch now e)"
  "stays A (save_usage now ku)" "stays A (save_quota now kc)" "stays A (save_meta k b)"
  unfolding save_client_def [abs_def] save_user_def [abs_def] save_session_def [abs_def] save_workspace_def [abs_def]
    save_membership_def [abs_def] save_dispatch_def [abs_def] save_usage_def [abs_def] save_quota_def [abs_def]
    save_meta_def [abs_def] Let_def
  by (intro stays_if stays_return stays_throw stays_exec; simp)+

lemma stays_save_body:
  assumes "\<And>a. a \<in> set (st_Accounts st) \<Longrightarrow> stays A (save_account M now a)"
  shows "stays A (save_body M now st)"
  unfolding save_body_def [abs_def] by (intro stays_bind stays_fold stays_rows assms)

lemma row_safe_Ensure: "row_safe T A (Ensure M)"
  unfolding Ensure_def ensurePostgres_def by (intro rows.safe_intros rows.safe_bind row_safe_tx stays_exec)

lemma row_safe_rr:
  assumes "postgres_mode M"
  shows "row_safe T A (ResetRoundRobin M)" "row_safe T A (loadRoundRobinState M)"
    "row_safe T A (saveRoundRobinState M k)"
proof -
  have db: "row_safe T A (modifyE (\<lambda>w. w\<lparr>w_db := (w_db w)\<lparr>db_meta := f (db_meta (w_db w))\<rparr>\<rparr>))" for f
    by (rule row_safe_modify) simp
  from assms show "row_safe T A (ResetRoundRobin M)" "row_safe T A (loadRoundRobinState M)"
    "row_safe T A (saveRoundRobinState M k)"
    by (simp_all add: ResetRoundRobin_def loadRoundRobinState_def saveRoundRobinState_def
        rows.safe_bind rows.safe_prims row_safe_Ensure db)
qed

lemma row_safe_deletes:
  "row_safe T A (deletePostgresUserSessions u)" "row_safe T A (deletePostgresSession k)"
  "row_safe T A (deletePostgresMembership x c)" "row_safe T A (deletePostgresDevice k)"
  unfolding deletePostgresUserSessions_def deletePostgresSession_def deletePostgresMembership_def
    deletePostgresDevice_def
  by (intro rows.safe_bind rows.safe_prims; rule row_safeI; auto simp: modifyE_def)+

lemma row_safe_outcome:
  "(\<And>e. r = Fail e \<Longrightarrow> row_safe T A (f e)) \<Longrightarrow> (\<And>x. r = Skip x \<Longrightarrow> row_safe T A (g x)) \<Longrightarrow>
   (\<And>st x. r = Commit st x \<Longrightarrow> row_safe T A (h st x)) \<Longrightarrow>
   row_safe T A (case r of Fail e \<Rightarrow> f e | Skip x \<Rightarrow> g x | Commit st x \<Rightarrow> h st x)"
  by (cases r) simp_all

lemma row_safe_expire:
  "I (sweep st now) \<Longrightarrow> (\<And>st' ids b. I st' \<Longrightarrow> row_safe T A (f st' ids b)) \<Longrightarrow>
   row_safe T A (case expireAccountLeases st now of (st', ids, b) \<Rightarrow> f st' ids b)"
  by (cases "expireAccountLeases st now") (simp add: sweep_def)

text \<open>The steps of the operations that do not touch the store.\<close>

lemmas row_intros = rows.safe_intros rows.safe_now rows.safe_gets

lemma row_safe_draws:
  "row_safe T A (hashPassword E p)" "row_safe T A generatePAT" "row_safe T A generateDeviceToken"
  "row_safe T A generateSessionToken" "row_safe T A generateLeaseID" "row_safe T A (writeProfileFiles a c)"
  unfolding hashPassword_def generatePAT_def generateDeviceToken_def generateSessionToken_def generateLeaseID_def
    writeProfileFiles_def Let_def
  by (intro row_intros rows.safe_bind)+

lemma row_safe_http:
  "(\<And>e. row_safe T A (f e)) \<Longrightarrow> (\<And>c b. row_safe T A (g c b)) \<Longrightarrow>
   row_safe T A (case a of TransportError e \<Rightarrow> f e | HttpStatus c b \<Rightarrow> g c b)"
  by (cases a) simp_all

lemma row_safe_probe: "row_safe T A (FetchForCodexHome E home now)"
proof -
  have pop: "row_safe T A popRefresh" "row_safe T A popUsage"
    by (rule rows.safe_frame; simp add: popRefresh_def popUsage_def split: list.splits)+
  have persist: "row_safe T A (persistRefreshedAuth path raw r)" for path raw r
    by (auto simp: persistRefreshedAuth_def intro!: row_intros rows.safe_bind split: content.splits json.splits)
  have refresh: "row_safe T A (refreshAuthFile E path raw)" for path raw
    unfolding refreshAuthFile_def by (intro row_intros rows.safe_bind pop row_safe_http persist)
  have usage: "row_safe T A fetchUsage"
    unfolding fetchUsage_def doUsage_def by (intro row_intros rows.safe_bind pop)
  show ?thesis
    unfolding FetchForCodexHome_def probe_with_token_def Let_def
    by (intro row_intros rows.safe_bind refresh usage)
qed

lemma row_safe_syncLive: "row_safe T A (syncLiveAuthToManaged M a)"
  unfolding syncLiveAuthToManaged_def Let_def by (intro row_intros rows.safe_bind)

section \<open>Listing the accounts\<close>

text \<open>
  A listing adopts the directories that hold a credential. Their accounts get fresh ids as long as there are
  few of them; the load before it makes directories too, one at most for each row.
\<close>

lemma sync_entries_new:
  "length used + length ns \<le> 900 \<Longrightarrow>
   distinct (map acc_ID (sync_entries M w used known ns))
   \<and> set (map acc_ID (sync_entries M w used known ns)) \<inter> set used = {}"
proof (induction ns arbitrary: used known)
  case (Cons n ns)
  define home where "home = path_join (m_AccountsDir M) n"
  define k where "k = (let k = sanitizeAccountID n in
    if k = [] \<or> k \<in> set used then uniqueFromUsed (''profile-'' @ n) used (w_now w) else k)"
  show ?case
  proof (cases "clean_path home \<in> set known \<or> \<not> hasManagedFiles w home")
    case True
    with Cons show ?thesis by (simp add: home_def)
  next
    case False
    have "length used < 900" using Cons.prems by simp
    then have "k \<notin> set used" by (simp add: k_def Let_def uniqueFromUsed_fresh_small)
    with Cons.IH [of "k # used" "clean_path home # known"] Cons.prems False show ?thesis
      by (auto simp: Let_def new_account_def k_def home_def)
  qed
qed simp

definition names_in :: "string \<Rightarrow> string set \<Rightarrow> string set" where
  "names_in dir ds = {n. n \<noteq> [] \<and> CHR ''/'' \<notin> set n \<and>
     (\<exists>d \<in> ds. has_prefix d (dir @ ''/'') \<and> n = drop (length dir + 1) d)}"

lemma length_dir_entries: "length (dir_entries w dir) = card (names_in dir (set (w_dirs w)))"
proof -
  have "set (filter (\<lambda>n. n \<noteq> [] \<and> CHR ''/'' \<notin> set n)
     (map (drop (length dir + 1)) (filter (\<lambda>d. has_prefix d (dir @ ''/'')) (w_dirs w)))) = names_in dir (set (w_dirs w))"
    by (auto simp: names_in_def)
  then show ?thesis unfolding dir_entries_def by (simp only: length_sort length_remdups_card_conv)
qed

lemma card_names_in:
  assumes "finite D" "finite H"
  shows "card (names_in dir (D \<union> H)) \<le> card (names_in dir D) + card H"
proof -
  have fin: "finite (names_in dir D)"
    by (rule finite_subset [of _ "drop (length dir + 1) ` D"]) (use assms(1) in \<open>auto simp: names_in_def\<close>)
  have "names_in dir (D \<union> H) \<subseteq> names_in dir D \<union> drop (length dir + 1) ` H" by (auto simp: names_in_def)
  then have "card (names_in dir (D \<union> H)) \<le> card (names_in dir D \<union> drop (length dir + 1) ` H)"
    using fin assms(2) by (intro card_mono) auto
  also have "\<dots> \<le> card (names_in dir D) + card (drop (length dir + 1) ` H)" by (rule card_Un_le)
  also have "\<dots> \<le> card (names_in dir D) + card H" using card_image_le [OF assms(2)] by simp
  finally show ?thesis .
qed

text \<open>The directories stay within a set.\<close>

definition dirs_in :: "string set \<Rightarrow> World \<Rightarrow> bool" where
  "dirs_in D w \<longleftrightarrow> set (w_dirs w) \<subseteq> D"

lemma dirs_in_prims [intro]:
  "keeps (dirs_in D) stepE" "keeps (dirs_in D) (readFile path)" "keeps (dirs_in D) (writeFile path c)"
  "h \<in> D \<Longrightarrow> keeps (dirs_in D) (mkdirAll h)"
  unfolding readFile_def writeFile_def mkdirAll_def
  by (auto intro!: keeps_bindE keeps_stepE keeps_getsE keeps_modifyE simp: dirs_in_def)

lemma dirs_in_load_account:
  assumes "acc_CodexHome (scan_account M t) \<in> D"
  shows "keeps (dirs_in D) (load_account M t as)"
  unfolding load_account_def materializeAuth_def Let_def
  by (intro keeps_bindE keeps_case_option keeps_returnE keeps_if keeps_tryE dirs_in_prims assms)

lemma dirs_in_load_accounts:
  "\<forall>t \<in> set ts. acc_CodexHome (scan_account M t) \<in> D \<Longrightarrow> keeps (dirs_in D) (foldE (load_account M) ts as)"
  by (induction ts arbitrary: as) (auto intro!: keeps_returnE keeps_bindE dirs_in_load_account)

lemma ensurePostgres_same:
  assumes "ensurePostgres w = (r, w')"
  shows "same_but_faults w w'"
proof -
  obtain r1 w1 where 1: "stepE w = (r1, w1)" by fastforce
  obtain r2 w2 where 2: "stepE w1 = (r2, w2)" by fastforce
  obtain r3 w3 where 3: "stepE w2 = (r3, w3)" by fastforce
  have s: "same_but_faults w w1" "same_but_faults w w2" "same_but_faults w w3"
    using stepE_D [OF 1] stepE_D [OF 2] stepE_D [OF 3] by (blast intro: same_trans)+
  have "w3\<lparr>w_db := w_db w1\<rparr> = w3" using same_fields [OF s(1)] same_fields [OF s(3)] by simp
  with assms 1 2 3 s show ?thesis
    by (cases r1; cases r2; cases r3) (auto simp: ensurePostgres_def pgTx_def pgExec_def)
qed

lemma keeps_gets: "(\<And>w. P w \<Longrightarrow> keeps P (f (g w))) \<Longrightarrow> keeps P (bindE (getsE g) f)"
  by (simp add: keeps_def triple_def bindE_def getsE_def)

lemma dirs_in_Load:
  assumes "postgres_mode M" "Load M w = (r, w')"
  shows "length (dir_entries w' dir) \<le> length (dir_entries w dir) + length (account_rows w)"
proof -
  let ?H = "(\<lambda>t. acc_CodexHome (scan_account M t)) ` snd ` set (account_rows w)"
  let ?D = "set (w_dirs w) \<union> ?H"
  let ?P = "\<lambda>v. dirs_in ?D v \<and> w_db v = w_db w"
  have step: "keeps ?P stepE" by (rule keeps_stepE) (simp add: dirs_in_def)
  have ensure: "keeps ?P ensurePostgres"
  proof (rule keepsI)
    fix v assume "?P v"
    moreover have "same_but_faults v (snd (ensurePostgres v))" by (rule ensurePostgres_same [of v "fst (ensurePostgres v)"]) simp
    ultimately show "?P (snd (ensurePostgres v))" by (auto simp: same_but_faults_def dirs_in_def)
  qed
  have rows: "keeps ?P (foldE (load_account M) (select_ordered (account_rows w)) [])"
  proof (rule keepsI)
    fix v assume P: "?P v"
    let ?m = "foldE (load_account M) (select_ordered (account_rows w)) []"
    have "keeps (dirs_in ?D) ?m" by (rule dirs_in_load_accounts) auto
    moreover have "only_files v (snd (?m v))" using load_accounts_files [of M _ "[]" v "fst (?m v)" "snd (?m v)"] by simp
    ultimately show "?P (snd (?m v))" using keepsD [of "dirs_in ?D" ?m v] P by (simp add: only_files_def)
  qed
  have load: "keeps ?P (loadPostgresState M)"
    unfolding loadPostgresState_def
    by (rule keeps_bindE [OF step], rule keeps_bindE [OF keeps_nowE], rule keeps_gets)
      (simp, intro keeps_bindE rows step keeps_returnE)
  have "keeps ?P (Load M)"
    unfolding Load_def Ensure_def using assms(1)
    by (auto intro!: keeps_bindE step ensure load)
  from keepsD [OF this, of w] assms(2) have D: "set (w_dirs w') \<subseteq> ?D" by (simp add: dirs_in_def)
  have fin: "finite (names_in dir ?D)"
    by (rule finite_subset [of _ "drop (length dir + 1) ` ?D"]) (auto simp: names_in_def)
  have "card (names_in dir (set (w_dirs w'))) \<le> card (names_in dir ?D)"
    using D by (intro card_mono fin) (auto simp: names_in_def)
  also have "\<dots> \<le> card (names_in dir (set (w_dirs w))) + card ?H" by (intro card_names_in) simp_all
  also have "card ?H \<le> length (account_rows w)"
    using card_image_le [of "set (account_rows w)" "\<lambda>t. acc_CodexHome (scan_account M (snd t))"]
      card_length [of "account_rows w"] by (simp add: image_image)
  finally show ?thesis by (simp add: length_dir_entries)
qed

lemma Ensure_pg_same:
  assumes "postgres_mode M" "Ensure M w = (r, w')"
  shows "same_but_faults w w'"
proof -
  obtain r1 w1 where 1: "stepE w = (r1, w1)" by fastforce
  obtain r2 w2 where 2: "stepE w1 = (r2, w2)" by fastforce
  obtain r3 w3 where 3: "ensurePostgres w2 = (r3, w3)" by fastforce
  have s: "same_but_faults w w1" "same_but_faults w w2" "same_but_faults w w3"
    using stepE_D [OF 1] stepE_D [OF 2] ensurePostgres_same [OF 3] by (blast intro: same_trans)+
  with assms 1 2 3 show ?thesis by (cases r1; cases r2) (auto simp: Ensure_def)
qed

lemma Load_rows:
  assumes "postgres_mode M" "Load M w = (r, w')"
  shows "only_files w w' \<and> (\<forall>st. r = Inr st \<longrightarrow>
     (\<exists>st0. st = normalizeState (w_now w) st0
        \<and> st_Accounts st0 = map (scan_account M) (select_ordered (account_rows w))))"
proof -
  obtain r1 w1 where 1: "Ensure M w = (r1, w1)" by fastforce
  note s = Ensure_pg_same [OF assms(1) 1] and f = same_fields [OF Ensure_pg_same [OF assms(1) 1]]
  show ?thesis
  proof (cases r1)
    case (Inl e)
    with assms 1 f show ?thesis by (auto simp: Load_def only_files_def)
  next
    case (Inr u)
    with assms 1 have "loadPostgresState M w1 = (r, w')" by (simp add: Load_def)
    from loadPostgresState_files [OF this] f show ?thesis by (simp add: only_files_def)
  qed
qed

definition few_rows :: "'m Manager_scheme \<Rightarrow> World \<Rightarrow> bool" where
  "few_rows M w \<longleftrightarrow> 2 * length (account_rows w) + length (dir_entries w (m_AccountsDir M)) \<le> 900"

section \<open>Invariants of the requests, on Postgres\<close>

text \<open>
  An invariant of the state that requests keep (\<open>request_invariant\<close>) and one of the rows: the state loaded
  from such rows has the one, and an upsert of an account of such a state keeps the other, as do the updates
  of a row that change no lease.
\<close>

locale row_invariant = request_invariant T I may lease_may
  for T :: time and I :: "State \<Rightarrow> bool" and may :: "command \<Rightarrow> bool" and lease_may :: "string \<Rightarrow> string \<Rightarrow> bool" +
  fixes M :: "'m Manager_scheme" and A :: "(string \<times> AccountRow) list \<Rightarrow> bool"
  assumes loaded: "A t \<Longrightarrow> st_Accounts st = map (scan_account M) (select_ordered t) \<Longrightarrow> I (normalizeState T st)"
    and normal: "I st \<Longrightarrow> I (normalizeState T st)"
    and saved: "A t \<Longrightarrow> I st \<Longrightarrow> a \<in> set (st_Accounts st) \<Longrightarrow>
      A (upsert merge_account (acc_ID a) (account_row M now auth a) t)"
    and row_updated: "A t \<Longrightarrow> (\<And>r. acc_ID (f r) = acc_ID r \<and> lease_of (Account.truncate (f r)) = lease_of (Account.truncate r)) \<Longrightarrow>
      A (update_row k f t)"
begin

lemma row_load:
  assumes m: "postgres_mode M" and f: "\<And>st. I st \<Longrightarrow> row_safe T A (f st)"
  shows "row_safe T A (bindE (Load M) f)"
proof -
  have "row_safe T A (bindE (loadPostgresState M) f)"
  proof (rule row_safeI)
    fix w r w' assume w: "w_now w = T" "A (account_rows w)" and run: "bindE (loadPostgresState M) f w = (r, w')"
    obtain r1 w1 where 1: "loadPostgresState M w = (r1, w1)" by fastforce
    note l = loadPostgresState_files [OF 1]
    have w1: "w_now w1 = T" "A (account_rows w1)" using l w by (simp_all add: only_files_def)
    show "w_now w' = T \<and> A (account_rows w')"
    proof (cases r1)
      case (Inl e)
      with run 1 w1 show ?thesis by simp
    next
      case (Inr st)
      with l w loaded [OF w(2)] have "I st" by auto
      from keepsD [OF f [OF this, unfolded rows.safe_def], of w1] run 1 Inr w1 show ?thesis by simp
    qed
  qed
  with m show ?thesis by (simp add: Load_def bindE_assoc rows.safe_bind row_safe_Ensure)
qed

lemma row_save:
  assumes m: "postgres_mode M" and I: "I st"
  shows "row_safe T A (Save M st)"
proof -
  have "stays A (save_account M T a)" if "a \<in> set (st_Accounts (normalizeState T st))" for a
    unfolding save_account_def [abs_def] by (intro stays_read stays_exec) (simp add: saved [OF _ normal [OF I] that])
  then have "row_safe T A (savePostgresState M st)"
    unfolding savePostgresState_def by (intro rows.safe_now row_safe_tx stays_save_body)
  with m show ?thesis by (simp add: Save_def rows.safe_bind row_safe_Ensure)
qed

lemma row_Load: "postgres_mode M \<Longrightarrow> row_safe T A (Load M)"
proof -
  assume m: "postgres_mode M"
  have "row_safe T A (bindE (Load M) returnE)" by (intro row_load m rows.safe_prims)
  moreover have "bindE (Load M) returnE = Load M"
    by (rule ext) (simp add: bindE_def returnE_def split: prod.split sum.split)
  ultimately show ?thesis by simp
qed

lemma row_update:
  assumes m: "postgres_mode M" and f: "\<And>st st' x. I st \<Longrightarrow> f T st = Commit st' x \<Longrightarrow> I st'"
  shows "row_safe T A (update_state M f)"
  unfolding locked_update_def
proof (intro rows.safe_withMu row_load [OF m] rows.safe_now)
  fix st assume "I st"
  with f show "row_safe T A (finish_update (Save M) (f T st))"
    by (cases "f T st") (auto simp: finish_update_def intro!: rows.safe_bind rows.safe_prims row_save [OF m])
qed

lemmas row_ops = row_intros row_load row_save row_safe_Ensure row_safe_rr rows.safe_bind row_update
  row_safe_draws

section \<open>The commands\<close>

lemma row_users:
  assumes m: "postgres_mode M"
  shows "may (NewUser n p) \<Longrightarrow> row_safe T A (CreateUser M n p)"
    "may (NewPassword k p) \<Longrightarrow> row_safe T A (SetUserPassword M k p)"
    "may (Disable k b) \<Longrightarrow> row_safe T A (SetUserDisabled M k b)"
proof -
  show "row_safe T A (CreateUser M n p)" if "may (NewUser n p)"
    unfolding CreateUser_def Let_def
    by (intro row_ops m)
      (rule changed [OF _ that], assumption, erule change.user, simp add: trim_space_to_lower)
  show "row_safe T A (SetUserPassword M k p)" if "may (NewPassword k p)"
    unfolding SetUserPassword_def persistAfterSessionDelete_def Let_def
    by (intro row_safe_deletes row_ops m changed [OF _ that change.password])
  show "row_safe T A (SetUserDisabled M k b)" if "may (Disable k b)"
  proof (cases b)
    case True
    with that have may: "may (Disable k True)" by simp
    show ?thesis
      unfolding SetUserDisabled_def persistAfterSessionDelete_def Let_def
      by (simp only: True if_True) (intro row_safe_deletes row_ops m; simp; erule changed [OF _ may change.disable])
  next
    case False
    with that have may: "may (Disable k False)" by simp
    show ?thesis
      unfolding SetUserDisabled_def Let_def
      by (simp only: False if_False) (intro row_ops m changed [OF _ may change.enable])
  qed
qed

lemma row_sessions:
  assumes m: "postgres_mode M"
  shows "may (Login k) \<Longrightarrow> row_safe T A (CreateSession M k)"
    "may (Logout k) \<Longrightarrow> row_safe T A (DeleteSession M k)"
proof -
  show "row_safe T A (CreateSession M k)" if "may (Login k)"
    unfolding CreateSession_def by (intro row_ops m) (erule (1) changed [OF _ that change.login])
  show "row_safe T A (DeleteSession M k)" if "may (Logout k)"
    unfolding DeleteSession_def Let_def by (intro row_safe_deletes row_ops m changed [OF _ that change.logout])
qed

lemma row_clients:
  assumes m: "postgres_mode M"
  shows "may (NewClient n) \<Longrightarrow> row_safe T A (CreateClient M n)"
    "may (RevokeToken k) \<Longrightarrow> row_safe T A (RevokeClient M k)"
    "may (SeenClient k) \<Longrightarrow> row_safe T A (TouchClient M k)"
    "may (NewDevice u n) \<Longrightarrow> row_safe T A (CreateDevice M u n)"
    "may (DropDevice k) \<Longrightarrow> row_safe T A (RevokeDevice M k)"
proof -
  show "row_safe T A (CreateClient M n)" if "may (NewClient n)"
    unfolding CreateClient_def Let_def by (intro row_ops m changed [OF _ that change.client])
  show "row_safe T A (RevokeClient M k)" if "may (RevokeToken k)"
    unfolding RevokeClient_def by (intro row_ops m) (erule (1) changed [OF _ that change.revoke])
  show "row_safe T A (TouchClient M k)" if "may (SeenClient k)"
    unfolding TouchClient_def by (intro row_ops m) (auto intro: changed [OF _ that change.seen] split: if_splits)
  show "row_safe T A (CreateDevice M u n)" if "may (NewDevice u n)"
    unfolding CreateDevice_def Let_def by (intro row_ops m) (erule (1) changed [OF _ that change.device])
  show "row_safe T A (RevokeDevice M k)" if "may (DropDevice k)"
    unfolding RevokeDevice_def
    by (intro row_safe_outcome row_safe_deletes row_ops m) (erule (1) changed [OF _ that change.drop_device])
qed

lemma row_workspaces:
  assumes m: "postgres_mode M"
  shows "may (NewWorkspace n b) \<Longrightarrow> row_safe T A (CreateWorkspace M n b)"
    "may (Grant k who role) \<Longrightarrow> row_safe T A (SetMembership M k who role)"
    "may (Withdraw k who) \<Longrightarrow> row_safe T A (RemoveMembership M k who)"
proof -
  show "row_safe T A (CreateWorkspace M n b)" if "may (NewWorkspace n b)"
    unfolding CreateWorkspace_def Let_def by (intro row_ops m) (erule (1) changed [OF _ that change.workspace])
  show "row_safe T A (SetMembership M k who role)" if "may (Grant k who role)"
    unfolding SetMembership_def Let_def by (intro row_ops m) (erule (1) changed [OF _ that change.grant])
  show "row_safe T A (RemoveMembership M k who)" if "may (Withdraw k who)"
    unfolding RemoveMembership_def Let_def
    by (intro row_safe_deletes row_ops m changed [OF _ that change.withdraw])
qed

section \<open>The accounts and their quota\<close>

lemma row_accounts:
  assumes m: "postgres_mode M"
  shows row_add: "row_safe T A (addAccountLocked M j label)"
    and row_mark_first: "row_safe T A (mark_first_generation M a)"
    and row_upsert: "row_safe T A (upsertJSONProfileLocked M p)"
    and row_push: "row_safe T A (UpsertProfileSnapshot M s)"
    and row_export: "row_safe T A (ExportProfileSnapshot M k)"
    and row_GetAccount: "row_safe T A (GetAccount M k)"
proof -
  show add: "row_safe T A (addAccountLocked M j label)" for j label
    unfolding addAccountLocked_def Let_def
    by (intro row_ops m) (auto simp: accountIDs_def new_account_def intro!: added)
  show mark: "row_safe T A (mark_first_generation M a)" for a
    unfolding mark_first_generation_def Let_def
    by (intro row_ops m) (auto intro!: updated simp: lease_of_def)
  show upsert: "row_safe T A (upsertJSONProfileLocked M p)" for p
    unfolding upsertJSONProfileLocked_def Let_def
    by (intro add mark row_ops m) (auto intro!: updated simp: lease_of_def)
  show "row_safe T A (UpsertProfileSnapshot M s)"
    unfolding UpsertProfileSnapshot_def Let_def
    by (intro upsert row_ops m) (auto intro!: updated simp: lease_of_def snapshot_fields_def Let_def)
  show get: "row_safe T A (GetAccount M k)" for k
    unfolding GetAccount_def by (intro row_ops m)
  show "row_safe T A (ExportProfileSnapshot M k)"
    unfolding ExportProfileSnapshot_def Let_def by (intro get row_ops)
qed

lemma row_updates:
  assumes m: "postgres_mode M"
  shows "row_safe T A (SetStatus M j status)" "row_safe T A (SetAccountWorkspace M j ws)"
    "row_safe T A (SetLabel M j label)" "row_safe T A (AddAccount M j label)"
  unfolding SetStatus_def SetAccountWorkspace_def SetLabel_def Let_def AddAccount_def
  by (intro row_add row_ops m; auto split: if_splits elim!: on_account simp: lease_of_def)+

lemma row_record: "row_safe T A (recordPostgresQuotaResult k result changed source reporter flip)"
  unfolding recordPostgresQuotaResult_def Let_def
proof (intro rows.safe_now row_safe_tx stays_bind stays_exec)
  fix d :: Db assume A: "A (db_accounts d)"
  show "A (db_accounts (d\<lparr>db_quota_cache := t\<rparr>))" for t using A by simp
  show "A (db_accounts (d\<lparr>db_accounts := update_row k (pg_quota_owner source' reporter flip T) (db_accounts d)\<rparr>))"
    for source' using A by (auto intro!: row_updated simp: pg_quota_owner_def lease_of_def Account.defs)
  show "A (db_accounts (d\<lparr>db_accounts := update_row k (pg_quota_outcome result changed T) (db_accounts d)\<rparr>))"
    using A by (auto intro!: row_updated simp: pg_quota_outcome_def lease_of_def Account.defs)
qed

lemma row_quota:
  assumes m: "postgres_mode M"
  shows row_recordQuota: "row_safe T A (recordQuotaResult M k result changed source reporter flip)"
    and row_quota_report: "row_safe T A (RecordQuotaReport M k result cid)"
    and row_leased_quota: "row_safe T A (RecordLeasedQuota M k lid cid result t)"
proof -
  show r: "row_safe T A (recordQuotaResult M k result changed source reporter flip)"
    for k result changed source reporter flip
    unfolding recordQuotaResult_def using m by (auto intro!: row_ops row_record)
  show "row_safe T A (RecordQuotaReport M k result cid)" unfolding RecordQuotaReport_def by (rule r)
  show "row_safe T A (RecordLeasedQuota M k lid cid result t)"
    unfolding RecordLeasedQuota_def verifyLeaseHolder_def Let_def using m
    by (simp only: if_True) (intro row_GetAccount row_record row_ops m)
qed

lemma row_fetch:
  assumes m: "postgres_mode M"
  shows "row_safe T A (FetchQuota M k)"
proof -
  have answer: "row_safe T A (leasedQuotaResponse M a)" for a
    unfolding leasedQuotaResponse_def by (intro row_Load row_ops m)
  have fresh: "row_safe T A (leaseActiveFresh M k)"
    unfolding leaseActiveFresh_def lease_active_body_def by (intro row_Load row_ops m)
  show ?thesis
    unfolding FetchQuota_def probe_and_record_def Let_def
    by (intro answer fresh row_Load row_GetAccount row_recordQuota row_safe_syncLive row_safe_probe row_ops m)
qed

section \<open>The leases\<close>

lemma row_recover:
  assumes m: "postgres_mode M"
  shows "row_safe T A (RecoverExpiredLeases M)"
  unfolding RecoverExpiredLeases_def
  by (intro row_fetch row_safe_expire [where I = I] swept row_ops m)

lemma row_claim:
  assumes m: "postgres_mode M"
  shows "row_safe T A (ClaimLease M cid holder ws ttl)"
proof -
  have finish: "row_safe T A (finish_claim M lid a)" for lid a
    unfolding finish_claim_def by (intro row_export row_ops m)
  have "row_safe T A (claim_locked M cid holder ws ttl)"
    unfolding claim_locked_def Let_def
    by (intro finish row_ops m; (rule swept | rule selected); (assumption | erule swept)+)
  then show ?thesis unfolding ClaimLease_def by (intro row_recover row_ops m)
qed

lemma row_save_then_fail: "postgres_mode M \<Longrightarrow> I st \<Longrightarrow> row_safe T A (save_then_fail M st e)"
  unfolding save_then_fail_def by (intro row_ops)

lemma row_touch:
  assumes m: "postgres_mode M" and may: "lease_may lid cid"
  shows "row_safe T A (TouchLease M lid k cid holder ttl)"
  unfolding TouchLease_def Let_def
  by (intro row_save_then_fail row_ops m swept) (auto intro: lease_changed [OF _ may] swept)

lemma row_update_leased:
  assumes m: "postgres_mode M" and may: "lease_may (ps_LeaseID s) cid"
  shows "row_safe T A (UpdateLeasedProfileSnapshot M s cid ttl)"
  unfolding UpdateLeasedProfileSnapshot_def Let_def
  by (intro row_save_then_fail row_ops m swept) (auto intro: lease_changed [OF _ may] swept)

lemma row_release:
  assumes m: "postgres_mode M" and may: "lease_may lid cid"
  shows "row_safe T A (ReleaseLease M k lid cid)"
  unfolding ReleaseLease_def Let_def
  by (intro row_ops m) (auto intro: swept released [OF _ may])

lemma added_list:
  "I st \<Longrightarrow> distinct (map acc_ID bs) \<Longrightarrow> set (map acc_ID bs) \<inter> set (accountIDs st) = {} \<Longrightarrow>
   I (st\<lparr>st_Accounts := st_Accounts st @ bs\<rparr>)"
proof (induction bs arbitrary: st)
  case (Cons b bs)
  have "I (st\<lparr>st_Accounts := st_Accounts st @ [b]\<rparr>)" using Cons.prems by (intro added) auto
  from Cons.IH [OF this] Cons.prems show ?case by (auto simp: accountIDs_def)
qed simp

lemma row_listing:
  assumes m: "postgres_mode M" and w: "w_now w = T" "A (account_rows w)" and few: "few_rows M w"
  shows "w_now (snd (listAccountsLocked M w)) = T \<and> A (account_rows (snd (listAccountsLocked M w)))"
proof -
  obtain r1 w1 where 1: "Load M w = (r1, w1)" by fastforce
  obtain r2 w2 where 2: "stepE w1 = (r2, w2)" by fastforce
  note l = Load_rows [OF m 1]
  have f2: "w_now w2 = T" "A (account_rows w2)" "w_dirs w2 = w_dirs w1"
    using l w same_fields [OF stepE_D [OF 2]] by (simp_all add: only_files_def)
  then have d2: "dir_entries w2 = dir_entries w1" by (simp add: dir_entries_def fun_eq_iff)
  show ?thesis
  proof (cases r1)
    case (Inl e)
    with 1 l w show ?thesis by (simp add: listAccountsLocked_def only_files_def)
  next
    case (Inr st)
    with l obtain st0 where st: "st = normalizeState T st0"
        "st_Accounts st0 = map (scan_account M) (select_ordered (account_rows w))"
      using w by auto
    have I: "I st" unfolding st(1) by (rule loaded [OF w(2) st(2)])
    let ?new = "sync_entries M w2 (accountIDs st) (map (\<lambda>a. clean_path (acc_CodexHome a)) (st_Accounts st))
        (dir_entries w2 (m_AccountsDir M))"
    have "length (accountIDs st) + length (dir_entries w2 (m_AccountsDir M)) \<le> 900"
      using few dirs_in_Load [OF m 1, of "m_AccountsDir M"]
      by (simp add: st accountIDs_def select_ordered_def few_rows_def d2)
    from sync_entries_new [OF this, of M w2] have "I (st\<lparr>st_Accounts := st_Accounts st @ ?new\<rparr>)"
      by (intro added_list I) blast+
    then have "row_safe T A (bindE (whenE (?new \<noteq> []) (Save M (st\<lparr>st_Accounts := st_Accounts st @ ?new\<rparr>)))
        (\<lambda>_. bindE (getsE (\<lambda>w. w)) (\<lambda>w. returnE (sort_slice (\<lambda>a b. acc_ID (av_Account a) < acc_ID (av_Account b))
           (map (accountView M w) (st_Accounts (st\<lparr>st_Accounts := st_Accounts st @ ?new\<rparr>)))))))"
      by (intro row_ops m)
    from keepsD [OF this [unfolded rows.safe_def], of w2] 1 2 Inr f2 show ?thesis
      by (cases r2) (simp_all add: listAccountsLocked_def syncManagedAccounts_def Let_def)
  qed
qed

lemma row_list:
  assumes "postgres_mode M" "w_now w = T" "A (account_rows w)" "few_rows M w"
  shows "w_now (snd (ListAccounts M w)) = T \<and> A (account_rows (snd (ListAccounts M w)))"
proof -
  have "few_rows M (w\<lparr>w_mu := True\<rparr>)" using assms(4) by (simp add: few_rows_def dir_entries_def)
  with row_listing [of "w\<lparr>w_mu := True\<rparr>"] assms show ?thesis by (simp add: ListAccounts_def withMu_eval)
qed

section \<open>Every request\<close>

lemma row_step:
  "row_safe T A m \<Longrightarrow> w_now w = T \<Longrightarrow> A (account_rows w) \<Longrightarrow>
   w_now (snd (m w)) = T \<and> A (account_rows (snd (m w)))"
  unfolding rows.safe_def by (drule keepsD) auto

lemma row_command:
  assumes m: "postgres_mode M" and may: "may c" and w: "w_now w = T" "A (account_rows w)"
  shows "w_now (command_world M c w) = T \<and> A (account_rows (command_world M c w))"
  using may
  by (cases c; simp only: command_world.simps)
    (rule row_step [OF _ w]; intro row_users row_sessions row_clients row_workspaces m; assumption)+

lemma row_perform:
  assumes m: "postgres_mode M" and may: "allowed lease_may may r" and few: "r = RList \<longrightarrow> few_rows M w"
    and w: "w_now w = T" "A (account_rows w)"
  shows "w_now (perform M r w) = T \<and> A (account_rows (perform M r w))"
proof (cases "(\<exists>c. r = RCommand c) \<or> r = RList")
  case True
  with row_command [OF m _ w] row_list [OF m w] may few show ?thesis by auto
next
  case False
  with may show ?thesis
    by (cases r; simp only: perform.simps allowed.simps simp_thms request.inject)
      ((rule row_step [OF _ w]; intro row_claim row_touch row_update_leased row_release row_recover row_fetch
        row_quota_report row_leased_quota row_updates row_push m; assumption) | blast)+
qed

end

end
