(* ===== verification/PgLease.thy ===== *)
theory PgLease
  imports PgRows
begin

text \<open>
  The lease protocol on Postgres: the row of a leased account keeps the lease through any requests of other
  holders, and a claim gets the row it returns, unless the stored row is newer than the claim.
\<close>

section \<open>A lease in the state and in the rows\<close>

definition has_lease :: "string \<Rightarrow> string \<Rightarrow> time \<Rightarrow> time \<Rightarrow> Account \<Rightarrow> bool" where
  "has_lease L C E now a \<longleftrightarrow> acc_LeaseID a = L \<and> acc_LeaseClientID a = C \<and> acc_LeaseExpiresAt a = E
     \<and> accountLeaseActive a now"

definition leased_state :: "string \<Rightarrow> string \<Rightarrow> string \<Rightarrow> time \<Rightarrow> time \<Rightarrow> State \<Rightarrow> bool" where
  "leased_state k L C E now st \<longleftrightarrow> k \<in> set (accountIDs st)
     \<and> (\<forall>a \<in> set (st_Accounts st). acc_ID a = k \<longrightarrow> has_lease L C E now a)"

definition leased_rows ::
  "string \<Rightarrow> string \<Rightarrow> string \<Rightarrow> time \<Rightarrow> time \<Rightarrow> (string \<times> AccountRow) list \<Rightarrow> bool" where
  "leased_rows k L C E now t \<longleftrightarrow> k \<in> fst ` set t
     \<and> (\<forall>(j, r) \<in> set t. acc_ID r = j \<and> (j = k \<longrightarrow> has_lease L C E now (Account.truncate r)))"

lemma has_lease_same: "lease_of b = lease_of a \<Longrightarrow> has_lease L C E now b = has_lease L C E now a"
  using lease_of_active [of b a now] by (auto simp: has_lease_def lease_of_def)

lemma leased_stateI:
  "map (\<lambda>a. (acc_ID a, lease_of a)) (st_Accounts st') = map (\<lambda>a. (acc_ID a, lease_of a)) (st_Accounts st) \<Longrightarrow>
   leased_state k L C E now st \<Longrightarrow> leased_state k L C E now st'"
proof -
  assume same: "map (\<lambda>a. (acc_ID a, lease_of a)) (st_Accounts st') = map (\<lambda>a. (acc_ID a, lease_of a)) (st_Accounts st)"
    and l: "leased_state k L C E now st"
  have ids: "accountIDs st' = accountIDs st"
    using arg_cong [OF same, of "map fst"] by (simp add: accountIDs_def comp_def)
  have "has_lease L C E now b" if b: "b \<in> set (st_Accounts st')" "acc_ID b = k" for b
  proof -
    have "(acc_ID b, lease_of b) \<in> set (map (\<lambda>a. (acc_ID a, lease_of a)) (st_Accounts st))"
      unfolding same [symmetric] using b(1) by simp
    then obtain a where "a \<in> set (st_Accounts st)" "acc_ID a = acc_ID b" "lease_of b = lease_of a" by auto
    with l b(2) has_lease_same [of b a] show ?thesis by (auto simp: leased_state_def)
  qed
  with l ids show ?thesis by (simp add: leased_state_def)
qed

lemma normalize_lease [simp]: "lease_of (normalize_account a) = lease_of a"
  by (simp add: normalize_account_def lease_of_def Let_def)

lemma leased_normal:
  "leased_state k L C E now (normalizeState t st) = leased_state k L C E now st"
  by (rule iffI; erule leased_stateI [rotated]; simp add: comp_def)

lemma leased_set_account:
  assumes "leased_state k L C E now st" "i < length (st_Accounts st) \<Longrightarrow> acc_ID b = acc_ID (st_Accounts st ! i)"
    and "i < length (st_Accounts st) \<Longrightarrow> acc_ID (st_Accounts st ! i) = k \<Longrightarrow>
      has_lease L C E now (st_Accounts st ! i) \<Longrightarrow> has_lease L C E now b"
  shows "leased_state k L C E now (set_account i b st)"
proof (cases "i < length (st_Accounts st)")
  case False
  with assms(1) show ?thesis by (simp add: set_account_def list_update_beyond not_less)
next
  case True
  then have mem: "st_Accounts st ! i \<in> set (st_Accounts st)" by simp
  have "accountIDs (set_account i b st) = accountIDs st"
    using True assms(2) by (simp add: accountIDs_set_account)
  moreover have "has_lease L C E now c"
    if "c \<in> set (st_Accounts (set_account i b st))" "acc_ID c = k" for c
  proof -
    from that(1) have "c = b \<or> c \<in> set (st_Accounts st)"
      by (auto simp: set_account_def dest: set_update_subset_insert [THEN subsetD])
    with assms True mem that(2) show ?thesis by (auto simp: leased_state_def)
  qed
  ultimately show ?thesis using assms(1) by (simp add: leased_state_def)
qed

lemma leased_sweep:
  assumes "leased_state k L C E now st"
  shows "leased_state k L C E now (sweep st now)"
proof -
  have "has_lease L C E now b" if "b \<in> set (st_Accounts (sweep st now))" "acc_ID b = k" for b
  proof -
    from that(1) obtain a where a: "a \<in> set (st_Accounts st)" "b = (if lease_expired a now then expire_account a now else a)"
      by (auto simp: sweep_accounts)
    with that(2) have "acc_ID a = k" by (auto split: if_splits)
    with a(1) assms have l: "has_lease L C E now a" by (simp add: leased_state_def)
    with active_not_expired [of a now] a(2) show ?thesis by (simp add: has_lease_def)
  qed
  with assms sweep_ids [of st now] show ?thesis by (simp add: leased_state_def)
qed

lemma leased_dispatches [simp]: "leased_state k L C E now (st\<lparr>st_Dispatches := ds\<rparr>) = leased_state k L C E now st"
  by (simp add: leased_state_def accountIDs_def)

lemma leased_found:
  assumes "foreign L C lid cid" "findLeaseAccount st j lid' = Inr (i, a)" "validateLease a lid cid now = None"
    and "leased_state k L C E now st" "acc_ID b = acc_ID a"
  shows "leased_state k L C E now (set_account i b st)"
proof (rule leased_set_account [OF assms(4)])
  have i: "a = st_Accounts st ! i" using findLeaseAccount_Inr [OF assms(2)] by simp
  with assms(5) show "acc_ID b = acc_ID (st_Accounts st ! i)" by simp
  assume "has_lease L C E now (st_Accounts st ! i)"
  with foreign_not_valid [OF assms(1,3)] i show "has_lease L C E now b" by (simp add: has_lease_def)
qed

section \<open>A load and an upsert\<close>

lemma scan_account_lease [simp]:
  "acc_ID (scan_account M r) = acc_ID r" "lease_of (scan_account M r) = lease_of (Account.truncate r)"
  by (simp_all add: scan_account_def Let_def lease_of_def Account.defs)

lemma leased_loaded:
  assumes "leased_rows k L C E now t" "st_Accounts st = map (scan_account M) (select_ordered t)"
  shows "leased_state k L C E now st"
proof -
  have "has_lease L C E now (scan_account M r)" if "(j, r) \<in> set t" "acc_ID r = k" for j r
    using assms(1) that has_lease_same [of "scan_account M r" "Account.truncate r"] by (auto simp: leased_rows_def)
  with assms show ?thesis by (force simp: leased_state_def leased_rows_def accountIDs_def)
qed

lemma account_row_lease [simp]:
  "acc_ID (account_row M now auth a) = acc_ID a"
  "lease_of (Account.truncate (account_row M now auth a)) = lease_of a"
  by (simp_all add: account_row_def Let_def lease_of_def Account.defs)

text \<open>The rows after an upsert: stored ones, and one that is stored already or has the new lease.\<close>

lemma set_upsert_account:
  assumes "(j, r) \<in> set (upsert merge_account k new t)" "\<forall>(j, r) \<in> set t. acc_ID r = j" "acc_ID new = k"
  shows "(j, r) \<in> set t \<or> (j = k \<and> acc_ID r = k \<and> lease_of (Account.truncate r) = lease_of (Account.truncate new))"
proof (cases "map_of t k")
  case None
  with assms show ?thesis by (auto simp: upsert_def)
next
  case (Some old)
  from map_of_SomeD [OF Some] assms(2) have old: "acc_ID old = k" by auto
  have upd: "(j, r) \<in> set t \<or> (j = k \<and> r = x)" if "(j, r) \<in> set (AList.update k x t)" for x
    using that by (induction t) (auto split: if_splits)
  show ?thesis
  proof (cases "acc_UpdatedAt old \<le> acc_UpdatedAt new")
    case True
    with assms(1) Some upd [of "new\<lparr>acc_ID := acc_ID old, acc_CreatedAt := acc_CreatedAt old\<rparr>"] old
    show ?thesis by (auto simp: upsert_def merge_account_def lease_of_def Account.defs)
  next
    case False
    with assms(1) Some show ?thesis by (auto simp: upsert_def merge_account_def)
  qed
qed

lemma keys_upsert: "fst ` set (upsert merge k new t) = insert k (fst ` set t)"
  using dom_upsert [of merge k new t] by (simp add: dom_map_of_conv_image_fst)

lemma leased_upsert:
  assumes "leased_rows k L C E now t" "leased_state k L C E now st" "a \<in> set (st_Accounts st)"
  shows "leased_rows k L C E now (upsert merge_account (acc_ID a) (account_row M now' auth a) t)"
proof -
  have "acc_ID r = j \<and> (j = k \<longrightarrow> has_lease L C E now (Account.truncate r))"
    if "(j, r) \<in> set (upsert merge_account (acc_ID a) (account_row M now' auth a) t)" for j r
  proof -
    have "\<forall>(j, r) \<in> set t. acc_ID r = j" using assms(1) by (auto simp: leased_rows_def)
    from set_upsert_account [OF that this]
    consider "(j, r) \<in> set t" | "j = acc_ID a" "acc_ID r = acc_ID a" "lease_of (Account.truncate r) = lease_of a"
      by auto
    then show ?thesis
    proof cases
      case 1
      with assms(1) show ?thesis by (auto simp: leased_rows_def)
    next
      case 2
      with assms(2,3) has_lease_same [OF 2(3), of L C E now] show ?thesis by (auto simp: leased_state_def)
    qed
  qed
  with assms(1) keys_upsert [of merge_account "acc_ID a" _ t] show ?thesis by (auto simp: leased_rows_def)
qed

lemma leased_update_row:
  assumes "leased_rows k L C E now t"
    and "\<And>r. acc_ID (f r) = acc_ID r \<and> lease_of (Account.truncate (f r)) = lease_of (Account.truncate r)"
  shows "leased_rows k L C E now (update_row j f t)"
proof -
  have keys: "fst ` set (update_row j f t) = fst ` set t"
    using fst_update_row [of j f t] by (metis list.set_map)
  have "acc_ID r = i \<and> (i = k \<longrightarrow> has_lease L C E now (Account.truncate r))" if "(i, r) \<in> set (update_row j f t)" for i r
  proof -
    from that obtain r0 where "(i, r0) \<in> set t" "r = r0 \<or> r = f r0" by (auto simp: update_row_def split: if_splits)
    with assms(1) assms(2) [of r0] has_lease_same [of "Account.truncate (f r0)" "Account.truncate r0"] show ?thesis
      by (auto simp: leased_rows_def)
  qed
  with assms(1) keys show ?thesis by (auto simp: leased_rows_def)
qed

interpretation row_lease: row_invariant T "leased_state k L C E T" "\<lambda>_. True" "foreign L C"
    M "leased_rows k L C E T"
  for T k L C E and M :: "'m Manager_scheme"
proof unfold_locales
  show "norm_closed (leased_state k L C E T)" by (rule norm_closedI) (simp add: leased_normal, simp add: leased_state_def accountIDs_def)
  show "quota_closed (leased_state k L C E T)"
    unfolding quota_closed_def by (blast intro: leased_stateI quota_state_leases)
  fix st :: State
  assume h: "leased_state k L C E T st"
  show "leased_state k L C E T st'" if "change T c st st'" for c st'
    using h change_frame [OF that] by (simp add: leased_state_def accountIDs_def)
  from h show "leased_state k L C E T (sweep st T)" by (rule leased_sweep)
  show "leased_state k L C E T (st\<lparr>st_Accounts := st_Accounts st @ [b]\<rparr>)"
    if "j \<notin> set (accountIDs st)" "acc_ID b = j" for j b
    using h that by (auto simp: leased_state_def accountIDs_def)
  show "leased_state k L C E T (set_account i b st)"
    if "acc_ID b = acc_ID (st_Accounts st ! i)" "lease_of b = lease_of (st_Accounts st ! i)" for i b
    using h that has_lease_same [OF that(2)] by (intro leased_set_account) auto
  show "leased_state k L C E T (fst (claim_state i lid cid holder ttl T st))"
    if "(i, a, s) \<in> set (claim_candidates auth st ws T)" for i a s auth ws lid cid holder ttl
    using claim_candidates_mem [OF that] h
    by (auto simp: claim_state_def Let_def may_lease_def has_lease_def claim_account_def intro!: leased_set_account)
  show "leased_state k L C E T (set_account i b st)"
    if "foreign L C lid cid" "findLeaseAccount st j lid' = Inr (i, a)" "validateLease a lid cid T = None" "acc_ID b = acc_ID a"
    for lid cid j lid' i a b
    using that h by (intro leased_found)
  show "leased_state k L C E T (release_state i a T st)"
    if "foreign L C lid cid" "findLeaseAccount st j lid' = Inr (i, a)" "validateLease a lid cid T = None"
    for lid cid j lid' i a
    using leased_found [OF that h, of "(clearAccountLease a)\<lparr>acc_UpdatedAt := T\<rparr>"]
    by (simp add: release_state_def Let_def set_account_def leased_state_def accountIDs_def)
  show "leased_state k L C E T (normalizeState T st)" using h by (simp add: leased_normal)
next
  fix t :: "(string \<times> AccountRow) list" and st :: State
  assume h: "leased_rows k L C E T t"
  show "leased_state k L C E T (normalizeState T st)" if "st_Accounts st = map (scan_account M) (select_ordered t)"
    using leased_loaded [OF h that] by (simp add: leased_normal)
  show "leased_rows k L C E T (upsert merge_account (acc_ID a) (account_row M now auth a) t)"
    if "leased_state k L C E T st" "a \<in> set (st_Accounts st)" for a now auth
    using h that by (rule leased_upsert)
  show "leased_rows k L C E T (update_row j f t)"
    if "\<And>r. acc_ID (f r) = acc_ID r \<and> lease_of (Account.truncate (f r)) = lease_of (Account.truncate r)" for j f
    using h that by (rule leased_update_row)
qed

section \<open>Runs\<close>

text \<open>
  A run on Postgres: requests, and between them anything that leaves the rows of the accounts alone. A listing
  is let through while there are few accounts and directories.
\<close>

inductive pg_run :: "'m Manager_scheme \<Rightarrow> (request \<Rightarrow> bool) \<Rightarrow> World \<Rightarrow> World \<Rightarrow> bool" for M and ok where
  start: "pg_run M ok w w"
| request: "pg_run M ok w w1 \<Longrightarrow> ok r \<Longrightarrow> r = RList \<longrightarrow> few_rows M w1 \<Longrightarrow> pg_run M ok w (perform M r w1)"
| environment: "pg_run M ok w w1 \<Longrightarrow> account_rows w2 = account_rows w1 \<Longrightarrow> w_now w1 \<le> w_now w2 \<Longrightarrow> pg_run M ok w w2"

definition keyed_rows :: "(string \<times> AccountRow) list \<Rightarrow> bool" where
  "keyed_rows t \<longleftrightarrow> distinct (map fst t) \<and> (\<forall>(j, r) \<in> set t. acc_ID r = j)"

lemma keyed_loaded:
  assumes "keyed_rows t" "st_Accounts st = map (scan_account M) (select_ordered t)"
  shows "ids_distinct st"
proof -
  have "map acc_ID (st_Accounts st) = map fst (sort_key fst t)"
    using assms by (auto simp: select_ordered_def keyed_rows_def)
  moreover have "distinct (map fst (sort_key fst t))"
    using assms(1) by (simp add: keyed_rows_def distinct_map)
  ultimately show ?thesis by (simp add: ids_distinct_def accountIDs_def)
qed

lemma keyed_upsert:
  assumes "keyed_rows t" "acc_ID new = k"
  shows "keyed_rows (upsert merge_account k new t)"
  using assms set_upsert_account [of _ _ k new t] distinct_upsert [of t merge_account k new]
  by (auto simp: keyed_rows_def) blast

interpretation row_ids: row_invariant T ids_distinct "\<lambda>_. True" "\<lambda>_ _. True" M keyed_rows
  for T and M :: "'m Manager_scheme"
proof unfold_locales
  fix t :: "(string \<times> AccountRow) list" and st :: State
  show "ids_distinct (normalizeState T st)" if "ids_distinct st"
    using that by (simp add: ids_distinct_def accountIDs_def comp_def)
  assume h: "keyed_rows t"
  show "ids_distinct (normalizeState T st)" if "st_Accounts st = map (scan_account M) (select_ordered t)"
    using keyed_loaded [OF h that] by (simp add: ids_distinct_def accountIDs_def comp_def)
  show "keyed_rows (upsert merge_account (acc_ID a) (account_row M now auth a) t)" for a now auth
    using h by (intro keyed_upsert) simp_all
  show "keyed_rows (update_row j f t)"
    if "\<And>r. acc_ID (f r) = acc_ID r \<and> lease_of (Account.truncate (f r)) = lease_of (Account.truncate r)" for j f
    using h that by (auto simp: keyed_rows_def) (auto simp: update_row_def split: if_splits)
qed

interpretation row_clock: row_invariant T "\<lambda>_. True" "\<lambda>_. True" "\<lambda>_ _. True" M "\<lambda>_. True"
  for T and M :: "'m Manager_scheme"
  by unfold_locales simp_all

lemma leased_later: "leased_rows k L C E now t \<Longrightarrow> now' < E \<Longrightarrow> leased_rows k L C E now' t"
  by (fastforce simp: leased_rows_def has_lease_def accountLeaseActive_def)

lemma perform_leased:
  assumes "postgres_mode M" "allowed (foreign L C) (\<lambda>_. True) r" "r = RList \<longrightarrow> few_rows M w"
    and "leased_rows k L C E (w_now w) (account_rows w)"
  shows "w_now (perform M r w) = w_now w \<and> leased_rows k L C E (w_now w) (account_rows (perform M r w))"
  using assms by (intro row_lease.row_perform) simp_all

lemma pg_run_clock: "pg_run M ok w w' \<Longrightarrow> postgres_mode M \<Longrightarrow> w_now w \<le> w_now w'"
proof (induction rule: pg_run.induct)
  case (request w w1 r)
  with row_clock.row_perform [OF request.prems, of r w1 "w_now w1"] show ?case by simp
qed auto

lemma pg_run_leased:
  assumes "pg_run M (allowed (foreign L C) (\<lambda>_. True)) w w'" "postgres_mode M" "w_now w' < E"
    and "leased_rows k L C E (w_now w) (account_rows w)"
  shows "leased_rows k L C E (w_now w') (account_rows w')"
  using assms
proof (induction rule: pg_run.induct)
  case (request w w1 r)
  with row_clock.row_perform [OF request.prems(1), of r w1 "w_now w1"] have "w_now w1 < E" by simp
  with request have "leased_rows k L C E (w_now w1) (account_rows w1)" by blast
  from perform_leased [OF request.prems(1) request.hyps(2,3) this] show ?case by simp
next
  case (environment w w1 w2)
  then have "leased_rows k L C E (w_now w1) (account_rows w1)" by simp
  from leased_later [OF this environment.prems(2)] environment.hyps(2) show ?case by simp
qed

lemma pg_run_keyed:
  assumes "pg_run M ok w w'" "postgres_mode M" "keyed_rows (account_rows w)"
  shows "keyed_rows (account_rows w')"
  using assms
proof (induction rule: pg_run.induct)
  case (request w w1 r)
  then have "keyed_rows (account_rows w1)" by blast
  from row_ids.row_perform [OF request.prems(1) _ request.hyps(3) refl this] show ?case by simp
qed simp_all

section \<open>What a claim leaves in the rows\<close>

text \<open>The row of k has the lease l, or it is newer than u.\<close>

definition row_has :: "string \<Rightarrow> string \<times> string \<times> string \<times> time \<times> time \<times> time \<Rightarrow> time \<Rightarrow> (string \<times> AccountRow) list \<Rightarrow> bool" where
  "row_has k l u t \<longleftrightarrow>
     (\<exists>r. map_of t k = Some r \<and> (lease_of (Account.truncate r) = l \<or> u < acc_UpdatedAt r))"

definition leaves ::
  "((string \<times> AccountRow) list \<Rightarrow> bool) \<Rightarrow> ((string \<times> AccountRow) list \<Rightarrow> bool) \<Rightarrow> (Db \<Rightarrow> Db io) \<Rightarrow> bool" where
  "leaves A B body \<longleftrightarrow> (\<forall>d w r w'. body d w = (r, w') \<longrightarrow> A (db_accounts d) \<longrightarrow>
     same_but_faults w w' \<and> (\<forall>d'. r = Inr d' \<longrightarrow> B (db_accounts d')))"

lemma leaves_stays: "stays A body = leaves A A body"
  by (simp add: leaves_def stays_def)

lemma leavesD:
  "leaves A B body \<Longrightarrow> body d w = (r, w') \<Longrightarrow> A (db_accounts d) \<Longrightarrow>
   same_but_faults w w' \<and> (\<forall>d'. r = Inr d' \<longrightarrow> B (db_accounts d'))"
  unfolding leaves_def by blast

lemma leaves_bind:
  assumes "leaves A B f" "leaves B C g"
  shows "leaves A C (\<lambda>d. bindE (f d) g)"
  unfolding leaves_def
proof (intro allI impI)
  fix d w r w' assume run: "bindE (f d) g w = (r, w')" and d: "A (db_accounts d)"
  obtain r1 w1 where 1: "f d w = (r1, w1)" by fastforce
  note f = leavesD [OF assms(1) 1 d]
  show "same_but_faults w w' \<and> (\<forall>d'. r = Inr d' \<longrightarrow> C (db_accounts d'))"
  proof (cases r1)
    case (Inl e)
    with 1 run f show ?thesis by auto
  next
    case (Inr x)
    with 1 run have "g x w1 = (r, w')" by simp
    from leavesD [OF assms(2) this] f Inr show ?thesis by (auto intro: same_trans)
  qed
qed

lemma leaves_account:
  assumes "\<And>t auth. A t \<Longrightarrow> B (upsert merge_account (acc_ID a) (account_row M now auth a) t)"
  shows "leaves A B (save_account M now a)"
  unfolding leaves_def save_account_def
proof (intro allI impI)
  fix d w r w' assume d: "A (db_accounts d)"
    and run: "bindE (readAccountAuthJSON (saved_home M a)) (\<lambda>auth. pgExec (\<lambda>d. d\<lparr>db_accounts :=
         upsert merge_account (acc_ID a) (account_row M now auth a) (db_accounts d)\<rparr>) d) w = (r, w')"
  obtain r1 w1 where 1: "readAccountAuthJSON (saved_home M a) w = (r1, w1)" by fastforce
  obtain r2 w2 where 2: "stepE w1 = (r2, w2)" by fastforce
  have "same_but_faults w w1" "same_but_faults w w2"
    using readAccountAuthJSON_same [OF 1] stepE_D [OF 2] by (blast intro: same_trans)+
  with run 1 2 assms [OF d] show "same_but_faults w w' \<and> (\<forall>d'. r = Inr d' \<longrightarrow> B (db_accounts d'))"
    by (cases r1; cases r2) (auto simp: pgExec_def)
qed

lemma foldE_append: "foldE f (xs @ ys) = (\<lambda>d. bindE (foldE f xs d) (foldE f ys))"
proof (induction xs)
  case Nil
  show ?case by (rule ext) (simp add: returnE_bind)
next
  case (Cons x xs)
  show ?case by (rule ext) (simp add: Cons.IH bindE_assoc)
qed

lemma leaves_fold:
  assumes xs: "xs = ys @ a # zs" and A: "\<And>x. leaves A A (f x)" and a: "leaves A B (f a)"
    and B: "\<And>x. x \<in> set zs \<Longrightarrow> leaves B B (f x)"
  shows "leaves A B (foldE f xs)"
proof -
  have ys: "leaves A A (foldE f ys)" and zs: "leaves B B (foldE f zs)"
    unfolding leaves_stays [symmetric] by (rule stays_fold; simp add: leaves_stays A B)+
  have "foldE f (a # zs) = (\<lambda>d. bindE (f a d) (foldE f zs))" by (rule ext) simp
  then show ?thesis unfolding xs foldE_append by (simp only: leaves_bind [OF ys leaves_bind [OF a zs]])
qed

lemma row_has_upsert:
  assumes "lease_of a = l" "acc_UpdatedAt a = u" "u \<noteq> zero_time \<or> now = u"
  shows "row_has (acc_ID a) l u (upsert merge_account (acc_ID a) (account_row M now auth a) t)"
proof -
  have new: "lease_of (Account.truncate (account_row M now auth a)) = l" "acc_UpdatedAt (account_row M now auth a) = u"
    using assms by (auto simp: account_row_def Let_def lease_of_def Account.defs)
  show ?thesis
    using new by (auto simp: row_has_def map_of_upsert merge_account_def lease_of_def Account.defs split: option.splits)
qed

lemma row_has_other: "row_has k l u t \<Longrightarrow> j \<noteq> k \<Longrightarrow> row_has k l u (upsert merge_account j new t)"
  by (simp add: row_has_def map_of_upsert)

lemma leaves_save_body:
  assumes "distinct (map acc_ID (st_Accounts st))" "a \<in> set (st_Accounts st)"
    and "lease_of a = l" "acc_UpdatedAt a = u" "u \<noteq> zero_time \<or> now = u"
  shows "leaves keyed_rows (\<lambda>t. keyed_rows t \<and> row_has (acc_ID a) l u t) (save_body M now st)"
proof -
  obtain ys zs where xs: "st_Accounts st = ys @ a # zs" using assms(2) by (auto simp: in_set_conv_decomp)
  let ?B = "\<lambda>t. keyed_rows t \<and> row_has (acc_ID a) l u t"
  have accounts: "leaves keyed_rows ?B (foldE (save_account M now) (st_Accounts st))"
  proof (rule leaves_fold [OF xs])
    show "leaves keyed_rows keyed_rows (save_account M now x)" for x
      by (rule leaves_account) (simp add: keyed_upsert)
    show "leaves keyed_rows ?B (save_account M now a)"
      by (rule leaves_account) (simp add: keyed_upsert row_has_upsert [OF assms(3-5)])
    show "leaves ?B ?B (save_account M now x)" if "x \<in> set zs" for x
    proof (rule leaves_account)
      have "acc_ID a \<notin> acc_ID ` set zs" using assms(1) by (simp add: xs)
      with that have "acc_ID x \<noteq> acc_ID a" by (metis imageI)
      then show "?B t \<Longrightarrow> ?B (upsert merge_account (acc_ID x) (account_row M now auth x) t)" for t auth
        by (simp add: keyed_upsert row_has_other)
    qed
  qed
  show ?thesis
    unfolding save_body_def [abs_def]
    by (rule leaves_bind [OF accounts], unfold leaves_stays [symmetric]) (intro stays_bind stays_fold stays_rows)
qed

section \<open>A claim\<close>

abbreviation row_gives ::
  "time \<Rightarrow> ((string \<times> AccountRow) list \<Rightarrow> bool) \<Rightarrow> 'a io \<Rightarrow> ('a \<Rightarrow> (string \<times> AccountRow) list \<Rightarrow> bool) \<Rightarrow> bool" where
  "row_gives \<equiv> framed_view.gives account_rows"

lemma gives_tx:
  assumes "leaves A B body"
  shows "row_gives T A (pgTx body) (\<lambda>_. B)"
  unfolding rows.gives_def
proof (intro allI impI)
  fix w x w' assume w: "w_now w = T" "A (account_rows w)" and run: "pgTx body w = (Inr x, w')"
  from run obtain u w1 where 1: "stepE w = (Inr u, w1)"
    and run1: "bindE (getsE w_db) (\<lambda>d. bindE (body d) (\<lambda>d'. bindE stepE (\<lambda>_. modifyE (\<lambda>w. w\<lparr>w_db := d'\<rparr>)))) w1 = (Inr x, w')"
    unfolding pgTx_def by (rule bindE_InrE)
  have run2: "bindE (body (w_db w1)) (\<lambda>d'. bindE stepE (\<lambda>_. modifyE (\<lambda>w. w\<lparr>w_db := d'\<rparr>))) w1 = (Inr x, w')"
    using run1 by simp
  then obtain d' w2 where 2: "body (w_db w1) w1 = (Inr d', w2)"
    and run3: "bindE stepE (\<lambda>_. modifyE (\<lambda>w. w\<lparr>w_db := d'\<rparr>)) w2 = (Inr x, w')" by (rule bindE_InrE)
  from run3 obtain v w3 where 3: "stepE w2 = (Inr v, w3)" and w': "w' = w3\<lparr>w_db := d'\<rparr>"
    by (rule bindE_InrE) simp
  have "A (db_accounts (w_db w1))" using w same_fields [OF stepE_D [OF 1]] by simp
  from leavesD [OF assms 2 this] have "B (db_accounts d')" "same_but_faults w1 w2" by simp_all
  with w same_fields [OF stepE_D [OF 1]] same_fields [of w1 w2] same_fields [OF stepE_D [OF 3]] w'
  show "w_now w' = T \<and> B (account_rows w')" by simp
qed

lemma gives_Save:
  assumes m: "postgres_mode M" and "ids_distinct st" "a \<in> set (st_Accounts st)"
    and "lease_of a = l" "acc_UpdatedAt a = T"
  shows "row_gives T keyed_rows (Save M st) (\<lambda>_ t. keyed_rows t \<and> row_has (acc_ID a) l T t)"
proof -
  let ?n = "normalizeState T st"
  have upd: "acc_UpdatedAt (normalize_account a) = acc_UpdatedAt a" for a
    by (simp add: normalize_account_def Let_def)
  have "leaves keyed_rows (\<lambda>t. keyed_rows t \<and> row_has (acc_ID (normalize_account a)) l T t) (save_body M T ?n)"
  proof (rule leaves_save_body)
    show "distinct (map acc_ID (st_Accounts ?n))" using assms(2) by (simp add: ids_distinct_def accountIDs_def comp_def)
    show "normalize_account a \<in> set (st_Accounts ?n)" using assms(3) by simp
  qed (simp_all add: assms(4,5) upd)
  then have "row_gives T keyed_rows (savePostgresState M st) (\<lambda>_ t. keyed_rows t \<and> row_has (acc_ID a) l T t)"
    unfolding savePostgresState_def by (intro rows.gives_now gives_tx) simp
  with m show ?thesis by (simp add: Save_def rows.gives_safe_bind row_safe_Ensure)
qed

definition loaded_from :: "'m Manager_scheme \<Rightarrow> time \<Rightarrow> (string \<times> AccountRow) list \<Rightarrow> State \<Rightarrow> bool" where
  "loaded_from M now t st \<longleftrightarrow>
     (\<exists>st0. st = normalizeState now st0 \<and> st_Accounts st0 = map (scan_account M) (select_ordered t))"

lemma loaded_ids: "keyed_rows t \<Longrightarrow> loaded_from M now t st \<Longrightarrow> ids_distinct st"
  using row_ids.loaded [of t _ M now] by (auto simp: loaded_from_def)

lemma loaded_leased: "leased_rows k L C E now t \<Longrightarrow> loaded_from M now t st \<Longrightarrow> leased_state k L C E now st"
  using row_lease.loaded [of k L C E now t _ M] by (auto simp: loaded_from_def)

lemma gives_Load:
  assumes m: "postgres_mode M" and f: "\<And>t st. A t \<Longrightarrow> loaded_from M T t st \<Longrightarrow> row_gives T A (f st) Q"
  shows "row_gives T A (bindE (Load M) f) Q"
  unfolding rows.gives_def
proof (intro allI impI)
  fix w x w' assume w: "w_now w = T" "A (account_rows w)" and run: "bindE (Load M) f w = (Inr x, w')"
  from run obtain st w1 where 1: "Load M w = (Inr st, w1)" "f st w1 = (Inr x, w')" by (rule bindE_InrE)
  from Load_rows [OF m 1(1)] w(1) have l: "only_files w w1" "loaded_from M T (account_rows w) st"
    by (auto simp: loaded_from_def)
  from rows.givesD [OF f [OF w(2) l(2)] _ _ 1(2)] w l(1) show "w_now w' = T \<and> Q x (account_rows w')"
    by (simp add: only_files_def)
qed

text \<open>What is read does not change the rows.\<close>

lemma row_safe_Load: "postgres_mode M \<Longrightarrow> row_safe T A (Load M)"
  by (rule row_safeI) (drule (1) Load_rows, simp add: only_files_def)

definition lease_in_rows :: "time \<Rightarrow> LeaseSnapshot \<Rightarrow> (string \<times> AccountRow) list \<Rightarrow> bool" where
  "lease_in_rows now s t \<longleftrightarrow>
     (\<exists>a. ls_Lease s = leaseFromAccount a \<and> accountLeaseActive a now \<and> row_has (acc_ID a) (lease_of a) now t)"

lemma gives_finish:
  assumes "postgres_mode M"
  shows "row_gives T A (finish_claim M lid a) (\<lambda>r t. A t \<and> ls_Lease r = leaseFromAccount a)"
  unfolding finish_claim_def ExportProfileSnapshot_def GetAccount_def Let_def
  by (intro rows.gives_safe_bind rows.gives_return row_intros rows.safe_bind row_safe_Load row_safe_rr assms) simp

lemma gives_lease_id: "row_gives T A generateLeaseID (\<lambda>lid t. A t \<and> trim_space lid \<noteq> [])"
  unfolding generateLeaseID_def
  by (intro rows.gives_safe_bind rows.safe_prims rows.gives_return conjI lease_id_not_blank)

lemma claim_state_account:
  assumes "(i, a, sc) \<in> set (claim_candidates auth st ws T)" "claim_state i lid cid holder ttl T st = (st', b)"
    and "trim_space lid \<noteq> []" "0 \<le> T"
  shows "b \<in> set (st_Accounts st')" "acc_UpdatedAt b = T" "accountLeaseActive b T"
    "acc_LeaseClientID b = trim_space cid" "acc_LeaseExpiresAt b = T + normalizeLeaseTTL ttl"
  using assms claim_candidates_mem [OF assms(1)] normalizeLeaseTTL_pos [of ttl]
  by (auto simp: claim_state_def Let_def set_account_def claim_account_def accountLeaseActive_def set_update_memI)

lemma gives_claim_locked_rows:
  assumes m: "postgres_mode M"
    and Q: "\<And>auth t st i a sc lid st' b. A t \<Longrightarrow> loaded_from M T t st \<Longrightarrow>
      (i, a, sc) \<in> set (claim_candidates auth (sweep st T) (trim_space ws) T) \<Longrightarrow>
      claim_state i lid cid holder ttl T (sweep st T) = (st', b) \<Longrightarrow> trim_space lid \<noteq> [] \<Longrightarrow>
      row_gives T A (bindE (Save M st') (\<lambda>_. finish_claim M lid b)) Q"
  shows "row_gives T A (claim_locked M cid holder ws ttl) Q"
  unfolding claim_locked_def
proof (intro gives_Load [OF m] rows.gives_now, unfold Let_def,
    intro rows.gives_gets rows.gives_if rows.gives_then_throw)
  fix t st w
  let ?cs = "claim_candidates (accountAuthPresent w) (sweep st T) (trim_space ws) T"
  let ?sel = "\<lambda>lastID. rr_select cand_score cand_key lastID (rank cand_score cand_key ?cs)"
  assume st: "A t" "loaded_from M T t st" and ne: "rank cand_score cand_key ?cs \<noteq> []"
  show "row_gives T A (bindE (loadRoundRobinState M) (\<lambda>lastID. bindE generateLeaseID (\<lambda>leaseID.
      case claim_state (fst (?sel lastID)) leaseID cid holder ttl T (sweep st T) of
        (st, a) \<Rightarrow> bindE (Save M st) (\<lambda>_. finish_claim M leaseID a)))) Q"
  proof (rule rows.gives_safe_bind [OF row_safe_rr(2) [OF m]],
      rule rows.gives_bind [OF gives_lease_id], rule rows.gives_pure)
    fix lastID lid assume lid: "trim_space lid \<noteq> []"
    obtain i a sc where sel: "?sel lastID = (i, a, sc)" by (rule prod_cases3)
    then have mem: "(i, a, sc) \<in> set ?cs" using claim_selected [OF ne, of lastID] by simp
    obtain st' b where cl: "claim_state i lid cid holder ttl T (sweep st T) = (st', b)" by fastforce
    from Q [OF st mem cl lid] show "row_gives T A (case claim_state (fst (?sel lastID)) lid cid holder ttl T (sweep st T) of
        (st, a) \<Rightarrow> bindE (Save M st) (\<lambda>_. finish_claim M lid a)) Q"
      by (simp add: sel cl)
  qed
qed

text \<open>The claimed account has the lease in its row, or its row is newer.\<close>

definition claimed_rows :: "string \<Rightarrow> duration \<Rightarrow> time \<Rightarrow> LeaseSnapshot \<Rightarrow> (string \<times> AccountRow) list \<Rightarrow> bool" where
  "claimed_rows cid ttl now s t \<longleftrightarrow> keyed_rows t \<and> lease_in_rows now s t
     \<and> lse_ClientID (ls_Lease s) = trim_space cid \<and> lse_ExpiresAt (ls_Lease s) = now + normalizeLeaseTTL ttl"

lemma gives_claimed_rows:
  assumes m: "postgres_mode M" and T: "0 \<le> T"
  shows "row_gives T keyed_rows (claim_locked M cid holder ws ttl) (claimed_rows cid ttl T)"
proof (rule gives_claim_locked_rows [OF m])
  fix auth t st i a sc lid st' b
  assume st: "keyed_rows t" "loaded_from M T t st"
    and mem: "(i, a, sc) \<in> set (claim_candidates auth (sweep st T) (trim_space ws) T)"
    and cl: "claim_state i lid cid holder ttl T (sweep st T) = (st', b)" and lid: "trim_space lid \<noteq> []"
  note b = claim_state_account [OF mem cl lid T]
  have ids': "ids_distinct st'"
    using ids.claimed [OF ids.swept [OF loaded_ids [OF st]] mem, of lid cid holder ttl] cl by simp
  let ?B = "\<lambda>t. keyed_rows t \<and> row_has (acc_ID b) (lease_of b) T t"
  show "row_gives T keyed_rows (bindE (Save M st') (\<lambda>_. finish_claim M lid b)) (claimed_rows cid ttl T)"
  proof (rule rows.gives_bind [OF gives_Save [OF m ids' b(1) refl b(2)]])
    show "row_gives T ?B (finish_claim M lid b) (claimed_rows cid ttl T)" for x :: unit
      by (rule rows.gives_conseq [OF gives_finish [where A = ?B, OF m]])
        (use b in \<open>auto simp: claimed_rows_def lease_in_rows_def leaseFromAccount_def\<close>)
  qed
qed

text \<open>An account that is held is not claimed.\<close>

lemma gives_claim_other_rows:
  assumes m: "postgres_mode M"
  shows "row_gives T (leased_rows k L C E T) (claim_locked M cid holder ws ttl) (\<lambda>s t. lse_AccountID (ls_Lease s) \<noteq> k)"
proof (rule gives_claim_locked_rows [OF m])
  fix auth t st i a sc lid st' b
  assume st: "leased_rows k L C E T t" "loaded_from M T t st"
    and mem: "(i, a, sc) \<in> set (claim_candidates auth (sweep st T) (trim_space ws) T)"
    and cl: "claim_state i lid cid holder ttl T (sweep st T) = (st', b)"
  have "leased_state k L C E T (sweep st T)" by (rule leased_sweep [OF loaded_leased [OF st]])
  then have "acc_ID b \<noteq> k"
    using claim_candidates_mem [OF mem] cl
    by (auto simp: leased_state_def has_lease_def may_lease_def claim_state_def Let_def claim_account_def set_account_def)
  then show "row_gives T (leased_rows k L C E T) (bindE (Save M st') (\<lambda>_. finish_claim M lid b))
      (\<lambda>s t. lse_AccountID (ls_Lease s) \<noteq> k)"
    by (intro rows.gives_bind [where R = "\<lambda>_ _. True"] rows.gives_conseq [OF gives_finish [where A = "\<lambda>_. True", OF m]]
        rows.gives_conseq [OF rows.gives_safe [OF row_clock.row_save [OF m]]]) (auto simp: leaseFromAccount_def)
qed

lemma claim_rows:
  assumes m: "postgres_mode M" and "0 \<le> w_now w" "keyed_rows (account_rows w)"
    and "ClaimLease M cid holder ws ttl w = (Inr s, w')"
  shows "w_now w' = w_now w \<and> claimed_rows cid ttl (w_now w) s (account_rows w')"
proof -
  have "row_gives (w_now w) keyed_rows (ClaimLease M cid holder ws ttl) (claimed_rows cid ttl (w_now w))"
    unfolding ClaimLease_def
    by (intro rows.gives_safe_bind rows.gives_withMu rows.gives_withFlock gives_claimed_rows m assms(2) row_ids.row_recover)
  from rows.givesD [OF this refl assms(3,4)] show ?thesis .
qed

lemma claim_other_rows:
  assumes m: "postgres_mode M" and "leased_rows k L C E (w_now w) (account_rows w)"
    and "ClaimLease M cid holder ws ttl w = (Inr s, w')"
  shows "lse_AccountID (ls_Lease s) \<noteq> k"
proof -
  have "row_gives (w_now w) (leased_rows k L C E (w_now w)) (ClaimLease M cid holder ws ttl)
      (\<lambda>s t. lse_AccountID (ls_Lease s) \<noteq> k)"
    unfolding ClaimLease_def
    by (intro rows.gives_safe_bind rows.gives_withMu rows.gives_withFlock gives_claim_other_rows m row_lease.row_recover)
  from rows.givesD [OF this refl assms(2,3)] show ?thesis by simp
qed

lemma claimed_leased:
  assumes "claimed_rows cid ttl now s t" "\<forall>(k, r) \<in> set t. acc_UpdatedAt r \<le> now"
  shows "leased_rows (lse_AccountID (ls_Lease s)) (lse_ID (ls_Lease s)) (trim_space cid) (lse_ExpiresAt (ls_Lease s)) now t"
proof -
  from assms(1) obtain a r where a: "ls_Lease s = leaseFromAccount a" "accountLeaseActive a now"
      and r: "map_of t (acc_ID a) = Some r" "lease_of (Account.truncate r) = lease_of a \<or> now < acc_UpdatedAt r"
    by (auto simp: claimed_rows_def lease_in_rows_def row_has_def)
  have "acc_LeaseClientID a = trim_space cid" using assms(1) a(1) by (simp add: claimed_rows_def leaseFromAccount_def)
  moreover have "lease_of (Account.truncate r) = lease_of a" using assms(2) map_of_SomeD [OF r(1)] r(2) by fastforce
  ultimately have l: "has_lease (acc_LeaseID a) (trim_space cid) (acc_LeaseExpiresAt a) now (Account.truncate r)"
    using a(2) lease_of_active [of "Account.truncate r" a now] by (auto simp: has_lease_def lease_of_def)
  have keyed: "distinct (map fst t)" "\<forall>(j, r) \<in> set t. acc_ID r = j"
    using assms(1) by (simp_all add: claimed_rows_def keyed_rows_def)
  have "r' = r" if "(acc_ID a, r') \<in> set t" for r'
    using map_of_is_SomeI [OF keyed(1) that] r(1) by simp
  moreover have "acc_ID a \<in> fst ` set t" using map_of_SomeD [OF r(1)] by force
  ultimately show ?thesis
    using keyed(2) l unfolding leased_rows_def a(1) leaseFromAccount_def by auto
qed

lemma claim_survives:
  assumes m: "postgres_mode M" and now: "0 \<le> w_now w" and k: "keyed_rows (account_rows w)"
    and c: "ClaimLease M cid holder ws ttl w = (Inr s, w1)"
    and old: "\<forall>(k, r) \<in> set (account_rows w1). acc_UpdatedAt r \<le> w_now w"
    and run: "pg_run M (allowed (foreign (lse_ID (ls_Lease s)) (trim_space cid)) (\<lambda>_. True)) w1 w2"
    and bound: "w_now w2 < lse_ExpiresAt (ls_Lease s)"
  shows "leased_rows (lse_AccountID (ls_Lease s)) (lse_ID (ls_Lease s)) (trim_space cid) (lse_ExpiresAt (ls_Lease s))
      (w_now w2) (account_rows w2)
    \<and> (ClaimLease M cid' holder' ws' ttl' w2 = (Inr s', w3) \<longrightarrow> lse_AccountID (ls_Lease s') \<noteq> lse_AccountID (ls_Lease s))"
proof -
  note r = claim_rows [OF m now k c]
  have "leased_rows (lse_AccountID (ls_Lease s)) (lse_ID (ls_Lease s)) (trim_space cid) (lse_ExpiresAt (ls_Lease s))
      (w_now w1) (account_rows w1)"
    using claimed_leased [of cid ttl "w_now w" s, OF _ old] r by simp
  from pg_run_leased [OF run m bound this] claim_other_rows [OF m, of _ "lse_ID (ls_Lease s)"] show ?thesis by blast
qed

end
