(* ===== verification/PgRound.thy ===== *)
theory PgRound
  imports Sample
begin

text \<open>
  A state that is saved to an empty database is loaded back (\<open>savePostgresState\<close> and
  \<open>loadPostgresState\<close> of \<open>internal/manager/store_postgres.go\<close>): table by table, what the rows of
  a save are and what the scans make of them. The dispatch history is saved, but the load does not
  read it.
\<close>

section \<open>One table at a time\<close>

text \<open>A table as a part of the database.\<close>

locale db_table =
  fixes get :: "Db \<Rightarrow> ('k \<times> 'r) list" and put :: "('k \<times> 'r) list \<Rightarrow> Db \<Rightarrow> Db"
  assumes get_put: "get (put t d) = t"
    and put_put: "put t (put u d) = put t d"
    and put_get: "put (get d) d = d"
begin

text \<open>A loop that appends a row for each of its items fills the table with their rows.\<close>

lemma fold_rows:
  assumes "\<And>ys x zs d. xs = ys @ x # zs \<Longrightarrow> get d = map kr ys \<Longrightarrow> f x d w = (Inr (put (map kr ys @ [kr x]) d), w)"
    and "get d = []"
  shows "foldE f xs d w = (Inr (put (map kr xs) d), w)"
proof -
  have "foldE f zs d w = (Inr (put (map kr (ys @ zs)) d), w)" if "xs = ys @ zs" "get d = map kr ys" for ys zs d
    using that
  proof (induction zs arbitrary: ys d)
    case Nil
    then show ?case using put_get [of d] by (simp add: returnE_def)
  next
    case (Cons x zs)
    have "f x d w = (Inr (put (map kr ys @ [kr x]) d), w)" by (rule assms(1) [OF Cons.prems])
    moreover have "foldE f zs (put (map kr ys @ [kr x]) d) w = (Inr (put (map kr (ys @ x # zs)) d), w)"
      using Cons.IH [of "ys @ [x]" "put (map kr ys @ [kr x]) d"] Cons.prems by (simp add: get_put put_put)
    ultimately show ?case by (simp add: bindE_def)
  qed
  from this [of "[]" xs d] assms(2) show ?thesis by simp
qed

end

interpretation accounts_table: db_table db_accounts "\<lambda>t. db_accounts_update (\<lambda>_. t)"
  by unfold_locales simp_all

interpretation clients_table: db_table db_clients "\<lambda>t. db_clients_update (\<lambda>_. t)"
  by unfold_locales simp_all

interpretation users_table: db_table db_users "\<lambda>t. db_users_update (\<lambda>_. t)"
  by unfold_locales simp_all

interpretation sessions_table: db_table db_sessions "\<lambda>t. db_sessions_update (\<lambda>_. t)"
  by unfold_locales simp_all

interpretation workspaces_table: db_table db_workspaces "\<lambda>t. db_workspaces_update (\<lambda>_. t)"
  by unfold_locales simp_all

interpretation memberships_table: db_table db_memberships "\<lambda>t. db_memberships_update (\<lambda>_. t)"
  by unfold_locales simp_all

interpretation usage_table: db_table db_usage "\<lambda>t. db_usage_update (\<lambda>_. t)"
  by unfold_locales simp_all

interpretation quota_table: db_table db_quota_cache "\<lambda>t. db_quota_cache_update (\<lambda>_. t)"
  by unfold_locales simp_all

lemma upsert_fresh: "k \<notin> fst ` set t \<Longrightarrow> upsert merge k r t = t @ [(k, r)]"
  by (simp add: upsert_def map_of_eq_None_iff [THEN iffD2])

lemma upsert_next:
  assumes "xs = ys @ x # zs" "distinct (map key xs)"
  shows "upsert merge (key x) r (map (\<lambda>y. (key y, row y)) ys) = map (\<lambda>y. (key y, row y)) ys @ [(key x, r)]"
  by (rule upsert_fresh) (use assms in \<open>auto simp: image_iff\<close>)

lemma insort_key_map: "insort_key f (g a) (map g xs) = map g (insort_key (f \<circ> g) a xs)"
  by (induction xs) auto

lemma sort_key_map: "sort_key f (map g xs) = map g (sort_key (f \<circ> g) xs)"
  by (induction xs) (auto simp: insort_key_map comp_def)

lemma select_rows: "sort_key key xs = xs \<Longrightarrow> select_ordered (map (\<lambda>x. (key x, row x)) xs) = map row xs"
  by (simp add: select_ordered_def sort_key_map comp_def)

section \<open>States a database can hold\<close>

text \<open>
  The rows of the state have keys that are distinct and in order, and the times and the text
  fields the code would fill in; credentials are absent or JSON.
\<close>

definition account_form :: "World \<Rightarrow> Account \<Rightarrow> bool" where
  "account_form w a \<longleftrightarrow> acc_CreatedAt a \<noteq> zero_time \<and> acc_UpdatedAt a \<noteq> zero_time \<and> trim_space (acc_CodexHome a) \<noteq> []
     \<and> (case map_of (w_files w) (auth_path (acc_CodexHome a)) of Some (NotJson _, _) \<Rightarrow> False | _ \<Rightarrow> True)"

definition user_form :: "User \<Rightarrow> bool" where
  "user_form u \<longleftrightarrow> usr_CreatedAt u \<noteq> zero_time \<and> usr_UpdatedAt u \<noteq> zero_time \<and> usr_Username u \<noteq> []"

definition session_form :: "time \<Rightarrow> Session \<Rightarrow> bool" where
  "session_form now s \<longleftrightarrow> trim_space (ses_ID s) \<noteq> [] \<and> trim_space (ses_TokenHash s) \<noteq> [] \<and> ses_CreatedAt s \<noteq> zero_time
     \<and> now < ses_ExpiresAt s"

definition workspace_form :: "Workspace \<Rightarrow> bool" where
  "workspace_form x \<longleftrightarrow> trim_space (ws_ID x) \<noteq> [] \<and> ws_CreatedAt x \<noteq> zero_time \<and> ws_UpdatedAt x \<noteq> zero_time"

definition membership_form :: "Membership \<Rightarrow> bool" where
  "membership_form m \<longleftrightarrow> trim_space (ms_WorkspaceID m) \<noteq> [] \<and> ms_ClientID m \<noteq> [] \<and> trim_space (ms_ClientID m) = ms_ClientID m
     \<and> validWorkspaceRole (ms_Role m) \<and> ms_CreatedAt m \<noteq> zero_time"

definition usage_form :: "string \<times> AccountUsage \<Rightarrow> bool" where
  "usage_form ku \<longleftrightarrow> au_AccountID (snd ku) = fst ku \<and> fst ku \<noteq> [] \<and> au_UpdatedAt (snd ku) \<noteq> zero_time"

definition quota_form :: "string \<times> QuotaCache \<Rightarrow> bool" where
  "quota_form kc \<longleftrightarrow> qc_AccountID (snd kc) = fst kc \<and> fst kc \<noteq> [] \<and> qc_UpdatedAt (snd kc) \<noteq> zero_time
     \<and> qc_Source (snd kc) \<noteq> NoSource"

definition in_order :: "('a \<Rightarrow> 'k::linorder) \<Rightarrow> 'a list \<Rightarrow> bool" where
  "in_order key xs \<longleftrightarrow> distinct (map key xs) \<and> sort_key key xs = xs"

definition pg_form :: "World \<Rightarrow> State \<Rightarrow> bool" where
  "pg_form w st \<longleftrightarrow> state_ok st \<and> st_Version st = 1
     \<and> in_order acc_ID (st_Accounts st) \<and> list_all (account_form w) (st_Accounts st)
     \<and> in_order cli_ID (st_Clients st) \<and> list_all (\<lambda>c. cli_CreatedAt c \<noteq> zero_time) (st_Clients st)
     \<and> in_order usr_ID (st_Users st) \<and> list_all user_form (st_Users st)
     \<and> distinct (map (\<lambda>u. to_lower (usr_Username u)) (st_Users st))
     \<and> in_order ses_ID (st_Sessions st) \<and> list_all (session_form (w_now w)) (st_Sessions st)
     \<and> in_order ws_ID (st_Workspaces st) \<and> list_all workspace_form (st_Workspaces st)
     \<and> distinct (map (\<lambda>m. (ms_WorkspaceID m, ms_ClientID m)) (st_Memberships st))
     \<and> sort_key ms_WorkspaceID (sort_key ms_ClientID (st_Memberships st)) = st_Memberships st
     \<and> list_all membership_form (st_Memberships st)
     \<and> distinct (map fst (st_Usage st)) \<and> list_all usage_form (st_Usage st)
     \<and> distinct (map fst (st_QuotaCache st)) \<and> list_all quota_form (st_QuotaCache st)"

text \<open>The rows of such a state.\<close>

definition auth_on_disk :: "World \<Rightarrow> Account \<Rightarrow> json option" where
  "auth_on_disk w a = (case map_of (w_files w) (auth_path (acc_CodexHome a)) of
     Some (Doc d, _) \<Rightarrow> Some d | _ \<Rightarrow> None)"

definition held_row :: "World \<Rightarrow> Account \<Rightarrow> AccountRow" where
  "held_row w a = Account.extend a \<lparr>ar_auth_json = auth_on_disk w a\<rparr>"

section \<open>What a save writes\<close>

lemma in_orderD: "in_order key xs \<Longrightarrow> distinct (map key xs)" "in_order key xs \<Longrightarrow> sort_key key xs = xs"
  by (simp_all add: in_order_def)

lemma list_all_mid: "list_all P xs \<Longrightarrow> xs = ys @ x # zs \<Longrightarrow> P x"
  by simp

lemma read_auth_eval:
  assumes "w_faults w = []" "account_form w a"
  shows "readAccountAuthJSON a w = (Inr (auth_on_disk w a), w)"
  using assms by (auto simp: readAccountAuthJSON_def account_form_def auth_on_disk_def Let_def
      split: option.splits content.splits)

lemma account_row_same:
  assumes "account_ok a" "account_form w a"
  shows "account_row M now auth a = Account.extend a \<lparr>ar_auth_json = auth\<rparr>" "saved_home M a = a"
    and "scan_account M (Account.extend a \<lparr>ar_auth_json = auth\<rparr>) = a"
  using assms by (auto simp: account_row_def saved_home_def scan_account_def Let_def account_ok_def account_form_def
      workspaceOrDefault_def Account.defs)

lemma save_accounts_eval:
  assumes "w_faults w = []" "in_order acc_ID xs" "list_all (account_form w) xs" "\<forall>a \<in> set xs. account_ok a"
    and "db_accounts d = []"
  shows "foldE (save_account M now) xs d w = (Inr (d\<lparr>db_accounts := map (\<lambda>a. (acc_ID a, held_row w a)) xs\<rparr>), w)"
proof (rule accounts_table.fold_rows [OF _ assms(5)])
  fix ys x zs and d :: Db assume xs: "xs = ys @ x # zs" and d: "db_accounts d = map (\<lambda>a. (acc_ID a, held_row w a)) ys"
  from xs assms(3,4) have f: "account_form w x" "account_ok x" by auto
  show "save_account M now x d w = (Inr (d\<lparr>db_accounts := map (\<lambda>a. (acc_ID a, held_row w a)) ys @
          [(acc_ID x, held_row w x)]\<rparr>), w)"
    using upsert_next [OF xs in_orderD(1) [OF assms(2)], of merge_account "held_row w x" "held_row w"] assms(1)
    by (simp add: save_account_def account_row_same [OF f(2,1)] read_auth_eval [OF assms(1) f(1)] d)
       (simp add: held_row_def)
qed

lemma save_clients_eval:
  assumes "w_faults w = []" "in_order cli_ID xs" "list_all (\<lambda>c. cli_CreatedAt c \<noteq> zero_time) xs" "db_clients d = []"
  shows "foldE (save_client now) xs d w = (Inr (d\<lparr>db_clients := map (\<lambda>c. (cli_ID c, c)) xs\<rparr>), w)"
proof (rule clients_table.fold_rows [OF _ assms(4)])
  fix ys x zs and d :: Db assume xs: "xs = ys @ x # zs" and d: "db_clients d = map (\<lambda>c. (cli_ID c, c)) ys"
  from xs assms(3) have "cli_CreatedAt x \<noteq> zero_time" by simp
  then show "save_client now x d w = (Inr (d\<lparr>db_clients := map (\<lambda>c. (cli_ID c, c)) ys @ [(cli_ID x, x)]\<rparr>), w)"
    using upsert_next [OF xs in_orderD(1) [OF assms(2)], of merge_client x "\<lambda>c. c"] assms(1) d
    by (simp add: save_client_def client_row_def)
qed

lemma save_users_eval:
  assumes "w_faults w = []" "in_order usr_ID xs" "list_all user_form xs"
    "distinct (map (\<lambda>u. to_lower (usr_Username u)) xs)" "db_users d = []"
  shows "foldE (save_user now) xs d w = (Inr (d\<lparr>db_users := map (\<lambda>u. (usr_ID u, u)) xs\<rparr>), w)"
proof (rule users_table.fold_rows [OF _ assms(5)])
  fix ys x zs and d :: Db assume xs: "xs = ys @ x # zs" and d: "db_users d = map (\<lambda>u. (usr_ID u, u)) ys"
  from xs assms(3) have f: "user_form x" by simp
  from xs assms(4) have "\<not> username_taken x (db_users d)" by (auto simp: username_taken_def d list_ex_iff image_iff)
  with f show "save_user now x d w = (Inr (d\<lparr>db_users := map (\<lambda>u. (usr_ID u, u)) ys @ [(usr_ID x, x)]\<rparr>), w)"
    using upsert_next [OF xs in_orderD(1) [OF assms(2)], of merge_user x "\<lambda>u. u"] assms(1) d
    by (simp add: save_user_def user_row_def user_form_def)
qed

lemma save_sessions_eval:
  assumes "w_faults w = []" "in_order ses_ID xs" "list_all (session_form t) xs" "db_sessions d = []"
  shows "foldE (save_session now) xs d w = (Inr (d\<lparr>db_sessions := map (\<lambda>s. (ses_ID s, s)) xs\<rparr>), w)"
proof (rule sessions_table.fold_rows [OF _ assms(4)])
  fix ys x zs and d :: Db assume xs: "xs = ys @ x # zs" and d: "db_sessions d = map (\<lambda>s. (ses_ID s, s)) ys"
  from xs assms(3) have "session_form t x" by simp
  then show "save_session now x d w = (Inr (d\<lparr>db_sessions := map (\<lambda>s. (ses_ID s, s)) ys @ [(ses_ID x, x)]\<rparr>), w)"
    using upsert_next [OF xs in_orderD(1) [OF assms(2)], of merge_session x "\<lambda>s. s"] assms(1) d
    by (simp add: save_session_def session_form_def)
qed

lemma save_workspaces_eval:
  assumes "w_faults w = []" "in_order ws_ID xs" "list_all workspace_form xs" "db_workspaces d = []"
  shows "foldE (save_workspace now) xs d w = (Inr (d\<lparr>db_workspaces := map (\<lambda>s. (ws_ID s, s)) xs\<rparr>), w)"
proof (rule workspaces_table.fold_rows [OF _ assms(4)])
  fix ys x zs and d :: Db assume xs: "xs = ys @ x # zs" and d: "db_workspaces d = map (\<lambda>s. (ws_ID s, s)) ys"
  from xs assms(3) have "workspace_form x" by simp
  then show "save_workspace now x d w = (Inr (d\<lparr>db_workspaces := map (\<lambda>s. (ws_ID s, s)) ys @ [(ws_ID x, x)]\<rparr>), w)"
    using upsert_next [OF xs in_orderD(1) [OF assms(2)], of merge_workspace x "\<lambda>s. s"] assms(1) d
    by (simp add: save_workspace_def workspace_form_def)
qed

lemma save_memberships_eval:
  assumes "w_faults w = []" "distinct (map (\<lambda>m. (ms_WorkspaceID m, ms_ClientID m)) xs)" "list_all membership_form xs"
    "db_memberships d = []"
  shows "foldE (save_membership now) xs d w =
    (Inr (d\<lparr>db_memberships := map (\<lambda>m. ((ms_WorkspaceID m, ms_ClientID m), m)) xs\<rparr>), w)"
proof (rule memberships_table.fold_rows [OF _ assms(4)])
  fix ys x zs and d :: Db assume xs: "xs = ys @ x # zs"
    and d: "db_memberships d = map (\<lambda>m. ((ms_WorkspaceID m, ms_ClientID m), m)) ys"
  from xs assms(3) have "membership_form x" by simp
  then show "save_membership now x d w = (Inr (d\<lparr>db_memberships :=
      map (\<lambda>m. ((ms_WorkspaceID m, ms_ClientID m), m)) ys @ [((ms_WorkspaceID x, ms_ClientID x), x)]\<rparr>), w)"
    using upsert_next [OF xs assms(2), of merge_membership x "\<lambda>m. m"] assms(1) d
    by (simp add: save_membership_def membership_form_def membership_principal_def membership_row_def)
qed

lemma save_usages_eval:
  assumes "w_faults w = []" "distinct (map fst xs)" "list_all usage_form xs" "db_usage d = []"
  shows "foldE (save_usage now) xs d w = (Inr (d\<lparr>db_usage := xs\<rparr>), w)"
proof -
  have "foldE (save_usage now) xs d w = (Inr (d\<lparr>db_usage := map (\<lambda>x. (fst x, snd x)) xs\<rparr>), w)"
  proof (rule usage_table.fold_rows [OF _ assms(4)])
    fix ys x zs and d :: Db assume xs: "xs = ys @ x # zs" and d: "db_usage d = map (\<lambda>x. (fst x, snd x)) ys"
    from xs assms(3) have "usage_form x" by simp
    then show "save_usage now x d w = (Inr (d\<lparr>db_usage := map (\<lambda>x. (fst x, snd x)) ys @ [(fst x, snd x)]\<rparr>), w)"
      using upsert_next [OF xs assms(2), of merge_usage "snd x" snd] assms(1) d
      by (simp add: save_usage_def usage_form_def)
  qed
  then show ?thesis by simp
qed

lemma save_quotas_eval:
  assumes "w_faults w = []" "distinct (map fst xs)" "list_all quota_form xs" "db_quota_cache d = []"
  shows "foldE (save_quota now) xs d w = (Inr (d\<lparr>db_quota_cache := xs\<rparr>), w)"
proof -
  have "foldE (save_quota now) xs d w = (Inr (d\<lparr>db_quota_cache := map (\<lambda>x. (fst x, snd x)) xs\<rparr>), w)"
  proof (rule quota_table.fold_rows [OF _ assms(4)])
    fix ys x zs and d :: Db assume xs: "xs = ys @ x # zs" and d: "db_quota_cache d = map (\<lambda>x. (fst x, snd x)) ys"
    from xs assms(3) have "quota_form x" by simp
    then show "save_quota now x d w =
        (Inr (d\<lparr>db_quota_cache := map (\<lambda>x. (fst x, snd x)) ys @ [(fst x, snd x)]\<rparr>), w)"
      using upsert_next [OF xs assms(2), of merge_quota "snd x" snd] assms(1) d
      by (simp add: save_quota_def quota_form_def)
  qed
  then show ?thesis by simp
qed

lemma save_dispatches_eval:
  assumes "w_faults w = []"
  shows "\<exists>D. foldE (save_dispatch now) xs d w = (Inr (d\<lparr>db_dispatches := D\<rparr>), w)"
proof (induction xs arbitrary: d)
  case Nil
  then show ?case by (auto simp: returnE_def intro: exI [of _ "db_dispatches d"])
next
  case (Cons x xs)
  have "\<exists>D. save_dispatch now x d w = (Inr (d\<lparr>db_dispatches := D\<rparr>), w)"
    using assms by (auto simp: save_dispatch_def Let_def intro: exI [of _ "db_dispatches d"])
  then obtain D where "save_dispatch now x d w = (Inr (d\<lparr>db_dispatches := D\<rparr>), w)" ..
  then show ?case using Cons.IH [of "d\<lparr>db_dispatches := D\<rparr>"] by (simp add: bindE_def)
qed

definition saved_meta :: "State \<Rightarrow> (string \<times> string) list" where
  "saved_meta st = (if st_WorkspaceMigrated st then [(''workspace_migrated'', ''true'')] else [])
     @ (if st_UserDeviceMigrated st then [(''user_device_migrated'', ''true'')] else [])"

lemma save_metas_eval:
  assumes "w_faults w = []" "db_meta d = []"
  shows "bindE (save_meta ''workspace_migrated'' (st_WorkspaceMigrated st) d)
      (\<lambda>d. save_meta ''user_device_migrated'' (st_UserDeviceMigrated st) d) w = (Inr (d\<lparr>db_meta := saved_meta st\<rparr>), w)"
proof -
  have "d\<lparr>db_meta := []\<rparr> = d" using assms(2) by simp
  with assms show ?thesis by (simp add: save_meta_def saved_meta_def upsert_def bindE_def returnE_def)
qed

text \<open>Other keys of \<open>cube_meta\<close>, such as the round robin's, may be there too.\<close>

definition other_meta :: "(string \<times> string) list \<Rightarrow> bool" where
  "other_meta X \<longleftrightarrow> map_of X ''workspace_migrated'' = None \<and> map_of X ''user_device_migrated'' = None"

lemma meta_true_saved:
  assumes "db_meta d = saved_meta st @ X" "other_meta X"
  shows "meta_true d ''workspace_migrated'' = st_WorkspaceMigrated st"
    "meta_true d ''user_device_migrated'' = st_UserDeviceMigrated st"
  using assms by (simp_all add: meta_true_def saved_meta_def other_meta_def)

text \<open>The tables after a save, \<open>D\<close> the rows of the dispatch history, \<open>X\<close> the other keys.\<close>

definition saved_db :: "World \<Rightarrow> State \<Rightarrow> (string \<times> DispatchEvent) list \<Rightarrow> (string \<times> string) list \<Rightarrow> Db" where
  "saved_db w st D X = \<lparr>db_accounts = map (\<lambda>a. (acc_ID a, held_row w a)) (st_Accounts st),
     db_clients = map (\<lambda>c. (cli_ID c, c)) (st_Clients st), db_users = map (\<lambda>u. (usr_ID u, u)) (st_Users st),
     db_sessions = map (\<lambda>s. (ses_ID s, s)) (st_Sessions st),
     db_workspaces = map (\<lambda>x. (ws_ID x, x)) (st_Workspaces st),
     db_memberships = map (\<lambda>m. ((ms_WorkspaceID m, ms_ClientID m), m)) (st_Memberships st),
     db_usage = st_Usage st, db_usage_events = [], db_dispatches = D,
     db_quota_cache = st_QuotaCache st, db_meta = saved_meta st @ X\<rparr>"

lemma pg_formD:
  assumes "pg_form w st"
  shows "state_ok st" "\<forall>a \<in> set (st_Accounts st). account_ok a"
    and "in_order acc_ID (st_Accounts st)" "list_all (account_form w) (st_Accounts st)"
    and "in_order cli_ID (st_Clients st)" "list_all (\<lambda>c. cli_CreatedAt c \<noteq> zero_time) (st_Clients st)"
    and "in_order usr_ID (st_Users st)" "list_all user_form (st_Users st)"
    and "distinct (map (\<lambda>u. to_lower (usr_Username u)) (st_Users st))"
    and "in_order ses_ID (st_Sessions st)" "list_all (session_form (w_now w)) (st_Sessions st)"
    and "in_order ws_ID (st_Workspaces st)" "list_all workspace_form (st_Workspaces st)"
    and "distinct (map (\<lambda>m. (ms_WorkspaceID m, ms_ClientID m)) (st_Memberships st))"
    and "sort_key ms_WorkspaceID (sort_key ms_ClientID (st_Memberships st)) = st_Memberships st"
    and "list_all membership_form (st_Memberships st)"
    and "distinct (map fst (st_Usage st))" "list_all usage_form (st_Usage st)"
    and "distinct (map fst (st_QuotaCache st))" "list_all quota_form (st_QuotaCache st)"
    and "st_Version st = 1"
  using assms by (simp_all add: pg_form_def state_ok_def)

lemma save_body_eval:
  assumes form: "pg_form w st" and calm: "w_faults w = []"
  shows "\<exists>D. save_body M now st empty_db w = (Inr (saved_db w st D []), w)"
proof -
  note f = pg_formD [OF form]
  obtain D where D: "foldE (save_dispatch now) (st_Dispatches st) (empty_db\<lparr>
      db_accounts := map (\<lambda>a. (acc_ID a, held_row w a)) (st_Accounts st),
      db_clients := map (\<lambda>c. (cli_ID c, c)) (st_Clients st), db_users := map (\<lambda>u. (usr_ID u, u)) (st_Users st),
      db_sessions := map (\<lambda>s. (ses_ID s, s)) (st_Sessions st),
      db_workspaces := map (\<lambda>x. (ws_ID x, x)) (st_Workspaces st),
      db_memberships := map (\<lambda>m. ((ms_WorkspaceID m, ms_ClientID m), m)) (st_Memberships st)\<rparr>) w
    = (Inr (empty_db\<lparr>
      db_accounts := map (\<lambda>a. (acc_ID a, held_row w a)) (st_Accounts st),
      db_clients := map (\<lambda>c. (cli_ID c, c)) (st_Clients st), db_users := map (\<lambda>u. (usr_ID u, u)) (st_Users st),
      db_sessions := map (\<lambda>s. (ses_ID s, s)) (st_Sessions st),
      db_workspaces := map (\<lambda>x. (ws_ID x, x)) (st_Workspaces st),
      db_memberships := map (\<lambda>m. ((ms_WorkspaceID m, ms_ClientID m), m)) (st_Memberships st),
      db_dispatches := D\<rparr>), w)"
    using save_dispatches_eval [OF calm] by blast
  note D = D [simplified empty_db_def Db.simps]
  have "save_body M now st empty_db w = (Inr (saved_db w st D []), w)"
    unfolding save_body_def
    by (simp add: save_accounts_eval [OF calm f(3,4,2)] save_clients_eval [OF calm f(5,6)]
        save_users_eval [OF calm f(7,8,9)] save_sessions_eval [OF calm f(10,11)] save_workspaces_eval [OF calm f(12,13)]
        save_memberships_eval [OF calm f(14,16)] D save_usages_eval [OF calm f(17,18)]
        save_quotas_eval [OF calm f(19,20)] save_metas_eval [OF calm] empty_db_def saved_db_def)
  then show ?thesis ..
qed

lemma savePostgresState_eval:
  assumes form: "pg_form w st" and calm: "w_faults w = []" and empty: "w_db w = empty_db"
  shows "\<exists>D. savePostgresState M st w = (Inr (), w\<lparr>w_db := saved_db w st D []\<rparr>)"
proof -
  obtain D where "save_body M (w_now w) st empty_db w = (Inr (saved_db w st D []), w)"
    using save_body_eval [OF form calm] by blast
  then have "savePostgresState M st w = (Inr (), w\<lparr>w_db := saved_db w st D []\<rparr>)"
    by (simp add: savePostgresState_def normalizeState_id [OF pg_formD(1) [OF form]] pgTx_def calm empty)
  then show ?thesis ..
qed

section \<open>What a load reads\<close>

lemma load_account_held:
  assumes "account_ok a" "account_form w a" "w_faults v = []" "w_files v = w_files w"
  shows "load_account M (held_row w a) as v = (Inr (as @ [a]), v)"
  unfolding held_row_def load_account_def
  by (simp add: account_row_same [OF assms(1,2)])
     (use assms(3,4) in \<open>auto simp: Account.defs auth_on_disk_def materializeAuth_def Let_def bindE_def tryE_def returnE_def
        split: option.splits content.splits\<close>)

lemma load_accounts_held:
  assumes "\<forall>a \<in> set xs. account_ok a" "list_all (account_form w) xs" "w_faults v = []" "w_files v = w_files w"
  shows "foldE (load_account M) (map (held_row w) xs) as v = (Inr (as @ xs), v)"
  using assms by (induction xs arbitrary: as) (simp_all add: load_account_held returnE_def bindE_def)

lemma sort_memberships:
  assumes "sort_key ms_WorkspaceID (sort_key ms_ClientID ms) = ms"
  shows "map snd (sort_key (fst \<circ> fst) (sort_key (snd \<circ> fst) (map (\<lambda>m. ((ms_WorkspaceID m, ms_ClientID m), m)) ms))) = ms"
proof -
  have "sort_key (fst \<circ> fst) (sort_key (snd \<circ> fst) (map (\<lambda>m. ((ms_WorkspaceID m, ms_ClientID m), m)) ms))
      = map (\<lambda>m. ((ms_WorkspaceID m, ms_ClientID m), m)) (sort_key ms_WorkspaceID (sort_key ms_ClientID ms))"
    by (simp add: sort_key_map comp_def)
  with assms show ?thesis by (simp add: comp_def)
qed

lemma filter_live_sessions: "list_all (session_form now) xs \<Longrightarrow> filter (\<lambda>s. now < ses_ExpiresAt s) xs = xs"
  by (induction xs) (simp_all add: session_form_def)

lemma scanned_memberships: "list_all membership_form xs \<Longrightarrow> map scan_membership xs = xs"
  by (induction xs) (simp_all add: membership_form_def scan_membership_def)

lemma scanned_usage: "list_all usage_form xs \<Longrightarrow> map (\<lambda>(_, u). (au_AccountID u, u)) xs = xs"
  by (induction xs) (auto simp: usage_form_def)

lemma scanned_quota: "list_all quota_form xs \<Longrightarrow> map (\<lambda>(_, c). (qc_AccountID c, scan_quota c)) xs = xs"
  by (induction xs) (auto simp: quota_form_def scan_quota_def)

lemmas ordered_rows = select_rows [where row = "\<lambda>x. x", simplified]

lemma loadPostgresState_saved:
  assumes form: "pg_form w st" and calm: "w_faults w = []" and other: "other_meta X"
  shows "loadPostgresState M (w\<lparr>w_db := saved_db w st D X\<rparr>) = (Inr (st\<lparr>st_Dispatches := []\<rparr>), w\<lparr>w_db := saved_db w st D X\<rparr>)"
proof -
  note f = pg_formD [OF form]
  let ?v = "w\<lparr>w_db := saved_db w st D X\<rparr>"
  have accounts: "foldE (load_account M) (map (held_row w) (st_Accounts st)) [] ?v = (Inr (st_Accounts st), ?v)"
    using load_accounts_held [OF f(2,4), of ?v M "[]"] calm by simp
  have scanned: "zero_State\<lparr>st_Version := 1, st_Accounts := st_Accounts st, st_Clients := st_Clients st,
      st_Users := st_Users st, st_Sessions := st_Sessions st, st_Workspaces := st_Workspaces st,
      st_Memberships := st_Memberships st, st_Usage := st_Usage st, st_QuotaCache := st_QuotaCache st,
      st_WorkspaceMigrated := st_WorkspaceMigrated st, st_UserDeviceMigrated := st_UserDeviceMigrated st\<rparr>
    = st\<lparr>st_Dispatches := []\<rparr>"
    using f(21) by (simp add: zero_State_def)
  have ok: "state_ok (st\<lparr>st_Dispatches := []\<rparr>)" using f(1) by (simp add: state_ok_def legacyFlatPool_def)
  have meta: "db_meta (saved_db w st D X) = saved_meta st @ X" by (simp add: saved_db_def)
  have tables: "select_ordered (db_accounts (saved_db w st D X)) = map (held_row w) (st_Accounts st)"
      "select_ordered (db_clients (saved_db w st D X)) = st_Clients st"
      "select_ordered (db_users (saved_db w st D X)) = st_Users st"
      "filter (\<lambda>s. w_now w < ses_ExpiresAt s) (select_ordered (db_sessions (saved_db w st D X))) = st_Sessions st"
      "select_ordered (db_workspaces (saved_db w st D X)) = st_Workspaces st"
    by (simp_all add: saved_db_def select_rows [OF in_orderD(2) [OF f(3)]] ordered_rows [OF in_orderD(2) [OF f(5)]]
        ordered_rows [OF in_orderD(2) [OF f(7)]] ordered_rows [OF in_orderD(2) [OF f(10)]]
        ordered_rows [OF in_orderD(2) [OF f(12)]] filter_live_sessions [OF f(11)])
  have rows: "map scan_membership (map snd (sort_key (fst \<circ> fst) (sort_key (snd \<circ> fst)
        (db_memberships (saved_db w st D X))))) = st_Memberships st"
      "map (\<lambda>(_, u). (au_AccountID u, u)) (db_usage (saved_db w st D X)) = st_Usage st"
      "map (\<lambda>(_, c). (qc_AccountID c, scan_quota c)) (db_quota_cache (saved_db w st D X)) = st_QuotaCache st"
    unfolding saved_db_def Db.simps sort_memberships [OF f(15)] scanned_memberships [OF f(16)]
      scanned_usage [OF f(18)] scanned_quota [OF f(20)] by (rule refl)+
  show ?thesis
    by (simp del: map_map add: loadPostgresState_def calm tables rows accounts meta_true_saved [OF meta other]
        normalizeState_id [OF ok] scanned)
qed

theorem saved_state_loads:
  assumes "pg_form w st" "w_faults w = []" "w_db w = empty_db"
  shows "\<exists>w'. savePostgresState M st w = (Inr (), w') \<and> w' = w\<lparr>w_db := w_db w'\<rparr>
     \<and> loadPostgresState M w' = (Inr (st\<lparr>st_Dispatches := []\<rparr>), w')"
proof -
  obtain D where "savePostgresState M st w = (Inr (), w\<lparr>w_db := saved_db w st D []\<rparr>)"
    using savePostgresState_eval [OF assms] by blast
  with loadPostgresState_saved [OF assms(1,2), of "[]" M D] show ?thesis by (intro exI conjI) (simp_all add: other_meta_def)
qed

section \<open>Such a state\<close>

definition round_state :: State where
  "round_state = zero_State\<lparr>st_Version := 1,
     st_Accounts := [(new_account ''a'' ''A'' ''/acc/a'' 5)\<lparr>acc_WorkspaceID := DefaultWorkspaceID\<rparr>,
       (new_account ''b'' ''B'' ''/acc/b'' 6)\<lparr>acc_WorkspaceID := ''team'', acc_LeaseID := ''l1''\<rparr>],
     st_Clients := [\<lparr>cli_ID = ''c1'', cli_UserID = ''u1'', cli_Label = ''laptop'', cli_TokenHash = ''h'',
       cli_CreatedAt = 7, cli_LastSeenAt = 0, cli_RevokedAt = None\<rparr>],
     st_Users := [\<lparr>usr_ID = ''u1'', usr_Username = ''ann'', usr_PasswordHash = ''p'', usr_CreatedAt = 7,
       usr_UpdatedAt = 8, usr_LastLoginAt = 0, usr_DisabledAt = None\<rparr>],
     st_Sessions := [\<lparr>ses_ID = ''s1'', ses_TokenHash = ''t'', ses_UserID = ''u1'', ses_CreatedAt = 9,
       ses_ExpiresAt = sample_now + 1, ses_LastSeenAt = 0\<rparr>],
     st_Workspaces := [default_workspace 5, (default_workspace 6)\<lparr>ws_ID := ''team''\<rparr>],
     st_Memberships := [\<lparr>ms_WorkspaceID = DefaultWorkspaceID, ms_UserID = ''u1'', ms_ClientID = ''c1'',
         ms_Role = RoleMember, ms_CreatedAt = 7\<rparr>,
       \<lparr>ms_WorkspaceID = ''team'', ms_UserID = ''u1'', ms_ClientID = ''c1'', ms_Role = RoleAdmin, ms_CreatedAt = 8\<rparr>],
     st_WorkspaceMigrated := True, st_UserDeviceMigrated := True,
     st_QuotaCache := [(''a'', (sample_quota ''a'')\<lparr>qc_UpdatedAt := 9, qc_Source := QuotaSourceClient\<rparr>)]\<rparr>"

lemma round_state_form: "pg_form sample_world round_state"
  by code_simp

end
