(* ===== verification/PgSample.thy ===== *)
theory PgSample
  imports PgLease PgRound UsageSample
begin

text \<open>
  A manager on Postgres with one account, and a claim of it, step by step: the claims on Postgres are
  applied to it.
\<close>

section \<open>A claim, step by step\<close>

lemma export_eval:
  assumes "Load M w = (Inr st, w)" "find (\<lambda>a. acc_ID a = k) (st_Accounts st) = Some b" "w_faults w = []"
    and "map_of (w_files w) (auth_path (acc_CodexHome b)) = Some (c, t)"
  shows "\<exists>s. ExportProfileSnapshot M k w = (Inr s, w)"
  using assms by (simp add: ExportProfileSnapshot_def GetAccount_def Let_def)

lemma finish_claim_steps:
  assumes "saveRoundRobinState M (acc_ID a) w = (Inr (), v)" "ExportProfileSnapshot M (acc_ID a) v = (Inr p, v)"
  shows "\<exists>s. finish_claim M lid a w = (Inr s, v) \<and> ls_Lease s = leaseFromAccount a"
  using assms by (simp add: finish_claim_def bindE_def ignoreE_def)

lemma claim_locked_steps:
  assumes "Load M w = (Inr st, w)" "sweep st (w_now w) = st"
    and "rank cand_score cand_key (claim_candidates (accountAuthPresent w) st (trim_space ws) (w_now w)) = cands"
    and "cands \<noteq> []" "loadRoundRobinState M w = (Inr lastID, w)"
    and "w_rand w = r # rs" "fst (rr_select cand_score cand_key lastID cands) = i"
    and "claim_state i (''lease_'' @ r) cid holder ttl (w_now w) st = (st', a)"
    and "Save M st' (w\<lparr>w_rand := rs\<rparr>) = (Inr (), v)"
  shows "claim_locked M cid holder ws ttl w = finish_claim M (''lease_'' @ r) a v"
proof -
  have "generateLeaseID w = (Inr (''lease_'' @ r), w\<lparr>w_rand := rs\<rparr>)"
    using assms(6) by (simp add: generateLeaseID_def randE_def)
  with assms show ?thesis by (simp add: claim_locked_def Let_def del: append_Cons)
qed

section \<open>The account and its claim\<close>

definition pg_account :: Account where
  "pg_account = (new_account ''a'' [] ''/a'' 5)\<lparr>acc_WorkspaceID := ''t''\<rparr>"

definition pg_state :: State where
  "pg_state = zero_State\<lparr>st_Version := 1, st_Accounts := [pg_account],
     st_UserDeviceMigrated := True, st_WorkspaceMigrated := True,
     st_QuotaCache := [(''a'', (sample_quota ''a'')\<lparr>qc_UpdatedAt := 9, qc_Source := QuotaSourceClient\<rparr>)]\<rparr>"

definition pg_files :: World where
  "pg_files = \<lparr>w_disk = None, w_rr = None, w_db = empty_db, w_files = [(auth_path ''/a'', (Doc (JObj []), 0))],
     w_dirs = [], w_now = sample_now, w_rand = [''r''], w_usage_answers = [], w_refresh_answers = [],
     w_faults = [], w_mu = False, w_flock = False\<rparr>"

definition pg_world :: World where
  "pg_world = pg_files\<lparr>w_db := saved_db pg_files pg_state [] []\<rparr>"

definition pg_locked :: World where
  "pg_locked = pg_world\<lparr>w_mu := True, w_flock := True\<rparr>"

definition pg_lease :: Account where
  "pg_lease = claim_account ''lease_r'' ''c'' ''h'' minute sample_now pg_account"

definition pg_claimed :: State where
  "pg_claimed = fst (claim_state 0 ''lease_r'' ''c'' ''h'' minute sample_now pg_state)"

definition pg_saved :: World where
  "pg_saved = pg_locked\<lparr>w_rand := [],
     w_db := saved_db pg_files pg_claimed (map (\<lambda>e. (de_ID e, e)) (st_Dispatches pg_claimed)) []\<rparr>"

definition pg_done :: World where
  "pg_done = pg_saved\<lparr>w_db :=
     saved_db pg_files pg_claimed (map (\<lambda>e. (de_ID e, e)) (st_Dispatches pg_claimed)) [(rr_key, ''a'')]\<rparr>"

lemma pg_forms: "pg_form pg_files pg_state" "pg_form pg_files pg_claimed"
  by code_simp+

lemma pg_save: "Save pg_manager pg_claimed (pg_locked\<lparr>w_rand := []\<rparr>) = (Inr (), pg_saved)"
  by code_simp

lemma pg_candidates:
  "rank cand_score cand_key (claim_candidates (\<lambda>_. True) pg_state [] sample_now)
     = claim_candidates (\<lambda>_. True) pg_state [] sample_now"
  "map fst (claim_candidates (\<lambda>_. True) pg_state [] sample_now) = [0]"
  by code_simp+

lemma pg_swept: "sweep pg_state sample_now = pg_state" "expireAccountLeases pg_state sample_now = (pg_state, [], False)"
  by code_simp+

text \<open>What is loaded from the rows of a save.\<close>

lemma load_saved:
  assumes "postgres_mode M" "pg_form w st" "other_meta X" "w_db v = saved_db w st D X"
    and v: "w_faults v = []" "w_files v = w_files w" "w_now v = w_now w"
  shows "Load M v = (Inr (st\<lparr>st_Dispatches := []\<rparr>), v)"
proof -
  have form: "pg_form v st"
    using assms(2) by (simp add: pg_form_def account_form_def [abs_def] v)
  have "w_db v = saved_db v st D X"
    using assms(4) by (simp add: saved_db_def held_row_def auth_on_disk_def v)
  then have "v\<lparr>w_db := saved_db v st D X\<rparr> = v" by simp
  with loadPostgresState_saved [OF form v(1) assms(3), of M D] have "loadPostgresState M v = (Inr (st\<lparr>st_Dispatches := []\<rparr>), v)"
    by simp
  moreover have "Ensure M v = (Inr (), v)"
    using assms(1) v(1) by (simp add: Ensure_def ensurePostgres_def pgTx_def)
  ultimately show ?thesis using assms(1) by (simp add: Load_def)
qed

lemma pg_worlds:
  "w_faults pg_files = []" "w_now pg_files = sample_now" "w_faults pg_world = []" "w_now pg_world = sample_now"
  "w_faults pg_locked = []" "w_now pg_locked = sample_now" "w_rand pg_locked = ''r'' # []"
  "w_files pg_locked = w_files pg_files" "w_files pg_done = w_files pg_files" "w_faults pg_saved = []"
  "w_faults pg_done = []" "w_now pg_done = sample_now" "w_files pg_saved = w_files pg_files" "w_now pg_saved = sample_now"
  by (simp_all add: pg_files_def pg_world_def pg_locked_def pg_saved_def pg_done_def)

lemma pg_calm: "calm pg_world"
  by (simp add: calm_def pg_world_def pg_files_def)

lemma pg_state_dispatches: "pg_state\<lparr>st_Dispatches := []\<rparr> = pg_state"
  by (simp add: pg_state_def zero_State_def)

lemma pg_load: "Load pg_manager pg_locked = (Inr pg_state, pg_locked)"
  using load_saved [OF pg_mode pg_forms(1), of "[]" pg_locked "[]"]
  by (simp add: pg_worlds pg_state_dispatches other_meta_def) (simp add: pg_locked_def pg_world_def)

lemma pg_rr:
  "loadRoundRobinState pg_manager pg_locked = (Inr [], pg_locked)"
  "saveRoundRobinState pg_manager ''a'' pg_saved = (Inr (), pg_done)"
proof -
  have ensure: "Ensure pg_manager v = (Inr (), v)" if "w_faults v = []" for v
    using that pg_mode by (simp add: Ensure_def ensurePostgres_def pgTx_def)
  have meta: "map_of (saved_meta pg_state) rr_key = None" "map_of (saved_meta pg_claimed) rr_key = None"
    by code_simp+
  show "loadRoundRobinState pg_manager pg_locked = (Inr [], pg_locked)"
    using pg_mode meta(1) by (simp add: loadRoundRobinState_def ensure pg_worlds)
      (simp add: pg_locked_def pg_world_def saved_db_def)
  show "saveRoundRobinState pg_manager ''a'' pg_saved = (Inr (), pg_done)"
    using pg_mode meta(2) by (simp add: saveRoundRobinState_def ensure pg_worlds)
      (simp add: pg_done_def pg_saved_def saved_db_def upsert_def)
qed

lemma pg_export: "\<exists>s. ExportProfileSnapshot pg_manager ''a'' pg_done = (Inr s, pg_done)"
proof (rule export_eval)
  show "Load pg_manager pg_done = (Inr (pg_claimed\<lparr>st_Dispatches := []\<rparr>), pg_done)"
    by (rule load_saved [OF pg_mode pg_forms(2)]) (simp_all add: pg_worlds, simp_all add: pg_done_def other_meta_def rr_key_def)
  show "find (\<lambda>a. acc_ID a = ''a'') (st_Accounts (pg_claimed\<lparr>st_Dispatches := []\<rparr>)) = Some pg_lease"
    by code_simp
  show "map_of (w_files pg_done) (auth_path (acc_CodexHome pg_lease)) = Some (Doc (JObj []), 0)"
    by code_simp
qed (simp add: pg_worlds)

lemma pg_claim_locked:
  "\<exists>s. claim_locked pg_manager ''c'' ''h'' [] minute pg_locked = (Inr s, pg_done) \<and> ls_Lease s = leaseFromAccount pg_lease"
proof -
  obtain p where p: "ExportProfileSnapshot pg_manager ''a'' pg_done = (Inr p, pg_done)" using pg_export by blast
  have id: "acc_ID pg_lease = ''a''" by code_simp
  have auth: "claim_candidates (accountAuthPresent pg_locked) pg_state [] sample_now
      = claim_candidates (\<lambda>_. True) pg_state [] sample_now"
    by (simp add: claim_candidates_def pg_state_def accountAuthPresent_def stat_file_def pg_worlds)
      (simp add: pg_files_def pg_account_def new_account_def)
  let ?cs = "claim_candidates (\<lambda>_. True) pg_state [] sample_now"
  have one: "\<exists>a sc. ?cs = [(0, a, sc)]" using pg_candidates(2) by (auto simp: map_eq_Cons_conv)
  have "claim_locked pg_manager ''c'' ''h'' [] minute pg_locked = finish_claim pg_manager (''lease_'' @ ''r'') pg_lease pg_saved"
  proof (rule claim_locked_steps [OF pg_load _ _ _ pg_rr(1)])
    show "rank cand_score cand_key (claim_candidates (accountAuthPresent pg_locked) pg_state (trim_space []) (w_now pg_locked)) = ?cs"
      using auth pg_candidates(1) by (simp add: pg_worlds)
    show "claim_state 0 (''lease_'' @ ''r'') ''c'' ''h'' minute (w_now pg_locked) pg_state = (pg_claimed, pg_lease)"
      by (simp add: pg_worlds pg_claimed_def pg_lease_def claim_state_def Let_def pg_state_def)
    show "fst (rr_select cand_score cand_key [] ?cs) = 0"
      using one rr_select_mem [of ?cs cand_score cand_key "[]"] by auto
    show "Save pg_manager pg_claimed (pg_locked\<lparr>w_rand := []\<rparr>) = (Inr (), pg_saved)" by (rule pg_save)
  qed (use one in \<open>auto simp: pg_worlds pg_swept\<close>)
  with finish_claim_steps [of pg_manager pg_lease pg_saved pg_done p] pg_rr(2) p show ?thesis by (simp add: id)
qed

text \<open>The claim, and the world after it.\<close>

definition pg_after :: World where
  "pg_after = pg_done\<lparr>w_mu := False, w_flock := False\<rparr>"

lemma pg_claim:
  "\<exists>s. ClaimLease pg_manager ''c'' ''h'' [] minute pg_world = (Inr s, pg_after) \<and> ls_Lease s = leaseFromAccount pg_lease"
proof -
  define body where "body = bindE (Load pg_manager) (\<lambda>st. bindE nowE (\<lambda>now.
       case expireAccountLeases st now of (st, expired, changed) \<Rightarrow>
         bindE (whenE changed (Save pg_manager st)) (\<lambda>_. returnE expired)))"
  have "body pg_locked = (Inr [], pg_locked)" by (simp add: body_def pg_load pg_worlds pg_swept whenE_def)
  from locked_eval [where m = body and M = pg_manager, OF pg_calm pg_locked_def this]
  have recover: "RecoverExpiredLeases pg_manager pg_world = (Inr (), pg_world)"
    by (simp add: RecoverExpiredLeases_def body_def [symmetric]) (simp add: pg_locked_def pg_world_def pg_files_def)
  obtain s where s: "claim_locked pg_manager ''c'' ''h'' [] minute pg_locked = (Inr s, pg_done)"
      "ls_Lease s = leaseFromAccount pg_lease"
    using pg_claim_locked by blast
  from locked_eval [where m = "claim_locked pg_manager ''c'' ''h'' [] minute" and M = pg_manager, OF pg_calm pg_locked_def s(1)] recover s(2) show ?thesis
    by (simp add: ClaimLease_def pg_after_def)
qed

lemma pg_rows:
  "keyed_rows (account_rows pg_world)" "list_all (\<lambda>(k, r). acc_UpdatedAt r \<le> sample_now) (account_rows pg_after)"
  by code_simp+

lemma pg_expires: "lse_ExpiresAt (leaseFromAccount pg_lease) = sample_now + minute"
  by (simp add: pg_lease_def leaseFromAccount_def claim_account_def normalizeLeaseTTL_def duration_defs)

lemma pg_clock: "w_now pg_world = sample_now" "w_now pg_after = sample_now"
  by (simp_all add: pg_after_def pg_worlds)

end
