(* ===== verification/Schema.thy ===== *)
theory Schema
  imports Io "HOL-Library.AList"
begin

text \<open>
  The schema of the Postgres database: the statements of \<open>ensurePostgres\<close>
  (\<open>store_postgres.go\<close>) and what they do to the catalog of a database that an older version
  of the program may have left, and the tables and columns the queries of \<open>store_postgres.go\<close> and
  \<open>roundrobin.go\<close> name. A static check follows what is known of each table from statement to
  statement; it is sound, so a database of any older version is upgraded to one on which every query of
  the program is well formed. The rows of the tables are in Tables and PgStore.
\<close>

section \<open>The catalog\<close>

datatype coltype = Text | Bigint | Integer | Jsonb | Timestamptz

datatype col_default = Now | Const string

record Column =
  col_name :: string
  col_type :: coltype
  col_not_null :: bool
  col_default :: "col_default option"

definition column :: "string \<Rightarrow> coltype \<Rightarrow> bool \<Rightarrow> col_default option \<Rightarrow> Column" where
  "column n t b d = \<lparr>col_name = n, col_type = t, col_not_null = b, col_default = d\<rparr>"

record Table =
  tb_columns :: "Column list"
  tb_key :: "string list"
  tb_has_rows :: bool

text \<open>\<open>ct_clashes\<close> names the unique indexes that the rows of the database would violate.\<close>

record Catalog =
  ct_tables :: "(string \<times> Table) list"
  ct_indexes :: "string list"
  ct_clashes :: "string list"

datatype statement =
    CreateTable string "Column list" "string list"
  | AddColumn string Column
  | CreateIndex bool string string "string list"

definition columns_of :: "Table \<Rightarrow> string list" where
  "columns_of T = map col_name (tb_columns T)"

text \<open>A column an insert must give a value; the columns of a primary key are not null.\<close>

definition required :: "string list \<Rightarrow> Column \<Rightarrow> bool" where
  "required key c \<longleftrightarrow> (col_not_null c \<or> col_name c \<in> set key) \<and> col_default c = None"

definition required_of :: "Table \<Rightarrow> string list" where
  "required_of T = map col_name (filter (required (tb_key T)) (tb_columns T))"

definition relation :: "string \<Rightarrow> Catalog \<Rightarrow> bool" where
  "relation n c \<longleftrightarrow> map_of (ct_tables c) n \<noteq> None \<or> n \<in> set (ct_indexes c)"

text \<open>
  Tables and indexes share their names. \<open>IF NOT EXISTS\<close> leaves a relation of that name alone, but an index
  names columns of its table also when it is there. A column that may not be null and has no default cannot
  be added to a table with rows.
\<close>

fun exec :: "statement \<Rightarrow> Catalog \<Rightarrow> error + Catalog" where
  "exec (CreateTable t cs key) c =
     (if relation t c then Inr c
      else Inr (c\<lparr>ct_tables := AList.update t \<lparr>tb_columns = cs, tb_key = key, tb_has_rows = False\<rparr> (ct_tables c)\<rparr>))"
| "exec (AddColumn t x) c =
     (case map_of (ct_tables c) t of
        None \<Rightarrow> Inl (ErrText (''relation does not exist: '' @ t))
      | Some T \<Rightarrow>
          if col_name x \<in> set (columns_of T) then Inr c
          else if required (tb_key T) x \<and> tb_has_rows T
          then Inl (ErrText (''column contains null values: '' @ col_name x))
          else Inr (c\<lparr>ct_tables := AList.update t (T\<lparr>tb_columns := tb_columns T @ [x]\<rparr>) (ct_tables c)\<rparr>))"
| "exec (CreateIndex uniq n t xs) c =
     (case map_of (ct_tables c) t of
        None \<Rightarrow> Inl (ErrText (''relation does not exist: '' @ t))
      | Some T \<Rightarrow>
          if \<not> set xs \<subseteq> set (columns_of T) then Inl (ErrText (''column does not exist: '' @ n))
          else if relation n c then Inr c
          else if uniq \<and> n \<in> set (ct_clashes c) then Inl (ErrText (''could not create unique index '' @ n))
          else Inr (c\<lparr>ct_indexes := n # ct_indexes c\<rparr>))"

fun exec_all :: "string option list \<Rightarrow> statement list \<Rightarrow> Catalog \<Rightarrow> error + Catalog" where
  "exec_all fs [] c = Inr c"
| "exec_all fs (s # ss) c =
     (case fs of
        Some e # _ \<Rightarrow> Inl (ErrText e)
      | _ \<Rightarrow> (case exec s c of Inl e \<Rightarrow> Inl e | Inr c' \<Rightarrow> exec_all (drop 1 fs) ss c'))"

section \<open>The statements of the program\<close>

definition schema_statements :: "statement list" where
  "schema_statements =
    [CreateTable ''cube_accounts''
       [column ''id'' Text False None,
        column ''label'' Text True (Some (Const [])),
        column ''plan'' Text True (Some (Const [])),
        column ''status'' Text True (Some (Const ''ready'')),
        column ''codex_home'' Text True (Some (Const [])),
        column ''owner_mode'' Text True (Some (Const ''cloud'')),
        column ''owner_client_id'' Text True (Some (Const [])),
        column ''generation'' Bigint True (Some (Const ''0'')),
        column ''lease_id'' Text True (Some (Const [])),
        column ''lease_client_id'' Text True (Some (Const [])),
        column ''lease_holder'' Text True (Some (Const [])),
        column ''lease_started_at'' Timestamptz False None,
        column ''lease_heartbeat_at'' Timestamptz False None,
        column ''lease_expires_at'' Timestamptz False None,
        column ''auth_json'' Jsonb False None,
        column ''created_at'' Timestamptz True (Some Now),
        column ''updated_at'' Timestamptz True (Some Now),
        column ''last_error'' Text True (Some (Const []))]
       [''id''],
     AddColumn ''cube_accounts'' (column ''owner_mode'' Text True (Some (Const ''cloud''))),
     AddColumn ''cube_accounts'' (column ''owner_client_id'' Text True (Some (Const []))),
     AddColumn ''cube_accounts'' (column ''generation'' Bigint True (Some (Const ''0''))),
     AddColumn ''cube_accounts'' (column ''lease_id'' Text True (Some (Const []))),
     AddColumn ''cube_accounts'' (column ''lease_client_id'' Text True (Some (Const []))),
     AddColumn ''cube_accounts'' (column ''lease_holder'' Text True (Some (Const []))),
     AddColumn ''cube_accounts'' (column ''lease_started_at'' Timestamptz False None),
     AddColumn ''cube_accounts'' (column ''lease_heartbeat_at'' Timestamptz False None),
     AddColumn ''cube_accounts'' (column ''lease_expires_at'' Timestamptz False None),
     CreateTable ''cube_clients''
       [column ''id'' Text False None,
        column ''label'' Text True (Some (Const [])),
        column ''token_hash'' Text True None,
        column ''created_at'' Timestamptz True (Some Now),
        column ''last_seen_at'' Timestamptz False None,
        column ''revoked_at'' Timestamptz False None]
       [''id''],
     CreateTable ''cube_usage''
       [column ''account_id'' Text False None,
        column ''client_id'' Text True (Some (Const [])),
        column ''updated_at'' Timestamptz True (Some Now),
        column ''latest_at'' Text True (Some (Const [])),
        column ''latest_model'' Text True (Some (Const [])),
        column ''today'' Jsonb True (Some (Const ''{}'')),
        column ''seven_days'' Jsonb True (Some (Const ''{}'')),
        column ''all_time'' Jsonb True (Some (Const ''{}'')),
        column ''models'' Jsonb True (Some (Const ''[]''))]
       [''account_id''],
     CreateTable ''cube_usage_events''
       [column ''account_id'' Text True (Some (Const [])),
        column ''client_id'' Text True (Some (Const [])),
        column ''lease_id'' Text True (Some (Const [])),
        column ''run_id'' Text True (Some (Const [])),
        column ''model'' Text True (Some (Const [])),
        column ''reported_at'' Timestamptz True (Some Now),
        column ''latest_at'' Text True (Some (Const [])),
        column ''today'' Jsonb True (Some (Const ''{}'')),
        column ''seven_days'' Jsonb True (Some (Const ''{}'')),
        column ''all_time'' Jsonb True (Some (Const ''{}'')),
        column ''summary_status'' Text True (Some (Const [])),
        column ''summary_detail'' Text True (Some (Const [])),
        column ''summary_files_scanned'' Integer True (Some (Const ''0'')),
        column ''summary_events'' Integer True (Some (Const ''0'')),
        column ''summary_latest_at'' Text True (Some (Const [])),
        column ''summary_latest_model'' Text True (Some (Const [])),
        column ''schema_version'' Integer True (Some (Const ''1''))]
       [''account_id'', ''client_id'', ''lease_id'', ''run_id'', ''model''],
     CreateTable ''cube_dispatch_events''
       [column ''id'' Text False None,
        column ''lease_id'' Text True (Some (Const [])),
        column ''account_id'' Text True (Some (Const [])),
        column ''account_label'' Text True (Some (Const [])),
        column ''client_id'' Text True (Some (Const [])),
        column ''client_label'' Text True (Some (Const [])),
        column ''holder'' Text True (Some (Const [])),
        column ''event'' Text True (Some (Const [])),
        column ''generation'' Bigint True (Some (Const ''0'')),
        column ''created_at'' Timestamptz True (Some Now),
        column ''started_at'' Timestamptz False None,
        column ''expires_at'' Timestamptz False None]
       [''id''],
     CreateIndex False ''cube_dispatch_events_created_idx'' ''cube_dispatch_events'' [''created_at''],
     CreateIndex False ''cube_dispatch_events_client_idx'' ''cube_dispatch_events'' [''client_id'', ''created_at''],
     CreateIndex False ''cube_dispatch_events_account_idx'' ''cube_dispatch_events'' [''account_id'', ''created_at''],
     CreateTable ''cube_quota_cache''
       [column ''account_id'' Text False None,
        column ''updated_at'' Timestamptz True (Some Now),
        column ''result'' Jsonb True (Some (Const ''{}'')),
        column ''five_hour'' Jsonb False None,
        column ''quota_source'' Text True (Some (Const ''cloud'')),
        column ''reporter_client_id'' Text True (Some (Const []))]
       [''account_id''],
     AddColumn ''cube_quota_cache'' (column ''quota_source'' Text True (Some (Const ''cloud''))),
     AddColumn ''cube_quota_cache'' (column ''reporter_client_id'' Text True (Some (Const []))),
     CreateTable ''cube_meta''
       [column ''key'' Text False None,
        column ''value'' Text True (Some (Const [])),
        column ''updated_at'' Timestamptz True (Some Now)]
       [''key''],
     CreateTable ''cube_workspaces''
       [column ''id'' Text False None,
        column ''name'' Text True (Some (Const [])),
        column ''created_by'' Text True (Some (Const [])),
        column ''created_at'' Timestamptz True (Some Now),
        column ''updated_at'' Timestamptz True (Some Now)]
       [''id''],
     CreateTable ''cube_memberships''
       [column ''workspace_id'' Text True None,
        column ''client_id'' Text True None,
        column ''role'' Text True (Some (Const ''member'')),
        column ''created_at'' Timestamptz True (Some Now)]
       [''workspace_id'', ''client_id''],
     CreateIndex False ''cube_memberships_client_idx'' ''cube_memberships'' [''client_id''],
     AddColumn ''cube_accounts'' (column ''workspace_id'' Text True (Some (Const ''default''))),
     CreateIndex False ''cube_accounts_workspace_idx'' ''cube_accounts'' [''workspace_id''],
     CreateTable ''cube_users''
       [column ''id'' Text False None,
        column ''username'' Text True (Some (Const [])),
        column ''password_hash'' Text True (Some (Const [])),
        column ''created_at'' Timestamptz True (Some Now),
        column ''updated_at'' Timestamptz True (Some Now),
        column ''last_login_at'' Timestamptz False None,
        column ''disabled_at'' Timestamptz False None]
       [''id''],
     CreateIndex True ''cube_users_username_idx'' ''cube_users'' [''username''],
     CreateTable ''cube_sessions''
       [column ''id'' Text False None,
        column ''token_hash'' Text True None,
        column ''user_id'' Text True None,
        column ''created_at'' Timestamptz True (Some Now),
        column ''expires_at'' Timestamptz True None,
        column ''last_seen_at'' Timestamptz False None]
       [''id''],
     CreateIndex False ''cube_sessions_token_idx'' ''cube_sessions'' [''token_hash''],
     CreateIndex False ''cube_sessions_user_idx'' ''cube_sessions'' [''user_id''],
     CreateIndex False ''cube_sessions_exp_idx'' ''cube_sessions'' [''expires_at''],
     AddColumn ''cube_clients'' (column ''user_id'' Text True (Some (Const []))),
     CreateIndex False ''cube_clients_user_idx'' ''cube_clients'' [''user_id''],
     AddColumn ''cube_memberships'' (column ''user_id'' Text True (Some (Const []))),
     CreateIndex False ''cube_memberships_user_idx'' ''cube_memberships'' [''user_id''],
     AddColumn ''cube_dispatch_events'' (column ''user_id'' Text True (Some (Const []))),
     AddColumn ''cube_dispatch_events'' (column ''username'' Text True (Some (Const []))),
     AddColumn ''cube_dispatch_events'' (column ''device_id'' Text True (Some (Const []))),
     AddColumn ''cube_dispatch_events'' (column ''device_label'' Text True (Some (Const []))),
     CreateIndex False ''cube_dispatch_events_user_idx'' ''cube_dispatch_events'' [''user_id'', ''created_at''],
     CreateIndex False ''cube_dispatch_events_device_idx'' ''cube_dispatch_events'' [''device_id'', ''created_at'']]"

text \<open>All of them run in one transaction, under the advisory lock of the schema; a step that fails rolls
  back the catalog.\<close>

definition ensure_schema :: "string option list \<Rightarrow> Catalog \<Rightarrow> (error + unit) \<times> Catalog" where
  "ensure_schema fs c =
     (case exec_all fs schema_statements c of Inl e \<Rightarrow> (Inl e, c) | Inr c' \<Rightarrow> (Inr (), c'))"

section \<open>The queries of the program\<close>

text \<open>A query reads columns of a table, or inserts a row with values for some columns and names the
  columns of the key in \<open>ON CONFLICT\<close>.\<close>

datatype sql_query = Reads string "string list" | Inserts string "string list" "string list"

fun query_ok :: "Catalog \<Rightarrow> sql_query \<Rightarrow> bool" where
  "query_ok c (Reads t xs) \<longleftrightarrow>
     (case map_of (ct_tables c) t of None \<Rightarrow> False | Some T \<Rightarrow> set xs \<subseteq> set (columns_of T))"
| "query_ok c (Inserts t xs target) \<longleftrightarrow>
     (case map_of (ct_tables c) t of None \<Rightarrow> False
      | Some T \<Rightarrow> set xs \<subseteq> set (columns_of T) \<and> tb_key T = target \<and> set (required_of T) \<subseteq> set xs)"

definition accounts_read :: "sql_query list" where
  "accounts_read =
    [Reads ''cube_accounts''
      [''id'', ''label'', ''plan'', ''status'', ''codex_home'', ''workspace_id'',
       ''owner_mode'', ''owner_client_id'', ''generation'', ''lease_id'', ''lease_client_id'',
       ''lease_holder'', ''lease_started_at'', ''lease_heartbeat_at'', ''lease_expires_at'',
       ''created_at'', ''updated_at'', ''last_error'', ''auth_json'']]"

definition clients_read :: "sql_query list" where
  "clients_read =
    [Reads ''cube_clients''
      [''id'', ''user_id'', ''label'', ''token_hash'', ''created_at'', ''last_seen_at'',
       ''revoked_at'']]"

definition users_read :: "sql_query list" where
  "users_read =
    [Reads ''cube_users''
      [''id'', ''username'', ''password_hash'', ''created_at'', ''updated_at'',
       ''last_login_at'', ''disabled_at'']]"

definition sessions_read :: "sql_query list" where
  "sessions_read =
    [Reads ''cube_sessions''
      [''id'', ''token_hash'', ''user_id'', ''created_at'', ''expires_at'', ''last_seen_at'']]"

definition workspaces_read :: "sql_query list" where
  "workspaces_read =
    [Reads ''cube_workspaces''
      [''id'', ''name'', ''created_by'', ''created_at'', ''updated_at'']]"

definition memberships_read :: "sql_query list" where
  "memberships_read =
    [Reads ''cube_memberships''
      [''workspace_id'', ''client_id'', ''user_id'', ''role'', ''created_at'']]"

definition usage_read :: "sql_query list" where
  "usage_read =
    [Reads ''cube_usage''
      [''account_id'', ''client_id'', ''updated_at'', ''latest_at'', ''latest_model'',
       ''today'', ''seven_days'', ''all_time'', ''models'']]"

definition quota_read :: "sql_query list" where
  "quota_read =
    [Reads ''cube_quota_cache''
      [''account_id'', ''updated_at'', ''result'', ''five_hour'', ''quota_source'',
       ''reporter_client_id'']]"

definition workspace_mark_read :: "sql_query list" where
  "workspace_mark_read =
    [Reads ''cube_meta''
      [''value'', ''key'']]"

definition user_mark_read :: "sql_query list" where
  "user_mark_read =
    [Reads ''cube_meta''
      [''value'', ''key'']]"

definition accounts_insert :: "sql_query list" where
  "accounts_insert =
    [Inserts ''cube_accounts''
      [''id'', ''label'', ''plan'', ''status'', ''codex_home'', ''workspace_id'',
       ''owner_mode'', ''owner_client_id'', ''generation'', ''lease_id'', ''lease_client_id'',
       ''lease_holder'', ''lease_started_at'', ''lease_heartbeat_at'', ''lease_expires_at'',
       ''auth_json'', ''created_at'', ''updated_at'', ''last_error''] [''id'']]"

definition clients_insert :: "sql_query list" where
  "clients_insert =
    [Inserts ''cube_clients''
      [''id'', ''user_id'', ''label'', ''token_hash'', ''created_at'', ''last_seen_at'',
       ''revoked_at''] [''id'']]"

definition users_insert :: "sql_query list" where
  "users_insert =
    [Inserts ''cube_users''
      [''id'', ''username'', ''password_hash'', ''created_at'', ''updated_at'',
       ''last_login_at'', ''disabled_at''] [''id'']]"

definition sessions_insert :: "sql_query list" where
  "sessions_insert =
    [Inserts ''cube_sessions''
      [''id'', ''token_hash'', ''user_id'', ''created_at'', ''expires_at'', ''last_seen_at''] [''id'']]"

definition workspaces_insert :: "sql_query list" where
  "workspaces_insert =
    [Inserts ''cube_workspaces''
      [''id'', ''name'', ''created_by'', ''created_at'', ''updated_at''] [''id'']]"

definition memberships_insert :: "sql_query list" where
  "memberships_insert =
    [Inserts ''cube_memberships''
      [''workspace_id'', ''client_id'', ''user_id'', ''role'', ''created_at''] [''workspace_id'', ''client_id'']]"

definition dispatch_insert :: "sql_query list" where
  "dispatch_insert =
    [Inserts ''cube_dispatch_events''
      [''id'', ''lease_id'', ''account_id'', ''account_label'', ''client_id'',
       ''client_label'', ''user_id'', ''username'', ''device_id'', ''device_label'',
       ''holder'', ''event'', ''generation'', ''created_at'', ''started_at'', ''expires_at''] [''id'']]"

definition usage_insert :: "sql_query list" where
  "usage_insert =
    [Inserts ''cube_usage''
      [''account_id'', ''client_id'', ''updated_at'', ''latest_at'', ''latest_model'',
       ''today'', ''seven_days'', ''all_time'', ''models''] [''account_id'']]"

definition quota_insert :: "sql_query list" where
  "quota_insert =
    [Inserts ''cube_quota_cache''
      [''account_id'', ''updated_at'', ''result'', ''five_hour'', ''quota_source'',
       ''reporter_client_id''] [''account_id'']]"

definition workspace_mark_insert :: "sql_query list" where
  "workspace_mark_insert =
    [Inserts ''cube_meta''
      [''key'', ''value'', ''updated_at''] [''key'']]"

definition user_mark_insert :: "sql_query list" where
  "user_mark_insert =
    [Inserts ''cube_meta''
      [''key'', ''value'', ''updated_at''] [''key'']]"

definition usage_report_insert :: "sql_query list" where
  "usage_report_insert =
    [Inserts ''cube_usage''
      [''account_id'', ''client_id'', ''updated_at'', ''latest_at'', ''latest_model'',
       ''today'', ''seven_days'', ''all_time'', ''models''] [''account_id'']]"

definition usage_events_insert :: "sql_query list" where
  "usage_events_insert =
    [Inserts ''cube_usage_events''
      [''account_id'', ''client_id'', ''lease_id'', ''run_id'', ''model'', ''reported_at'',
       ''latest_at'', ''today'', ''seven_days'', ''all_time'', ''summary_status'',
       ''summary_detail'', ''summary_files_scanned'', ''summary_events'',
       ''summary_latest_at'', ''summary_latest_model'', ''schema_version''] [''account_id'', ''client_id'', ''lease_id'', ''run_id'', ''model'']]"

definition quota_report_insert :: "sql_query list" where
  "quota_report_insert =
    [Inserts ''cube_quota_cache''
      [''account_id'', ''updated_at'', ''result'', ''five_hour'', ''quota_source'',
       ''reporter_client_id''] [''account_id'']]"

definition dispatch_read :: "sql_query list" where
  "dispatch_read =
    [Reads ''cube_dispatch_events''
      [''id'', ''lease_id'', ''account_id'', ''account_label'', ''client_id'',
       ''client_label'', ''user_id'', ''username'', ''device_id'', ''device_label'',
       ''holder'', ''event'', ''generation'', ''created_at'', ''started_at'', ''expires_at''],
     Reads ''cube_accounts''
      [''id'', ''label''],
     Reads ''cube_clients''
      [''id'', ''label''],
     Reads ''cube_users''
      [''id'', ''username'']]"

definition account_deletes :: "sql_query list" where
  "account_deletes =
    [Reads ''cube_usage_events''
      [''account_id''],
     Reads ''cube_usage''
      [''account_id''],
     Reads ''cube_quota_cache''
      [''account_id''],
     Reads ''cube_accounts''
      [''id'']]"

definition membership_delete :: "sql_query list" where
  "membership_delete =
    [Reads ''cube_memberships''
      [''workspace_id'', ''client_id'']]"

definition session_delete :: "sql_query list" where
  "session_delete =
    [Reads ''cube_sessions''
      [''id'']]"

definition user_sessions_delete :: "sql_query list" where
  "user_sessions_delete =
    [Reads ''cube_sessions''
      [''user_id'']]"

definition client_revoke :: "sql_query list" where
  "client_revoke =
    [Reads ''cube_clients''
      [''revoked_at'', ''id'']]"

definition quota_updates :: "sql_query list" where
  "quota_updates =
    [Reads ''cube_accounts''
      [''owner_mode'', ''owner_client_id'', ''status'', ''last_error'', ''plan'',
       ''generation'', ''updated_at'', ''id'']]"

definition round_robin_delete :: "sql_query list" where
  "round_robin_delete =
    [Reads ''cube_meta''
      [''key'']]"

definition round_robin_read :: "sql_query list" where
  "round_robin_read =
    [Reads ''cube_meta''
      [''value'', ''key'']]"

definition round_robin_insert :: "sql_query list" where
  "round_robin_insert =
    [Inserts ''cube_meta''
      [''key'', ''value'', ''updated_at''] [''key'']]"

definition postgres_queries :: "sql_query list" where
  "postgres_queries = accounts_read @ clients_read @ users_read @ sessions_read @
     workspaces_read @ memberships_read @ usage_read @ quota_read @ workspace_mark_read @
     user_mark_read @ accounts_insert @ clients_insert @ users_insert @ sessions_insert @
     workspaces_insert @ memberships_insert @ dispatch_insert @ usage_insert @ quota_insert @
     workspace_mark_insert @ user_mark_insert @ usage_report_insert @ usage_events_insert @
     quota_report_insert @ dispatch_read @ account_deletes @ membership_delete @ session_delete @
     user_sessions_delete @ client_revoke @ quota_updates @ round_robin_delete @ round_robin_read
     @ round_robin_insert"

lemmas query_defs = accounts_read_def clients_read_def users_read_def sessions_read_def workspaces_read_def
  memberships_read_def usage_read_def quota_read_def workspace_mark_read_def user_mark_read_def
  accounts_insert_def clients_insert_def users_insert_def sessions_insert_def
  workspaces_insert_def memberships_insert_def dispatch_insert_def usage_insert_def
  quota_insert_def workspace_mark_insert_def user_mark_insert_def usage_report_insert_def
  usage_events_insert_def quota_report_insert_def dispatch_read_def account_deletes_def
  membership_delete_def session_delete_def user_sessions_delete_def client_revoke_def
  quota_updates_def round_robin_delete_def round_robin_read_def round_robin_insert_def

section \<open>A schema only grows\<close>

definition grown :: "Table \<Rightarrow> Table \<Rightarrow> bool" where
  "grown T T' \<longleftrightarrow> (\<exists>xs. T' = T\<lparr>tb_columns := tb_columns T @ xs\<rparr>)"

definition extends :: "Catalog \<Rightarrow> Catalog \<Rightarrow> bool" where
  "extends c c' \<longleftrightarrow> set (ct_indexes c) \<subseteq> set (ct_indexes c') \<and> ct_clashes c' = ct_clashes c \<and>
     (\<forall>t T. map_of (ct_tables c) t = Some T \<longrightarrow> (\<exists>T'. map_of (ct_tables c') t = Some T' \<and> grown T T'))"

lemma grown_refl [simp]: "grown T T"
  by (simp add: grown_def exI [of _ "[]"])

lemma grown_columns: "grown T T' \<Longrightarrow> set (columns_of T) \<subseteq> set (columns_of T')"
  by (auto simp: grown_def columns_of_def)

lemma grown_trans: "grown S T \<Longrightarrow> grown T U \<Longrightarrow> grown S U"
  by (auto simp: grown_def)

lemma extends_refl [simp]: "extends c c"
  by (simp add: extends_def)

lemma extends_trans: "extends a b \<Longrightarrow> extends b c \<Longrightarrow> extends a c"
  unfolding extends_def by (metis grown_trans subset_trans)

lemma extendsD:
  assumes "extends c c'" "map_of (ct_tables c) t = Some T"
  obtains T' where "map_of (ct_tables c') t = Some T'" "set (columns_of T) \<subseteq> set (columns_of T')"
  using assms grown_columns unfolding extends_def by blast

lemma relation_extends: "extends c c' \<Longrightarrow> relation n c \<Longrightarrow> relation n c'"
  by (fastforce simp: relation_def extends_def)

lemma exec_extends: "exec s c = Inr c' \<Longrightarrow> extends c c'"
proof (induction s c rule: exec.induct)
  case (1 t cs key c)
  then show ?case by (auto simp: extends_def relation_def update_conv' split: if_splits)
next
  case (2 t x c)
  moreover have "grown T (T\<lparr>tb_columns := tb_columns T @ [x]\<rparr>)" for T by (auto simp: grown_def)
  ultimately show ?case
    by (auto simp: update_conv' split: option.splits if_splits) (auto simp: extends_def update_conv')
next
  case (3 uniq n t xs c)
  then show ?case by (auto split: option.splits if_splits) (auto simp: extends_def)
qed

lemma exec_all_extends: "exec_all fs ss c = Inr c' \<Longrightarrow> extends c c'"
  by (induction fs ss c rule: exec_all.induct)
    (auto split: list.splits option.splits sum.splits intro: extends_trans [OF exec_extends])

text \<open>What a statement has done stays done, and a statement that is done does nothing.\<close>

fun settled :: "statement \<Rightarrow> Catalog \<Rightarrow> bool" where
  "settled (CreateTable t cs key) c \<longleftrightarrow> relation t c"
| "settled (AddColumn t x) c \<longleftrightarrow> (\<exists>T. map_of (ct_tables c) t = Some T \<and> col_name x \<in> set (columns_of T))"
| "settled (CreateIndex uniq n t xs) c \<longleftrightarrow>
     relation n c \<and> (\<exists>T. map_of (ct_tables c) t = Some T \<and> set xs \<subseteq> set (columns_of T))"

lemma extends_subset:
  "extends c c' \<Longrightarrow> map_of (ct_tables c) t = Some T \<Longrightarrow> xs \<subseteq> set (columns_of T) \<Longrightarrow>
    \<exists>T'. map_of (ct_tables c') t = Some T' \<and> xs \<subseteq> set (columns_of T')"
  by (meson extendsD order_trans)

lemma settled_extends: "settled s c \<Longrightarrow> extends c c' \<Longrightarrow> settled s c'"
proof (induction s c rule: settled.induct)
  case (2 t x c)
  then obtain T where "map_of (ct_tables c) t = Some T" "{col_name x} \<subseteq> set (columns_of T)" by auto
  from extends_subset [OF 2(2) this] show ?case by simp
next
  case (3 uniq n t xs c)
  then show ?case using extends_subset [OF 3(2)] relation_extends [OF 3(2)] by simp blast
qed (simp add: relation_extends)

lemma exec_settles: "exec s c = Inr c' \<Longrightarrow> settled s c'"
  by (cases s) (auto simp: relation_def update_conv' columns_of_def split: if_splits option.splits)

lemma exec_settled: "settled s c \<Longrightarrow> exec s c = Inr c"
  by (cases s) auto

lemma exec_all_settled: "\<forall>s \<in> set ss. settled s c \<Longrightarrow> exec_all [] ss c = Inr c"
  by (induction ss) (simp_all add: exec_settled)

lemma exec_all_settles: "exec_all fs ss c = Inr c' \<Longrightarrow> s \<in> set ss \<Longrightarrow> settled s c'"
  by (induction fs ss c rule: exec_all.induct)
    (auto split: list.splits option.splits sum.splits
      intro: settled_extends [OF exec_settles exec_all_extends])

lemma exec_all_again: "exec_all fs ss c = Inr c' \<Longrightarrow> exec_all [] ss c' = Inr c'"
  by (rule exec_all_settled) (blast intro: exec_all_settles)

section \<open>A static check of the statements\<close>

text \<open>What is known of a table: columns it has, its key, and the columns it may require.\<close>

type_synonym fact = "string list \<times> string list \<times> string list"

definition fits :: "Table \<Rightarrow> fact \<Rightarrow> bool" where
  "fits T f \<longleftrightarrow> set (fst f) \<subseteq> set (columns_of T) \<and> tb_key T = fst (snd f)
     \<and> set (required_of T) \<subseteq> set (snd (snd f))"

fun added :: "statement list \<Rightarrow> string \<Rightarrow> string list" where
  "added [] t = []"
| "added (AddColumn t' x # ss) t = (if t' = t then col_name x # added ss t else added ss t)"
| "added (_ # ss) t = added ss t"

text \<open>The first version of a table: its columns but those that are added to it, its key and the
  columns it requires.\<close>

fun first_version :: "statement list \<Rightarrow> statement \<Rightarrow> (string \<times> fact) list" where
  "first_version ss (CreateTable t cs key) =
     [(t, filter (\<lambda>n. n \<notin> set (added ss t)) (map col_name cs), key, map col_name (filter (required key) cs))]"
| "first_version ss _ = []"

definition first_versions :: "(string \<times> fact) list" where
  "first_versions = concat (map (first_version schema_statements) schema_statements)"

definition older :: "(string \<times> fact) list \<Rightarrow> Catalog \<Rightarrow> string \<times> fact \<Rightarrow> bool" where
  "older K c b \<longleftrightarrow> fst b \<in> set (map fst K) \<or>
     (case map_of (ct_tables c) (fst b) of None \<Rightarrow> fst b \<notin> set (ct_indexes c) | Some T \<Rightarrow> fits T (snd b))"

text \<open>A database of an older version: a table of the program that exists has at least the columns of its
  first version, its key, and requires no other columns; and the rows violate no unique index to come.\<close>

definition upgradable :: "Catalog \<Rightarrow> bool" where
  "upgradable c \<longleftrightarrow> list_all (older [] c) first_versions \<and> set (ct_clashes c) \<subseteq> set (ct_indexes c)"

fun check_statement :: "(string \<times> fact) list \<Rightarrow> (string \<times> fact) list \<Rightarrow> statement \<Rightarrow> (string \<times> fact) list option" where
  "check_statement B K (CreateTable t cs key) =
     (case map_of B t of
        None \<Rightarrow> None
      | Some f \<Rightarrow> if map_of K t = None \<and> fits \<lparr>tb_columns = cs, tb_key = key, tb_has_rows = False\<rparr> f
          then Some ((t, f) # K) else None)"
| "check_statement B K (AddColumn t x) =
     (case map_of K t of
        None \<Rightarrow> None
      | Some (ns, key, req) \<Rightarrow> if required key x then None else Some ((t, col_name x # ns, key, req) # K))"
| "check_statement B K (CreateIndex uniq n t xs) =
     (case map_of K t of
        None \<Rightarrow> None
      | Some f \<Rightarrow> if map_of B n = None \<and> set xs \<subseteq> set (fst f) then Some K else None)"

fun check :: "(string \<times> fact) list \<Rightarrow> (string \<times> fact) list \<Rightarrow> statement list \<Rightarrow> (string \<times> fact) list option" where
  "check B K [] = Some K"
| "check B K (s # ss) = (case check_statement B K s of None \<Rightarrow> None | Some K' \<Rightarrow> check B K' ss)"

definition known :: "(string \<times> fact) list \<Rightarrow> (string \<times> fact) list \<Rightarrow> Catalog \<Rightarrow> bool" where
  "known B K c \<longleftrightarrow> (\<forall>t f. map_of K t = Some f \<longrightarrow> (\<exists>T. map_of (ct_tables c) t = Some T \<and> fits T f))
     \<and> (\<forall>b \<in> set B. older K c b) \<and> set (ct_clashes c) \<subseteq> set (ct_indexes c)"

lemma knownD:
  assumes "known B K c" "map_of K t = Some f"
  obtains T where "map_of (ct_tables c) t = Some T" "fits T f"
  using assms unfolding known_def by blast

lemma known_set_table:
  assumes k: "known B K c" and f: "fits T f"
  shows "known B ((t, f) # K) (c\<lparr>ct_tables := AList.update t T (ct_tables c)\<rparr>)"
  unfolding known_def
proof (intro conjI allI impI ballI)
  fix b assume "b \<in> set B"
  with k have "older K c b" by (simp add: known_def)
  then show "older ((t, f) # K) (c\<lparr>ct_tables := AList.update t T (ct_tables c)\<rparr>) b"
    using f by (cases "fst b = t"; cases "map_of (ct_tables c) (fst b)") (auto simp: older_def update_conv')
next
  fix t' f' assume "map_of ((t, f) # K) t' = Some f'"
  then show "\<exists>T'. map_of (ct_tables (c\<lparr>ct_tables := AList.update t T (ct_tables c)\<rparr>)) t' = Some T' \<and> fits T' f'"
    using f by (cases "t' = t") (auto simp: update_conv' elim: knownD [OF k])
qed (use k in \<open>simp add: known_def\<close>)

lemma known_same_table:
  assumes "known B K c" "map_of (ct_tables c) t = Some T" "fits T f"
  shows "known B ((t, f) # K) c"
  using assms unfolding known_def older_def by (auto simp del: split_paired_All split_paired_Ex)

lemma known_index:
  assumes k: "known B K c" and n: "n \<notin> fst ` set B"
  shows "known B K (c\<lparr>ct_indexes := n # ct_indexes c\<rparr>)"
  unfolding known_def
proof (intro conjI ballI)
  fix b assume b: "b \<in> set B"
  with k have "older K c b" by (simp add: known_def)
  moreover have "fst b \<noteq> n" using n b by blast
  ultimately show "older K (c\<lparr>ct_indexes := n # ct_indexes c\<rparr>) b"
    by (cases "map_of (ct_tables c) (fst b)") (auto simp: older_def)
qed (use k in \<open>auto simp: known_def\<close>)

lemma fits_added:
  assumes "fits T (ns, key, req)" "\<not> required key x"
  shows "fits (T\<lparr>tb_columns := tb_columns T @ [x]\<rparr>) (col_name x # ns, key, req)"
  using assms by (auto simp: fits_def columns_of_def required_of_def)

lemma check_statement_sound:
  assumes "check_statement B K s = Some K'" "known B K c"
  shows "\<exists>c'. exec s c = Inr c' \<and> known B K' c'"
  using assms
proof (induction B K s rule: check_statement.induct)
  case (1 B K t cs key)
  then obtain f where f: "map_of B t = Some f" "map_of K t = None" "K' = (t, f) # K"
      "fits \<lparr>tb_columns = cs, tb_key = key, tb_has_rows = False\<rparr> f"
    by (auto split: option.splits if_splits)
  have old: "older K c (t, f)" using map_of_SomeD [OF f(1)] 1(2) unfolding known_def by blast
  have new: "t \<notin> set (map fst K)" using f(2) by (simp add: map_of_eq_None_iff)
  show ?case
  proof (cases "map_of (ct_tables c) t")
    case None
    then have "\<not> relation t c" using old new by (simp add: relation_def older_def)
    with known_set_table [OF 1(2) f(4), of t] f(3) show ?thesis by simp
  next
    case (Some T)
    then have "fits T f" using old new by (simp add: older_def)
    from known_same_table [OF 1(2) Some this] Some f(3) show ?thesis by (simp add: relation_def)
  qed
next
  case (2 B K t x)
  then obtain ns key req where f: "map_of K t = Some (ns, key, req)" "\<not> required key x"
      "K' = (t, col_name x # ns, key, req) # K"
    by (auto split: option.splits if_splits)
  from knownD [OF 2(2) f(1)] obtain T where T: "map_of (ct_tables c) t = Some T" "fits T (ns, key, req)" .
  have key: "tb_key T = key" using T(2) by (simp add: fits_def)
  show ?case
  proof (cases "col_name x \<in> set (columns_of T)")
    case True
    then have "fits T (col_name x # ns, key, req)" using T(2) by (simp add: fits_def)
    from known_same_table [OF 2(2) T(1) this] True T(1) f(3) show ?thesis by simp
  next
    case False
    from known_set_table [OF 2(2) fits_added [OF T(2) f(2)], of t] False T(1) f(2,3) key show ?thesis by simp
  qed
next
  case (3 B K uniq n t xs)
  then obtain f where f: "map_of K t = Some f" "map_of B n = None" "set xs \<subseteq> set (fst f)" "K' = K"
    by (auto split: option.splits if_splits)
  from knownD [OF 3(2) f(1)] obtain T where T: "map_of (ct_tables c) t = Some T" "fits T f" .
  have "n \<notin> fst ` set B" using f(2) by (simp add: map_of_eq_None_iff)
  from known_index [OF 3(2) this] have k: "known B K (c\<lparr>ct_indexes := n # ct_indexes c\<rparr>)" .
  have "n \<in> set (ct_clashes c) \<Longrightarrow> relation n c" using 3(2) by (auto simp: known_def relation_def)
  with T f k 3(2) show ?case by (auto simp: fits_def)
qed

lemma check_sound:
  assumes "check B K ss = Some K'" "known B K c"
  shows "\<exists>c'. exec_all [] ss c = Inr c' \<and> known B K' c'"
  using assms
proof (induction B K ss arbitrary: c rule: check.induct)
  case (2 B K s ss)
  then obtain K1 where K1: "check_statement B K s = Some K1" "check B K1 ss = Some K'"
    by (auto split: option.splits)
  from check_statement_sound [OF K1(1) 2(3)] obtain c1 where c1: "exec s c = Inr c1" "known B K1 c1" by blast
  from 2(1) [OF K1 c1(2)] c1(1) show ?case by simp
qed simp

section \<open>The upgrade\<close>

fun query_known :: "(string \<times> fact) list \<Rightarrow> sql_query \<Rightarrow> bool" where
  "query_known K (Reads t xs) \<longleftrightarrow> (case map_of K t of None \<Rightarrow> False | Some f \<Rightarrow> set xs \<subseteq> set (fst f))"
| "query_known K (Inserts t xs target) \<longleftrightarrow>
     (case map_of K t of None \<Rightarrow> False
      | Some (ns, key, req) \<Rightarrow> set xs \<subseteq> set ns \<and> key = target \<and> set req \<subseteq> set xs)"

lemma query_known_sound: "known B K c \<Longrightarrow> query_known K q \<Longrightarrow> query_ok c q"
  by (cases q) (fastforce simp: fits_def split: option.splits elim: knownD)+

definition schema_check :: "(string \<times> fact) list option" where
  "schema_check = check first_versions [] schema_statements"

lemma schema_checks: "(case schema_check of None \<Rightarrow> False | Some K \<Rightarrow> list_all (query_known K) postgres_queries)"
  by code_simp

lemma upgrade:
  assumes "upgradable c"
  shows "\<exists>c'. ensure_schema [] c = (Inr (), c') \<and> extends c c' \<and> list_all (query_ok c') postgres_queries
    \<and> ensure_schema [] c' = (Inr (), c')"
proof -
  obtain K where K: "check first_versions [] schema_statements = Some K" "list_all (query_known K) postgres_queries"
    using schema_checks by (auto simp: schema_check_def split: option.splits)
  have "known first_versions [] c" using assms by (simp add: upgradable_def known_def list_all_iff)
  from check_sound [OF K(1) this] obtain c' where c': "exec_all [] schema_statements c = Inr c'" "known first_versions K c'"
    by blast
  show ?thesis using c' K(2) exec_all_extends [OF c'(1)] exec_all_again [OF c'(1)] query_known_sound [OF c'(2)]
    by (auto simp: ensure_schema_def list_all_iff)
qed

text \<open>A database of the first version: accounts without owners, leases and workspaces, devices without
  users, and rows in both tables.\<close>

definition first_catalog :: Catalog where
  "first_catalog =
     \<lparr>ct_tables =
        [(''cube_accounts'',
          \<lparr>tb_columns =
             [column ''id'' Text False None,
              column ''label'' Text True (Some (Const [])),
              column ''plan'' Text True (Some (Const [])),
              column ''status'' Text True (Some (Const ''ready'')),
              column ''codex_home'' Text True (Some (Const [])),
              column ''auth_json'' Jsonb False None,
              column ''created_at'' Timestamptz True (Some Now),
              column ''updated_at'' Timestamptz True (Some Now),
              column ''last_error'' Text True (Some (Const []))],
           tb_key = [''id''], tb_has_rows = True\<rparr>),
         (''cube_clients'',
          \<lparr>tb_columns =
             [column ''id'' Text False None,
              column ''label'' Text True (Some (Const [])),
              column ''token_hash'' Text True None,
              column ''created_at'' Timestamptz True (Some Now),
              column ''last_seen_at'' Timestamptz False None,
              column ''revoked_at'' Timestamptz False None],
           tb_key = [''id''], tb_has_rows = True\<rparr>)],
      ct_indexes = [], ct_clashes = []\<rparr>"

lemma first_catalog_old:
  "upgradable first_catalog" "\<not> query_ok first_catalog (Reads ''cube_clients'' [''user_id''])"
  by code_simp+

end
