(* ===== verification/Pool.thy ===== *)
theory Pool
  imports Io Go_Time
begin

text \<open>
  The connection pool of a manager (\<open>postgresDB\<close> and \<open>Close\<close> of \<open>manager.go\<close>): it is
  opened on the first use, shared by every later one, and released by \<open>Close\<close>; and the loops that wait for the lock of a claim
  (\<open>acquireLock\<close> of \<open>fsutil.go\<close>, \<open>acquirePostgresLock\<close>). Opening and closing are
  those of \<open>database/sql\<close>; the answers of its functions are arguments (None is success). Each call runs
  under \<open>dbMu\<close>, so calls of several threads are a sequence of steps.
\<close>

section \<open>The pool and its operations\<close>

text \<open>\<open>po_open\<close> lists the pools opened and not closed, \<open>po_next\<close> is the next one.\<close>

record Pool =
  po_url :: string
  po_db :: "nat option"
  po_open :: "nat list"
  po_next :: nat

definition sql_open :: "Pool \<Rightarrow> nat \<times> Pool" where
  "sql_open p = (po_next p, p\<lparr>po_open := po_next p # po_open p, po_next := Suc (po_next p)\<rparr>)"

definition sql_close :: "nat \<Rightarrow> Pool \<Rightarrow> Pool" where
  "sql_close h p = p\<lparr>po_open := filter (\<lambda>x. x \<noteq> h) (po_open p)\<rparr>"

definition postgresDB :: "string option \<Rightarrow> string option \<Rightarrow> Pool \<Rightarrow> (error + nat) \<times> Pool" where
  "postgresDB openErr pingErr p =
     (if trim_space (po_url p) = [] then (Inl (ErrText ''database_url is not configured''), p)
      else case po_db p of
        Some h \<Rightarrow> (Inr h, p)
      | None \<Rightarrow>
          (case openErr of
             Some e \<Rightarrow> (Inl (ErrText e), p)
           | None \<Rightarrow>
               (case sql_open p of (h, p) \<Rightarrow>
                  (case pingErr of
                     Some e \<Rightarrow> (Inl (ErrText e), sql_close h p)
                   | None \<Rightarrow> (Inr h, p\<lparr>po_db := Some h\<rparr>)))))"

definition closeDB :: "string option \<Rightarrow> Pool \<Rightarrow> (error + unit) \<times> Pool" where
  "closeDB closeErr p =
     (case po_db p of
        None \<Rightarrow> (Inr (), p)
      | Some h \<Rightarrow>
          (case closeErr of None \<Rightarrow> Inr () | Some e \<Rightarrow> Inl (ErrText e), (sql_close h p)\<lparr>po_db := None\<rparr>))"

section \<open>Runs of calls\<close>

inductive pool_run :: "Pool \<Rightarrow> Pool \<Rightarrow> bool" where
  start: "pool_run p p"
| use: "pool_run p q \<Longrightarrow> pool_run p (snd (postgresDB e1 e2 q))"
| close: "pool_run p q \<Longrightarrow> pool_run p (snd (closeDB e q))"

text \<open>The pools that are open are the one the manager holds: none is lost, whatever fails.\<close>

definition pool_ok :: "Pool \<Rightarrow> bool" where
  "pool_ok p \<longleftrightarrow> po_open p = (case po_db p of None \<Rightarrow> [] | Some h \<Rightarrow> [h])"

lemma postgresDB_ok: "pool_ok p \<Longrightarrow> pool_ok (snd (postgresDB e1 e2 p))"
  by (auto simp: postgresDB_def pool_ok_def sql_open_def sql_close_def split: option.splits)

lemma closeDB_ok: "pool_ok p \<Longrightarrow> pool_ok (snd (closeDB e p))"
  by (auto simp: closeDB_def pool_ok_def sql_close_def split: option.splits)

lemma pool_run_ok: "pool_run p q \<Longrightarrow> pool_ok p \<Longrightarrow> pool_ok q"
  by (induction rule: pool_run.induct) (auto intro: postgresDB_ok closeDB_ok)

lemma pool_never_leaks:
  assumes "po_db p = None" "po_open p = []" "pool_run p q"
  shows "length (po_open q) \<le> 1 \<and> po_open (snd (closeDB e q)) = []"
proof -
  have q: "pool_ok q" using pool_run_ok [OF assms(3)] assms(1,2) by (simp add: pool_ok_def)
  have "pool_ok (snd (closeDB e q))" by (rule closeDB_ok [OF q])
  moreover have "po_db (snd (closeDB e q)) = None" by (simp add: closeDB_def split: option.split)
  ultimately show ?thesis using q by (simp add: pool_ok_def split: option.splits)
qed

text \<open>Every caller gets the same pool until it is closed, and a second \<open>Close\<close> does nothing.\<close>

lemma postgresDB_shared:
  assumes "postgresDB e1 e2 p = (Inr h, q)"
  shows "postgresDB e3 e4 q = (Inr h, q)"
proof -
  have "po_db q = Some h" "po_url q = po_url p" "trim_space (po_url p) \<noteq> []"
    using assms by (auto simp: postgresDB_def sql_open_def split: option.splits if_splits)
  then show ?thesis by (simp add: postgresDB_def)
qed

lemma closeDB_again: "closeDB e2 (snd (closeDB e1 p)) = (Inr (), snd (closeDB e1 p))"
  by (simp add: closeDB_def split: option.split)

section \<open>Waiting for a lock\<close>

text \<open>
  Both loops try the lock, and on a busy one look at the time since they began and sleep for 50 ms. The
  tries are a list: the time since the start, and the answer. The result is None while the loop
  still waits; the second value tells whether the file, or the pinned connection, is still open.
\<close>

definition pause :: duration where
  "pause = 50 * 1000000"

datatype attempt = Locked | Busy | Failed string

fun wait_loop :: "duration \<Rightarrow> string \<Rightarrow> (duration \<times> attempt) list \<Rightarrow> (error + unit) option \<times> bool" where
  "wait_loop limit msg [] = (None, True)"
| "wait_loop limit msg ((t, Locked) # ps) = (Some (Inr ()), True)"
| "wait_loop limit msg ((t, Failed e) # ps) = (Some (Inl (ErrText e)), False)"
| "wait_loop limit msg ((t, Busy) # ps) =
     (if t > limit then (Some (Inl (ErrText msg)), False) else wait_loop limit msg ps)"

definition wait_file_lock :: "string option \<Rightarrow> (duration \<times> attempt) list \<Rightarrow> (error + unit) option \<times> bool" where
  "wait_file_lock openErr ps =
     (case openErr of
        Some e \<Rightarrow> (Some (Inl (ErrText e)), False)
      | None \<Rightarrow> wait_loop (2 * second) ''timeout acquiring lock for round-robin selector'' ps)"

definition acquirePostgresLock ::
    "string \<Rightarrow> error + nat \<Rightarrow> string option \<Rightarrow> (duration \<times> attempt) list \<Rightarrow> (error + unit) option \<times> bool" where
  "acquirePostgresLock name db connErr ps =
     (case db of
        Inl e \<Rightarrow> (Some (Inl e), False)
      | Inr _ \<Rightarrow>
          (case connErr of
             Some e \<Rightarrow> (Some (Inl (ErrText e)), False)
           | None \<Rightarrow> wait_loop (5 * second) (''timeout acquiring postgres lock '' @ name) ps))"

text \<open>A loop that has ended holds the lock, or has closed its file or connection.\<close>

lemma wait_loop_closes: "wait_loop limit msg ps = (Some r, b) \<Longrightarrow> b \<longleftrightarrow> r = Inr ()"
  by (induction limit msg ps rule: wait_loop.induct) (auto split: if_splits)

text \<open>It gets the lock exactly when a try does, with none before it that failed or was late.\<close>

lemma wait_loop_locked:
  "fst (wait_loop limit msg ps) = Some (Inr ()) \<longleftrightarrow>
     (\<exists>qs t rs. ps = qs @ (t, Locked) # rs \<and> (\<forall>(s, a) \<in> set qs. a = Busy \<and> s \<le> limit))"
proof (induction limit msg ps rule: wait_loop.induct)
  case (2 limit msg t ps)
  then show ?case by (auto intro: exI [of _ "[]"])
next
  case (3 limit msg t e ps)
  then show ?case by (auto simp: Cons_eq_append_conv)
next
  case (4 limit msg t ps)
  show ?case
  proof (cases "t > limit")
    case False
    have "(\<exists>qs t' rs. (t, Busy) # ps = qs @ (t', Locked) # rs \<and> (\<forall>(s, a) \<in> set qs. a = Busy \<and> s \<le> limit))
        \<longleftrightarrow> (\<exists>qs t' rs. ps = qs @ (t', Locked) # rs \<and> (\<forall>(s, a) \<in> set qs. a = Busy \<and> s \<le> limit))"
      using False by (fastforce simp: Cons_eq_append_conv)
    with 4 False show ?thesis by simp
  qed (auto simp: Cons_eq_append_conv)
qed simp

text \<open>Since it sleeps for 50 ms, it ends after at most so many tries.\<close>

lemma wait_loop_ends:
  assumes "\<forall>i < length ps. int i * pause \<le> fst (ps ! i)"
    and "limit div pause + 1 < int (length ps)" "0 \<le> limit"
  shows "fst (wait_loop limit msg ps) \<noteq> None"
proof
  assume "fst (wait_loop limit msg ps) = None"
  then have all: "\<forall>(s, a) \<in> set ps. s \<le> limit"
    by (induction limit msg ps rule: wait_loop.induct) (auto split: if_splits)
  define i where "i = nat (limit div pause + 1)"
  have i: "int i = limit div pause + 1" "i < length ps"
    using assms(2,3) by (simp_all add: i_def pos_imp_zdiv_nonneg_iff pause_def)
  have "fst (ps ! i) \<le> limit" using all nth_mem [OF i(2)] by (cases "ps ! i") auto
  moreover have "limit < int i * pause"
    using i(1) unfolding pause_def by presburger
  ultimately show False using assms(1) i(2) by fastforce
qed

lemma acquirePostgresLock_ends:
  assumes "\<forall>i < length ps. int i * pause \<le> fst (ps ! i)" "101 < length ps"
  shows "fst (acquirePostgresLock name db connErr ps) \<noteq> None"
proof -
  have "fst (wait_loop (5 * second) msg ps) \<noteq> None" for msg
    by (rule wait_loop_ends [OF assms(1)]) (use assms(2) in \<open>simp_all add: duration_defs pause_def\<close>)
  then show ?thesis by (simp add: acquirePostgresLock_def split: sum.split option.split)
qed

text \<open>\<open>acquireLock\<close> of the model gives the end of the wait: the lock when it is free, and the error of
  the timeout when it stays taken.\<close>

definition tries :: "World \<Rightarrow> nat \<Rightarrow> (duration \<times> attempt) list" where
  "tries w n = map (\<lambda>i. (int i * pause, if w_flock w then Busy else Locked)) [0..<n]"

lemma acquireLock_waits:
  assumes "postgres_mode M" "w_faults w = []" "101 < n"
  shows "fst (acquirePostgresLock ''run-round-robin.json.lock'' (Inr h) None (tries w n)) = Some (fst (acquireLock M w))"
proof (cases "w_flock w")
  case True
  let ?r = "acquirePostgresLock ''run-round-robin.json.lock'' (Inr h) None (tries w n)"
  have busy: "fst (wait_loop limit msg ps) \<in> {None, Some (Inl (ErrText msg))}"
    if "\<forall>(t, a) \<in> set ps. a = Busy" for limit msg ps
    using that by (induction limit msg ps rule: wait_loop.induct) auto
  have "fst ?r \<noteq> None" by (rule acquirePostgresLock_ends) (use assms(3) in \<open>simp_all add: tries_def\<close>)
  moreover have "fst ?r \<in> {None, Some (Inl (ErrText (lock_timeout M)))}"
    using busy [of "tries w n" "5 * second" "lock_timeout M"] True assms(1)
    by (simp add: tries_def acquirePostgresLock_def lock_timeout_def)
  ultimately show ?thesis using True assms(2) by (auto simp: acquireLock_def stepE_def bindE_def)
next
  case False
  obtain m where "n = Suc m" using assms(3) by (cases n) auto
  then have "tries w n = (0, Locked) # map (\<lambda>i. (int i * pause, Locked)) [1..<n]"
    using False by (simp add: tries_def upt_conv_Cons)
  with False assms(2) show ?thesis by (simp add: acquirePostgresLock_def acquireLock_def stepE_def bindE_def)
qed

end
