(* ===== verification/Settings.thy ===== *)
theory Settings
  imports Accounts
begin

text \<open>
  The settings of a manager, \<open>internal/manager/settings.go\<close>, \<open>New\<close> of \<open>manager.go\<close>, and the
  parts of \<open>codex.go\<close> and \<open>fsutil.go\<close> that copy credentials to another home. A
  manager that changes its own paths is returned changed. The TOML library is not part
  of this repository: its two functions are parameters, with the law \<open>toml_faithful\<close>.
  The main facts: what \<open>UpdateDeviceSettings\<close> writes is read back, and the settings
  page forgets the identity of the device.
\<close>

section \<open>Settings and where they come from\<close>

record Settings =
  set_LiveCodexHome :: string
  set_AccountsDir :: string
  set_SharedConfigPath :: string
  set_CloudURL :: string
  set_CloudToken :: string
  set_DeviceID :: string
  set_DeviceLabel :: string
  set_DatabaseURL :: string

text \<open>
  The rest of the manager's fields, the environment variables, and \<open>toml.Marshal\<close> and
  \<open>toml.Unmarshal\<close>; the latter decodes into a struct that holds the defaults.
\<close>

record Config = Manager +
  cfg_StatePath :: string
  cfg_SettingsPath :: string
  cfg_SharedConfigPath :: string
  cfg_getenv :: "string \<Rightarrow> string"
  cfg_toml_encode :: "Settings \<Rightarrow> string"
  cfg_toml_decode :: "string \<Rightarrow> Settings \<Rightarrow> Settings option"

text \<open>A key that is left out (\<open>toml:"-"\<close>, or empty with \<open>omitempty\<close>) keeps the default.\<close>

definition toml_faithful :: "Config \<Rightarrow> bool" where
  "toml_faithful M \<longleftrightarrow> (\<forall>s d. cfg_toml_decode M (cfg_toml_encode M s) d = Some (s\<lparr>
     set_SharedConfigPath := set_SharedConfigPath d,
     set_DeviceID := (if set_DeviceID s = [] then set_DeviceID d else set_DeviceID s),
     set_DeviceLabel := (if set_DeviceLabel s = [] then set_DeviceLabel d else set_DeviceLabel s)\<rparr>))"

definition env_override :: "Config \<Rightarrow> string \<Rightarrow> string \<Rightarrow> string" where
  "env_override M name old = (let v = trim_space (cfg_getenv M name) in if v \<noteq> [] then v else old)"

definition applyEnvironmentOverrides :: "Config \<Rightarrow> Settings \<Rightarrow> Settings" where
  "applyEnvironmentOverrides M s = s\<lparr>
     set_CloudURL := env_override M ''CUBE_CLOUD_URL'' (set_CloudURL s),
     set_CloudToken := env_override M ''CUBE_DEVICE_TOKEN'' (env_override M ''CUBE_CLOUD_TOKEN'' (set_CloudToken s)),
     set_DeviceID := env_override M ''CUBE_DEVICE_ID'' (set_DeviceID s),
     set_DeviceLabel := env_override M ''CUBE_DEVICE_LABEL'' (set_DeviceLabel s),
     set_DatabaseURL :=
       (let v = firstNonEmpty [cfg_getenv M ''CUBE_DATABASE_URL'', cfg_getenv M ''DATABASE_URL'']
        in if v \<noteq> [] then v else set_DatabaseURL s)\<rparr>"

definition defaultSettings :: "Config \<Rightarrow> string \<Rightarrow> Settings" where
  "defaultSettings M home = \<lparr>
     set_LiveCodexHome = (let v = trim_space (env_codex_home M) in
       if v \<noteq> [] then expandPath v home else path_join home ''.codex''),
     set_AccountsDir = path_join home ''.codex-accounts'', set_SharedConfigPath = [],
     set_CloudURL = trim_space (cfg_getenv M ''CUBE_CLOUD_URL''),
     set_CloudToken = trim_space (cfg_getenv M ''CUBE_CLOUD_TOKEN''),
     set_DeviceID = [], set_DeviceLabel = [],
     set_DatabaseURL = firstNonEmpty [cfg_getenv M ''CUBE_DATABASE_URL'', cfg_getenv M ''DATABASE_URL'']\<rparr>"

text \<open>The settings a manager mirrors, and the manager with the settings it was given.\<close>

definition mirrored :: "Config \<Rightarrow> Settings" where
  "mirrored M = \<lparr>set_LiveCodexHome = m_LiveCodexHome M, set_AccountsDir = m_AccountsDir M,
     set_SharedConfigPath = cfg_SharedConfigPath M, set_CloudURL = m_CloudURL M,
     set_CloudToken = m_CloudToken M, set_DeviceID = [], set_DeviceLabel = [],
     set_DatabaseURL = m_DatabaseURL M\<rparr>"

definition with_settings :: "Settings \<Rightarrow> Config \<Rightarrow> Config" where
  "with_settings s M = M\<lparr>m_LiveCodexHome := set_LiveCodexHome s, m_AccountsDir := set_AccountsDir s,
     cfg_SharedConfigPath := set_SharedConfigPath s, m_CloudURL := set_CloudURL s,
     m_CloudToken := set_CloudToken s, m_DatabaseURL := set_DatabaseURL s\<rparr>"

section \<open>The settings file\<close>

definition renameFile :: "string \<Rightarrow> string \<Rightarrow> unit io" where
  "renameFile source target = bindE stepE (\<lambda>_ w.
     case map_of (w_files w) source of
       None \<Rightarrow> (Inl (ErrText (''rename '' @ source @ '' '' @ target @ '': no such file or directory'')), w)
     | Some f \<Rightarrow> (Inr (), w\<lparr>w_files := AList.update target f (AList.delete source (w_files w))\<rparr>))"

definition writeSettings :: "Config \<Rightarrow> string \<Rightarrow> Settings \<Rightarrow> unit io" where
  "writeSettings M path s =
     bindE (writeFile (path @ ''.tmp'') (NotJson (cfg_toml_encode M s))) (\<lambda>_.
       renameFile (path @ ''.tmp'') path)"

definition expand_settings :: "string \<Rightarrow> Settings \<Rightarrow> Settings" where
  "expand_settings home s = s\<lparr>
     set_LiveCodexHome := expandPath (set_LiveCodexHome s) home,
     set_AccountsDir := expandPath (set_AccountsDir s) home,
     set_CloudURL := trim_space (set_CloudURL s), set_CloudToken := trim_space (set_CloudToken s),
     set_DatabaseURL := trim_space (set_DatabaseURL s)\<rparr>"

text \<open>A JSON document is no TOML document.\<close>

definition parseSettingsData :: "Config \<Rightarrow> content \<Rightarrow> Settings \<Rightarrow> string \<Rightarrow> error + (Settings \<times> bool)" where
  "parseSettingsData M c defaults home =
     (case c of
        Doc _ \<Rightarrow> Inl (ErrText ''toml'')
      | NotJson t \<Rightarrow>
          (case cfg_toml_decode M t defaults of
             None \<Rightarrow> Inl (ErrText ''toml'')
           | Some s \<Rightarrow> Inr (expand_settings home s,
               contains_sub t ''shared_settings_path'' \<or> contains_sub t ''shared_config_path'')))"

definition userHomeDir :: "Config \<Rightarrow> string io" where
  "userHomeDir M = (case env_home M of
     None \<Rightarrow> throwE (ErrText ''$HOME is not defined'') | Some home \<Rightarrow> returnE home)"

definition loadSettings :: "Config \<Rightarrow> string \<Rightarrow> Settings \<Rightarrow> string \<Rightarrow> Settings io" where
  "loadSettings M path defaults home =
     bindE (readFile path) (\<lambda>data.
       case data of
         None \<Rightarrow> bindE (writeSettings M path defaults) (\<lambda>_. returnE defaults)
       | Some c \<Rightarrow>
           (case parseSettingsData M c defaults home of
              Inl e \<Rightarrow> throwE e
            | Inr (s, changed) \<Rightarrow>
                bindE (whenE changed (writeSettings M path s)) (\<lambda>_. returnE s)))"

text \<open>\<open>New\<close>: the environment is that of the given manager.\<close>

definition New :: "Config \<Rightarrow> Config io" where
  "New E =
     bindE (userHomeDir E) (\<lambda>home.
       let stateDir = path_join home ''.cube20''; path = path_join stateDir ''settings.toml'' in
       bindE stepE (\<lambda>_.
       bindE (loadSettings E path (defaultSettings E home) home) (\<lambda>s.
         let s = applyEnvironmentOverrides E s in
         returnE ((with_settings s E)\<lparr>m_StateDir := stateDir,
           cfg_StatePath := path_join stateDir ''state.json'', cfg_SettingsPath := path\<rparr>))))"

definition currentSettings :: "Config \<Rightarrow> Settings io" where
  "currentSettings M =
     bindE (userHomeDir M) (\<lambda>home. bindE (readFile (cfg_SettingsPath M)) (\<lambda>data.
       case data of
         None \<Rightarrow> returnE (mirrored M)
       | Some c \<Rightarrow>
           (case parseSettingsData M c (mirrored M) home of Inl e \<Rightarrow> throwE e | Inr (s, _) \<Rightarrow> returnE s)))"

definition DeviceSettings :: "Config \<Rightarrow> Settings io" where
  "DeviceSettings M = bindE (currentSettings M) (\<lambda>s. returnE (applyEnvironmentOverrides M s))"

section \<open>Changing them\<close>

definition paths_missing :: "Settings \<Rightarrow> bool" where
  "paths_missing s \<longleftrightarrow> set_LiveCodexHome s = [] \<or> set_AccountsDir s = []"

definition no_paths :: error where "no_paths = ErrText ''settings paths cannot be empty''"

text \<open>
  A change of the settings ends with a result and the manager after it, which has
  changed when the file was written, even when \<open>Ensure\<close> fails then.
\<close>

definition store_settings :: "Config \<Rightarrow> Settings \<Rightarrow> ((error + Settings) \<times> Config) io" where
  "store_settings M s =
     bindE (tryE (writeSettings M (cfg_SettingsPath M) s)) (\<lambda>r.
       case r of
         Inl e \<Rightarrow> returnE (Inl e, M)
       | Inr _ \<Rightarrow>
           bindE (tryE (Ensure (with_settings s M))) (\<lambda>r.
             returnE (case r of Inl e \<Rightarrow> Inl e | Inr _ \<Rightarrow> Inr s, with_settings s M)))"

definition UpdateSettings :: "Config \<Rightarrow> string \<Rightarrow> string \<Rightarrow> ((error + Settings) \<times> Config) io" where
  "UpdateSettings M liveCodexHome accountsDir =
     (case env_home M of
        None \<Rightarrow> returnE (Inl (ErrText ''$HOME is not defined''), M)
      | Some home \<Rightarrow>
          let s = mirrored M;
              s = (if trim_space liveCodexHome \<noteq> [] then s\<lparr>set_LiveCodexHome := expandPath liveCodexHome home\<rparr> else s);
              s = (if trim_space accountsDir \<noteq> [] then s\<lparr>set_AccountsDir := expandPath accountsDir home\<rparr> else s)
          in if paths_missing s then returnE (Inl no_paths, M) else store_settings M s)"

definition WriteSettingsText :: "Config \<Rightarrow> content \<Rightarrow> ((error + Settings) \<times> Config) io" where
  "WriteSettingsText M raw =
     (case env_home M of
        None \<Rightarrow> returnE (Inl (ErrText ''$HOME is not defined''), M)
      | Some home \<Rightarrow>
          (case parseSettingsData M raw (mirrored M) home of
             Inl e \<Rightarrow> returnE (Inl e, M)
           | Inr (s, _) \<Rightarrow>
               if paths_missing s
               then returnE (Inl (ErrText ''settings.toml must include live_codex_home and accounts_dir''), M)
               else store_settings M s))"

definition with_cloud :: "Settings \<Rightarrow> Config \<Rightarrow> Config" where
  "with_cloud s M = M\<lparr>m_CloudURL := set_CloudURL s, m_CloudToken := set_CloudToken s\<rparr>"

definition store_cloud :: "Config \<Rightarrow> Settings \<Rightarrow> ((error + Settings) \<times> Config) io" where
  "store_cloud M s =
     (if paths_missing s then returnE (Inl no_paths, M)
      else bindE (tryE (writeSettings M (cfg_SettingsPath M) s)) (\<lambda>r.
        returnE (case r of Inl e \<Rightarrow> (Inl e, M) | Inr _ \<Rightarrow> (Inr s, with_cloud s M))))"

definition given :: "string \<Rightarrow> string \<Rightarrow> string" where
  "given v old = (if trim_space v \<noteq> [] then trim_space v else old)"

definition UpdateCloudSettings :: "Config \<Rightarrow> string \<Rightarrow> string \<Rightarrow> ((error + Settings) \<times> Config) io" where
  "UpdateCloudSettings M cloudURL cloudToken =
     (let s = mirrored M in
      store_cloud M (s\<lparr>set_CloudURL := given cloudURL (set_CloudURL s),
        set_CloudToken := given cloudToken (set_CloudToken s)\<rparr>))"

definition device_fields :: "string \<Rightarrow> string \<Rightarrow> string \<Rightarrow> string \<Rightarrow> Settings \<Rightarrow> Settings" where
  "device_fields server token deviceID deviceLabel s = s\<lparr>
     set_CloudURL := given server (set_CloudURL s), set_CloudToken := given token (set_CloudToken s),
     set_DeviceID := given deviceID (set_DeviceID s),
     set_DeviceLabel := given deviceLabel (set_DeviceLabel s)\<rparr>"

definition UpdateDeviceSettings ::
  "Config \<Rightarrow> string \<Rightarrow> string \<Rightarrow> string \<Rightarrow> string \<Rightarrow> ((error + Settings) \<times> Config) io" where
  "UpdateDeviceSettings M server token deviceID deviceLabel =
     bindE (tryE (currentSettings M)) (\<lambda>r.
       case r of
         Inl e \<Rightarrow> returnE (Inl e, M)
       | Inr s \<Rightarrow> store_cloud M (device_fields server token deviceID deviceLabel s))"

definition ReadSettingsText :: "Config \<Rightarrow> content io" where
  "ReadSettingsText M =
     bindE (Ensure M) (\<lambda>_. bindE (readFile (cfg_SettingsPath M)) (\<lambda>data.
       case data of
         Some c \<Rightarrow> returnE c
       | None \<Rightarrow>
           bindE (writeSettings M (cfg_SettingsPath M) (mirrored M)) (\<lambda>_.
           bindE (readFile (cfg_SettingsPath M)) (\<lambda>data.
             case data of Some c \<Rightarrow> returnE c | None \<Rightarrow> throwE (ErrText ''file does not exist'')))))"

section \<open>What is written is read back\<close>

lemma file_kept [simp]:
  "w_faults (w\<lparr>w_files := fs\<rparr>) = w_faults w" "w_now (w\<lparr>w_files := fs\<rparr>) = w_now w"
  by simp_all

lemma writeSettings_eval:
  assumes "w_faults w = []"
  shows "\<exists>fs. writeSettings M path s w = (Inr (), w\<lparr>w_files := fs\<rparr>)
     \<and> map_option fst (map_of fs path) = Some (NotJson (cfg_toml_encode M s))"
proof -
  let ?tmp = "path @ ''.tmp''"
  let ?c = "(NotJson (cfg_toml_encode M s), w_now w)"
  let ?fs = "AList.update path ?c (AList.delete ?tmp (AList.update ?tmp ?c (w_files w)))"
  have "writeSettings M path s w = (Inr (), w\<lparr>w_files := ?fs\<rparr>)"
    using assms by (simp add: writeSettings_def renameFile_def bindE_def update_conv')
  moreover have "map_option fst (map_of ?fs path) = Some (NotJson (cfg_toml_encode M s))"
    by (simp add: update_conv')
  ultimately show ?thesis by blast
qed

definition no_overrides :: "Config \<Rightarrow> bool" where
  "no_overrides M \<longleftrightarrow> (\<forall>name \<in> {''CUBE_CLOUD_URL'', ''CUBE_CLOUD_TOKEN'', ''CUBE_DEVICE_TOKEN'', ''CUBE_DEVICE_ID'',
     ''CUBE_DEVICE_LABEL'', ''CUBE_DATABASE_URL'', ''DATABASE_URL''}. trim_space (cfg_getenv M name) = [])"

lemma overrides_none: "no_overrides M \<Longrightarrow> applyEnvironmentOverrides M s = s"
  by (simp add: no_overrides_def applyEnvironmentOverrides_def env_override_def)

text \<open>The settings as they are read back after s was written.\<close>

definition read_back :: "Config \<Rightarrow> string \<Rightarrow> Settings \<Rightarrow> Settings" where
  "read_back M home s = expand_settings home (s\<lparr>set_SharedConfigPath := cfg_SharedConfigPath M\<rparr>)"

lemma written_settings:
  assumes "toml_faithful M" "env_home M = Some home" "w_faults w = []"
    and "map_option fst (map_of (w_files w) (cfg_SettingsPath M)) = Some (NotJson (cfg_toml_encode M s))"
  shows "currentSettings M w = (Inr (read_back M home s), w)"
proof -
  have "cfg_toml_decode M (cfg_toml_encode M s) (mirrored M) = Some (s\<lparr>set_SharedConfigPath := cfg_SharedConfigPath M\<rparr>)"
    using assms(1) by (simp add: toml_faithful_def mirrored_def)
  then show ?thesis
    using assms(2-4) by (auto simp: currentSettings_def userHomeDir_def parseSettingsData_def read_back_def)
qed

lemma manager_fields [simp]:
  "cfg_SettingsPath (with_cloud s M) = cfg_SettingsPath M" "cfg_toml_encode (with_cloud s M) = cfg_toml_encode M"
  "cfg_SettingsPath (with_settings s M) = cfg_SettingsPath M" "cfg_toml_encode (with_settings s M) = cfg_toml_encode M"
  "env_home (with_cloud s M) = env_home M" "env_home (with_settings s M) = env_home M"
  "toml_faithful (with_cloud s M) = toml_faithful M" "toml_faithful (with_settings s M) = toml_faithful M"
  "no_overrides (with_cloud s M) = no_overrides M" "no_overrides (with_settings s M) = no_overrides M"
  by (simp_all add: with_cloud_def with_settings_def toml_faithful_def no_overrides_def)

lemma device_settings_kept:
  assumes "toml_faithful M" "no_overrides M" "w_faults w = []"
    and "DeviceSettings M w = (Inr old, w)"
    and "UpdateDeviceSettings M server token deviceID deviceLabel w = (Inr (Inr s, M'), w')"
  shows "\<exists>new. DeviceSettings M' w' = (Inr new, w')
     \<and> set_DeviceID new = given deviceID (set_DeviceID old)
     \<and> set_DeviceLabel new = given deviceLabel (set_DeviceLabel old)
     \<and> set_CloudURL new = trim_space (given server (set_CloudURL old))
     \<and> set_CloudToken new = trim_space (given token (set_CloudToken old))"
proof -
  have cur: "currentSettings M w = (Inr old, w)"
    using assms(4) by (auto simp: DeviceSettings_def overrides_none [OF assms(2)] elim!: bindE_InrE)
  obtain home where home: "env_home M = Some home"
    using cur by (cases "env_home M") (auto simp: currentSettings_def userHomeDir_def)
  let ?s = "device_fields server token deviceID deviceLabel old"
  obtain fs where fs: "writeSettings M (cfg_SettingsPath M) ?s w = (Inr (), w\<lparr>w_files := fs\<rparr>)"
    "map_option fst (map_of fs (cfg_SettingsPath M)) = Some (NotJson (cfg_toml_encode M ?s))"
    using writeSettings_eval [OF assms(3)] by blast
  have run: "s = ?s" "M' = with_cloud ?s M" "w' = w\<lparr>w_files := fs\<rparr>"
    using assms(5) cur fs(1) by (auto simp: UpdateDeviceSettings_def store_cloud_def split: if_splits)
  have "currentSettings M' w' = (Inr (read_back M' home ?s), w')"
    by (rule written_settings) (use assms(1,3) home fs(2) in \<open>simp_all add: run\<close>)
  moreover have "applyEnvironmentOverrides M' x = x" for x
    using assms(2) by (intro overrides_none) (simp add: run)
  ultimately have "DeviceSettings M' w' = (Inr (read_back M' home ?s), w')" by (simp add: DeviceSettings_def)
  then show ?thesis by (simp add: read_back_def expand_settings_def device_fields_def)
qed

text \<open>The settings page writes the mirrored settings, in which the device has no identity.\<close>

lemma Ensure_calm: "w_faults w = [] \<Longrightarrow> Ensure M w = (r, w') \<Longrightarrow> \<not> postgres_mode M \<Longrightarrow> w' = w"
  by (simp add: Ensure_def)

lemma settings_page_forgets:
  assumes "toml_faithful M" "no_overrides M" "w_faults w = []" "trim_space (m_DatabaseURL M) = []"
    and "UpdateSettings M liveCodexHome accountsDir w = (Inr (Inr s, M'), w')"
  shows "\<exists>new. DeviceSettings M' w' = (Inr new, w') \<and> set_DeviceID new = [] \<and> set_DeviceLabel new = []"
proof -
  obtain home where home: "env_home M = Some home"
    using assms(5) by (cases "env_home M") (auto simp: UpdateSettings_def)
  define t where "t = (let s = mirrored M;
       s = (if trim_space liveCodexHome \<noteq> [] then s\<lparr>set_LiveCodexHome := expandPath liveCodexHome home\<rparr> else s)
     in if trim_space accountsDir \<noteq> [] then s\<lparr>set_AccountsDir := expandPath accountsDir home\<rparr> else s)"
  have blank: "set_DeviceID t = []" "set_DeviceLabel t = []" "set_DatabaseURL t = m_DatabaseURL M"
    by (simp_all add: t_def mirrored_def Let_def)
  obtain fs where fs: "writeSettings M (cfg_SettingsPath M) t w = (Inr (), w\<lparr>w_files := fs\<rparr>)"
    "map_option fst (map_of fs (cfg_SettingsPath M)) = Some (NotJson (cfg_toml_encode M t))"
    using writeSettings_eval [OF assms(3)] by blast
  have "\<not> postgres_mode (with_settings t M)"
    using assms(4) by (simp add: postgres_mode_def with_settings_def blank)
  then have "Ensure (with_settings t M) (w\<lparr>w_files := fs\<rparr>) = (Inr (), w\<lparr>w_files := fs\<rparr>)"
    using assms(3) by (simp add: Ensure_def)
  moreover have "(if paths_missing t then returnE (Inl no_paths, M) else store_settings M t) w = (Inr (Inr s, M'), w')"
    using assms(5) unfolding UpdateSettings_def home option.case t_def Let_def .
  ultimately have run: "M' = with_settings t M" "w' = w\<lparr>w_files := fs\<rparr>"
    using fs(1) by (auto simp: store_settings_def split: if_splits)
  have "currentSettings M' w' = (Inr (read_back M' home t), w')"
    by (rule written_settings) (use assms(1,3) home fs(2) in \<open>simp_all add: run\<close>)
  moreover have "applyEnvironmentOverrides M' x = x" for x
    using assms(2) by (intro overrides_none) (simp add: run)
  ultimately have "DeviceSettings M' w' = (Inr (read_back M' home t), w')" by (simp add: DeviceSettings_def)
  then show ?thesis by (simp add: read_back_def expand_settings_def blank)
qed

end
