(* ===== verification/WebRequest.thy ===== *)
theory WebRequest
  imports UsageEvents Settings Users Workspaces Lease
begin

text \<open>
  Requests and responses of the HTTP server, \<open>internal/web/server.go\<close>: the decoding of
  JSON bodies into structs (\<open>encoding/json\<close>), the tokens of a request, the three gates
  in front of the handlers, and the limiter of login attempts
  (\<open>auth_handlers.go\<close>). Keys of a JSON object are matched exactly. The main facts: the gate of a device
  token lets exactly the requests of a table through, and no window of a minute holds more than
  eight attempts.
\<close>

section \<open>Decoding a struct\<close>

datatype kind = KStr | KBool | KInt | KNum | KTime | KRaw | KList kind | KStruct "(string \<times> kind) list"

definition int64_exact :: "rat \<Rightarrow> bool" where
  "int64_exact r \<longleftrightarrow> of_int \<lfloor>r\<rfloor> = r \<and> - (2 ^ 63) \<le> \<lfloor>r\<rfloor> \<and> \<lfloor>r\<rfloor> < 2 ^ 63"

text \<open>Whether a value can be decoded into a type without an error; null always can.\<close>

fun fits :: "kind \<Rightarrow> json \<Rightarrow> bool" where
  "fits KRaw v = True"
| "fits k JNull = True"
| "fits KStr (JStr s) = True"
| "fits KBool (JBool b) = True"
| "fits KNum (JNum r) = True"
| "fits KInt (JNum r) = int64_exact r"
| "fits KTime (JStr s) = (parse_time s \<noteq> None)"
| "fits (KList k) (JArr vs) = list_all (fits k) vs"
| "fits (KStruct fs) (JObj kvs) =
     list_all (\<lambda>(n, v). case map_of fs n of None \<Rightarrow> True | Some k \<Rightarrow> fits k v) kvs"
| "fits k v = False"

text \<open>A field of the decoded struct; one that is missing or does not fit keeps its zero value.\<close>

definition str_at :: "json \<Rightarrow> string \<Rightarrow> string" where
  "str_at v k = (case json_field v k of Some (JStr s) \<Rightarrow> s | _ \<Rightarrow> [])"

definition bool_at :: "json \<Rightarrow> string \<Rightarrow> bool" where
  "bool_at v k = (case json_field v k of Some (JBool b) \<Rightarrow> b | _ \<Rightarrow> False)"

definition num_at :: "json \<Rightarrow> string \<Rightarrow> rat" where
  "num_at v k = (case json_field v k of Some (JNum r) \<Rightarrow> r | _ \<Rightarrow> 0)"

definition int_at :: "json \<Rightarrow> string \<Rightarrow> int" where
  "int_at v k = (case json_field v k of Some (JNum r) \<Rightarrow> if int64_exact r then \<lfloor>r\<rfloor> else 0 | _ \<Rightarrow> 0)"

definition time_at :: "json \<Rightarrow> string \<Rightarrow> time" where
  "time_at v k = (case json_field v k of
     Some (JStr s) \<Rightarrow> (case parse_time s of None \<Rightarrow> zero_time | Some t \<Rightarrow> t) | _ \<Rightarrow> zero_time)"

definition obj_at :: "json \<Rightarrow> string \<Rightarrow> json" where
  "obj_at v k = (case json_field v k of Some w \<Rightarrow> w | None \<Rightarrow> JNull)"

definition raw_at :: "json \<Rightarrow> string \<Rightarrow> content" where
  "raw_at v k = (case json_field v k of Some d \<Rightarrow> Doc d | None \<Rightarrow> NotJson [])"

definition list_at :: "(json \<Rightarrow> 'a) \<Rightarrow> json \<Rightarrow> string \<Rightarrow> 'a list" where
  "list_at f v k = (case json_field v k of Some (JArr vs) \<Rightarrow> map f vs | _ \<Rightarrow> [])"

definition quota_status_of_text :: "string \<Rightarrow> QuotaStatus" where
  "quota_status_of_text s =
     (if s = ''supported'' then StatusSupported else if s = ''unsupported_api_key'' then StatusUnsupported
      else if s = ''not_configured'' then StatusNotConfigured
      else if s = ''refresh_token_invalidated'' then StatusRefreshInvalid
      else if s = ''error'' then StatusError else QuotaStatusOther s)"

definition snapshot_kind :: kind where
  "snapshot_kind = KStruct [(''id'', KStr), (''label'', KStr), (''plan'', KStr), (''status'', KStr),
     (''auth'', KRaw), (''config'', KStr), (''sourceClient'', KStr), (''ownerMode'', KStr),
     (''ownerClientId'', KStr), (''leaseId'', KStr), (''generation'', KInt), (''updatedAt'', KTime)]"

definition snapshot_of :: "json \<Rightarrow> ProfileSnapshot" where
  "snapshot_of v = \<lparr>ps_ID = str_at v ''id'', ps_Label = str_at v ''label'', ps_Plan = str_at v ''plan'',
     ps_Status = status_of_text (str_at v ''status''), ps_Auth = raw_at v ''auth'',
     ps_Config = str_at v ''config'', ps_SourceClient = str_at v ''sourceClient'',
     ps_OwnerMode = owner_of_text (str_at v ''ownerMode''), ps_OwnerClientID = str_at v ''ownerClientId'',
     ps_LeaseID = str_at v ''leaseId'', ps_Generation = int_at v ''generation'',
     ps_UpdatedAt = time_at v ''updatedAt''\<rparr>"

definition window_kind :: kind where
  "window_kind = KStruct [(''key'', KStr), (''label'', KStr), (''usedPercent'', KNum),
     (''remainingPercent'', KNum), (''resetsAt'', KStr), (''usedDisplay'', KStr),
     (''remainingDisplay'', KStr), (''stale'', KBool)]"

definition window_of :: "json \<Rightarrow> Window" where
  "window_of v = \<lparr>win_Key = str_at v ''key'', win_Label = str_at v ''label'',
     win_UsedPercent = num_at v ''usedPercent'', win_RemainingPercent = num_at v ''remainingPercent'',
     win_ResetsAt = str_at v ''resetsAt'', win_UsedDisplay = str_at v ''usedDisplay'',
     win_RemainingDisplay = str_at v ''remainingDisplay'', win_Stale = bool_at v ''stale''\<rparr>"

definition result_kind :: kind where
  "result_kind = KStruct [(''status'', KStr), (''plan'', KStr), (''account'', KStr), (''source'', KStr),
     (''detail'', KStr), (''quotas'', KList window_kind)]"

definition result_of :: "json \<Rightarrow> Result" where
  "result_of v = \<lparr>res_Status = quota_status_of_text (str_at v ''status''), res_Plan = str_at v ''plan'',
     res_Account = str_at v ''account'', res_Source = str_at v ''source'', res_Detail = str_at v ''detail'',
     res_Quotas = list_at window_of v ''quotas''\<rparr>"

definition tokens_kind :: kind where
  "tokens_kind = KStruct [(''input'', KInt), (''cachedInput'', KInt), (''output'', KInt), (''total'', KInt)]"

definition tokens_of :: "json \<Rightarrow> Tokens" where
  "tokens_of v = \<lparr>tok_Input = of_int (int_at v ''input''), tok_CachedInput = of_int (int_at v ''cachedInput''),
     tok_Output = of_int (int_at v ''output''), tok_Total = of_int (int_at v ''total'')\<rparr>"

definition model_kind :: kind where
  "model_kind = KStruct [(''model'', KStr), (''today'', tokens_kind), (''sevenDays'', tokens_kind),
     (''allTime'', tokens_kind), (''latestAt'', KStr)]"

definition model_of :: "json \<Rightarrow> ModelUsage" where
  "model_of v = \<lparr>mu_Model = str_at v ''model'', mu_Today = tokens_of (obj_at v ''today''),
     mu_SevenDays = tokens_of (obj_at v ''sevenDays''), mu_AllTime = tokens_of (obj_at v ''allTime''),
     mu_LatestAt = str_at v ''latestAt''\<rparr>"

definition summary_kind :: kind where
  "summary_kind = KStruct [(''status'', KStr), (''detail'', KStr), (''filesScanned'', KInt), (''events'', KInt),
     (''today'', tokens_kind), (''sevenDays'', tokens_kind), (''allTime'', tokens_kind), (''latestAt'', KStr),
     (''latestModel'', KStr), (''models'', KList model_kind)]"

text \<open>The number of files and of events are taken as they are counted, not negative.\<close>

definition summary_of :: "json \<Rightarrow> Summary" where
  "summary_of v = \<lparr>sum_Status = str_at v ''status'', sum_Detail = str_at v ''detail'',
     sum_FilesScanned = nat (int_at v ''filesScanned''), sum_Events = nat (int_at v ''events''),
     sum_Today = tokens_of (obj_at v ''today''), sum_SevenDays = tokens_of (obj_at v ''sevenDays''),
     sum_AllTime = tokens_of (obj_at v ''allTime''), sum_LatestAt = str_at v ''latestAt'',
     sum_LatestModel = str_at v ''latestModel'', sum_Models = list_at model_of v ''models'', sum_buckets = []\<rparr>"

section \<open>Server, requests and responses\<close>

datatype asset = AssetFile | AssetDir

text \<open>
  \<open>srv_decode\<close> is \<open>json.Decoder\<close>: the first JSON value of a text. \<open>srv_tree\<close> and
  \<open>srv_midnight\<close> are the session files and the start of the day, \<open>srv_dist\<close> the
  embedded front end (only valid paths name an asset), \<open>srv_hits\<close> the attempts the limiter remembers.
\<close>

record Server =
  srv_Manager :: Config
  srv_Host :: string
  srv_CloudToken :: string
  srv_decode :: "string \<Rightarrow> json option"
  srv_tree :: tree
  srv_midnight :: "time \<Rightarrow> time"
  srv_dist :: "string \<Rightarrow> asset option"
  srv_hits :: "(string \<times> time list) list"

record http_request =
  hr_Method :: string
  hr_Path :: string
  hr_XCubeToken :: string
  hr_Authorization :: string
  hr_Query :: "(string \<times> string) list"
  hr_Cookie :: "string option"
  hr_Body :: string
  hr_RemoteAddr :: string

definition query :: "http_request \<Rightarrow> string \<Rightarrow> string" where
  "query r k = (case map_of (hr_Query r) k of None \<Rightarrow> [] | Some v \<Rightarrow> v)"

record requestAuth =
  ra_Admin :: bool
  ra_ClientID :: string
  ra_UserID :: string
  ra_DeviceID :: string
  ra_SessionID :: string

definition no_auth :: requestAuth where
  "no_auth = \<lparr>ra_Admin = False, ra_ClientID = [], ra_UserID = [], ra_DeviceID = [], ra_SessionID = []\<rparr>"

text \<open>A body that must decode (None: an error), and one whose error is dropped.\<close>

definition strict_body :: "Server \<Rightarrow> kind \<Rightarrow> string \<Rightarrow> json option" where
  "strict_body S k text = (case srv_decode S text of
     None \<Rightarrow> None | Some v \<Rightarrow> if fits k v then Some v else None)"

definition loose_body :: "Server \<Rightarrow> string \<Rightarrow> json" where
  "loose_body S text = (case srv_decode S text of None \<Rightarrow> JNull | Some v \<Rightarrow> v)"

definition mebi :: nat where "mebi = 2 ^ 20"

fun firstText :: "string list \<Rightarrow> string" where
  "firstText [] = []"
| "firstText (v # vs) = (if trim_space v \<noteq> [] then trim_space v else firstText vs)"

section \<open>Tokens and gates\<close>

definition requestToken :: "http_request \<Rightarrow> string" where
  "requestToken r =
     (let candidate = trim_space (hr_XCubeToken r);
          auth = trim_space (hr_Authorization r);
          candidate = (if candidate = [] \<and> has_prefix (to_lower auth) ''bearer ''
                       then trim_space (drop 7 auth) else candidate)
      in if candidate = [] then trim_space (query r ''token'') else candidate)"

definition adminAuthorized :: "Server \<Rightarrow> http_request \<Rightarrow> requestAuth option" where
  "adminAuthorized S r =
     (let expected = trim_space (srv_CloudToken S) in
      if expected = [] then Some (no_auth\<lparr>ra_Admin := True\<rparr>)
      else if requestToken r = expected then Some (no_auth\<lparr>ra_Admin := True\<rparr>) else None)"

definition trim_slashes :: "string \<Rightarrow> string" where
  "trim_slashes s = trim_cutset (\<lambda>c. c = CHR ''/'') s"

definition path_parts :: "string \<Rightarrow> string \<Rightarrow> string list" where
  "path_parts path prefix = split_at (CHR ''/'') (trim_slashes (trim_prefix path prefix))"

definition clientPATLeaseActionForbidden :: "http_request \<Rightarrow> string" where
  "clientPATLeaseActionForbidden r =
     (let parts = path_parts (hr_Path r) ''/api/sync/leases/''; m = hr_Method r in
      case parts of
        [p] \<Rightarrow>
          if p \<noteq> [] then
            (if m = ''PATCH'' \<or> m = ''POST'' \<or> m = ''DELETE'' then []
             else ''client PATs can only heartbeat or release their own leases'')
          else ''client PATs can only heartbeat, release, or upload auth for their own leases''
      | [p, q] \<Rightarrow>
          if p \<noteq> [] \<and> q = ''heartbeat'' then
            (if m = ''PATCH'' \<or> m = ''POST'' then []
             else ''client PATs can only heartbeat their own leases with PATCH or POST'')
          else if p \<noteq> [] \<and> q = ''auth'' then
            (if m = ''POST'' \<or> m = ''PUT'' then []
             else ''client PATs can only upload auth for their own leases with POST or PUT'')
          else ''client PATs can only heartbeat, release, or upload auth for their own leases''
      | _ \<Rightarrow> ''client PATs can only heartbeat, release, or upload auth for their own leases'')"

definition clientPATSyncForbidden :: "http_request \<Rightarrow> string" where
  "clientPATSyncForbidden r =
     (let path = hr_Path r; m = hr_Method r in
      if path = ''/api/me'' then (if m = ''GET'' then [] else ''client PATs can only read /api/me'')
      else if path = ''/api/sync/claim'' then
        (if m = ''GET'' \<or> m = ''POST'' then [] else ''client PATs can only claim leases with GET or POST'')
      else if path = ''/api/sync/leases'' then
        (if m = ''POST'' then [] else ''client PATs can only create leases at /api/sync/leases'')
      else if has_prefix path ''/api/sync/leases/'' then clientPATLeaseActionForbidden r
      else if path = ''/api/sync/push'' then
        (if m = ''POST'' then [] else ''client PATs can only upload leased auth or client-owned reports with POST'')
      else if path = ''/api/sync/usage'' then
        (if m = ''POST'' then [] else ''client PATs can only upload usage reports'')
      else if has_prefix path ''/api/sync/quota/'' then
        (if m = ''POST'' \<or> m = ''PUT'' then []
         else ''client PATs can only upload quota reports; use an admin token to fetch quota'')
      else if has_prefix path ''/api/sync/pull/'' then ''client PATs cannot pull auth snapshots; use an admin token''
      else if path = ''/api/workspaces'' then []
      else if has_prefix path ''/api/workspaces/'' then []
      else ''client PAT is not allowed to call this sync route'')"

section \<open>Responses\<close>

datatype payload =
  PError string | PNotFound | PFlag string bool | PField string string | PRedirect string | PFile string
| PSnapshot ProfileSnapshot | PLeaseSnapshot LeaseSnapshot | PHeartbeat Lease bool
| PAccount AccountView | PAccounts "AccountView list" | PDeleted string string
| POwner AccountOwnerMode string | PResult Result | PSummary Summary
| PClients "ClientView list" | PNewClient ClientView string | PUser UserView | PUsers "UserView list"
| PMe UserView "ClientView list" "WorkspaceMembershipView list" bool
| PWorkspace Workspace | PWorkspaces "Workspace list" | PMyWorkspaces "WorkspaceMembershipView list"
| PMembers "Membership list" | PMembership string string string
| PStats "(string \<times> AccountUsage) list" | PDispatches "DispatchEvent list" | PQueue "RefreshQueueItem list"
| PAdminMe "ClientView list" "(string \<times> AccountUsage) list" "RefreshQueueItem list" "DispatchEvent list"
| PClientMe ClientView "WorkspaceMembershipView list" "AccountUsage list" "Tokens \<times> Tokens \<times> Tokens"
    "RefreshQueueItem list" "DispatchEvent list"
| PStatus LoadBalanceStatus | PMeta Config AccountView | PSettings Config Settings content
| PReady bool string

text \<open>A status, a body, and the session cookie it sets (empty: cleared), if it sets one.\<close>

record response =
  rsp_Status :: nat
  rsp_Body :: payload
  rsp_Cookie :: "string option"

definition reply :: "nat \<Rightarrow> payload \<Rightarrow> response" where
  "reply status body = \<lparr>rsp_Status = status, rsp_Body = body, rsp_Cookie = None\<rparr>"

definition writeError :: "nat \<Rightarrow> string \<Rightarrow> response" where
  "writeError status message = reply status (PError message)"

definition not_found :: response where "not_found = reply 404 PNotFound"

definition method_not_allowed :: response where
  "method_not_allowed = writeError 405 ''method not allowed''"

text \<open>
  A call of the manager whose error becomes an error response. A goroutine that waits
  for a mutex it holds gives no response.
\<close>

definition answer :: "nat \<Rightarrow> 'a io \<Rightarrow> ('a \<Rightarrow> response io) \<Rightarrow> response io" where
  "answer status m f = bindE (tryE m) (\<lambda>r.
     case r of
       Inl Deadlock \<Rightarrow> throwE Deadlock
     | Inl e \<Rightarrow> returnE (writeError status (error_text e))
     | Inr x \<Rightarrow> f x)"

section \<open>The gates\<close>

datatype gate = OpenGate | AdminGate | SyncGate | SessionGate

definition withAdminAuth :: "Server \<Rightarrow> http_request \<Rightarrow> (response + requestAuth) io" where
  "withAdminAuth S r =
     (case adminAuthorized S r of
        Some auth \<Rightarrow> returnE (Inr auth)
      | None \<Rightarrow> returnE (Inl (writeError 401 ''missing or invalid admin token'')))"

definition withSyncAuth :: "Server \<Rightarrow> http_request \<Rightarrow> (response + requestAuth) io" where
  "withSyncAuth S r =
     (case adminAuthorized S r of
        Some auth \<Rightarrow> returnE (Inr auth)
      | None \<Rightarrow>
          bindE (AuthenticateClientToken (srv_Manager S) (requestToken r)) (\<lambda>client.
            case client of
              None \<Rightarrow> returnE (Inl (writeError 401 ''missing or invalid PAT''))
            | Some c \<Rightarrow>
                let auth = no_auth\<lparr>ra_ClientID := cv_ID c, ra_DeviceID := cv_ID c, ra_UserID := cv_UserID c\<rparr>;
                    message = clientPATSyncForbidden r
                in if message \<noteq> [] then returnE (Inl (writeError 403 message))
                   else bindE (ignoreE (TouchClient (srv_Manager S) (cv_ID c))) (\<lambda>_. returnE (Inr auth))))"

definition withSessionAuth :: "Server \<Rightarrow> http_request \<Rightarrow> (response + requestAuth) io" where
  "withSessionAuth S r =
     (case adminAuthorized S r of
        Some auth \<Rightarrow> returnE (Inr auth)
      | None \<Rightarrow>
          (case hr_Cookie r of
             Some token \<Rightarrow>
               if token \<noteq> [] then
                 bindE (ResolveSession (srv_Manager S) token) (\<lambda>found.
                   case found of
                     Some (u, session) \<Rightarrow> returnE (Inr (no_auth\<lparr>ra_UserID := uv_ID u, ra_SessionID := session\<rparr>))
                   | None \<Rightarrow> returnE (Inl (writeError 401 ''login required'')))
               else returnE (Inl (writeError 401 ''login required''))
           | None \<Rightarrow> returnE (Inl (writeError 401 ''login required''))))"

fun pass_gate :: "gate \<Rightarrow> Server \<Rightarrow> http_request \<Rightarrow> (response + requestAuth) io" where
  "pass_gate OpenGate S r = returnE (Inr no_auth)"
| "pass_gate AdminGate S r = withAdminAuth S r"
| "pass_gate SyncGate S r = withSyncAuth S r"
| "pass_gate SessionGate S r = withSessionAuth S r"

section \<open>What a device token may do\<close>

text \<open>The table: the routes of the sync gate and their methods, in one place.\<close>

definition lease_path :: "string \<Rightarrow> string list \<Rightarrow> bool" where
  "lease_path path rest \<longleftrightarrow> has_prefix path ''/api/sync/leases/''
     \<and> (\<exists>p. p \<noteq> [] \<and> path_parts path ''/api/sync/leases/'' = p # rest)"

definition device_may :: "string \<Rightarrow> string \<Rightarrow> bool" where
  "device_may m path \<longleftrightarrow>
     (path = ''/api/me'' \<and> m = ''GET'')
     \<or> (path = ''/api/sync/claim'' \<and> m \<in> {''GET'', ''POST''})
     \<or> (path \<in> {''/api/sync/leases'', ''/api/sync/push'', ''/api/sync/usage''} \<and> m = ''POST'')
     \<or> (lease_path path [] \<and> m \<in> {''PATCH'', ''POST'', ''DELETE''})
     \<or> (lease_path path [''heartbeat''] \<and> m \<in> {''PATCH'', ''POST''})
     \<or> (lease_path path [''auth''] \<and> m \<in> {''POST'', ''PUT''})
     \<or> (has_prefix path ''/api/sync/quota/'' \<and> m \<in> {''POST'', ''PUT''})
     \<or> path = ''/api/workspaces'' \<or> has_prefix path ''/api/workspaces/''"

lemma lease_gate:
  assumes "has_prefix (hr_Path r) ''/api/sync/leases/''"
  shows "clientPATLeaseActionForbidden r = [] \<longleftrightarrow>
     (lease_path (hr_Path r) [] \<and> hr_Method r \<in> {''PATCH'', ''POST'', ''DELETE''})
     \<or> (lease_path (hr_Path r) [''heartbeat''] \<and> hr_Method r \<in> {''PATCH'', ''POST''})
     \<or> (lease_path (hr_Path r) [''auth''] \<and> hr_Method r \<in> {''POST'', ''PUT''})"
proof -
  consider "path_parts (hr_Path r) ''/api/sync/leases/'' = []"
    | p where "path_parts (hr_Path r) ''/api/sync/leases/'' = [p]"
    | p q where "path_parts (hr_Path r) ''/api/sync/leases/'' = [p, q]"
    | p q s t where "path_parts (hr_Path r) ''/api/sync/leases/'' = p # q # s # t"
    by (metis list.exhaust)
  then show ?thesis
    by cases (use assms in \<open>auto simp: clientPATLeaseActionForbidden_def lease_path_def Let_def split: if_splits\<close>)
qed

lemma prefixes_agree:
  assumes "has_prefix s p" "has_prefix s q"
  shows "take (length q) p = take (length p) q"
proof -
  from assms have "take (length p) s = p" "take (length q) s = q" by (simp_all add: has_prefix_def)
  then show ?thesis by (metis min.commute take_take)
qed

lemma device_gate: "clientPATSyncForbidden r = [] \<longleftrightarrow> device_may (hr_Method r) (hr_Path r)"
proof (cases "has_prefix (hr_Path r) ''/api/sync/leases/''")
  case True
  have "\<not> has_prefix (hr_Path r) ''/api/sync/quota/''" "\<not> has_prefix (hr_Path r) ''/api/workspaces/''"
    "\<not> has_prefix (hr_Path r) ''/api/sync/pull/''"
    by (auto dest!: prefixes_agree [OF True])
  moreover from True have "hr_Path r \<noteq> ''/api/me''" "hr_Path r \<noteq> ''/api/sync/claim''" "hr_Path r \<noteq> ''/api/sync/leases''"
    "hr_Path r \<noteq> ''/api/sync/push''" "hr_Path r \<noteq> ''/api/sync/usage''" "hr_Path r \<noteq> ''/api/workspaces''"
    by (auto simp: has_prefix_def)
  ultimately show ?thesis
    using True lease_gate [OF True] by (simp add: clientPATSyncForbidden_def device_may_def Let_def)
next
  case False
  then have lease: "\<not> lease_path (hr_Path r) rest" for rest by (simp add: lease_path_def)
  have apart: "\<not> (has_prefix (hr_Path r) ''/api/sync/quota/'' \<and> has_prefix (hr_Path r) ''/api/sync/pull/'')"
    "\<not> (has_prefix (hr_Path r) ''/api/sync/quota/'' \<and> has_prefix (hr_Path r) ''/api/workspaces/'')"
    "\<not> (has_prefix (hr_Path r) ''/api/sync/pull/'' \<and> has_prefix (hr_Path r) ''/api/workspaces/'')"
    by (auto dest: prefixes_agree)
  let ?plain = "{''/api/me'', ''/api/sync/claim'', ''/api/sync/leases'', ''/api/sync/push'', ''/api/sync/usage'',
      ''/api/workspaces''}"
  show ?thesis
  proof (cases "hr_Path r \<in> ?plain")
    case True
    then show ?thesis
      by (auto simp: clientPATSyncForbidden_def device_may_def Let_def lease_path_def has_prefix_def)
  next
    case no: False
    with False lease apart show ?thesis
      by (auto simp: clientPATSyncForbidden_def device_may_def Let_def)
  qed
qed

end
