(* ===== verification/LoginLimiter.thy ===== *)
theory LoginLimiter
  imports Io
begin

text \<open>
  \<open>loginLimiter\<close> of \<open>internal/web/auth_handlers.go\<close>: the attempts of the last minute are
  remembered per key, and at most eight of them are let through. The main fact: whatever
  attempts are made, no minute contains more than eight that were let through for one key.
\<close>

type_synonym hits = "(string \<times> time list) list"

definition limiter_max :: nat where "limiter_max = 8"

definition limiter_window :: duration where "limiter_window = minute"

definition kept_hits :: "hits \<Rightarrow> string \<Rightarrow> time \<Rightarrow> time list" where
  "kept_hits hits key now =
     filter (\<lambda>t. now - limiter_window < t) (case map_of hits key of None \<Rightarrow> [] | Some ts \<Rightarrow> ts)"

definition allow :: "string \<Rightarrow> time \<Rightarrow> hits \<Rightarrow> bool \<times> hits" where
  "allow key now hits =
     (let kept = kept_hits hits key now in
      if limiter_max \<le> length kept then (False, AList.update key kept hits)
      else (True, AList.update key (kept @ [now]) hits))"

text \<open>The attempts that are let through, of attempts in the order in which they are made.\<close>

fun let_through :: "hits \<Rightarrow> (string \<times> time) list \<Rightarrow> (string \<times> time) list" where
  "let_through hits [] = []"
| "let_through hits ((key, now) # as) =
     (let (ok, hits') = allow key now hits
      in (if ok then [(key, now)] else []) @ let_through hits' as)"

definition times_of :: "string \<Rightarrow> (string \<times> time) list \<Rightarrow> time list" where
  "times_of key as = map snd (filter (\<lambda>a. fst a = key) as)"

definition hits_of :: "hits \<Rightarrow> string \<Rightarrow> time list" where
  "hits_of hits key = (case map_of hits key of None \<Rightarrow> [] | Some ts \<Rightarrow> ts)"

lemma allow_hits:
  "hits_of (snd (allow key now hits)) key =
     (if fst (allow key now hits) then kept_hits hits key now @ [now] else kept_hits hits key now)"
  "k \<noteq> key \<Longrightarrow> hits_of (snd (allow key now hits)) k = hits_of hits k"
  by (simp_all add: allow_def Let_def hits_of_def update_conv')

lemma allow_room: "fst (allow key now hits) \<longleftrightarrow> length (kept_hits hits key now) < limiter_max"
  by (simp add: allow_def Let_def not_le)

definition in_window :: "time \<Rightarrow> time \<Rightarrow> bool" where
  "in_window t x \<longleftrightarrow> t - limiter_window < x \<and> x \<le> t"

text \<open>
  What is known when the last attempt was made at \<open>u\<close>: \<open>A\<close>, the times let through so
  far, are not later, the limiter remembers those that are younger than a minute, and no window is overfull.
\<close>

definition remembered :: "hits \<Rightarrow> string \<Rightarrow> time \<Rightarrow> time list \<Rightarrow> bool" where
  "remembered hits k u A \<longleftrightarrow>
     (\<forall>x \<in> set A. x \<le> u)
     \<and> (\<forall>v \<ge> u. filter (\<lambda>t. v - limiter_window < t) (hits_of hits k) = filter (\<lambda>t. v - limiter_window < t) A)
     \<and> (\<forall>t. length (filter (in_window t) A) \<le> limiter_max)"

lemma remembered_other:
  assumes "remembered hits k u A" "u \<le> now" "key \<noteq> k"
  shows "remembered (snd (allow key now hits)) k now A"
  using assms allow_hits(2) [of k key now hits] by (fastforce simp: remembered_def)

lemma remembered_step:
  assumes rem: "remembered hits k u A" and le: "u \<le> now"
  shows "remembered (snd (allow k now hits)) k now (if fst (allow k now hits) then A @ [now] else A)"
proof -
  have kept: "kept_hits hits k now = filter (\<lambda>t. now - limiter_window < t) A"
    using rem le by (simp add: remembered_def kept_hits_def hits_of_def)
  have later: "filter (\<lambda>t. v - limiter_window < t) (kept_hits hits k now) = filter (\<lambda>t. v - limiter_window < t) A"
    if "now \<le> v" for v
    unfolding kept filter_filter using that by (intro filter_cong) auto
  have early: "\<forall>x \<in> set A. x \<le> now" using rem le by (auto simp: remembered_def)
  show ?thesis
  proof (cases "fst (allow k now hits)")
    case False
    with rem early later show ?thesis by (simp add: remembered_def allow_hits)
  next
    case True
    then have room: "length (filter (\<lambda>t. now - limiter_window < t) A) < limiter_max"
      by (simp add: allow_room kept)
    have "length (filter (in_window t) (A @ [now])) \<le> limiter_max" for t
    proof (cases "now \<le> t")
      case True
      have "length (filter (in_window t) A) \<le> length (filter (\<lambda>x. now - limiter_window < x) A)"
      proof -
        have "filter (in_window t) A = filter (in_window t) (filter (\<lambda>x. now - limiter_window < x) A)"
          unfolding filter_filter using True by (intro filter_cong) (auto simp: in_window_def)
        then show ?thesis by (metis length_filter_le)
      qed
      with room show ?thesis by simp
    next
      case False
      then have "filter (in_window t) (A @ [now]) = filter (in_window t) A" by (simp add: in_window_def)
      with rem show ?thesis by (simp only: remembered_def)
    qed
    with True early later show ?thesis by (auto simp: remembered_def allow_hits)
  qed
qed

lemma let_through_window:
  assumes "remembered hits k u A" "sorted_wrt (\<le>) (u # map snd as)"
  shows "length (filter (in_window t) (A @ times_of k (let_through hits as))) \<le> limiter_max"
  using assms
proof (induction hits as arbitrary: u A rule: let_through.induct)
  case (1 hits)
  then show ?case by (simp add: remembered_def times_of_def)
next
  case (2 hits key now as)
  obtain ok hits' where step: "allow key now hits = (ok, hits')" by fastforce
  have sorted: "sorted_wrt (\<le>) (now # map snd as)" "u \<le> now" using 2(3) by auto
  let ?A = "if key = k \<and> ok then A @ [now] else A"
  have "remembered hits' k now ?A"
    using remembered_step [OF 2(2) sorted(2)] remembered_other [OF 2(2) sorted(2), of key] step
    by (cases "key = k") auto
  from 2(1) [OF step [symmetric] refl this sorted(1)] step show ?case
    by (auto simp: times_of_def split: if_splits)
qed

lemma limiter_bound:
  assumes "sorted (map snd as)"
  shows "length (filter (in_window t) (times_of k (let_through [] as))) \<le> 8"
proof (cases as)
  case Nil
  then show ?thesis by (simp add: times_of_def)
next
  case (Cons a rest)
  have "remembered [] k (snd a) []" by (simp add: remembered_def hits_of_def)
  moreover have "sorted_wrt (\<le>) (snd a # map snd as)" using assms by (simp add: Cons)
  ultimately show ?thesis using let_through_window [of "[]" k "snd a" "[]" as t] by (simp add: limiter_max_def)
qed

end
