(* ===== verification/WebHandlers.thy ===== *)
theory WebHandlers
  imports WebRequest QuotaRecord LoginLimiter
begin

text \<open>
  The handlers of \<open>internal/web\<close>: \<open>server.go\<close>, \<open>auth_handlers.go\<close>,
  \<open>device_handlers.go\<close>, \<open>workspace_handlers.go\<close> and \<open>health.go\<close>. A handler takes the
  server, who the gate found the caller to be, and the request; it ends with a
  response, and with the server when it may change it (settings, limiter). Log lines are not modelled.
\<close>

section \<open>Shared parts\<close>

text \<open>\<open>strconv.Atoi\<close>.\<close>

definition atoi :: "string \<Rightarrow> int option" where
  "atoi s =
     (let (neg, digits) = (case s of [] \<Rightarrow> (False, [])
            | c # cs \<Rightarrow> if c = CHR ''-'' then (True, cs) else if c = CHR ''+'' then (False, cs) else (False, s))
      in if digits = [] \<or> \<not> list_all is_digit digits then None
         else let n = int (read_nat digits 0); n = (if neg then - n else n)
              in if - (2 ^ 63) \<le> n \<and> n < 2 ^ 63 then Some n else None)"

definition zero_view :: "Account \<Rightarrow> AccountView" where
  "zero_view a = \<lparr>av_Account = a, av_AuthPresent = False, av_AuthPath = [], av_AuthUpdated = zero_time,
     av_ConfigPresent = False, av_ConfigPath = [], av_ConfigUpdated = zero_time, av_Active = False,
     av_LeaseActive = False\<rparr>"

definition ManagerAccountView :: "Server \<Rightarrow> Account \<Rightarrow> AccountView io" where
  "ManagerAccountView S a =
     bindE (tryE (AccountViewByID (srv_Manager S) (acc_ID a))) (\<lambda>r.
       returnE (case r of Inl _ \<Rightarrow> zero_view a | Inr v \<Rightarrow> v))"

definition reply_account :: "Server \<Rightarrow> nat \<Rightarrow> Account \<Rightarrow> response io" where
  "reply_account S status a = bindE (ManagerAccountView S a) (\<lambda>v. returnE (reply status (PAccount v)))"

definition userIsPlatformAdmin :: "requestAuth \<Rightarrow> bool" where
  "userIsPlatformAdmin auth = ra_Admin auth"

definition workspace_query :: "http_request \<Rightarrow> string" where
  "workspace_query r = trim_space (query r ''workspace'')"

definition only :: "string list \<Rightarrow> http_request \<Rightarrow> response io \<Rightarrow> response io" where
  "only methods r m = (if hr_Method r \<notin> set methods then returnE method_not_allowed else m)"

section \<open>Load balancing, dispatches, statistics\<close>

definition handleLBPick :: "Server \<Rightarrow> http_request \<Rightarrow> response io" where
  "handleLBPick S r = only [''POST'', ''GET''] r
     (answer 400 (SelectAccountForRun (srv_Manager S)) (\<lambda>v. reply_account S 200 (av_Account v)))"

definition handleLBStatus :: "Server \<Rightarrow> http_request \<Rightarrow> response io" where
  "handleLBStatus S r = only [''GET''] r
     (answer 400 (LoadBalanceStatus_op (srv_Manager S) (workspace_query r))
       (\<lambda>st. returnE (reply 200 (PStatus st))))"

definition handleLBReset :: "Server \<Rightarrow> http_request \<Rightarrow> response io" where
  "handleLBReset S r = only [''POST''] r
     (answer 400 (ResetRoundRobin (srv_Manager S)) (\<lambda>_.
      answer 400 (LoadBalanceStatus_op (srv_Manager S) (workspace_query r))
       (\<lambda>st. returnE (reply 200 (PStatus st)))))"

definition handleDispatches :: "Server \<Rightarrow> requestAuth \<Rightarrow> http_request \<Rightarrow> response io" where
  "handleDispatches S auth r = only [''GET''] r
     (if \<not> userIsPlatformAdmin auth then returnE (writeError 403 ''admin only'')
      else let raw = trim_space (query r ''limit'');
               list = (\<lambda>limit. answer 400 (DispatchHistory (srv_Manager S) limit [])
                 (\<lambda>es. returnE (reply 200 (PDispatches es))))
           in if raw = [] then list 50
              else case atoi raw of
                  None \<Rightarrow> returnE (writeError 400 ''invalid limit'')
                | Some n \<Rightarrow> list n)"

definition handleStats :: "Server \<Rightarrow> http_request \<Rightarrow> response io" where
  "handleStats S r = only [''GET''] r
     (answer 400 (UsageStats (srv_Manager S)) (\<lambda>us. returnE (reply 200 (PStats us))))"

definition handleRefreshQueue :: "Server \<Rightarrow> http_request \<Rightarrow> response io" where
  "handleRefreshQueue S r = only [''GET''] r
     (answer 400 (RefreshQueue (srv_Manager S)) (\<lambda>q. returnE (reply 200 (PQueue q))))"

section \<open>Settings\<close>

definition writeMeta :: "Server \<Rightarrow> response io" where
  "writeMeta S = bindE (LiveProfileView (srv_Manager S)) (\<lambda>live.
     returnE (reply 200 (PMeta (srv_Manager S) live)))"

definition handleMeta :: "Server \<Rightarrow> http_request \<Rightarrow> response io" where
  "handleMeta S r = only [''GET''] r (writeMeta S)"

definition settings_body_kind :: kind where
  "settings_body_kind = KStruct [(''liveCodexHome'', KStr), (''accountsDir'', KStr)]"

definition with_manager :: "Server \<Rightarrow> (error + 'a) \<times> Config \<Rightarrow> ('a \<Rightarrow> Server \<Rightarrow> response io) \<Rightarrow> (response \<times> Server) io" where
  "with_manager S rM f =
     (let S' = S\<lparr>srv_Manager := snd rM\<rparr> in
      case fst rM of
        Inl e \<Rightarrow> returnE (writeError 400 (error_text e), S')
      | Inr x \<Rightarrow> bindE (f x S') (\<lambda>rsp. returnE (rsp, S')))"

definition handleSettings :: "Server \<Rightarrow> http_request \<Rightarrow> (response \<times> Server) io" where
  "handleSettings S r =
     (let M = srv_Manager S in
      if hr_Method r = ''GET'' then
        bindE (answer 400 (ReadSettingsText M)
          (\<lambda>text. returnE (reply 200 (PSettings M (mirrored M) text)))) (\<lambda>rsp. returnE (rsp, S))
      else if hr_Method r = ''PATCH'' then
        (case strict_body S settings_body_kind (hr_Body r) of
           None \<Rightarrow> returnE (writeError 400 ''invalid json'', S)
         | Some body \<Rightarrow>
             bindE (UpdateSettings M (str_at body ''liveCodexHome'') (str_at body ''accountsDir'')) (\<lambda>rM.
               with_manager S rM (\<lambda>_. writeMeta)))
      else if hr_Method r = ''PUT'' then
        (case strict_body S (KStruct [(''settingsToml'', KStr)]) (hr_Body r) of
           None \<Rightarrow> returnE (writeError 400 ''invalid json'', S)
         | Some body \<Rightarrow>
             bindE (WriteSettingsText M (NotJson (str_at body ''settingsToml''))) (\<lambda>rM.
               with_manager S rM (\<lambda>s S'.
                 bindE (tryE (ReadSettingsText (srv_Manager S'))) (\<lambda>text.
                   returnE (reply 200 (PSettings (srv_Manager S') s
                     (case text of Inl _ \<Rightarrow> NotJson [] | Inr t \<Rightarrow> t)))))))
      else returnE (method_not_allowed, S))"

section \<open>Access to reports and workspaces\<close>

text \<open>None: the caller may go on.\<close>

definition requireAccountReportAccess :: "Server \<Rightarrow> requestAuth \<Rightarrow> string \<Rightarrow> response option io" where
  "requireAccountReportAccess S auth accountID =
     (if ra_Admin auth then returnE None
      else bindE (AccountWorkspace (srv_Manager S) accountID) (\<lambda>ws.
        case ws of
          None \<Rightarrow> returnE None
        | Some workspaceID \<Rightarrow>
            bindE (MembershipRole (srv_Manager S) workspaceID (ra_ClientID auth)) (\<lambda>role.
              returnE (if role = None
                then Some (writeError 403 ''account belongs to a workspace you are not a member of'') else None))))"

definition requireWorkspaceAdmin :: "Server \<Rightarrow> requestAuth \<Rightarrow> string \<Rightarrow> response option io" where
  "requireWorkspaceAdmin S auth workspaceID =
     (if ra_Admin auth then returnE None
      else bindE (MembershipRole (srv_Manager S) workspaceID (ra_ClientID auth)) (\<lambda>role.
        returnE (case role of
            None \<Rightarrow> Some (writeError 403 ''not a member of this workspace'')
          | Some x \<Rightarrow> if x \<noteq> RoleAdmin then Some (writeError 403 ''workspace admin role required'') else None)))"

definition unless :: "response option io \<Rightarrow> response io \<Rightarrow> response io" where
  "unless check m = bindE check (\<lambda>refused. case refused of Some rsp \<Rightarrow> returnE rsp | None \<Rightarrow> m)"

section \<open>The sync API\<close>

definition lease_blank :: "ProfileSnapshot \<Rightarrow> bool" where
  "lease_blank s \<longleftrightarrow> trim_space (ps_LeaseID s) = []"

text \<open>The guard on a device that pushes without a lease: a response that refuses it, or nothing.\<close>

definition push_guard :: "Server \<Rightarrow> requestAuth \<Rightarrow> ProfileSnapshot \<Rightarrow> response option io" where
  "push_guard S auth s =
     (if trim_space (ps_ID s) = [] \<or> ps_OwnerMode s \<noteq> OwnerClient
      then returnE (Some (writeError 403 ''client PATs can only push leased auth or their own client-owned report''))
      else bindE (tryE (GetAccount (srv_Manager S) (ps_ID s))) (\<lambda>existing.
        returnE (case existing of
            Inl _ \<Rightarrow> None
          | Inr a \<Rightarrow>
              if acc_OwnerMode a \<noteq> OwnerClient
              then Some (writeError 403 ''client PATs cannot replace cloud-owned auth'')
              else if acc_OwnerClientID a \<noteq> [] \<and> acc_OwnerClientID a \<noteq> ra_ClientID auth
              then Some (writeError 403 ''client PATs can only update accounts owned by the same client'')
              else None)))"

definition push_owner :: "requestAuth \<Rightarrow> ProfileSnapshot \<Rightarrow> ProfileSnapshot" where
  "push_owner auth s =
     (let s = (if \<not> ra_Admin auth \<and> lease_blank s
               then s\<lparr>ps_OwnerClientID := ra_ClientID auth, ps_SourceClient := ra_ClientID auth\<rparr> else s);
          s = (if ps_OwnerMode s = OwnerClient \<and> trim_space (ps_OwnerClientID s) = []
               then s\<lparr>ps_OwnerClientID := ra_ClientID auth\<rparr> else s)
      in if trim_space (ps_SourceClient s) = [] then s\<lparr>ps_SourceClient := ra_ClientID auth\<rparr> else s)"

definition push_lease_ttl :: duration where "push_lease_ttl = 90 * second"

definition push_store :: "Server \<Rightarrow> requestAuth \<Rightarrow> ProfileSnapshot \<Rightarrow> response io" where
  "push_store S auth s =
     (let M = srv_Manager S in
      if \<not> lease_blank s then
        answer 400 (UpdateLeasedProfileSnapshot M s (ra_ClientID auth) push_lease_ttl) (reply_account S 200)
      else
        let upsert = answer 400 (UpsertProfileSnapshot M s) (reply_account S 200) in
        if trim_space (ps_ID s) \<noteq> [] then
          answer 400 (AccountHasActiveLease M (ps_ID s)) (\<lambda>leased.
            if leased
            then returnE (writeError 409 ''account is currently leased; use the lease auth endpoint or wait for release'')
            else upsert)
        else upsert)"

definition handleSyncPush :: "Server \<Rightarrow> requestAuth \<Rightarrow> http_request \<Rightarrow> response io" where
  "handleSyncPush S auth r = only [''POST''] r
     (case strict_body S snapshot_kind (take (4 * mebi) (hr_Body r)) of
        None \<Rightarrow> returnE (writeError 400 ''invalid json'')
      | Some v \<Rightarrow>
          let s = snapshot_of v in
          unless (if \<not> ra_Admin auth \<and> lease_blank s then push_guard S auth s else returnE None)
            (push_store S auth (push_owner auth s)))"

definition refreshBeforeExport :: "Server \<Rightarrow> string \<Rightarrow> unit io" where
  "refreshBeforeExport S k = ignoreE (bindE (FetchQuota (srv_Manager S) k) (\<lambda>_. returnE ()))"

text \<open>An id from the rest of the path, or else from the query.\<close>

definition path_or_query :: "http_request \<Rightarrow> string \<Rightarrow> string" where
  "path_or_query r prefix =
     (let k = trim_slashes (trim_prefix (hr_Path r) prefix) in
      if k = [] then trim_space (query r ''id'') else k)"

definition handleSyncPull :: "Server \<Rightarrow> http_request \<Rightarrow> response io" where
  "handleSyncPull S r = only [''GET''] r
     (let k = path_or_query r ''/api/sync/pull/'' in
      if k = [] then returnE (writeError 400 ''missing account id'')
      else bindE (refreshBeforeExport S k) (\<lambda>_.
        answer 400 (ExportProfileSnapshot (srv_Manager S) k) (\<lambda>s. returnE (reply 200 (PSnapshot s)))))"

definition handleSyncClaim :: "Server \<Rightarrow> requestAuth \<Rightarrow> http_request \<Rightarrow> response io" where
  "handleSyncClaim S auth r = only [''POST'', ''GET''] r
     (let M = srv_Manager S in
      answer 400 (ResolveWorkspaceForClient M (ra_ClientID auth) (workspace_query r)) (\<lambda>ws.
      answer 400 (ClaimLease M (ra_ClientID auth) (firstText [ra_ClientID auth, hr_RemoteAddr r]) ws push_lease_ttl)
        (\<lambda>s. returnE (reply 200 (PSnapshot (ls_Snapshot s))))))"

definition ttl_of :: "json \<Rightarrow> duration" where
  "ttl_of body = wrap64 (int_at body ''ttlSeconds'' * second)"

definition handleSyncLeases :: "Server \<Rightarrow> requestAuth \<Rightarrow> http_request \<Rightarrow> response io" where
  "handleSyncLeases S auth r = only [''POST''] r
     (let M = srv_Manager S;
          body = loose_body S (take mebi (hr_Body r));
          clientID = trim_space (ra_ClientID auth);
          clientID = (if clientID = [] then trim_space (str_at body ''clientId'') else clientID);
          requested = firstText [trim_space (str_at body ''workspace''), workspace_query r];
          holder = firstText [str_at body ''holder'', str_at body ''client'', clientID, hr_RemoteAddr r]
      in answer 400 (ResolveWorkspaceForClient M clientID requested) (\<lambda>ws.
         answer 400 (ClaimLease M clientID holder ws (ttl_of body)) (\<lambda>s.
           returnE (reply 201 (PLeaseSnapshot s)))))"

text \<open>The windows a heartbeat reports: the list, or else the one window of older clients.\<close>

definition reported_windows :: "json \<Rightarrow> Window list" where
  "reported_windows body =
     (let windows = list_at window_of body ''quotas'' in
      if windows \<noteq> [] then windows
      else case json_field body ''fiveHour'' of
          Some (JObj kvs) \<Rightarrow> [window_of (JObj kvs)]
        | _ \<Rightarrow> [])"

definition heartbeatLease :: "Server \<Rightarrow> requestAuth \<Rightarrow> http_request \<Rightarrow> string \<Rightarrow> response io" where
  "heartbeatLease S auth r leaseID =
     (let M = srv_Manager S;
          body = loose_body S (take mebi (hr_Body r));
          accountID = trim_space (str_at body ''accountId'');
          windows = reported_windows body;
          result = zero_Result\<lparr>res_Status := StatusSupported, res_Quotas := windows\<rparr>
      in bindE nowE (\<lambda>now.
         bindE (whenE (windows \<noteq> [])
           (ignoreE (RecordLeasedQuota M accountID leaseID (ra_ClientID auth) result now))) (\<lambda>_.
         answer 400 (TouchLease M leaseID accountID (ra_ClientID auth)
             (firstText [str_at body ''holder'', str_at body ''client'']) (ttl_of body)) (\<lambda>lease.
         bindE (tryE (ShouldSwapLease M accountID)) (\<lambda>swap.
           returnE (reply 200 (PHeartbeat lease
             (if bool_at body ''rateLimitReached'' then True else (case swap of Inl _ \<Rightarrow> False | Inr b \<Rightarrow> b)))))))))"

definition handleSyncLeaseAction :: "Server \<Rightarrow> requestAuth \<Rightarrow> http_request \<Rightarrow> response io" where
  "handleSyncLeaseAction S auth r =
     (let M = srv_Manager S; parts = path_parts (hr_Path r) ''/api/sync/leases/'' in
      case parts of
        [] \<Rightarrow> returnE not_found
      | leaseID # rest \<Rightarrow>
          if leaseID = [] then returnE not_found
          else if rest = [] then
            (if hr_Method r = ''PATCH'' \<or> hr_Method r = ''POST'' then heartbeatLease S auth r leaseID
             else if hr_Method r = ''DELETE'' then
               answer 400 (ReleaseLease M (str_at (loose_body S (take mebi (hr_Body r))) ''accountId'')
                   leaseID (ra_ClientID auth)) (\<lambda>_.
                 returnE (reply 200 (PField ''released'' leaseID)))
             else returnE method_not_allowed)
          else if rest = [''heartbeat''] then
            (if hr_Method r \<noteq> ''POST'' \<and> hr_Method r \<noteq> ''PATCH'' then returnE method_not_allowed
             else heartbeatLease S auth r leaseID)
          else if rest = [''auth''] then
            (if hr_Method r \<noteq> ''POST'' \<and> hr_Method r \<noteq> ''PUT'' then returnE method_not_allowed
             else case strict_body S snapshot_kind (take (4 * mebi) (hr_Body r)) of
                 None \<Rightarrow> returnE (writeError 400 ''invalid json'')
               | Some v \<Rightarrow>
                   let s = snapshot_of v;
                       s = (if lease_blank s then s\<lparr>ps_LeaseID := leaseID\<rparr> else s)
                   in answer 400 (UpdateLeasedProfileSnapshot M s (ra_ClientID auth) push_lease_ttl)
                        (reply_account S 200))
          else returnE not_found)"

definition usage_body_kind :: kind where
  "usage_body_kind = KStruct [(''accountId'', KStr), (''leaseId'', KStr), (''runId'', KStr), (''usage'', summary_kind)]"

definition handleSyncUsage :: "Server \<Rightarrow> requestAuth \<Rightarrow> http_request \<Rightarrow> response io" where
  "handleSyncUsage S auth r = only [''POST''] r
     (case strict_body S usage_body_kind (take (8 * mebi) (hr_Body r)) of
        None \<Rightarrow> returnE (writeError 400 ''invalid json'')
      | Some body \<Rightarrow>
          let accountID = str_at body ''accountId'' in
          unless (requireAccountReportAccess S auth accountID)
            (answer 400 (RecordUsageWithContext (srv_Manager S) accountID (ra_ClientID auth)
                (str_at body ''leaseId'') (str_at body ''runId'') (summary_of (obj_at body ''usage'')))
              (\<lambda>_. returnE (reply 200 (PFlag ''ok'' True)))))"

definition quota_body_kind :: kind where
  "quota_body_kind = KStruct [(''result'', result_kind), (''quota'', result_kind)]"

text \<open>Decoding over a result that is there: a field that is missing keeps its value.\<close>

definition str_over :: "json \<Rightarrow> string \<Rightarrow> string \<Rightarrow> string" where
  "str_over v k old = (case json_field v k of Some (JStr s) \<Rightarrow> s | _ \<Rightarrow> old)"

definition result_over :: "Result \<Rightarrow> json \<Rightarrow> Result" where
  "result_over result v = \<lparr>
     res_Status = quota_status_of_text (str_over v ''status'' (quota_status_text (res_Status result))),
     res_Plan = str_over v ''plan'' (res_Plan result), res_Account = str_over v ''account'' (res_Account result),
     res_Source = str_over v ''source'' (res_Source result), res_Detail = str_over v ''detail'' (res_Detail result),
     res_Quotas = (case json_field v ''quotas'' of None \<Rightarrow> res_Quotas result | Some _ \<Rightarrow> list_at window_of v ''quotas'')\<rparr>"

text \<open>The result of a report: under \<open>result\<close>, under \<open>quota\<close>, or the body itself.\<close>

definition reported_result :: "json \<Rightarrow> Result option" where
  "reported_result body =
     (let result = result_of (obj_at body ''result'');
          result = (if res_Status result = NoQuota then result_of (obj_at body ''quota'') else result)
      in if res_Status result \<noteq> NoQuota then Some result
         else if fits result_kind body \<and> str_at body ''status'' \<noteq> []
              then Some (result_over result body) else None)"

text \<open>The answer of a probe: its result also when it failed, if it has a status.\<close>

definition reply_quota :: "Server \<Rightarrow> string \<Rightarrow> response io" where
  "reply_quota S k =
     answer 400 (FetchQuota (srv_Manager S) k) (\<lambda>(result, err).
       returnE (case err of
           None \<Rightarrow> reply 200 (PResult result)
         | Some e \<Rightarrow> if res_Status result \<noteq> NoQuota then reply 200 (PResult result)
                     else writeError 400 (error_text e)))"

definition handleSyncQuota :: "Server \<Rightarrow> requestAuth \<Rightarrow> http_request \<Rightarrow> response io" where
  "handleSyncQuota S auth r =
     (let k = path_or_query r ''/api/sync/quota/'' in
      if k = [] then returnE (writeError 400 ''missing account id'')
      else if hr_Method r = ''POST'' \<or> hr_Method r = ''PUT'' then
        (case env_json (srv_Manager S) (take (4 * mebi) (hr_Body r)) of
           None \<Rightarrow> returnE (writeError 400 ''invalid json'')
         | Some body \<Rightarrow>
             if \<not> fits quota_body_kind body then returnE (writeError 400 ''invalid json'')
             else case reported_result body of
                 None \<Rightarrow> returnE (writeError 400 ''quota report needs result.status'')
               | Some result \<Rightarrow>
                   unless (requireAccountReportAccess S auth k)
                     (answer 400 (RecordQuotaReport (srv_Manager S) k result (ra_ClientID auth))
                       (\<lambda>_. returnE (reply 200 (PField ''accountId'' k)))))
      else if hr_Method r \<noteq> ''GET'' then returnE method_not_allowed
      else reply_quota S k)"

section \<open>Clients and the caller\<close>

definition handleClients :: "Server \<Rightarrow> http_request \<Rightarrow> response io" where
  "handleClients S r =
     (let M = srv_Manager S in
      if hr_Method r = ''GET'' then answer 400 (ListClients M) (\<lambda>cs. returnE (reply 200 (PClients cs)))
      else if hr_Method r = ''POST'' then
        answer 400 (CreateClient M (str_at (loose_body S (take mebi (hr_Body r))) ''label''))
          (\<lambda>(c, token). returnE (reply 201 (PNewClient c token)))
      else returnE method_not_allowed)"

definition handleClientAction :: "Server \<Rightarrow> http_request \<Rightarrow> response io" where
  "handleClientAction S r = only [''DELETE''] r
     (let k = trim_slashes (trim_prefix (hr_Path r) ''/api/clients/'') in
      if k = [] then returnE (writeError 400 ''missing client id'')
      else answer 400 (RevokeClient (srv_Manager S) k) (\<lambda>_. returnE (reply 200 (PField ''revoked'' k))))"

text \<open>The usage entries of a client, with their accounts filled in, and their sums.\<close>

definition client_usage :: "string \<Rightarrow> (string \<times> AccountUsage) list \<Rightarrow> AccountUsage list" where
  "client_usage clientID stats =
     map (\<lambda>(k, u). if au_AccountID u = [] then u\<lparr>au_AccountID := k\<rparr> else u)
       (filter (\<lambda>ku. au_ClientID (snd ku) = clientID) stats)"

definition usage_totals :: "AccountUsage list \<Rightarrow> Tokens \<times> Tokens \<times> Tokens" where
  "usage_totals us = fold (\<lambda>u (a, b, c).
       (addUsageEventTokens a (au_Today u), addUsageEventTokens b (au_SevenDays u),
        addUsageEventTokens c (au_AllTime u))) us (zero_Tokens, zero_Tokens, zero_Tokens)"

definition handleMe :: "Server \<Rightarrow> requestAuth \<Rightarrow> http_request \<Rightarrow> response io" where
  "handleMe S auth r = only [''GET''] r
     (let M = srv_Manager S in
      answer 400 (ListClients M) (\<lambda>clients.
      answer 400 (UsageStats M) (\<lambda>stats.
      answer 400 (RefreshQueue M) (\<lambda>queue.
      answer 400 (DispatchHistory M 50 []) (\<lambda>dispatches.
        if ra_Admin auth then returnE (reply 200 (PAdminMe clients stats queue dispatches))
        else case find (\<lambda>c. cv_ID c = ra_ClientID auth) clients of
            None \<Rightarrow> returnE (writeError 401 ''client token is no longer active'')
          | Some current \<Rightarrow>
              if cv_ID current = [] then returnE (writeError 401 ''client token is no longer active'')
              else
                let us = client_usage (ra_ClientID auth) stats;
                    own = filter (\<lambda>i. rq_AccountID i \<in> set (map au_AccountID us)) queue in
                answer 400 (DispatchHistory M 50 (ra_ClientID auth)) (\<lambda>mine.
                answer 400 (ListWorkspacesForClient M (ra_ClientID auth)) (\<lambda>ws.
                  returnE (reply 200 (PClientMe current ws us (usage_totals us) own mine)))))))))"

section \<open>Accounts\<close>

definition handleAccounts :: "Server \<Rightarrow> http_request \<Rightarrow> response io" where
  "handleAccounts S r =
     (let M = srv_Manager S in
      if hr_Method r = ''GET'' then answer 500 (ListAccounts M) (\<lambda>vs. returnE (reply 200 (PAccounts vs)))
      else if hr_Method r = ''POST'' then
        (case strict_body S (KStruct [(''id'', KStr), (''label'', KStr)]) (hr_Body r) of
           None \<Rightarrow> returnE (writeError 400 ''invalid json'')
         | Some body \<Rightarrow>
             answer 400 (AddAccount M (str_at body ''id'') (str_at body ''label'')) (reply_account S 201))
      else returnE method_not_allowed)"

definition rawString :: "json option \<Rightarrow> string" where
  "rawString v = (case v of Some (JStr s) \<Rightarrow> trim_space s | _ \<Rightarrow> [])"

text \<open>A profile: the document under \<open>auth\<close> with its names and configuration, or the whole upload.\<close>

definition parseProfileUpload :: "Server \<Rightarrow> string \<Rightarrow> string + JSONProfile" where
  "parseProfileUpload S raw =
     (case env_json (srv_Manager S) raw of
        Some JNull \<Rightarrow> Inr \<lparr>jp_ID = [], jp_Label = [], jp_Auth = Doc JNull, jp_Config = []\<rparr>
      | Some (JObj kvs) \<Rightarrow>
          let root = JObj kvs; text = (\<lambda>k. rawString (json_field root k)) in
          (case json_field root ''auth'' of
             Some auth \<Rightarrow> Inr \<lparr>jp_ID = text ''id'', jp_Label = text ''label'', jp_Auth = Doc auth,
               jp_Config = firstText (map text [''config'', ''configToml'', ''config_toml'',
                 ''settings'', ''settingsToml'', ''settings_toml''])\<rparr>
           | None \<Rightarrow> Inr \<lparr>jp_ID = text ''id'', jp_Label = text ''label'', jp_Auth = Doc root, jp_Config = []\<rparr>)
      | _ \<Rightarrow> Inl ''invalid JSON'')"

definition handleImportJSON :: "Server \<Rightarrow> http_request \<Rightarrow> response io" where
  "handleImportJSON S r = only [''POST''] r
     (case parseProfileUpload S (take (2 * mebi) (hr_Body r)) of
        Inl e \<Rightarrow> returnE (writeError 400 e)
      | Inr p \<Rightarrow> answer 400 (ImportJSONProfile (srv_Manager S) p) (reply_account S 201))"

text \<open>A PATCH whose body must decode to the given strings.\<close>

definition patch_body :: "Server \<Rightarrow> http_request \<Rightarrow> string list \<Rightarrow> (json \<Rightarrow> response io) \<Rightarrow> response io" where
  "patch_body S r keys f = only [''PATCH''] r
     (case strict_body S (KStruct (map (\<lambda>k. (k, KStr)) keys)) (hr_Body r) of
        None \<Rightarrow> returnE (writeError 400 ''invalid json'')
      | Some body \<Rightarrow> f body)"

definition handleAccountAction :: "Server \<Rightarrow> http_request \<Rightarrow> response io" where
  "handleAccountAction S r =
     (let M = srv_Manager S; parts = path_parts (hr_Path r) ''/api/accounts/'' in
      case parts of
        [k] \<Rightarrow>
          if k \<noteq> [] then only [''DELETE''] r
            (answer 400 (DeleteAccount M k) (\<lambda>a. returnE (reply 200 (PDeleted (acc_ID a) (acc_CodexHome a)))))
          else returnE not_found
      | [k, action] \<Rightarrow>
          if action = ''label'' then patch_body S r [''label''] (\<lambda>b.
            answer 400 (SetLabel M k (str_at b ''label''))
              (\<lambda>_. returnE (reply 200 (PField ''label'' (str_at b ''label'')))))
          else if action = ''status'' then patch_body S r [''status''] (\<lambda>b.
            answer 400 (SetStatus M k (status_of_text (str_at b ''status'')))
              (\<lambda>_. returnE (reply 200 (PField ''status'' (str_at b ''status'')))))
          else if action = ''workspace'' then patch_body S r [''workspaceId''] (\<lambda>b.
            answer 400 (SetAccountWorkspace M k (str_at b ''workspaceId''))
              (\<lambda>_. returnE (reply 200 (PField ''workspaceId'' (str_at b ''workspaceId'')))))
          else if action = ''owner'' then patch_body S r [''ownerMode'', ''ownerClientId''] (\<lambda>b.
            answer 400 (SetOwner M k (owner_of_text (str_at b ''ownerMode'')) (str_at b ''ownerClientId''))
              (\<lambda>_. returnE (reply 200 (POwner (owner_of_text (str_at b ''ownerMode'')) (str_at b ''ownerClientId'')))))
          else if action = ''quota'' then only [''GET''] r (reply_quota S k)
          else if action = ''usage'' then only [''GET''] r
            (answer 400 (FetchUsage M (srv_midnight S) (srv_tree S) k) (\<lambda>s. returnE (reply 200 (PSummary s))))
          else returnE not_found
      | _ \<Rightarrow> returnE not_found)"

section \<open>Logins (auth_handlers.go)\<close>

text \<open>The host of \<open>host:port\<close>, or the address as it is.\<close>

definition clientIP :: "http_request \<Rightarrow> string" where
  "clientIP r =
     (let a = hr_RemoteAddr r; host = rev (drop 1 (dropWhile (\<lambda>c. c \<noteq> CHR '':'') (rev a))) in
      if CHR '':'' \<notin> set a then a
      else if has_prefix host ''['' \<and> has_suffix host '']'' then drop 1 (butlast host)
      else if CHR '':'' \<in> set host then a else host)"

definition with_cookie :: "string \<Rightarrow> response \<Rightarrow> response" where
  "with_cookie token rsp = rsp\<lparr>rsp_Cookie := Some token\<rparr>"

text \<open>What the two forms share: the limiter goes first, then the attempt.\<close>

definition limited :: "Server \<Rightarrow> string \<Rightarrow> response io \<Rightarrow> (response \<times> Server) io" where
  "limited S key attempt = bindE nowE (\<lambda>now.
     let (ok, hits) = allow key now (srv_hits S); S' = S\<lparr>srv_hits := hits\<rparr> in
     if \<not> ok then returnE (writeError 429 ''too many attempts, slow down'', S')
     else bindE attempt (\<lambda>rsp. returnE (rsp, S')))"

definition start_session :: "Server \<Rightarrow> nat \<Rightarrow> UserView \<Rightarrow> response io" where
  "start_session S status u =
     answer 500 (CreateSession (srv_Manager S) (uv_ID u)) (\<lambda>token.
       returnE (with_cookie token (reply status (PUser u))))"

definition handleAuthRegister :: "Server \<Rightarrow> http_request \<Rightarrow> (response \<times> Server) io" where
  "handleAuthRegister S r =
     (if hr_Method r \<noteq> ''POST'' then returnE (method_not_allowed, S)
      else let body = loose_body S (take mebi (hr_Body r)) in
        limited S (''reg:'' @ clientIP r)
          (answer 400 (CreateUser (srv_Manager S) (str_at body ''username'') (str_at body ''password''))
            (start_session S 201)))"

definition handleAuthLogin :: "Server \<Rightarrow> http_request \<Rightarrow> (response \<times> Server) io" where
  "handleAuthLogin S r =
     (if hr_Method r \<noteq> ''POST'' then returnE (method_not_allowed, S)
      else let body = loose_body S (take mebi (hr_Body r)) in
        limited S (''login:'' @ clientIP r)
          (bindE (AuthenticateUser (srv_Manager S) (str_at body ''username'') (str_at body ''password'')) (\<lambda>u.
             case u of
               None \<Rightarrow> returnE (writeError 401 ''invalid username or password'')
             | Some u \<Rightarrow> start_session S 200 u)))"

definition handleAuthLogout :: "Server \<Rightarrow> requestAuth \<Rightarrow> http_request \<Rightarrow> response io" where
  "handleAuthLogout S auth r = only [''POST''] r
     (bindE (whenE (ra_SessionID auth \<noteq> []) (ignoreE (DeleteSession (srv_Manager S) (ra_SessionID auth)))) (\<lambda>_.
       returnE (with_cookie [] (reply 200 (PFlag ''ok'' True)))))"

definition value_or :: "'a \<Rightarrow> 'a io \<Rightarrow> 'a io" where
  "value_or d m = bindE (tryE m) (\<lambda>r. returnE (case r of Inl _ \<Rightarrow> d | Inr x \<Rightarrow> x))"

definition handleAuthMe :: "Server \<Rightarrow> requestAuth \<Rightarrow> http_request \<Rightarrow> response io" where
  "handleAuthMe S auth r = only [''GET''] r
     (let M = srv_Manager S in
      if ra_UserID auth = [] then
        returnE (if ra_Admin auth then reply 200 (PFlag ''admin'' True) else writeError 401 ''login required'')
      else bindE (GetUser M (ra_UserID auth)) (\<lambda>u.
        case u of
          None \<Rightarrow> returnE (writeError 401 ''user not found'')
        | Some u \<Rightarrow>
            bindE (value_or [] (ListDevices M (ra_UserID auth))) (\<lambda>devices.
            bindE (value_or [] (ListWorkspacesForClient M (ra_UserID auth))) (\<lambda>ws.
              returnE (reply 200 (PMe u devices ws (userIsPlatformAdmin auth)))))))"

section \<open>Devices and users (device_handlers.go)\<close>

definition handleDevices :: "Server \<Rightarrow> requestAuth \<Rightarrow> http_request \<Rightarrow> response io" where
  "handleDevices S auth r =
     (let M = srv_Manager S in
      if hr_Method r = ''GET'' then
        (let q = trim_space (query r ''userId'') in
         if q \<noteq> [] \<and> \<not> userIsPlatformAdmin auth \<and> q \<noteq> ra_UserID auth
         then returnE (writeError 403 ''cannot list another user's devices'')
         else let userID = (if q \<noteq> [] then q else ra_UserID auth) in
           if userID = [] \<and> \<not> userIsPlatformAdmin auth then returnE (writeError 401 ''login required'')
           else answer 400 (ListDevices M userID) (\<lambda>ds. returnE (reply 200 (PClients ds))))
      else if hr_Method r = ''POST'' then
        (if ra_UserID auth = [] then returnE (writeError 401 ''login required to mint a device'')
         else answer 400 (CreateDevice M (ra_UserID auth) (str_at (loose_body S (take mebi (hr_Body r))) ''label''))
           (\<lambda>(d, token). returnE (reply 201 (PNewClient d token))))
      else returnE method_not_allowed)"

definition handleDeviceAction :: "Server \<Rightarrow> requestAuth \<Rightarrow> http_request \<Rightarrow> response io" where
  "handleDeviceAction S auth r = only [''DELETE''] r
     (let M = srv_Manager S; k = trim_slashes (trim_prefix (hr_Path r) ''/api/devices/'') in
      if k = [] then returnE (writeError 400 ''missing device id'')
      else bindE (DeviceOwner M k) (\<lambda>owner.
        case owner of
          None \<Rightarrow> returnE (writeError 404 ''device not found'')
        | Some u \<Rightarrow>
            if \<not> userIsPlatformAdmin auth \<and> u \<noteq> ra_UserID auth
            then returnE (writeError 403 ''cannot revoke another user's device'')
            else answer 400 (RevokeDevice M k) (\<lambda>_. returnE (reply 200 (PFlag ''revoked'' True)))))"

definition handleUsers :: "Server \<Rightarrow> requestAuth \<Rightarrow> http_request \<Rightarrow> response io" where
  "handleUsers S auth r = only [''GET''] r
     (if \<not> userIsPlatformAdmin auth then returnE (writeError 403 ''admin only'')
      else answer 400 (ListUsers (srv_Manager S)) (\<lambda>us. returnE (reply 200 (PUsers us))))"

definition handleUserAction :: "Server \<Rightarrow> requestAuth \<Rightarrow> http_request \<Rightarrow> response io" where
  "handleUserAction S auth r =
     (case path_parts (hr_Path r) ''/api/users/'' of
        [k, action] \<Rightarrow>
          if k = [] \<or> action \<noteq> ''status'' then returnE not_found
          else only [''PATCH''] r
            (if \<not> userIsPlatformAdmin auth then returnE (writeError 403 ''admin only'')
             else let disabled = bool_at (loose_body S (take mebi (hr_Body r))) ''disabled'' in
               answer 400 (SetUserDisabled (srv_Manager S) k disabled)
                 (\<lambda>_. returnE (reply 200 (PFlag ''disabled'' disabled))))
      | _ \<Rightarrow> returnE not_found)"

section \<open>Workspaces (workspace_handlers.go)\<close>

definition handleWorkspaces :: "Server \<Rightarrow> requestAuth \<Rightarrow> http_request \<Rightarrow> response io" where
  "handleWorkspaces S auth r =
     (let M = srv_Manager S in
      if hr_Method r = ''GET'' then
        (if ra_Admin auth then answer 400 (ListWorkspaces M) (\<lambda>ws. returnE (reply 200 (PWorkspaces ws)))
         else answer 400 (ListWorkspacesForClient M (ra_ClientID auth)) (\<lambda>ws. returnE (reply 200 (PMyWorkspaces ws))))
      else if hr_Method r = ''POST'' then
        (if \<not> ra_Admin auth
         then returnE (writeError 403 ''creating a workspace requires the platform admin token'')
         else answer 400 (CreateWorkspace M (str_at (loose_body S (take mebi (hr_Body r))) ''name'') ''admin'')
           (\<lambda>ws. returnE (reply 201 (PWorkspace ws))))
      else returnE method_not_allowed)"

definition handleWorkspaceAction :: "Server \<Rightarrow> requestAuth \<Rightarrow> http_request \<Rightarrow> response io" where
  "handleWorkspaceAction S auth r =
     (let M = srv_Manager S in
      case path_parts (hr_Path r) ''/api/workspaces/'' of
        k # members # rest \<Rightarrow>
          if k = [] \<or> members \<noteq> ''members'' then returnE not_found
          else if rest = [] then
            (if hr_Method r = ''GET'' then
               unless (requireWorkspaceAdmin S auth k)
                 (answer 400 (ListMemberships M k) (\<lambda>ms. returnE (reply 200 (PMembers ms))))
             else if hr_Method r = ''POST'' then
               unless (requireWorkspaceAdmin S auth k)
                 (let body = loose_body S (take mebi (hr_Body r));
                      who = trim_space (str_at body ''clientId'');
                      role = trim_space (str_at body ''role'');
                      role = (if role = [] then ''member'' else role)
                  in answer 400 (SetMembership M k who (role_of_text role))
                       (\<lambda>_. returnE (reply 200 (PMembership k who role))))
             else returnE method_not_allowed)
          else if length rest = 1 \<and> hr_Method r = ''DELETE'' then
            unless (requireWorkspaceAdmin S auth k)
              (answer 400 (RemoveMembership M k (hd rest))
                (\<lambda>_. returnE (reply 200 (PField ''removed'' (hd rest)))))
          else returnE not_found
      | _ \<Rightarrow> returnE not_found)"

section \<open>Health (health.go)\<close>

definition handleHealthz :: "http_request \<Rightarrow> response io" where
  "handleHealthz r = only [''GET''] r (returnE (reply 200 (PFlag ''ok'' True)))"

definition handleReadyz :: "Server \<Rightarrow> http_request \<Rightarrow> response io" where
  "handleReadyz S r = only [''GET''] r
     (let M = srv_Manager S in
      bindE (tryE (Ensure M)) (\<lambda>e.
        returnE (case e of
            Inl _ \<Rightarrow> reply 503 (PReady False (if postgres_mode M then ''unavailable'' else ''not_configured''))
          | Inr _ \<Rightarrow> reply 200 (PReady True (if postgres_mode M then ''ready'' else ''not_configured'')))))"

end
