(* ===== verification/WebServer.thy ===== *)
theory WebServer
  imports WebHandlers
begin

text \<open>
  The server as a whole, \<open>internal/web/server.go\<close>: the multiplexer of \<open>Handler\<close> with the
  gate of each route, the static files, the refusal to listen without a token, and
  the quota worker (\<open>quota_worker.go\<close>). Graceful shutdown, the timeouts of the connections and the ticker
  of the worker are not modelled; \<open>runQuotaWorkerOnce\<close> is one tick.
\<close>

section \<open>Routes\<close>

datatype route =
  RtHealthz | RtReadyz | RtRegister | RtLogin | RtLogout | RtAuthMe | RtDevices | RtDevice | RtUsers | RtUser
| RtPush | RtPull | RtClaim | RtLeases | RtLease | RtUsage | RtQuota | RtMe | RtWorkspaces | RtWorkspace
| RtClients | RtClient | RtStats | RtDispatches | RtQueue | RtImport | RtPick | RtReset | RtStatus
| RtAccounts | RtAccount | RtMeta | RtSettings | RtStatic

definition patterns :: "(string \<times> route) list" where
  "patterns = [
     (''/healthz'', RtHealthz), (''/readyz'', RtReadyz),
     (''/api/auth/register'', RtRegister), (''/api/auth/login'', RtLogin),
     (''/api/auth/logout'', RtLogout), (''/api/auth/me'', RtAuthMe),
     (''/api/devices'', RtDevices), (''/api/devices/'', RtDevice),
     (''/api/users'', RtUsers), (''/api/users/'', RtUser),
     (''/api/sync/push'', RtPush), (''/api/sync/pull/'', RtPull), (''/api/sync/claim'', RtClaim),
     (''/api/sync/leases'', RtLeases), (''/api/sync/leases/'', RtLease),
     (''/api/sync/usage'', RtUsage), (''/api/sync/quota/'', RtQuota), (''/api/me'', RtMe),
     (''/api/workspaces'', RtWorkspaces), (''/api/workspaces/'', RtWorkspace),
     (''/api/clients'', RtClients), (''/api/clients/'', RtClient), (''/api/stats'', RtStats),
     (''/api/dispatches'', RtDispatches), (''/api/refresh-queue'', RtQueue),
     (''/api/accounts/import-json'', RtImport), (''/api/accounts/pick'', RtPick), (''/api/lb/pick'', RtPick),
     (''/api/lb/reset'', RtReset), (''/api/lb/status'', RtStatus),
     (''/api/accounts'', RtAccounts), (''/api/accounts/'', RtAccount),
     (''/api/meta'', RtMeta), (''/api/settings'', RtSettings), (''/'', RtStatic)]"

fun route_gate :: "route \<Rightarrow> gate" where
  "route_gate RtHealthz = OpenGate" | "route_gate RtReadyz = OpenGate"
| "route_gate RtRegister = OpenGate" | "route_gate RtLogin = OpenGate"
| "route_gate RtLogout = SessionGate" | "route_gate RtAuthMe = SessionGate"
| "route_gate RtDevices = SessionGate" | "route_gate RtDevice = SessionGate"
| "route_gate RtUsers = SessionGate" | "route_gate RtUser = SessionGate"
| "route_gate RtPush = SyncGate" | "route_gate RtPull = SyncGate" | "route_gate RtClaim = SyncGate"
| "route_gate RtLeases = SyncGate" | "route_gate RtLease = SyncGate"
| "route_gate RtUsage = SyncGate" | "route_gate RtQuota = SyncGate" | "route_gate RtMe = SyncGate"
| "route_gate RtWorkspaces = SyncGate" | "route_gate RtWorkspace = SyncGate"
| "route_gate RtClients = AdminGate" | "route_gate RtClient = AdminGate" | "route_gate RtStats = AdminGate"
| "route_gate RtDispatches = SessionGate" | "route_gate RtQueue = AdminGate"
| "route_gate RtImport = AdminGate" | "route_gate RtPick = AdminGate" | "route_gate RtReset = AdminGate"
| "route_gate RtStatus = AdminGate" | "route_gate RtAccounts = AdminGate" | "route_gate RtAccount = AdminGate"
| "route_gate RtMeta = AdminGate" | "route_gate RtSettings = AdminGate" | "route_gate RtStatic = OpenGate"

text \<open>
  \<open>http.ServeMux\<close>: the path is cleaned first (the request is redirected when that
  changes it); then a pattern that is the path wins, then the longest pattern with a
  slash at its end that begins the path. A path whose pattern has only the slash form is redirected to it.
\<close>

definition mux_clean :: "string \<Rightarrow> string" where
  "mux_clean p =
     (let p = (if p = [] then ''/'' else if hd p \<noteq> CHR ''/'' then CHR ''/'' # p else p);
          np = clean_path p
      in if last p = CHR ''/'' \<and> np \<noteq> ''/'' then np @ ''/'' else np)"

definition longest_prefix :: "string \<Rightarrow> (string \<times> route) list \<Rightarrow> string \<times> route" where
  "longest_prefix path ps =
     fold (\<lambda>p best. if has_suffix (fst p) ''/'' \<and> has_prefix path (fst p) \<and> length (fst best) < length (fst p)
                    then p else best) ps ('''', RtStatic)"

datatype target = Redirect string | Route route

definition find_route :: "string \<Rightarrow> target" where
  "find_route path =
     (if mux_clean path \<noteq> path then Redirect (mux_clean path)
      else case map_of patterns path of
          Some rt \<Rightarrow> Route rt
        | None \<Rightarrow>
            if map_of patterns (path @ ''/'') \<noteq> None then Redirect (path @ ''/'')
            else Route (snd (longest_prefix path patterns)))"

section \<open>Static files\<close>

text \<open>
  \<open>http.FileServer\<close> sends a path that ends in \<open>/index.html\<close> to its directory, a
  directory without a slash to the one with it, and serves the index of a directory.
\<close>

definition serve_file :: "Server \<Rightarrow> string \<Rightarrow> response" where
  "serve_file S path =
     (if has_suffix path ''/index.html'' then reply 301 (PRedirect ''./'')
      else if path = ''/'' then reply 200 (PFile ''index.html'')
      else case srv_dist S (trim_prefix path ''/'') of
          Some AssetFile \<Rightarrow> reply 200 (PFile (trim_prefix path ''/''))
        | Some AssetDir \<Rightarrow> reply 301 (PRedirect (path_base path @ ''/''))
        | None \<Rightarrow> not_found)"

definition staticHandler :: "Server \<Rightarrow> http_request \<Rightarrow> response io" where
  "staticHandler S r = only [''GET'', ''HEAD''] r
     (let asset = trim_prefix (hr_Path r) ''/'';
          asset = (if asset = [] then ''index.html'' else asset)
      in returnE (serve_file S (if srv_dist S asset = None then ''/index.html'' else hr_Path r)))"

section \<open>Serving a request\<close>

definition same_server :: "Server \<Rightarrow> response io \<Rightarrow> (response \<times> Server) io" where
  "same_server S m = bindE m (\<lambda>rsp. returnE (rsp, S))"

fun handle :: "route \<Rightarrow> Server \<Rightarrow> requestAuth \<Rightarrow> http_request \<Rightarrow> (response \<times> Server) io" where
  "handle RtHealthz S auth r = same_server S (handleHealthz r)"
| "handle RtReadyz S auth r = same_server S (handleReadyz S r)"
| "handle RtRegister S auth r = handleAuthRegister S r"
| "handle RtLogin S auth r = handleAuthLogin S r"
| "handle RtLogout S auth r = same_server S (handleAuthLogout S auth r)"
| "handle RtAuthMe S auth r = same_server S (handleAuthMe S auth r)"
| "handle RtDevices S auth r = same_server S (handleDevices S auth r)"
| "handle RtDevice S auth r = same_server S (handleDeviceAction S auth r)"
| "handle RtUsers S auth r = same_server S (handleUsers S auth r)"
| "handle RtUser S auth r = same_server S (handleUserAction S auth r)"
| "handle RtPush S auth r = same_server S (handleSyncPush S auth r)"
| "handle RtPull S auth r = same_server S (handleSyncPull S r)"
| "handle RtClaim S auth r = same_server S (handleSyncClaim S auth r)"
| "handle RtLeases S auth r = same_server S (handleSyncLeases S auth r)"
| "handle RtLease S auth r = same_server S (handleSyncLeaseAction S auth r)"
| "handle RtUsage S auth r = same_server S (handleSyncUsage S auth r)"
| "handle RtQuota S auth r = same_server S (handleSyncQuota S auth r)"
| "handle RtMe S auth r = same_server S (handleMe S auth r)"
| "handle RtWorkspaces S auth r = same_server S (handleWorkspaces S auth r)"
| "handle RtWorkspace S auth r = same_server S (handleWorkspaceAction S auth r)"
| "handle RtClients S auth r = same_server S (handleClients S r)"
| "handle RtClient S auth r = same_server S (handleClientAction S r)"
| "handle RtStats S auth r = same_server S (handleStats S r)"
| "handle RtDispatches S auth r = same_server S (handleDispatches S auth r)"
| "handle RtQueue S auth r = same_server S (handleRefreshQueue S r)"
| "handle RtImport S auth r = same_server S (handleImportJSON S r)"
| "handle RtPick S auth r = same_server S (handleLBPick S r)"
| "handle RtReset S auth r = same_server S (handleLBReset S r)"
| "handle RtStatus S auth r = same_server S (handleLBStatus S r)"
| "handle RtAccounts S auth r = same_server S (handleAccounts S r)"
| "handle RtAccount S auth r = same_server S (handleAccountAction S r)"
| "handle RtMeta S auth r = same_server S (handleMeta S r)"
| "handle RtSettings S auth r = handleSettings S r"
| "handle RtStatic S auth r = same_server S (staticHandler S r)"

definition serve :: "Server \<Rightarrow> http_request \<Rightarrow> (response \<times> Server) io" where
  "serve S r =
     (case find_route (hr_Path r) of
        Redirect path \<Rightarrow> returnE (reply 301 (PRedirect path), S)
      | Route rt \<Rightarrow>
          bindE (pass_gate (route_gate rt) S r) (\<lambda>passed.
            case passed of
              Inl rsp \<Rightarrow> returnE (rsp, S)
            | Inr auth \<Rightarrow> handle rt S auth r))"

section \<open>Listening\<close>

definition parse_byte :: "string \<Rightarrow> nat option" where
  "parse_byte s =
     (if s = [] \<or> \<not> list_all is_digit s \<or> length s > 3 \<or> (length s > 1 \<and> hd s = CHR ''0'') then None
      else let n = read_nat s 0 in if n \<le> 255 then Some n else None)"

definition parse_ipv4 :: "string \<Rightarrow> nat list option" where
  "parse_ipv4 s =
     (let bs = map parse_byte (split_at (CHR ''.'') s) in
      if length bs = 4 \<and> list_all (\<lambda>b. b \<noteq> None) bs then Some (map the bs) else None)"

definition hex_digit :: "char \<Rightarrow> nat option" where
  "hex_digit c =
     (let n = of_char c :: nat in
      if 48 \<le> n \<and> n \<le> 57 then Some (n - 48) else if 97 \<le> n \<and> n \<le> 102 then Some (n - 87)
      else if 65 \<le> n \<and> n \<le> 70 then Some (n - 55) else None)"

definition parse_hextet :: "string \<Rightarrow> nat option" where
  "parse_hextet s =
     (if s = [] \<or> length s > 4 \<or> list_ex (\<lambda>c. hex_digit c = None) s then None
      else Some (foldl (\<lambda>n c. 16 * n + the (hex_digit c)) 0 s))"

fun hextets :: "string list \<Rightarrow> nat list option" where
  "hextets [] = Some []"
| "hextets [s] =
     (case parse_hextet s of
        Some n \<Rightarrow> Some [n]
      | None \<Rightarrow> (case parse_ipv4 s of Some [a, b, c, d] \<Rightarrow> Some [256 * a + b, 256 * c + d] | _ \<Rightarrow> None))"
| "hextets (s # t # ss) =
     (case (parse_hextet s, hextets (t # ss)) of (Some n, Some ns) \<Rightarrow> Some (n # ns) | _ \<Rightarrow> None)"

definition groups_of :: "string \<Rightarrow> string list" where
  "groups_of s = (if s = [] then [] else split_at (CHR '':'') s)"

definition parse_ipv6 :: "string \<Rightarrow> nat list option" where
  "parse_ipv6 s =
     (case index_of s ''::'' of
        None \<Rightarrow> (case hextets (groups_of s) of
            Some gs \<Rightarrow> if length gs = 8 then Some gs else None | None \<Rightarrow> None)
      | Some i \<Rightarrow>
          (case (hextets (groups_of (take i s)), hextets (groups_of (drop (i + 2) s))) of
             (Some l, Some r) \<Rightarrow>
               if length l + length r \<le> 7 then Some (l @ replicate (8 - length l - length r) 0 @ r) else None
           | _ \<Rightarrow> None))"

text \<open>\<open>net.ParseIP\<close> and \<open>IsLoopback\<close>: 127.0.0.0/8, also as a mapped IPv6 address, and ::1.\<close>

definition loopback_ip :: "string \<Rightarrow> bool" where
  "loopback_ip s =
     (case parse_ipv4 s of
        Some bs \<Rightarrow> hd bs = 127
      | None \<Rightarrow>
          (case parse_ipv6 s of
             None \<Rightarrow> False
           | Some gs \<Rightarrow> gs = [0, 0, 0, 0, 0, 0, 0, 1] \<or> (take 6 gs = [0, 0, 0, 0, 0, 65535] \<and> gs ! 6 div 256 = 127)))"

definition isLoopbackHost :: "string \<Rightarrow> bool" where
  "isLoopbackHost host =
     (let host = trim_space host in host = [] \<or> host = ''localhost'' \<or> loopback_ip host)"

text \<open>Whether \<open>ListenAndServe\<close> starts: the address it binds, or the refusal.\<close>

definition ListenAndServe :: "Server \<Rightarrow> error + string" where
  "ListenAndServe S =
     (let host = (if srv_Host S = [] then ''127.0.0.1'' else srv_Host S) in
      if \<not> isLoopbackHost host \<and> trim_space (srv_CloudToken S) = []
      then Inl (ErrText (''refusing to bind '' @ host @ '' without an admin token: set CUBE_CLOUD_TOKEN''))
      else Inr host)"

section \<open>The quota worker\<close>

definition quotaWorkerShouldRefresh :: "RefreshQueueItem \<Rightarrow> time \<Rightarrow> bool" where
  "quotaWorkerShouldRefresh item now =
     (if rq_OwnerMode item \<noteq> OwnerCloud then False
      else if rq_Status item \<noteq> StatusReady then False
      else if \<not> rq_AuthPresent item \<or> rq_LeaseActive item then False
      else if rq_QuotaStatus item = NoQuota then True
      else if rq_ResetsAt item = [] then True
      else case parse_time (rq_ResetsAt item) of
          None \<Rightarrow> True
        | Some t \<Rightarrow> \<not> t > now)"

definition runQuotaWorkerOnce :: "'m Manager_scheme \<Rightarrow> unit io" where
  "runQuotaWorkerOnce M =
     bindE (tryE (RefreshQueue M)) (\<lambda>queue.
       case queue of
         Inl _ \<Rightarrow> returnE ()
       | Inr items \<Rightarrow> bindE nowE (\<lambda>now.
           mapM_E (\<lambda>item. if \<not> quotaWorkerShouldRefresh item now then returnE ()
             else ignoreE (bindE (FetchQuota M (rq_AccountID item)) (\<lambda>_. returnE ()))) items))"

end
