(* ===== verification/WebRun.thy ===== *)
theory WebRun
  imports WebServer AccessRun
begin

text \<open>
  HTTP requests over time: what the requests of strangers to a lease, of devices and of
  people without the admin token leave true of the stored state. An invariant of the
  manager's requests (\<open>LeaseRun\<close>, \<open>AccessRun\<close>) is one of the server: every handler is
  shown to keep it, and so does a run of HTTP requests.
\<close>

section \<open>Handlers and invariants\<close>

lemma safe_answer:
  assumes "safe_op T I m" "\<And>x. safe_op T I (f x)"
  shows "safe_op T I (answer status m f)"
proof -
  have "safe_op T I (case r of Inl Deadlock \<Rightarrow> throwE Deadlock
      | Inl e \<Rightarrow> returnE (writeError status (error_text e)) | Inr x \<Rightarrow> f x)" for r
    by (cases r) (auto simp: assms(2) file_store.safe_prims split: error.split)
  then show ?thesis unfolding answer_def by (intro file_store.safe_bind file_store.safe_try assms(1))
qed

lemma safe_only: "safe_op T I m \<Longrightarrow> safe_op T I (only methods r m)"
  unfolding only_def by (intro safe_ops)

lemma safe_unless: "safe_op T I check \<Longrightarrow> safe_op T I m \<Longrightarrow> safe_op T I (unless check m)"
  unfolding unless_def by (intro safe_ops)

lemma safe_reply_account:
  assumes "\<not> postgres_mode (srv_Manager S)"
  shows "safe_op T I (reply_account S status a)"
  unfolding reply_account_def ManagerAccountView_def AccountViewByID_def by (intro safe_ops assms)

lemma safe_list:
  "safe_op T I m \<Longrightarrow> (\<And>x xs. safe_op T I (f x xs)) \<Longrightarrow>
   safe_op T I (case r of [] \<Rightarrow> m | x # xs \<Rightarrow> f x xs)"
  by (cases r) simp_all

text \<open>Operations of the manager that only read.\<close>

lemma safe_reads:
  assumes "\<not> postgres_mode M"
  shows "safe_op T I (AccountWorkspace M k)" "safe_op T I (MembershipRole M ws who)"
    "safe_op T I (AccountHasActiveLease M k)" "safe_op T I (ShouldSwapLease M k)"
    "safe_op T I (ResolveWorkspaceForClient M cid ws)" "safe_op T I (ListClients M)"
    "safe_op T I (UsageStats M)" "safe_op T I (DispatchHistory M limit cid)"
    "safe_op T I (ListWorkspacesForClient M cid)" "safe_op T I (ListWorkspaces M)"
    "safe_op T I (ListMemberships M k)" "safe_op T I (GetUser M k)" "safe_op T I (ListDevices M k)"
    "safe_op T I (DeviceOwner M k)" "safe_op T I (ListUsers M)"
    "safe_op T I (AuthenticateUser M name pw)" "safe_op T I (AuthenticateClientToken M token)"
    "safe_op T I (ResolveSession M token)"
  unfolding AccountWorkspace_def MembershipRole_def AccountHasActiveLease_def ShouldSwapLease_def
    ResolveWorkspaceForClient_def ListClients_def UsageStats_def DispatchHistory_def
    ListWorkspacesForClient_def ListWorkspaces_def ListMemberships_def GetUser_def ListDevices_def
    DeviceOwner_def ListUsers_def AuthenticateUser_def AuthenticateClientToken_def ResolveSession_def Let_def
  by (intro safe_ops safe_lookup safe_GetAccount assms; use assms in simp)+

lemma safe_checks:
  assumes "\<not> postgres_mode (srv_Manager S)"
  shows "safe_op T I (requireAccountReportAccess S auth k)" "safe_op T I (requireWorkspaceAdmin S auth k)"
    "safe_op T I (push_guard S auth s)"
  unfolding requireAccountReportAccess_def requireWorkspaceAdmin_def push_guard_def
  by (intro safe_ops safe_reads safe_GetAccount assms)+

text \<open>An invariant of the requests that also allows more accounts and new usage rows.\<close>

locale web_invariant = request_invariant T I may lease_may
  for T :: time and I :: "State \<Rightarrow> bool" and may :: "command \<Rightarrow> bool" and lease_may :: "string \<Rightarrow> string \<Rightarrow> bool" +
  assumes more: "I st \<Longrightarrow> I (st\<lparr>st_Accounts := st_Accounts st @ as\<rparr>)"
    and used: "I st \<Longrightarrow> I (st\<lparr>st_Usage := us\<rparr>)"
    and ordinary: "(\<And>k. c \<noteq> Disable k False) \<Longrightarrow> may c"
begin

lemma kept_people:
  assumes "\<not> postgres_mode M"
  shows "safe_op T I (CreateUser M n p)" "safe_op T I (CreateSession M k)" "safe_op T I (DeleteSession M k)"
    "safe_op T I (TouchClient M k)" "safe_op T I (CreateDevice M u n)" "safe_op T I (RevokeDevice M k)"
    "safe_op T I (SetMembership M k who role)" "safe_op T I (RemoveMembership M k who)"
  by (intro kept_users(1) kept_sessions kept_clients kept_workspaces assms ordinary; simp)+

lemma kept_usage:
  assumes "\<not> postgres_mode M"
  shows "safe_op T I (RecordUsageWithContext M k cid lid runID s)"
  unfolding RecordUsageWithContext_def Let_def
  by (intro safe_ops assms norm used) (use assms in auto)

lemma kept_queue:
  assumes "\<not> postgres_mode M"
  shows "safe_op T I (RefreshQueue M)"
  unfolding RefreshQueue_def by (intro safe_ops safe_ListAccounts assms norm more)

lemma kept_gate:
  assumes "\<not> postgres_mode (srv_Manager S)"
  shows "safe_op T I (pass_gate g S r)"
  unfolding withAdminAuth_def withSyncAuth_def withSessionAuth_def Let_def
  by (cases g; simp only: pass_gate.simps withAdminAuth_def withSyncAuth_def withSessionAuth_def Let_def)
    (intro safe_ops safe_reads kept_people assms)+

lemmas kept_web = safe_answer safe_only safe_unless safe_reply_account safe_reads safe_checks
  kept_people kept_usage kept_queue safe_quota_ops safe_RecordLeasedQuota safe_FetchQuota
  kept_push kept_claim norm quota

lemma kept_leases_api:
  assumes m: "\<not> postgres_mode (srv_Manager S)" and mine: "\<And>lid. lease_may lid (ra_ClientID auth)"
  shows "safe_op T I (handleSyncPush S auth r)" "safe_op T I (handleSyncClaim S auth r)"
    "safe_op T I (handleSyncLeases S auth r)" "safe_op T I (handleSyncLeaseAction S auth r)"
proof -
  have beat: "safe_op T I (heartbeatLease S auth r lid)" for lid
    unfolding heartbeatLease_def Let_def by (intro safe_ops kept_web kept_touch m mine)
  show "safe_op T I (handleSyncPush S auth r)"
    unfolding handleSyncPush_def push_store_def Let_def by (intro safe_ops kept_web kept_update_leased m mine)
  show "safe_op T I (handleSyncClaim S auth r)" "safe_op T I (handleSyncLeases S auth r)"
    unfolding handleSyncClaim_def handleSyncLeases_def Let_def by (intro safe_ops kept_web m)+
  show "safe_op T I (handleSyncLeaseAction S auth r)"
    unfolding handleSyncLeaseAction_def Let_def
    by (intro safe_list safe_ops kept_web kept_release kept_update_leased beat m mine)
qed

lemma kept_reports_api:
  assumes m: "\<not> postgres_mode (srv_Manager S)"
  shows "safe_op T I (handleSyncPull S r)" "safe_op T I (handleSyncUsage S auth r)"
    "safe_op T I (handleSyncQuota S auth r)" "safe_op T I (handleMe S auth r)" "safe_op T I (handleDispatches S auth r)"
  unfolding handleSyncPull_def handleSyncUsage_def handleSyncQuota_def handleMe_def handleDispatches_def
    refreshBeforeExport_def reply_quota_def Let_def
  by (intro safe_ops kept_web safe_ExportProfileSnapshot m)+

lemma kept_people_api:
  assumes m: "\<not> postgres_mode (srv_Manager S)" and user: "\<not> ra_Admin auth"
  shows "safe_op T I (handleAuthLogout S auth r)" "safe_op T I (handleAuthMe S auth r)"
    "safe_op T I (handleDevices S auth r)" "safe_op T I (handleDeviceAction S auth r)"
    "safe_op T I (handleUsers S auth r)" "safe_op T I (handleUserAction S auth r)"
    "safe_op T I (handleWorkspaces S auth r)" "safe_op T I (handleWorkspaceAction S auth r)"
proof -
  show "safe_op T I (handleAuthLogout S auth r)" "safe_op T I (handleAuthMe S auth r)"
    "safe_op T I (handleDevices S auth r)" "safe_op T I (handleDeviceAction S auth r)"
    unfolding handleAuthLogout_def handleAuthMe_def handleDevices_def handleDeviceAction_def value_or_def Let_def
    by (intro safe_ops kept_web m)+
  show "safe_op T I (handleWorkspaceAction S auth r)"
    unfolding handleWorkspaceAction_def Let_def by (intro safe_list safe_ops kept_web m)
  show "safe_op T I (handleUsers S auth r)" "safe_op T I (handleUserAction S auth r)"
    "safe_op T I (handleWorkspaces S auth r)"
    using user unfolding handleUsers_def handleUserAction_def handleWorkspaces_def userIsPlatformAdmin_def Let_def
    by (simp_all only: not_True_eq_False not_False_eq_True if_True if_False simp_thms)
      (intro safe_list safe_ops kept_web m)+
qed

lemma kept_login:
  assumes m: "\<not> postgres_mode (srv_Manager S)"
  shows "safe_op T I (handleAuthRegister S r)" "safe_op T I (handleAuthLogin S r)"
proof -
  have start: "safe_op T I (start_session S status u)" for status u
    unfolding start_session_def by (intro safe_ops kept_web m)
  have lim: "safe_op T I (limited S key attempt)" if "safe_op T I attempt" for key attempt
    unfolding limited_def Let_def by (intro safe_ops that)
  show "safe_op T I (handleAuthRegister S r)" "safe_op T I (handleAuthLogin S r)"
    unfolding handleAuthRegister_def handleAuthLogin_def Let_def
    by (intro lim start safe_ops kept_web m)+
qed

lemma kept_open:
  assumes m: "\<not> postgres_mode (srv_Manager S)"
  shows "safe_op T I (handleHealthz r)" "safe_op T I (handleReadyz S r)" "safe_op T I (staticHandler S r)"
  unfolding handleHealthz_def handleReadyz_def staticHandler_def Let_def
  by (intro safe_ops kept_web m)+

text \<open>Every route without the admin gate, for a caller who is not the admin.\<close>

lemma kept_handle:
  assumes "\<not> postgres_mode (srv_Manager S)" "\<not> ra_Admin auth" "route_gate rt \<noteq> AdminGate"
    and "route_gate rt = SyncGate \<Longrightarrow> \<forall>lid. lease_may lid (ra_ClientID auth)"
  shows "safe_op T I (handle rt S auth r)"
proof -
  have same: "safe_op T I m \<Longrightarrow> safe_op T I (same_server S m)" for m
    unfolding same_server_def by (intro safe_ops)
  show ?thesis
    using assms by (cases rt)
      (simp_all add: same kept_leases_api kept_reports_api kept_people_api kept_login kept_open)
qed

lemma kept_worker:
  assumes "\<not> postgres_mode M"
  shows "safe_op T I (runQuotaWorkerOnce M)"
  unfolding runQuotaWorkerOnce_def by (intro safe_ops kept_queue safe_FetchQuota assms norm quota)

end

section \<open>The caller a gate finds\<close>

text \<open>A token answers for a client row, if the row is not revoked.\<close>

definition token_of :: "Server \<Rightarrow> http_request \<Rightarrow> State \<Rightarrow> Client \<Rightarrow> bool" where
  "token_of S r st c \<longleftrightarrow> c \<in> set (st_Clients st) \<and> cli_RevokedAt c = None
     \<and> cli_TokenHash c = hashToken (srv_Manager S) (trim_space (requestToken r))"

lemma AuthenticateClientToken_Some:
  assumes "\<not> postgres_mode (srv_Manager S)"
    and "AuthenticateClientToken (srv_Manager S) (requestToken r) w = (Inr (Some v), w')"
  shows "\<exists>c. token_of S r (stored w) c \<and> v = clientView c"
proof -
  have "lookup (srv_Manager S) (\<lambda>st. map_option clientView (authenticate_token st
      (hashToken (srv_Manager S) (trim_space (requestToken r))))) w = (Inr (Some v), w')"
    using assms(2) by (simp add: AuthenticateClientToken_def Let_def split: if_splits)
  from lookup_Some [OF assms(1) this] show ?thesis
    by (auto simp: authenticate_token_def token_of_def dest!: find_SomeD)
qed

text \<open>Past the sync gate without the admin token: a token of a client row, for a request of the table.\<close>

lemma sync_gate_device:
  assumes "\<not> postgres_mode (srv_Manager S)" "adminAuthorized S r = None"
    and "withSyncAuth S r w = (Inr (Inr auth), w')"
  shows "\<exists>c. token_of S r (stored w) c \<and> ra_ClientID auth = cli_ID c \<and> ra_UserID auth = cli_UserID c
     \<and> \<not> ra_Admin auth \<and> device_may (hr_Method r) (hr_Path r)"
proof -
  let ?M = "srv_Manager S"
  obtain res w1 where a: "AuthenticateClientToken ?M (requestToken r) w = (res, w1)" by fastforce
  with assms(2,3) obtain v where v: "res = Inr (Some v)"
    by (cases res; cases "projr res") (auto simp: withSyncAuth_def bindE_def)
  from AuthenticateClientToken_Some [OF assms(1) a [unfolded v]] obtain c
    where c: "token_of S r (stored w) c" "v = clientView c" by blast
  from assms(2,3) a v have "clientPATSyncForbidden r = []"
    by (auto simp: withSyncAuth_def bindE_def Let_def split: if_splits)
  with assms(2,3) a v c have "\<not> ra_Admin auth \<and> ra_ClientID auth = cli_ID c \<and> ra_UserID auth = cli_UserID c
      \<and> device_may (hr_Method r) (hr_Path r)"
    by (auto simp: withSyncAuth_def bindE_def Let_def ignoreE_def device_gate no_auth_def clientView_def
        split: if_splits prod.splits)
  with c(1) show ?thesis by blast
qed

lemma session_gate_user:
  assumes "adminAuthorized S r = None" "withSessionAuth S r w = (Inr (Inr auth), w')"
  shows "\<not> ra_Admin auth \<and> ra_ClientID auth = []"
  using assms by (auto simp: withSessionAuth_def bindE_def no_auth_def split: option.splits if_splits prod.splits sum.splits)

text \<open>
  A stranger to the clients X: without the admin token, and without a token of one of them.
\<close>

definition stranger :: "string set \<Rightarrow> Server \<Rightarrow> http_request \<Rightarrow> World \<Rightarrow> bool" where
  "stranger X S r w \<longleftrightarrow> adminAuthorized S r = None
     \<and> (\<forall>c. token_of S r (stored w) c \<longrightarrow> trim_space (cli_ID c) \<notin> X)"

lemma passed_stranger:
  assumes "\<not> postgres_mode (srv_Manager S)" "stranger X S r w" "pass_gate g S r w = (Inr (Inr auth), w')"
  shows "\<not> ra_Admin auth \<and> g \<noteq> AdminGate \<and> (g = SyncGate \<longrightarrow> trim_space (ra_ClientID auth) \<notin> X)"
proof (cases g)
  case SyncGate
  then show ?thesis using assms sync_gate_device [OF assms(1), of r w auth w'] by (auto simp: stranger_def)
next
  case SessionGate
  then show ?thesis using assms session_gate_user [of S r w auth w'] by (auto simp: stranger_def)
qed (use assms in \<open>auto simp: stranger_def withAdminAuth_def no_auth_def\<close>)

section \<open>A request, and runs of requests\<close>

text \<open>What is left after a request: the server and the world.\<close>

definition http_step :: "Server \<Rightarrow> http_request \<Rightarrow> World \<Rightarrow> Server \<times> World" where
  "http_step S r w = (case serve S r w of (Inr (rsp, S'), w') \<Rightarrow> (S', w') | (Inl e, w') \<Rightarrow> (S, w'))"

lemma returned: "same_server S m w = (Inr (rsp, S'), w') \<Longrightarrow> S' = S"
  by (auto simp: same_server_def elim!: bindE_InrE)

lemma limited_server: "limited S key attempt w = (Inr (rsp, S'), w') \<Longrightarrow> \<exists>h. S' = S\<lparr>srv_hits := h\<rparr>"
  by (auto simp: limited_def Let_def nowE_def getsE_def bindE_def split: prod.splits if_splits sum.splits)

lemma handle_server:
  assumes "route_gate rt \<noteq> AdminGate" "handle rt S auth r w = (Inr (rsp, S'), w')"
  shows "\<exists>h. S' = S\<lparr>srv_hits := h\<rparr>"
proof -
  have self: "\<exists>h. S = S\<lparr>srv_hits := h\<rparr>" by (rule exI [of _ "srv_hits S"]) simp
  show ?thesis
    using assms self by (cases rt)
      (auto simp: handleAuthRegister_def handleAuthLogin_def Let_def dest: returned limited_server split: if_splits)
qed

text \<open>A request of a stranger changes of the server only what the limiter remembers.\<close>

lemma stranger_step:
  assumes "\<not> postgres_mode (srv_Manager S)" "stranger X S r w" "http_step S r w = (S', w')"
  shows "\<exists>h. S' = S\<lparr>srv_hits := h\<rparr>"
proof -
  have self: "\<exists>h. S = S\<lparr>srv_hits := h\<rparr>" by (rule exI [of _ "srv_hits S"]) simp
  show ?thesis
  proof (cases "find_route (hr_Path r)")
    case (Redirect path)
    with assms(3) self show ?thesis by (simp add: http_step_def serve_def)
  next
    case (Route rt)
    obtain p w1 where g: "pass_gate (route_gate rt) S r w = (p, w1)" by fastforce
    consider e where "p = Inl e" | rsp where "p = Inr (Inl rsp)" | auth where "p = Inr (Inr auth)"
      by (metis sum.exhaust)
    then show ?thesis
    proof cases
      case 3
      note pass = passed_stranger [OF assms(1,2) g [unfolded 3]]
      obtain q w2 where h: "handle rt S auth r w1 = (q, w2)" by fastforce
      with Route g 3 assms(3) self handle_server [of rt S auth r w1] pass show ?thesis
        by (cases q) (auto simp: http_step_def serve_def)
    qed (use Route g assms(3) self in \<open>auto simp: http_step_def serve_def\<close>)
  qed
qed

context web_invariant
begin

lemma kept_serve:
  assumes m: "\<not> postgres_mode (srv_Manager S)" and s: "stranger X S r w" and w: "w_now w = T" "I (stored w)"
    and may: "\<And>cid lid. trim_space cid \<notin> X \<Longrightarrow> lease_may lid cid" and r: "http_step S r w = (S', w')"
  shows "w_now w' = T \<and> I (stored w')"
proof (cases "find_route (hr_Path r)")
  case (Redirect path)
  with r w show ?thesis by (auto simp: http_step_def serve_def)
next
  case (Route rt)
  obtain p w1 where g: "pass_gate (route_gate rt) S r w = (p, w1)" by fastforce
  have w1: "w_now w1 = T" "I (stored w1)"
    using safe_step [where I = I, OF kept_gate [OF m] w, of "route_gate rt" r] g by simp_all
  consider e where "p = Inl e" | rsp where "p = Inr (Inl rsp)" | auth where "p = Inr (Inr auth)"
    by (metis sum.exhaust)
  then show ?thesis
  proof cases
    case 3
    note pass = passed_stranger [OF m s g [unfolded 3]]
    have "safe_op T I (handle rt S auth r)"
      by (rule kept_handle [OF m]) (use pass may in auto)
    from safe_step [where I = I, OF this w1] Route g 3 r show ?thesis
      by (auto simp: http_step_def serve_def split: sum.splits prod.splits)
  qed (use Route g r w1 in \<open>auto simp: http_step_def serve_def\<close>)
qed

end

text \<open>
  Requests of strangers to X, ticks of the quota worker, and between them anything that
  leaves the state file alone.
\<close>

inductive web_run :: "string set \<Rightarrow> Server \<Rightarrow> World \<Rightarrow> Server \<Rightarrow> World \<Rightarrow> bool" for X S w where
  start: "web_run X S w S w"
| request: "web_run X S w S1 w1 \<Longrightarrow> stranger X S1 r w1 \<Longrightarrow> http_step S1 r w1 = (S2, w2) \<Longrightarrow> web_run X S w S2 w2"
| worker: "web_run X S w S1 w1 \<Longrightarrow> web_run X S w S1 (snd (runQuotaWorkerOnce (srv_Manager S1) w1))"
| environment: "web_run X S w S1 w1 \<Longrightarrow> w_disk w2 = w_disk w1 \<Longrightarrow> w_now w1 \<le> w_now w2 \<Longrightarrow> web_run X S w S1 w2"

lemma web_run_manager:
  "web_run X S w S' w' \<Longrightarrow> \<not> postgres_mode (srv_Manager S) \<Longrightarrow> \<exists>h. S' = S\<lparr>srv_hits := h\<rparr>"
proof (induction rule: web_run.induct)
  case start
  show ?case by (rule exI [of _ "srv_hits S"]) simp
next
  case (request S1 w1 r S2 w2)
  then obtain h where "S1 = S\<lparr>srv_hits := h\<rparr>" by blast
  with request stranger_step [of S1 X r w1 S2 w2] show ?case by auto
qed

lemma web_run_file:
  "web_run X S w S' w' \<Longrightarrow> \<not> postgres_mode (srv_Manager S) \<Longrightarrow> \<not> postgres_mode (srv_Manager S')"
  by (drule (1) web_run_manager) auto

interpretation web_lease: web_invariant T "holds k L C E T" "\<lambda>_. True" "foreign L C" for T k L C E
  by unfold_locales (auto intro: holds_same [OF same_leases_more] simp: holds_def)

interpretation web_clock: web_invariant T "\<lambda>_. True" "\<lambda>_. True" "\<lambda>_ _. True" for T
  by unfold_locales auto

lemma http_now:
  assumes "\<not> postgres_mode (srv_Manager S)" "stranger X S r w" "http_step S r w = (S', w')"
  shows "w_now w' = w_now w"
  using web_clock.kept_serve [OF assms(1,2) refl TrueI TrueI assms(3)] by simp

lemma web_run_clock: "web_run X S w S' w' \<Longrightarrow> \<not> postgres_mode (srv_Manager S) \<Longrightarrow> w_now w \<le> w_now w'"
proof (induction rule: web_run.induct)
  case (request S1 w1 r S2 w2)
  with http_now [OF web_run_file] show ?case by simp
next
  case (worker S1 w1)
  with safe_step [OF web_clock.kept_worker [OF web_run_file] refl TrueI] show ?case by simp
qed auto

lemma web_run_holds:
  assumes "web_run {[], C} S w S' w'" "\<not> postgres_mode (srv_Manager S)" "C \<noteq> []" "w_now w' < E"
    and "holds k L C E (w_now w) (stored w)"
  shows "holds k L C E (w_now w') (stored w')"
  using assms
proof (induction rule: web_run.induct)
  case (request S1 w1 r S2 w2)
  note m = web_run_file [OF request.hyps(1) request.prems(1)]
  note now = http_now [OF m request.hyps(2,3)]
  have "holds k L C E (w_now w1) (stored w1)" using request now by simp
  from web_lease.kept_serve [of S1 "{[], C}" r w1 "w_now w1" k L C E S2 w2, OF m request.hyps(2) refl this]
    request.hyps(3) request.prems(2) now
  show ?case by (auto simp: foreign_def)
next
  case (worker S1 w1)
  note m = web_run_file [OF worker.hyps worker.prems(1)]
  have now: "w_now (snd (runQuotaWorkerOnce (srv_Manager S1) w1)) = w_now w1"
    using safe_step [OF web_clock.kept_worker [OF m] refl] by simp
  have "holds k L C E (w_now w1) (stored w1)" using worker now by simp
  from safe_step [OF web_lease.kept_worker [OF m] refl this] now show ?case by simp
next
  case (environment S1 w1 w2)
  then show ?case using hold_environment [of w2 w1 E k L C] by auto
qed auto

text \<open>The invariants of the people, but those that an enabling breaks for everyone.\<close>

locale web_people = people_invariant +
  assumes ordinary_may: "(\<And>k. c \<noteq> Disable k False) \<Longrightarrow> may c"

sublocale web_people \<subseteq> web_invariant T I may "\<lambda>_ _. True"
  by unfold_locales (auto intro: ordinary_may same [OF _ same_people_accounts] same [OF _ same_people_refl])

context web_people
begin

lemma kept_http:
  "\<not> postgres_mode (srv_Manager S) \<Longrightarrow> stranger X S r w \<Longrightarrow> w_now w = T \<Longrightarrow> I (stored w) \<Longrightarrow>
   http_step S r w = (S', w') \<Longrightarrow> I (stored w')"
  using kept_serve by blast

lemma kept_tick:
  "\<not> postgres_mode M \<Longrightarrow> w_now w = T \<Longrightarrow> I (stored w) \<Longrightarrow> I (stored (snd (runQuotaWorkerOnce M w)))"
  using safe_step [where I = I, OF kept_worker] by blast

end

interpretation web_revocation: web_people T "revoked k" "\<lambda>_. True" for T k
  by unfold_locales simp

interpretation web_locked: web_people T "locked_out k" "\<lambda>c. c \<noteq> Disable k False" for T k
  by unfold_locales auto

interpretation web_ids: web_people T people_ok "\<lambda>_. True" for T
  by unfold_locales simp

lemma web_run_people:
  assumes "web_run X S w S' w'" "\<not> postgres_mode (srv_Manager S)"
    and inv: "\<And>T. web_people T I may" and "I (stored w)"
  shows "I (stored w')"
  using assms(1,2,4)
proof (induction rule: web_run.induct)
  case (request S1 w1 r S2 w2)
  note m = web_run_file [OF request.hyps(1) request.prems(1)]
  have "I (stored w1)" using request by simp
  from web_people.kept_http [OF inv m request.hyps(2) refl this request.hyps(3)] show ?case .
next
  case (worker S1 w1)
  with web_people.kept_tick [OF inv web_run_file refl] show ?case by blast
next
  case (environment S1 w1 w2)
  have "same_people (stored w1) (stored w2)"
    using environment.hyps(2) by (simp add: stored_def same_people_time)
  with environment people_invariant.same [OF web_people.axioms(1) [OF inv]] show ?case by blast
qed auto

section \<open>What strangers are answered\<close>

text \<open>A read that finds nothing, whatever fails.\<close>

lemma lookup_none:
  assumes "\<not> postgres_mode M" "f (stored w) = None"
  shows "\<exists>w'. lookup M f w = (Inr None, w') \<and> same_but_faults w w'"
proof -
  obtain r w1 where 1: "Load M w = (r, w1)" by fastforce
  with Load_same [OF assms(1) 1] assms(2) show ?thesis by (cases r) (auto simp: lookup_def)
qed

text \<open>Nobody: no admin token, no token of a client, and no cookie of a session.\<close>

definition nobody :: "Server \<Rightarrow> http_request \<Rightarrow> World \<Rightarrow> bool" where
  "nobody S r w \<longleftrightarrow> adminAuthorized S r = None \<and> \<not> (\<exists>c. token_of S r (stored w) c)
     \<and> (\<forall>cookie s. hr_Cookie r = Some cookie \<longrightarrow> s \<in> set (st_Sessions (stored w)) \<longrightarrow>
          ses_TokenHash s \<noteq> hashToken (srv_Manager S) (trim_space cookie))"

definition open_routes :: "route set" where
  "open_routes = {RtHealthz, RtReadyz, RtRegister, RtLogin, RtStatic}"

lemma open_gate: "route_gate rt = OpenGate \<longleftrightarrow> rt \<in> open_routes"
  by (cases rt) (simp_all add: open_routes_def)

lemma nobody_gate:
  assumes m: "\<not> postgres_mode (srv_Manager S)" and n: "nobody S r w" and g: "g \<noteq> OpenGate"
  shows "\<exists>msg w'. pass_gate g S r w = (Inr (Inl (writeError 401 msg)), w') \<and> same_but_faults w w'"
proof (cases g)
  case SyncGate
  let ?h = "hashToken (srv_Manager S) (trim_space (requestToken r))"
  have "authenticate_token (stored w) ?h = None"
    using n by (auto simp: nobody_def authenticate_token_def token_of_def find_None_iff)
  then obtain w' where "AuthenticateClientToken (srv_Manager S) (requestToken r) w = (Inr None, w') \<and> same_but_faults w w'"
    using lookup_none [OF m, of "\<lambda>st. map_option clientView (authenticate_token st ?h)" w]
    by (cases "trim_space (requestToken r) = []") (auto simp: AuthenticateClientToken_def Let_def)
  with n SyncGate show ?thesis by (auto simp: nobody_def withSyncAuth_def)
next
  case SessionGate
  have "\<exists>w'. ResolveSession (srv_Manager S) cookie w = (Inr None, w') \<and> same_but_faults w w'"
    if c: "hr_Cookie r = Some cookie" for cookie
  proof -
    let ?h = "hashToken (srv_Manager S) (trim_space cookie)"
    have "find (\<lambda>s. subtleStringEqual (ses_TokenHash s) ?h) (st_Sessions (stored w)) = None"
      using n c by (auto simp: nobody_def find_None_iff)
    then have "resolve_session (w_now w) (stored w) ?h = None" by (simp only: resolve_session_def option.case)
    from lookup_none [where f = "\<lambda>st. resolve_session (w_now w) st ?h", OF m this] show ?thesis
      by (elim exE conjE, cases "trim_space cookie = []") (auto simp: ResolveSession_def Let_def bindE_def nowE_def getsE_def)
  qed
  note none = this
  show ?thesis
  proof (cases "hr_Cookie r")
    case None
    with n SessionGate show ?thesis by (auto simp: nobody_def withSessionAuth_def)
  next
    case (Some cookie)
    from none [OF Some] obtain w' where "ResolveSession (srv_Manager S) cookie w = (Inr None, w')" "same_but_faults w w'"
      by blast
    with n SessionGate Some show ?thesis by (cases "cookie = []") (auto simp: nobody_def withSessionAuth_def)
  qed
qed (use n g in \<open>auto simp: nobody_def withAdminAuth_def\<close>)

lemma nobody_refused:
  assumes "\<not> postgres_mode (srv_Manager S)" "nobody S r w" "find_route (hr_Path r) = Route rt" "rt \<notin> open_routes"
  shows "\<exists>msg w'. serve S r w = (Inr (writeError 401 msg, S), w') \<and> same_but_faults w w'"
proof -
  from assms(4) have "route_gate rt \<noteq> OpenGate" by (simp add: open_gate)
  from nobody_gate [OF assms(1,2) this] assms(3) show ?thesis by (auto simp: serve_def)
qed

text \<open>Who passes the sync gate with a token, exactly.\<close>

lemma sync_gate_exact:
  assumes m: "\<not> postgres_mode (srv_Manager S)" and n: "adminAuthorized S r = None" and f: "w_faults w = []"
  shows "(\<exists>auth w'. withSyncAuth S r w = (Inr (Inr auth), w'))
     \<longleftrightarrow> device_may (hr_Method r) (hr_Path r) \<and> trim_space (requestToken r) \<noteq> []
       \<and> (\<exists>c. token_of S r (stored w) c \<and> cli_TokenHash c \<noteq> [])"
proof -
  let ?h = "hashToken (srv_Manager S) (trim_space (requestToken r))"
  let ?a = "authenticate_token (stored w) ?h"
  have a: "?a \<noteq> None \<longleftrightarrow> (\<exists>c. token_of S r (stored w) c \<and> cli_TokenHash c \<noteq> [])"
    by (auto simp: authenticate_token_def token_of_def find_None_iff)
  have lk: "AuthenticateClientToken (srv_Manager S) (requestToken r) w
      = (Inr (if trim_space (requestToken r) = [] then None else map_option clientView ?a), w)"
    by (simp add: AuthenticateClientToken_def Let_def lookup_eval [OF m f])
  show ?thesis
    unfolding a [symmetric]
    using n lk by (cases ?a) (auto simp: withSyncAuth_def Let_def device_gate ignoreE_def bindE_def split: prod.splits)
qed

text \<open>Rows that are barred do not get in.\<close>

lemma revoked_no_entry:
  assumes "\<not> postgres_mode (srv_Manager S)" "revoked k (stored w)" "few (stored w)" "adminAuthorized S r = None"
    and "withSyncAuth S r w = (Inr (Inr auth), w')"
  shows "ra_ClientID auth \<noteq> k"
  using sync_gate_device [OF assms(1,4,5)] assms(2,3) by (auto simp: revoked_def barred_def token_of_def)

lemma locked_no_entry:
  assumes "\<not> postgres_mode (srv_Manager S)" "locked_out k (stored w)" "few (stored w)"
    and "adminAuthorized S r = None" "withSessionAuth S r w = (Inr (Inr auth), w')"
  shows "ra_UserID auth \<noteq> k"
proof -
  obtain u s cookie w1 where u: "ResolveSession (srv_Manager S) cookie w = (Inr (Some (u, s)), w1)" "ra_UserID auth = uv_ID u"
    using assms(4,5) by (auto simp: withSessionAuth_def bindE_def no_auth_def split: option.splits if_splits prod.splits sum.splits)
  obtain v where "v \<in> set (st_Users (stored w))" "u = userView v (stored w)" "usr_DisabledAt v = None"
    using ResolveSession_Some [OF assms(1) u(1)] by blast
  with assms(2,3) u(2) show ?thesis by (auto simp: locked_out_def barred_def userView_def)
qed

lemma out_after_revoke:
  assumes "\<not> postgres_mode (srv_Manager S)" "people_ok (stored w0)" "few (stored w')"
    and "web_run X S w S' w'" "adminAuthorized S' r = None"
    and "RevokeDevice (srv_Manager S) k w0 = (Inr (), w)" "withSyncAuth S' r w' = (Inr (Inr auth), x)"
  shows "ra_ClientID auth \<noteq> k"
proof -
  have "revoked k (stored w)"
    using file_store.givesD [OF revoke_revokes [OF assms(1)] refl assms(2,6)] by simp
  then have "revoked k (stored w')"
    by (rule web_run_people [OF assms(4,1) web_revocation.web_people_axioms])
  from revoked_no_entry [OF web_run_file [OF assms(4,1)] this assms(3,5,7)] show ?thesis .
qed

lemma out_after_disable:
  assumes "\<not> postgres_mode (srv_Manager S)" "people_ok (stored w0)" "few (stored w')"
    and "web_run X S w S' w'" "adminAuthorized S' r = None"
    and "SetUserDisabled (srv_Manager S) k True w0 = (Inr (), w)" "withSessionAuth S' r w' = (Inr (Inr auth), x)"
  shows "ra_UserID auth \<noteq> k"
proof -
  have "locked_out k (stored w)"
    using file_store.givesD [OF disable_locks_out [OF assms(1)] refl assms(2,6)] by simp
  then have "locked_out k (stored w')"
    by (rule web_run_people [OF assms(4,1) web_locked.web_people_axioms])
  from locked_no_entry [OF web_run_file [OF assms(4,1)] this assms(3,5,7)] show ?thesis .
qed

end
