(* ===== verification/WebSample.thy ===== *)
theory WebSample
  imports WebRun Sample
begin

text \<open>
  A server over the sample deployment, on which the properties of the web layer are applied, and
  three behaviours of the handlers that the code does not mean: an id with a blank in front
  passes two checks that the operations behind them trim away, and a deep link is redirected to itself.
\<close>

section \<open>A settings encoding, a server, requests\<close>

text \<open>Fields separated by dollar signs stand for TOML.\<close>

definition sample_fields_of :: "Settings \<Rightarrow> string list" where
  "sample_fields_of s = [set_LiveCodexHome s, set_AccountsDir s, set_CloudURL s, set_CloudToken s, set_DeviceID s,
     set_DeviceLabel s, set_DatabaseURL s]"

definition sample_encode :: "Settings \<Rightarrow> string" where
  "sample_encode s = join_with (CHR ''$'') (map esc (sample_fields_of s))"

definition sample_decode :: "string \<Rightarrow> Settings \<Rightarrow> Settings option" where
  "sample_decode t d = (case map unesc (split_at (CHR ''$'') t) of
     [Some live, Some dir, Some url, Some token, Some dev, Some label, Some db] \<Rightarrow> Some (d\<lparr>
       set_LiveCodexHome := live, set_AccountsDir := dir, set_CloudURL := url, set_CloudToken := token,
       set_DeviceID := (if dev = [] then set_DeviceID d else dev),
       set_DeviceLabel := (if label = [] then set_DeviceLabel d else label), set_DatabaseURL := db\<rparr>)
   | _ \<Rightarrow> None)"

definition sample_config :: Config where
  "sample_config = Manager.extend sample_manager \<lparr>cfg_StatePath = ''/root/.cube20/state.json'',
     cfg_SettingsPath = ''/root/.cube20/settings.toml'', cfg_SharedConfigPath = [], cfg_getenv = (\<lambda>_. []),
     cfg_toml_encode = sample_encode, cfg_toml_decode = sample_decode\<rparr>"

lemma esc_no_dollar: "CHR ''$'' \<notin> set (esc s)"
  by (induction s) auto

lemma sample_toml: "toml_faithful sample_config"
  unfolding toml_faithful_def
proof (intro allI)
  fix s d :: Settings
  have "map unesc (split_at (CHR ''$'') (sample_encode s)) = map Some (sample_fields_of s)"
    by (simp add: sample_encode_def sample_fields_of_def esc_no_dollar split_at_sep split_at_none unesc_esc)
  then show "cfg_toml_decode sample_config (cfg_toml_encode sample_config s) d = Some (s\<lparr>
     set_SharedConfigPath := set_SharedConfigPath d,
     set_DeviceID := (if set_DeviceID s = [] then set_DeviceID d else set_DeviceID s),
     set_DeviceLabel := (if set_DeviceLabel s = [] then set_DeviceLabel d else set_DeviceLabel s)\<rparr>)"
    by (simp add: sample_config_def Manager.defs sample_decode_def sample_fields_of_def)
qed

lemma sample_overrides: "no_overrides sample_config"
  by (simp add: no_overrides_def sample_config_def Manager.defs)

lemma sample_home: "env_home sample_config = Some ''/root''"
  by (simp add: sample_config_def sample_manager_def Manager.defs)

definition sample_server :: Server where
  "sample_server = \<lparr>srv_Manager = sample_config, srv_Host = [], srv_CloudToken = ''adm'',
     srv_decode = (\<lambda>_. None), srv_tree = [], srv_midnight = (\<lambda>t. t), srv_dist = (\<lambda>_. None), srv_hits = []\<rparr>"

definition sample_request :: "string \<Rightarrow> string \<Rightarrow> string \<Rightarrow> http_request" where
  "sample_request m path token = \<lparr>hr_Method = m, hr_Path = path, hr_XCubeToken = token, hr_Authorization = [],
     hr_Query = [], hr_Cookie = None, hr_Body = [], hr_RemoteAddr = ''10.0.0.7:4242''\<rparr>"

lemma server_mode [simp]: "\<not> postgres_mode (srv_Manager sample_server)" "\<not> postgres_mode sample_config"
  by code_simp+

text \<open>The leased deployment, with a second device c2, whose token is h.\<close>

definition shared_world :: World where
  "shared_world = leased_world\<lparr>w_disk := Some ((set_account 0 leased_account sample_state)
     \<lparr>st_Clients := [legacy_client\<lparr>cli_ID := ''c2'', cli_UserID := ''u1''\<rparr>]\<rparr>)\<rparr>"

lemma shared_stored: "stored shared_world = (set_account 0 leased_account sample_state)
     \<lparr>st_Clients := [legacy_client\<lparr>cli_ID := ''c2'', cli_UserID := ''u1''\<rparr>]\<rparr>"
  by code_simp

lemma shared_now [simp]: "w_now shared_world = sample_now"
  by (simp add: shared_world_def)

lemma shared_holds: "holds ''a'' ''lease_r1'' ''c1'' lease_end sample_now (stored shared_world)"
  using leased_holds unfolding shared_stored leased_stored by (simp add: holds_def)

text \<open>The release that c2 asks for of a lease of c1.\<close>

definition sample_release :: http_request where
  "sample_release = sample_request ''DELETE'' ''/api/sync/leases/lease_r1'' ''h''"

lemma sample_release_stranger: "stranger {[], ''c1''} sample_server sample_release shared_world"
proof -
  have a: "adminAuthorized sample_server sample_release = None" by code_simp
  have "trim_space ''c2'' = ''c2''" by code_simp
  then have "trim_space (cli_ID c) \<notin> {[], ''c1''}" if "token_of sample_server sample_release (stored shared_world) c" for c
    using that by (simp add: token_of_def shared_stored)
  with a show ?thesis by (simp add: stranger_def)
qed

lemma sample_release_run:
  "web_run {[], ''c1''} sample_server shared_world (fst (http_step sample_server sample_release shared_world))
     (snd (http_step sample_server sample_release shared_world))"
  by (rule web_run.request [OF web_run.start sample_release_stranger prod.collapse [symmetric]])

lemma sample_release_now: "w_now (snd (http_step sample_server sample_release shared_world)) = sample_now"
  using http_now [OF server_mode(1) sample_release_stranger prod.collapse [symmetric]] by simp

text \<open>What the operations do there.\<close>

lemma server_revoke: "\<exists>w'. RevokeDevice sample_config ''c1'' people_world = (Inr (), w')"
  using people_calm people_stored
  by (simp add: RevokeDevice_def revoke_client_def mu_eval people_state_def legacy_client_def)

lemma server_revoke_few:
  assumes "RevokeDevice sample_config ''c1'' people_world = (Inr (), w)"
  shows "few (stored w)"
proof -
  have "few (stored (snd (RevokeDevice sample_config ''c1'' people_world)))"
    using people_calm people_stored
    by (simp add: RevokeDevice_def revoke_client_def mu_eval people_state_def legacy_client_def few_def
        normalize_people sample_state_def)
  with assms show ?thesis by simp
qed

lemma sample_device_settings: "DeviceSettings sample_config sample_world = (Inr (mirrored sample_config), sample_world)"
proof -
  have "map_of (w_files sample_world) (cfg_SettingsPath sample_config) = None" by code_simp
  moreover have "w_faults sample_world = []" by (simp add: sample_world_def)
  ultimately show ?thesis
    by (simp add: DeviceSettings_def currentSettings_def userHomeDir_def sample_home overrides_none [OF sample_overrides])
qed

lemma sample_device_update:
  "\<exists>s M' w'. UpdateDeviceSettings sample_config a b c d sample_world = (Inr (Inr s, M'), w')"
proof -
  have f: "w_faults sample_world = []" by (simp add: sample_world_def)
  have "map_of (w_files sample_world) (cfg_SettingsPath sample_config) = None" by code_simp
  then have cur: "currentSettings sample_config sample_world = (Inr (mirrored sample_config), sample_world)"
    using f by (simp add: currentSettings_def userHomeDir_def sample_home)
  let ?s = "device_fields a b c d (mirrored sample_config)"
  have p: "\<not> paths_missing ?s"
    by (simp add: paths_missing_def device_fields_def mirrored_def sample_config_def sample_manager_def Manager.defs)
  obtain fs where "writeSettings sample_config (cfg_SettingsPath sample_config) ?s sample_world = (Inr (), sample_world\<lparr>w_files := fs\<rparr>)"
    using writeSettings_eval [OF f] by blast
  with cur p have "UpdateDeviceSettings sample_config a b c d sample_world
      = (Inr (Inr ?s, with_cloud ?s sample_config), sample_world\<lparr>w_files := fs\<rparr>)"
    by (simp add: UpdateDeviceSettings_def store_cloud_def)
  then show ?thesis by blast
qed

section \<open>Ids with a blank in front\<close>

text \<open>
  \<open>handleSyncPush\<close> looks for the account by the id as it is sent, and
  \<open>UpsertProfileSnapshot\<close> by the trimmed id.
\<close>

definition padded_snapshot :: ProfileSnapshot where
  "padded_snapshot = \<lparr>ps_ID = '' a'', ps_Label = [], ps_Plan = [], ps_Status = NoStatus,
     ps_Auth = Doc (JObj [(''auth_mode'', JStr ''x'')]), ps_Config = [], ps_SourceClient = [],
     ps_OwnerMode = OwnerClient, ps_OwnerClientID = [], ps_LeaseID = [], ps_Generation = 0, ps_UpdatedAt = 0\<rparr>"

definition device_auth :: requestAuth where
  "device_auth = no_auth\<lparr>ra_ClientID := ''c1'', ra_DeviceID := ''c1''\<rparr>"

definition padded_push :: "response io" where
  "padded_push = unless (push_guard sample_server device_auth padded_snapshot)
     (push_store sample_server device_auth (push_owner device_auth padded_snapshot))"

text \<open>The cloud-owned account a, and its credentials, become those of the device.\<close>

lemma padded_push_takes_over:
  "(case fst (padded_push sample_world) of Inr rsp \<Rightarrow> rsp_Status rsp = 200 | Inl _ \<Rightarrow> False)
   \<and> map acc_OwnerMode (st_Accounts (stored sample_world)) = [OwnerCloud, OwnerCloud]
   \<and> map (\<lambda>a. (acc_ID a, acc_OwnerMode a, acc_OwnerClientID a)) (st_Accounts (stored (snd (padded_push sample_world))))
     = [(''a'', OwnerClient, ''c1''), (''b'', OwnerCloud, [])]
   \<and> map_option fst (map_of (w_files (snd (padded_push sample_world))) (auth_path ''/acc/a'')) = Some (ps_Auth padded_snapshot)"
proof (intro conjI)
  show "case fst (padded_push sample_world) of Inr rsp \<Rightarrow> rsp_Status rsp = 200 | Inl _ \<Rightarrow> False" by code_simp
  show "map acc_OwnerMode (st_Accounts (stored sample_world)) = [OwnerCloud, OwnerCloud]" by code_simp
  show "map (\<lambda>a. (acc_ID a, acc_OwnerMode a, acc_OwnerClientID a)) (st_Accounts (stored (snd (padded_push sample_world))))
     = [(''a'', OwnerClient, ''c1''), (''b'', OwnerCloud, [])]" by code_simp
  show "map_option fst (map_of (w_files (snd (padded_push sample_world))) (auth_path ''/acc/a'')) = Some (ps_Auth padded_snapshot)"
    by code_simp
qed

text \<open>
  \<open>requireAccountReportAccess\<close> finds no account under an id with a blank, and lets the
  report through that \<open>RecordUsageWithContext\<close> then stores for the trimmed id.
\<close>

lemma padded_report_not_checked:
  assumes "\<not> postgres_mode (srv_Manager S)" "\<forall>a \<in> set (st_Accounts (stored w)). acc_ID a \<noteq> CHR '' '' # k"
  shows "fst (requireAccountReportAccess S auth (CHR '' '' # k) w) = Inr None
     \<and> RecordUsageWithContext (srv_Manager S) (CHR '' '' # k) c l r s = RecordUsageWithContext (srv_Manager S) k c l r s"
proof -
  have "account_pool (stored w) (CHR '' '' # k) = None"
    using assms(2) by (auto simp: account_pool_def find_None_iff)
  from lookup_none [where f = "\<lambda>st. account_pool st (CHR '' '' # k)", OF assms(1) this]
  have "fst (requireAccountReportAccess S auth (CHR '' '' # k) w) = Inr None"
    by (auto simp: requireAccountReportAccess_def AccountWorkspace_def)
  moreover have "seq_len ws_seqs (CHR '' '' # k) = 1" by (simp add: seq_len_def ws_seqs_def has_prefix_def)
  then have "trim_space (CHR '' '' # k) = trim_space k"
    by (simp add: trim_space_def trim_front.simps [of _ "CHR '' '' # k"])
  ultimately show ?thesis by (simp add: RecordUsageWithContext_def)
qed

section \<open>Deep links\<close>

text \<open>
  The single-page fallback hands \<open>/index.html\<close> to \<open>http.FileServer\<close>, which answers with a
  redirect to \<open>./\<close>: to the directory of the link, so a link that ends in a slash leads to itself.
\<close>

definition relative_dot :: "string \<Rightarrow> string" where
  "relative_dot path = rev (dropWhile (\<lambda>c. c \<noteq> CHR ''/'') (rev path))"

lemma deep_link_loops:
  assumes "hr_Method r = ''GET''" "hr_Path r = p @ ''/''" "trim_prefix (hr_Path r) ''/'' \<noteq> []"
    and "srv_dist S (trim_prefix (hr_Path r) ''/'') = None"
  shows "staticHandler S r w = (Inr (reply 301 (PRedirect ''./'')), w) \<and> relative_dot (hr_Path r) = hr_Path r"
proof -
  have "has_suffix ''/index.html'' ''/index.html''" by code_simp
  then have "serve_file S ''/index.html'' = reply 301 (PRedirect ''./'')" by (simp add: serve_file_def)
  then show ?thesis using assms by (simp add: staticHandler_def only_def Let_def relative_dot_def)
qed

end
