(* ===== verification/WebProperties.thy ===== *)
theory WebProperties
  imports WebSample
begin

text \<open>
  The properties of the server: what holds of all its requests together, each
  applied to the sample deployment.
\<close>

text \<open>C28 A held lease survives the web: whatever requests without the admin token and without a token of
  the holder reach the server, and however often the quota worker runs, the account stays with its
  holder under the same lease, as long as the end of the lease has not come.\<close>

theorem lease_survives_http:
  assumes "\<not> postgres_mode (srv_Manager S)" "C \<noteq> []" "holds k L C E (w_now w) (stored w)"
    and "web_run {[], C} S w S' w'" "w_now w' < E"
  shows "holds k L C E (w_now w') (stored w')"
  by (rule web_run_holds [OF assms(4,1,2,5,3)])

theorem lease_survives_http_witness:
  "holds ''a'' ''lease_r1'' ''c1'' lease_end sample_now
     (stored (snd (http_step sample_server sample_release shared_world)))"
proof -
  have h: "holds ''a'' ''lease_r1'' ''c1'' lease_end (w_now shared_world) (stored shared_world)"
    using shared_holds by simp
  show ?thesis
    using lease_survives_http [OF server_mode(1) _ h sample_release_run] sample_release_now
    by (simp add: duration_defs)
qed

text \<open>C29 Nobody is refused everywhere: a request without the admin token, whose token is no client's and
  whose cookie is no session's, is answered 401 on every route but those that are open (health, registration, login, the
  front end), and changes nothing.\<close>

theorem nobody_gets_401:
  assumes "\<not> postgres_mode (srv_Manager S)" "nobody S r w"
    and "find_route (hr_Path r) = Route rt" "rt \<notin> {RtHealthz, RtReadyz, RtRegister, RtLogin, RtStatic}"
  shows "\<exists>msg w'. serve S r w = (Inr (writeError 401 msg, S), w') \<and> same_but_faults w w'"
  using assms(4) by (intro nobody_refused [OF assms(1-3)]) (simp add: open_routes_def)

theorem nobody_gets_401_witness:
  "\<exists>msg w'. serve sample_server (sample_request ''DELETE'' ''/api/accounts/a'' ''x'') sample_world
     = (Inr (writeError 401 msg, sample_server), w') \<and> stored w' = stored sample_world"
proof -
  let ?r = "sample_request ''DELETE'' ''/api/accounts/a'' ''x''"
  have "adminAuthorized sample_server ?r = None" by code_simp
  moreover have "st_Clients (stored sample_world) = []" "st_Sessions (stored sample_world) = []" by code_simp+
  ultimately have n: "nobody sample_server ?r sample_world" by (simp add: nobody_def token_of_def)
  have f: "find_route (hr_Path ?r) = Route RtAccount" by code_simp
  from nobody_gets_401 [OF server_mode(1) n f] show ?thesis
    by (auto simp: same_but_faults_def stored_def)
qed

text \<open>C30 A token opens exactly the sync routes of the table: without the admin token a request passes the gate when,
  and only when, its token is that of a client that is not revoked and the table lists its method and path.\<close>

theorem sync_gate_is_table:
  assumes "\<not> postgres_mode (srv_Manager S)" "adminAuthorized S r = None" "w_faults w = []"
  shows "(\<exists>auth w'. withSyncAuth S r w = (Inr (Inr auth), w'))
     \<longleftrightarrow> device_may (hr_Method r) (hr_Path r) \<and> trim_space (requestToken r) \<noteq> []
       \<and> (\<exists>c. token_of S r (stored w) c \<and> cli_TokenHash c \<noteq> [])"
  using assms by (rule sync_gate_exact)

theorem sync_gate_is_table_witness:
  "\<exists>auth w'. withSyncAuth sample_server sample_release shared_world = (Inr (Inr auth), w')"
proof -
  have a: "adminAuthorized sample_server sample_release = None" by code_simp
  have f: "w_faults shared_world = []" by (simp add: shared_world_def leased_world_def sample_world_def)
  let ?c = "legacy_client\<lparr>cli_ID := ''c2'', cli_UserID := ''u1''\<rparr>"
  have m: "?c \<in> set (st_Clients (stored shared_world))" by (simp add: shared_stored)
  have h: "cli_TokenHash ?c = hashToken (srv_Manager sample_server) (trim_space (requestToken sample_release))"
    "cli_RevokedAt ?c = None" "cli_TokenHash ?c \<noteq> []" by code_simp+
  have "\<exists>c. token_of sample_server sample_release (stored shared_world) c \<and> cli_TokenHash c \<noteq> []"
    unfolding token_of_def by (intro exI [of _ ?c] conjI m h)
  moreover have "device_may (hr_Method sample_release) (hr_Path sample_release)"
    unfolding device_gate [symmetric] by code_simp
  moreover have "trim_space (requestToken sample_release) \<noteq> []" by code_simp
  ultimately show ?thesis using sync_gate_is_table [OF server_mode(1) a f] by blast
qed

text \<open>C31 Revoked and disabled means out of the web: after a device was revoked no request passes the sync
  gate as that device, and after a user was disabled none passes the session gate as that user, whatever requests without
  the admin token came in between.\<close>

theorem revoked_stays_out_of_web:
  assumes "\<not> postgres_mode (srv_Manager S)" "people_ok (stored w0)" "few (stored w')"
    and "web_run {} S w S' w'" "adminAuthorized S' r = None"
  shows "(RevokeDevice (srv_Manager S) k w0 = (Inr (), w) \<longrightarrow>
      (\<forall>auth x. withSyncAuth S' r w' = (Inr (Inr auth), x) \<longrightarrow> ra_ClientID auth \<noteq> k))
    \<and> (SetUserDisabled (srv_Manager S) u True w0 = (Inr (), w) \<longrightarrow>
      (\<forall>auth x. withSessionAuth S' r w' = (Inr (Inr auth), x) \<longrightarrow> ra_UserID auth \<noteq> u))"
  by (intro conjI impI allI out_after_revoke [OF assms(1,2,3,4,5)] out_after_disable [OF assms(1,2,3,4,5)])

theorem revoked_stays_out_of_web_witness:
  "\<exists>w. RevokeDevice sample_config ''c1'' people_world = (Inr (), w)
     \<and> \<not> (\<exists>auth x. withSyncAuth sample_server sample_release w = (Inr (Inr auth), x) \<and> ra_ClientID auth = ''c1'')"
proof -
  obtain w where d: "RevokeDevice sample_config ''c1'' people_world = (Inr (), w)"
    using server_revoke by blast
  have a: "adminAuthorized sample_server sample_release = None" by code_simp
  have m: "srv_Manager sample_server = sample_config" by (simp add: sample_server_def)
  have "few (stored w)" by (rule server_revoke_few [OF d])
  note out = revoked_stays_out_of_web [OF server_mode(1) people_well this web_run.start a,
      THEN conjunct1, THEN mp, OF d [folded m]]
  show ?thesis by (intro exI [of _ w] conjI d notI; elim exE conjE; drule out [rule_format]; simp)
qed



text \<open>C33 The identity of a device survives the settings file: what \<open>UpdateDeviceSettings\<close> writes is what
  \<open>DeviceSettings\<close> reads, a value that is not given keeps the one that was there.\<close>

theorem device_settings_round_trip:
  assumes "toml_faithful M" "no_overrides M" "w_faults w = []"
    and "DeviceSettings M w = (Inr old, w)"
    and "UpdateDeviceSettings M server token deviceID deviceLabel w = (Inr (Inr s, M'), w')"
  shows "\<exists>new. DeviceSettings M' w' = (Inr new, w')
     \<and> set_DeviceID new = given deviceID (set_DeviceID old)
     \<and> set_DeviceLabel new = given deviceLabel (set_DeviceLabel old)
     \<and> set_CloudURL new = trim_space (given server (set_CloudURL old))
     \<and> set_CloudToken new = trim_space (given token (set_CloudToken old))"
  using assms by (rule device_settings_kept)

theorem device_settings_round_trip_witness:
  "\<exists>s M' w' new. UpdateDeviceSettings sample_config [] ''t1'' ''dev'' [] sample_world = (Inr (Inr s, M'), w')
     \<and> DeviceSettings M' w' = (Inr new, w') \<and> set_DeviceID new = ''dev'' \<and> set_CloudToken new = ''t1''"
proof -
  have f: "w_faults sample_world = []" by (simp add: sample_world_def)
  obtain s M' w' where u: "UpdateDeviceSettings sample_config [] ''t1'' ''dev'' [] sample_world = (Inr (Inr s, M'), w')"
    using sample_device_update by blast
  have "given ''dev'' x = ''dev''" "trim_space (given ''t1'' y) = ''t1''" for x y by code_simp+
  with device_settings_round_trip [OF sample_toml sample_overrides f sample_device_settings u] u show ?thesis by auto
qed

end
