(* ===== verification/CliFlags.thy ===== *)
theory CliFlags
  imports Settings
begin

text \<open>
  The command line of \<open>cmd/cube\<close>: \<open>time.ParseDuration\<close>, the flags of every command that
  has some, and the options of a run or a report with their defaults (\<open>main.go\<close>,
  \<open>cloud_relogin.go\<close>, \<open>workspace.go\<close>). The loops over the arguments of the code differ
  in the flags only, so they share one function. The main facts: rendered options are
  parsed back, what comes after \<open>--\<close> reaches codex as it is, and a lease outlives the next heartbeat.
\<close>

section \<open>Durations\<close>

text \<open>
  \<open>time.ParseDuration\<close>: numbers with an optional fraction, each with its unit. The integer part
  may not exceed 2^63, the digits of a fraction count as long as they fit.
\<close>

definition unit_table :: "(string \<times> nat) list" where
  "unit_table = [(''ns'', 1), (''us'', 1000), ([CHR 0xC2, CHR 0xB5, CHR ''s''], 1000),
     ([CHR 0xCE, CHR 0xBC, CHR ''s''], 1000), (''ms'', 1000000), (''s'', 1000000000),
     (''m'', 60000000000), (''h'', 3600000000000)]"

definition unit_char :: "char \<Rightarrow> bool" where
  "unit_char c \<longleftrightarrow> \<not> (c = CHR ''.'' \<or> is_digit c)"

fun leading_fraction :: "string \<Rightarrow> nat \<Rightarrow> nat \<Rightarrow> nat \<times> nat" where
  "leading_fraction [] x scale = (x, scale)"
| "leading_fraction (c # cs) x scale =
     (let y = 10 * x + ((of_char c :: nat) - 48) in
      if (2 ^ 63 - 1) div 10 < x \<or> 2 ^ 63 < y then (x, scale) else leading_fraction cs y (10 * scale))"

text \<open>One number with its unit: its nanoseconds and the rest of the text.\<close>

definition duration_part :: "string \<Rightarrow> (nat \<times> string) option" where
  "duration_part s =
     (let ds = takeWhile is_digit s; r = dropWhile is_digit s;
          fs = (case r of [] \<Rightarrow> [] | c # cs \<Rightarrow> if c = CHR ''.'' then takeWhile is_digit cs else []);
          r = (case r of [] \<Rightarrow> [] | c # cs \<Rightarrow> if c = CHR ''.'' then dropWhile is_digit cs else r);
          v = read_nat ds 0; (f, scale) = leading_fraction fs 0 1
      in if (ds = [] \<and> fs = []) \<or> 2 ^ 63 < v then None
         else case map_of unit_table (takeWhile unit_char r) of
             None \<Rightarrow> None
           | Some u \<Rightarrow>
               if 2 ^ 63 div u < v then None
               else let n = v * u + f * u div scale in
                 if 2 ^ 63 < n then None else Some (n, dropWhile unit_char r))"

lemma unit_table_empty: "map_of unit_table [] = None"
  by (simp add: unit_table_def)

lemma duration_part_less: "duration_part s = Some (n, r) \<Longrightarrow> length r < length s"
proof -
  assume p: "duration_part s = Some (n, r)"
  define t where "t = (case dropWhile is_digit s of [] \<Rightarrow> [] | c # cs \<Rightarrow> if c = CHR ''.'' then dropWhile is_digit cs else dropWhile is_digit s)"
  have "length t \<le> length s"
  proof (cases "dropWhile is_digit s")
    case (Cons c cs)
    have "length (dropWhile is_digit s) \<le> length s" by (rule length_dropWhile_le)
    with Cons length_dropWhile_le [of is_digit cs] show ?thesis by (auto simp: t_def)
  next
    case Nil
    then show ?thesis by (simp only: t_def list.case) simp
  qed
  moreover have "takeWhile unit_char t \<noteq> [] \<and> r = dropWhile unit_char t"
  proof (cases "map_of unit_table (takeWhile unit_char t)")
    case None
    with p show ?thesis unfolding duration_part_def t_def [symmetric] Let_def by (simp split: prod.splits if_splits)
  next
    case (Some u)
    with p have "r = dropWhile unit_char t"
      unfolding duration_part_def t_def [symmetric] Let_def by (simp split: prod.splits if_splits)
    moreover from Some have "takeWhile unit_char t \<noteq> []" by (auto simp: unit_table_empty)
    ultimately show ?thesis by simp
  qed
  moreover have "length t = length (takeWhile unit_char t) + length (dropWhile unit_char t)"
    by (metis length_append takeWhile_dropWhile_id)
  ultimately show ?thesis by (cases "takeWhile unit_char t") auto
qed

function duration_parts :: "string \<Rightarrow> nat \<Rightarrow> nat option" where
  "duration_parts s d =
     (if s = [] then Some d
      else case duration_part s of
          None \<Rightarrow> None
        | Some (n, r) \<Rightarrow> if 2 ^ 63 < d + n then None else duration_parts r (d + n))"
  by pat_completeness auto
termination
  by (relation "measure (\<lambda>(s, d). length s)") (auto dest: duration_part_less)

declare duration_parts.simps [simp del]

definition parse_duration :: "string \<Rightarrow> duration option" where
  "parse_duration s =
     (let neg = (s \<noteq> [] \<and> hd s = CHR ''-'');
          s = (if s \<noteq> [] \<and> (hd s = CHR ''-'' \<or> hd s = CHR ''+'') then tl s else s)
      in if s = ''0'' then Some 0
         else if s = [] then None
         else case duration_parts s 0 of
             None \<Rightarrow> None
           | Some d \<Rightarrow> if neg then Some (- int d) else if 2 ^ 63 - 1 < d then None else Some (int d))"

section \<open>Flags\<close>

text \<open>
  What an argument is: a flag with a value, a switch, or an argument at which the
  flags end (the rest, without it or with it), or one that is collected.
\<close>

datatype 'o flag =
    FlagValue string "string \<Rightarrow> 'o \<Rightarrow> error + 'o"
  | FlagSwitch "'o \<Rightarrow> 'o"
  | FlagStop
  | FlagRest
  | FlagCollect
  | FlagUnknown error

definition missing_value :: "string \<Rightarrow> error" where
  "missing_value name = ErrText (''missing value for '' @ name)"

text \<open>The options, the arguments that were collected, and the rest.\<close>

fun parse_flags ::
  "(string \<Rightarrow> 'o flag) \<Rightarrow> string list \<Rightarrow> 'o \<Rightarrow> string list \<Rightarrow> error + 'o \<times> string list \<times> string list" where
  "parse_flags table [] opts pos = Inr (opts, pos, [])"
| "parse_flags table (a # args) opts pos =
     (case table a of
        FlagValue name f \<Rightarrow>
          (case args of
             [] \<Rightarrow> Inl (missing_value name)
           | v # rest \<Rightarrow>
               (case f v opts of Inl e \<Rightarrow> Inl e | Inr opts' \<Rightarrow> parse_flags table rest opts' pos))
      | FlagSwitch f \<Rightarrow> parse_flags table args (f opts) pos
      | FlagStop \<Rightarrow> Inr (opts, pos, args)
      | FlagRest \<Rightarrow> Inr (opts, pos, a # args)
      | FlagCollect \<Rightarrow> parse_flags table args opts (pos @ [a])
      | FlagUnknown e \<Rightarrow> Inl e)"

definition sets :: "string \<Rightarrow> (string \<Rightarrow> 'o \<Rightarrow> 'o) \<Rightarrow> 'o flag" where
  "sets name f = FlagValue name (\<lambda>v opts. Inr (f (trim_space v) opts))"

definition flag_in :: "string \<Rightarrow> (string \<times> 'o flag) list \<Rightarrow> 'o flag \<Rightarrow> 'o flag" where
  "flag_in a table d = (case map_of table a of None \<Rightarrow> d | Some f \<Rightarrow> f)"

section \<open>Options of a run and of a report\<close>

record cloudSyncOptions =
  cso_Server :: string
  cso_Token :: string
  cso_Client :: string
  cso_Workspace :: string
  cso_Device :: string
  cso_DeviceLabel :: string
  cso_Interval :: duration

text \<open>\<open>os.Hostname\<close> may fail (None).\<close>

definition defaultCloudSyncOptions :: "Config \<Rightarrow> string option \<Rightarrow> cloudSyncOptions io" where
  "defaultCloudSyncOptions M hostname =
     bindE (tryE (DeviceSettings M)) (\<lambda>r.
       let over = (\<lambda>v old. if trim_space v \<noteq> [] then trim_space v else old);
           o0 = \<lparr>cso_Server = trim_space (m_CloudURL M), cso_Token = trim_space (m_CloudToken M), cso_Client = [],
             cso_Workspace = [], cso_Device = [], cso_DeviceLabel = [], cso_Interval = 60 * second\<rparr>;
           o1 = (case r of Inl _ \<Rightarrow> o0 | Inr s \<Rightarrow> o0\<lparr>
             cso_Server := over (set_CloudURL s) (cso_Server o0), cso_Token := over (set_CloudToken s) (cso_Token o0),
             cso_Device := trim_space (set_DeviceID s), cso_DeviceLabel := trim_space (set_DeviceLabel s)\<rparr>);
           env = (\<lambda>name old. over (cfg_getenv M name) old);
           o2 = o1\<lparr>cso_Server := env ''CUBE_CLOUD_URL'' (cso_Server o1),
             cso_Token := env ''CUBE_DEVICE_TOKEN'' (env ''CUBE_CLOUD_TOKEN'' (cso_Token o1)),
             cso_Device := env ''CUBE_DEVICE_ID'' (cso_Device o1),
             cso_DeviceLabel := env ''CUBE_DEVICE_LABEL'' (cso_DeviceLabel o1),
             cso_Workspace := env ''CUBE_WORKSPACE'' (cso_Workspace o1)\<rparr>
       in returnE (case hostname of
            None \<Rightarrow> o2
          | Some host \<Rightarrow> o2\<lparr>cso_Client := host,
              cso_DeviceLabel := (if cso_DeviceLabel o2 = [] then host else cso_DeviceLabel o2)\<rparr>))"

definition missing_server :: error where
  "missing_server = ErrText ''missing cloud server; run cube cloud config --server <url> --token <token>, pass --server, or set CUBE_CLOUD_URL''"

definition interval_flag :: "string \<Rightarrow> cloudSyncOptions flag" where
  "interval_flag name = FlagValue name (\<lambda>v opts. case parse_duration v of
     None \<Rightarrow> Inl (ErrText (''invalid '' @ name @ '' '' @ quoted v))
   | Some d \<Rightarrow> Inr (opts\<lparr>cso_Interval := d\<rparr>))"

definition sync_flags :: "(string \<times> cloudSyncOptions flag) list" where
  "sync_flags = [(''--server'', sets ''--server'' (\<lambda>v opts. opts\<lparr>cso_Server := v\<rparr>)),
     (''--token'', sets ''--token'' (\<lambda>v opts. opts\<lparr>cso_Token := v\<rparr>)),
     (''--client'', sets ''--client'' (\<lambda>v opts. opts\<lparr>cso_Client := v\<rparr>)),
     (''--device'', sets ''--device'' (\<lambda>v opts. opts\<lparr>cso_Device := v\<rparr>)),
     (''--device-label'', sets ''--device-label'' (\<lambda>v opts. opts\<lparr>cso_DeviceLabel := v\<rparr>))]"

definition run_flags :: "string \<Rightarrow> cloudSyncOptions flag" where
  "run_flags a = flag_in a (sync_flags @ [
     (''--workspace'', sets ''--workspace'' (\<lambda>v opts. opts\<lparr>cso_Workspace := v\<rparr>)),
     (''--heartbeat'', interval_flag ''--heartbeat''), (''--interval'', interval_flag ''--interval''),
     (''--'', FlagStop)]) FlagRest"

definition parseCloudRunOptions ::
  "Config \<Rightarrow> string option \<Rightarrow> string list \<Rightarrow> (cloudSyncOptions \<times> string list) io" where
  "parseCloudRunOptions M hostname args =
     bindE (defaultCloudSyncOptions M hostname) (\<lambda>d.
       case parse_flags run_flags args (d\<lparr>cso_Interval := 20 * second\<rparr>) [] of
         Inl e \<Rightarrow> throwE e
       | Inr (opts, _, codexArgs) \<Rightarrow>
           if cso_Server opts = [] then throwE missing_server
           else if cso_Interval opts < 5 * second then throwE (ErrText ''--heartbeat must be at least 5s'')
           else returnE (opts, codexArgs))"

text \<open>The flags of a report, with the switch of the daemon.\<close>

definition report_flags :: "string \<Rightarrow> (cloudSyncOptions \<times> bool) flag" where
  "report_flags a =
     (let lift = (\<lambda>f. case f of FlagValue name g \<Rightarrow>
            FlagValue name (\<lambda>v (opts, daemon). case g v opts of Inl e \<Rightarrow> Inl e | Inr x \<Rightarrow> Inr (x, daemon))
          | _ \<Rightarrow> FlagUnknown (ErrText (''unknown report flag '' @ quoted a)))
      in if a = ''--daemon'' \<or> a = ''--watch'' then FlagSwitch (\<lambda>(opts, _). (opts, True))
         else case map_of (sync_flags @ [(''--interval'', interval_flag ''--interval'')]) a of
             Some f \<Rightarrow> lift f
           | None \<Rightarrow> FlagUnknown (ErrText (''unknown report flag '' @ quoted a)))"

definition parse_report :: "Config \<Rightarrow> string option \<Rightarrow> string list \<Rightarrow> (cloudSyncOptions \<times> bool) io" where
  "parse_report M hostname args =
     bindE (defaultCloudSyncOptions M hostname) (\<lambda>d.
       case parse_flags report_flags args (d\<lparr>cso_Interval := 5 * minute\<rparr>, False) [] of
         Inl e \<Rightarrow> throwE e
       | Inr ((opts, daemon), _) \<Rightarrow>
           if cso_Server opts = [] then throwE missing_server
           else if cso_Interval opts < 30 * second then throwE (ErrText ''--interval must be at least 30s'')
           else returnE (opts, daemon))"

section \<open>The other commands with flags\<close>

record device_options =
  do_Server :: string
  do_Token :: string
  do_ID :: string
  do_Label :: string

definition no_device_options :: device_options where
  "no_device_options = \<lparr>do_Server = [], do_Token = [], do_ID = [], do_Label = []\<rparr>"

definition config_flags :: "(string \<times> device_options flag) list" where
  "config_flags = [(''--server'', sets ''--server'' (\<lambda>v opts. opts\<lparr>do_Server := v\<rparr>)),
     (''--token'', sets ''--token'' (\<lambda>v opts. opts\<lparr>do_Token := v\<rparr>)),
     (''--device-id'', sets ''--device-id'' (\<lambda>v opts. opts\<lparr>do_ID := v\<rparr>)),
     (''--device-label'', sets ''--device-label'' (\<lambda>v opts. opts\<lparr>do_Label := v\<rparr>))]"

definition device_flags :: "(string \<times> device_options flag) list" where
  "device_flags = config_flags @ [(''--id'', sets ''--id'' (\<lambda>v opts. opts\<lparr>do_ID := v\<rparr>)),
     (''--label'', sets ''--label'' (\<lambda>v opts. opts\<lparr>do_Label := v\<rparr>))]"

definition parse_config ::
  "string \<Rightarrow> (string \<times> device_options flag) list \<Rightarrow> error \<Rightarrow> string list \<Rightarrow> error + device_options" where
  "parse_config what table usage args =
     (case parse_flags (\<lambda>a. flag_in a table (FlagUnknown (ErrText (''unknown '' @ what @ '' config flag '' @ quoted a))))
        args no_device_options [] of
        Inl e \<Rightarrow> Inl e
      | Inr (opts, _) \<Rightarrow> if opts = no_device_options then Inl usage else Inr opts)"

definition cloud_config_usage :: error where
  "cloud_config_usage = ErrText ''usage: cube cloud config --server <url> --token <token> [--device-id <id>] [--device-label <name>]''"

definition deviceUsage :: error where
  "deviceUsage = ErrText ''usage: cube device [status|show|config --server <url> --token <cube_dev_...> [--id <deviceId>] [--label <name>]]''"

definition configureCloud :: "Config \<Rightarrow> string list \<Rightarrow> ((error + Settings) \<times> Config) io" where
  "configureCloud M args =
     (case parse_config ''cloud'' config_flags cloud_config_usage args of
        Inl e \<Rightarrow> returnE (Inl e, M)
      | Inr c \<Rightarrow> UpdateDeviceSettings M (do_Server c) (do_Token c) (do_ID c) (do_Label c))"

definition configureDevice :: "Config \<Rightarrow> string list \<Rightarrow> ((error + Settings) \<times> Config) io" where
  "configureDevice M args =
     (case parse_config ''device'' device_flags deviceUsage args of
        Inl e \<Rightarrow> returnE (Inl e, M)
      | Inr c \<Rightarrow> UpdateDeviceSettings M (do_Server c) (do_Token c) (do_ID c) (do_Label c))"

record cloudReloginOptions =
  cro_AccountID :: string
  cro_Status :: AccountStatus
  cro_Owner :: AccountOwnerMode
  cro_AuthFile :: string

definition relogin_flags :: "string \<Rightarrow> cloudReloginOptions flag" where
  "relogin_flags a =
     (if a = ''--status'' then FlagValue a (\<lambda>v opts.
        let status = status_of_text (trim_space v) in
        if status = StatusReady \<or> status = StatusDrain then Inr (opts\<lparr>cro_Status := status\<rparr>)
        else Inl (ErrText ''--status must be ready or drain''))
      else if a = ''--owner'' then FlagValue a (\<lambda>v opts.
        let owner = owner_of_text (trim_space v) in
        if owner = OwnerCloud \<or> owner = OwnerClient then Inr (opts\<lparr>cro_Owner := owner\<rparr>)
        else Inl (ErrText ''--owner must be cloud or client''))
      else if a = ''--auth-file'' then sets a (\<lambda>v opts. opts\<lparr>cro_AuthFile := v\<rparr>)
      else if has_prefix a ''--'' then FlagUnknown (ErrText (''unknown relogin flag '' @ quoted a))
      else FlagCollect)"

definition relogin_usage :: error where
  "relogin_usage = ErrText ''usage: cube cloud relogin <account-id> [--status ready|drain] [--owner cloud|client] [--auth-file <path>]''"

definition parseCloudReloginOptions :: "string list \<Rightarrow> error + cloudReloginOptions" where
  "parseCloudReloginOptions args =
     (case parse_flags relogin_flags args
        \<lparr>cro_AccountID = [], cro_Status = StatusReady, cro_Owner = OwnerCloud, cro_AuthFile = []\<rparr> [] of
        Inl e \<Rightarrow> Inl e
      | Inr (opts, ids, _) \<Rightarrow>
          (case map trim_space ids of
             [k] \<Rightarrow> if k = [] then Inl relogin_usage else Inr (opts\<lparr>cro_AccountID := k\<rparr>)
           | _ \<Rightarrow> Inl relogin_usage))"

definition invite_flags :: "string \<Rightarrow> WorkspaceRole flag" where
  "invite_flags a =
     (if a = ''--role'' then FlagValue a (\<lambda>v role.
        let r = role_of_text (trim_space v) in
        if r \<noteq> RoleAdmin \<and> r \<noteq> RoleMember then Inl (ErrText ''--role must be admin or member'') else Inr r)
      else FlagCollect)"

definition parseInviteArgs :: "string list \<Rightarrow> error + string \<times> string \<times> WorkspaceRole" where
  "parseInviteArgs args =
     (case parse_flags invite_flags args RoleMember [] of
        Inl e \<Rightarrow> Inl e
      | Inr (role, [ws, client], _) \<Rightarrow> Inr (ws, client, role)
      | Inr _ \<Rightarrow> Inl (ErrText ''usage: cube workspace invite <workspace-id> <client-id> [--role admin|member]''))"

record dashboard_options =
  dash_Host :: string
  dash_Port :: int
  dash_Token :: string
  dash_Interval :: duration

text \<open>\<open>atoi\<close> is \<open>strconv.Atoi\<close>, given where the server uses it too.\<close>

definition interval_or :: "string \<Rightarrow> string \<Rightarrow> (duration \<Rightarrow> 'a) \<Rightarrow> error + 'a" where
  "interval_or name v f = (case parse_duration v of
     None \<Rightarrow> Inl (ErrText (''invalid '' @ name @ '' '' @ quoted v)) | Some d \<Rightarrow> Inr (f d))"

definition dashboard_flags :: "(string \<Rightarrow> int option) \<Rightarrow> string \<Rightarrow> dashboard_options flag" where
  "dashboard_flags atoi a = flag_in a [
     (''--host'', FlagValue ''--host'' (\<lambda>v opts. Inr (opts\<lparr>dash_Host := v\<rparr>))),
     (''--port'', FlagValue ''--port'' (\<lambda>v opts. case atoi v of
        None \<Rightarrow> Inl (ErrText (''invalid --port '' @ quoted v)) | Some p \<Rightarrow> Inr (opts\<lparr>dash_Port := p\<rparr>))),
     (''--cloud-token'', sets ''--cloud-token'' (\<lambda>v opts. opts\<lparr>dash_Token := v\<rparr>)),
     (''--quota-refresh-interval'', FlagValue ''--quota-refresh-interval'' (\<lambda>v opts.
        interval_or ''--quota-refresh-interval'' v (\<lambda>d. opts\<lparr>dash_Interval := d\<rparr>)))]
     (FlagUnknown (ErrText (''unknown dashboard flag '' @ quoted a)))"

definition parse_dashboard :: "Config \<Rightarrow> (string \<Rightarrow> int option) \<Rightarrow> string list \<Rightarrow> error + dashboard_options" where
  "parse_dashboard M atoi args =
     (let token = trim_space (m_CloudToken M); v = trim_space (cfg_getenv M ''CUBE_CLOUD_TOKEN'');
          token = (if v \<noteq> [] then v else token);
          interval = trim_space (cfg_getenv M ''CUBE_QUOTA_REFRESH_INTERVAL'');
          start = (\<lambda>d. \<lparr>dash_Host = ''127.0.0.1'', dash_Port = 8720, dash_Token = token, dash_Interval = d\<rparr>)
      in case (if interval = [] then Inr (start 0)
               else interval_or ''CUBE_QUOTA_REFRESH_INTERVAL'' interval start) of
           Inl e \<Rightarrow> Inl e
         | Inr opts \<Rightarrow>
             (case parse_flags (dashboard_flags atoi) args opts [] of
                Inl e \<Rightarrow> Inl e | Inr (opts, _) \<Rightarrow> Inr opts))"

section \<open>Small helpers\<close>

definition emptyDash :: "string \<Rightarrow> string" where
  "emptyDash v = (if trim_space v = [] then ''-'' else v)"

definition maskToken :: "string \<Rightarrow> string" where
  "maskToken token =
     (let token = trim_space token in
      if token = [] then ''missing'' else if length token \<le> 8 then ''configured (****)''
      else ''configured ('' @ take 8 token @ ''****)'')"

text \<open>\<open>strings.Fields\<close> splits around runs of white space.\<close>

function fields_of :: "string \<Rightarrow> string \<Rightarrow> string list" where
  "fields_of word [] = (if word = [] then [] else [word])"
| "fields_of word (c # s) =
     (let n = seq_len ws_seqs (c # s) in
      if n = 0 then fields_of (word @ [c]) s
      else (if word = [] then [] else [word]) @ fields_of [] (drop n (c # s)))"
  by pat_completeness auto
termination
  by (relation "measure (\<lambda>(word, s). length s)") auto

definition splitArgs :: "string \<Rightarrow> string list" where
  "splitArgs input = (if trim_space input = [] then [] else fields_of [] input)"

definition leaseTTLSeconds :: "cloudSyncOptions \<Rightarrow> int" where
  "leaseTTLSeconds opts =
     (let ttl = wrap64 (cso_Interval opts * 4);
          ttl = (if ttl < 90 * second then 90 * second else ttl);
          ttl = (if 30 * minute < ttl then 30 * minute else ttl)
      in ttl div second)"

section \<open>Facts\<close>

text \<open>A lease asked for at a heartbeat lasts longer than to the next one, up to half an hour.\<close>

lemma ttl_bounds: "90 \<le> leaseTTLSeconds opts \<and> leaseTTLSeconds opts \<le> 1800"
proof -
  define t where "t = (let ttl = wrap64 (cso_Interval opts * 4);
      ttl = (if ttl < 90 * second then 90 * second else ttl) in if 30 * minute < ttl then 30 * minute else ttl)"
  have "90 * second \<le> t" "t \<le> 1800 * second" by (auto simp: t_def Let_def duration_defs)
  moreover have "leaseTTLSeconds opts = t div second" by (simp add: leaseTTLSeconds_def t_def Let_def)
  ultimately show ?thesis by (simp add: duration_defs) linarith
qed

lemma ttl_outlives:
  assumes "0 \<le> cso_Interval opts" "cso_Interval opts < 30 * minute"
  shows "cso_Interval opts < leaseTTLSeconds opts * second"
proof -
  have "wrap64 (cso_Interval opts * 4) = cso_Interval opts * 4"
    using assms by (simp add: wrap64_def duration_defs)
  with assms show ?thesis
    unfolding leaseTTLSeconds_def Let_def by (auto simp: duration_defs)
qed

lemma ttl_too_short:
  "30 * minute \<le> cso_Interval opts \<Longrightarrow> leaseTTLSeconds opts * second \<le> cso_Interval opts"
  using ttl_bounds [of opts] by (simp add: duration_defs)

text \<open>The token is shown up to its kind.\<close>

lemma maskToken_hides:
  assumes "take 8 (trim_space a) = take 8 (trim_space b)" "8 < length (trim_space a)" "8 < length (trim_space b)"
  shows "maskToken a = maskToken b"
  using assms by (auto simp: maskToken_def Let_def)

section \<open>Options that are written are read\<close>

lemma show_digits: "c \<in> set (show_nat n) \<Longrightarrow> is_digit c"
  using is_digit_show [of n] by (simp add: list_all_iff)

lemma seconds_part: "k \<le> 2 ^ 63 div 1000000000 \<Longrightarrow> duration_part (show_nat k @ ''s'') = Some (k * 1000000000, [])"
proof -
  assume k: "k \<le> 2 ^ 63 div 1000000000"
  have d: "takeWhile is_digit (show_nat k @ ''s'') = show_nat k" "dropWhile is_digit (show_nat k @ ''s'') = ''s''"
    by (simp_all add: takeWhile_append2 dropWhile_append2 show_digits) (simp_all add: is_digit_def)
  have u: "takeWhile unit_char ''s'' = ''s''" "dropWhile unit_char ''s'' = []" "map_of unit_table ''s'' = Some 1000000000"
    by (simp_all add: unit_char_def is_digit_def unit_table_def)
  have n: "\<not> 2 ^ 63 < k" "\<not> 2 ^ 63 div 1000000000 < k" "\<not> 2 ^ 63 < k * 1000000000 + 0 * 1000000000 div 1"
    using k by simp_all
  have c: "CHR ''s'' \<noteq> CHR ''.''" by simp
  show ?thesis
    unfolding duration_part_def d Let_def list.case if_not_P [OF c] leading_fraction.simps prod.case read_show_nat u
      option.case if_not_P [OF n(2)] if_not_P [OF n(3)]
    by (simp add: n(1) del: power_numeral)
qed

lemma seconds_parse:
  assumes "k < 2 ^ 63 div 1000000000"
  shows "parse_duration (show_nat k @ ''s'') = Some (int k * second)"
proof -
  have "is_digit (hd (show_nat k))" by (rule show_digits [of _ k]) simp
  then have h: "hd (show_nat k @ ''s'') \<noteq> CHR ''-''" "hd (show_nat k @ ''s'') \<noteq> CHR ''+''"
    by (auto simp: is_digit_def)
  have "last (show_nat k @ ''s'') \<noteq> last ''0''" by simp
  then have z: "show_nat k @ ''s'' \<noteq> ''0''" by metis
  have "duration_parts (show_nat k @ ''s'') 0 = Some (k * 1000000000)"
    using assms by (simp add: duration_parts.simps [of "show_nat k @ ''s''"] duration_parts.simps [of "[]"] seconds_part)
  with h z assms show ?thesis by (simp add: parse_duration_def Let_def duration_defs)
qed

text \<open>The options of a run as arguments, with the heartbeat in seconds.\<close>

definition render_options :: "cloudSyncOptions \<Rightarrow> string list" where
  "render_options opts = [''--server'', cso_Server opts, ''--token'', cso_Token opts, ''--client'', cso_Client opts,
     ''--workspace'', cso_Workspace opts, ''--device'', cso_Device opts, ''--device-label'', cso_DeviceLabel opts,
     ''--heartbeat'', show_nat (nat (cso_Interval opts div second)) @ ''s'']"

definition trimmed_options :: "cloudSyncOptions \<Rightarrow> bool" where
  "trimmed_options opts \<longleftrightarrow> (\<forall>s \<in> {cso_Server opts, cso_Token opts, cso_Client opts, cso_Workspace opts,
     cso_Device opts, cso_DeviceLabel opts}. trim_space s = s)
   \<and> 0 \<le> cso_Interval opts \<and> cso_Interval opts < 2 ^ 63 div second * second \<and> second dvd cso_Interval opts"

lemma run_flags_table:
  "run_flags ''--server'' = sets ''--server'' (\<lambda>v opts. opts\<lparr>cso_Server := v\<rparr>)"
  "run_flags ''--token'' = sets ''--token'' (\<lambda>v opts. opts\<lparr>cso_Token := v\<rparr>)"
  "run_flags ''--client'' = sets ''--client'' (\<lambda>v opts. opts\<lparr>cso_Client := v\<rparr>)"
  "run_flags ''--workspace'' = sets ''--workspace'' (\<lambda>v opts. opts\<lparr>cso_Workspace := v\<rparr>)"
  "run_flags ''--device'' = sets ''--device'' (\<lambda>v opts. opts\<lparr>cso_Device := v\<rparr>)"
  "run_flags ''--device-label'' = sets ''--device-label'' (\<lambda>v opts. opts\<lparr>cso_DeviceLabel := v\<rparr>)"
  "run_flags ''--heartbeat'' = interval_flag ''--heartbeat''"
  "run_flags ''--'' = FlagStop"
  by (simp_all add: run_flags_def flag_in_def sync_flags_def)

lemma render_parsed:
  assumes "trimmed_options opts"
  shows "parse_flags run_flags (render_options opts @ ''--'' # codexArgs) d [] = Inr (opts, [], codexArgs)"
proof -
  let ?k = "nat (cso_Interval opts div second)"
  have "?k < 2 ^ 63 div 1000000000" "int ?k * second = cso_Interval opts"
    using assms by (auto simp: trimmed_options_def duration_defs)
  from seconds_parse [OF this(1)] this(2)
  have p: "parse_duration (show_nat ?k @ ''s'') = Some (cso_Interval opts)" by simp
  have t: "trim_space (cso_Server opts) = cso_Server opts" "trim_space (cso_Token opts) = cso_Token opts"
    "trim_space (cso_Client opts) = cso_Client opts" "trim_space (cso_Workspace opts) = cso_Workspace opts"
    "trim_space (cso_Device opts) = cso_Device opts" "trim_space (cso_DeviceLabel opts) = cso_DeviceLabel opts"
    using assms by (simp_all add: trimmed_options_def)
  show ?thesis
    by (simp add: render_options_def run_flags_table sets_def interval_flag_def t p)
qed

lemma run_options_parsed:
  assumes "trimmed_options opts" "cso_Server opts \<noteq> []" "5 * second \<le> cso_Interval opts"
    and "defaultCloudSyncOptions M hostname w = (Inr d, w')"
  shows "parseCloudRunOptions M hostname (render_options opts @ ''--'' # codexArgs) w = (Inr (opts, codexArgs), w')"
  using assms(2-4) by (simp add: parseCloudRunOptions_def render_parsed [OF assms(1)])

end
