(* ===== verification/Deploy.thy ===== *)
theory Deploy
  imports Accounts
begin

text \<open>
  Handing a credential to a Codex home: \<open>DeployProfile\<close> and the backup names of
  \<open>internal/manager/codex.go\<close>, with \<open>copyFileWithBackup\<close> and \<open>withEnv\<close> of
  \<open>fsutil.go\<close>. The symbolic link to the shared
  \<open>config.toml\<close> is in ConfigLink. The main facts: a deployed credential is the
  account's, and what it replaces is kept in a backup.
\<close>

section \<open>Environment of a child process\<close>

definition env_prefix :: "string \<Rightarrow> string" where
  "env_prefix key = key @ ''=''"

fun replace_env :: "string \<Rightarrow> string \<Rightarrow> string list \<Rightarrow> string list \<times> bool" where
  "replace_env key v [] = ([], False)"
| "replace_env key v (item # env) =
     (let (next, replaced) = replace_env key v env in
      if has_prefix item (env_prefix key) then ((env_prefix key @ v) # next, True) else (item # next, replaced))"

definition withEnv :: "string list \<Rightarrow> string \<Rightarrow> string \<Rightarrow> string list" where
  "withEnv env key v =
     (let (next, replaced) = replace_env key v env
      in if replaced then next else next @ [env_prefix key @ v])"

lemma replace_env_spec:
  "fst (replace_env key v env) = map (\<lambda>x. if has_prefix x (env_prefix key) then env_prefix key @ v else x) env"
  "snd (replace_env key v env) = list_ex (\<lambda>x. has_prefix x (env_prefix key)) env"
  by (induction env) (simp_all add: case_prod_beta Let_def)

text \<open>The variable is set, to the value only, and no other variable is touched.\<close>

lemma withEnv_sets:
  "set (filter (\<lambda>x. has_prefix x (env_prefix key)) (withEnv env key v)) = {env_prefix key @ v}"
  "filter (\<lambda>x. \<not> has_prefix x (env_prefix key)) (withEnv env key v)
     = filter (\<lambda>x. \<not> has_prefix x (env_prefix key)) env"
proof -
  let ?p = "\<lambda>x. has_prefix x (env_prefix key)"
  have w: "withEnv env key v = (let next = map (\<lambda>x. if ?p x then env_prefix key @ v else x) env
      in if list_ex ?p env then next else next @ [env_prefix key @ v])"
    by (simp add: withEnv_def case_prod_beta Let_def replace_env_spec)
  show "set (filter ?p (withEnv env key v)) = {env_prefix key @ v}"
    unfolding w by (auto simp: Let_def list_ex_iff)
  have "filter (\<lambda>x. \<not> ?p x) (map (\<lambda>x. if ?p x then env_prefix key @ v else x) env) = filter (\<lambda>x. \<not> ?p x) env"
    by (induction env) simp_all
  then show "filter (\<lambda>x. \<not> ?p x) (withEnv env key v) = filter (\<lambda>x. \<not> ?p x) env"
    unfolding w by (simp add: Let_def)
qed

section \<open>Backups\<close>

definition file_exists :: "World \<Rightarrow> string \<Rightarrow> bool" where
  "file_exists w path \<longleftrightarrow> map_of (w_files w) path \<noteq> None \<or> path \<in> set (w_dirs w)"

definition nextBackupPath :: "World \<Rightarrow> string \<Rightarrow> string option" where
  "nextBackupPath w path =
     (let base = path @ ''.cube20.bak'' in
      find (\<lambda>p. \<not> file_exists w p) (base # map (\<lambda>i. base @ ''.'' @ show_nat i) [2..<1000]))"

lemma nextBackupPath_free: "nextBackupPath w path = Some p \<Longrightarrow> \<not> file_exists w p \<and> has_prefix p path"
  unfolding nextBackupPath_def Let_def
  by (drule find_SomeD) (auto simp: has_prefix_def simp del: upt_rec_numeral)

text \<open>\<open>Format("20060102-150405")\<close>, in UTC.\<close>

definition format_compact :: "time \<Rightarrow> string" where
  "format_compact t =
     (let d = days_of_time t; s = nat ((t mod day) div second);
          y = year_of_day d; l = leap_year y; yd = d - days_before_year y;
          m = month_of_day l yd; dom = yd - days_before_month l m + 1
      in pad_nat 4 y @ pad_nat 2 m @ pad_nat 2 dom @ ''-''
         @ pad_nat 2 (s div 3600) @ pad_nat 2 (s div 60 mod 60) @ pad_nat 2 (s mod 60))"

definition backup_name :: "string \<Rightarrow> time \<Rightarrow> string" where
  "backup_name target now = target @ ''.backup-'' @ format_compact now"

definition copyFileWithBackup :: "'m Manager_scheme \<Rightarrow> string \<Rightarrow> string \<Rightarrow> unit io" where
  "copyFileWithBackup M source target =
     (if samePath (env_cwd M) source target then returnE ()
      else bindE stepE (\<lambda>_. bindE (getsE (\<lambda>w. file_exists w target)) (\<lambda>there. bindE nowE (\<lambda>now.
        bindE (whenE there (\<lambda>w.
            case copyFile target (backup_name target now) w of
              (Inl e, w') \<Rightarrow> (Inl (ErrText (''backup existing '' @ path_base target @ '': '' @ error_text e)), w')
            | r \<Rightarrow> r))
          (\<lambda>_. copyFile source target)))))"

definition deploy_target :: "'m Manager_scheme \<Rightarrow> string \<Rightarrow> string io" where
  "deploy_target M target =
     (let target = (if trim_space target = [] then m_LiveCodexHome M else target) in
      if trim_space target = [] then
        (case defaultCodexHome M of Inl e \<Rightarrow> throwE e | Inr v \<Rightarrow> returnE v)
      else returnE target)"

definition DeployProfile :: "'m Manager_scheme \<Rightarrow> string \<Rightarrow> string \<Rightarrow> string list io" where
  "DeployProfile M k target =
     bindE (GetAccount M k) (\<lambda>a. bindE (deploy_target M target) (\<lambda>target.
     bindE (mkdirAll target) (\<lambda>_.
       let source = auth_path (acc_CodexHome a); dest = auth_path target in
       bindE stepE (\<lambda>_. bindE (getsE (\<lambda>w. file_exists w source)) (\<lambda>there.
         if \<not> there then throwE (ErrText (''account '' @ quoted k @ '' has no auth.json''))
         else bindE (copyFileWithBackup M source dest) (\<lambda>_. returnE [dest]))))))"

definition DeployAuth :: "'m Manager_scheme \<Rightarrow> string \<Rightarrow> string \<Rightarrow> string io" where
  "DeployAuth M k target =
     bindE (DeployProfile M k target) (\<lambda>written.
       returnE (concat (map (\<lambda>(i, p). (if i = 0 then [] else '', '') @ p) (enumerate 0 written))))"

section \<open>The copy and the backup\<close>

definition content_at :: "World \<Rightarrow> string \<Rightarrow> content option" where
  "content_at w path = map_option fst (map_of (w_files w) path)"

lemma stepE_InrD: "stepE w = (Inr u, w') \<Longrightarrow> \<exists>fs. w' = w\<lparr>w_faults := fs\<rparr>"
  by (auto simp: stepE_def split: list.splits option.splits intro: exI [of _ "w_faults w"])

lemma copyFile_content:
  assumes "copyFile source target w = (Inr (), w')"
  shows "content_at w source \<noteq> None \<and> content_at w' target = content_at w source
     \<and> (\<forall>p. p \<noteq> target \<longrightarrow> content_at w' p = content_at w p) \<and> w_dirs w' = w_dirs w"
proof -
  from assms obtain c u1 w1 u2 w2 u3 w3 where
    1: "stepE w = (Inr u1, w1)" and c: "map_option fst (map_of (w_files w1) source) = Some c"
    and 2: "stepE w1 = (Inr u2, w2)" and 3: "stepE w2 = (Inr u3, w3)"
    and w': "w' = w3\<lparr>w_files := AList.update target (c, w_now w3) (w_files w3)\<rparr>"
    unfolding copyFile_def readFile_def writeFile_def
    by (auto elim!: bindE_InrE split: option.splits)
  from stepE_InrD [OF 1] stepE_InrD [OF 2] stepE_InrD [OF 3]
  have "w_files w1 = w_files w" "w_files w3 = w_files w" "w_dirs w3 = w_dirs w" by auto
  with c w' show ?thesis by (auto simp: content_at_def update_conv')
qed

lemma backup_name_other: "backup_name target now \<noteq> target"
  by (simp add: backup_name_def)

text \<open>A credential that is deployed is the account's; what was there is in the backup.\<close>

lemma copyFileWithBackup_content:
  assumes "copyFileWithBackup M source target w = (Inr (), w')" "\<not> samePath (env_cwd M) source target"
    and "source \<noteq> backup_name target (w_now w)"
  shows "content_at w' target = content_at w source
     \<and> (file_exists w target \<longrightarrow> content_at w' (backup_name target (w_now w)) = content_at w target)
     \<and> (\<forall>p. p \<noteq> target \<longrightarrow> p \<noteq> backup_name target (w_now w) \<longrightarrow> content_at w' p = content_at w p)"
proof -
  let ?b = "backup_name target (w_now w)"
  from assms(1,2) obtain u w1 where 1: "stepE w = (Inr u, w1)"
    and rest: "bindE (whenE (file_exists w1 target) (\<lambda>w.
            case copyFile target (backup_name target (w_now w1)) w of
              (Inl e, w') \<Rightarrow> (Inl (ErrText (''backup existing '' @ path_base target @ '': '' @ error_text e)), w')
            | r \<Rightarrow> r)) (\<lambda>_. copyFile source target) w1 = (Inr (), w')"
    unfolding copyFileWithBackup_def by (auto elim!: bindE_InrE split: if_splits)
  from stepE_InrD [OF 1] have same: "content_at w1 p = content_at w p" "file_exists w1 p = file_exists w p"
    "w_now w1 = w_now w" for p by (auto simp: content_at_def file_exists_def)
  show ?thesis
  proof (cases "file_exists w target")
    case True
    with rest same obtain w2 where 2: "copyFile target ?b w1 = (Inr (), w2)" "copyFile source target w2 = (Inr (), w')"
      by (auto simp: whenE_def bindE_def split: prod.splits sum.splits)
    show ?thesis
      using copyFile_content [OF 2(1)] copyFile_content [OF 2(2)] assms(3) same backup_name_other [of target "w_now w"]
      by auto
  next
    case False
    with rest same have "copyFile source target w1 = (Inr (), w')" by (simp add: whenE_def)
    from copyFile_content [OF this] same False show ?thesis by auto
  qed
qed

end
