(* ===== verification/ConfigLink.thy ===== *)
theory ConfigLink
  imports Deploy Settings
begin

text \<open>
  The link from a managed home to the shared \<open>config.toml\<close>, and the commands that start
  codex in such a home (\<open>internal/manager/codex.go\<close>); a command is its words and its environment. A
  directory in the place of the link is an error, it is not moved away. The
  main fact: making the link never loses a file, what was in its place is in a backup.
\<close>

section \<open>Links\<close>

text \<open>\<open>os.Remove\<close> where a missing file is no error.\<close>

definition removeFile :: "string \<Rightarrow> unit io" where
  "removeFile path = bindE stepE (\<lambda>_. modifyE (\<lambda>w. w\<lparr>w_files := AList.delete path (w_files w)\<rparr>))"

text \<open>A symbolic link is a file that holds its target, marked; links are not followed.\<close>

definition link_to :: "string \<Rightarrow> content" where
  "link_to target = NotJson (''-> '' @ target)"

fun is_link :: "content \<Rightarrow> bool" where
  "is_link (NotJson t) = has_prefix t ''-> ''"
| "is_link (Doc d) = False"

text \<open>Two paths are the same, or the second is a link to the first.\<close>

definition same_file :: "'m Manager_scheme \<Rightarrow> World \<Rightarrow> string \<Rightarrow> string \<Rightarrow> bool" where
  "same_file M w source target \<longleftrightarrow>
     samePath (env_cwd M) source target \<or> content_at w target = Some (link_to source)"

definition CodexConfigPath :: "'m Manager_scheme \<Rightarrow> string \<Rightarrow> string" where
  "CodexConfigPath M codexHome =
     (let h = trim_space codexHome;
          h = (if h = [] then (case defaultCodexHome M of Inr v \<Rightarrow> v | Inl _ \<Rightarrow> []) else h)
      in config_path h)"

definition path_dir :: "string \<Rightarrow> string" where
  "path_dir p = clean_path (rev (dropWhile (\<lambda>c. c \<noteq> CHR ''/'') (rev p)))"

text \<open>\<open>os.Symlink\<close>, where there is no file.\<close>

definition symlink :: "string \<Rightarrow> string \<Rightarrow> unit io" where
  "symlink source target =
     bindE (getsE (\<lambda>w. file_exists w target)) (\<lambda>there.
       if there then throwE (ErrText (''symlink '' @ source @ '' '' @ target @ '': file exists''))
       else writeFile target (link_to source))"

definition make_room :: "string \<Rightarrow> unit io" where
  "make_room target =
     bindE stepE (\<lambda>_. bindE (getsE (\<lambda>w. content_at w target)) (\<lambda>found.
       case found of
         None \<Rightarrow> returnE ()
       | Some c \<Rightarrow>
           if is_link c then removeFile target
           else bindE (getsE (\<lambda>w. nextBackupPath w target)) (\<lambda>backup.
             case backup of
               None \<Rightarrow> throwE (ErrText (''could not find backup path for '' @ target))
             | Some b \<Rightarrow> renameFile target b)))"

definition ensureLocalConfigLink :: "'m Manager_scheme \<Rightarrow> string \<Rightarrow> unit io" where
  "ensureLocalConfigLink M codexHome =
     (let source = CodexConfigPath M (m_LiveCodexHome M); target = config_path codexHome in
      if trim_space codexHome = [] then returnE ()
      else bindE (getsE (\<lambda>w. same_file M w source target)) (\<lambda>same.
        if same then returnE ()
        else bindE (mkdirAll (path_dir source)) (\<lambda>_. bindE (mkdirAll codexHome) (\<lambda>_.
          bindE stepE (\<lambda>_. bindE (getsE (\<lambda>w. file_exists w source)) (\<lambda>there.
          bindE (whenE (\<not> there) (writeFile source (NotJson []))) (\<lambda>_.
          bindE (make_room target) (\<lambda>_. symlink source target))))))))"

section \<open>Commands in a managed home\<close>

definition home_command :: "'m Manager_scheme \<Rightarrow> string list \<Rightarrow> Account \<Rightarrow> string list \<Rightarrow> (string list \<times> string list) io" where
  "home_command M environ a words =
     bindE (mkdirAll (acc_CodexHome a)) (\<lambda>_. bindE (ensureLocalConfigLink M (acc_CodexHome a)) (\<lambda>_.
       returnE (words, withEnv environ ''CODEX_HOME'' (acc_CodexHome a))))"

definition LoginCommand :: "'m Manager_scheme \<Rightarrow> string list \<Rightarrow> string \<Rightarrow> (string list \<times> string list) io" where
  "LoginCommand M environ k =
     bindE (GetAccount M k) (\<lambda>a. home_command M environ a [''codex'', ''login'', ''--device-auth''])"

definition CodexCommand :: "'m Manager_scheme \<Rightarrow> string list \<Rightarrow> string \<Rightarrow> string list \<Rightarrow> (string list \<times> string list) io" where
  "CodexCommand M environ k args =
     bindE (GetAccount M k) (\<lambda>a.
       if acc_Status a = StatusDisabled then throwE (ErrText (''account '' @ quoted k @ '' is disabled''))
       else home_command M environ a (''codex'' # args))"

section \<open>Nothing is lost\<close>

lemma stepE_only_faults: "\<exists>fs. snd (stepE w) = w\<lparr>w_faults := fs\<rparr>"
  by (auto simp: stepE_def split: list.splits option.splits intro: exI [of _ "w_faults w"])

lemma removeFile_content: "p \<noteq> path \<Longrightarrow> content_at (snd (removeFile path w)) p = content_at w p"
  using stepE_only_faults [of w] by (auto simp: removeFile_def bindE_def modifyE_def content_at_def split: prod.splits sum.splits)

lemma writeFile_content:
  "p \<noteq> path \<Longrightarrow> content_at (snd (writeFile path c w)) p = content_at w p"
  "fst (writeFile path c w) = Inr () \<Longrightarrow> content_at (snd (writeFile path c w)) path = Some c"
  using stepE_only_faults [of w]
  by (auto simp: writeFile_def bindE_def modifyE_def content_at_def update_conv' split: prod.splits sum.splits)

lemma renameFile_content:
  "p \<noteq> source \<Longrightarrow> p \<noteq> target \<Longrightarrow> content_at (snd (renameFile source target w)) p = content_at w p"
  "fst (renameFile source target w) = Inr () \<Longrightarrow> content_at (snd (renameFile source target w)) target = content_at w source"
  "fst (renameFile source target w) = Inl e \<Longrightarrow> content_at (snd (renameFile source target w)) target = content_at w target"
  using stepE_only_faults [of w]
  by (auto simp: renameFile_def bindE_def content_at_def update_conv' split: prod.splits sum.splits option.splits)

lemma removeFile_gone: "fst (removeFile path w) = Inr () \<Longrightarrow> content_at (snd (removeFile path w)) path = None"
  by (auto simp: removeFile_def bindE_def modifyE_def content_at_def delete_conv' split: prod.splits sum.splits)

lemma renameFile_source:
  "fst (renameFile source target w) = Inr () \<Longrightarrow> source \<noteq> target \<Longrightarrow> content_at (snd (renameFile source target w)) source = None"
  using stepE_only_faults [of w]
  by (auto simp: renameFile_def bindE_def content_at_def update_conv' delete_conv' split: prod.splits sum.splits option.splits)

text \<open>A file in the place of the link is in a backup afterwards, a link is gone, and no other file has changed.\<close>

lemma make_room_keeps:
  assumes "make_room target w = (Inr (), w')"
  shows "content_at w' target = None
     \<and> (\<forall>p. p \<noteq> target \<longrightarrow> content_at w p \<noteq> None \<longrightarrow> content_at w' p = content_at w p)
     \<and> (\<forall>c. content_at w target = Some c \<longrightarrow> \<not> is_link c \<longrightarrow> (\<exists>b. b \<noteq> target \<and> content_at w' b = Some c))"
proof -
  obtain u w1 where 1: "stepE w = (Inr u, w1)"
    using assms by (auto simp: make_room_def elim: bindE_InrE)
  from stepE_InrD [OF 1] have same: "content_at w1 p = content_at w p" for p by (auto simp: content_at_def)
  have rest: "(case content_at w1 target of
         None \<Rightarrow> returnE ()
       | Some c \<Rightarrow>
           if is_link c then removeFile target
           else bindE (getsE (\<lambda>w. nextBackupPath w target)) (\<lambda>backup.
             case backup of
               None \<Rightarrow> throwE (ErrText (''could not find backup path for '' @ target))
             | Some b \<Rightarrow> renameFile target b)) w1 = (Inr (), w')"
    using assms 1 by (simp add: make_room_def bindE_def getsE_def)
  show ?thesis
  proof (cases "content_at w target")
    case None
    with rest same have "w' = w1" by (simp add: returnE_def)
    with None same show ?thesis by simp
  next
    case (Some c)
    show ?thesis
    proof (cases "is_link c")
      case True
      with rest same Some have r: "removeFile target w1 = (Inr (), w')" by simp
      from removeFile_gone [of target w1] removeFile_content [of _ target w1] r same True Some show ?thesis by simp
    next
      case False
      with rest same Some obtain b where b: "nextBackupPath w1 target = Some b" "renameFile target b w1 = (Inr (), w')"
        by (auto simp: bindE_def getsE_def throwE_def split: option.splits)
      have "content_at w1 b = None"
        using nextBackupPath_free [OF b(1)] by (cases "map_of (w_files w1) b") (auto simp: file_exists_def content_at_def)
      with same [of b] have n: "content_at w b = None" by simp
      with Some have ne: "target \<noteq> b" by auto
      have r: "content_at w' b = Some c" "content_at w' target = None"
        using renameFile_content(2) [of target b w1] renameFile_source [of target b w1] b(2) ne same Some by simp_all
      have k: "content_at w' p = content_at w p" if "p \<noteq> target" "content_at w p \<noteq> None" for p
      proof -
        from that(2) n have "p \<noteq> b" by auto
        with renameFile_content(1) [of p target b w1] b(2) same that(1) show ?thesis by simp
      qed
      from Some have "\<exists>x. x \<noteq> target \<and> content_at w' x = Some y" if "content_at w target = Some y" for y
        using that r(1) ne by (intro exI [of _ b]) simp
      with r(2) k show ?thesis by simp
    qed
  qed
qed

text \<open>So the link is made, and what the home and the shared configuration held is still there.\<close>

lemma mkdirAll_content: "mkdirAll path w = (Inr u, w') \<Longrightarrow> content_at w' p = content_at w p"
  by (auto simp: mkdirAll_def content_at_def elim!: bindE_InrE dest!: stepE_InrD)

lemma symlink_content:
  assumes "symlink source target w = (Inr (), w')"
  shows "content_at w' target = Some (link_to source) \<and> (\<forall>p. p \<noteq> target \<longrightarrow> content_at w' p = content_at w p)"
proof -
  have "writeFile target (link_to source) w = (Inr (), w')"
    using assms by (auto simp: symlink_def bindE_def getsE_def throwE_def split: if_splits)
  with writeFile_content(1) [of _ target "link_to source" w] writeFile_content(2) [of target "link_to source" w]
  show ?thesis by auto
qed

lemma config_link_keeps:
  assumes "ensureLocalConfigLink M codexHome w = (Inr (), w')" "trim_space codexHome \<noteq> []"
  shows "same_file M w' (CodexConfigPath M (m_LiveCodexHome M)) (config_path codexHome)
     \<and> (\<forall>p c. content_at w p = Some c \<longrightarrow> \<not> is_link c \<longrightarrow> (\<exists>b. content_at w' b = Some c))"
proof -
  let ?source = "CodexConfigPath M (m_LiveCodexHome M)" and ?target = "config_path codexHome"
  show ?thesis
  proof (cases "same_file M w ?source ?target")
    case True
    with assms have "w' = w" by (simp add: ensureLocalConfigLink_def bindE_def getsE_def returnE_def Let_def)
    with True show ?thesis by blast
  next
    case False
    with assms obtain u1 w1 u2 w2 u3 w3 u4 w4 u5 w5 where
      1: "mkdirAll (path_dir ?source) w = (Inr u1, w1)" and 2: "mkdirAll codexHome w1 = (Inr u2, w2)"
      and 3: "stepE w2 = (Inr u3, w3)"
      and 4: "whenE (\<not> file_exists w3 ?source) (writeFile ?source (NotJson [])) w3 = (Inr u4, w4)"
      and 5: "make_room ?target w4 = (Inr u5, w5)" and 6: "symlink ?source ?target w5 = (Inr (), w')"
      by (auto simp: ensureLocalConfigLink_def Let_def elim!: bindE_InrE split: if_splits)
    have c3: "content_at w3 p = content_at w p" for p
      using mkdirAll_content [OF 1, of p] mkdirAll_content [OF 2, of p] stepE_InrD [OF 3] by (auto simp: content_at_def)
    have c4: "content_at w4 p = Some c" if "content_at w p = Some c" for p c
    proof (cases "file_exists w3 ?source")
      case True
      with 4 c3 [of p] that show ?thesis by (simp add: whenE_def returnE_def)
    next
      case no: False
      have "p \<noteq> ?source" using no that c3 [of p] by (auto simp: file_exists_def content_at_def)
      with no 4 c3 [of p] that writeFile_content(1) [of p ?source "NotJson []" w3] show ?thesis by (simp add: whenE_def)
    qed
    from 5 have "make_room ?target w4 = (Inr (), w5)" by simp
    note room = make_room_keeps [OF this] and link = symlink_content [OF 6]
    have "\<exists>b. content_at w' b = Some c" if p: "content_at w p = Some c" "\<not> is_link c" for p c
    proof (cases "p = ?target")
      case True
      with room c4 [OF p(1)] p(2) link show ?thesis by metis
    next
      case other: False
      with room c4 [OF p(1)] link show ?thesis by (metis option.distinct(1))
    qed
    with link show ?thesis by (simp add: same_file_def)
  qed
qed

end
