(* ===== verification/CliRun.thy ===== *)
theory CliRun
  imports CliFlags ConfigLink WebServer "HOL-Library.Sublist"
begin

text \<open>
  \<open>cube run\<close> of \<open>cmd/cube/main.go\<close>: the home of a run and its credential files, the
  requests to the cloud and the policy of account swaps, the heartbeat loop beside a codex
  process, and the loop over swaps. What the cloud, the codex process and the files of its sessions do is
  given to the loops as lists of outcomes. The main facts: a credential file is replaced whole or
  not at all, what a heartbeat sends is what the server decodes, and a run returns every lease it
  claimed whose release the cloud accepts.
\<close>

section \<open>Files of a run\<close>

definition replace_file :: "string \<Rightarrow> content \<Rightarrow> unit io" where
  "replace_file path c =
     (let tmp = path @ ''.tmp'' in
      bindE (removeFile tmp) (\<lambda>_. bindE (writeFile tmp c) (\<lambda>_.
      bindE (tryE (renameFile tmp path)) (\<lambda>r.
        case r of
          Inl e \<Rightarrow> bindE (ignoreE (removeFile tmp)) (\<lambda>_. throwE e)
        | Inr _ \<Rightarrow> returnE ()))))"

definition writeFileAtomic :: "string \<Rightarrow> content \<Rightarrow> unit io" where
  "writeFileAtomic path c = replace_file path c"

definition symlinkAtomic :: "string \<Rightarrow> string \<Rightarrow> unit io" where
  "symlinkAtomic target linkPath = replace_file linkPath (link_to target)"

definition writeSnapshotToStableHome :: "'m Manager_scheme \<Rightarrow> ProfileSnapshot \<Rightarrow> string \<Rightarrow> unit io" where
  "writeSnapshotToStableHome M s codexHome =
     bindE (writeFileAtomic (auth_path codexHome) (ps_Auth s)) (\<lambda>_.
       let configLink = config_path codexHome; localConfig = CodexConfigPath M (m_LiveCodexHome M) in
       bindE stepE (\<lambda>_. bindE (getsE (\<lambda>w. file_exists w localConfig)) (\<lambda>there.
         if there then symlinkAtomic localConfig configLink else removeFile configLink)))"

text \<open>The same in a new temporary directory below \<open>tmp\<close>, which is removed on an error.\<close>

definition writeSnapshotToTempHome :: "'m Manager_scheme \<Rightarrow> string \<Rightarrow> ProfileSnapshot \<Rightarrow> string io" where
  "writeSnapshotToTempHome M tmp s =
     bindE randE (\<lambda>r.
       let codexHome = path_join tmp (''cube20-run-'' @ r) in
       bindE (mkdirAll codexHome) (\<lambda>_.
       bindE (tryE (writeSnapshotToStableHome M s codexHome)) (\<lambda>r.
         case r of
           Inl e \<Rightarrow> bindE (ignoreE (removeAll_dir codexHome)) (\<lambda>_. throwE e)
         | Inr _ \<Rightarrow> returnE codexHome)))"

text \<open>The codex process of a home: its command line and its environment.\<close>

definition setEnv :: "string list \<Rightarrow> string \<Rightarrow> string \<Rightarrow> string list" where
  "setEnv env key v = withEnv env key v"

definition codexCommandForHome :: "string list \<Rightarrow> string \<Rightarrow> string list \<Rightarrow> string list \<times> string list" where
  "codexCommandForHome environ codexHome args = (''codex'' # args, setEnv environ ''CODEX_HOME'' codexHome)"

definition scrubAuth :: "string \<Rightarrow> unit io" where
  "scrubAuth codexHome =
     bindE (removeFile (auth_path codexHome)) (\<lambda>_. removeFile (config_path codexHome))"

definition stableRunHome :: "string \<Rightarrow> string io" where
  "stableRunHome baseDir =
     bindE randE (\<lambda>r.
       let dir = path_join (path_join baseDir ''runs'') r in
       bindE (mkdirAll dir) (\<lambda>_. returnE dir))"

text \<open>
  \<open>dir_time\<close> is the modification time of a directory, which the world does not keep. An error of
  any step is ignored, so it only leaves its file.
\<close>

definition auth_stale :: "World \<Rightarrow> string \<Rightarrow> bool" where
  "auth_stale w dir \<longleftrightarrow> (case stat_file w (auth_path dir) of None \<Rightarrow> False | Some t \<Rightarrow> t < w_now w - hour)"

definition prune_dir :: "(string \<Rightarrow> time option) \<Rightarrow> string \<Rightarrow> unit io" where
  "prune_dir dir_time dir =
     bindE (getsE (\<lambda>w. auth_stale w dir)) (\<lambda>stale.
     bindE (whenE stale (bindE (ignoreE (removeFile (auth_path dir))) (\<lambda>_. ignoreE (removeFile (config_path dir))))) (\<lambda>_.
     bindE nowE (\<lambda>now.
       whenE (case dir_time dir of None \<Rightarrow> False | Some t \<Rightarrow> t \<noteq> zero_time \<and> t < now - 7 * 24 * hour)
         (ignoreE (removeAll_dir dir)))))"

definition pruneOldRuns :: "(string \<Rightarrow> time option) \<Rightarrow> string \<Rightarrow> unit io" where
  "pruneOldRuns dir_time runsDir =
     bindE (tryE stepE) (\<lambda>r.
       case r of
         Inl _ \<Rightarrow> returnE ()
       | Inr _ \<Rightarrow> bindE (getsE (\<lambda>w. dir_entries w runsDir)) (\<lambda>names.
           mapM_E (\<lambda>n. prune_dir dir_time (path_join runsDir n)) names))"

section \<open>The session to resume\<close>

definition rollout :: "string \<Rightarrow> bool" where
  "rollout name \<longleftrightarrow> has_prefix name ''rollout-'' \<and> has_suffix name ''.jsonl''"

definition hex_char :: "char \<Rightarrow> bool" where
  "hex_char c \<longleftrightarrow> hex_digit c \<noteq> None"

definition uuid_shape :: "string \<Rightarrow> bool" where
  "uuid_shape s \<longleftrightarrow> length s = 36 \<and> (\<forall>i \<in> set [0..<36].
     if i \<in> {8, 13, 18, 23} then s ! i = CHR ''-'' else hex_char (s ! i))"

text \<open>\<open>rolloutSessionIDRe\<close> matches the 36 characters before the suffix.\<close>

definition session_id :: "string \<Rightarrow> string option" where
  "session_id name =
     (let n = length name - 42; u = take 36 (drop n name) in
      if 42 \<le> length name \<and> has_suffix name ''.jsonl'' \<and> uuid_shape u then Some u else None)"

definition newest_name :: "string list \<Rightarrow> string" where
  "newest_name names = fold (\<lambda>n best. if rollout n \<and> (best = [] \<or> best < n) then n else best) names []"

definition newestSessionID :: "tree \<Rightarrow> string \<Rightarrow> error + string" where
  "newestSessionID tree codexHome =
     (let dir = path_join codexHome ''sessions'';
          names = map (path_base \<circ> fst) (filter (\<lambda>f. has_prefix (fst f) (dir @ ''/'')) tree);
          best = newest_name names
      in if best = [] then Inl (ErrText (''no rollout session found under '' @ dir))
         else case session_id best of
             None \<Rightarrow> Inl (ErrText (''could not extract session id from '' @ best))
           | Some u \<Rightarrow> Inr u)"

section \<open>Quota and swaps\<close>

definition swapRemainingThresholdClient :: percent where "swapRemainingThresholdClient = 10"

definition swapDecision :: "RateLimits \<Rightarrow> bool \<Rightarrow> bool \<times> string" where
  "swapDecision rl cloudShouldSwap =
     (if rl_ReachedType rl \<noteq> [] then (True, ''hard limit reached: '' @ rl_ReachedType rl)
      else if cloudShouldSwap then (True, ''cloud advised swap'')
      else if rl_Found rl \<and> 100 - rl_FiveHourUsedPercent rl < swapRemainingThresholdClient
      then (True, ''5h remaining low'') else (False, []))"

definition reset_text :: "time \<Rightarrow> string" where
  "reset_text t = (if t = zero_time then [] else format_rfc3339 t)"

definition plain_window :: "string \<Rightarrow> string \<Rightarrow> percent \<Rightarrow> time \<Rightarrow> Window" where
  "plain_window key label used t = \<lparr>win_Key = key, win_Label = label, win_UsedPercent = used,
     win_RemainingPercent = 100 - used, win_ResetsAt = reset_text t, win_UsedDisplay = [], win_RemainingDisplay = [],
     win_Stale = False\<rparr>"

definition rateLimitsToWindow :: "RateLimits \<Rightarrow> Window option" where
  "rateLimitsToWindow rl =
     (if \<not> rl_Found rl then None
      else Some (plain_window ''five_hour'' ''5h'' (rl_FiveHourUsedPercent rl) (rl_FiveHourResetsAt rl)))"

definition rateLimitsToWindows :: "RateLimits \<Rightarrow> Window list" where
  "rateLimitsToWindows rl =
     (if \<not> rl_Found rl then []
      else (case rateLimitsToWindow rl of None \<Rightarrow> [] | Some x \<Rightarrow> [x])
        @ (if rl_SevenDayResetsAt rl \<noteq> zero_time \<or> 0 < rl_SevenDayUsedPercent rl
           then [plain_window ''seven_day'' ''7d'' (rl_SevenDayUsedPercent rl) (rl_SevenDayResetsAt rl)] else []))"

section \<open>Requests to the cloud\<close>

text \<open>A string field that is left out when it is empty.\<close>

definition omit_empty :: "string \<Rightarrow> string \<Rightarrow> (string \<times> json) list" where
  "omit_empty k v = (if v = [] then [] else [(k, JStr v)])"

definition window_json :: "Window \<Rightarrow> json" where
  "window_json x = JObj ([(''key'', JStr (win_Key x)), (''label'', JStr (win_Label x)),
       (''usedPercent'', JNum (win_UsedPercent x)), (''remainingPercent'', JNum (win_RemainingPercent x))]
     @ omit_empty ''resetsAt'' (win_ResetsAt x) @ omit_empty ''usedDisplay'' (win_UsedDisplay x)
     @ omit_empty ''remainingDisplay'' (win_RemainingDisplay x)
     @ (if win_Stale x then [(''stale'', JBool True)] else []))"

definition claim_body :: "cloudSyncOptions \<Rightarrow> json" where
  "claim_body opts = JObj ([(''client'', JStr (cso_Client opts))] @ omit_empty ''workspace'' (cso_Workspace opts)
     @ omit_empty ''deviceId'' (cso_Device opts) @ [(''ttlSeconds'', JNum (of_int (leaseTTLSeconds opts)))])"

definition heartbeat_body :: "cloudSyncOptions \<Rightarrow> string \<Rightarrow> RateLimits \<Rightarrow> json" where
  "heartbeat_body opts accountID rl = JObj ([(''accountId'', JStr accountID), (''client'', JStr (cso_Client opts))]
     @ omit_empty ''deviceId'' (cso_Device opts) @ [(''ttlSeconds'', JNum (of_int (leaseTTLSeconds opts)))]
     @ (case rateLimitsToWindow rl of None \<Rightarrow> [] | Some x \<Rightarrow> [(''fiveHour'', window_json x)])
     @ (if rateLimitsToWindows rl = [] then [] else [(''quotas'', JArr (map window_json (rateLimitsToWindows rl)))])
     @ (if rl_ReachedType rl \<noteq> [] then [(''rateLimitReached'', JBool True)] else []))"

definition release_body :: "string \<Rightarrow> json" where
  "release_body accountID = JObj [(''accountId'', JStr accountID)]"

text \<open>\<open>cloudJSON\<close>: the request as the server sees it, from the address of the client.\<close>

definition cloudJSON :: "string \<Rightarrow> cloudSyncOptions \<Rightarrow> string \<Rightarrow> string \<Rightarrow> string \<Rightarrow> http_request" where
  "cloudJSON addr opts m path body = \<lparr>hr_Method = m, hr_Path = path, hr_XCubeToken = [],
     hr_Authorization = (if cso_Token opts \<noteq> [] then ''Bearer '' @ cso_Token opts else []), hr_Query = [],
     hr_Cookie = None, hr_Body = body, hr_RemoteAddr = addr\<rparr>"

text \<open>
  What \<open>cloudJSON\<close> makes of an answer: an error for a status outside 200 to 299, with the
  message of the server if it sent one; else the decoded body, if there is one.
\<close>

record http_answer =
  ha_Status :: string
  ha_Code :: nat
  ha_Body :: string

definition cloud_answer :: "(string \<Rightarrow> json option) \<Rightarrow> kind \<Rightarrow> http_answer \<Rightarrow> error + json option" where
  "cloud_answer decode k a =
     (let raw = take (4 * mebi) (ha_Body a) in
      if ha_Code a < 200 \<or> 300 \<le> ha_Code a then
        (case decode raw of
           Some v \<Rightarrow>
             if fits (KStruct [(''error'', KStr)]) v \<and> str_at v ''error'' \<noteq> []
             then Inl (ErrText (ha_Status a @ '': '' @ str_at v ''error'')) else Inl (ErrText (ha_Status a))
         | None \<Rightarrow> Inl (ErrText (ha_Status a)))
      else if raw = [] then Inr None
      else case decode raw of
          None \<Rightarrow> Inl (ErrText ''json'')
        | Some v \<Rightarrow> if fits k v then Inr (Some v) else Inl (ErrText ''json''))"

text \<open>The method and the path of every request of a run and of a report; ids are path-escaped.\<close>

datatype cloud_call =
    CallClaim | CallHeartbeat string | CallAuth string | CallRelease string | CallUsage | CallPush | CallQuotaReport string

fun call_route :: "cloud_call \<Rightarrow> string \<times> string" where
  "call_route CallClaim = (''POST'', ''/api/sync/leases'')"
| "call_route (CallHeartbeat k) = (''PATCH'', ''/api/sync/leases/'' @ k)"
| "call_route (CallAuth k) = (''PUT'', ''/api/sync/leases/'' @ k @ ''/auth'')"
| "call_route (CallRelease k) = (''DELETE'', ''/api/sync/leases/'' @ k)"
| "call_route CallUsage = (''POST'', ''/api/sync/usage'')"
| "call_route CallPush = (''POST'', ''/api/sync/push'')"
| "call_route (CallQuotaReport k) = (''POST'', ''/api/sync/quota/'' @ k)"

definition client_request :: "string \<Rightarrow> cloudSyncOptions \<Rightarrow> cloud_call \<Rightarrow> string \<Rightarrow> http_request" where
  "client_request addr opts c body = (let (m, path) = call_route c in cloudJSON addr opts m path body)"

text \<open>The lease of an answer, checked as \<open>claimLeaseSnapshot\<close> does.\<close>

definition claimLeaseSnapshot :: "LeaseSnapshot \<Rightarrow> error + LeaseSnapshot" where
  "claimLeaseSnapshot s =
     (if trim_space (lse_ID (ls_Lease s)) = [] then Inl (ErrText ''cloud lease returned an empty lease id'')
      else if trim_space (ps_ID (ls_Snapshot s)) = [] then Inl (ErrText ''cloud lease returned an empty account id'')
      else if ps_Auth (ls_Snapshot s) = NotJson [] \<or> ps_Auth (ls_Snapshot s) = Doc JNull
      then Inl (ErrText (''cloud lease for '' @ ps_ID (ls_Snapshot s) @ '' returned no auth''))
      else Inr (s\<lparr>ls_Snapshot := (ls_Snapshot s)
        \<lparr>ps_LeaseID := lse_ID (ls_Lease s), ps_Generation := lse_Generation (ls_Lease s)\<rparr>\<rparr>))"

text \<open>
  The upload of the credential of a run: the snapshot that is sent, with the request that carries it.
\<close>

definition pushLeasedAuthFromHome :: "cloudSyncOptions \<Rightarrow> ProfileSnapshot \<Rightarrow> string \<Rightarrow> (cloud_call \<times> ProfileSnapshot) io" where
  "pushLeasedAuthFromHome opts snapshot codexHome =
     bindE (readFile (auth_path codexHome)) (\<lambda>raw.
       case raw of
         None \<Rightarrow> throwE (ErrText (''open '' @ auth_path codexHome @ '': no such file or directory''))
       | Some authRaw \<Rightarrow> bindE nowE (\<lambda>now.
           returnE (CallAuth (ps_LeaseID snapshot),
             snapshot\<lparr>ps_Auth := authRaw, ps_Config := [], ps_SourceClient := cso_Client opts, ps_UpdatedAt := now\<rparr>)))"

section \<open>Beside the codex process\<close>

text \<open>
  A tick of the heartbeat: the answer (None: an error), the digest of the credential file
  (empty: unreadable), the generation an upload returns (None: an error), and the rate
  limits of the session files.
\<close>

record tick =
  tk_beat :: "(int \<times> bool) option"
  tk_digest :: string
  tk_push :: "int option"
  tk_limits :: RateLimits

text \<open>\<open>wt_Uploads\<close> are the generations the credential was uploaded with.\<close>

record watch =
  wt_Generation :: int
  wt_Digest :: string
  wt_Uploads :: "int list"
  wt_Swap :: "string option"

definition watch_tick :: "tick \<Rightarrow> watch \<Rightarrow> watch" where
  "watch_tick t s =
     (let (gen, shouldSwap) = (case tk_beat t of None \<Rightarrow> (0, False) | Some x \<Rightarrow> x);
          s = (if tk_beat t \<noteq> None \<and> 0 < gen then s\<lparr>wt_Generation := gen\<rparr> else s);
          s = (if tk_digest t \<noteq> [] \<and> tk_digest t \<noteq> wt_Digest s
               then (case tk_push t of
                   None \<Rightarrow> s\<lparr>wt_Uploads := wt_Uploads s @ [wt_Generation s]\<rparr>
                 | Some g \<Rightarrow> s\<lparr>wt_Uploads := wt_Uploads s @ [wt_Generation s], wt_Generation := g, wt_Digest := tk_digest t\<rparr>)
               else s);
          (swap, reason) = swapDecision (tk_limits t) shouldSwap
      in if swap then s\<lparr>wt_Swap := Some reason\<rparr> else s)"

text \<open>The ticks until codex ends, or until a swap is asked for.\<close>

fun watch_run :: "tick list \<Rightarrow> watch \<Rightarrow> watch" where
  "watch_run [] s = s"
| "watch_run (t # ts) s =
     (let s = watch_tick t s in if wt_Swap s \<noteq> None then s else watch_run ts s)"

text \<open>
  A codex process: the digest of its credential file at the start, the ticks while it runs, whether
  it fails, and the generation the last upload returns (None: an error).
\<close>

record process =
  pr_Digest :: string
  pr_Ticks :: "tick list"
  pr_Fails :: bool
  pr_Push :: "int option"

text \<open>The reason of a swap, whether the run failed, whether the last upload did, and all uploads.\<close>

definition runCommandWithLease :: "LeaseSnapshot \<Rightarrow> process \<Rightarrow> string option \<times> bool \<times> bool \<times> int list" where
  "runCommandWithLease l p =
     (let snapshot = ls_Snapshot l;
          gen = (if ps_Generation snapshot = 0 then lse_Generation (ls_Lease l) else ps_Generation snapshot);
          s = watch_run (pr_Ticks p) \<lparr>wt_Generation = gen, wt_Digest = pr_Digest p, wt_Uploads = [], wt_Swap = None\<rparr>
      in (wt_Swap s, pr_Fails p \<and> wt_Swap s = None, pr_Push p = None, wt_Uploads s @ [wt_Generation s]))"

section \<open>The loop over swaps\<close>

text \<open>
  A round of the loop: the codex process, the session found after it, the answer to the next
  claim (None: an error), whether the cloud takes the old lease back, and whether the credential of the
  new one was written.
\<close>

record swap_round =
  rd_Process :: process
  rd_Session :: "string option"
  rd_Claim :: "LeaseSnapshot option"
  rd_Released :: bool
  rd_Written :: bool

text \<open>
  What a run has when its loop ends: the leases it claimed, those the cloud took back, the
  current one, the two errors, and the arguments of the codex processes it started.
\<close>

record run_state =
  rn_Claimed :: "LeaseSnapshot list"
  rn_Released :: "LeaseSnapshot list"
  rn_Lease :: LeaseSnapshot
  rn_RunErr :: bool
  rn_AuthErr :: bool
  rn_Args :: "string list list"

definition run_codex :: "string list \<Rightarrow> process \<Rightarrow> run_state \<Rightarrow> string option \<times> run_state" where
  "run_codex args p s =
     (let (swap, runErr, authErr, _) = runCommandWithLease (rn_Lease s) p
      in (swap, s\<lparr>rn_Args := rn_Args s @ [args], rn_RunErr := runErr, rn_AuthErr := authErr\<rparr>))"

definition next_lease :: "swap_round \<Rightarrow> LeaseSnapshot option" where
  "next_lease r = (case rd_Claim r of
     None \<Rightarrow> None
   | Some got \<Rightarrow> (case claimLeaseSnapshot got of Inl _ \<Rightarrow> None | Inr l \<Rightarrow> Some l))"

definition take_over :: "LeaseSnapshot \<Rightarrow> bool \<Rightarrow> run_state \<Rightarrow> run_state" where
  "take_over l accepted s = s\<lparr>rn_Claimed := rn_Claimed s @ [l],
     rn_Released := (if accepted then rn_Released s @ [rn_Lease s] else rn_Released s), rn_Lease := l\<rparr>"

fun run_loop :: "string list \<Rightarrow> swap_round list \<Rightarrow> run_state \<Rightarrow> run_state option" where
  "run_loop args [] s = None"
| "run_loop args (r # rs) s =
     (let (swap, s) = run_codex args (rd_Process r) s in
      if swap = None then Some s
      else case rd_Session r of
          None \<Rightarrow> Some s
        | Some sid \<Rightarrow>
            (case next_lease r of
               None \<Rightarrow> Some s
             | Some l \<Rightarrow>
                 let s = take_over l (rd_Released r) s
                 in if \<not> rd_Written r then Some (s\<lparr>rn_RunErr := True\<rparr>)
                    else run_loop [''resume'', sid] rs s))"

text \<open>\<open>cleanupRun\<close>: \<open>release\<close> is its argument, \<open>accepted\<close> whether the cloud takes the lease back.\<close>

definition cleanupRun :: "bool \<Rightarrow> bool \<Rightarrow> run_state \<Rightarrow> run_state" where
  "cleanupRun release accepted s =
     (if release \<and> accepted then s\<lparr>rn_Released := rn_Released s @ [rn_Lease s]\<rparr> else s)"

text \<open>
  \<open>runCloudRun\<close> after its first claim: the home is made and the credential written
  (\<open>ready\<close>), or the run ends there; then the loop and the cleanup. None: the run has not ended yet.
\<close>

definition runCloudRun ::
  "LeaseSnapshot \<Rightarrow> string list \<Rightarrow> bool \<Rightarrow> swap_round list \<Rightarrow> bool \<Rightarrow> bool \<Rightarrow> run_state option" where
  "runCloudRun l codexArgs ready rounds canceled accepted =
     (let s = \<lparr>rn_Claimed = [l], rn_Released = [], rn_Lease = l, rn_RunErr = False, rn_AuthErr = False, rn_Args = []\<rparr> in
      if \<not> ready then Some (s\<lparr>rn_RunErr := True\<rparr>)
      else case run_loop codexArgs rounds s of
          None \<Rightarrow> None
        | Some s \<Rightarrow> Some (cleanupRun (\<not> rn_AuthErr s \<or> canceled) accepted s))"

text \<open>What the command ends with; the usage upload may fail, and the release is sent unless it must not be.\<close>

datatype run_end = RunDone | RunFailed | UploadFailed | UsageFailed | ReleaseFailed

definition run_outcome :: "bool \<Rightarrow> bool \<Rightarrow> bool \<Rightarrow> run_state \<Rightarrow> run_end" where
  "run_outcome canceled accepted usageErr s =
     (let releaseErr = (\<not> rn_AuthErr s \<or> canceled) \<and> \<not> accepted in
      if canceled then (if releaseErr then ReleaseFailed else RunDone)
      else if rn_RunErr s then RunFailed
      else if rn_AuthErr s then UploadFailed
      else if usageErr then UsageFailed
      else if releaseErr then ReleaseFailed else RunDone)"

section \<open>Files are replaced whole\<close>

lemmas replace_steps = replace_file_def bindE_def tryE_def ignoreE_def throwE_def returnE_def Let_def

lemma replace_file_whole:
  assumes "replace_file path c w = (r, w')"
  shows "(content_at w' path = content_at w path \<or> content_at w' path = Some c)
     \<and> (r = Inr () \<longrightarrow> content_at w' path = Some c)
     \<and> (\<forall>p. p \<noteq> path \<longrightarrow> p \<noteq> path @ ''.tmp'' \<longrightarrow> content_at w' p = content_at w p)"
proof -
  let ?tmp = "path @ ''.tmp''"
  obtain r1 w1 where 1: "removeFile ?tmp w = (r1, w1)" by fastforce
  have c1: "content_at w1 p = content_at w p" if "p \<noteq> ?tmp" for p
    using removeFile_content [OF that, of w] 1 by simp
  obtain r2 w2 where 2: "writeFile ?tmp c w1 = (r2, w2)" by fastforce
  have c2: "content_at w2 p = content_at w p" if "p \<noteq> ?tmp" for p
    using writeFile_content(1) [OF that, of c w1] 2 c1 [OF that] by simp
  obtain r3 w3 where 3: "renameFile ?tmp path w2 = (r3, w3)" by fastforce
  obtain r4 w4 where 4: "removeFile ?tmp w3 = (r4, w4)" by fastforce
  have c3: "content_at w3 p = content_at w p" if "p \<noteq> ?tmp" "p \<noteq> path" for p
    using renameFile_content(1) [of p ?tmp path w2] 3 c2 that by simp
  consider (rm) e where "r1 = Inl e" | (wr) u e where "r1 = Inr u" "r2 = Inl e"
    | (mv) u v e where "r1 = Inr u" "r2 = Inr v" "r3 = Inl e"
    | (fin) u v x where "r1 = Inr u" "r2 = Inr v" "r3 = Inr x"
    by (metis sum.exhaust)
  then show ?thesis
  proof cases
    case rm
    with assms 1 have "w' = w1" "r = Inl e" by (simp_all add: replace_steps)
    with c1 show ?thesis by simp
  next
    case wr
    with assms 1 2 have "w' = w2" "r = Inl e" by (simp_all add: replace_steps)
    with c2 show ?thesis by simp
  next
    case mv
    with assms 1 2 3 4 have w': "w' = w4" "r = Inl e" by (auto simp: replace_steps split: sum.splits)
    have "content_at w4 p = content_at w p" if "p \<noteq> ?tmp" for p
      using removeFile_content [OF that, of w3] 4 c3 [OF that] renameFile_content(3) [of ?tmp path w2 e] 3 mv c2 [OF that]
      by (cases "p = path") simp_all
    with w' show ?thesis by simp
  next
    case fin
    with assms 1 2 3 have "w' = w3" "r = Inr ()" by (simp_all add: replace_steps)
    moreover have "content_at w3 path = Some c"
      using renameFile_content(2) [of ?tmp path w2] writeFile_content(2) [of ?tmp c w1] 2 3 fin by simp
    ultimately show ?thesis using c3 by simp
  qed
qed

text \<open>After a scrub no credential is left, and nothing else is touched.\<close>

lemma scrubbed:
  assumes "scrubAuth home w = (Inr (), w')"
  shows "content_at w' (auth_path home) = None \<and> content_at w' (config_path home) = None
     \<and> (\<forall>p. p \<noteq> auth_path home \<longrightarrow> p \<noteq> config_path home \<longrightarrow> content_at w' p = content_at w p)"
  using assms unfolding scrubAuth_def removeFile_def
  by (auto elim!: bindE_InrE dest!: stepE_InrD simp: content_at_def delete_conv')

section \<open>Old runs\<close>

lemma map_of_filtered: "map_of xs k = None \<Longrightarrow> map_of (filter (\<lambda>f. \<not> below dir (fst f)) xs) k = None"
  by (auto simp: map_of_eq_None_iff)

text \<open>
  A credential older than an hour is removed, whether or not its run is alive: nothing but the
  age of the file is looked at, and a run that swaps no account writes the file once, at its start.
\<close>

lemma live_credential_scrubbed:
  assumes "stat_file w (auth_path dir) = Some t" "t < w_now w - hour" "w_faults w = []"
  shows "content_at (snd (prune_dir dir_time dir w)) (auth_path dir) = None"
  using assms
  by (auto simp: prune_dir_def auth_stale_def removeFile_def removeAll_dir_def bindE_def whenE_def ignoreE_def getsE_def nowE_def
      stepE_def modifyE_def returnE_def content_at_def delete_conv' map_of_filtered split: option.splits)

lemma fresh_run_kept:
  assumes "stat_file w (auth_path dir) = Some t" "w_now w - hour \<le> t" "dir_time dir = Some d" "w_now w - 7 * 24 * hour \<le> d"
  shows "prune_dir dir_time dir w = (Inr (), w)"
  using assms by (simp add: prune_dir_def auth_stale_def bindE_def whenE_def getsE_def nowE_def returnE_def)

section \<open>What the server decodes\<close>

lemmas field_defs = str_at_def bool_at_def num_at_def int_at_def obj_at_def list_at_def

lemma window_fits: "fits window_kind (window_json x)"
  by (simp add: window_kind_def window_json_def omit_empty_def)

lemma window_decoded: "window_of (window_json x) = x"
  by (simp add: window_of_def window_json_def omit_empty_def field_defs)

lemma ttl_exact: "int64_exact (of_int (leaseTTLSeconds opts)) \<and> \<lfloor>of_int (leaseTTLSeconds opts) :: rat\<rfloor> = leaseTTLSeconds opts"
  using ttl_bounds [of opts] by (simp add: int64_exact_def)

lemma ttl_decoded: "json_field v ''ttlSeconds'' = Some (JNum (of_int (leaseTTLSeconds opts))) \<Longrightarrow>
    ttl_of v = leaseTTLSeconds opts * second"
  using ttl_exact [of opts] ttl_bounds [of opts]
  by (simp add: ttl_of_def int_at_def wrap64_id duration_defs)

lemma heartbeat_decoded:
  "str_at (heartbeat_body opts k rl) ''accountId'' = k"
  "str_at (heartbeat_body opts k rl) ''client'' = cso_Client opts"
  "str_at (heartbeat_body opts k rl) ''holder'' = []"
  "reported_windows (heartbeat_body opts k rl) = rateLimitsToWindows rl"
  "bool_at (heartbeat_body opts k rl) ''rateLimitReached'' \<longleftrightarrow> rl_ReachedType rl \<noteq> []"
  "ttl_of (heartbeat_body opts k rl) = leaseTTLSeconds opts * second"
proof -
  show "ttl_of (heartbeat_body opts k rl) = leaseTTLSeconds opts * second"
    by (rule ttl_decoded) (simp add: heartbeat_body_def omit_empty_def)
  show "reported_windows (heartbeat_body opts k rl) = rateLimitsToWindows rl"
    by (cases "rl_Found rl")
      (auto simp: reported_windows_def heartbeat_body_def omit_empty_def list_at_def window_decoded
        rateLimitsToWindows_def rateLimitsToWindow_def split: option.splits)
qed (auto simp: heartbeat_body_def omit_empty_def field_defs split: option.splits)

lemma claim_decoded:
  "str_at (claim_body opts) ''client'' = cso_Client opts"
  "str_at (claim_body opts) ''workspace'' = cso_Workspace opts"
  "ttl_of (claim_body opts) = leaseTTLSeconds opts * second"
  by (auto simp: claim_body_def omit_empty_def str_at_def intro!: ttl_decoded)

text \<open>The token that a request of the client carries.\<close>

lemma client_token:
  assumes "cso_Token opts \<noteq> []" "hd (cso_Token opts) \<notin> set ws_bytes" "last (cso_Token opts) \<notin> set ws_bytes"
  shows "requestToken (client_request addr opts c body) = cso_Token opts"
proof -
  let ?t = "cso_Token opts"
  have "CHR ''B'' \<notin> set ws_bytes" by (simp add: ws_bytes_def ws_seqs_def)
  then have "trim_space (''Bearer '' @ ?t) = ''Bearer '' @ ?t"
    by (intro trim_space_id_hd_last) (use assms in simp_all)
  moreover have "has_prefix (to_lower (''Bearer '' @ ?t)) ''bearer ''"
  proof -
    have "to_lower ''Bearer '' = ''bearer ''" by code_simp
    then have "to_lower (''Bearer '' @ ?t) = ''bearer '' @ to_lower ?t"
      by (simp only: to_lower_def map_append)
    then show ?thesis by (simp only: has_prefix_append)
  qed
  moreover have "trim_space ?t = ?t" by (rule trim_space_id_hd_last [OF assms])
  ultimately show ?thesis
    using assms(1) by (simp add: requestToken_def client_request_def cloudJSON_def case_prod_beta)
qed

section \<open>Leases of a run\<close>

definition books :: "run_state \<Rightarrow> bool" where
  "books s \<longleftrightarrow> (\<exists>xs. rn_Claimed s = xs @ [rn_Lease s] \<and> subseq (rn_Released s) xs)"

lemma run_codex_fields [simp]:
  "rn_Claimed (snd (run_codex args p s)) = rn_Claimed s"
  "rn_Released (snd (run_codex args p s)) = rn_Released s"
  "rn_Lease (snd (run_codex args p s)) = rn_Lease s"
  by (simp_all add: run_codex_def case_prod_beta Let_def)

lemma take_over_books: "books s \<Longrightarrow> books (take_over l accepted s)"
  by (auto simp: books_def take_over_def intro: list_emb_append_mono list_emb_append2 subseq_order.trans)

text \<open>What every step of the loop keeps holds when the loop ends.\<close>

lemma run_loop_keeps:
  assumes "run_loop args rs s = Some s'" "P s"
    and codex: "\<And>args p s. P s \<Longrightarrow> P (snd (run_codex args p s))"
    and claim: "\<And>r l s. r \<in> set rs \<Longrightarrow> next_lease r = Some l \<Longrightarrow> P s \<Longrightarrow> P (take_over l (rd_Released r) s)"
    and err: "\<And>s. P s \<Longrightarrow> P (s\<lparr>rn_RunErr := True\<rparr>)"
  shows "P s'"
  using assms(1,2) claim
proof (induction rs arbitrary: args s)
  case (Cons r rs)
  let ?s = "snd (run_codex args (rd_Process r) s)"
  have c: "P ?s" by (rule codex [OF Cons.prems(2)])
  have t: "P (take_over l (rd_Released r) ?s)" if "next_lease r = Some l" for l
    using Cons.prems(3) [OF _ that c] by simp
  have i: "P s'" if "next_lease r = Some l" "run_loop [''resume'', sid] rs (take_over l (rd_Released r) ?s) = Some s'" for l sid
    by (rule Cons.IH [OF that(2) t [OF that(1)]]) (simp add: Cons.prems(3))
  from Cons.prems(1) show ?case
    by (auto simp: Let_def case_prod_beta split: if_splits option.splits intro: c err t i)
qed simp

lemma run_loop_books: "run_loop args rs s = Some s' \<Longrightarrow> books s \<Longrightarrow> books s'"
  by (rule run_loop_keeps [of args rs s s' books]) (simp_all add: take_over_books, simp_all add: books_def)

text \<open>All leases but the current one are returned, when the cloud takes every one back.\<close>

lemma run_loop_returns:
  assumes "run_loop args rs s = Some s'" "rn_Claimed s = rn_Released s @ [rn_Lease s]" "\<forall>r \<in> set rs. rd_Released r"
  shows "rn_Claimed s' = rn_Released s' @ [rn_Lease s']"
  by (rule run_loop_keeps [OF assms(1), of "\<lambda>s. rn_Claimed s = rn_Released s @ [rn_Lease s]"])
    (use assms(2,3) in \<open>simp_all add: take_over_def\<close>)

section \<open>Swaps\<close>

definition advised :: "tick \<Rightarrow> bool" where
  "advised t \<longleftrightarrow> (case tk_beat t of None \<Rightarrow> False | Some x \<Rightarrow> snd x)"

text \<open>A tick asks for a swap: a limit is hit, the cloud advises one, or little of the five hours is left.\<close>

definition swap_due :: "tick \<Rightarrow> bool" where
  "swap_due t \<longleftrightarrow> rl_ReachedType (tk_limits t) \<noteq> [] \<or> advised t
     \<or> rl_Found (tk_limits t) \<and> 90 < rl_FiveHourUsedPercent (tk_limits t)"

lemma watch_tick_swap: "wt_Swap s = None \<Longrightarrow> wt_Swap (watch_tick t s) \<noteq> None \<longleftrightarrow> swap_due t"
  by (auto simp: watch_tick_def swap_due_def advised_def swapDecision_def swapRemainingThresholdClient_def Let_def
      split: option.splits if_splits)

lemma watch_run_swap: "wt_Swap s = None \<Longrightarrow> wt_Swap (watch_run ts s) \<noteq> None \<longleftrightarrow> (\<exists>t \<in> set ts. swap_due t)"
proof (induction ts arbitrary: s)
  case (Cons t ts)
  show ?case
  proof (cases "wt_Swap (watch_tick t s) = None")
    case True
    with Cons.IH [OF True] watch_tick_swap [OF Cons.prems, of t] show ?thesis by (simp add: Let_def)
  next
    case False
    with watch_tick_swap [OF Cons.prems, of t] show ?thesis by (simp add: Let_def)
  qed
qed simp

lemma runCommandWithLease_swap:
  "fst (runCommandWithLease l p) \<noteq> None \<longleftrightarrow> (\<exists>t \<in> set (pr_Ticks p). swap_due t)"
  unfolding runCommandWithLease_def Let_def fst_conv by (rule watch_run_swap) simp

text \<open>A round leads to another one.\<close>

definition goes_on :: "swap_round \<Rightarrow> bool" where
  "goes_on r \<longleftrightarrow> (\<exists>t \<in> set (pr_Ticks (rd_Process r)). swap_due t) \<and> rd_Session r \<noteq> None
     \<and> next_lease r \<noteq> None \<and> rd_Written r"

lemma run_codex_swap: "fst (run_codex args p s) \<noteq> None \<longleftrightarrow> (\<exists>t \<in> set (pr_Ticks p). swap_due t)"
  using runCommandWithLease_swap [of "rn_Lease s" p] by (simp add: run_codex_def case_prod_beta Let_def)

lemma run_loop_ends: "run_loop args rs s = None \<longleftrightarrow> (\<forall>r \<in> set rs. goes_on r)"
proof (induction rs arbitrary: args s)
  case (Cons r rs)
  show ?case
    using run_codex_swap [of args "rd_Process r" s] Cons.IH
    by (auto simp: Let_def case_prod_beta goes_on_def split: option.splits)
qed simp

text \<open>The codex processes that were started: one per round begun.\<close>

lemma run_loop_args:
  assumes "run_loop args rs s = Some s'"
  shows "length (rn_Args s') = length (rn_Args s) + Suc (length (takeWhile goes_on rs))"
  using assms
proof (induction rs arbitrary: args s)
  case (Cons r rs)
  have g: "goes_on r \<longleftrightarrow> fst (run_codex args (rd_Process r) s) \<noteq> None \<and> rd_Session r \<noteq> None \<and> next_lease r \<noteq> None \<and> rd_Written r"
    by (simp only: goes_on_def run_codex_swap)
  have a: "length (rn_Args (snd (run_codex args (rd_Process r) s))) = Suc (length (rn_Args s))"
    by (simp add: run_codex_def case_prod_beta Let_def)
  show ?case
    using Cons.prems a g by (auto simp: Let_def case_prod_beta take_over_def dest!: Cons.IH split: if_splits option.splits)
qed simp

section \<open>The two thresholds\<close>

text \<open>The result that the server records from what the client reports.\<close>

definition reported_cache :: "RateLimits \<Rightarrow> string \<Rightarrow> string \<Rightarrow> time \<Rightarrow> QuotaCache" where
  "reported_cache rl k clientID now = quota_cache_entry k
     (zero_Result\<lparr>res_Status := StatusSupported, res_Quotas := rateLimitsToWindows rl\<rparr>) QuotaSourceClient clientID now"

lemma reported_five:
  "rl_Found rl \<Longrightarrow> quotaFiveHour (zero_Result\<lparr>res_Quotas := rateLimitsToWindows rl\<rparr>) = rateLimitsToWindow rl"
  "rl_Found rl \<Longrightarrow> quotaFiveHour (zero_Result\<lparr>res_Status := StatusSupported, res_Quotas := rateLimitsToWindows rl\<rparr>)
     = rateLimitsToWindow rl"
  by (simp_all add: quotaFiveHour_def rateLimitsToWindows_def rateLimitsToWindow_def plain_window_def)

lemma fold_5h_7d: "\<not> equal_fold ''5h'' ''7d''"
  by code_simp

lemma reported_seven:
  assumes "rl_Found rl"
  shows "quotaSevenDay (zero_Result\<lparr>res_Status := StatusSupported, res_Quotas := rateLimitsToWindows rl\<rparr>) =
     (if rl_SevenDayResetsAt rl \<noteq> zero_time \<or> 0 < rl_SevenDayUsedPercent rl
      then Some (plain_window ''seven_day'' ''7d'' (rl_SevenDayUsedPercent rl) (rl_SevenDayResetsAt rl)) else None)"
  using assms fold_5h_7d
  by (simp add: quotaSevenDay_def rateLimitsToWindows_def rateLimitsToWindow_def plain_window_def)

text \<open>The cloud advises a swap on these windows when less than ten percent is left of either.\<close>

lemma cloud_threshold:
  assumes "rl_Found rl"
  shows "swap_needed (reported_cache rl k clientID now) \<longleftrightarrow>
     90 < rl_FiveHourUsedPercent rl \<or> 90 < rl_SevenDayUsedPercent rl"
proof -
  obtain f where f: "rateLimitsToWindow rl = Some f" "win_RemainingPercent f = 100 - rl_FiveHourUsedPercent rl"
    using assms by (simp add: rateLimitsToWindow_def plain_window_def)
  show ?thesis
    by (cases "rl_SevenDayResetsAt rl \<noteq> zero_time \<or> 0 < rl_SevenDayUsedPercent rl")
      (use assms f in \<open>auto simp: swap_needed_def reported_cache_def quota_cache_entry_def reported_five reported_seven
        plain_window_def swapRemainingThreshold_def Let_def\<close>)
qed

end
