(* ===== verification/CliWire.thy ===== *)
theory CliWire
  imports CliRun
begin

text \<open>
  What \<open>cube report\<close>, \<open>cube cloud relogin\<close> and a run send besides the heartbeat, and what
  the server makes of it: the JSON of a profile, of a usage summary and of a quota result, the
  steps of a report, and the recovery file of a login whose upload failed
  (\<open>cmd/cube/main.go\<close>, \<open>cmd/cube/cloud_relogin.go\<close>). The main facts: every body has the types
  the server decodes and is decoded to what was sent, the requests of a run pass the gate of a device
  token, and a heartbeat of the client is the renewal of its lease on the server.
\<close>

section \<open>Bodies\<close>

text \<open>\<open>json.RawMessage\<close>: an empty one is null, an invalid one an error.\<close>

fun raw_json :: "content \<Rightarrow> json option" where
  "raw_json (Doc d) = Some d"
| "raw_json (NotJson s) = (if s = [] then Some JNull else None)"

definition omit_zero :: "string \<Rightarrow> int \<Rightarrow> (string \<times> json) list" where
  "omit_zero k v = (if v = 0 then [] else [(k, JNum (of_int v))])"

text \<open>\<open>stamp\<close> is the text of \<open>UpdatedAt\<close>.\<close>

definition snapshot_json :: "string \<Rightarrow> ProfileSnapshot \<Rightarrow> json option" where
  "snapshot_json stamp s = (case raw_json (ps_Auth s) of
     None \<Rightarrow> None
   | Some auth \<Rightarrow> Some (JObj ([(''id'', JStr (ps_ID s)), (''label'', JStr (ps_Label s))]
       @ omit_empty ''plan'' (ps_Plan s) @ omit_empty ''status'' (status_text (ps_Status s)) @ [(''auth'', auth)]
       @ omit_empty ''config'' (ps_Config s) @ omit_empty ''sourceClient'' (ps_SourceClient s)
       @ omit_empty ''ownerMode'' (owner_text (ps_OwnerMode s)) @ omit_empty ''ownerClientId'' (ps_OwnerClientID s)
       @ omit_empty ''leaseId'' (ps_LeaseID s) @ omit_zero ''generation'' (ps_Generation s)
       @ [(''updatedAt'', JStr stamp)])))"

definition tokens_json :: "Tokens \<Rightarrow> json" where
  "tokens_json t = JObj [(''input'', JNum (of_int (sint (tok_Input t)))), (''cachedInput'', JNum (of_int (sint (tok_CachedInput t)))),
     (''output'', JNum (of_int (sint (tok_Output t)))), (''total'', JNum (of_int (sint (tok_Total t))))]"

definition model_json :: "ModelUsage \<Rightarrow> json" where
  "model_json m = JObj ([(''model'', JStr (mu_Model m)), (''today'', tokens_json (mu_Today m)),
       (''sevenDays'', tokens_json (mu_SevenDays m)), (''allTime'', tokens_json (mu_AllTime m))]
     @ omit_empty ''latestAt'' (mu_LatestAt m))"

definition summary_json :: "Summary \<Rightarrow> json" where
  "summary_json s = JObj ([(''status'', JStr (sum_Status s))] @ omit_empty ''detail'' (sum_Detail s)
     @ [(''filesScanned'', JNum (of_nat (sum_FilesScanned s))), (''events'', JNum (of_nat (sum_Events s))),
        (''today'', tokens_json (sum_Today s)), (''sevenDays'', tokens_json (sum_SevenDays s)),
        (''allTime'', tokens_json (sum_AllTime s))]
     @ omit_empty ''latestAt'' (sum_LatestAt s) @ omit_empty ''latestModel'' (sum_LatestModel s)
     @ (if sum_Models s = [] then [] else [(''models'', JArr (map model_json (sum_Models s)))]))"

definition usage_body :: "string \<Rightarrow> string \<Rightarrow> string \<Rightarrow> Summary \<Rightarrow> json" where
  "usage_body accountID leaseID runID s = JObj ([(''accountId'', JStr accountID)] @ omit_empty ''leaseId'' leaseID
     @ omit_empty ''runId'' runID @ [(''usage'', summary_json s)])"

definition result_json :: "Result \<Rightarrow> json" where
  "result_json r = JObj ([(''status'', JStr (quota_status_text (res_Status r)))] @ omit_empty ''plan'' (res_Plan r)
     @ omit_empty ''account'' (res_Account r) @ omit_empty ''source'' (res_Source r) @ omit_empty ''detail'' (res_Detail r)
     @ (if res_Quotas r = [] then [] else [(''quotas'', JArr (map window_json (res_Quotas r)))]))"

definition quota_body :: "Result \<Rightarrow> json" where
  "quota_body r = JObj [(''result'', result_json r)]"

section \<open>They are decoded to what was sent\<close>

text \<open>An enumeration written as its text is read back, unless another constructor was given that text.\<close>

definition snapshot_sendable :: "ProfileSnapshot \<Rightarrow> bool" where
  "snapshot_sendable s \<longleftrightarrow> (\<exists>d. ps_Auth s = Doc d) \<and> status_of_text (status_text (ps_Status s)) = ps_Status s
     \<and> owner_of_text (owner_text (ps_OwnerMode s)) = ps_OwnerMode s
     \<and> - (2 ^ 63) \<le> ps_Generation s \<and> ps_Generation s < 2 ^ 63"

lemma exact_int [simp]: "int64_exact (of_int n) \<longleftrightarrow> - (2 ^ 63) \<le> n \<and> n < 2 ^ 63"
  by (simp add: int64_exact_def)

lemma exact_nat [simp]: "int64_exact (of_nat n) \<longleftrightarrow> int n < 2 ^ 63"
  using exact_int [of "int n"] by simp

lemma field_omit [simp]:
  "map_of (omit_empty k v) k' = (if k' = k \<and> v \<noteq> [] then Some (JStr v) else None)"
  "map_of (omit_zero k n) k' = (if k' = k \<and> n \<noteq> 0 then Some (JNum (of_int n)) else None)"
  "(m ++ map_of (omit_empty k v)) k' = (if k' = k \<and> v \<noteq> [] then Some (JStr v) else m k')"
  "(m ++ map_of (omit_zero k n)) k' = (if k' = k \<and> n \<noteq> 0 then Some (JNum (of_int n)) else m k')"
  by (auto simp: omit_empty_def omit_zero_def)

lemma all_omit [simp]:
  "list_all P (omit_empty k v) \<longleftrightarrow> v = [] \<or> P (k, JStr v)"
  "list_all P (omit_zero k n) \<longleftrightarrow> n = 0 \<or> P (k, JNum (of_int n))"
  by (auto simp: omit_empty_def omit_zero_def)

lemma exact_signed [simp]: "int64_exact (signed (n :: int64))" "\<lfloor>signed (n :: int64) :: rat\<rfloor> = sint n"
proof -
  have "(signed n :: rat) = of_int (sint n)" by simp
  then show "int64_exact (signed n)" "\<lfloor>signed n :: rat\<rfloor> = sint n"
    using sint_ge [of n] sint_lt [of n] by (simp_all only: exact_int floor_of_int) simp
qed

lemma snapshot_decoded:
  assumes "snapshot_sendable s" "parse_time stamp = Some t"
  shows "\<exists>j. snapshot_json stamp s = Some j \<and> fits snapshot_kind j \<and> snapshot_of j = s\<lparr>ps_UpdatedAt := t\<rparr>"
proof -
  obtain d where d: "ps_Auth s = Doc d" using assms by (auto simp: snapshot_sendable_def)
  let ?j = "JObj ([(''id'', JStr (ps_ID s)), (''label'', JStr (ps_Label s))]
       @ omit_empty ''plan'' (ps_Plan s) @ omit_empty ''status'' (status_text (ps_Status s)) @ [(''auth'', d)]
       @ omit_empty ''config'' (ps_Config s) @ omit_empty ''sourceClient'' (ps_SourceClient s)
       @ omit_empty ''ownerMode'' (owner_text (ps_OwnerMode s)) @ omit_empty ''ownerClientId'' (ps_OwnerClientID s)
       @ omit_empty ''leaseId'' (ps_LeaseID s) @ omit_zero ''generation'' (ps_Generation s)
       @ [(''updatedAt'', JStr stamp)])"
  have j: "snapshot_json stamp s = Some ?j" by (simp add: snapshot_json_def d)
  have "fits snapshot_kind ?j"
    using assms by (simp add: snapshot_kind_def snapshot_sendable_def)
  moreover have "str_at ?j ''id'' = ps_ID s" "str_at ?j ''label'' = ps_Label s" "str_at ?j ''plan'' = ps_Plan s"
    "str_at ?j ''status'' = status_text (ps_Status s)" "raw_at ?j ''auth'' = Doc d" "str_at ?j ''config'' = ps_Config s"
    "str_at ?j ''sourceClient'' = ps_SourceClient s" "str_at ?j ''ownerMode'' = owner_text (ps_OwnerMode s)"
    "str_at ?j ''ownerClientId'' = ps_OwnerClientID s" "str_at ?j ''leaseId'' = ps_LeaseID s"
    "int_at ?j ''generation'' = ps_Generation s" "time_at ?j ''updatedAt'' = t"
    using assms by (simp_all add: str_at_def raw_at_def int_at_def time_at_def snapshot_sendable_def)
  then have "snapshot_of ?j = s\<lparr>ps_UpdatedAt := t\<rparr>"
    using assms(1) d by (simp add: snapshot_of_def snapshot_sendable_def)
  ultimately show ?thesis using j by blast
qed

lemma tokens_decoded [simp]: "fits tokens_kind (tokens_json t)" "tokens_of (tokens_json t) = t"
  by (simp_all add: tokens_kind_def tokens_json_def tokens_of_def int_at_def)

lemma model_decoded: "fits model_kind (model_json m) \<and> model_of (model_json m) = m"
  by (auto simp: model_kind_def model_json_def model_of_def str_at_def obj_at_def
      intro!: ModelUsage.equality)

lemma models_decoded:
  "list_all (fits model_kind \<circ> model_json) ms" "map (model_of \<circ> model_json) ms = ms"
  by (induction ms) (simp_all add: model_decoded)

text \<open>The two counters of a summary are machine integers.\<close>

definition summary_small :: "Summary \<Rightarrow> bool" where
  "summary_small s \<longleftrightarrow> int (sum_FilesScanned s) < 2 ^ 63 \<and> int (sum_Events s) < 2 ^ 63"

lemma summary_decoded:
  assumes "summary_small s"
  shows "fits summary_kind (summary_json s)" "summary_of (summary_json s) = s\<lparr>sum_buckets := []\<rparr>"
proof -
  have n: "nat \<lfloor>(of_nat k :: rat)\<rfloor> = k" for k by simp
  show "fits summary_kind (summary_json s)"
    using assms models_decoded(1) [of "sum_Models s"]
    by (simp add: summary_small_def summary_kind_def summary_json_def list.pred_map)
  show "summary_of (summary_json s) = s\<lparr>sum_buckets := []\<rparr>"
    using assms models_decoded(2) [of "sum_Models s"]
    by (auto simp: summary_small_def summary_of_def summary_json_def str_at_def int_at_def obj_at_def
        list_at_def intro!: Summary.equality)
qed

lemma usage_decoded:
  assumes "summary_small s"
  shows "fits usage_body_kind (usage_body k l r s)" "str_at (usage_body k l r s) ''accountId'' = k"
    "str_at (usage_body k l r s) ''leaseId'' = l" "str_at (usage_body k l r s) ''runId'' = r"
    "summary_of (obj_at (usage_body k l r s) ''usage'') = s\<lparr>sum_buckets := []\<rparr>"
  using summary_decoded [OF assms]
  by (simp_all add: usage_body_kind_def usage_body_def str_at_def obj_at_def)

definition result_sendable :: "Result \<Rightarrow> bool" where
  "result_sendable r \<longleftrightarrow> quota_status_of_text (quota_status_text (res_Status r)) = res_Status r"

lemma windows_decoded:
  "list_all (fits window_kind \<circ> window_json) xs" "map (window_of \<circ> window_json) xs = xs"
  by (induction xs) (simp_all add: window_fits window_decoded)

lemma result_decoded:
  assumes "result_sendable r"
  shows "fits result_kind (result_json r)" "result_of (result_json r) = r"
proof -
  show "fits result_kind (result_json r)"
    using windows_decoded(1) [of "res_Quotas r"]
    by (simp add: result_kind_def result_json_def list.pred_map)
  show "result_of (result_json r) = r"
    using assms windows_decoded(2) [of "res_Quotas r"]
    by (auto simp: result_sendable_def result_of_def result_json_def str_at_def list_at_def
        intro!: Result.equality)
qed

lemma quota_decoded:
  assumes "result_sendable r" "res_Status r \<noteq> NoQuota"
  shows "fits quota_body_kind (quota_body r)" "reported_result (quota_body r) = Some r"
  using result_decoded [OF assms(1)] assms(2)
  by (simp_all add: quota_body_kind_def quota_body_def reported_result_def obj_at_def Let_def)

section \<open>Requests\<close>

definition plain_id :: "string \<Rightarrow> bool" where
  "plain_id k \<longleftrightarrow> plain_part k \<and> CHR ''/'' \<notin> set k"

lemma plain_idD: "plain_id k \<Longrightarrow> k \<noteq> [] \<and> k \<noteq> ''.'' \<and> k \<noteq> ''..'' \<and> CHR ''/'' \<notin> set k"
  by (simp add: plain_id_def plain_part_def)

lemma dropWhile_none: "\<forall>c \<in> set s. \<not> p c \<Longrightarrow> dropWhile p s = s"
  by (cases s) simp_all

lemma trim_slashes_id: "plain_id k \<Longrightarrow> trim_slashes k = k"
proof -
  assume "plain_id k"
  then have "\<forall>c \<in> set k. c \<noteq> CHR ''/''" "\<forall>c \<in> set (rev k). c \<noteq> CHR ''/''" by (auto simp: plain_id_def)
  then show ?thesis by (simp only: trim_slashes_def trim_cutset_def dropWhile_none rev_rev_ident)
qed

lemma lease_parts: "plain_id k \<Longrightarrow> path_parts (''/api/sync/leases/'' @ k) ''/api/sync/leases/'' = [k]"
  using trim_prefix_append [of "''/api/sync/leases/''" k]
  by (simp add: path_parts_def trim_slashes_id split_at_none plain_idD del: append.simps append_Cons)

lemma auth_parts: "plain_id k \<Longrightarrow> path_parts (''/api/sync/leases/'' @ k @ ''/auth'') ''/api/sync/leases/'' = [k, ''auth'']"
proof -
  assume k: "plain_id k"
  have "trim_slashes (k @ ''/auth'') = k @ ''/auth''"
    using plain_idD [OF k] by (cases k) (auto simp: trim_slashes_def trim_cutset_def)
  moreover have "split_at (CHR ''/'') (k @ ''/auth'') = [k, ''auth'']"
    using split_at_sep [of "CHR ''/''" k "''auth''"] plain_idD [OF k] by simp
  ultimately show ?thesis
    using trim_prefix_append [of "''/api/sync/leases/''" "k @ ''/auth''"]
    by (simp add: path_parts_def del: append.simps append_Cons)
qed

lemma client_call_device_may:
  assumes "plain_id k"
  shows "device_may ''POST'' ''/api/sync/leases''" "device_may ''PATCH'' (''/api/sync/leases/'' @ k)"
    "device_may ''DELETE'' (''/api/sync/leases/'' @ k)" "device_may ''PUT'' (''/api/sync/leases/'' @ k @ ''/auth'')"
    "device_may ''POST'' ''/api/sync/usage''" "device_may ''POST'' ''/api/sync/push''"
    "device_may ''POST'' (''/api/sync/quota/'' @ k)"
  using lease_parts [OF assms] auth_parts [OF assms] plain_idD [OF assms]
  by (simp_all add: device_may_def lease_path_def has_prefix_def)

lemma clean_call:
  assumes "plain_id k"
  shows "mux_clean (''/api/sync/leases/'' @ k) = ''/api/sync/leases/'' @ k"
proof -
  have r: "rooted (''/api/sync/leases/'' @ k)" by (simp add: rooted_def has_prefix_def)
  have "clean_parts (''/api/sync/leases/'' @ k) = [''api'', ''sync'', ''leases'', k]"
    using plain_idD [OF assms] split_at_none [of "CHR ''/''" k] r by (simp add: clean_parts_def clean_step_def)
  then have "clean_path (''/api/sync/leases/'' @ k) = ''/api/sync/leases/'' @ k"
    using r by (simp add: clean_path_def)
  moreover have "last (''/api/sync/leases/'' @ k) \<noteq> CHR ''/''"
    using plain_idD [OF assms] last_in_set [of k] by (metis last_append)
  ultimately show ?thesis by (simp add: mux_clean_def)
qed

lemma call_routed:
  assumes "plain_id k"
  shows "find_route (''/api/sync/leases/'' @ k) = Route RtLease"
proof -
  have "map_of patterns (''/api/sync/leases/'' @ k) = None"
    using plain_idD [OF assms] by (simp add: patterns_def)
  moreover have "map_of patterns ((''/api/sync/leases/'' @ k) @ ''/'') = None"
    using plain_idD [OF assms] by (simp add: patterns_def)
  moreover have "snd (longest_prefix (''/api/sync/leases/'' @ k) patterns) = RtLease"
    by (simp add: longest_prefix_def patterns_def has_prefix_def has_suffix_def)
  ultimately show ?thesis using clean_call [OF assms] by (simp add: find_route_def)
qed

text \<open>The renewal that a heartbeat of the client is on the server.\<close>

definition renewal :: "Server \<Rightarrow> requestAuth \<Rightarrow> cloudSyncOptions \<Rightarrow> string \<Rightarrow> string \<Rightarrow> RateLimits \<Rightarrow> response io" where
  "renewal S auth opts leaseID accountID rl =
     (let M = srv_Manager S; k = trim_space accountID;
          result = zero_Result\<lparr>res_Status := StatusSupported, res_Quotas := rateLimitsToWindows rl\<rparr> in
      bindE nowE (\<lambda>now.
      bindE (whenE (rl_Found rl) (ignoreE (RecordLeasedQuota M k leaseID (ra_ClientID auth) result now))) (\<lambda>_.
      answer 400 (TouchLease M leaseID k (ra_ClientID auth) (trim_space (cso_Client opts)) (leaseTTLSeconds opts * second)) (\<lambda>lease.
      bindE (tryE (ShouldSwapLease M k)) (\<lambda>swap.
        returnE (reply 200 (PHeartbeat lease
          (rl_ReachedType rl \<noteq> [] \<or> swap = Inr True))))))))"

lemma heartbeat_handled:
  assumes "plain_id k"
    and "srv_decode S body = Some (heartbeat_body opts accountID rl)" "length body \<le> mebi"
  shows "handleSyncLeaseAction S auth (client_request addr opts (CallHeartbeat k) body)
     = renewal S auth opts k accountID rl"
proof -
  have p: "path_parts (hr_Path (client_request addr opts (CallHeartbeat k) body)) ''/api/sync/leases/'' = [k]"
    using lease_parts [OF assms(1)] by (simp add: client_request_def cloudJSON_def)
  have b: "loose_body S (take mebi (hr_Body (client_request addr opts (CallHeartbeat k) body))) = heartbeat_body opts accountID rl"
    using assms(2,3) by (simp add: client_request_def cloudJSON_def loose_body_def)
  have m: "hr_Method (client_request addr opts (CallHeartbeat k) body) = ''PATCH''"
    by (simp add: client_request_def cloudJSON_def)
  have f: "firstText [[], cso_Client opts] = trim_space (cso_Client opts)" by simp
  have w: "rateLimitsToWindows rl \<noteq> [] \<longleftrightarrow> rl_Found rl"
    by (simp add: rateLimitsToWindows_def rateLimitsToWindow_def)
  have s: "(if rl_ReachedType rl \<noteq> [] then True else (case swap of Inl _ \<Rightarrow> False | Inr b \<Rightarrow> b))
     \<longleftrightarrow> rl_ReachedType rl \<noteq> [] \<or> swap = Inr True" for swap :: "error + bool"
    by (cases swap) auto
  show ?thesis
    unfolding handleSyncLeaseAction_def Let_def p
    using plain_idD [OF assms(1)]
    by (simp add: m heartbeatLease_def renewal_def b heartbeat_decoded w s Let_def del: firstText.simps add: f)
qed

end
