(* ===== verification/CliCommands.thy ===== *)
theory CliCommands
  imports CliWire
begin

text \<open>
  The other commands of \<open>cmd/cube\<close>: \<open>cube report\<close>, \<open>cube cloud relogin\<close>
  (\<open>cloud_relogin.go\<close>), \<open>cube clients\<close>, \<open>cube workspace\<close> (\<open>workspace.go\<close>), \<open>cube config\<close>,
  \<open>cube cloud\<close>, \<open>cube device\<close> and \<open>cube dashboard\<close>, and the dispatch over them. What a command
  prints is its result; the layout of tables and the help text are left out. The cloud,
  \<open>codex login\<close> and the editor are arguments. The main facts: a login whose upload fails leaves the
  credential in its recovery file, and no argument of a command reaches a file outside the state
  directory by way of an account id.
\<close>

section \<open>The cloud, as a client sees it\<close>

record cloud_api =
  api_push :: "ProfileSnapshot \<Rightarrow> string io"
  api_usage :: "string \<Rightarrow> string \<Rightarrow> string \<Rightarrow> Summary \<Rightarrow> unit io"
  api_report :: "string \<Rightarrow> Result \<Rightarrow> unit io"
  api_quota :: "string \<Rightarrow> Result io"

section \<open>A report\<close>

definition as_client :: "cloudSyncOptions \<Rightarrow> ProfileSnapshot \<Rightarrow> ProfileSnapshot" where
  "as_client opts s = s\<lparr>ps_SourceClient := cso_Client opts, ps_OwnerMode := OwnerClient, ps_OwnerClientID := []\<rparr>"

text \<open>The account of the second push; its error counts only when the probe had none.\<close>

definition push_again :: "Config \<Rightarrow> cloud_api \<Rightarrow> cloudSyncOptions \<Rightarrow> error option \<Rightarrow> string \<Rightarrow> string io" where
  "push_again M api opts quotaErr accountID =
     bindE (tryE (ExportLiveProfileSnapshot M [])) (\<lambda>r.
       case r of
         Inl _ \<Rightarrow> returnE accountID
       | Inr s \<Rightarrow>
           bindE (tryE (api_push api (as_client opts s))) (\<lambda>r.
             case r of
               Inr k \<Rightarrow> returnE k
             | Inl e \<Rightarrow> if quotaErr = None then throwE e else returnE accountID))"

definition pushUsageFromHome ::
  "Config \<Rightarrow> cloud_api \<Rightarrow> (time \<Rightarrow> time) \<Rightarrow> tree \<Rightarrow> string \<Rightarrow> string \<Rightarrow> string \<Rightarrow> string \<Rightarrow> unit io" where
  "pushUsageFromHome M api midnight tree accountID leaseID runID codexHome =
     bindE nowE (\<lambda>now. api_usage api accountID leaseID runID (SummarizeCodexHome M midnight tree codexHome now))"

definition reportLiveOnce ::
  "Config \<Rightarrow> cloud_api \<Rightarrow> (time \<Rightarrow> time) \<Rightarrow> tree \<Rightarrow> cloudSyncOptions \<Rightarrow> (string \<times> Result) io" where
  "reportLiveOnce M api midnight tree opts =
     bindE (ExportLiveProfileSnapshot M []) (\<lambda>s.
     bindE (api_push api (as_client opts s)) (\<lambda>k.
     bindE nowE (\<lambda>now.
     bindE (FetchForCodexHome M (m_LiveCodexHome M) now) (\<lambda>(result, quotaErr).
     bindE (push_again M api opts quotaErr k) (\<lambda>k.
     bindE (pushUsageFromHome M api midnight tree k [] [] (m_LiveCodexHome M)) (\<lambda>_.
     bindE (whenE (res_Status result \<noteq> NoQuota) (api_report api k result)) (\<lambda>_.
       case quotaErr of None \<Rightarrow> returnE (k, result) | Some e \<Rightarrow> throwE e)))))))"

text \<open>\<open>runReport\<close>; with \<open>--daemon\<close> it repeats for ever, so one round is modelled.\<close>

definition runReport ::
  "Config \<Rightarrow> string option \<Rightarrow> cloud_api \<Rightarrow> (time \<Rightarrow> time) \<Rightarrow> tree \<Rightarrow> string list \<Rightarrow> (string \<times> Result) io" where
  "runReport M hostname api midnight tree args =
     bindE (parse_report M hostname args) (\<lambda>(opts, _). reportLiveOnce M api midnight tree opts)"

section \<open>Recovered credentials\<close>

text \<open>
  The length of the rune that a text begins with, as \<open>utf8.DecodeRuneInString\<close> finds it; a byte
  that begins no valid sequence is one by itself. Past the end of the text a byte is 0.
\<close>

definition byte_at :: "string \<Rightarrow> nat \<Rightarrow> nat" where
  "byte_at s i = (if i < length s then of_char (s ! i) else 0)"

definition cont_at :: "string \<Rightarrow> nat \<Rightarrow> bool" where
  "cont_at s i \<longleftrightarrow> 128 \<le> byte_at s i \<and> byte_at s i \<le> 191"

definition second_ok :: "string \<Rightarrow> bool" where
  "second_ok s \<longleftrightarrow>
     (let a = byte_at s 0; b = byte_at s 1;
          lo = (if a = 224 then 160 else if a = 240 then 144 else 128);
          hi = (if a = 237 then 159 else if a = 244 then 143 else 191)
      in lo \<le> b \<and> b \<le> hi)"

definition rune_len :: "string \<Rightarrow> nat" where
  "rune_len s =
     (let a = byte_at s 0 in
      if 194 \<le> a \<and> a \<le> 223 \<and> second_ok s then 2
      else if 224 \<le> a \<and> a \<le> 239 \<and> second_ok s \<and> cont_at s 2 then 3
      else if 240 \<le> a \<and> a \<le> 244 \<and> second_ok s \<and> cont_at s 2 \<and> cont_at s 3 then 4
      else 1)"

definition file_char :: "char \<Rightarrow> bool" where
  "file_char c \<longleftrightarrow> is_alnum c \<or> c = CHR ''-'' \<or> c = CHR ''_''"

fun file_chars :: "string \<Rightarrow> string" where
  "file_chars [] = []"
| "file_chars (c # s) = (if file_char c then c else CHR ''_'') # file_chars (drop (rune_len (c # s) - 1) s)"

definition sanitizeAuthFileID :: "string \<Rightarrow> string" where
  "sanitizeAuthFileID k = (if file_chars k = [] then ''account'' else file_chars k)"

definition recoveredAuthPath :: "'m Manager_scheme \<Rightarrow> string \<Rightarrow> string" where
  "recoveredAuthPath M k = path_join (m_StateDir M) (''recovered-auth-'' @ sanitizeAuthFileID k @ ''.json'')"

definition saveRecoveredAuth :: "'m Manager_scheme \<Rightarrow> string \<Rightarrow> content \<Rightarrow> string io" where
  "saveRecoveredAuth M k auth =
     (let path = recoveredAuthPath M k in bindE (writeFile path auth) (\<lambda>_. returnE path))"

definition removeRecoveredAuth :: "'m Manager_scheme \<Rightarrow> string \<Rightarrow> unit io" where
  "removeRecoveredAuth M k = ignoreE (removeFile (recoveredAuthPath M k))"

text \<open>\<open>readAuthFile\<close> and \<open>readTempAuth\<close>: a file that is there and valid JSON.\<close>

definition read_auth :: "(error \<Rightarrow> error) \<Rightarrow> error \<Rightarrow> string \<Rightarrow> content io" where
  "read_auth unreadable invalid path =
     bindE (tryE (readFile path)) (\<lambda>r.
       case r of
         Inl e \<Rightarrow> throwE (unreadable e)
       | Inr None \<Rightarrow> throwE (unreadable (ErrText (''open '' @ path @ '': no such file or directory'')))
       | Inr (Some c) \<Rightarrow> if content_valid c then returnE c else throwE invalid)"

definition readAuthFile :: "string \<Rightarrow> content io" where
  "readAuthFile path = read_auth
     (\<lambda>e. ErrText (''could not read auth file '' @ path @ '': '' @ error_text e))
     (ErrText (''auth file '' @ path @ '' is not valid JSON'')) path"

definition readTempAuth :: "string \<Rightarrow> content io" where
  "readTempAuth codexHome = read_auth
     (\<lambda>e. ErrText (''could not read temporary auth.json: '' @ error_text e))
     (ErrText ''temporary auth.json is not valid JSON'') (auth_path codexHome)"

section \<open>What is printed of a quota\<close>

definition line_if :: "string \<Rightarrow> string \<Rightarrow> string list" where
  "line_if name v = (if v = [] then [] else [name @ '': '' @ v])"

definition printQuotaResult :: "Result \<Rightarrow> string list" where
  "printQuotaResult r =
     (''status: '' @ quota_status_text (res_Status r))
     # line_if ''plan'' (res_Plan r) @ line_if ''account'' (res_Account r) @ line_if ''detail'' (res_Detail r)
     @ map (\<lambda>q. win_Label q @ '': used='' @ win_UsedDisplay q @ '' remaining='' @ win_RemainingDisplay q
         @ (if win_ResetsAt q = [] then [] else '' reset='' @ win_ResetsAt q)) (res_Quotas r)"

definition printReloginNextStep :: "cloudReloginOptions \<Rightarrow> Result \<Rightarrow> string" where
  "printReloginNextStep c r =
     (let k = cro_AccountID c in
      if res_Status r = StatusSupported then
        (if cro_Owner c = OwnerCloud \<and> cro_Status c = StatusReady then ''next: '' @ k @ '' is ready for cube run''
         else if cro_Status c = StatusDrain
         then ''next: '' @ k @ '' is drained; relogin again with --status ready when it should rejoin the pool''
         else ''next: '' @ k @ '' is client-owned; keep quota fresh with cube report'')
      else if res_Status r = StatusRefreshInvalid
      then ''next: '' @ k @ '' still has invalid refresh auth; rerun relogin or keep it drained''
      else ''next: review quota status before leasing '' @ k)"

section \<open>Login again\<close>

text \<open>\<open>login\<close> is \<open>codex login\<close> in a home; \<open>tmp\<close> the directory of temporary files.\<close>

definition login_auth :: "(string \<Rightarrow> unit io) \<Rightarrow> string \<Rightarrow> content io" where
  "login_auth login codexHome =
     bindE (tryE (login codexHome)) (\<lambda>r.
       case r of
         Inl e \<Rightarrow> throwE (ErrText (''codex login failed: '' @ error_text e))
       | Inr _ \<Rightarrow> readTempAuth codexHome)"

definition relogin_hint :: "string \<Rightarrow> cloudReloginOptions \<Rightarrow> string" where
  "relogin_hint saved c =
     CHR 0x0A # ''  credential saved to '' @ saved @ CHR 0x0A # ''  retry without re-login: cube cloud relogin ''
     @ cro_AccountID c @ '' --auth-file '' @ saved @ '' --status '' @ status_text (cro_Status c)
     @ '' --owner '' @ owner_text (cro_Owner c)"

definition upload_failed :: "error \<Rightarrow> string \<Rightarrow> error" where
  "upload_failed e hint = ErrText (''upload failed: '' @ error_text e
     @ (if contains_sub (error_text e) ''403'' \<or> contains_sub (to_lower (error_text e)) ''forbidden''
        then ''; cloud relogin replaces stored auth and requires an admin token'' else [])
     @ hint)"

definition relogin_snapshot :: "cloudReloginOptions \<Rightarrow> cloudSyncOptions \<Rightarrow> content \<Rightarrow> time \<Rightarrow> ProfileSnapshot" where
  "relogin_snapshot c opts auth now = \<lparr>ps_ID = cro_AccountID c, ps_Label = [], ps_Plan = [],
     ps_Status = cro_Status c, ps_Auth = auth, ps_Config = [], ps_SourceClient = cso_Client opts,
     ps_OwnerMode = cro_Owner c, ps_OwnerClientID = [], ps_LeaseID = [], ps_Generation = 0, ps_UpdatedAt = now\<rparr>"

text \<open>From the upload on: the credential is kept when it fails, unless it came from a file.\<close>

definition upload_relogin ::
  "'m Manager_scheme \<Rightarrow> cloud_api \<Rightarrow> cloudSyncOptions \<Rightarrow> cloudReloginOptions \<Rightarrow> content \<Rightarrow> string list io" where
  "upload_relogin M api opts c auth =
     bindE nowE (\<lambda>now.
     bindE (tryE (api_push api (relogin_snapshot c opts auth now))) (\<lambda>r.
       case r of
         Inl e \<Rightarrow>
           if cro_AuthFile c = [] then
             bindE (tryE (saveRecoveredAuth M (cro_AccountID c) auth)) (\<lambda>saved.
               throwE (upload_failed e (case saved of Inl _ \<Rightarrow> [] | Inr path \<Rightarrow> relogin_hint path c)))
           else throwE (upload_failed e [])
       | Inr _ \<Rightarrow>
           bindE (removeRecoveredAuth M (cro_AccountID c)) (\<lambda>_.
           bindE (tryE (api_quota api (cro_AccountID c))) (\<lambda>r.
             case r of
               Inl e \<Rightarrow> throwE (ErrText (''quota check failed after upload: '' @ error_text e
                 @ ''; next: run cube cloud quota '' @ cro_AccountID c))
             | Inr result \<Rightarrow> returnE (printQuotaResult result @ [printReloginNextStep c result])))))"

definition runCloudRelogin ::
  "Config \<Rightarrow> string option \<Rightarrow> cloud_api \<Rightarrow> (string \<Rightarrow> unit io) \<Rightarrow> string \<Rightarrow> string list \<Rightarrow> string list io" where
  "runCloudRelogin M hostname api login tmp args =
     (case parseCloudReloginOptions args of
        Inl e \<Rightarrow> throwE e
      | Inr c \<Rightarrow>
          bindE (defaultCloudSyncOptions M hostname) (\<lambda>opts.
          if cso_Server opts = []
          then throwE (ErrText ''missing cloud server; run cube cloud config --server <url> --token <token>, or set CUBE_CLOUD_URL'')
          else if cro_AuthFile c \<noteq> []
          then bindE (readAuthFile (cro_AuthFile c)) (upload_relogin M api opts c)
          else bindE randE (\<lambda>r.
            let codexHome = path_join tmp (''cube20-relogin-'' @ r) in
            bindE (mkdirAll codexHome) (\<lambda>_.
              deferE (bindE (login_auth login codexHome) (upload_relogin M api opts c))
                (ignoreE (removeAll_dir codexHome))))))"

section \<open>Commands\<close>

text \<open>
  What a command prints. A settings page shows the server, the token, the device and its
  label; the token is only said to be there (\<open>cube cloud\<close>) or masked (\<open>cube device\<close>).
\<close>

datatype shown =
  ShowHelp | ShowNothing | ShowLine string | ShowClients "ClientView list" | ShowClient ClientView string
| ShowWorkspaces "Workspace list" | ShowWorkspace Workspace | ShowMembers "Membership list"
| ShowSettings "string list" | ShowQuota "string list" | ShowReport string Result | ShowServing string

definition usage_error :: "string \<Rightarrow> 'a io" where
  "usage_error s = throwE (ErrText (''usage: '' @ s))"

fun join_words :: "string list \<Rightarrow> string" where
  "join_words ws = join_with (CHR '' '') ws"

definition runClients :: "'m Manager_scheme \<Rightarrow> string list \<Rightarrow> shown io" where
  "runClients M args =
     (case (if args = [] then [''list''] else args) of
        cmd # rest \<Rightarrow>
          if cmd = ''list'' then bindE (ListClients M) (\<lambda>cs. returnE (ShowClients cs))
          else if cmd = ''create'' then
            bindE (CreateClient M (join_words rest)) (\<lambda>(client, token). returnE (ShowClient client token))
          else if cmd = ''revoke'' then
            (case rest of
               [k] \<Rightarrow> bindE (RevokeClient M k) (\<lambda>_. returnE (ShowLine (''revoked '' @ k)))
             | _ \<Rightarrow> usage_error ''cube clients revoke <client-id>'')
          else usage_error ''cube clients [list|create [label]|revoke <client-id>]''
      | [] \<Rightarrow> returnE ShowNothing)"

definition runWorkspace :: "'m Manager_scheme \<Rightarrow> string list \<Rightarrow> shown io" where
  "runWorkspace M args =
     (case (if args = [] then [''list''] else args) of
        cmd # rest \<Rightarrow>
          if cmd = ''list'' then bindE (ListWorkspaces M) (\<lambda>ws. returnE (ShowWorkspaces ws))
          else if cmd = ''create'' then
            (if rest = [] then usage_error ''cube workspace create <name>''
             else bindE (CreateWorkspace M (join_words rest) ''cli'') (\<lambda>ws. returnE (ShowWorkspace ws)))
          else if cmd = ''members'' then
            (case rest of
               [k] \<Rightarrow> bindE (ListMemberships M k) (\<lambda>ms. returnE (ShowMembers ms))
             | _ \<Rightarrow> usage_error ''cube workspace members <workspace-id>'')
          else if cmd = ''invite'' then
            (case parseInviteArgs rest of
               Inl e \<Rightarrow> throwE e
             | Inr (ws, client, role) \<Rightarrow>
                 bindE (SetMembership M ws client role) (\<lambda>_.
                   returnE (ShowLine (''added '' @ client @ '' to '' @ ws @ '' as '' @ role_text role))))
          else if cmd = ''grant-admin'' then
            (case rest of
               [ws, client] \<Rightarrow> bindE (SetMembership M ws client RoleAdmin) (\<lambda>_.
                 returnE (ShowLine (''granted admin to '' @ client @ '' in '' @ ws)))
             | _ \<Rightarrow> usage_error ''cube workspace grant-admin <workspace-id> <client-id>'')
          else if cmd = ''remove'' then
            (case rest of
               [ws, client] \<Rightarrow> bindE (RemoveMembership M ws client) (\<lambda>_.
                 returnE (ShowLine (''removed '' @ client @ '' from '' @ ws)))
             | _ \<Rightarrow> usage_error ''cube workspace remove <workspace-id> <client-id>'')
          else usage_error ''cube workspace [list|create <name>|members <workspace-id>|invite <workspace-id> <client-id> [--role admin|member]|grant-admin <workspace-id> <client-id>|remove <workspace-id> <client-id>]''
      | [] \<Rightarrow> returnE ShowNothing)"

text \<open>The editor of \<open>cube config edit\<close> is given the words it is started with.\<close>

definition editor_words :: "Config \<Rightarrow> string list" where
  "editor_words M =
     (let editor = trim_space (cfg_getenv M ''EDITOR''); parts = splitArgs (if editor = [] then ''vim'' else editor)
      in if parts = [] then [''vim''] else parts)"

definition editCodexConfig :: "Config \<Rightarrow> (string list \<Rightarrow> unit io) \<Rightarrow> unit io" where
  "editCodexConfig M editor =
     (let path = CodexConfigPath M (m_LiveCodexHome M) in
      bindE (mkdirAll (path_dir path)) (\<lambda>_.
      bindE stepE (\<lambda>_. bindE (getsE (\<lambda>w. file_exists w path)) (\<lambda>there.
      bindE (whenE (\<not> there) (writeFile path (NotJson []))) (\<lambda>_.
        editor (editor_words M @ [path]))))))"

definition runConfig :: "Config \<Rightarrow> (string list \<Rightarrow> unit io) \<Rightarrow> string list \<Rightarrow> shown io" where
  "runConfig M editor args =
     (case (if args = [] then [''edit''] else args) of
        cmd # rest \<Rightarrow>
          if cmd = ''edit'' then
            (if rest \<noteq> [] then usage_error ''cube config edit''
             else bindE (editCodexConfig M editor) (\<lambda>_. returnE ShowNothing))
          else if cmd = ''path'' then
            (if rest \<noteq> [] then usage_error ''cube config path''
             else returnE (ShowLine (CodexConfigPath M (m_LiveCodexHome M))))
          else usage_error ''cube config [edit|path]''
      | [] \<Rightarrow> returnE ShowNothing)"

definition token_configured :: "string \<Rightarrow> string" where
  "token_configured token = (if trim_space token \<noteq> [] then ''configured'' else ''missing'')"

definition device_lines :: "Settings \<Rightarrow> string list" where
  "device_lines s = [emptyDash (set_DeviceID s), emptyDash (set_DeviceLabel s)]"

definition printCloudStatus :: "Config \<Rightarrow> shown io" where
  "printCloudStatus M =
     bindE (tryE (DeviceSettings M)) (\<lambda>r.
       returnE (ShowSettings ([cfg_SettingsPath M, emptyDash (m_CloudURL M), token_configured (m_CloudToken M)]
         @ (case r of Inl _ \<Rightarrow> [] | Inr s \<Rightarrow> device_lines s))))"

definition printDeviceStatus :: "Config \<Rightarrow> shown io" where
  "printDeviceStatus M =
     bindE (DeviceSettings M) (\<lambda>s.
       returnE (ShowSettings ([cfg_SettingsPath M, emptyDash (set_CloudURL s), maskToken (set_CloudToken s)]
         @ device_lines s)))"

definition saved_settings :: "(string \<Rightarrow> string) \<Rightarrow> ((error + Settings) \<times> Config) io \<Rightarrow> shown io" where
  "saved_settings show_token m =
     bindE m (\<lambda>(r, M).
       case r of
         Inl e \<Rightarrow> throwE e
       | Inr s \<Rightarrow> returnE (ShowSettings ([cfg_SettingsPath M, emptyDash (set_CloudURL s), show_token (set_CloudToken s)]
           @ device_lines s)))"

definition runCloudQuota :: "Config \<Rightarrow> string option \<Rightarrow> cloud_api \<Rightarrow> string list \<Rightarrow> Result io" where
  "runCloudQuota M hostname api args =
     (case args of
        [k] \<Rightarrow> bindE (defaultCloudSyncOptions M hostname) (\<lambda>opts.
          if cso_Server opts = []
          then throwE (ErrText ''missing cloud server; run cube cloud config --server <url> --token <token>, or set CUBE_CLOUD_URL'')
          else api_quota api k)
      | _ \<Rightarrow> usage_error ''cube cloud quota <account-id>'')"

definition runDevice :: "Config \<Rightarrow> string list \<Rightarrow> shown io" where
  "runDevice M args =
     (case args of
        [] \<Rightarrow> printDeviceStatus M
      | cmd # rest \<Rightarrow>
          if cmd = ''status'' \<or> cmd = ''show'' then
            (if rest \<noteq> [] then throwE deviceUsage else printDeviceStatus M)
          else if cmd = ''config'' then saved_settings maskToken (configureDevice M rest)
          else throwE deviceUsage)"

text \<open>What the commands are given: the host, the cloud, the programs they start, and the session files.\<close>

record surroundings =
  at_hostname :: "string option"
  at_cloud :: cloud_api
  at_login :: "string \<Rightarrow> unit io"
  at_editor :: "string list \<Rightarrow> unit io"
  at_tmp :: string
  at_midnight :: "time \<Rightarrow> time"
  at_tree :: tree
  at_atoi :: "string \<Rightarrow> int option"
  at_run :: "cloudSyncOptions \<Rightarrow> string list \<Rightarrow> unit io"
  at_serve :: "string \<Rightarrow> int \<Rightarrow> string \<Rightarrow> duration \<Rightarrow> unit io"

definition runCloud :: "surroundings \<Rightarrow> Config \<Rightarrow> string list \<Rightarrow> shown io" where
  "runCloud P M args =
     (case args of
        [] \<Rightarrow> printCloudStatus M
      | cmd # rest \<Rightarrow>
          if cmd = ''status'' then
            (if rest \<noteq> [] then usage_error ''cube cloud status'' else printCloudStatus M)
          else if cmd = ''config'' then saved_settings token_configured (configureCloud M rest)
          else if cmd = ''quota'' then bindE (runCloudQuota M (at_hostname P) (at_cloud P) rest) (\<lambda>x. returnE (ShowQuota (printQuotaResult x)))
          else if cmd = ''relogin'' then
            bindE (runCloudRelogin M (at_hostname P) (at_cloud P) (at_login P) (at_tmp P) rest) (\<lambda>ls. returnE (ShowQuota ls))
          else usage_error ''cube cloud [status|config --server <url> --token <token> [--device-id <id>] [--device-label <name>]|quota <account-id>|relogin <account-id> [--status ready|drain] [--owner cloud|client] [--auth-file <path>]]'')"

text \<open>The dashboard: the server that is started, or why it is not.\<close>

definition runDashboard :: "surroundings \<Rightarrow> Config \<Rightarrow> string list \<Rightarrow> shown io" where
  "runDashboard P M args =
     (case parse_dashboard M (at_atoi P) args of
        Inl e \<Rightarrow> throwE e
      | Inr opts \<Rightarrow>
          (case ListenAndServe \<lparr>srv_Manager = M, srv_Host = dash_Host opts, srv_CloudToken = dash_Token opts,
             srv_decode = (\<lambda>_. None), srv_tree = at_tree P, srv_midnight = at_midnight P, srv_dist = (\<lambda>_. None),
             srv_hits = []\<rparr> of
             Inl e \<Rightarrow> throwE e
           | Inr host \<Rightarrow>
               bindE (at_serve P host (if dash_Port opts = 0 then 8720 else dash_Port opts) (dash_Token opts) (dash_Interval opts))
                 (\<lambda>_. returnE (ShowServing host))))"

text \<open>The dispatch; \<open>at_run\<close> is the loop of a run, \<open>at_serve\<close> the serving, once they have their options.\<close>

definition run_command :: "surroundings \<Rightarrow> Config \<Rightarrow> string \<Rightarrow> string list \<Rightarrow> shown io" where
  "run_command P M cmd args =
     (if cmd = ''run'' \<or> cmd = ''cloud-run'' then
        bindE (parseCloudRunOptions M (at_hostname P) args) (\<lambda>(opts, codexArgs).
          bindE (at_run P opts codexArgs) (\<lambda>_. returnE ShowNothing))
      else if cmd = ''config'' then runConfig M (at_editor P) args
      else if cmd = ''cloud'' then runCloud P M args
      else if cmd = ''device'' then runDevice M args
      else if cmd = ''clients'' then runClients M args
      else if cmd = ''workspace'' \<or> cmd = ''workspaces'' then runWorkspace M args
      else if cmd = ''report'' then
        bindE (runReport M (at_hostname P) (at_cloud P) (at_midnight P) (at_tree P) args) (\<lambda>(k, x). returnE (ShowReport k x))
      else if cmd = ''dashboard'' then runDashboard P M args
      else throwE (ErrText (''unknown command '' @ quoted cmd)))"

definition run_cube :: "surroundings \<Rightarrow> Config \<Rightarrow> string list \<Rightarrow> shown io" where
  "run_cube P env args =
     (case args of
        [] \<Rightarrow> returnE ShowHelp
      | cmd # rest \<Rightarrow>
          if cmd \<in> {''help'', ''-h'', ''--help''} then returnE ShowHelp
          else bindE (New env) (\<lambda>M. run_command P M cmd rest))"

section \<open>Facts\<close>

lemma split_at_join: "split_at d (a @ d # b) = split_at d a @ split_at d b"
  by (induction a) (auto split: list.splits)

lemma clean_parts_under:
  assumes "rooted dir" "plain_id name"
  shows "clean_parts (dir @ ''/'' @ name) = clean_parts dir @ [name]"
proof -
  have "rooted (dir @ ''/'' @ name)" using assms(1) by (cases dir) (simp_all add: rooted_def has_prefix_def)
  with assms show ?thesis
    using plain_idD [OF assms(2)] split_at_join [of "CHR ''/''" dir name]
    by (simp add: clean_parts_def split_at_none clean_step_def)
qed

lemma path_join_under:
  assumes "rooted dir" "plain_id name"
  shows "path_join dir name = CHR ''/'' # join_with (CHR ''/'') (clean_parts dir @ [name])"
proof -
  have "rooted (dir @ ''/'' @ name)" using assms(1) by (cases dir) (simp_all add: rooted_def has_prefix_def)
  moreover have "dir \<noteq> []" "name \<noteq> []" using assms plain_idD [OF assms(2)] by (auto simp: rooted_def has_prefix_def)
  ultimately show ?thesis using clean_parts_under [OF assms] by (simp add: path_join_def clean_path_def)
qed

lemma file_chars_safe: "c \<in> set (file_chars k) \<Longrightarrow> file_char c"
  by (induction k rule: file_chars.induct) (auto simp: file_char_def split: if_splits)

lemma sanitizeAuthFileID_safe: "c \<in> set (sanitizeAuthFileID k) \<Longrightarrow> file_char c"
  by (auto simp: sanitizeAuthFileID_def file_char_def is_alnum_def is_lower_def split: if_splits dest: file_chars_safe)

lemma recovered_name_plain: "plain_id (''recovered-auth-'' @ sanitizeAuthFileID k @ ''.json'')"
proof -
  have "CHR ''/'' \<notin> set (sanitizeAuthFileID k)"
    using sanitizeAuthFileID_safe [of "CHR ''/''" k]
    by (auto simp: file_char_def is_alnum_def is_lower_def is_upper_def is_digit_def)
  then show ?thesis by (simp add: plain_id_def plain_part_def)
qed

text \<open>Whatever the account id is, the file lies in the state directory.\<close>

lemma recovered_in_state_dir:
  assumes "rooted (m_StateDir M)"
  shows "recoveredAuthPath M k = CHR ''/'' # join_with (CHR ''/'')
     (clean_parts (m_StateDir M) @ [''recovered-auth-'' @ sanitizeAuthFileID k @ ''.json''])"
  unfolding recoveredAuthPath_def by (rule path_join_under [OF assms recovered_name_plain])

text \<open>Two ids can share a file, so the upload of one removes the credential kept for the other.\<close>

lemma recovered_path_shared: "recoveredAuthPath M ''a.b'' = recoveredAuthPath M ''a_b''"
proof -
  have "sanitizeAuthFileID ''a.b'' = sanitizeAuthFileID ''a_b''" by code_simp
  then show ?thesis by (simp only: recoveredAuthPath_def)
qed

text \<open>A login whose upload fails leaves the credential in its recovery file.\<close>

lemma upload_failure_kept:
  assumes "cro_AuthFile c = []"
    and "api_push api (relogin_snapshot c opts auth (w_now w)) w = (Inl e, w1)"
    and "saveRecoveredAuth M (cro_AccountID c) auth w1 = (Inr path, w2)"
  shows "upload_relogin M api opts c auth w = (Inl (upload_failed e (relogin_hint path c)), w2)
     \<and> path = recoveredAuthPath M (cro_AccountID c) \<and> content_at w2 path = Some auth"
proof -
  let ?p = "recoveredAuthPath M (cro_AccountID c)"
  obtain u where u: "writeFile ?p auth w1 = (Inr u, w2)" "path = ?p"
    using assms(3) by (auto simp: saveRecoveredAuth_def Let_def elim!: bindE_InrE)
  then have "content_at w2 ?p = Some auth" using writeFile_content(2) [of ?p auth w1] by simp
  with assms u(2) show ?thesis
    by (simp add: upload_relogin_def nowE_def getsE_def bindE_def tryE_def throwE_def)
qed

text \<open>The command that the hint names reads that credential back.\<close>

lemma recovered_read_back:
  assumes "content_at w path = Some auth" "content_valid auth" "w_faults w = []"
  shows "readAuthFile path w = (Inr auth, w)"
  using assms by (auto simp: readAuthFile_def read_auth_def readFile_def content_at_def tryE_def bindE_def stepE_def
      getsE_def returnE_def split: option.splits)

end
