(* ===== verification/CliProperties.thy ===== *)
theory CliProperties
  imports CliCommands WebSample
begin

text \<open>
  The properties of the command line client and of the client with the server: a run and its
  leases, its credential files, what it sends, and how an upload that fails is recovered. Each is
  applied to a concrete run, and to the sample deployment where the server has a part.
\<close>

section \<open>A sample client\<close>

definition sample_options :: cloudSyncOptions where
  "sample_options = \<lparr>cso_Server = ''http://cube'', cso_Token = ''h'', cso_Client = ''laptop'', cso_Workspace = [],
     cso_Device = ''d1'', cso_DeviceLabel = [], cso_Interval = 20 * second\<rparr>"

definition sample_limits :: RateLimits where
  "sample_limits = zero_RateLimits\<lparr>rl_Found := True, rl_FiveHourUsedPercent := 95\<rparr>"

definition leased_snapshot :: "string \<Rightarrow> string \<Rightarrow> LeaseSnapshot" where
  "leased_snapshot leaseID k = \<lparr>
     ls_Lease = \<lparr>lse_ID = leaseID, lse_AccountID = k, lse_ClientID = ''c2'', lse_Holder = ''laptop'', lse_Generation = 1,
       lse_StartedAt = 0, lse_HeartbeatAt = 0, lse_ExpiresAt = 0\<rparr>,
     ls_Snapshot = padded_snapshot\<lparr>ps_ID := k, ps_LeaseID := leaseID, ps_Generation := 1\<rparr>\<rparr>"

text \<open>A run with one swap: the first codex process hits the threshold, the second ends by itself.\<close>

definition sample_process :: "tick list \<Rightarrow> process" where
  "sample_process ticks = \<lparr>pr_Digest = ''d'', pr_Ticks = ticks, pr_Fails = False, pr_Push = Some 2\<rparr>"

definition sample_rounds :: "swap_round list" where
  "sample_rounds =
     [\<lparr>rd_Process = sample_process [\<lparr>tk_beat = Some (1, False), tk_digest = ''d'', tk_push = None, tk_limits = sample_limits\<rparr>],
       rd_Session = Some ''sid'', rd_Claim = Some (leased_snapshot ''l2'' ''b''), rd_Released = True, rd_Written = True\<rparr>,
      \<lparr>rd_Process = sample_process [], rd_Session = None, rd_Claim = None, rd_Released = True, rd_Written = True\<rparr>]"

lemmas run_steps = runCloudRun_def sample_rounds_def run_codex_def runCommandWithLease_def sample_process_def watch_tick_def
  swapDecision_def swapRemainingThresholdClient_def sample_limits_def zero_RateLimits_def next_lease_def
  claimLeaseSnapshot_def leased_snapshot_def padded_snapshot_def take_over_def cleanupRun_def Let_def

lemma sample_run:
  "\<exists>s. runCloudRun (leased_snapshot ''l1'' ''a'') [''exec''] True sample_rounds False True = Some s
     \<and> \<not> rn_AuthErr s \<and> length (rn_Claimed s) = 2"
proof -
  have "trim_space ''b'' = ''b''" "trim_space ''l2'' = ''l2''" by code_simp+
  then show ?thesis by (simp add: run_steps)
qed

section \<open>Runs\<close>

text \<open>C34 A run gives back what it took: it releases no lease it did not claim and none twice; when it reports success
  its last lease is released; and when the cloud takes every release it is sent, and the last upload of the
  credential worked or the user interrupted the run, then every lease the run claimed has been released at its
  end, in the order of the claims.\<close>

theorem run_returns_leases:
  assumes "runCloudRun l codexArgs ready rounds canceled accepted = Some s"
  shows "subseq (rn_Released s) (rn_Claimed s)
     \<and> (ready \<and> run_outcome canceled accepted usageErr s = RunDone \<longrightarrow> rn_Lease s \<in> set (rn_Released s))
     \<and> (ready \<and> accepted \<and> (\<forall>r \<in> set rounds. rd_Released r) \<and> (\<not> rn_AuthErr s \<or> canceled)
        \<longrightarrow> rn_Released s = rn_Claimed s)"
proof (cases ready)
  case False
  with assms show ?thesis by (auto simp: runCloudRun_def Let_def)
next
  case True
  let ?s0 = "\<lparr>rn_Claimed = [l], rn_Released = [], rn_Lease = l, rn_RunErr = False, rn_AuthErr = False, rn_Args = []\<rparr>"
  obtain s1 where s1: "run_loop codexArgs rounds ?s0 = Some s1" "s = cleanupRun (\<not> rn_AuthErr s1 \<or> canceled) accepted s1"
    using assms True by (auto simp: runCloudRun_def Let_def split: option.splits)
  have "books s1" by (rule run_loop_books [OF s1(1)]) (simp add: books_def)
  then have "subseq (rn_Released s) (rn_Claimed s)"
    using s1(2) by (auto simp: books_def cleanupRun_def intro: list_emb_append_mono list_emb_append2)
  moreover have "rn_Lease s \<in> set (rn_Released s)" if "run_outcome canceled accepted usageErr s = RunDone"
    using that s1(2) by (auto simp: cleanupRun_def run_outcome_def Let_def split: if_splits)
  moreover have "rn_Released s = rn_Claimed s"
    if "accepted" "\<forall>r \<in> set rounds. rd_Released r" "\<not> rn_AuthErr s \<or> canceled"
    using run_loop_returns [OF s1(1) _ that(2)] s1(2) that by (auto simp: cleanupRun_def split: if_splits)
  ultimately show ?thesis by blast
qed

theorem run_returns_leases_witness:
  "\<exists>s. runCloudRun (leased_snapshot ''l1'' ''a'') [''exec''] True sample_rounds False True = Some s
     \<and> rn_Released s = rn_Claimed s \<and> length (rn_Claimed s) = 2"
proof -
  obtain s where s: "runCloudRun (leased_snapshot ''l1'' ''a'') [''exec''] True sample_rounds False True = Some s"
    "\<not> rn_AuthErr s" "length (rn_Claimed s) = 2" using sample_run by blast
  moreover have "\<forall>r \<in> set sample_rounds. rd_Released r" by (simp add: sample_rounds_def)
  ultimately show ?thesis using run_returns_leases [OF s(1)] by blast
qed

text \<open>C35 A run ends at the first round that does not lead on: the loop over swaps returns exactly when some codex process
  ends without a swap that is due, or no session, no next lease or no home is there for one; it has then started one
  process for each round up to that one.\<close>

theorem run_ends:
  "(case runCloudRun l codexArgs True rounds canceled accepted of
      None \<Rightarrow> list_all goes_on rounds
    | Some s \<Rightarrow> list_ex (\<lambda>r. \<not> goes_on r) rounds \<and> length (rn_Args s) = Suc (length (takeWhile goes_on rounds)))"
proof -
  let ?s0 = "\<lparr>rn_Claimed = [l], rn_Released = [], rn_Lease = l, rn_RunErr = False, rn_AuthErr = False, rn_Args = []\<rparr>"
  show ?thesis
    using run_loop_ends [of codexArgs rounds ?s0] run_loop_args [of codexArgs rounds ?s0]
    by (auto simp: runCloudRun_def Let_def cleanupRun_def list_all_iff list_ex_iff split: option.splits)
qed



text \<open>A run whose home cannot be made ends with the lease it has claimed, which stays until it expires.\<close>

lemma unready_run_keeps_lease:
  "runCloudRun l codexArgs False rounds canceled accepted = Some s \<Longrightarrow> rn_Claimed s = [l] \<and> rn_Released s = []"
  by (auto simp: runCloudRun_def Let_def)

text \<open>After a failed upload of the credential a swap gives the lease back all the same, and the error is forgotten.\<close>

lemma swap_forgets_failed_upload:
  "\<exists>s. runCloudRun (leased_snapshot ''l1'' ''a'') [''exec''] True
       (map (\<lambda>r. if rd_Session r = None then r else r\<lparr>rd_Process := (rd_Process r)\<lparr>pr_Push := None\<rparr>\<rparr>) sample_rounds) False True = Some s
     \<and> hd (rn_Released s) = leased_snapshot ''l1'' ''a'' \<and> \<not> rn_AuthErr s \<and> \<not> rn_RunErr s"
proof -
  have "trim_space ''b'' = ''b''" "trim_space ''l2'' = ''l2''" by code_simp+
  then show ?thesis by (simp add: run_steps)
qed

section \<open>Client and server\<close>

text \<open>C37 A heartbeat renews the lease: from the token of a client the server knows, and for the id of a lease, the
  request that the client sends passes the gate and is served as the renewal of that lease with the time to live, the holder
  and the quota windows the client meant.\<close>

theorem client_heartbeat_renews:
  fixes opts addr k body
  defines "r \<equiv> client_request addr opts (CallHeartbeat k) body"
  assumes "\<not> postgres_mode (srv_Manager S)" "adminAuthorized S r = None" "w_faults w = []" "plain_id k"
    and "cso_Token opts \<noteq> []" "hd (cso_Token opts) \<notin> set ws_bytes" "last (cso_Token opts) \<notin> set ws_bytes"
    and "token_of S r (stored w) c" "cli_TokenHash c \<noteq> []"
    and "srv_decode S body = Some (heartbeat_body opts accountID rl)" "length body \<le> mebi"
  shows "\<exists>auth c' w'. withSyncAuth S r w = (Inr (Inr auth), w') \<and> token_of S r (stored w) c'
     \<and> ra_ClientID auth = cli_ID c'
     \<and> serve S r w = same_server S (renewal S auth opts k accountID rl) w'"
proof -
  have p: "hr_Method r = ''PATCH''" "hr_Path r = ''/api/sync/leases/'' @ k"
    by (simp_all add: r_def client_request_def cloudJSON_def)
  have "trim_space (requestToken r) \<noteq> []"
    using assms(6) client_token [OF assms(6-8)] trim_space_id_hd_last [OF assms(6-8)] by (simp add: r_def)
  moreover have "device_may (hr_Method r) (hr_Path r)"
    unfolding p by (rule client_call_device_may(2) [OF assms(5)])
  ultimately obtain auth w' where g: "withSyncAuth S r w = (Inr (Inr auth), w')"
    using sync_gate_exact [OF assms(2-4)] assms(9,10) by blast
  moreover obtain c' where "token_of S r (stored w) c'" "ra_ClientID auth = cli_ID c'"
    using sync_gate_device [OF assms(2,3) g] by blast
  moreover have "serve S r w = same_server S (renewal S auth opts k accountID rl) w'"
    using g heartbeat_handled [OF assms(5,11,12), of auth addr]
    by (simp add: serve_def p(2) call_routed [OF assms(5), simplified] bindE_def r_def [symmetric])
  ultimately show ?thesis by blast
qed

definition beating_server :: Server where
  "beating_server = sample_server\<lparr>srv_decode := (\<lambda>_. Some (heartbeat_body sample_options ''a'' sample_limits))\<rparr>"

theorem client_heartbeat_renews_witness:
  "\<exists>auth w'. serve beating_server (client_request ''10.0.0.9:1'' sample_options (CallHeartbeat ''lease_r1'') ''{}'') shared_world
     = same_server beating_server (renewal beating_server auth sample_options ''lease_r1'' ''a'' sample_limits) w'"
proof -
  let ?r = "client_request ''10.0.0.9:1'' sample_options (CallHeartbeat ''lease_r1'') ''{}''"
  let ?c = "legacy_client\<lparr>cli_ID := ''c2'', cli_UserID := ''u1''\<rparr>"
  have m: "\<not> postgres_mode (srv_Manager beating_server)" by (simp add: beating_server_def)
  have a: "adminAuthorized beating_server ?r = None" by code_simp
  have f: "w_faults shared_world = []" by (simp add: shared_world_def leased_world_def sample_world_def)
  have k: "plain_id ''lease_r1''" by code_simp
  have t: "cso_Token sample_options \<noteq> []" "hd (cso_Token sample_options) \<notin> set ws_bytes"
    "last (cso_Token sample_options) \<notin> set ws_bytes" by code_simp+
  have "?c \<in> set (st_Clients (stored shared_world))" by (simp add: shared_stored)
  moreover have "cli_TokenHash ?c = hashToken (srv_Manager beating_server) (trim_space (requestToken ?r))"
    "cli_RevokedAt ?c = None" by code_simp+
  ultimately have c: "token_of beating_server ?r (stored shared_world) ?c" by (simp add: token_of_def)
  have h: "cli_TokenHash ?c \<noteq> []" by code_simp
  have d: "srv_decode beating_server ''{}'' = Some (heartbeat_body sample_options ''a'' sample_limits)"
    by (simp add: beating_server_def)
  have n: "length ''{}'' \<le> mebi" by (simp add: mebi_def)
  show ?thesis using client_heartbeat_renews [OF m a f k t c h d n] by blast
qed

text \<open>C38 What is sent fits what is decoded: the bodies of the client have the types of the structs the
  server decodes them into, and the decoded values are those that were sent, where an enumeration is written as its text,
  a counter is a machine integer, and the stamp is a time.\<close>

theorem bodies_well_typed:
  assumes "snapshot_sendable s" "parse_time stamp = Some t" "summary_small u" "result_sendable q" "res_Status q \<noteq> NoQuota"
  shows "(\<exists>j. snapshot_json stamp s = Some j \<and> fits snapshot_kind j \<and> snapshot_of j = s\<lparr>ps_UpdatedAt := t\<rparr>)
    \<and> fits usage_body_kind (usage_body k l n u)
    \<and> summary_of (obj_at (usage_body k l n u) ''usage'') = u\<lparr>sum_buckets := []\<rparr>
    \<and> fits quota_body_kind (quota_body q) \<and> reported_result (quota_body q) = Some q
    \<and> reported_windows (heartbeat_body opts k rl) = rateLimitsToWindows rl
    \<and> ttl_of (heartbeat_body opts k rl) = leaseTTLSeconds opts * second"
  using snapshot_decoded [OF assms(1,2)] usage_decoded [OF assms(3)] quota_decoded [OF assms(4,5)] heartbeat_decoded
  by simp

theorem bodies_well_typed_witness:
  "\<exists>j. snapshot_json (format_rfc3339 sample_now) padded_snapshot = Some j \<and> fits snapshot_kind j
     \<and> snapshot_of j = padded_snapshot\<lparr>ps_UpdatedAt := sample_now\<rparr>"
proof -
  have s: "snapshot_sendable padded_snapshot"
    by (simp add: snapshot_sendable_def padded_snapshot_def status_of_text_def owner_of_text_def)
  have "0 \<le> sample_now" "year_of_day (days_of_time sample_now) \<le> 9999" "sample_now mod second = 0" by code_simp+
  then have t: "parse_time (format_rfc3339 sample_now) = Some sample_now" by (rule parse_format_second)
  have u: "summary_small (ok_Summary 0)" by (simp add: summary_small_def ok_Summary_def)
  have q: "result_sendable (zero_Result\<lparr>res_Status := StatusSupported\<rparr>)"
    "res_Status (zero_Result\<lparr>res_Status := StatusSupported\<rparr>) \<noteq> NoQuota"
    by (simp_all add: result_sendable_def quota_status_of_text_def)
  from bodies_well_typed [OF s t u q] show ?thesis by blast
qed

text \<open>C39 Client and cloud agree on swaps: on the windows a client reports, the cloud advises a swap exactly when less than
  ten percent is left of the five hours or of the seven days; so where the client swaps by itself for lack of
  the five hours, the cloud advises it too.\<close>

theorem swap_thresholds_agree:
  assumes "rl_Found rl"
  shows "(swap_needed (reported_cache rl k clientID now) \<longleftrightarrow>
       90 < rl_FiveHourUsedPercent rl \<or> 90 < rl_SevenDayUsedPercent rl)
    \<and> (swapDecision rl False = (True, ''5h remaining low'') \<longrightarrow> swap_needed (reported_cache rl k clientID now))"
  using cloud_threshold [OF assms, of k clientID now]
  by (auto simp: swapDecision_def swapRemainingThresholdClient_def split: if_splits)

theorem swap_thresholds_agree_witness:
  "swap_needed (reported_cache sample_limits ''a'' ''c2'' 0)"
  using swap_thresholds_agree [of sample_limits "''a''" "''c2''" 0] by (simp add: sample_limits_def)

section \<open>Errors\<close>

text \<open>C40 A login is not lost: when the upload after a login fails and the credential can be written, the command fails
  with a hint that names the recovery file, which lies in the state directory whatever the account id is, holds
  the credential, and is read back by the command of the hint.\<close>

theorem failed_login_recoverable:
  assumes "cro_AuthFile c = []" "content_valid auth" "rooted (m_StateDir M)"
    and "api_push api (relogin_snapshot c opts auth (w_now w)) w = (Inl e, w1)"
    and "saveRecoveredAuth M (cro_AccountID c) auth w1 = (Inr path, w2)" "w_faults w2 = []"
  shows "upload_relogin M api opts c auth w = (Inl (upload_failed e (relogin_hint path c)), w2)
     \<and> readAuthFile path w2 = (Inr auth, w2)
     \<and> path = CHR ''/'' # join_with (CHR ''/'') (clean_parts (m_StateDir M)
         @ [''recovered-auth-'' @ sanitizeAuthFileID (cro_AccountID c) @ ''.json''])"
  using upload_failure_kept [OF assms(1,4,5)] recovered_read_back [OF _ assms(2,6)] recovered_in_state_dir [OF assms(3)]
  by metis

definition refusing_cloud :: cloud_api where
  "refusing_cloud = \<lparr>api_push = (\<lambda>_. throwE (ErrText ''403 Forbidden'')), api_usage = (\<lambda>_ _ _ _. returnE ()),
     api_report = (\<lambda>_ _. returnE ()), api_quota = (\<lambda>_. returnE zero_Result)\<rparr>"

theorem failed_login_recoverable_witness:
  "\<exists>e w'. upload_relogin sample_manager refusing_cloud sample_options
       \<lparr>cro_AccountID = ''../x'', cro_Status = StatusReady, cro_Owner = OwnerCloud, cro_AuthFile = []\<rparr>
       (Doc (JObj [])) sample_world = (Inl e, w')
     \<and> readAuthFile ''/root/.cube20/recovered-auth-___x.json'' w' = (Inr (Doc (JObj [])), w')"
proof -
  let ?c = "\<lparr>cro_AccountID = ''../x'', cro_Status = StatusReady, cro_Owner = OwnerCloud, cro_AuthFile = []\<rparr>"
  let ?path = "''/root/.cube20/recovered-auth-___x.json''"
  have a: "cro_AuthFile ?c = []" "content_valid (Doc (JObj []))" by simp_all
  have r: "rooted (m_StateDir sample_manager)" by code_simp
  have p: "api_push refusing_cloud (relogin_snapshot ?c sample_options (Doc (JObj [])) (w_now sample_world)) sample_world
      = (Inl (ErrText ''403 Forbidden''), sample_world)"
    by (simp add: refusing_cloud_def throwE_def)
  have f: "w_faults sample_world = []" by (simp add: sample_world_def)
  have "recoveredAuthPath sample_manager ''../x'' = ?path" by code_simp
  then obtain w2 where s: "saveRecoveredAuth sample_manager (cro_AccountID ?c) (Doc (JObj [])) sample_world = (Inr ?path, w2)"
    "w_faults w2 = []"
    using f by (simp add: saveRecoveredAuth_def writeFile_def bindE_def stepE_def modifyE_def returnE_def Let_def)
  from failed_login_recoverable [OF a r p s] show ?thesis by blast
qed

end
