(* ===== verification/Spec2Isabelle.thy ===== *)
theory Spec2Isabelle
  imports UsageSample PgSample Schema Pool WebProperties CliProperties
begin

text \<open>
  cube20 keeps a pool of Codex accounts and lends them out. A server (\<open>internal/web\<close>,
  started by \<open>cmd/cube\<close>) holds the accounts; the command line client on a device claims
  a lease on one account, runs Codex with its credentials, heartbeats, swaps to another account
  when the quota runs low, and releases it. The state is one JSON file or a Postgres database
  (\<open>internal/manager\<close>); the quota of an account is probed over the network
  (\<open>internal/quota\<close>) or reported by the client, which reads its session files (\<open>internal/usage\<close>).

  Theories and the code they model, in the order they build on each other:

    \<^item> Prelude, Go_Strings, Go_Sort, Go_Time, Paths: the parts of Go's standard library the
      code uses (\<open>strings\<close>, \<open>sort.Slice\<close>, \<open>time\<close>, \<open>path/filepath\<close>), strings as byte lists,
      times and durations as integers of nanoseconds (0 is the zero time), percentages
      as rationals.
    \<^item> Model: the data types of \<open>manager.go\<close>, \<open>quota\<close> and \<open>usage\<close>; Env, the functions
      the code calls and whose code is not here (JSON, base64, SHA-256, PBKDF2).
    \<^item> Io: the world a manager acts on (state file, files, database, clock, randomness,
      answers of the network, locks) and the operations on it, as functions from a world
      to a result or an error, and a world. \<open>w_faults\<close> decides which steps fail, so an
      operation is modelled with all its error returns.
    \<^item> Tables, PgStore: the Postgres tables, the upserts of \<open>savePostgresState\<close> and the
      scans of \<open>loadPostgresState\<close> (\<open>store_postgres.go\<close>). PgRound: a saved state is loaded back.
      Schema: the statements of \<open>ensurePostgres\<close>, the catalogs of older versions they upgrade, and the
      columns the queries name, by a static check that is proved sound. Pool: the connection pool, and the
      loops that wait for the lock of a claim.
    \<^item> Identity: account ids, tokens, passwords (\<open>identity.go\<close>). Normalize:
      \<open>normalizeState\<close> and the migrations (\<open>manager.go\<close>). Store: \<open>Ensure\<close>, \<open>Load\<close>,
      \<open>Save\<close>, the round-robin file, and the locale of a locked store of the state.
    \<^item> LoadBalance, Dispatch, LeaseCore, Lease: eligibility, score, ranking, round robin,
      the dispatch history and the leases (\<open>loadbalance.go\<close>, \<open>usage.go\<close>, \<open>lease.go\<close>).
    \<^item> Accounts: \<open>accounts.go\<close>. QuotaProbe: \<open>internal/quota/codex.go\<close>. QuotaRecord:
      \<open>quota.go\<close>. Deploy, ConfigLink: the profiles and environments of \<open>codex.go\<close>,
      backups (\<open>fsutil.go\<close>), the link to the shared \<open>config.toml\<close> and the commands in a managed home.
    \<^item> Users: \<open>users.go\<close>, \<open>sessions.go\<close>, \<open>clients.go\<close>, \<open>devices.go\<close>. Workspaces: \<open>workspace.go\<close>.
      Settings: \<open>settings.go\<close>, with the settings file and its round trip.
    \<^item> LeaseRun, Access, AccessRun: runs of requests of the manager in any order, with any
      failures, and what every request keeps (locales \<open>request_invariant\<close> and
      \<open>people_invariant\<close>): leases, distinct ids and names, revocations, disabled users, sessions.
    \<^item> PgRows, PgLease: the same runs on Postgres, where every operation reads all rows and writes them
      back (locale \<open>row_invariant\<close>): what is known of the account rows, and the lease of a claim in them.
    \<^item> UsageScan, UsageEvents: \<open>internal/usage\<close>, and the events and statistics
      (\<open>usage_events.go\<close>, \<open>usage.go\<close>).
    \<^item> WebRequest, LoginLimiter, WebHandlers, WebServer: the decoding of requests, the gates,
      the limiter, every handler, the routes, the static files and the quota worker
      (\<open>internal/web\<close>). WebRun: runs of HTTP requests (locale \<open>web_invariant\<close>, interpreted on the
      invariants above), so the properties of the manager hold of the server.
    \<^item> CliFlags, CliRun, CliWire, CliCommands: the flags, the loop of a run with its
      heartbeats and swaps, what the client sends and what the server decodes of it, the other
      commands (\<open>cmd/cube\<close>).
    \<^item> Sample, UsageSample, WebSample, PgSample: a small deployment, in a file and on Postgres, to which the properties are applied.
      The properties are here, in WebProperties and in CliProperties; the lemmas beside them that have no claim
      record what the code does against its comments.

  An operation takes one instant: \<open>time.Now\<close> called several times in it returns the
  same time. Loops are recursive on lists, so no fuel is used; in an operation the retry loop of
  \<open>acquireLock\<close> is the result it ends with (Pool shows that it ends, and that this is its end). The loop of a run takes the
  outcomes of the cloud and of Codex as a list of rounds; it has ended or is waiting for
  the next one. Floating point numbers are rationals, so rounding errors are not modelled. User
  names are folded in ASCII only, and the keys of a JSON object are matched exactly.

  On Postgres a save keeps a row that is newer than the snapshot, also when that snapshot holds a claim; so
  a claim is known to last only when no server with a later clock has written its row. In an operation the
  schema and the pool are steps that may fail.

  Runs of requests leave out \<open>SetOwner\<close>, \<open>DeleteAccount\<close> and the import of the live login, and runs of
  HTTP requests those with the admin token, where a property is about others than the administrator.

  Not modelled: the web front end, the layout of what \<open>cmd/cube\<close> prints, signals, the start of
  processes, the settings of the database pool, the shutdown of the server and the timeouts of its
  connections, the ticker of the quota worker and of the heartbeat, symbolic links, and the bytes of
  JSON documents (files and bodies hold the value they encode; the decoder of the server is a parameter).
\<close>

section \<open>Leases\<close>



text \<open>C2 No account is leased twice: while an account is held, no claim, whatever requests came
  before it, returns that account.\<close>

theorem held_account_not_claimed:
  assumes "\<not> postgres_mode M" "ids_distinct (stored w)" "holds k L C E (w_now w) (stored w)"
    and "run M (\<lambda>v r. allowed (foreign L C) (\<lambda>_. True) r \<and> few_listed M v r) w w'"
    and "0 \<le> w_now w" "w_now w' < E"
    and "ClaimLease M cid holder ws ttl w' = (Inr s, v)"
  shows "lse_AccountID (ls_Lease s) \<noteq> k \<and> holds k L C E (w_now w') (stored v)"
  using assms by (rule run_claim_other)

theorem held_account_not_claimed_witness:
  "\<exists>s v. ClaimLease sample_manager ''c2'' ''h2'' [] 0 leased_world = (Inr s, v)
     \<and> lse_AccountID (ls_Lease s) \<noteq> ''a''"
proof -
  let ?M = sample_manager
  obtain s v where c: "ClaimLease ?M ''c2'' ''h2'' [] 0 leased_world = (Inr s, v)"
    using leased_claim by blast
  have h: "holds ''a'' ''lease_r1'' ''c1'' lease_end (w_now leased_world) (stored leased_world)"
    by (simp only: leased_fields leased_holds)
  have r: "run ?M (\<lambda>v r. allowed (foreign ''lease_r1'' ''c1'') (\<lambda>_. True) r \<and> few_listed ?M v r) leased_world leased_world"
    by (rule run.start)
  have "0 \<le> w_now leased_world" "w_now leased_world < lease_end"
    by (simp_all add: sample_now_eq duration_defs)
  from held_account_not_claimed [OF sample_mode leased_ids h r this c] c show ?thesis by blast
qed

text \<open>C3 A claim that returns a lease leases an account of the pool asked for, cloud-owned, ready,
  and with quota left; the stored state records the lease for the client, active, for the time
  asked for, but between 30 seconds and 30 minutes.\<close>

theorem claim_grants_usable_account:
  assumes "\<not> postgres_mode M" "0 \<le> w_now w" "ClaimLease M cid holder ws ttl w = (Inr s, w')"
  shows "claimed cid (trim_space ws) ttl (w_now w) s (stored w')
     \<and> w_now w + 30 * second \<le> lse_ExpiresAt (ls_Lease s)
     \<and> lse_ExpiresAt (ls_Lease s) \<le> w_now w + 30 * minute"
  using assms by (rule claim_result)

theorem claim_grants_usable_account_witness:
  "\<exists>s w'. ClaimLease sample_manager ''c1'' ''host'' [] 0 sample_world = (Inr s, w')
     \<and> claimed ''c1'' [] 0 sample_now s (stored w')"
proof -
  obtain s w' where c: "ClaimLease sample_manager ''c1'' ''host'' [] 0 sample_world = (Inr s, w')"
    using sample_claim by blast
  have "0 \<le> w_now sample_world" by (simp add: sample_now_eq)
  from claim_grants_usable_account [OF sample_mode this c] c show ?thesis by auto
qed

text \<open>C4 A claim finds an account when there is one: if no step fails, no lease is overdue and
  some account of the pool may be leased, the claim returns a lease.\<close>

theorem claim_succeeds:
  assumes "\<not> postgres_mode M" "calm w" "w_rand w = r # rs" "ids_distinct (stored w)"
    and "\<forall>a \<in> set (st_Accounts (stored w)). \<not> lease_expired a (w_now w)"
    and "a \<in> set (st_Accounts (stored w))"
    and "trim_space ws = [] \<or> workspaceOrDefault (acc_WorkspaceID a) = trim_space ws"
    and "may_lease (acc_OwnerMode a) (acc_Status a) (accountAuthPresent w a) (accountLeaseActive a (w_now w))
        (quota_of (stored w) (acc_ID a)) (w_now w)"
  shows "\<exists>s w'. ClaimLease M cid holder ws ttl w = (Inr s, w')"
  using assms by (rule claim_possible)

theorem claim_succeeds_witness:
  "\<exists>s w'. ClaimLease sample_manager ''c1'' ''host'' ''default'' 0 sample_world = (Inr s, w')"
  by (rule claim_succeeds [OF sample_mode sample_calm sample_fields(2) sample_ids sample_fresh sample_member
        sample_pool sample_eligible])



text \<open>C6 Releasing ends the lease: it succeeds only for an active lease named by its id and not
  by another client, and leaves the account without a lease.\<close>

theorem release_ends_lease:
  assumes "\<not> postgres_mode M" "ReleaseLease M k lid cid w = (Inr (), w')"
  shows "\<exists>a \<in> set (st_Accounts (stored w)). acc_LeaseID a = trim_space lid \<and> accountLeaseActive a (w_now w)
     \<and> (trim_space cid = [] \<or> acc_LeaseClientID a = [] \<or> acc_LeaseClientID a = trim_space cid)
     \<and> (\<exists>b \<in> set (st_Accounts (stored w')). acc_ID b = acc_ID a \<and> acc_LeaseID b = []
          \<and> \<not> accountLeaseActive b (w_now w))"
  using assms by (rule release_result)

theorem release_ends_lease_witness:
  "\<exists>w'. ReleaseLease sample_manager ''a'' ''lease_r1'' ''c1'' leased_world = (Inr (), w')
     \<and> (\<exists>b \<in> set (st_Accounts (stored w')). acc_LeaseID b = [])"
  using leased_release release_ends_lease [OF sample_mode] by blast

text \<open>C7 The same in a Postgres database, where every operation writes back the rows it read: a claim
  whose account row was not changed by a server with a later clock is kept through any run of requests of others
  (between which anything but the account rows may change from outside), until it expires, and no later claim
  returns the account.\<close>

theorem lease_survives_postgres:
  assumes "postgres_mode M" "0 \<le> w_now w" "keyed_rows (account_rows w)"
    and "ClaimLease M cid holder ws ttl w = (Inr s, w1)"
    and "\<forall>(k, r) \<in> set (account_rows w1). acc_UpdatedAt r \<le> w_now w"
    and "pg_run M (allowed (foreign (lse_ID (ls_Lease s)) (trim_space cid)) (\<lambda>_. True)) w1 w2"
    and "w_now w2 < lse_ExpiresAt (ls_Lease s)"
  shows "leased_rows (lse_AccountID (ls_Lease s)) (lse_ID (ls_Lease s)) (trim_space cid) (lse_ExpiresAt (ls_Lease s))
      (w_now w2) (account_rows w2)
    \<and> (ClaimLease M cid' holder' ws' ttl' w2 = (Inr s', w3) \<longrightarrow> lse_AccountID (ls_Lease s') \<noteq> lse_AccountID (ls_Lease s))"
  by (rule claim_survives [OF assms])

theorem lease_survives_postgres_witness:
  "\<exists>s. ClaimLease pg_manager ''c'' ''h'' [] minute pg_world = (Inr s, pg_after)
     \<and> leased_rows (lse_AccountID (ls_Lease s)) (lse_ID (ls_Lease s)) ''c'' (sample_now + minute) sample_now
         (account_rows (perform pg_manager (RRelease ''a'' ''lease_r'' ''d'') pg_after))"
proof -
  let ?r = "RRelease ''a'' ''lease_r'' ''d''"
  define v where "v = perform pg_manager ?r pg_after"
  obtain s where c: "ClaimLease pg_manager ''c'' ''h'' [] minute pg_world = (Inr s, pg_after)"
    and l: "ls_Lease s = leaseFromAccount pg_lease" using pg_claim by blast
  have "allowed (foreign (lse_ID (ls_Lease s)) (trim_space ''c'')) (\<lambda>_. True) ?r" unfolding l by code_simp
  then have r: "pg_run pg_manager (allowed (foreign (lse_ID (ls_Lease s)) (trim_space ''c'')) (\<lambda>_. True)) pg_after v"
    unfolding v_def by (intro pg_run.intros) simp_all
  have trim: "trim_space ''c'' = ''c''" by code_simp
  have t: "w_now v = sample_now" "w_now pg_world = sample_now"
    using row_clock.row_perform [OF pg_mode, of ?r pg_after sample_now]
    unfolding v_def [symmetric] by (simp_all add: pg_clock)
  have e: "lse_ExpiresAt (ls_Lease s) = sample_now + minute" unfolding l by (rule pg_expires)
  have "0 \<le> w_now pg_world" "list_all (\<lambda>(k, r). acc_UpdatedAt r \<le> w_now pg_world) (account_rows pg_after)"
    "w_now v < lse_ExpiresAt (ls_Lease s)"
    using pg_rows(2) by (simp_all add: t e sample_now_eq duration_defs)
  from lease_survives_postgres [OF pg_mode this(1) pg_rows(1) c _ r this(3)] this(2) c show ?thesis
    unfolding v_def [symmetric] by (auto simp: list_all_iff t e trim)
qed

text \<open>An expired lease that another operation sweeps is lost to recovery: a heartbeat for an
  unknown lease marks the account recovering, and RecoverExpiredLeases no longer probes it.\<close>

theorem swept_lease_not_recovered:
  assumes "\<not> postgres_mode M" "calm w" "findLeaseAccount (sweep (stored w) (w_now w)) k lid = Inl e"
    and "a \<in> set (st_Accounts (stored w))" "lease_expired a (w_now w)" "acc_Status a = StatusReady"
    and "v = snd (TouchLease M lid k cid holder ttl w)"
  shows "(\<exists>b \<in> set (st_Accounts (stored v)). acc_ID b = acc_ID a \<and> acc_Status b = StatusRecovering)
     \<and> RecoverExpiredLeases M v = (Inr (), v)"
  using assms by (rule lost_recovery)

theorem swept_lease_not_recovered_witness:
  "\<exists>v. RecoverExpiredLeases sample_manager v = (Inr (), v)
     \<and> (\<exists>b \<in> set (st_Accounts (stored v)). acc_ID b = acc_ID leased_account \<and> acc_Status b = StatusRecovering)"
  using swept_lease_not_recovered [OF sample_mode overdue_facts refl] by blast

section \<open>Load balancing\<close>

text \<open>C8 An account may be leased exactly when it is cloud-owned, ready, has its auth file,
  is not leased, its quota was probed as supported, its five-hour window has more than 5% left
  and a reset still to come, and its seven-day window, if any, is not used up; every other
  account is given a reason, and only the eligible ones a score.\<close>

theorem eligibility_is_may_lease:
  "(ev_Eligible (evaluateLoadBalanceFields owner status auth leased expires cache now)
      \<longleftrightarrow> may_lease owner status auth leased cache now)
   \<and> (ev_Reason (evaluateLoadBalanceFields owner status auth leased expires cache now) = []
      \<longleftrightarrow> may_lease owner status auth leased cache now)
   \<and> (ev_QuotaScore (evaluateLoadBalanceFields owner status auth leased expires cache now) = 0
      \<longleftrightarrow> \<not> may_lease owner status auth leased cache now)"
  using score_iff [of owner status auth leased expires cache now] by (auto simp: reason_iff eligible_iff)

text \<open>C9 Round robin is fair: starting from any last account, as many picks as the top group
  has members hand out every account of the group.\<close>

theorem round_robin_visits_top_group:
  assumes "available \<noteq> []" "n = loadBalanceTopGroupLen (map score available)"
    and "distinct (map k (take n available))" "\<forall>c \<in> set (take n available). k c \<noteq> []"
  shows "set (rr_sequence score k available lastID n) = set (take n available)"
  using assms by (rule rr_sequence_covers)

theorem round_robin_visits_top_group_witness:
  "set (rr_sequence snd fst [(''a'', 50), (''b'', 50), (''c'', 20)] ''a'' 2) = {(''a'', 50), (''b'', 50)}"
proof -
  have n: "loadBalanceTopGroupLen (map snd [(''a'', 50), (''b'', 50), (''c'', 20)]) = (2::nat)"
    by (simp add: sameLoadBalanceScore_def loadBalanceScoreEpsilon_def)
  show ?thesis
    using round_robin_visits_top_group [of "[(''a'', 50), (''b'', 50), (''c'', 20)]" 2 snd fst "''a''"] n
    by simp
qed

text \<open>The ranking puts a best account first, up to the tolerance, as long as no chain of
  scores within the tolerance of their neighbours is longer than the tolerance.\<close>

theorem ranking_best_first:
  assumes "unchained (score ` set xs)" "x \<in> set xs"
  shows "score x \<le> score (hd (rank score k xs)) + loadBalanceScoreEpsilon"
  using assms by (rule rank_head_best)

theorem ranking_best_first_witness:
  "(90::percent) \<le> snd (hd (rank snd fst [(''a'', 50), (''b'', 90)])) + loadBalanceScoreEpsilon"
proof -
  have "unchained (snd ` set [(''a'', 50), (''b'', 90)])"
    by (simp add: unchained_def sameLoadBalanceScore_def loadBalanceScoreEpsilon_def)
  from ranking_best_first [OF this, of "(''b'', 90)" fst] show ?thesis by simp
qed

text \<open>Without that condition the comparison handed to \<open>sort.Slice\<close> is no order: for three
  accounts a, b, c with the scores 50, 50.008 and 50.016, a comes before b, b before c, and c
  before a.\<close>

theorem ranking_comparison_cyclic:
  "let a = (''a'', 50); b = (''b'', 6251 / 125); c = (''c'', 6252 / 125)
   in lb_less snd fst a b \<and> lb_less snd fst b c \<and> lb_less snd fst c a \<and> \<not> strict_weak (lb_less snd (fst :: string \<times> percent \<Rightarrow> string))"
  by (rule lb_less_cyclic)

text \<open>The score of a window lies between 0 and 125, and is 0 only for a window with at most
  5% left.\<close>

theorem quota_score_bounds:
  "0 \<le> loadBalanceQuotaScore x now \<and> loadBalanceQuotaScore x now < 125
   \<and> (loadBalanceQuotaScore x now = 0 \<longleftrightarrow> win_RemainingPercent x \<le> loadBalanceMinFiveHourRemaining)"
  by (rule loadBalanceQuotaScore_bounds)

section \<open>Accounts and identities\<close>

text \<open>The account id made from any text is empty or a valid account id, no longer than 64
  bytes, and making it again changes nothing.\<close>

theorem sanitized_id_valid:
  "(sanitizeAccountID v = [] \<or> matches_accountIDPattern (sanitizeAccountID v))
   \<and> length (sanitizeAccountID v) \<le> 64 \<and> sanitizeAccountID (sanitizeAccountID v) = sanitizeAccountID v"
  using sanitizeAccountID_matches sanitizeAccountID_length sanitizeAccountID_idem by blast

text \<open>A unique id is not in use, while fewer than 900 ids are.\<close>

theorem unique_id_unused:
  assumes "length used < 900"
  shows "uniqueFromUsed base used now \<notin> set used"
  using assms by (rule uniqueFromUsed_fresh_small)

theorem unique_id_unused_witness:
  "uniqueFromUsed ''work'' [''work'', ''work-2''] 0 \<notin> {''work'', ''work-2''}"
  using unique_id_unused [of "[''work'', ''work-2'']" "''work''" 0] by simp

text \<open>C10 A password is accepted against its stored hash, and another text exactly when PBKDF2
  gives it the same key for the salt that was drawn; given a base64 that decodes what it encodes,
  writes no dollar sign, and keys of the length asked for.\<close>

theorem password_round_trip:
  assumes "\<And>s. env_b64_decode E (env_b64_encode E s) = Some s"
    and "\<And>s. CHR ''$'' \<notin> set (env_b64_encode E s)"
    and "\<And>p s. length (env_pbkdf2 E p s pbkdf2Iterations pbkdf2KeyLen) = pbkdf2KeyLen"
    and "hashPassword E password w = (Inr h, w')"
  shows "checkPassword E h password \<and>
     (\<exists>salt. checkPassword E h attempt \<longleftrightarrow>
       env_pbkdf2 E attempt salt pbkdf2Iterations pbkdf2KeyLen
       = env_pbkdf2 E password salt pbkdf2Iterations pbkdf2KeyLen)"
  using checkPassword_hash [OF assms, of attempt] checkPassword_hash [OF assms, of password] by blast

theorem password_round_trip_witness:
  "\<exists>h w'. hashPassword sample_manager ''secret'' sample_world = (Inr h, w')
     \<and> checkPassword sample_manager h ''secret''"
proof -
  obtain h w' where h: "hashPassword sample_manager ''secret'' sample_world = (Inr h, w')"
    by (simp add: hashPassword_def bindE_def randE_def returnE_def sample_world_def)
  have "checkPassword sample_manager h ''secret''"
    using password_round_trip [OF sample_b64 sample_b64_text sample_pbkdf2 h] by blast
  with h show ?thesis by blast
qed

text \<open>C11 A credential cannot be replaced under a lease: an upload for an account that is leased
  is refused and changes nothing.\<close>

theorem leased_upload_refused:
  assumes "\<not> postgres_mode M" "auth_object (jp_Auth p) = Some auth"
    and "existing_index M (w_files w) (stored w) (upsert_key M w p auth) (authIdentity M auth) = Some i"
    and "accountLeaseActive (st_Accounts (stored w) ! i) (w_now w)"
    and "upsertJSONProfileLocked M p w = (r, w')"
  shows "(\<exists>e. r = Inl e) \<and> same_but_faults w w'"
  using assms by (rule upsert_leased_refused)

theorem leased_upload_refused_witness:
  "\<exists>e. fst (upsertJSONProfileLocked sample_manager
       \<lparr>jp_ID = ''a'', jp_Label = [], jp_Auth = Doc (JObj []), jp_Config = []\<rparr> leased_world) = Inl e"
proof -
  let ?p = "\<lparr>jp_ID = ''a'', jp_Label = [], jp_Auth = Doc (JObj []), jp_Config = []\<rparr>"
  have i: "existing_index sample_manager (w_files leased_world) (stored leased_world)
      (upsert_key sample_manager leased_world ?p (JObj [])) (authIdentity sample_manager (JObj [])) = Some 0"
    unfolding leased_stored by code_simp
  have l: "accountLeaseActive (st_Accounts (stored leased_world) ! 0) (w_now leased_world)"
    unfolding leased_accounts by code_simp
  have a: "auth_object (jp_Auth ?p) = Some (JObj [])" by simp
  from leased_upload_refused [OF sample_mode a i l prod.collapse [symmetric]] show ?thesis by blast
qed



section \<open>The state and its stores\<close>

text \<open>C13 Loading a normalised state changes nothing, and a state with at most 900 clients is
  normalised by one load.\<close>

theorem normalize_settles:
  assumes "length (st_Clients st) \<le> 900"
  shows "state_ok (normalizeState now st) \<and> normalizeState now' (normalizeState now st) = normalizeState now st"
  using normalizeState_ok [OF assms] normalizeState_id by blast

theorem normalize_settles_witness:
  "normalizeState 5 (normalizeState 3 (zero_State\<lparr>st_Clients := [legacy_client]\<rparr>))
     = normalizeState 3 (zero_State\<lparr>st_Clients := [legacy_client]\<rparr>)"
  using normalize_settles [of "zero_State\<lparr>st_Clients := [legacy_client]\<rparr>" 3 5] by simp

text \<open>The migration to users touches no credential: the devices keep their ids, tokens, labels
  and revocations, whatever the state; only the owner is filled in.\<close>

theorem migration_keeps_devices:
  "list_all2 (\<lambda>c c'. \<exists>u. c' = c\<lparr>cli_UserID := u\<rparr>) (st_Clients st) (st_Clients (normalizeState now st))"
  by (rule normalizeState_clients)

text \<open>C14 A locked update of the state file is atomic: it runs only when the mutex is free, and
  then either stores the state the change commits to, or leaves the stored state as it was;
  whatever step fails, the mutex is free again.\<close>

theorem update_atomic:
  assumes "\<not> postgres_mode M" "update_state M f w = (r, w')"
  shows "(w_mu w \<and> r = Inl Deadlock \<and> w' = w) \<or>
     (\<not> w_mu w \<and> \<not> w_mu w' \<and>
       (case r of
          Inl e \<Rightarrow> stored w' = stored w
        | Inr x \<Rightarrow> (f (w_now w) (stored w) = Skip x \<and> stored w' = stored w)
            \<or> (\<exists>st. f (w_now w) (stored w) = Commit st x
                  \<and> stored w' = normalizeState (w_now w) (st\<lparr>st_Version := 1\<rparr>))))"
  using file_store.locked_update [OF assms] by (auto simp: file_store.updated_def split: sum.splits)

theorem update_atomic_witness:
  "stored (snd (update_state sample_manager (\<lambda>now st. (Fail (ErrText ''no'') :: unit outcome)) sample_world))
     = sample_state"
proof -
  let ?f = "\<lambda>now st. (Fail (ErrText ''no'') :: unit outcome)"
  have mu: "\<not> w_mu sample_world" by (simp add: sample_world_def)
  obtain r w' where e: "update_state sample_manager ?f sample_world = (r, w')" by fastforce
  from update_atomic [OF sample_mode e] mu have "stored w' = stored sample_world"
    by (auto split: sum.splits)
  with e show ?thesis by (simp add: sample_stored)
qed






text \<open>But a membership comes back: a save from a snapshot taken before the membership was
  removed inserts it again.\<close>

theorem stale_save_restores_membership:
  assumes "state_ok st" "m \<in> set (st_Memberships st)" "trim_space (ms_WorkspaceID m) \<noteq> []"
    and "membership_principal m \<noteq> []"
    and "deletePostgresMembership (ms_WorkspaceID m) (membership_principal m) w = (Inr (), w1)"
    and "savePostgresState M st w1 = (Inr (), w')"
  shows "map_of (db_memberships (w_db w')) (ms_WorkspaceID m, membership_principal m) \<noteq> None"
  using assms(1,6,2-4) by (rule savePostgresState_memberships)

theorem stale_save_restores_membership_witness:
  "\<exists>w1 w'. deletePostgresMembership ''team'' ''c1'' sample_world = (Inr (), w1)
     \<and> savePostgresState sample_manager sample_member_state w1 = (Inr (), w')
     \<and> map_of (db_memberships (w_db w')) (''team'', ''c1'') \<noteq> None"
proof -
  let ?m = "\<lparr>ms_WorkspaceID = ''team'', ms_UserID = [], ms_ClientID = ''c1'', ms_Role = RoleMember, ms_CreatedAt = 0\<rparr>"
  obtain w1 w' where d: "deletePostgresMembership ''team'' ''c1'' sample_world = (Inr (), w1)"
    and s: "savePostgresState sample_manager sample_member_state w1 = (Inr (), w')"
    using sample_delete_save by blast
  have m: "?m \<in> set (st_Memberships sample_member_state)" "trim_space (ms_WorkspaceID ?m) \<noteq> []"
      "membership_principal ?m \<noteq> []"
    by (simp add: sample_member_state_def, code_simp, code_simp)
  have p: "membership_principal ?m = ''c1''" by code_simp
  from stale_save_restores_membership [OF sample_member_state_ok m _ s, of sample_world] d s p show ?thesis by auto
qed

section \<open>Quota\<close>

text \<open>C18 The row updates of Postgres mode record a quota result as the file mode does, on every
  account whose generation fits in 64 bits, as long as the reported plan is not made of spaces.\<close>

theorem postgres_quota_refines_file_mode:
  assumes "trim_space (res_Plan result) \<noteq> [] \<or> res_Plan result = []"
    and "wrap64 (acc_Generation a) = acc_Generation a"
  shows "Account.truncate (pg_quota_outcome result changed now (pg_quota_owner source (trim_space reporter) flip now a))
       = quota_outcome result changed now (quota_owner source reporter flip now (Account.truncate a))"
  using assms by (rule pg_quota_refines)

theorem postgres_quota_refines_file_mode_witness:
  "acc_Status (Account.truncate (pg_quota_outcome (zero_Result\<lparr>res_Status := StatusRefreshInvalid\<rparr>) True 7
     (pg_quota_owner QuotaSourceCloud (trim_space []) False 7
       (Account.extend (sample_account ''a'') \<lparr>ar_auth_json = None\<rparr>)))) = StatusDrain"
proof -
  let ?r = "zero_Result\<lparr>res_Status := StatusRefreshInvalid\<rparr>"
  let ?a = "Account.extend (sample_account ''a'') \<lparr>ar_auth_json = None\<rparr>"
  have "res_Plan ?r = []" by (simp add: zero_Result_def)
  moreover have "wrap64 (acc_Generation ?a) = acc_Generation ?a" by code_simp
  moreover have "acc_Status (quota_outcome ?r True 7 (quota_owner QuotaSourceCloud [] False 7 (Account.truncate ?a)))
      = StatusDrain" by code_simp
  ultimately show ?thesis
    using postgres_quota_refines_file_mode [of ?r ?a True 7 QuotaSourceCloud "[]" False] by simp
qed

text \<open>Recording a quota never touches a lease, keeps every account's owner unless the report
  is told to flip it, and moves the status only from ready or recovering to drain (the refresh
  token is dead) or from recovering to ready (the probe succeeded).\<close>

theorem quota_keeps_leases:
  "map (\<lambda>a. (acc_ID a, lease_of a)) (st_Accounts (quota_state k result changed source reporter flip now st))
     = map (\<lambda>a. (acc_ID a, lease_of a)) (st_Accounts st)
   \<and> map acc_OwnerMode (st_Accounts (quota_state k result changed source reporter False now st))
     = map acc_OwnerMode (st_Accounts st)
   \<and> acc_Status (quota_outcome result changed now a) =
     (case res_Status result of
        StatusRefreshInvalid \<Rightarrow>
          if acc_Status a \<in> {StatusReady, StatusRecovering} then StatusDrain else acc_Status a
      | StatusSupported \<Rightarrow> if acc_Status a = StatusRecovering then StatusReady else acc_Status a
      | _ \<Rightarrow> acc_Status a)"
  by (intro conjI quota_state_leases quota_state_owner quota_outcome_status)



text \<open>The redaction of an error message stops at the first marker of its list, so an API key
  that stands before a bearer token is kept.\<close>

theorem redaction_leaks_key:
  "sanitizeErr ''sk-live-1 rejected: Bearer abc'' = ''sk-live-1 rejected: [redacted]''"
  by (rule sanitizeErr_leak)

text \<open>A time written in RFC 3339 reads back as that time, to the second, up to the year 9999.\<close>

theorem rfc3339_round_trip:
  assumes "0 \<le> t" "year_of_day (days_of_time t) \<le> 9999" "t mod second = 0" "t \<noteq> 0"
  shows "parseRFC3339 (format_rfc3339 t) = t"
  using assms by (rule parseRFC3339_format)

theorem rfc3339_round_trip_witness:
  "parseRFC3339 (format_rfc3339 sample_now) = sample_now"
proof -
  have "0 \<le> sample_now" "year_of_day (days_of_time sample_now) \<le> 9999" "sample_now mod second = 0" "sample_now \<noteq> 0"
    by code_simp+
  then show ?thesis by (rule rfc3339_round_trip)
qed

section \<open>Identities\<close>

text \<open>C20 A disabled user is locked out: after the user has been disabled, and as long as nobody
  enables them again, no password and no session cookie is answered with that user, whatever
  requests came in between (while there are at most 900 users and clients).\<close>

theorem disabled_user_locked_out:
  assumes "\<not> postgres_mode M" "people_ok (stored w0)" "SetUserDisabled M k True w0 = (Inr (), w)"
    and "run M (\<lambda>_. allowed (\<lambda>_ _. True) (\<lambda>c. c \<noteq> Disable k False)) w w'" "few (stored w')"
  shows "(AuthenticateUser M name pw w' = (Inr (Some v), x) \<longrightarrow> uv_ID v \<noteq> k)
     \<and> (ResolveSession M token w' = (Inr (Some (v, s)), x) \<longrightarrow> uv_ID v \<noteq> k)"
proof -
  have "locked_out k (stored w)"
    using file_store.givesD [OF disable_locks_out [OF assms(1)] refl assms(2,3)] by simp
  then have "locked_out k (stored w')"
    by (rule run_people [OF assms(4,1) locked.people_invariant_axioms])
  then have "\<forall>u \<in> set (st_Users (stored w')). usr_ID u = k \<longrightarrow> usr_DisabledAt u \<noteq> None"
    using assms(5) by (simp add: locked_out_def barred_def)
  then show ?thesis
    by (auto dest!: AuthenticateUser_Some [OF assms(1)] ResolveSession_Some [OF assms(1)])
qed

theorem disabled_user_locked_out_witness:
  "\<exists>w. SetUserDisabled sample_manager ''u1'' True people_world = (Inr (), w)
     \<and> \<not> (\<exists>v s x. ResolveSession sample_manager ''cube_ses_x'' w = (Inr (Some (v, s)), x) \<and> uv_ID v = ''u1'')"
proof -
  obtain w where d: "SetUserDisabled sample_manager ''u1'' True people_world = (Inr (), w)"
    using people_disable by blast
  have r: "run sample_manager (\<lambda>_. allowed (\<lambda>_ _. True) (\<lambda>c. c \<noteq> Disable ''u1'' False)) w w" by (rule run.start)
  have "few (stored w)" by (rule people_disable_few [OF d])
  note out = disabled_user_locked_out [OF sample_mode people_well d r this, THEN conjunct2]
  show ?thesis by (intro exI [of _ w] conjI d notI; elim exE conjE; drule out [rule_format]; simp)
qed

text \<open>C21 Revoking is for good: no token is accepted for a revoked device again, whatever requests
  came in between.\<close>

theorem revoked_device_stays_out:
  assumes "\<not> postgres_mode M" "people_ok (stored w0)" "RevokeDevice M k w0 = (Inr (), w)"
    and "run M (\<lambda>_. allowed (\<lambda>_ _. True) (\<lambda>_. True)) w w'" "few (stored w')"
    and "AuthenticateDeviceToken M token w' = (Inr (Some (v, u)), x)"
  shows "cv_ID v \<noteq> k"
proof -
  have "revoked k (stored w)"
    using file_store.givesD [OF revoke_revokes [OF assms(1)] refl assms(2,3)] by simp
  then have "revoked k (stored w')"
    by (rule run_people [OF assms(4,1) revocation.people_invariant_axioms])
  then have "\<forall>c \<in> set (st_Clients (stored w')). cli_ID c = k \<longrightarrow> cli_RevokedAt c \<noteq> None"
    using assms(5) by (simp add: revoked_def barred_def)
  then show ?thesis using AuthenticateDeviceToken_Some [OF assms(1,6)] by auto
qed

theorem revoked_device_stays_out_witness:
  "\<exists>w. RevokeDevice sample_manager ''c1'' people_world = (Inr (), w)
     \<and> \<not> (\<exists>v u x. AuthenticateDeviceToken sample_manager ''h'' w = (Inr (Some (v, u)), x) \<and> cv_ID v = ''c1'')"
proof -
  obtain w where d: "RevokeDevice sample_manager ''c1'' people_world = (Inr (), w)"
    using people_revoke by blast
  have r: "run sample_manager (\<lambda>_. allowed (\<lambda>_ _. True) (\<lambda>_. True)) w w" by (rule run.start)
  have "few (stored w)" by (rule people_revoke_few [OF d])
  note out = revoked_device_stays_out [OF sample_mode people_well d r this]
  show ?thesis by (intro exI [of _ w] conjI d notI; elim exE conjE; drule out; simp)
qed

text \<open>C22 A new password ends every session of the user: until the user logs in again, no session
  cookie is answered with them.\<close>

theorem password_change_ends_sessions:
  assumes "\<not> postgres_mode M" "SetUserPassword M k pw w0 = (Inr (), w)"
    and "run M (\<lambda>_. allowed (\<lambda>_ _. True) (\<lambda>c. c \<noteq> Login k)) w w'"
    and "ResolveSession M token w' = (Inr (Some (v, s)), x)"
  shows "uv_ID v \<noteq> k"
proof -
  have "logged_out k (stored w)"
    using file_store.givesD [OF password_logs_out [OF assms(1)] refl _ assms(2)] migrated_stored by blast
  then have "logged_out k (stored w')"
    by (rule run_people [OF assms(3,1) sessions.people_invariant_axioms])
  then show ?thesis using ResolveSession_Some [OF assms(1,4)] by (auto simp: logged_out_def)
qed

theorem password_change_ends_sessions_witness:
  "\<exists>w. SetUserPassword sample_manager ''u1'' ''secret'' people_world = (Inr (), w)
     \<and> \<not> (\<exists>v s x. ResolveSession sample_manager ''cube_ses_x'' w = (Inr (Some (v, s)), x) \<and> uv_ID v = ''u1'')"
proof -
  obtain w where d: "SetUserPassword sample_manager ''u1'' ''secret'' people_world = (Inr (), w)"
    using people_password by blast
  have r: "run sample_manager (\<lambda>_. allowed (\<lambda>_ _. True) (\<lambda>c. c \<noteq> Login ''u1'')) w w" by (rule run.start)
  note out = password_change_ends_sessions [OF sample_mode d r]
  show ?thesis by (intro exI [of _ w] conjI d notI; elim exE conjE; drule out; simp)
qed

text \<open>C23 From an empty store on, user ids, user names and device ids stay distinct, and names stay
  in the normal form the login looks for (while there are at most 900 users and clients).\<close>

theorem people_stay_distinct:
  assumes "\<not> postgres_mode M" "w_disk w = None" "run M ok w w'" "few (stored w')"
  shows "distinct (map usr_ID (st_Users (stored w'))) \<and> distinct (map usr_Username (st_Users (stored w')))
     \<and> distinct (map cli_ID (st_Clients (stored w')))
     \<and> (\<forall>u \<in> set (st_Users (stored w')). usr_Username u = to_lower (trim_space (usr_Username u)))"
proof -
  have all: "run M (\<lambda>_. allowed (\<lambda>_ _. True) (\<lambda>_. True)) w w'"
    using assms(3) by (induction rule: run.induct) (auto intro: run.intros)
  have "people_ok (stored w)" by (rule empty_people_ok [OF assms(2)])
  then have "people_ok (stored w')" by (rule run_people [OF all assms(1) people.people_invariant_axioms])
  with assms(4) show ?thesis by (simp add: people_ok_def user_ok_def)
qed

theorem people_stay_distinct_witness:
  "distinct (map usr_ID (st_Users (stored (perform sample_manager (RCommand (NewUser ''Ann'' ''secret''))
     (sample_world\<lparr>w_disk := None\<rparr>)))))"
proof -
  let ?w = "sample_world\<lparr>w_disk := None\<rparr>"
  let ?v = "perform sample_manager (RCommand (NewUser ''Ann'' ''secret'')) ?w"
  have r: "run sample_manager (\<lambda>_ _. True) ?w ?v" by (intro run.intros) simp
  have "few (stored ?v)" by (rule sample_new_user_few)
  from people_stay_distinct [OF sample_mode _ r this] show ?thesis by simp
qed

text \<open>C24 The token handed out for a new device is the device's: it authenticates as that device
  and its owner, provided no other device has a token with the same hash.\<close>

theorem device_token_accepted:
  assumes "\<not> postgres_mode M" "CreateDevice M u label w = (Inr (v, token), w')"
    and "hashToken M token \<noteq> []" "\<forall>c \<in> set (st_Clients (stored w)). cli_TokenHash c \<noteq> hashToken M token"
    and "w_faults w' = []"
  shows "AuthenticateDeviceToken M token w' = (Inr (Some (v, trim_space u)), w')"
  using assms by (rule device_let_in)

theorem device_token_accepted_witness:
  "\<exists>v w'. AuthenticateDeviceToken sample_manager ''cube_dev_r1'' w' = (Inr (Some (v, ''u2'')), w')"
proof -
  obtain v w' where c: "CreateDevice sample_manager ''u2'' ''mac'' people_world = (Inr (v, ''cube_dev_r1''), w')"
    and f: "w_faults w' = []" using people_device by blast
  have h: "hashToken sample_manager ''cube_dev_r1'' \<noteq> []"
    "\<forall>c \<in> set (st_Clients (stored people_world)). cli_TokenHash c \<noteq> hashToken sample_manager ''cube_dev_r1''"
    unfolding people_stored by code_simp+
  from device_token_accepted [OF sample_mode c h f] show ?thesis by (auto simp: people_trims)
qed

text \<open>A role that was granted is the role looked up, and the grant changes no membership of
  another workspace; after the membership is removed there is no role.\<close>

theorem membership_grant_and_removal:
  assumes "\<not> postgres_mode M"
  shows "(SetMembership M k who role w = (Inr (), w') \<longrightarrow>
        role_in (stored w') (trim_space k) (trim_space who) = Some role
      \<and> filter (\<lambda>m. ms_WorkspaceID m \<noteq> trim_space k) (st_Memberships (stored w'))
        = filter (\<lambda>m. ms_WorkspaceID m \<noteq> trim_space k) (st_Memberships (stored w)))
     \<and> (RemoveMembership M k who w = (Inr (), w') \<longrightarrow> role_in (stored w') k who = None)"
  using granted_role [OF assms] withdrawn_role [OF assms] by blast

theorem membership_grant_and_removal_witness:
  "\<exists>w'. SetMembership sample_manager ''default'' ''u2'' RoleAdmin people_world = (Inr (), w')
     \<and> role_in (stored w') ''default'' ''u2'' = Some RoleAdmin"
  using people_grant membership_grant_and_removal [OF sample_mode, of "''default''" "''u2''" RoleAdmin people_world]
  by (auto simp: people_trims)

text \<open>A membership of the user is not enough to act in a workspace: when no membership names
  the device itself, the workspace of a claim is not resolved, with or without a workspace asked
  for, although the role lookup finds the user's role.\<close>

theorem user_membership_not_resolved:
  assumes "\<not> postgres_mode M" "clientID \<noteq> []"
    and "\<forall>m \<in> set (st_Memberships (stored w)). ms_ClientID m \<noteq> clientID"
  shows "\<exists>e w'. ResolveWorkspaceForClient M clientID requested w = (Inl e, w')"
  using assms by (rule user_member_unresolved)

theorem user_membership_not_resolved_witness:
  "\<exists>w. role_in (stored w) ''default'' ''u1'' = Some RoleMember
     \<and> (\<exists>e w'. ResolveWorkspaceForClient sample_manager ''c1'' ''default'' w = (Inl e, w'))"
proof -
  have s: "stored people_member_world = people_state\<lparr>st_Memberships := [user_membership]\<rparr>"
    by (rule people_member_stored)
  have "\<forall>m \<in> set (st_Memberships (stored people_member_world)). ms_ClientID m \<noteq> ''c1''"
    by (simp add: s user_membership_def)
  moreover have "role_in (stored people_member_world) ''default'' ''u1'' = Some RoleMember"
    unfolding s by code_simp
  ultimately show ?thesis using user_membership_not_resolved [OF sample_mode, of "''c1''"] by blast
qed

section \<open>Usage\<close>

text \<open>C25 Usage is conserved from the session files to the stored events: the counters of a scan are
  the sums of its models' counters, and the events made from it, one per model, add up to the
  same counters.\<close>

theorem usage_adds_up:
  "let s = SummarizeCodexHome E midnight tree codexHome now; es = UsageEventsFromSummary c s in
     sum_AllTime s = sum_tokens (map mu_AllTime (sum_Models s))
     \<and> sum_SevenDays s = sum_tokens (map mu_SevenDays (sum_Models s))
     \<and> sum_Today s = sum_tokens (map mu_Today (sum_Models s))
     \<and> sum_tokens (map ue_AllTime es) = sum_AllTime s
     \<and> sum_tokens (map ue_SevenDays es) = sum_SevenDays s
     \<and> sum_tokens (map ue_Today es) = sum_Today s
     \<and> distinct (map mu_Model (sum_Models s)) \<and> distinct (map ModelKey es)"
  using summary_balanced [OF refl, of E midnight tree codexHome now]
    scan_events_conserve [OF refl, of c E midnight tree codexHome now] model_keys_distinct
  by (simp add: Let_def)

text \<open>C26 The running totals of a session are not counted twice: when they do not fall, the events of
  a session add its last total to the tokens counted so far, however many there are.\<close>

theorem running_totals_counted_once:
  assumes "map running_total vs = map Some cs" "cs \<noteq> []"
    and "\<forall>c \<in> set cs. 0 \<le>s ct_input c \<and> 0 \<le>s ct_output c" "sorted_wrt not_below cs"
    and "fs_prevTotal s = None"
  shows "tok_Input (sum_AllTime (snd (fold (parse_object td sd) vs (s, r)))) = tok_Input (sum_AllTime r) + ct_input (last cs)
     \<and> tok_Output (sum_AllTime (snd (fold (parse_object td sd) vs (s, r)))) = tok_Output (sum_AllTime r) + ct_output (last cs)"
  using assms by (rule running_totals_telescope)

theorem running_totals_counted_once_witness:
  "tok_Input (sum_AllTime (snd (fold (parse_object 0 0) [total_event 5 1, total_event 9 4]
     (\<lparr>fs_currentModel = ''unknown'', fs_prevTotal = None\<rparr>, ok_Summary 1)))) = 9"
proof -
  let ?cs = "[\<lparr>ct_input = 5, ct_cachedInput = 0, ct_output = 1\<rparr>, \<lparr>ct_input = 9, ct_cachedInput = 0, ct_output = 4\<rparr>]"
  have t: "map running_total [total_event 5 1, total_event 9 4] = map Some ?cs" by code_simp
  have "\<forall>c \<in> set ?cs. 0 \<le>s ct_input c \<and> 0 \<le>s ct_output c" "sorted_wrt not_below ?cs" by code_simp+
  from running_totals_counted_once [OF t _ this, of "\<lparr>fs_currentModel = ''unknown'', fs_prevTotal = None\<rparr>" 0 0 "ok_Summary 1"]
  show ?thesis by (simp add: ok_Summary_def zero_Tokens_def)
qed

text \<open>The rate limits found are a record of the session files, and no record is newer; without a
  record nothing is found.\<close>

theorem newest_rate_limits:
  assumes "\<forall>r \<in> set (rate_records E tree codexHome). zero_time \<le> rl_CapturedAt r"
  shows "if rate_records E tree codexHome = [] then \<not> rl_Found (LatestRateLimits E tree codexHome)
     else LatestRateLimits E tree codexHome \<in> set (rate_records E tree codexHome)
       \<and> rl_Found (LatestRateLimits E tree codexHome)
       \<and> (\<forall>r \<in> set (rate_records E tree codexHome). rl_CapturedAt r \<le> rl_CapturedAt (LatestRateLimits E tree codexHome))"
  using assms by (rule LatestRateLimits_newest)

theorem newest_rate_limits_witness:
  "rl_CapturedAt (LatestRateLimits limits_env limits_tree ''/h'') = 9 * second"
proof -
  have times: "rl_CapturedAt (limits_record t) = t" for t by (simp add: limits_record_def)
  have "\<forall>r \<in> set (rate_records limits_env limits_tree ''/h''). zero_time \<le> rl_CapturedAt r"
    by (simp add: limits_records times duration_defs)
  from newest_rate_limits [OF this] show ?thesis by (auto simp: limits_records times duration_defs)
qed

text \<open>C27 A usage report may be sent again: a second report of the same run leaves the same rows with
  the same counters, so nothing is counted twice.\<close>

theorem report_sent_twice:
  assumes "trim_space a \<noteq> []" "postgres_mode M" "trim_space r \<noteq> [] \<or> trim_space (sum_LatestAt s) \<noteq> []"
    and "rows_ok (db_usage_events (w_db w))"
    and "RecordUsageWithContext M a c l r s w = (Inr (), w1)"
    and "RecordUsageWithContext M a c l r s v = (Inr (), w2)" "w_db v = w_db w1"
  shows "map fst (db_usage_events (w_db w2)) = map fst (db_usage_events (w_db w1))
     \<and> (\<forall>k. map_option row_counters (map_of (db_usage_events (w_db w2)) k)
           = map_option row_counters (map_of (db_usage_events (w_db w1)) k))"
  using assms by (rule report_again)

theorem report_sent_twice_witness:
  "\<exists>w1 w2. RecordUsageWithContext pg_manager ''a'' [] [] ''r'' (ok_Summary 1) sample_world = (Inr (), w1)
     \<and> RecordUsageWithContext pg_manager ''a'' [] [] ''r'' (ok_Summary 1) (w1\<lparr>w_now := w_now w1 + second\<rparr>) = (Inr (), w2)
     \<and> map fst (db_usage_events (w_db w2)) = map fst (db_usage_events (w_db w1))"
proof -
  have t: "trim_space ''a'' \<noteq> []" "trim_space ''r'' \<noteq> []" by code_simp+
  have e: "rows_ok (db_usage_events (w_db sample_world))"
    by (simp add: sample_world_def rows_ok_def empty_db_def)
  have f: "w_faults sample_world = []" by (simp add: sample_world_def)
  obtain d where 1: "RecordUsageWithContext pg_manager ''a'' [] [] ''r'' (ok_Summary 1) sample_world
      = (Inr (), sample_world\<lparr>w_db := d\<rparr>)"
    using RecordUsageWithContext_eval [OF pg_mode t(1) f] by blast
  let ?w1 = "sample_world\<lparr>w_db := d\<rparr>"
  let ?v = "?w1\<lparr>w_now := w_now ?w1 + second\<rparr>"
  have "w_faults ?v = []" by (simp add: f)
  then obtain d2 where 2: "RecordUsageWithContext pg_manager ''a'' [] [] ''r'' (ok_Summary 1) ?v
      = (Inr (), ?v\<lparr>w_db := d2\<rparr>)"
    using RecordUsageWithContext_eval [OF pg_mode t(1), of ?v "[]" "[]" "''r''" "ok_Summary 1"] by blast
  have "map fst (db_usage_events (w_db (?v\<lparr>w_db := d2\<rparr>))) = map fst (db_usage_events (w_db ?w1))"
    by (rule conjunct1 [OF report_sent_twice [OF t(1) pg_mode disjI1 [OF t(2)] e 1 2]]) simp
  with 1 2 show ?thesis by blast
qed

end
